(* ===== verification/Cookie_Rules.thy ===== *)
theory Cookie_Rules
  imports Go_Prelude
begin

text \<open>
  The matching rules of RFC 6265 that both cookie jars of the program implement
  (\<^verbatim>\<open>session/cookie_jar.go\<close> and \<^verbatim>\<open>client/cookie.go\<close>), and the two interface locales
  through which their clients use them: what a path matcher and what a domain
  matcher promise, and what follows from that for any jar.
\<close>

section \<open>Abstract rules\<close>

definition rfc_path_match :: "string \<Rightarrow> string \<Rightarrow> bool" where
  "rfc_path_match req cookie \<longleftrightarrow>
     req = cookie \<or>
     (\<exists>rest. req = cookie @ rest \<and> rest \<noteq> [] \<and> (has_suffix cookie ''/'' \<or> hd rest = CHR ''/''))"

definition rfc_domain_match :: "string \<Rightarrow> string \<Rightarrow> bool" where
  "rfc_domain_match host dmn \<longleftrightarrow> host = dmn \<or> (\<exists>labels. host = labels @ CHR ''.'' # dmn)"

lemma rfc_path_match_refl [simp, intro]: "rfc_path_match p p"
  by (simp add: rfc_path_match_def)

lemma rfc_path_match_prefix: "rfc_path_match r c \<Longrightarrow> has_prefix r c"
  by (auto simp: rfc_path_match_def has_prefix_iff)

lemma rfc_path_match_trans:
  assumes rm: "rfc_path_match r m" and mc: "rfc_path_match m c"
  shows "rfc_path_match r c"
proof (cases "r = m \<or> m = c")
  case True
  with rm mc show ?thesis by auto
next
  case False
  from False rm obtain u where u: "r = m @ u" "u \<noteq> []" by (auto simp: rfc_path_match_def)
  from False mc obtain v where v: "m = c @ v" "v \<noteq> []" "has_suffix c ''/'' \<or> hd v = CHR ''/''"
    by (auto simp: rfc_path_match_def)
  from u v have "r = c @ (v @ u)" "v @ u \<noteq> []" "has_suffix c ''/'' \<or> hd (v @ u) = CHR ''/''"
    by auto
  then show ?thesis by (auto simp: rfc_path_match_def)
qed

lemma rfc_domain_match_suffix: "rfc_domain_match h d \<longleftrightarrow> h = d \<or> has_suffix h (CHR ''.'' # d)"
  by (simp add: rfc_domain_match_def has_suffix_iff)

lemma rfc_domain_match_trans:
  "rfc_domain_match h m \<Longrightarrow> rfc_domain_match m d \<Longrightarrow> rfc_domain_match h d"
  unfolding rfc_domain_match_def by (metis append.assoc append_Cons)

section \<open>Interfaces\<close>

text \<open>
  A path matcher agrees with the RFC on the paths that occur in requests (they
  start with a slash) and on non-empty cookie paths.
\<close>

locale cookie_path_matcher =
  fixes path_match :: "string \<Rightarrow> string \<Rightarrow> bool"
  assumes path_match_rfc:
    "has_prefix req ''/'' \<Longrightarrow> cookie \<noteq> [] \<Longrightarrow> path_match req cookie \<longleftrightarrow> rfc_path_match req cookie"
begin

lemma no_sibling_match:
  assumes "has_prefix cookie ''/''" and "\<not> has_suffix cookie ''/''" and "x \<noteq> CHR ''/''"
  shows "\<not> path_match (cookie @ x # rest) cookie"
proof -
  from assms(1) obtain t where t: "cookie = CHR ''/'' # t" by (auto simp: has_prefix_iff)
  then have "has_prefix (cookie @ x # rest) ''/''" "cookie \<noteq> []" by (auto simp: has_prefix_iff)
  with path_match_rfc assms(2,3) show ?thesis by (auto simp: rfc_path_match_def)
qed

lemma path_match_trans:
  assumes "has_prefix r ''/''" "has_prefix m ''/''" "c \<noteq> []"
    and "path_match r m" "path_match m c"
  shows "path_match r c"
proof -
  from assms(2) have "m \<noteq> []" by (auto simp: has_prefix_iff)
  with assms path_match_rfc rfc_path_match_trans show ?thesis by blast
qed

lemma root_matches_all: "has_prefix r ''/'' \<Longrightarrow> path_match r ''/''"
  using path_match_rfc [of r "''/''"]
  by (auto simp: rfc_path_match_def has_prefix_iff has_suffix_def)

end

text \<open>
  A domain matcher, applied to a stored domain with a leading dot and a lower
  case host without a port, is the RFC's domain match; applied to a bare stored
  domain it is equality.
\<close>

locale cookie_domain_matcher =
  fixes domain_match :: "string \<Rightarrow> string \<Rightarrow> bool"
    and host_ok :: "string \<Rightarrow> bool"
    and domain_ok :: "string \<Rightarrow> bool"
  assumes dotted: "host_ok host \<Longrightarrow> domain_ok dmn \<Longrightarrow>
      domain_match (CHR ''.'' # dmn) host \<longleftrightarrow> rfc_domain_match host dmn"
    and bare: "host_ok host \<Longrightarrow> domain_ok dmn \<Longrightarrow> dmn \<noteq> [] \<Longrightarrow> \<not> has_prefix dmn ''.'' \<Longrightarrow>
      domain_match dmn host \<longleftrightarrow> host = dmn"
begin

lemma label_boundary:
  assumes "host_ok (pre @ dmn)" and "domain_ok dmn" and "pre \<noteq> []" and "last pre \<noteq> CHR ''.''"
  shows "\<not> domain_match (CHR ''.'' # dmn) (pre @ dmn)"
proof
  assume "domain_match (CHR ''.'' # dmn) (pre @ dmn)"
  with dotted assms(1,2) have "rfc_domain_match (pre @ dmn) dmn" by blast
  with assms(3) obtain labels where "pre @ dmn = (labels @ ''.'') @ dmn"
    by (auto simp: rfc_domain_match_def)
  then have "pre = labels @ ''.''" by (simp only: append_same_eq)
  with assms(4) show False by simp
qed

lemma subdomain_match:
  "host_ok (labels @ CHR ''.'' # dmn) \<Longrightarrow> domain_ok dmn \<Longrightarrow>
     domain_match (CHR ''.'' # dmn) (labels @ CHR ''.'' # dmn)"
  by (auto simp: dotted rfc_domain_match_def)

end

end
