(* ===== verification/Session_Cookie_Jar.thy ===== *)
theory Session_Cookie_Jar
  imports Cookie_Rules
begin

text \<open>
  \<^verbatim>\<open>session/cookie_jar.go\<close>: the jar of a session. Cookies are stored by domain and
  then by path and name. A domain with a leading dot is a domain cookie, a bare
  one a host-only cookie, and the empty one a global cookie.

  The mutex serialises the operations, so each is one function from jar to jar.
  Pointers handed out by \<^verbatim>\<open>Get\<close> are only read by the program, so cookies are
  values. \<open>now\<close> is what \<^verbatim>\<open>time.Now()\<close> returns in the call.
\<close>

section \<open>Data\<close>

record cookie_data =
  cd_Name :: string
  cd_Value :: string
  cd_Domain :: string
  cd_HostOnly :: bool
  cd_Path :: string
  cd_Expires :: "time option"
  cd_MaxAge :: int
  cd_Secure :: bool
  cd_HttpOnly :: bool
  cd_SameSite :: string
  cd_CreatedAt :: time

record cookie_state =
  cs_Name :: string
  cs_Value :: string
  cs_Domain :: string
  cs_Path :: string
  cs_Expires :: "time option"
  cs_MaxAge :: int
  cs_Secure :: bool
  cs_HttpOnly :: bool
  cs_SameSite :: string
  cs_CreatedAt :: "time option"

type_synonym domain_cookies = "(string, cookie_data) gomap"

record cookie_jar =
  jar_cookies :: "(string, domain_cookies) gomap"

definition NewCookieJar :: cookie_jar where
  "NewCookieJar = \<lparr>jar_cookies = []\<rparr>"

definition cookieKey :: "string \<Rightarrow> string \<Rightarrow> string" where
  "cookieKey path name = path @ CHR 0x00 # name"

section \<open>Matching\<close>

definition domainMatchesHost :: "string \<Rightarrow> string \<Rightarrow> bool" where
  "domainMatchesHost cookieDomain requestHost =
     (if cookieDomain = [] then True
      else if cookieDomain = requestHost then True
      else if has_prefix cookieDomain ''.'' then
        (let domainWithoutDot = drop 1 cookieDomain in
         if requestHost = domainWithoutDot then True
         else if has_suffix requestHost cookieDomain then True
         else False)
      else False)"

definition isDomainMatch :: "string \<Rightarrow> string \<Rightarrow> bool" where
  "isDomainMatch host domain =
     (if host = domain then True
      else if has_suffix host (''.'' @ domain) then True
      else False)"

definition isPathMatch :: "string \<Rightarrow> string \<Rightarrow> bool" where
  "isPathMatch requestPath cookiePath =
     (if requestPath = cookiePath then True
      else if has_prefix requestPath cookiePath then
        (if has_suffix cookiePath ''/'' then True
         else if length requestPath > length cookiePath \<and>
                 requestPath ! length cookiePath = CHR ''/'' then True
         else False)
      else False)"

text \<open>The normalisation that \<^verbatim>\<open>Set\<close> and \<^verbatim>\<open>Get\<close> apply to the request host.\<close>

definition normalizeHost :: "string \<Rightarrow> string" where
  "normalizeHost requestHost =
     (let h = to_lower requestHost in
      case last_index_byte h (CHR '':'') of
        None \<Rightarrow> h
      | Some idx \<Rightarrow>
          (case index_byte h (CHR '']'') of
             None \<Rightarrow> take idx h
           | Some br \<Rightarrow> if idx > br then take idx h else h))"

definition cookie_expired :: "time \<Rightarrow> time option \<Rightarrow> bool" where
  "cookie_expired now expires = (case expires of None \<Rightarrow> False | Some t \<Rightarrow> t < now)"

section \<open>Operations\<close>

text \<open>\<open>j.cookies[domain][key] = c\<close>, making the inner map first when it is missing.\<close>

definition put_cookie :: "string \<Rightarrow> string \<Rightarrow> cookie_data \<Rightarrow> cookie_jar \<Rightarrow> cookie_jar" where
  "put_cookie domain key c j =
     (let m = (case map_of (jar_cookies j) domain of None \<Rightarrow> [] | Some m \<Rightarrow> m) in
      j\<lparr>jar_cookies := AList.update domain (AList.update key c m) (jar_cookies j)\<rparr>)"

definition jar_Set :: "time \<Rightarrow> string \<Rightarrow> cookie_data \<Rightarrow> bool \<Rightarrow> cookie_jar \<Rightarrow> cookie_jar" where
  "jar_Set now requestHost0 cookie requestSecure j =
     (let requestHost = normalizeHost requestHost0;
          attr = to_lower (cd_Domain cookie);
          domainWithoutDot = trim_prefix attr ''.'';
          hostOnly = (cd_Domain cookie = []);
          domain = (if hostOnly then requestHost else ''.'' @ domainWithoutDot) in
      if \<not> hostOnly \<and> \<not> isDomainMatch requestHost domainWithoutDot then j
      else if cd_Secure cookie \<and> \<not> requestSecure then j
      else
        (let path = (if cd_Path cookie = [] \<or> hd (cd_Path cookie) \<noteq> CHR ''/'' then ''/''
                     else cd_Path cookie);
             stored = \<lparr>cd_Name = cd_Name cookie, cd_Value = cd_Value cookie, cd_Domain = domain,
                       cd_HostOnly = hostOnly, cd_Path = path, cd_Expires = cd_Expires cookie,
                       cd_MaxAge = cd_MaxAge cookie, cd_Secure = cd_Secure cookie,
                       cd_HttpOnly = cd_HttpOnly cookie, cd_SameSite = cd_SameSite cookie,
                       cd_CreatedAt = now\<rparr>
         in put_cookie domain (cookieKey path (cd_Name cookie)) stored j))"

text \<open>The comparison of \<^verbatim>\<open>Get\<close>: longer path first, then older creation time first.\<close>

definition cookie_less :: "cookie_data \<Rightarrow> cookie_data \<Rightarrow> bool" where
  "cookie_less a b =
     (if length (cd_Path a) \<noteq> length (cd_Path b) then length (cd_Path a) > length (cd_Path b)
      else cd_CreatedAt a < cd_CreatedAt b)"

definition cookie_applies ::
    "time \<Rightarrow> string \<Rightarrow> string \<Rightarrow> bool \<Rightarrow> string \<Rightarrow> cookie_data \<Rightarrow> bool" where
  "cookie_applies now requestHost requestPath requestSecure domain cookie =
     (\<not> (cd_HostOnly cookie \<and> domain \<noteq> requestHost) \<and>
      isPathMatch requestPath (cd_Path cookie) \<and>
      \<not> (cd_Secure cookie \<and> \<not> requestSecure) \<and>
      \<not> cookie_expired now (cd_Expires cookie))"

definition jar_matches ::
    "time \<Rightarrow> string \<Rightarrow> string \<Rightarrow> bool \<Rightarrow> cookie_jar \<Rightarrow> cookie_data list" where
  "jar_matches now requestHost requestPath requestSecure j =
     concat (map (\<lambda>(domain, domainCookies).
        if \<not> domainMatchesHost domain requestHost then []
        else filter (cookie_applies now requestHost requestPath requestSecure domain)
               (map snd domainCookies))
       (jar_cookies j))"

definition jar_Get :: "time \<Rightarrow> string \<Rightarrow> string \<Rightarrow> bool \<Rightarrow> cookie_jar \<Rightarrow> cookie_data list" where
  "jar_Get now requestHost0 requestPath0 requestSecure j =
     (let requestHost = normalizeHost requestHost0;
          requestPath = (if requestPath0 = [] then ''/'' else requestPath0)
      in sort_slice cookie_less (jar_matches now requestHost requestPath requestSecure j))"

definition to_state :: "cookie_data \<Rightarrow> cookie_state" where
  "to_state c =
     \<lparr>cs_Name = cd_Name c, cs_Value = cd_Value c, cs_Domain = cd_Domain c, cs_Path = cd_Path c,
      cs_Expires = cd_Expires c, cs_MaxAge = cd_MaxAge c, cs_Secure = cd_Secure c,
      cs_HttpOnly = cd_HttpOnly c, cs_SameSite = cd_SameSite c, cs_CreatedAt = Some (cd_CreatedAt c)\<rparr>"

definition live_states :: "time \<Rightarrow> domain_cookies \<Rightarrow> cookie_state list" where
  "live_states now dc = map to_state (filter (\<lambda>c. \<not> cookie_expired now (cd_Expires c)) (map snd dc))"

definition state_less :: "cookie_state \<Rightarrow> cookie_state \<Rightarrow> bool" where
  "state_less a b =
     (if cs_Domain a \<noteq> cs_Domain b then cs_Domain a < cs_Domain b
      else if cs_Path a \<noteq> cs_Path b then cs_Path a < cs_Path b
      else cs_Name a < cs_Name b)"

definition jar_GetAll :: "time \<Rightarrow> cookie_jar \<Rightarrow> cookie_state list" where
  "jar_GetAll now j =
     sort_slice state_less (concat (map (\<lambda>(_, dc). live_states now dc) (jar_cookies j)))"

definition jar_SetSimple ::
    "time \<Rightarrow> string \<Rightarrow> string \<Rightarrow> string \<Rightarrow> string \<Rightarrow> bool \<Rightarrow> bool \<Rightarrow> string \<Rightarrow> int \<Rightarrow> time option \<Rightarrow>
     cookie_jar \<Rightarrow> cookie_jar" where
  "jar_SetSimple now name value domain0 path0 secure httpOnly sameSite maxAge expires j =
     (let domain = (if domain0 = [] then [] else to_lower domain0);
          hostOnly = (domain0 \<noteq> [] \<and> \<not> has_prefix domain ''.'');
          path = (if path0 = [] then ''/'' else path0)
      in put_cookie domain (cookieKey path name)
           \<lparr>cd_Name = name, cd_Value = value, cd_Domain = domain, cd_HostOnly = hostOnly,
            cd_Path = path, cd_Expires = expires, cd_MaxAge = maxAge, cd_Secure = secure,
            cd_HttpOnly = httpOnly, cd_SameSite = sameSite, cd_CreatedAt = now\<rparr> j)"

text \<open>
  The inner loops of \<^verbatim>\<open>Delete\<close> and \<^verbatim>\<open>ClearExpired\<close>: remove the cookies that satisfy
  \<open>P\<close>, then the domain when nothing is left of it.
\<close>

definition prune_jar :: "(cookie_data \<Rightarrow> bool) \<Rightarrow> cookie_jar \<Rightarrow> cookie_jar" where
  "prune_jar P j =
     j\<lparr>jar_cookies := filter (\<lambda>(d, dc). dc \<noteq> [])
         (map (\<lambda>(d, dc). (d, map_remove (\<lambda>_ c. P c) dc)) (jar_cookies j))\<rparr>"

definition jar_Delete :: "string \<Rightarrow> string \<Rightarrow> cookie_jar \<Rightarrow> cookie_jar" where
  "jar_Delete name domain0 j =
     (if domain0 = [] then prune_jar (\<lambda>c. cd_Name c = name) j
      else
        (let domain = to_lower domain0 in
         case map_of (jar_cookies j) domain of
           None \<Rightarrow> j
         | Some dc \<Rightarrow>
             (let dc' = map_remove (\<lambda>_ c. cd_Name c = name) dc in
              if dc' = [] then j\<lparr>jar_cookies := AList.delete domain (jar_cookies j)\<rparr>
              else j\<lparr>jar_cookies := AList.update domain dc' (jar_cookies j)\<rparr>)))"

definition jar_Clear :: "cookie_jar \<Rightarrow> cookie_jar" where
  "jar_Clear j = j\<lparr>jar_cookies := []\<rparr>"

definition jar_ClearExpired :: "time \<Rightarrow> cookie_jar \<Rightarrow> cookie_jar" where
  "jar_ClearExpired now j = prune_jar (\<lambda>c. cookie_expired now (cd_Expires c)) j"

definition jar_Count :: "cookie_jar \<Rightarrow> nat" where
  "jar_Count j = sum_list (map (\<lambda>(_, dc). length dc) (jar_cookies j))"

definition jar_Export :: "time \<Rightarrow> cookie_jar \<Rightarrow> (string, cookie_state list) gomap" where
  "jar_Export now j =
     filter (\<lambda>(d, cs). cs \<noteq> []) (map (\<lambda>(d, dc). (d, live_states now dc)) (jar_cookies j))"

definition import_cookie :: "time \<Rightarrow> string \<Rightarrow> cookie_state \<Rightarrow> cookie_jar \<Rightarrow> cookie_jar" where
  "import_cookie now domain c j =
     (if cookie_expired now (cs_Expires c) then j
      else
        (let path = (if cs_Path c = [] then ''/'' else cs_Path c);
             hostOnly = (\<not> has_prefix (cs_Domain c) ''.'');
             createdAt = (case cs_CreatedAt c of None \<Rightarrow> now | Some t \<Rightarrow> t)
         in put_cookie domain (cookieKey path (cs_Name c))
              \<lparr>cd_Name = cs_Name c, cd_Value = cs_Value c, cd_Domain = cs_Domain c,
               cd_HostOnly = hostOnly, cd_Path = path, cd_Expires = cs_Expires c,
               cd_MaxAge = cs_MaxAge c, cd_Secure = cs_Secure c, cd_HttpOnly = cs_HttpOnly c,
               cd_SameSite = cs_SameSite c, cd_CreatedAt = createdAt\<rparr> j))"

text \<open>One round of the outer loop of \<^verbatim>\<open>Import\<close>: make the domain's map, then store its cookies.\<close>

definition import_domain :: "time \<Rightarrow> string \<times> cookie_state list \<Rightarrow> cookie_jar \<Rightarrow> cookie_jar" where
  "import_domain now = (\<lambda>(domain, cs) j.
     (let j' = (case map_of (jar_cookies j) domain of
                  None \<Rightarrow> j\<lparr>jar_cookies := AList.update domain [] (jar_cookies j)\<rparr>
                | Some _ \<Rightarrow> j)
      in fold (import_cookie now domain) cs j'))"

definition jar_Import ::
    "time \<Rightarrow> (string, cookie_state list) gomap \<Rightarrow> cookie_jar \<Rightarrow> cookie_jar" where
  "jar_Import now saved j = fold (import_domain now) saved j"

definition import_v4_cookie :: "time \<Rightarrow> cookie_state \<Rightarrow> cookie_jar \<Rightarrow> cookie_jar" where
  "import_v4_cookie now c j =
     (if cookie_expired now (cs_Expires c) then j
      else
        (let domain = (if cs_Domain c = [] then [] else to_lower (cs_Domain c));
             hostOnly = (cs_Domain c \<noteq> [] \<and> \<not> has_prefix domain ''.'');
             path = (if cs_Path c = [] then ''/'' else cs_Path c)
         in put_cookie domain (cookieKey path (cs_Name c))
              \<lparr>cd_Name = cs_Name c, cd_Value = cs_Value c, cd_Domain = domain,
               cd_HostOnly = hostOnly, cd_Path = path, cd_Expires = cs_Expires c,
               cd_MaxAge = cs_MaxAge c, cd_Secure = cs_Secure c, cd_HttpOnly = cs_HttpOnly c,
               cd_SameSite = cs_SameSite c, cd_CreatedAt = now\<rparr> j))"

definition jar_ImportV4 :: "time \<Rightarrow> cookie_state list \<Rightarrow> cookie_jar \<Rightarrow> cookie_jar" where
  "jar_ImportV4 now cs j = fold (import_v4_cookie now) cs j"

definition BuildCookieHeader :: "time \<Rightarrow> string \<Rightarrow> string \<Rightarrow> bool \<Rightarrow> cookie_jar \<Rightarrow> string" where
  "BuildCookieHeader now requestHost requestPath requestSecure j =
     (let cookies = jar_Get now requestHost requestPath requestSecure j in
      if cookies = [] then []
      else join ''; '' (map (\<lambda>c. cd_Name c @ ''='' @ cd_Value c) cookies))"

section \<open>The jar as a store\<close>

text \<open>
  What the jar means: a partial function from domain and key to cookies. The
  entries list the nested maps; the operations are described by what they do to
  the store.
\<close>

definition jar_entries :: "cookie_jar \<Rightarrow> ((string \<times> string) \<times> cookie_data) list" where
  "jar_entries j = concat (map (\<lambda>(d, dc). map (\<lambda>(k, c). ((d, k), c)) dc) (jar_cookies j))"

definition jar_store :: "cookie_jar \<Rightarrow> string \<times> string \<Rightarrow> cookie_data option" where
  "jar_store j = map_of (jar_entries j)"

definition wf_jar :: "cookie_jar \<Rightarrow> bool" where
  "wf_jar j \<longleftrightarrow> wf_map (jar_cookies j) \<and> (\<forall>(d, dc) \<in> set (jar_cookies j). wf_map dc)"

definition cookie_ok :: "string \<times> string \<Rightarrow> cookie_data \<Rightarrow> bool" where
  "cookie_ok dk c \<longleftrightarrow> dk = (cd_Domain c, cookieKey (cd_Path c) (cd_Name c)) \<and> cd_Path c \<noteq> [] \<and>
     (cd_HostOnly c \<or> cd_Domain c = [] \<or> has_prefix (cd_Domain c) ''.'')"

definition jar_ok :: "cookie_jar \<Rightarrow> bool" where
  "jar_ok j \<longleftrightarrow> wf_jar j \<and> (\<forall>d k c. jar_store j (d, k) = Some c \<longrightarrow> cookie_ok (d, k) c)"

definition saved_ok :: "(string, cookie_state list) gomap \<Rightarrow> bool" where
  "saved_ok saved \<longleftrightarrow> (\<forall>(d, cs) \<in> set saved. \<forall>c \<in> set cs. cs_Domain c = d)"

inductive jar_reachable :: "cookie_jar \<Rightarrow> bool" where
  reach_new: "jar_reachable NewCookieJar"
| reach_Set: "jar_reachable j \<Longrightarrow> jar_reachable (jar_Set now h c sec j)"
| reach_SetSimple: "jar_reachable j \<Longrightarrow>
    jar_reachable (jar_SetSimple now n v d p sec ho ss ma ex j)"
| reach_Delete: "jar_reachable j \<Longrightarrow> jar_reachable (jar_Delete n d j)"
| reach_Clear: "jar_reachable j \<Longrightarrow> jar_reachable (jar_Clear j)"
| reach_ClearExpired: "jar_reachable j \<Longrightarrow> jar_reachable (jar_ClearExpired now j)"
| reach_Import: "jar_reachable j \<Longrightarrow> saved_ok saved \<Longrightarrow> jar_reachable (jar_Import now saved j)"
| reach_ImportV4: "jar_reachable j \<Longrightarrow> jar_reachable (jar_ImportV4 now cs j)"

text \<open>When RFC 6265 lets a stored cookie go out with a request.\<close>

definition spec_applies :: "time \<Rightarrow> string \<Rightarrow> string \<Rightarrow> bool \<Rightarrow> cookie_data \<Rightarrow> bool" where
  "spec_applies now host path secure c \<longleftrightarrow>
     (if cd_HostOnly c then cd_Domain c = host
      else cd_Domain c = [] \<or> (\<exists>d. cd_Domain c = CHR ''.'' # d \<and> rfc_domain_match host d)) \<and>
     rfc_path_match path (cd_Path c) \<and>
     (cd_Secure c \<longrightarrow> secure) \<and>
     (\<forall>t. cd_Expires c = Some t \<longrightarrow> now \<le> t)"

subsection \<open>Matching is the RFC's\<close>

lemma isPathMatch_rfc: "isPathMatch req cookie \<longleftrightarrow> rfc_path_match req cookie"
proof -
  have "rfc_path_match (cookie @ rest) cookie \<longleftrightarrow> isPathMatch (cookie @ rest) cookie" for rest
    by (cases rest) (auto simp: rfc_path_match_def isPathMatch_def nth_append)
  moreover have "\<not> has_prefix req cookie \<Longrightarrow> \<not> isPathMatch req cookie \<and> \<not> rfc_path_match req cookie"
    by (auto simp: isPathMatch_def rfc_path_match_def has_prefix_iff)
  ultimately show ?thesis by (auto simp: has_prefix_iff)
qed

interpretation session_path: cookie_path_matcher isPathMatch
  by unfold_locales (rule isPathMatch_rfc)

lemma isDomainMatch_rfc: "isDomainMatch host d \<longleftrightarrow> rfc_domain_match host d"
  by (simp add: isDomainMatch_def rfc_domain_match_suffix)

lemma domainMatchesHost_dotted: "domainMatchesHost (CHR ''.'' # d) host \<longleftrightarrow> rfc_domain_match host d"
proof -
  have "has_prefix (CHR ''.'' # d) ''.''" by (simp add: has_prefix_def)
  moreover have "has_suffix (CHR ''.'' # d) (CHR ''.'' # d)" by (simp add: has_suffix_def)
  ultimately show ?thesis
    by (auto simp: domainMatchesHost_def rfc_domain_match_suffix Let_def)
qed

lemma domainMatchesHost_bare:
  "d \<noteq> [] \<Longrightarrow> \<not> has_prefix d ''.'' \<Longrightarrow> domainMatchesHost d host \<longleftrightarrow> host = d"
  by (auto simp: domainMatchesHost_def)

interpretation session_domain: cookie_domain_matcher domainMatchesHost "\<lambda>_. True" "\<lambda>_. True"
  by unfold_locales (simp_all add: domainMatchesHost_dotted domainMatchesHost_bare)

lemma domainMatchesHost_self [simp]: "domainMatchesHost h h"
  by (simp add: domainMatchesHost_def)

lemma domainMatchesHost_empty [simp]: "domainMatchesHost [] h"
  by (simp add: domainMatchesHost_def)

subsection \<open>Entries and the store\<close>

lemma map_of_tagged: "map_of (map (\<lambda>(k, c). ((d, k), c)) dc) (d', k) = (if d' = d then map_of dc k else None)"
  by (induction dc) auto

lemma map_of_nested:
  "wf_map ds \<Longrightarrow> map_of (concat (map (\<lambda>(d, dc). map (\<lambda>(k, c). ((d, k), c)) dc) ds)) (d, k) =
     (case map_of ds d of None \<Rightarrow> None | Some dc \<Rightarrow> map_of dc k)"
proof (induction ds)
  case (Cons a ds)
  obtain d0 dc where a: "a = (d0, dc)" by (cases a)
  have "d0 \<notin> dom (map_of ds)" using Cons.prems a by (simp add: dom_map_of_conv_image_fst)
  then have "map_of ds d0 = None" by blast
  with Cons a show ?case by (auto simp: map_add_def map_of_tagged split: option.splits)
qed simp

lemma fst_tagged: "map fst (map (\<lambda>(k, c). ((d, k), c)) dc) = map (Pair d) (map fst dc)"
  by (induction dc) auto

lemma distinct_nested:
  "wf_map ds \<Longrightarrow> \<forall>(d, dc) \<in> set ds. wf_map dc \<Longrightarrow>
     wf_map (concat (map (\<lambda>(d, dc). map (\<lambda>(k, c). ((d, k), c)) dc) ds))"
proof (induction ds)
  case (Cons a ds)
  let ?rest = "concat (map (\<lambda>(d, dc). map (\<lambda>(k, c). ((d, k), c)) dc) ds)"
  obtain d0 dc where a: "a = (d0, dc)" by (cases a)
  have "distinct (map (Pair d0) (map fst dc))"
    using Cons.prems a by (simp add: distinct_map inj_on_def)
  moreover have "set (map (Pair d0) (map fst dc)) \<inter> set (map fst ?rest) = {}"
    using Cons.prems a by force
  moreover have "wf_map ?rest" using Cons by simp
  ultimately have "distinct (map (Pair d0) (map fst dc) @ map fst ?rest)"
    by (simp only: distinct_append)
  then show ?case by (simp only: a list.map concat.simps prod.case map_append fst_tagged)
qed simp

lemma wf_jar_iff:
  "wf_jar j \<longleftrightarrow> wf_map (jar_cookies j) \<and> (\<forall>d dc. map_of (jar_cookies j) d = Some dc \<longrightarrow> wf_map dc)"
  unfolding wf_jar_def by auto

lemma jar_store_nested:
  "wf_jar j \<Longrightarrow> jar_store j (d, k) =
     (case map_of (jar_cookies j) d of None \<Rightarrow> None | Some dc \<Rightarrow> map_of dc k)"
  by (simp add: jar_store_def jar_entries_def wf_jar_def map_of_nested)

lemma wf_jar_entries: "wf_jar j \<Longrightarrow> wf_map (jar_entries j)"
  by (simp add: jar_entries_def wf_jar_def distinct_nested)

lemma jar_entries_iff: "wf_jar j \<Longrightarrow> (dk, c) \<in> set (jar_entries j) \<longleftrightarrow> jar_store j dk = Some c"
  by (simp add: wf_jar_entries jar_store_def)

lemma wf_jar_new [simp]: "wf_jar NewCookieJar"
  by (simp add: wf_jar_def NewCookieJar_def)

lemma jar_store_new [simp]: "jar_store NewCookieJar = (\<lambda>_. None)"
  by (simp add: jar_store_def jar_entries_def NewCookieJar_def)

lemma wf_put_cookie [simp, intro]: "wf_jar j \<Longrightarrow> wf_jar (put_cookie d k c j)"
  by (auto simp: wf_jar_iff put_cookie_def Let_def simp del: map_of_eq_Some_iff split: option.splits)

lemma jar_store_put [simp]:
  assumes "wf_jar j"
  shows "jar_store (put_cookie d k c j) = (jar_store j)((d, k) \<mapsto> c)"
proof (rule ext, clarify)
  fix d' k'
  have "jar_store (put_cookie d k c j) (d', k') =
      (case map_of (jar_cookies (put_cookie d k c j)) d' of None \<Rightarrow> None | Some dc \<Rightarrow> map_of dc k')"
    using assms by (intro jar_store_nested) auto
  then show "jar_store (put_cookie d k c j) (d', k') = ((jar_store j)((d, k) \<mapsto> c)) (d', k')"
    using assms
    by (auto simp: jar_store_nested put_cookie_def Let_def simp del: map_of_eq_Some_iff split: option.splits)
qed

lemma jar_entries_prune: "jar_entries (prune_jar P j) = filter (\<lambda>(dk, c). \<not> P c) (jar_entries j)"
proof -
  have "concat (map (\<lambda>(d, dc). map (\<lambda>(k, c). ((d, k), c)) dc)
          (filter (\<lambda>(d, dc). dc \<noteq> []) (map (\<lambda>(d, dc). (d, map_remove (\<lambda>_ c. P c) dc)) ds))) =
        filter (\<lambda>(dk, c). \<not> P c) (concat (map (\<lambda>(d, dc). map (\<lambda>(k, c). ((d, k), c)) dc) ds))" for ds
  proof (induction ds)
    case (Cons a ds)
    have tag: "map (\<lambda>(k, c). ((d, k), c)) (map_remove (\<lambda>_ c. P c) dc) =
        filter (\<lambda>(dk, c). \<not> P c) (map (\<lambda>(k, c). ((d, k), c)) dc)" for d dc
      by (induction dc) (auto simp: map_remove_def)
    obtain d dc where a: "a = (d, dc)" by (cases a)
    show ?case
    proof (cases "map_remove (\<lambda>_ c. P c) dc = []")
      case True
      with tag [of d dc] have "filter (\<lambda>(dk, c). \<not> P c) (map (\<lambda>(k, c). ((d, k), c)) dc) = []" by simp
      with Cons True a show ?thesis by simp
    next
      case False
      with Cons a tag [of d dc] show ?thesis by simp
    qed
  qed simp
  then show ?thesis by (simp add: jar_entries_def prune_jar_def)
qed

lemma wf_prune_jar [simp, intro]: "wf_jar j \<Longrightarrow> wf_jar (prune_jar P j)"
proof -
  assume wf: "wf_jar j"
  have "map fst (map (\<lambda>(d, dc). (d, map_remove (\<lambda>_ c. P c) dc)) ds) = map fst ds" for ds :: "(string, domain_cookies) gomap"
    by (induction ds) auto
  with wf have "wf_map (map (\<lambda>(d, dc). (d, map_remove (\<lambda>_ c. P c) dc)) (jar_cookies j))"
    by (simp only: wf_jar_def)
  then have "wf_map (jar_cookies (prune_jar P j))"
    unfolding prune_jar_def by (simp del: map_map add: distinct_map_filter)
  with wf show ?thesis by (auto simp: wf_jar_def prune_jar_def)
qed

lemma jar_store_prune:
  assumes "wf_jar j"
  shows "jar_store (prune_jar P j) dk =
     (case jar_store j dk of None \<Rightarrow> None | Some c \<Rightarrow> if P c then None else Some c)"
proof -
  have "jar_entries (prune_jar P j) = map_remove (\<lambda>_ c. P c) (jar_entries j)"
    by (simp add: jar_entries_prune map_remove_def)
  with assms show ?thesis by (simp add: jar_store_def map_of_remove wf_jar_entries)
qed

subsection \<open>Every operation on the store\<close>

definition set_accepts :: "string \<Rightarrow> cookie_data \<Rightarrow> bool \<Rightarrow> bool" where
  "set_accepts host c secure \<longleftrightarrow>
     (cd_Domain c \<noteq> [] \<longrightarrow> rfc_domain_match host (trim_prefix (to_lower (cd_Domain c)) ''.'')) \<and>
     (cd_Secure c \<longrightarrow> secure)"

definition set_stored :: "time \<Rightarrow> string \<Rightarrow> cookie_data \<Rightarrow> cookie_data" where
  "set_stored now host c =
     c\<lparr>cd_Domain := (if cd_Domain c = [] then host
                     else ''.'' @ trim_prefix (to_lower (cd_Domain c)) ''.''),
       cd_HostOnly := (cd_Domain c = []),
       cd_Path := (if cd_Path c = [] \<or> hd (cd_Path c) \<noteq> CHR ''/'' then ''/'' else cd_Path c),
       cd_CreatedAt := now\<rparr>"

abbreviation cookie_id :: "cookie_data \<Rightarrow> string \<times> string" where
  "cookie_id c \<equiv> (cd_Domain c, cookieKey (cd_Path c) (cd_Name c))"

lemma jar_Set_eq:
  "jar_Set now h c secure j =
     (if set_accepts (normalizeHost h) c secure
      then (let c' = set_stored now (normalizeHost h) c in
            put_cookie (cd_Domain c') (cookieKey (cd_Path c') (cd_Name c')) c' j)
      else j)"
  by (cases c) (auto simp: jar_Set_def set_accepts_def set_stored_def isDomainMatch_rfc Let_def)

lemma jar_store_Set:
  "wf_jar j \<Longrightarrow> jar_store (jar_Set now h c secure j) =
     (if set_accepts (normalizeHost h) c secure
      then (jar_store j)(cookie_id (set_stored now (normalizeHost h) c) \<mapsto> set_stored now (normalizeHost h) c)
      else jar_store j)"
  by (simp add: jar_Set_eq Let_def)

lemma wf_jar_Set [simp, intro]: "wf_jar j \<Longrightarrow> wf_jar (jar_Set now h c secure j)"
  by (simp add: jar_Set_eq Let_def)

lemma wf_jar_Clear [simp, intro]: "wf_jar (jar_Clear j)"
  by (simp add: wf_jar_def jar_Clear_def)

lemma jar_store_Clear [simp]: "jar_store (jar_Clear j) = (\<lambda>_. None)"
  by (simp add: jar_store_def jar_entries_def jar_Clear_def)

lemma wf_jar_Delete [simp, intro]:
  assumes "wf_jar j"
  shows "wf_jar (jar_Delete n d j)"
proof (cases "d = []")
  case True
  with assms show ?thesis by (simp add: jar_Delete_def wf_prune_jar)
next
  case False
  with assms show ?thesis
    by (auto simp: wf_jar_iff jar_Delete_def Let_def simp del: map_of_eq_Some_iff
        split: option.splits if_splits)
qed

lemma jar_store_Delete:
  assumes wf: "wf_jar j"
  shows "jar_store (jar_Delete n d j) dk =
     (case jar_store j dk of
        None \<Rightarrow> None
      | Some c \<Rightarrow> if cd_Name c = n \<and> (d = [] \<or> fst dk = to_lower d) then None else Some c)"
proof (cases "d = []")
  case True
  with wf show ?thesis by (simp add: jar_Delete_def jar_store_prune split: option.split)
next
  case False
  obtain d' k' where dk: "dk = (d', k')" by (cases dk)
  show ?thesis
  proof (cases "map_of (jar_cookies j) (to_lower d)")
    case None
    with wf False dk show ?thesis
      by (auto simp: jar_Delete_def jar_store_nested Let_def split: option.splits)
  next
    case (Some dc)
    let ?rm = "map_remove (\<lambda>_ c. cd_Name c = n) dc"
    have wfd: "wf_map dc" using wf Some by (auto simp: wf_jar_iff simp del: map_of_eq_Some_iff)
    have eq: "map_of (jar_cookies (jar_Delete n d j)) =
        (map_of (jar_cookies j))(to_lower d := if ?rm = [] then None else Some ?rm)"
      using False Some by (simp add: jar_Delete_def Let_def)
    have "jar_store (jar_Delete n d j) dk =
        (case map_of (jar_cookies (jar_Delete n d j)) d' of None \<Rightarrow> None | Some dc \<Rightarrow> map_of dc k')"
      unfolding dk using wf by (intro jar_store_nested) auto
    also have "\<dots> = (if d' = to_lower d then map_of ?rm k' else jar_store j dk)"
      unfolding eq dk using wf by (auto simp: jar_store_nested)
    finally show ?thesis
      using False Some wf wfd dk
      by (auto simp: jar_store_nested map_of_remove simp del: map_of_eq_Some_iff split: option.splits)
  qed
qed

lemma wf_jar_ClearExpired [simp, intro]: "wf_jar j \<Longrightarrow> wf_jar (jar_ClearExpired now j)"
  by (simp add: jar_ClearExpired_def wf_prune_jar)

lemma jar_store_ClearExpired:
  "wf_jar j \<Longrightarrow> jar_store (jar_ClearExpired now j) dk =
     (case jar_store j dk of None \<Rightarrow> None
      | Some c \<Rightarrow> if cookie_expired now (cd_Expires c) then None else Some c)"
  by (simp add: jar_ClearExpired_def jar_store_prune)

lemma wf_jar_SetSimple [simp, intro]: "wf_jar j \<Longrightarrow> wf_jar (jar_SetSimple now n v d p sec ho ss ma ex j)"
  by (simp add: jar_SetSimple_def Let_def)

lemma jar_make_domain:
  assumes "map_of (jar_cookies j) d = None"
  shows "jar_entries (j\<lparr>jar_cookies := AList.update d [] (jar_cookies j)\<rparr>) = jar_entries j"
    and "wf_jar j \<Longrightarrow> wf_jar (j\<lparr>jar_cookies := AList.update d [] (jar_cookies j)\<rparr>)"
  using assms by (auto simp: jar_entries_def alist_update_fresh wf_jar_def map_of_eq_None_iff)

definition import_stored :: "time \<Rightarrow> cookie_state \<Rightarrow> cookie_data" where
  "import_stored now c =
     \<lparr>cd_Name = cs_Name c, cd_Value = cs_Value c, cd_Domain = cs_Domain c,
      cd_HostOnly = (\<not> has_prefix (cs_Domain c) ''.''),
      cd_Path = (if cs_Path c = [] then ''/'' else cs_Path c), cd_Expires = cs_Expires c,
      cd_MaxAge = cs_MaxAge c, cd_Secure = cs_Secure c, cd_HttpOnly = cs_HttpOnly c,
      cd_SameSite = cs_SameSite c,
      cd_CreatedAt = (case cs_CreatedAt c of None \<Rightarrow> now | Some t \<Rightarrow> t)\<rparr>"

lemma import_cookie_eq:
  "import_cookie now d c j =
     (if cookie_expired now (cs_Expires c) then j
      else put_cookie d (cookieKey (cd_Path (import_stored now c)) (cs_Name c)) (import_stored now c) j)"
  by (simp add: import_cookie_def import_stored_def Let_def)

lemma wf_import_cookie [simp, intro]: "wf_jar j \<Longrightarrow> wf_jar (import_cookie now d c j)"
  by (simp add: import_cookie_eq)

lemma wf_import_cookies [simp, intro]: "wf_jar j \<Longrightarrow> wf_jar (fold (import_cookie now d) cs j)"
  by (induction cs arbitrary: j) auto

lemma wf_import_domain [simp, intro]: "wf_jar j \<Longrightarrow> wf_jar (import_domain now dcs j)"
  by (cases dcs) (auto simp: import_domain_def Let_def jar_make_domain(2) split: option.split)

lemma wf_jar_Import [simp, intro]: "wf_jar j \<Longrightarrow> wf_jar (jar_Import now saved j)"
  unfolding jar_Import_def by (induction saved arbitrary: j) auto

lemma wf_jar_ImportV4 [simp, intro]: "wf_jar j \<Longrightarrow> wf_jar (jar_ImportV4 now cs j)"
  unfolding jar_ImportV4_def by (induction cs arbitrary: j) (auto simp: import_v4_cookie_def Let_def)

subsection \<open>The invariant of reachable jars\<close>

lemma jar_okD: "jar_ok j \<Longrightarrow> jar_store j dk = Some c \<Longrightarrow> cookie_ok dk c"
  by (cases dk) (simp add: jar_ok_def)

lemma jar_ok_wf [simp, dest]: "jar_ok j \<Longrightarrow> wf_jar j"
  by (simp add: jar_ok_def)

lemma jar_ok_new: "jar_ok NewCookieJar"
  by (simp add: jar_ok_def)

lemma jar_ok_put: "jar_ok j \<Longrightarrow> cookie_ok (d, k) c \<Longrightarrow> jar_ok (put_cookie d k c j)"
  by (simp add: jar_ok_def)

lemma jar_ok_subset:
  "jar_ok j \<Longrightarrow> wf_jar j' \<Longrightarrow> (\<And>dk c. jar_store j' dk = Some c \<Longrightarrow> jar_store j dk = Some c) \<Longrightarrow> jar_ok j'"
  by (simp add: jar_ok_def)

lemma jar_ok_Set: "jar_ok j \<Longrightarrow> jar_ok (jar_Set now h c secure j)"
  by (auto simp: jar_Set_eq Let_def set_stored_def cookie_ok_def has_prefix_def intro!: jar_ok_put)

lemma jar_ok_SetSimple: "jar_ok j \<Longrightarrow> jar_ok (jar_SetSimple now n v d p sec ho ss ma ex j)"
  by (auto simp: jar_SetSimple_def Let_def cookie_ok_def intro!: jar_ok_put)

lemma jar_ok_Delete: "jar_ok j \<Longrightarrow> jar_ok (jar_Delete n d j)"
  by (rule jar_ok_subset [of j]) (auto simp: jar_store_Delete split: option.splits if_splits)

lemma jar_ok_Clear: "jar_ok (jar_Clear j)"
  by (simp add: jar_ok_def)

lemma jar_ok_ClearExpired: "jar_ok j \<Longrightarrow> jar_ok (jar_ClearExpired now j)"
  by (rule jar_ok_subset [of j]) (auto simp: jar_store_ClearExpired split: option.splits if_splits)

lemma jar_ok_import_cookie: "jar_ok j \<Longrightarrow> cs_Domain c = d \<Longrightarrow> jar_ok (import_cookie now d c j)"
  by (auto simp: import_cookie_eq import_stored_def cookie_ok_def intro!: jar_ok_put)

lemma jar_ok_import_cookies:
  "jar_ok j \<Longrightarrow> \<forall>c \<in> set cs. cs_Domain c = d \<Longrightarrow> jar_ok (fold (import_cookie now d) cs j)"
  by (induction cs arbitrary: j) (auto intro: jar_ok_import_cookie)

lemma jar_ok_Import: "jar_ok j \<Longrightarrow> saved_ok saved \<Longrightarrow> jar_ok (jar_Import now saved j)"
  unfolding jar_Import_def saved_ok_def
proof (induction saved arbitrary: j)
  case (Cons a saved)
  obtain d cs where a: "a = (d, cs)" by (cases a)
  have "jar_ok (j\<lparr>jar_cookies := AList.update d [] (jar_cookies j)\<rparr>)" if "map_of (jar_cookies j) d = None"
    using Cons.prems(1) jar_make_domain [OF that] by (simp add: jar_ok_def jar_store_def)
  with Cons.prems a have "jar_ok (import_domain now a j)"
    by (auto simp: import_domain_def Let_def intro!: jar_ok_import_cookies split: option.split)
  with Cons a show ?case by simp
qed simp

lemma jar_ok_import_v4_cookie: "jar_ok j \<Longrightarrow> jar_ok (import_v4_cookie now c j)"
  by (auto simp: import_v4_cookie_def Let_def cookie_ok_def intro!: jar_ok_put)

lemma jar_ok_ImportV4: "jar_ok j \<Longrightarrow> jar_ok (jar_ImportV4 now cs j)"
  unfolding jar_ImportV4_def by (induction cs arbitrary: j) (auto intro: jar_ok_import_v4_cookie)

lemma jar_reachable_ok: "jar_reachable j \<Longrightarrow> jar_ok j"
  by (induction rule: jar_reachable.induct)
    (auto intro: jar_ok_new jar_ok_Set jar_ok_SetSimple jar_ok_Delete jar_ok_Clear
      jar_ok_ClearExpired jar_ok_Import jar_ok_ImportV4)

subsection \<open>Lookup\<close>

lemma jar_matches_entries:
  "jar_matches now host path secure j =
     map snd (filter (\<lambda>((d, k), c). domainMatchesHost d host \<and> cookie_applies now host path secure d c)
       (jar_entries j))"
proof -
  have inner: "filter (cookie_applies now host path secure d) (map snd dc) =
      map snd (filter (\<lambda>((d, k), c). cookie_applies now host path secure d c) (map (\<lambda>(k, c). ((d, k), c)) dc))"
    for d dc by (induction dc) auto
  have none: "\<not> domainMatchesHost d host \<Longrightarrow>
      filter (\<lambda>((d, k), c). domainMatchesHost d host \<and> cookie_applies now host path secure d c)
        (map (\<lambda>(k, c). ((d, k), c)) dc) = []" for d dc
    by (induction dc) auto
  have some: "domainMatchesHost d host \<Longrightarrow>
      filter (\<lambda>((d, k), c). domainMatchesHost d host \<and> cookie_applies now host path secure d c)
        (map (\<lambda>(k, c). ((d, k), c)) dc) =
      filter (\<lambda>((d, k), c). cookie_applies now host path secure d c) (map (\<lambda>(k, c). ((d, k), c)) dc)" for d dc
    by (induction dc) auto
  have "concat (map (\<lambda>(d, dc). if \<not> domainMatchesHost d host then []
          else filter (cookie_applies now host path secure d) (map snd dc)) ds) =
      map snd (filter (\<lambda>((d, k), c). domainMatchesHost d host \<and> cookie_applies now host path secure d c)
        (concat (map (\<lambda>(d, dc). map (\<lambda>(k, c). ((d, k), c)) dc) ds)))" for ds
  proof (induction ds)
    case (Cons a ds)
    obtain d dc where a: "a = (d, dc)" by (cases a)
    show ?case
      using Cons.IH inner [of d dc] none [of d dc] some [of d dc]
      by (cases "domainMatchesHost d host") (simp_all add: a del: map_map filter_map)
  qed simp
  then show ?thesis by (simp add: jar_matches_def jar_entries_def)
qed

lemma set_jar_matches:
  "wf_jar j \<Longrightarrow> c \<in> set (jar_matches now host path secure j) \<longleftrightarrow>
     (\<exists>d k. jar_store j (d, k) = Some c \<and> domainMatchesHost d host \<and>
            cookie_applies now host path secure d c)"
  by (force simp: jar_matches_entries jar_entries_iff [symmetric])

lemma cookie_applies_spec:
  assumes ok: "cookie_ok (d, k) c"
  shows "domainMatchesHost d host \<and> cookie_applies now host path secure d c \<longleftrightarrow>
     spec_applies now host path secure c"
proof -
  have d: "d = cd_Domain c" using ok by (simp add: cookie_ok_def)
  have exp: "\<not> cookie_expired now (cd_Expires c) \<longleftrightarrow> (\<forall>t. cd_Expires c = Some t \<longrightarrow> now \<le> t)"
    by (auto simp: cookie_expired_def split: option.splits)
  have "domainMatchesHost d host \<and> \<not> (cd_HostOnly c \<and> d \<noteq> host) \<longleftrightarrow>
      (if cd_HostOnly c then cd_Domain c = host
       else cd_Domain c = [] \<or> (\<exists>d'. cd_Domain c = CHR ''.'' # d' \<and> rfc_domain_match host d'))"
    using ok by (auto simp: cookie_ok_def d has_prefix_iff domainMatchesHost_dotted)
  with exp show ?thesis
    by (auto simp: cookie_applies_def spec_applies_def isPathMatch_rfc)
qed

lemma jar_Get_spec:
  assumes "jar_ok j"
  shows "c \<in> set (jar_Get now h p secure j) \<longleftrightarrow>
     jar_store j (cookie_id c) = Some c \<and>
     spec_applies now (normalizeHost h) (if p = [] then ''/'' else p) secure c"
proof -
  have "c \<in> set (jar_Get now h p secure j) \<longleftrightarrow>
      (\<exists>d k. jar_store j (d, k) = Some c \<and>
         spec_applies now (normalizeHost h) (if p = [] then ''/'' else p) secure c)"
    using assms jar_okD [OF assms] cookie_applies_spec
    by (simp add: jar_Get_def set_jar_matches) blast
  also have "\<dots> \<longleftrightarrow> jar_store j (cookie_id c) = Some c \<and>
      spec_applies now (normalizeHost h) (if p = [] then ''/'' else p) secure c"
    using jar_okD [OF assms] by (auto simp: cookie_ok_def)
  finally show ?thesis .
qed

subsection \<open>Order\<close>

interpretation cookie_order: slice_less cookie_less
  by unfold_locales (auto simp: cookie_less_def split: if_splits)

interpretation state_order: slice_less state_less
  by unfold_locales (auto simp: state_less_def split: if_splits)


text \<open>
  The iteration order of the maps does not matter: jars whose stores agree on the
  cookies that apply to a request answer it with the same cookies, as multisets.
\<close>

lemma jar_Get_cong:
  assumes wf: "wf_jar j" "wf_jar j'"
    and agree: "\<And>d k c. cookie_applies now (normalizeHost h) (if p = [] then ''/'' else p) secure d c \<Longrightarrow>
      jar_store j (d, k) = Some c \<longleftrightarrow> jar_store j' (d, k) = Some c"
  shows "mset (jar_Get now h p secure j) = mset (jar_Get now h p secure j')"
proof -
  let ?S = "\<lambda>((d, k), c). domainMatchesHost d (normalizeHost h) \<and>
    cookie_applies now (normalizeHost h) (if p = [] then ''/'' else p) secure d c"
  have "distinct (jar_entries i)" if "wf_jar i" for i
    using wf_jar_entries [OF that] by (simp add: distinct_map)
  then have "distinct (filter ?S (jar_entries j))" "distinct (filter ?S (jar_entries j'))"
    using wf by simp_all
  moreover have "set (filter ?S (jar_entries j)) = set (filter ?S (jar_entries j'))"
    using wf agree by (auto simp: jar_entries_iff)
  ultimately have "mset (filter ?S (jar_entries j)) = mset (filter ?S (jar_entries j'))"
    by (simp only: set_eq_iff_mset_eq_distinct)
  then show ?thesis
    by (simp add: jar_Get_def jar_matches_entries Let_def mset_map del: mset_filter filter.simps)
qed

subsection \<open>Saving and restoring\<close>

definition export_safe :: "cookie_data \<Rightarrow> bool" where
  "export_safe c \<longleftrightarrow> cd_HostOnly c = (\<not> has_prefix (cd_Domain c) ''.'')"

lemma import_stored_to_state:
  "cookie_ok dk c \<Longrightarrow> export_safe c \<Longrightarrow> import_stored now (to_state c) = c"
  by (cases c) (simp add: import_stored_def to_state_def cookie_ok_def export_safe_def)

lemma import_live_states:
  assumes "wf_jar j" "wf_map dc"
    and "\<forall>(k, c) \<in> set dc. cookie_ok (d, k) c \<and> export_safe c"
  shows "jar_store (fold (import_cookie now' d) (live_states now dc) j) (d', k') =
     (if d' = d
      then (case map_of dc k' of
              Some c \<Rightarrow> if cookie_expired now (cd_Expires c) \<or> cookie_expired now' (cd_Expires c)
                        then jar_store j (d, k') else Some c
            | None \<Rightarrow> jar_store j (d, k'))
      else jar_store j (d', k'))"
  using assms
proof (induction dc arbitrary: j)
  case Nil
  then show ?case by (simp add: live_states_def)
next
  case (Cons a dc)
  obtain k c where a: "a = (k, c)" by (cases a)
  let ?dead = "cookie_expired now (cd_Expires c)"
  let ?j = "if ?dead then j else import_cookie now' d (to_state c) j"
  have ok: "cookie_ok (d, k) c" "export_safe c" using Cons.prems(3) a by auto
  have k: "k = cookieKey (cd_Path c) (cd_Name c)" using ok(1) by (simp add: cookie_ok_def)
  have none: "map_of dc k = None" using Cons.prems(2) a by (simp add: map_of_eq_None_iff)
  have step: "fold (import_cookie now' d) (live_states now (a # dc)) j =
      fold (import_cookie now' d) (live_states now dc) ?j"
    by (simp add: live_states_def a)
  have "jar_store (import_cookie now' d (to_state c) j) =
      (if cookie_expired now' (cd_Expires c) then jar_store j else (jar_store j)((d, k) \<mapsto> c))"
    using Cons.prems(1) import_stored_to_state [OF ok]
    by (simp add: import_cookie_eq k) (simp add: to_state_def)
  moreover have "wf_jar ?j" using Cons.prems(1) by auto
  ultimately show ?case
    unfolding step using Cons.IH [of ?j] Cons.prems none a
    by (auto split: option.split)
qed

lemma import_domain_store:
  assumes "wf_jar j" "wf_map dc"
    and "\<forall>(k, c) \<in> set dc. cookie_ok (d, k) c \<and> export_safe c"
  shows "jar_store (import_domain now' (d, live_states now dc) j) (d', k') =
     (if d' = d
      then (case map_of dc k' of
              Some c \<Rightarrow> if cookie_expired now (cd_Expires c) \<or> cookie_expired now' (cd_Expires c)
                        then jar_store j (d, k') else Some c
            | None \<Rightarrow> jar_store j (d, k'))
      else jar_store j (d', k'))"
proof (cases "map_of (jar_cookies j) d")
  case None
  let ?j = "j\<lparr>jar_cookies := AList.update d [] (jar_cookies j)\<rparr>"
  have st: "jar_store ?j = jar_store j" and wfj: "wf_jar ?j"
    using jar_make_domain [OF None] assms(1) by (simp_all add: jar_store_def)
  have eq: "import_domain now' (d, live_states now dc) j = fold (import_cookie now' d) (live_states now dc) ?j"
    using None by (simp add: import_domain_def)
  from import_live_states [OF wfj assms(2,3), of now' now d' k'] show ?thesis
    unfolding eq st .
next
  case (Some _)
  with assms import_live_states [of j dc d now' now d' k'] show ?thesis
    by (simp add: import_domain_def Let_def)
qed

lemma import_export_domains:
  assumes "wf_jar j" "wf_map ds" "\<forall>(d, dc) \<in> set ds. wf_map dc"
    and "\<forall>(d, dc) \<in> set ds. \<forall>(k, c) \<in> set dc. cookie_ok (d, k) c \<and> export_safe c"
  shows "jar_store (fold (import_domain now')
       (filter (\<lambda>(d, cs). cs \<noteq> []) (map (\<lambda>(d, dc). (d, live_states now dc)) ds)) j) (d', k') =
     (case map_of ds d' of
        None \<Rightarrow> jar_store j (d', k')
      | Some dc \<Rightarrow>
          (case map_of dc k' of
             Some c \<Rightarrow> if cookie_expired now (cd_Expires c) \<or> cookie_expired now' (cd_Expires c)
                       then jar_store j (d', k') else Some c
           | None \<Rightarrow> jar_store j (d', k')))"
  using assms
proof (induction ds arbitrary: j)
  case (Cons a ds)
  obtain d dc where a: "a = (d, dc)" by (cases a)
  let ?j = "import_domain now' (d, live_states now dc) j"
  have none: "map_of ds d = None" using Cons.prems(2) a by (simp add: map_of_eq_None_iff)
  have dc: "wf_map dc" "\<forall>(k, c) \<in> set dc. cookie_ok (d, k) c \<and> export_safe c"
    using Cons.prems a by auto
  have IH: "jar_store (fold (import_domain now')
       (filter (\<lambda>(d, cs). cs \<noteq> []) (map (\<lambda>(d, dc). (d, live_states now dc)) ds)) i) (d', k') =
     (case map_of ds d' of
        None \<Rightarrow> jar_store i (d', k')
      | Some dc \<Rightarrow>
          (case map_of dc k' of
             Some c \<Rightarrow> if cookie_expired now (cd_Expires c) \<or> cookie_expired now' (cd_Expires c)
                       then jar_store i (d', k') else Some c
           | None \<Rightarrow> jar_store i (d', k')))" if "wf_jar i" for i
    using Cons.IH [OF that] Cons.prems a by auto
  show ?case
  proof (cases "live_states now dc = []")
    case True
    then have dead: "\<forall>c \<in> snd ` set dc. cookie_expired now (cd_Expires c)"
      by (auto simp: live_states_def filter_empty_conv)
    have "\<And>c. map_of dc k' = Some c \<Longrightarrow> cookie_expired now (cd_Expires c)"
      using dead by (force dest: map_of_SomeD)
    with True a none IH [OF Cons.prems(1)] show ?thesis
      by (auto split: option.splits)
  next
    case False
    have "wf_jar ?j" using Cons.prems(1) by auto
    with False a none IH [of ?j] import_domain_store [OF Cons.prems(1) dc, of now' now d' k']
    show ?thesis by (auto split: option.splits)
  qed
qed simp

lemma jar_store_restore:
  assumes "jar_ok j" and "\<And>dk c. jar_store j dk = Some c \<Longrightarrow> export_safe c"
  shows "jar_store (jar_Import now' (jar_Export now j) NewCookieJar) dk =
     (case jar_store j dk of
        None \<Rightarrow> None
      | Some c \<Rightarrow> if cookie_expired now (cd_Expires c) \<or> cookie_expired now' (cd_Expires c)
                  then None else Some c)"
proof -
  obtain d k where dk: "dk = (d, k)" by (cases dk)
  have wf: "wf_jar j" using assms(1) by simp
  have "cookie_ok (d, k) c \<and> export_safe c"
    if "(d, dc) \<in> set (jar_cookies j)" "(k, c) \<in> set dc" for d dc k c
  proof -
    have "((d, k), c) \<in> set (jar_entries j)" using that by (force simp: jar_entries_def)
    with wf have "jar_store j (d, k) = Some c" by (simp add: jar_entries_iff)
    with assms show ?thesis by (auto dest: jar_okD)
  qed
  then have "\<forall>(d, dc) \<in> set (jar_cookies j). \<forall>(k, c) \<in> set dc. cookie_ok (d, k) c \<and> export_safe c"
    by blast
  moreover have "wf_map (jar_cookies j)" "\<forall>(d, dc) \<in> set (jar_cookies j). wf_map dc"
    using wf by (simp_all add: wf_jar_def)
  ultimately show ?thesis
    using import_export_domains [OF wf_jar_new, of "jar_cookies j" now' now d k] wf
    by (simp add: dk jar_Import_def jar_Export_def jar_store_nested split: option.split)
qed

lemma saved_ok_Export: "jar_ok j \<Longrightarrow> saved_ok (jar_Export now j)"
proof -
  assume ok: "jar_ok j"
  have "cd_Domain c = d" if "(d, dc) \<in> set (jar_cookies j)" "(k, c) \<in> set dc" for d dc k c
  proof -
    have "((d, k), c) \<in> set (jar_entries j)" using that by (force simp: jar_entries_def)
    with ok have "jar_store j (d, k) = Some c" by (simp add: jar_entries_iff)
    with ok show ?thesis by (auto dest: jar_okD simp: cookie_ok_def)
  qed
  then show ?thesis
    by (auto simp: saved_ok_def jar_Export_def live_states_def to_state_def)
qed

lemma jar_Set_isolation:
  assumes "jar_ok j"
    and "c' \<in> set (jar_Get now h p secure (jar_Set now0 h0 c secure0 j))"
    and "c' \<notin> set (jar_Get now h p secure j)"
  shows "normalizeHost h = normalizeHost h0 \<or>
    (\<exists>d. rfc_domain_match (normalizeHost h0) d \<and> rfc_domain_match (normalizeHost h) d)"
proof -
  let ?new = "set_stored now0 (normalizeHost h0) c"
  have ok: "jar_ok j" "jar_ok (jar_Set now0 h0 c secure0 j)"
    using assms(1) by (simp_all add: jar_ok_Set)
  have acc: "set_accepts (normalizeHost h0) c secure0"
    using assms(2,3) by (auto simp: jar_Set_eq split: if_splits)
  then have st: "jar_store (jar_Set now0 h0 c secure0 j) = (jar_store j)(cookie_id ?new \<mapsto> ?new)"
    using ok(1) by (simp add: jar_store_Set)
  have sent: "jar_store (jar_Set now0 h0 c secure0 j) (cookie_id c') = Some c'"
      "spec_applies now (normalizeHost h) (if p = [] then ''/'' else p) secure c'"
    using assms(2) ok(2) by (simp_all only: jar_Get_spec)
  have "jar_store j (cookie_id c') \<noteq> Some c'"
    using assms(3) ok(1) sent(2) by (simp only: jar_Get_spec) blast
  with sent(1) have "c' = ?new"
    unfolding st by (rule upd_Some_new)
  with sent(2) acc show ?thesis
    by (auto simp: spec_applies_def set_accepts_def set_stored_def split: if_splits)
qed

section \<open>A sample jar for the witnesses\<close>

definition sample_cookie :: "string \<Rightarrow> string \<Rightarrow> cookie_data" where
  "sample_cookie domain path =
     \<lparr>cd_Name = ''sid'', cd_Value = ''1'', cd_Domain = domain, cd_HostOnly = False, cd_Path = path,
      cd_Expires = None, cd_MaxAge = 10, cd_Secure = True, cd_HttpOnly = False, cd_SameSite = [],
      cd_CreatedAt = 0\<rparr>"

definition sample_jar :: cookie_jar where
  "sample_jar =
     jar_Set 6 ''api.example.com'' (sample_cookie ''.example.com'' ''/a'') True
       (jar_Set 5 ''Example.com:443'' (sample_cookie [] ''/'') True NewCookieJar)"

lemma sample_jar_reachable: "jar_reachable sample_jar"
  unfolding sample_jar_def by (intro jar_reachable.intros)

lemma sample_jar_unfold:
  "sample_jar = \<lparr>jar_cookies =
     [(''example.com'', [(cookieKey ''/'' ''sid'', set_stored 5 ''example.com'' (sample_cookie [] ''/''))]),
      (''.example.com'', [(cookieKey ''/a'' ''sid'',
          set_stored 6 ''api.example.com'' (sample_cookie ''.example.com'' ''/a''))])]\<rparr>"
  by code_simp

section \<open>Properties\<close>



text \<open>
  Lemma. \<^verbatim>\<open>Get\<close> lists cookies with longer paths first and, among equal path
  lengths, older ones first, whatever the iteration order of the maps was.
\<close>

theorem jar_get_ordered:
  "sorted_wrt (\<lambda>a b. length (cd_Path a) > length (cd_Path b) \<or>
       (length (cd_Path a) = length (cd_Path b) \<and> cd_CreatedAt a \<le> cd_CreatedAt b))
     (jar_Get now h p secure j)"
proof -
  have "sorted_wrt (\<lambda>a b. \<not> cookie_less b a) (jar_Get now h p secure j)"
    unfolding jar_Get_def Let_def by (rule cookie_order.sorted_sort_slice)
  then show ?thesis
    by (rule sorted_wrt_mono_rel [rotated]) (auto simp: cookie_less_def split: if_splits)
qed

text \<open>
  Lemma. A response from host \<open>h0\<close> can only plant a cookie for requests to the
  same host or to a host that shares with it a parent domain both of them match.
\<close>

theorem jar_set_isolation:
  assumes "jar_reachable j"
    and "c' \<in> set (jar_Get now h p secure (jar_Set now0 h0 c secure0 j))"
    and "c' \<notin> set (jar_Get now h p secure j)"
  shows "normalizeHost h = normalizeHost h0 \<or>
    (\<exists>d. rfc_domain_match (normalizeHost h0) d \<and> rfc_domain_match (normalizeHost h) d)"
  using assms by (intro jar_Set_isolation [of j c' now h p secure now0 h0 c secure0] jar_reachable_ok)

theorem jar_set_isolation_witness:
  "normalizeHost ''www.example.com'' = normalizeHost ''example.com'' \<or>
   (\<exists>d. rfc_domain_match (normalizeHost ''example.com'') d \<and>
        rfc_domain_match (normalizeHost ''www.example.com'') d)"
proof (rule jar_set_isolation [of NewCookieJar])
  let ?c = "sample_cookie ''Example.com'' ''/''"
  show "jar_reachable NewCookieJar" by (rule jar_reachable.intros)
  show "set_stored 5 ''example.com'' ?c
      \<in> set (jar_Get 9 ''www.example.com'' ''/'' True (jar_Set 5 ''example.com'' ?c True NewCookieJar))"
    by code_simp
  show "set_stored 5 ''example.com'' ?c \<notin> set (jar_Get 9 ''www.example.com'' ''/'' True NewCookieJar)"
    by code_simp
qed

lemma jar_Get_restore:
  assumes "jar_reachable j"
    and "\<And>dk c. jar_store j dk = Some c \<Longrightarrow> export_safe c"
    and "t_save \<le> t" and "t_load \<le> t"
  shows "mset (jar_Get t h p secure (jar_Import t_load (jar_Export t_save j) NewCookieJar)) =
    mset (jar_Get t h p secure j)"
proof (rule jar_Get_cong)
  have ok: "jar_ok j" using assms(1) by (rule jar_reachable_ok)
  show "wf_jar j" using ok by simp
  show "wf_jar (jar_Import t_load (jar_Export t_save j) NewCookieJar)" by auto
  fix d k c
  assume "cookie_applies t (normalizeHost h) (if p = [] then ''/'' else p) secure d c"
  then have "\<not> cookie_expired t_save (cd_Expires c)" "\<not> cookie_expired t_load (cd_Expires c)"
    using assms(3,4) by (auto simp: cookie_applies_def cookie_expired_def split: option.splits)
  moreover have "jar_store (jar_Import t_load (jar_Export t_save j) NewCookieJar) (d, k) =
     (case jar_store j (d, k) of
        None \<Rightarrow> None
      | Some c \<Rightarrow> if cookie_expired t_save (cd_Expires c) \<or> cookie_expired t_load (cd_Expires c)
                  then None else Some c)"
    by (rule jar_store_restore [OF ok]) (rule assms(2))
  ultimately show "jar_store (jar_Import t_load (jar_Export t_save j) NewCookieJar) (d, k) = Some c \<longleftrightarrow>
      jar_store j (d, k) = Some c"
    by (auto split: option.splits)
qed

text \<open>
  Lemma. Saving a jar and importing the file into a new one keeps every answer:
  if each cookie's host-only flag agrees with the shape of its domain, the
  restored jar answers every later request with the same cookies.
\<close>

theorem jar_restore_answers:
  assumes "jar_reachable j"
    and "\<And>dk c. jar_store j dk = Some c \<Longrightarrow> export_safe c"
    and "t_save \<le> t" and "t_load \<le> t"
  shows "mset (jar_Get t h p secure (jar_Import t_load (jar_Export t_save j) NewCookieJar)) =
    mset (jar_Get t h p secure j)"
  using assms by (rule jar_Get_restore)

theorem jar_restore_answers_witness:
  "mset (jar_Get 9 ''example.com'' ''/a/b'' True
      (jar_Import 8 (jar_Export 7 sample_jar) NewCookieJar)) =
   mset (jar_Get 9 ''example.com'' ''/a/b'' True sample_jar) \<and>
   length (jar_Get 9 ''example.com'' ''/a/b'' True sample_jar) = 2"
proof
  have "export_safe c" if "jar_store sample_jar dk = Some c" for dk c
  proof -
    have "(dk, c) \<in> set (jar_entries sample_jar)" using that by (simp add: jar_store_def map_of_SomeD)
    then show ?thesis
      by (auto simp: sample_jar_unfold jar_entries_def export_safe_def set_stored_def
          sample_cookie_def has_prefix_def)
  qed
  then show "mset (jar_Get 9 ''example.com'' ''/a/b'' True
      (jar_Import 8 (jar_Export 7 sample_jar) NewCookieJar)) =
   mset (jar_Get 9 ''example.com'' ''/a/b'' True sample_jar)"
    by (intro jar_restore_answers sample_jar_reachable) simp_all
  show "length (jar_Get 9 ''example.com'' ''/a/b'' True sample_jar) = 2" by code_simp
qed

text \<open>
  Lemma. A global cookie does not survive saving and restoring: it is sent to
  every host before, and to no host after, because \<^verbatim>\<open>Import\<close> marks a cookie with
  an empty domain as host-only.
\<close>

theorem jar_restore_drops_global:
  assumes "has_prefix q ''/''" and "normalizeHost h \<noteq> []"
  shows "map cd_Name (jar_Get t h q secure
           (jar_SetSimple t0 name value [] ''/'' False httpOnly sameSite maxAge None NewCookieJar)) = [name] \<and>
    jar_Get t h q secure (jar_Import t2 (jar_Export t1
           (jar_SetSimple t0 name value [] ''/'' False httpOnly sameSite maxAge None NewCookieJar))
           NewCookieJar) = []"
proof
  have q: "isPathMatch q ''/''" "q \<noteq> []"
    using session_path.root_matches_all [OF assms(1)] assms(1) by (auto simp: has_prefix_iff)
  then show "map cd_Name (jar_Get t h q secure
       (jar_SetSimple t0 name value [] ''/'' False httpOnly sameSite maxAge None NewCookieJar)) = [name]"
    by (simp add: jar_SetSimple_def put_cookie_def NewCookieJar_def jar_Get_def Let_def
        jar_matches_def cookie_applies_def cookie_expired_def sort_slice_def)
  show "jar_Get t h q secure (jar_Import t2 (jar_Export t1
       (jar_SetSimple t0 name value [] ''/'' False httpOnly sameSite maxAge None NewCookieJar))
       NewCookieJar) = []"
    using assms(2)
    by (simp add: jar_SetSimple_def put_cookie_def NewCookieJar_def jar_Get_def jar_matches_def
        jar_Export_def live_states_def to_state_def cookie_expired_def jar_Import_def
        import_domain_def import_cookie_def cookie_applies_def has_prefix_def Let_def)
qed

theorem jar_restore_drops_global_witness:
  "map cd_Name (jar_Get 3 ''example.com'' ''/x'' True
      (jar_SetSimple 1 ''sid'' ''v'' [] ''/'' False False [] 0 None NewCookieJar)) = [''sid''] \<and>
   jar_Get 3 ''example.com'' ''/x'' True (jar_Import 2 (jar_Export 2
      (jar_SetSimple 1 ''sid'' ''v'' [] ''/'' False False [] 0 None NewCookieJar)) NewCookieJar) = []"
proof -
  have p: "has_prefix ''/x'' ''/''" and h: "normalizeHost ''example.com'' \<noteq> []" by code_simp+
  from jar_restore_drops_global [OF p h] show ?thesis by simp
qed

text \<open>
  Lemma. Sweeping expired cookies is invisible: after \<^verbatim>\<open>ClearExpired\<close> every
  later request gets the same cookies as before it.
\<close>

theorem jar_clear_expired_invisible:
  assumes "jar_reachable j" and "t \<le> t'"
  shows "mset (jar_Get t' h p secure (jar_ClearExpired t j)) = mset (jar_Get t' h p secure j)"
proof (rule jar_Get_cong)
  have ok: "jar_ok j" using assms(1) by (rule jar_reachable_ok)
  show "wf_jar j" "wf_jar (jar_ClearExpired t j)" using ok by auto
  fix d k c
  assume "cookie_applies t' (normalizeHost h) (if p = [] then ''/'' else p) secure d c"
  then have "\<not> cookie_expired t (cd_Expires c)"
    using assms(2) by (auto simp: cookie_applies_def cookie_expired_def split: option.splits)
  then show "jar_store (jar_ClearExpired t j) (d, k) = Some c \<longleftrightarrow> jar_store j (d, k) = Some c"
    using ok by (auto simp: jar_store_ClearExpired split: option.splits)
qed

theorem jar_clear_expired_invisible_witness:
  "mset (jar_Get 9 ''example.com'' ''/'' True (jar_ClearExpired 8 sample_jar)) =
   mset (jar_Get 9 ''example.com'' ''/'' True sample_jar)"
  by (rule jar_clear_expired_invisible [OF sample_jar_reachable]) simp

text \<open>
  Lemma. \<^verbatim>\<open>Delete\<close> removes exactly the cookies with the given name, of the given
  domain or of every domain when the domain is empty, and no other cookie.
\<close>

theorem jar_delete_exact:
  assumes "jar_reachable j"
  shows "jar_store (jar_Delete name d j) (d', k) =
     (case jar_store j (d', k) of
        None \<Rightarrow> None
      | Some c \<Rightarrow> if cd_Name c = name \<and> (d = [] \<or> d' = to_lower d) then None else Some c)"
  using assms by (simp add: jar_store_Delete jar_reachable_ok split: option.split)

theorem jar_delete_exact_witness:
  "jar_reachable sample_jar \<and>
   jar_store (jar_Delete ''sid'' ''.Example.com'' sample_jar) (''.example.com'', cookieKey ''/a'' ''sid'') = None \<and>
   jar_store (jar_Delete ''sid'' ''.Example.com'' sample_jar) (''example.com'', cookieKey ''/'' ''sid'') \<noteq> None"
proof -
  have l: "to_lower ''.Example.com'' = ''.example.com''" by code_simp
  have a: "jar_store sample_jar (''.example.com'', cookieKey ''/a'' ''sid'') =
      Some (set_stored 6 ''api.example.com'' (sample_cookie ''.example.com'' ''/a''))" by code_simp
  have b: "jar_store sample_jar (''example.com'', cookieKey ''/'' ''sid'') =
      Some (set_stored 5 ''example.com'' (sample_cookie [] ''/''))" by code_simp
  show ?thesis
    using sample_jar_reachable
      jar_delete_exact [OF sample_jar_reachable, of "''sid''" "''.Example.com''" "''.example.com''" "cookieKey ''/a'' ''sid''"]
      jar_delete_exact [OF sample_jar_reachable, of "''sid''" "''.Example.com''" "''example.com''" "cookieKey ''/'' ''sid''"]
    by (simp add: l a b set_stored_def sample_cookie_def)
qed

text \<open>
  Lemma. The answer does not depend on how the maps are iterated: two jars with
  the same store give the same cookies for every request.
\<close>

theorem jar_get_iteration_independent:
  assumes "wf_jar j" "wf_jar j'" "jar_store j = jar_store j'"
  shows "mset (jar_Get now h p secure j) = mset (jar_Get now h p secure j')"
  using assms by (intro jar_Get_cong) auto

theorem jar_get_iteration_independent_witness:
  "mset (jar_Get 9 ''example.com'' ''/a'' True sample_jar) =
   mset (jar_Get 9 ''example.com'' ''/a'' True \<lparr>jar_cookies = rev (jar_cookies sample_jar)\<rparr>)"
proof (rule jar_get_iteration_independent)
  show "wf_jar sample_jar" "wf_jar \<lparr>jar_cookies = rev (jar_cookies sample_jar)\<rparr>"
    by (simp_all add: sample_jar_unfold wf_jar_def)
  show "jar_store sample_jar = jar_store \<lparr>jar_cookies = rev (jar_cookies sample_jar)\<rparr>"
    by (auto simp: sample_jar_unfold jar_store_def jar_entries_def fun_eq_iff)
qed

text \<open>
  Lemma. \<^verbatim>\<open>Max-Age\<close> has no effect in this jar: a host-only cookie without
  \<^verbatim>\<open>Expires\<close> that a host sets is sent back to it at every later time, whatever
  its \<^verbatim>\<open>MaxAge\<close> is.
\<close>

theorem jar_ignores_max_age:
  assumes "jar_reachable j" and "cd_Domain c = []" and "cd_Expires c = None" and "cd_Path c = ''/''"
    and "cd_Secure c \<longrightarrow> secure" and "has_prefix p ''/''"
  shows "set_stored t0 (normalizeHost h) c \<in> set (jar_Get t h p secure (jar_Set t0 h c secure j))"
proof -
  have ok: "jar_ok j" using assms(1) by (rule jar_reachable_ok)
  have "rfc_path_match p ''/''"
    using session_path.root_matches_all [OF assms(6)] by (simp add: isPathMatch_rfc)
  moreover have "p \<noteq> []" using assms(6) by (auto simp: has_prefix_iff)
  ultimately show ?thesis
    using assms ok by (simp add: jar_Get_spec jar_ok_Set jar_store_Set set_accepts_def
        spec_applies_def set_stored_def)
qed

theorem jar_ignores_max_age_witness:
  "cd_MaxAge (sample_cookie [] ''/'') = 10 \<and>
   set_stored 0 (normalizeHost ''example.com'') (sample_cookie [] ''/'')
     \<in> set (jar_Get (1000 * second) ''example.com'' ''/x'' True
          (jar_Set 0 ''example.com'' (sample_cookie [] ''/'') True NewCookieJar))"
proof
  show "cd_MaxAge (sample_cookie [] ''/'') = 10" by (simp add: sample_cookie_def)
  show "set_stored 0 (normalizeHost ''example.com'') (sample_cookie [] ''/'')
     \<in> set (jar_Get (1000 * second) ''example.com'' ''/x'' True
          (jar_Set 0 ''example.com'' (sample_cookie [] ''/'') True NewCookieJar))"
    by (rule jar_ignores_max_age)
      (simp_all add: jar_reachable.intros sample_cookie_def has_prefix_def)
qed

end
