(* ===== verification/Session_Cookies.thy ===== *)
theory Session_Cookies
  imports Session_Cookie_Jar
begin

text \<open>
  The cookie and URL helpers of \<^verbatim>\<open>session/session.go\<close>: how \<^verbatim>\<open>extractCookies\<close> turns the
  \<^verbatim>\<open>Set-Cookie\<close> headers of a response into calls of the jar's \<^verbatim>\<open>Set\<close>, and how the
  host, path and scheme of a request are cut out of its URL. \<^verbatim>\<open>time.Parse\<close> is the
  argument \<open>tp\<close> (layout, text) of the definitions that parse dates.
\<close>

section \<open>String helpers\<close>

text \<open>
  \<^verbatim>\<open>string(s[i])\<close> on a byte: the UTF-8 encoding of the code point with that number,
  so a byte from 128 on becomes two bytes.
\<close>

definition byte_string :: "char \<Rightarrow> string" where
  "byte_string c =
     (let n = of_char c :: nat in
      if n < 128 then [c] else [char_of (192 + n div 64), char_of (128 + n mod 64)])"

fun split_loop :: "char \<Rightarrow> string \<Rightarrow> string \<Rightarrow> string list" where
  "split_loop sep current [] = (if current \<noteq> [] then [current] else [])"
| "split_loop sep current (c # cs) =
     (if c = sep then current # split_loop sep [] cs
      else split_loop sep (current @ byte_string c) cs)"

definition splitBySemicolon :: "string \<Rightarrow> string list" where
  "splitBySemicolon s = split_loop (CHR '';'') [] s"

definition splitByComma :: "string \<Rightarrow> string list" where
  "splitByComma s = split_loop (CHR '','') [] s"

fun splitByNewline_loop :: "string \<Rightarrow> string \<Rightarrow> string list" where
  "splitByNewline_loop current [] = (if current \<noteq> [] then [current] else [])"
| "splitByNewline_loop current (c # cs) =
     (if c = CHR 0x0A then current # splitByNewline_loop [] cs
      else if c \<noteq> CHR 0x0D then splitByNewline_loop (current @ byte_string c) cs
      else splitByNewline_loop current cs)"

definition splitByNewline :: "string \<Rightarrow> string list" where
  "splitByNewline s = splitByNewline_loop [] s"

definition toLowerASCII :: "string \<Rightarrow> string" where
  "toLowerASCII s = map lower_char s"

definition is_blank :: "char \<Rightarrow> bool" where
  "is_blank c \<longleftrightarrow> c = CHR '' '' \<or> c = CHR 0x09"

definition trim :: "string \<Rightarrow> string" where
  "trim s = trim_fn is_blank s"

fun indexOf :: "string \<Rightarrow> string \<Rightarrow> nat option" where
  "indexOf [] sub = (if sub = [] then Some 0 else None)"
| "indexOf (c # cs) sub =
     (if has_prefix (c # cs) sub then Some 0 else map_option Suc (indexOf cs sub))"

definition isDigit :: "char \<Rightarrow> bool" where
  "isDigit c = is_digit c"

fun splitCookies_loop :: "string \<Rightarrow> string \<Rightarrow> string list" where
  "splitCookies_loop current [] = (if current \<noteq> [] then [trim current] else [])"
| "splitCookies_loop current (c # rest) =
     (if c = CHR '','' then
        (if rest \<noteq> [] \<and> hd rest = CHR '' '' \<and> length rest > 3 \<and> isDigit (rest ! 1)
         then splitCookies_loop (current @ '','') rest
         else trim current # splitCookies_loop [] rest)
      else splitCookies_loop (current @ byte_string c) rest)"

definition splitCookies :: "string \<Rightarrow> string list" where
  "splitCookies s = splitCookies_loop [] s"

text \<open>The loop of \<^verbatim>\<open>parseIntSimple\<close>, with the wrap-around of a 64-bit \<^verbatim>\<open>int\<close>.\<close>

fun parseInt_loop :: "int \<Rightarrow> string \<Rightarrow> int" where
  "parseInt_loop result [] = result"
| "parseInt_loop result (c # cs) =
     (if is_digit c then parseInt_loop (int64 (result * 10 + int (digit_val c))) cs else result)"

definition parseIntSimple :: "string \<Rightarrow> int" where
  "parseIntSimple s =
     (if s \<noteq> [] \<and> hd s = CHR ''-'' then int64 (- parseInt_loop 0 (tl s))
      else parseInt_loop 0 s)"

definition parseHTTPDate :: "(string \<Rightarrow> string \<Rightarrow> time option) \<Rightarrow> string \<Rightarrow> time option" where
  "parseHTTPDate tp s =
     (case tp ''Mon, 02 Jan 2006 15:04:05 MST'' s of Some t \<Rightarrow> Some t | None \<Rightarrow>
      (case tp ''Mon, 02 Jan 2006 15:04:05 -0700'' s of Some t \<Rightarrow> Some t | None \<Rightarrow>
       (case tp ''Monday, 02-Jan-06 15:04:05 MST'' s of Some t \<Rightarrow> Some t | None \<Rightarrow>
        tp ''Mon Jan _2 15:04:05 2006'' s)))"

section \<open>URLs\<close>

definition extractHost :: "string \<Rightarrow> string" where
  "extractHost urlStr =
     (let host = (case indexOf urlStr ''://'' of None \<Rightarrow> urlStr | Some idx \<Rightarrow> drop (idx + 3) urlStr);
          host = (case indexOf host ''/'' of None \<Rightarrow> host | Some idx \<Rightarrow> take idx host)
      in if host \<noteq> [] \<and> hd host = CHR ''['' then
           (case indexOf host '']'' of None \<Rightarrow> host | Some idx \<Rightarrow> drop 1 (take idx host))
         else
           (case indexOf host '':'' of None \<Rightarrow> host | Some idx \<Rightarrow> take idx host))"

definition extractPath :: "string \<Rightarrow> string" where
  "extractPath urlStr =
     (let path = (case indexOf urlStr ''://'' of None \<Rightarrow> urlStr | Some idx \<Rightarrow> drop (idx + 3) urlStr)
      in case indexOf path ''/'' of
           None \<Rightarrow> ''/''
         | Some idx \<Rightarrow>
             (let path = drop idx path;
                  path = (case indexOf path ''?'' of None \<Rightarrow> path | Some q \<Rightarrow> take q path)
              in (case indexOf path ''#'' of None \<Rightarrow> path | Some f \<Rightarrow> take f path)))"

definition isSecureURL :: "string \<Rightarrow> bool" where
  "isSecureURL urlStr \<longleftrightarrow> length urlStr \<ge> 8 \<and> take 8 urlStr = ''https://''"

definition isRedirectStatus :: "int \<Rightarrow> bool" where
  "isRedirectStatus code \<longleftrightarrow> code = 301 \<or> code = 302 \<or> code = 303 \<or> code = 307 \<or> code = 308"

section \<open>Set-Cookie\<close>

definition empty_cookie :: cookie_data where
  "empty_cookie =
     \<lparr>cd_Name = [], cd_Value = [], cd_Domain = [], cd_HostOnly = False, cd_Path = [],
      cd_Expires = None, cd_MaxAge = 0, cd_Secure = False, cd_HttpOnly = False, cd_SameSite = [],
      cd_CreatedAt = 0\<rparr>"

definition normalizeSameSite :: "string \<Rightarrow> string" where
  "normalizeSameSite v =
     (let l = toLowerASCII v in
      if l = ''strict'' then ''Strict'' else if l = ''lax'' then ''Lax''
      else if l = ''none'' then ''None'' else v)"

text \<open>One round of the attribute loop.\<close>

definition parseAttr ::
    "(string \<Rightarrow> string \<Rightarrow> time option) \<Rightarrow> string \<Rightarrow> cookie_data \<Rightarrow> cookie_data" where
  "parseAttr tp part cookie =
     (let attr = trim part; attrLower = toLowerASCII attr in
      if attr = [] then cookie
      else if attrLower = ''secure'' then cookie\<lparr>cd_Secure := True\<rparr>
      else if attrLower = ''httponly'' then cookie\<lparr>cd_HttpOnly := True\<rparr>
      else (case indexOf attr ''='' of
         None \<Rightarrow> cookie
       | Some eq \<Rightarrow>
           (let attrName = toLowerASCII (trim (take eq attr)); attrValue = trim (drop (eq + 1) attr) in
            if attrName = ''domain'' then cookie\<lparr>cd_Domain := attrValue\<rparr>
            else if attrName = ''path'' then cookie\<lparr>cd_Path := attrValue\<rparr>
            else if attrName = ''expires'' then
              (case parseHTTPDate tp attrValue of
                 None \<Rightarrow> cookie | Some t \<Rightarrow> cookie\<lparr>cd_Expires := Some t\<rparr>)
            else if attrName = ''max-age'' then cookie\<lparr>cd_MaxAge := parseIntSimple attrValue\<rparr>
            else if attrName = ''samesite'' then cookie\<lparr>cd_SameSite := normalizeSameSite attrValue\<rparr>
            else cookie)))"

text \<open>The body of the loop over the header values, up to the call of \<^verbatim>\<open>Set\<close>; \<open>None\<close> is \<^verbatim>\<open>continue\<close>.\<close>

definition parseSetCookieLine ::
    "(string \<Rightarrow> string \<Rightarrow> time option) \<Rightarrow> string \<Rightarrow> cookie_data option" where
  "parseSetCookieLine tp line0 =
     (let line = trim line0 in
      if line = [] then None
      else (case splitBySemicolon line of
         [] \<Rightarrow> None
       | part0 # attrs \<Rightarrow>
           (let firstPart = trim part0 in
            case indexOf firstPart ''='' of
              None \<Rightarrow> None
            | Some eq \<Rightarrow>
                (let name = trim (take eq firstPart); value = trim (drop (eq + 1) firstPart) in
                 if name = [] then None
                 else Some (fold (parseAttr tp) attrs
                        (empty_cookie\<lparr>cd_Name := name, cd_Value := value\<rparr>))))))"

definition extractCookies ::
    "(string \<Rightarrow> string \<Rightarrow> time option) \<Rightarrow> time \<Rightarrow> (string, string list) gomap \<Rightarrow> string \<Rightarrow>
     cookie_jar \<Rightarrow> cookie_jar" where
  "extractCookies tp now headers requestURL j =
     (let setCookies = (case map_of headers ''set-cookie'' of
                          Some v \<Rightarrow> Some v
                        | None \<Rightarrow> map_of headers ''Set-Cookie'')
      in case setCookies of
           None \<Rightarrow> j
         | Some lines \<Rightarrow>
             (let requestHost = extractHost requestURL; requestSecure = isSecureURL requestURL in
              fold (\<lambda>line j. case parseSetCookieLine tp line of
                      None \<Rightarrow> j
                    | Some cookie \<Rightarrow> jar_Set now requestHost cookie requestSecure j) lines j))"


section \<open>Laws of the helpers\<close>

definition is_ascii :: "string \<Rightarrow> bool" where
  "is_ascii s \<longleftrightarrow> (\<forall>c \<in> set s. (of_char c :: nat) < 128)"

lemma is_ascii_simps [simp]:
  "is_ascii []" "is_ascii (c # s) \<longleftrightarrow> (of_char c :: nat) < 128 \<and> is_ascii s"
  "is_ascii (s @ t) \<longleftrightarrow> is_ascii s \<and> is_ascii t"
  by (auto simp: is_ascii_def)

lemma byte_string_ascii: "(of_char c :: nat) < 128 \<Longrightarrow> byte_string c = [c]"
  by (simp add: byte_string_def)

lemma split_loop_word:
  "is_ascii s \<Longrightarrow> sep \<notin> set s \<Longrightarrow> split_loop sep cur (s @ t) = split_loop sep (cur @ s) t"
  by (induction s arbitrary: cur) (auto simp: byte_string_ascii)

lemma split_loop_join:
  assumes "\<forall>p \<in> set (x # ps). is_ascii p \<and> CHR '';'' \<notin> set p" and "last (x # ps) \<noteq> []"
  shows "split_loop (CHR '';'') cur (join ''; '' (x # ps)) =
           (cur @ x) # map ((#) (CHR '' '')) ps"
  using assms
proof (induction ps arbitrary: x cur)
  case Nil
  then show ?case using split_loop_word [of x "CHR '';''" cur "[]"] by simp
next
  case (Cons y ps)
  have "split_loop (CHR '';'') cur (join ''; '' (x # y # ps)) =
        (cur @ x) # split_loop (CHR '';'') '' '' (join ''; '' (y # ps))"
    using Cons.prems split_loop_word [of x "CHR '';''" cur] by (simp add: byte_string_def)
  then show ?case using Cons.IH [of y "'' ''"] Cons.prems by simp
qed

lemma indexOf_byte: "indexOf s [c] = index_byte s c"
  by (induction s) (auto simp: has_prefix_def)

lemma indexOf_scheme: "CHR '':'' \<notin> set s \<Longrightarrow> indexOf (s @ ''://'' @ t) ''://'' = Some (length s)"
  by (induction s) (auto simp: has_prefix_def)

lemma trim_blank_Cons [simp]: "is_blank c \<Longrightarrow> trim (c # s) = trim s"
  by (simp add: trim_def trim_fn_def)

lemma trim_clean: "s = [] \<or> (\<not> is_blank (hd s) \<and> \<not> is_blank (last s)) \<Longrightarrow> trim s = s"
  unfolding trim_def by (rule trim_fn_id)

lemma toLowerASCII_to_lower: "toLowerASCII = to_lower"
  by (rule ext) (simp add: toLowerASCII_def to_lower_def)

lemma parseInt_loop_digits:
  "parse_uint_loop maxv n s = Inr v \<Longrightarrow> maxv < 2 ^ 63 \<Longrightarrow> parseInt_loop (int n) s = int v"
proof (induction maxv n s rule: parse_uint_loop.induct)
  case (2 maxv n c cs)
  then have d: "is_digit c" "n * 10 + digit_val c \<le> maxv" by (auto split: if_splits)
  then have "int64 (int n * 10 + int (digit_val c)) = int (n * 10 + digit_val c)"
    using "2.prems"(2) by (subst int64_id) auto
  with 2 d show ?case by (simp add: not_le)
qed simp

lemma parseIntSimple_show: "n < 2 ^ 63 \<Longrightarrow> parseIntSimple (show_nat n) = int n"
proof -
  assume n: "n < 2 ^ 63"
  have "is_digit (hd (show_nat n))" by (meson hd_in_set show_nat_digits show_nat_neq_Nil)
  then have "hd (show_nat n) \<noteq> CHR ''-''" by (auto simp: is_digit_def)
  moreover have "parseInt_loop (int 0) (show_nat n) = int n"
    using n by (intro parseInt_loop_digits [of n 0]) (simp_all add: parse_show_nat_loop)
  ultimately show ?thesis by (simp add: parseIntSimple_def)
qed

section \<open>Printing a cookie\<close>

text \<open>
  A server's \<^verbatim>\<open>Set-Cookie\<close> line for a cookie, in the usual order of attributes: the
  specification that the parser is measured against.
\<close>

definition set_cookie_attrs :: "cookie_data \<Rightarrow> string list" where
  "set_cookie_attrs c =
     (if cd_Domain c = [] then [] else [''Domain='' @ cd_Domain c]) @
     (if cd_Path c = [] then [] else [''Path='' @ cd_Path c]) @
     (if cd_MaxAge c = 0 then [] else [''Max-Age='' @ show_nat (nat (cd_MaxAge c))]) @
     (if cd_Secure c then [''Secure''] else []) @
     (if cd_HttpOnly c then [''HttpOnly''] else []) @
     (if cd_SameSite c = [] then [] else [''SameSite='' @ cd_SameSite c])"

definition set_cookie_line :: "cookie_data \<Rightarrow> string" where
  "set_cookie_line c = join ''; '' ((cd_Name c @ ''='' @ cd_Value c) # set_cookie_attrs c)"

definition clean_text :: "string \<Rightarrow> bool" where
  "clean_text s \<longleftrightarrow> is_ascii s \<and> CHR '';'' \<notin> set s \<and>
     (s = [] \<or> (\<not> is_blank (hd s) \<and> \<not> is_blank (last s)))"

definition clean_cookie :: "cookie_data \<Rightarrow> bool" where
  "clean_cookie c \<longleftrightarrow>
     cd_Name c \<noteq> [] \<and> CHR ''='' \<notin> set (cd_Name c) \<and> clean_text (cd_Name c) \<and> clean_text (cd_Value c) \<and>
     clean_text (cd_Domain c) \<and> clean_text (cd_Path c) \<and>
     0 \<le> cd_MaxAge c \<and> cd_MaxAge c < 2 ^ 63 \<and>
     cd_SameSite c \<in> {[], ''Strict'', ''Lax'', ''None''} \<and>
     \<not> cd_HostOnly c \<and> cd_Expires c = None \<and> cd_CreatedAt c = 0"

lemma clean_trim: "clean_text s \<Longrightarrow> trim s = s"
  by (auto simp: clean_text_def intro: trim_clean)

lemma clean_text_append:
  assumes "clean_text s" and "clean_text t" and "s \<noteq> []" and "t \<noteq> []"
  shows "clean_text (s @ t)"
  using assms by (auto simp: clean_text_def)

lemma trim_assign:
  assumes "clean_text n" and "clean_text v" and "n \<noteq> []"
  shows "trim (n @ CHR ''='' # v) = n @ CHR ''='' # v"
proof (rule trim_clean)
  show "n @ CHR ''='' # v = [] \<or>
      (\<not> is_blank (hd (n @ CHR ''='' # v)) \<and> \<not> is_blank (last (n @ CHR ''='' # v)))"
    using assms by (cases "v = []") (auto simp: clean_text_def is_blank_def)
qed

lemma parseAttr_blank [simp]: "parseAttr tp (CHR '' '' # p) c = parseAttr tp p c"
  by (simp add: parseAttr_def is_blank_def)

lemma fold_parseAttr_blank: "fold (parseAttr tp) (map ((#) (CHR '' '')) ps) c = fold (parseAttr tp) ps c"
  by (induction ps arbitrary: c) auto

lemma lower_eq_char: "to_lower (n @ CHR ''='' # v) = w \<Longrightarrow> CHR ''='' \<in> set w"
  by (auto simp: to_lower_def lower_char_def)

lemma parseAttr_assign:
  assumes "clean_text n" and "clean_text v" and "n \<noteq> []" and "CHR ''='' \<notin> set n"
  shows "parseAttr tp (n @ CHR ''='' # v) cookie =
     (let attrName = to_lower n in
      if attrName = ''domain'' then cookie\<lparr>cd_Domain := v\<rparr>
      else if attrName = ''path'' then cookie\<lparr>cd_Path := v\<rparr>
      else if attrName = ''expires'' then
        (case parseHTTPDate tp v of None \<Rightarrow> cookie | Some t \<Rightarrow> cookie\<lparr>cd_Expires := Some t\<rparr>)
      else if attrName = ''max-age'' then cookie\<lparr>cd_MaxAge := parseIntSimple v\<rparr>
      else if attrName = ''samesite'' then cookie\<lparr>cd_SameSite := normalizeSameSite v\<rparr>
      else cookie)"
proof -
  have "to_lower (n @ CHR ''='' # v) \<noteq> ''secure''" "to_lower (n @ CHR ''='' # v) \<noteq> ''httponly''"
    using lower_eq_char [of n v] by fastforce+
  moreover have "trim n = n" "trim v = v" "trim (n @ CHR ''='' # v) = n @ CHR ''='' # v"
    using assms by (simp_all add: clean_trim trim_assign)
  ultimately show ?thesis
    using assms by (simp add: parseAttr_def indexOf_byte index_byte_append toLowerASCII_to_lower Let_def)
qed

lemma clean_show_nat: "clean_text (show_nat n)"
proof -
  have d: "\<forall>c \<in> set (show_nat n). is_digit c" by (rule show_nat_digits)
  have nb: "is_digit c \<Longrightarrow> \<not> is_blank c \<and> c \<noteq> CHR '';'' \<and> (of_char c :: nat) < 128" for c
    by (auto simp: is_digit_def is_blank_def)
  from d have "is_digit (hd (show_nat n))" "is_digit (last (show_nat n))" by simp_all
  with d nb show ?thesis by (auto simp: clean_text_def is_ascii_def)
qed

lemma clean_literals:
  "clean_text ''Domain''" "clean_text ''Path''" "clean_text ''Max-Age''" "clean_text ''SameSite''"
  "clean_text ''Secure''" "clean_text ''HttpOnly''"
  by (simp_all add: clean_text_def is_blank_def)

lemma attr_names:
  "to_lower ''Domain'' = ''domain''" "to_lower ''Path'' = ''path''" "to_lower ''Max-Age'' = ''max-age''"
  "to_lower ''SameSite'' = ''samesite''" "to_lower ''Secure'' = ''secure''"
  "to_lower ''HttpOnly'' = ''httponly''" "to_lower ''Strict'' = ''strict''" "to_lower ''Lax'' = ''lax''"
  "to_lower ''None'' = ''none''"
  by code_simp+

lemma attr_Domain: "clean_text v \<Longrightarrow> parseAttr tp (''Domain='' @ v) c = c\<lparr>cd_Domain := v\<rparr>"
  using parseAttr_assign [of "''Domain''" v tp c] clean_literals by (simp add: attr_names)

lemma attr_Path: "clean_text v \<Longrightarrow> parseAttr tp (''Path='' @ v) c = c\<lparr>cd_Path := v\<rparr>"
  using parseAttr_assign [of "''Path''" v tp c] clean_literals by (simp add: attr_names)

lemma attr_MaxAge:
  "n < 2 ^ 63 \<Longrightarrow> parseAttr tp (''Max-Age='' @ show_nat n) c = c\<lparr>cd_MaxAge := int n\<rparr>"
  using parseAttr_assign [of "''Max-Age''" "show_nat n" tp c] clean_literals clean_show_nat [of n]
  by (simp add: attr_names parseIntSimple_show)

lemma attr_SameSite:
  "v \<in> {''Strict'', ''Lax'', ''None''} \<Longrightarrow> parseAttr tp (''SameSite='' @ v) c = c\<lparr>cd_SameSite := v\<rparr>"
  using parseAttr_assign [of "''SameSite''" v tp c] clean_literals
  by (auto simp: attr_names normalizeSameSite_def toLowerASCII_to_lower clean_text_def is_blank_def)

lemma attr_flags:
  "parseAttr tp ''Secure'' c = c\<lparr>cd_Secure := True\<rparr>" "parseAttr tp ''HttpOnly'' c = c\<lparr>cd_HttpOnly := True\<rparr>"
  using clean_literals by (simp_all add: parseAttr_def clean_trim toLowerASCII_to_lower attr_names)

lemmas attr_laws = attr_Domain [simplified] attr_Path [simplified] attr_MaxAge [simplified]
  attr_SameSite [simplified] attr_flags

lemma fold_set_cookie_attrs:
  "clean_cookie c \<Longrightarrow>
     fold (parseAttr tp) (set_cookie_attrs c) (empty_cookie\<lparr>cd_Name := n, cd_Value := v\<rparr>) =
     c\<lparr>cd_Name := n, cd_Value := v\<rparr>"
  by (cases c) (auto simp: set_cookie_attrs_def clean_cookie_def empty_cookie_def attr_laws)

definition clean_attr :: "string \<Rightarrow> bool" where
  "clean_attr p \<longleftrightarrow> is_ascii p \<and> CHR '';'' \<notin> set p \<and> p \<noteq> [] \<and> \<not> is_blank (last p)"

lemma clean_attr_append:
  "is_ascii k \<Longrightarrow> CHR '';'' \<notin> set k \<Longrightarrow> clean_text v \<Longrightarrow> v \<noteq> [] \<Longrightarrow> clean_attr (k @ v)"
  by (simp add: clean_attr_def clean_text_def)

lemmas clean_attr_forms =
  clean_attr_append [of "''Domain=''", simplified] clean_attr_append [of "''Path=''", simplified]
  clean_attr_append [of "''SameSite=''", simplified] clean_attr_append [of "''Max-Age=''", simplified]

lemma set_cookie_attrs_clean:
  assumes "clean_cookie c" and "p \<in> set (set_cookie_attrs c)"
  shows "clean_attr p"
proof -
  have "clean_attr ''Secure''" "clean_attr ''HttpOnly''" "clean_text (cd_SameSite c)"
    using assms(1) by (auto simp: clean_attr_def clean_cookie_def clean_text_def is_blank_def)
  then have "\<forall>a \<in> set (set_cookie_attrs c). clean_attr a"
    using assms(1) clean_show_nat
    by (simp add: set_cookie_attrs_def clean_cookie_def ball_Un clean_attr_forms)
  with assms(2) show ?thesis by blast
qed

lemma set_cookie_line_ends:
  assumes c: "clean_cookie c"
  shows "\<not> is_blank (hd (set_cookie_line c)) \<and> \<not> is_blank (last (set_cookie_line c))"
proof -
  let ?parts = "(cd_Name c @ ''='' @ cd_Value c) # set_cookie_attrs c"
  have n: "cd_Name c \<noteq> []" "clean_text (cd_Name c)" "clean_text (cd_Value c)"
    using c by (simp_all add: clean_cookie_def)
  have "last ?parts \<noteq> []" "\<not> is_blank (last (last ?parts))"
    using set_cookie_attrs_clean [OF c] n
    by (auto simp: clean_text_def clean_attr_def is_blank_def)
  then have "\<not> is_blank (last (set_cookie_line c))"
    unfolding set_cookie_line_def by (simp add: last_join del: last.simps join.simps)
  moreover have "hd (set_cookie_line c) = hd (cd_Name c)"
    unfolding set_cookie_line_def using n(1) by (simp add: hd_join del: join.simps)
  ultimately show ?thesis using n by (simp add: clean_text_def)
qed

lemma parseSetCookieLine_clean:
  assumes c: "clean_cookie c"
  shows "parseSetCookieLine tp (set_cookie_line c) = Some c"
proof -
  let ?first = "cd_Name c @ ''='' @ cd_Value c"
  let ?parts = "?first # set_cookie_attrs c"
  have n: "cd_Name c \<noteq> []" "CHR ''='' \<notin> set (cd_Name c)" "clean_text (cd_Name c)" "clean_text (cd_Value c)"
    using c by (simp_all add: clean_cookie_def)
  have parts: "\<forall>p \<in> set ?parts. is_ascii p \<and> CHR '';'' \<notin> set p" "last ?parts \<noteq> []"
    using set_cookie_attrs_clean [OF c] n by (auto simp: clean_text_def clean_attr_def)
  have split: "splitBySemicolon (set_cookie_line c) = ?first # map ((#) (CHR '' '')) (set_cookie_attrs c)"
    unfolding splitBySemicolon_def set_cookie_line_def using split_loop_join [OF parts, of "[]"] by simp
  have ends: "\<not> is_blank (hd (set_cookie_line c)) \<and> \<not> is_blank (last (set_cookie_line c))"
    using set_cookie_line_ends [OF c] by simp
  then have line: "trim (set_cookie_line c) = set_cookie_line c" by (simp add: trim_clean)
  have ne: "set_cookie_line c \<noteq> []"
    using n(1) by (cases "set_cookie_attrs c") (simp_all add: set_cookie_line_def)
  have "c\<lparr>cd_Name := cd_Name c, cd_Value := cd_Value c\<rparr> = c" by (cases c) simp
  then show ?thesis
    unfolding parseSetCookieLine_def Let_def line split
    using ne n fold_set_cookie_attrs [OF c, of tp]
    by (simp add: trim_assign clean_trim indexOf_byte index_byte_append fold_parseAttr_blank)
qed

section \<open>Properties\<close>

text \<open>
  Lemma. Reading a \<^verbatim>\<open>Set-Cookie\<close> line gives back the cookie the server
  printed: name, value, domain, path, Max-Age, Secure, HttpOnly and SameSite
  survive for every cookie of ASCII fields without separators.
\<close>

theorem set_cookie_roundtrip:
  assumes "clean_cookie c"
  shows "parseSetCookieLine tp (set_cookie_line c) = Some c"
  using assms by (rule parseSetCookieLine_clean)

definition plain_cookie :: cookie_data where
  "plain_cookie = empty_cookie\<lparr>cd_Name := ''sid'', cd_Value := ''a=b'', cd_Domain := ''example.com'',
     cd_Path := ''/app'', cd_MaxAge := 3600, cd_Secure := True, cd_SameSite := ''Lax''\<rparr>"

theorem set_cookie_roundtrip_witness:
  "set_cookie_line plain_cookie = ''sid=a=b; Domain=example.com; Path=/app; Max-Age=3600; Secure; SameSite=Lax'' \<and>
   parseSetCookieLine (\<lambda>_ _. None) (set_cookie_line plain_cookie) = Some plain_cookie"
proof
  show "set_cookie_line plain_cookie =
      ''sid=a=b; Domain=example.com; Path=/app; Max-Age=3600; Secure; SameSite=Lax''"
    by code_simp
  have "clean_cookie plain_cookie" by code_simp
  then show "parseSetCookieLine (\<lambda>_ _. None) (set_cookie_line plain_cookie) = Some plain_cookie"
    by (rule set_cookie_roundtrip)
qed

text \<open>How the host part and the path part of a URL are cut, after the scheme.\<close>

lemma cut_takeWhile: "(case index_byte s c of None \<Rightarrow> s | Some i \<Rightarrow> take i s) = takeWhile (\<lambda>x. x \<noteq> c) s"
proof (induction s)
  case (Cons x s)
  then show ?case by (cases "x = c") (auto simp del: index_byte_None split: option.splits)
qed simp

lemma takeWhile_cut: "c \<notin> set s \<Longrightarrow> takeWhile (\<lambda>x. x \<noteq> c) (s @ t) = s @ takeWhile (\<lambda>x. x \<noteq> c) t"
  by (rule takeWhile_append2) auto

lemma takeWhile_cut_Nil: "c \<notin> set s \<Longrightarrow> takeWhile (\<lambda>x. x \<noteq> c) s = s"
  by (simp add: takeWhile_eq_all_conv) blast

lemma drop_scheme:
  "CHR '':'' \<notin> set scheme \<Longrightarrow>
     (case indexOf (scheme @ ''://'' @ rest) ''://'' of
        None \<Rightarrow> scheme @ ''://'' @ rest
      | Some idx \<Rightarrow> drop (idx + 3) (scheme @ ''://'' @ rest)) = rest"
  using indexOf_scheme [of scheme rest] by simp

lemma extractHost_url:
  assumes "CHR '':'' \<notin> set scheme"
    and "host \<noteq> []" and "hd host \<noteq> CHR ''[''" and "CHR ''/'' \<notin> set host" and "CHR '':'' \<notin> set host"
    and "port = [] \<or> (\<exists>ds. port = CHR '':'' # ds \<and> CHR ''/'' \<notin> set ds)"
  shows "extractHost (scheme @ ''://'' @ host @ port @ CHR ''/'' # rest) = host"
proof -
  have "CHR ''/'' \<notin> set (host @ port)" using assms by auto
  then have "takeWhile (\<lambda>x. x \<noteq> CHR ''/'') (host @ port @ CHR ''/'' # rest) = host @ port"
    using takeWhile_cut [of "CHR ''/''" "host @ port"] by simp
  then show ?thesis
    unfolding extractHost_def Let_def drop_scheme [OF assms(1)] indexOf_byte cut_takeWhile
    using assms(2,3,5,6) by (elim disjE exE conjE) (simp_all add: takeWhile_cut takeWhile_cut_Nil)
qed

lemma extractPath_url:
  assumes "CHR '':'' \<notin> set scheme" and "CHR ''/'' \<notin> set authority"
    and "CHR ''?'' \<notin> set path" and "CHR ''#'' \<notin> set path"
    and "tail = [] \<or> (\<exists>q. tail = CHR ''?'' # q) \<or> (\<exists>f. tail = CHR ''#'' # f \<and> CHR ''?'' \<notin> set f)"
  shows "extractPath (scheme @ ''://'' @ authority @ CHR ''/'' # path @ tail) = CHR ''/'' # path"
proof -
  have start: "index_byte (authority @ CHR ''/'' # path @ tail) (CHR ''/'') = Some (length authority)"
    using assms by (intro index_byte_append) simp
  have q: "CHR ''?'' \<notin> set (CHR ''/'' # path)" and f: "CHR ''#'' \<notin> set (CHR ''/'' # path)"
    using assms by simp_all
  have "takeWhile (\<lambda>x. x \<noteq> CHR ''#'') (takeWhile (\<lambda>x. x \<noteq> CHR ''?'') ((CHR ''/'' # path) @ tail)) = CHR ''/'' # path"
    using assms(3-5) by (elim disjE exE conjE) (simp_all add: takeWhile_cut takeWhile_cut_Nil)
  then show ?thesis
    unfolding extractPath_def Let_def drop_scheme [OF assms(1)] indexOf_byte start option.case cut_takeWhile
    by simp
qed

text \<open>
  Lemma. The host and the path of a URL are cut out of it as written: for
  \<open>scheme://host[:port]/path[?query|#fragment]\<close> cookies are chosen for \<open>host\<close> and
  \<open>/path\<close>.
\<close>

theorem url_host_and_path:
  assumes "CHR '':'' \<notin> set scheme"
    and "host \<noteq> []" and "hd host \<noteq> CHR ''[''" and "CHR ''/'' \<notin> set host" and "CHR '':'' \<notin> set host"
    and "port = [] \<or> (\<exists>ds. port = CHR '':'' # ds \<and> CHR ''/'' \<notin> set ds)"
    and "CHR ''?'' \<notin> set path" and "CHR ''#'' \<notin> set path"
    and "tail = [] \<or> (\<exists>q. tail = CHR ''?'' # q) \<or> (\<exists>f. tail = CHR ''#'' # f \<and> CHR ''?'' \<notin> set f)"
    and "url = scheme @ ''://'' @ host @ port @ CHR ''/'' # path @ tail"
  shows "extractHost url = host \<and> extractPath url = CHR ''/'' # path"
proof
  show "extractHost url = host"
    using extractHost_url [of scheme host port "path @ tail"] assms by simp
  have "CHR ''/'' \<notin> set (host @ port)" using assms by auto
  then show "extractPath url = CHR ''/'' # path"
    using extractPath_url [of scheme "host @ port" path tail] assms by simp
qed

theorem url_host_and_path_witness:
  "extractHost ''https://api.example.com:8443/v1/a?x=/#y'' = ''api.example.com'' \<and>
   extractPath ''https://api.example.com:8443/v1/a?x=/#y'' = ''/v1/a''"
  by (rule url_host_and_path [of "''https''" "''api.example.com''" "'':8443''" "''v1/a''" "''?x=/#y''"])
    simp_all

section \<open>From a response to a later request\<close>

text \<open>What the loop of \<^verbatim>\<open>extractCookies\<close> does with one header value.\<close>

definition store_line ::
    "(string \<Rightarrow> string \<Rightarrow> time option) \<Rightarrow> time \<Rightarrow> string \<Rightarrow> bool \<Rightarrow> string \<Rightarrow> cookie_jar \<Rightarrow> cookie_jar" where
  "store_line tp now host secure line j =
     (case parseSetCookieLine tp line of None \<Rightarrow> j | Some c \<Rightarrow> jar_Set now host c secure j)"

lemma extractCookies_fold:
  "extractCookies tp now headers url j =
     fold (store_line tp now (extractHost url) (isSecureURL url))
       (case map_of headers ''set-cookie'' of
          Some v \<Rightarrow> v | None \<Rightarrow> (case map_of headers ''Set-Cookie'' of Some v \<Rightarrow> v | None \<Rightarrow> [])) j"
  unfolding extractCookies_def store_line_def Let_def by (simp split: option.split)

lemma store_line_ok: "jar_ok j \<Longrightarrow> jar_ok (store_line tp now h s l j)"
  by (simp add: store_line_def jar_ok_Set split: option.split)

lemma store_line_reachable: "jar_reachable j \<Longrightarrow> jar_reachable (store_line tp now h s l j)"
  by (simp add: store_line_def reach_Set split: option.split)

lemma fold_store_line_reachable:
  "jar_reachable j \<Longrightarrow> jar_reachable (fold (store_line tp now h s) ls j)"
  by (induction ls arbitrary: j) (auto intro: store_line_reachable)

lemma extractCookies_reachable: "jar_reachable j \<Longrightarrow> jar_reachable (extractCookies tp now headers url j)"
  unfolding extractCookies_fold by (rule fold_store_line_reachable)

lemma fold_store_line_isolation:
  assumes "jar_ok j"
    and "c \<in> set (jar_Get now h p secure (fold (store_line tp now0 h0 s0) ls j))"
    and "c \<notin> set (jar_Get now h p secure j)"
  shows "normalizeHost h = normalizeHost h0 \<or>
    (\<exists>d. rfc_domain_match (normalizeHost h0) d \<and> rfc_domain_match (normalizeHost h) d)"
  using assms
proof (induction ls arbitrary: j)
  case (Cons l ls)
  show ?case
  proof (cases "c \<in> set (jar_Get now h p secure (store_line tp now0 h0 s0 l j))")
    case True
    then obtain ck where "parseSetCookieLine tp l = Some ck"
        "c \<in> set (jar_Get now h p secure (jar_Set now0 h0 ck s0 j))"
      using Cons.prems(3) by (auto simp: store_line_def split: option.splits)
    then show ?thesis using jar_Set_isolation Cons.prems(1,3) by blast
  next
    case False
    then show ?thesis using Cons.IH [OF store_line_ok] Cons.prems by simp
  qed
qed simp


definition sample_headers :: "(string, string list) gomap" where
  "sample_headers = [(''set-cookie'', [''sid=1; Domain=example.com; Path=/'', ''t=2; Domain=evil.org''])]"


text \<open>
  Lemma. A cookie accepted from a response is sent back: after
  \<^verbatim>\<open>extractCookies\<close> reads a line printed for a host-only cookie of an HTTPS page, the next
  request to the same host under the cookie's path carries exactly the pair
  \<open>name=value\<close>, starting from an empty jar.
\<close>

theorem response_cookie_sent_back:
  assumes "clean_cookie c" and "cd_Domain c = []" and "cd_Path c = CHR ''/'' # p"
    and "isSecureURL url"
    and "rfc_path_match path (cd_Path c)"
  shows "BuildCookieHeader now (extractHost url) path True
           (extractCookies tp now0 [(''Set-Cookie'', [set_cookie_line c])] url NewCookieJar) =
         cd_Name c @ ''='' @ cd_Value c"
proof -
  let ?h = "normalizeHost (extractHost url)"
  let ?new = "set_stored now0 ?h c"
  have "path \<noteq> []" using assms(3,5) by (auto simp: rfc_path_match_def has_prefix_iff)
  have "jar_cookies (extractCookies tp now0 [(''Set-Cookie'', [set_cookie_line c])] url NewCookieJar) =
      [(?h, [(cookieKey (cd_Path c) (cd_Name c), ?new)])]"
    using assms parseSetCookieLine_clean [OF assms(1)]
    by (simp add: extractCookies_fold store_line_def jar_Set_def set_stored_def put_cookie_def
        NewCookieJar_def Let_def)
  moreover have "cookie_applies now ?h path True ?h ?new"
    using assms by (simp add: cookie_applies_def set_stored_def isPathMatch_rfc cookie_expired_def
        clean_cookie_def)
  ultimately show ?thesis
    using \<open>path \<noteq> []\<close>
    by (simp add: BuildCookieHeader_def jar_Get_def jar_matches_def sort_slice_def set_stored_def)
qed

theorem response_cookie_sent_back_witness:
  "BuildCookieHeader 9 (extractHost ''https://example.com:8443/login'') ''/app/x'' True
     (extractCookies (\<lambda>_ _. None) 5 [(''Set-Cookie'', [set_cookie_line (plain_cookie\<lparr>cd_Domain := []\<rparr>)])]
        ''https://example.com:8443/login'' NewCookieJar) = ''sid=a=b''"
proof -
  have "cd_Name plain_cookie @ ''='' @ cd_Value plain_cookie = ''sid=a=b''" by code_simp
  moreover have "clean_cookie (plain_cookie\<lparr>cd_Domain := []\<rparr>)" by code_simp
  moreover have "cd_Path (plain_cookie\<lparr>cd_Domain := []\<rparr>) = CHR ''/'' # ''app''" by code_simp
  moreover have "rfc_path_match ''/app/x'' ''/app''"
    by (simp add: isPathMatch_rfc [symmetric] isPathMatch_def has_prefix_def)
  moreover have "isSecureURL ''https://example.com:8443/login''" by code_simp
  ultimately show ?thesis
    using response_cookie_sent_back [of "plain_cookie\<lparr>cd_Domain := []\<rparr>" "''app''"
        "''https://example.com:8443/login''" "''/app/x''" 9 "\<lambda>_ _. None" 5] by simp
qed

text \<open>
  Lemma. Cookies of one IPv6 host leak to another: \<^verbatim>\<open>extractHost\<close> drops the
  brackets of an IPv6 literal and \<^verbatim>\<open>normalizeHost\<close> then takes the last group for a
  port, so a host-only cookie set by \<open>[2001:db8::1]\<close> is sent to \<open>[2001:db8::2]\<close>.
\<close>

theorem ipv6_cookie_leak:
  "BuildCookieHeader 9 (extractHost ''https://[2001:db8::2]/'') (extractPath ''https://[2001:db8::2]/'') True
     (extractCookies (\<lambda>_ _. None) 5 [(''set-cookie'', [''sid=secret; Secure''])]
        ''https://[2001:db8::1]/'' NewCookieJar) = ''sid=secret''"
  by code_simp

text \<open>
  Lemma. The user part of a URL is taken for its host: with a password in the
  URL the host is the user name, without one it is the whole authority. The
  response of \<open>evil.org\<close> to \<open>https://bank.example:pw@evil.org/\<close> can therefore set
  a cookie that is sent to \<open>bank.example\<close>.
\<close>

theorem userinfo_taken_for_host:
  "extractHost ''https://bank.example:pw@evil.org/'' = ''bank.example'' \<and>
   extractHost ''https://user@example.com/'' = ''user@example.com'' \<and>
   BuildCookieHeader 9 (extractHost ''https://bank.example/'') ''/'' True
     (extractCookies (\<lambda>_ _. None) 5 [(''set-cookie'', [''sid=fixed; Domain=bank.example''])]
        ''https://bank.example:pw@evil.org/'' NewCookieJar) = ''sid=fixed''"
  by code_simp

lemma split_loop_bytes:
  "sep \<notin> set s \<Longrightarrow> split_loop sep cur s =
     (if cur @ concat (map byte_string s) = [] then [] else [cur @ concat (map byte_string s)])"
  by (induction s arbitrary: cur) auto

lemma length_byte_string: "length (byte_string c) = (if (of_char c :: nat) < 128 then 1 else 2)"
  by (simp add: byte_string_def Let_def)

lemma length_bytes_le: "length s \<le> length (concat (map byte_string s))"
  by (induction s) (auto simp: length_byte_string)

lemma bytes_fixed_iff: "concat (map byte_string s) = s \<longleftrightarrow> is_ascii s"
proof (induction s)
  case (Cons c s)
  show ?case
  proof (cases "(of_char c :: nat) < 128")
    case True
    then show ?thesis using Cons by (simp add: byte_string_ascii)
  next
    case False
    then have "length (concat (map byte_string (c # s))) > length (c # s)"
      using length_bytes_le [of s] by (simp add: length_byte_string)
    then have "concat (map byte_string (c # s)) \<noteq> c # s" by (metis less_irrefl)
    with False show ?thesis by simp
  qed
qed simp

text \<open>
  Lemma. A cookie survives the splitter exactly when it is ASCII: each byte
  goes through \<^verbatim>\<open>string(s[i])\<close>, which encodes it as a code point, so a byte from
  128 on is replaced by two bytes and the value stored is not the one received.
\<close>

theorem splitBySemicolon_ascii_only:
  assumes "CHR '';'' \<notin> set s" and "s \<noteq> []"
  shows "splitBySemicolon s = [concat (map byte_string s)] \<and> (splitBySemicolon s = [s] \<longleftrightarrow> is_ascii s)"
proof -
  have "concat (map byte_string s) \<noteq> []"
    using length_bytes_le [of s] assms(2) by (metis length_0_conv le_zero_eq)
  then have "splitBySemicolon s = [concat (map byte_string s)]"
    using assms by (simp add: splitBySemicolon_def split_loop_bytes)
  then show ?thesis by (simp add: bytes_fixed_iff)
qed

theorem splitBySemicolon_ascii_only_witness:
  "splitBySemicolon [CHR ''v'', CHR ''='', CHR 0xC3, CHR 0xA9] \<noteq> [[CHR ''v'', CHR ''='', CHR 0xC3, CHR 0xA9]] \<and>
   splitBySemicolon ''v=e'' = [''v=e'']"
  using splitBySemicolon_ascii_only [of "[CHR ''v'', CHR ''='', CHR 0xC3, CHR 0xA9]", THEN conjunct2]
    splitBySemicolon_ascii_only [of "''v=e''", THEN conjunct2]
  by simp

end
