(* ===== verification/Go_HTTP.thy ===== *)
theory Go_HTTP
  imports Go_Prelude
begin

text \<open>
  What the program uses of \<^verbatim>\<open>net/url\<close> and of the headers of \<^verbatim>\<open>net/http\<close>. Of package
  \<^verbatim>\<open>net/url\<close> the parser, \<^verbatim>\<open>String\<close> and \<^verbatim>\<open>ResolveReference\<close> are the fields of the argument
  \<open>ul\<close>; \<^verbatim>\<open>Hostname\<close> and \<^verbatim>\<open>Port\<close> are modelled. Header maps keep the order of
  insertion; the methods of \<^verbatim>\<open>http.Header\<close> bring a key into its canonical form.
\<close>

type_synonym headers = "(string, string list) gomap"

section \<open>URLs\<close>

record url =
  url_Scheme :: string
  url_User :: "string option"
  url_Host :: string
  url_Path :: string
  url_RawPath :: string
  url_RawQuery :: string
  url_Fragment :: string
  url_RawFragment :: string

record url_lib =
  ul_Parse :: "string \<Rightarrow> url option"
  ul_String :: "url \<Rightarrow> string"
  ul_ResolveReference :: "url \<Rightarrow> url \<Rightarrow> url"

definition validOptionalPort :: "string \<Rightarrow> bool" where
  "validOptionalPort port \<longleftrightarrow>
     (case port of [] \<Rightarrow> True | c # ds \<Rightarrow> c = CHR '':'' \<and> list_all is_digit ds)"

definition url_split_host :: "string \<Rightarrow> string \<times> string" where
  "url_split_host hostPort =
     (let (host, port) =
            (case last_index_byte hostPort (CHR '':'') of
               None \<Rightarrow> (hostPort, [])
             | Some colon \<Rightarrow>
                 if validOptionalPort (drop colon hostPort)
                 then (take colon hostPort, drop (colon + 1) hostPort) else (hostPort, []))
      in (if has_prefix host ''['' \<and> has_suffix host '']'' then drop 1 (take (length host - 1) host) else host, port))"

definition url_Hostname :: "url \<Rightarrow> string" where
  "url_Hostname u = fst (url_split_host (url_Host u))"

definition url_Port :: "url \<Rightarrow> string" where
  "url_Port u = snd (url_split_host (url_Host u))"

section \<open>Headers\<close>

text \<open>The bytes of a token, and the canonical form of a key: \<^verbatim>\<open>CanonicalMIMEHeaderKey\<close>.\<close>

definition is_upper :: "char \<Rightarrow> bool" where
  "is_upper c \<longleftrightarrow> 65 \<le> (of_char c :: nat) \<and> of_char c \<le> (90 :: nat)"

definition is_lower :: "char \<Rightarrow> bool" where
  "is_lower c \<longleftrightarrow> 97 \<le> (of_char c :: nat) \<and> of_char c \<le> (122 :: nat)"

definition token_byte :: "char \<Rightarrow> bool" where
  "token_byte c \<longleftrightarrow> is_upper c \<or> is_lower c \<or> is_digit c \<or> c \<in> set ''!#$%&*+-.^_`|~'' \<or> c = CHR 0x27"

definition upper_char :: "char \<Rightarrow> char" where
  "upper_char c = (if is_lower c then char_of ((of_char c :: nat) - 32) else c)"

fun canonical_loop :: "bool \<Rightarrow> string \<Rightarrow> string" where
  "canonical_loop up [] = []"
| "canonical_loop up (c # cs) = (if up then upper_char c else lower_char c) # canonical_loop (c = CHR ''-'') cs"

definition CanonicalHeaderKey :: "string \<Rightarrow> string" where
  "CanonicalHeaderKey s = (if list_all token_byte s then canonical_loop True s else s)"

definition header_Set :: "string \<Rightarrow> string \<Rightarrow> headers \<Rightarrow> headers" where
  "header_Set key value h = AList.update (CanonicalHeaderKey key) [value] h"

definition header_Add :: "string \<Rightarrow> string \<Rightarrow> headers \<Rightarrow> headers" where
  "header_Add key value h =
     (let k = CanonicalHeaderKey key in
      AList.update k ((case map_of h k of Some vs \<Rightarrow> vs | None \<Rightarrow> []) @ [value]) h)"

definition header_Get :: "headers \<Rightarrow> string \<Rightarrow> string" where
  "header_Get h key = (case map_of h (CanonicalHeaderKey key) of Some (v # _) \<Rightarrow> v | _ \<Rightarrow> [])"

definition header_Del :: "string \<Rightarrow> headers \<Rightarrow> headers" where
  "header_Del key h = AList.delete (CanonicalHeaderKey key) h"

lemma map_of_header_Set: "map_of (header_Set k v h) x = (if x = CanonicalHeaderKey k then Some [v] else map_of h x)"
  by (simp add: header_Set_def)

lemma map_of_header_Add:
  "map_of (header_Add k v h) x =
   (if x = CanonicalHeaderKey k then Some ((case map_of h x of Some vs \<Rightarrow> vs | None \<Rightarrow> []) @ [v]) else map_of h x)"
  by (simp add: header_Add_def Let_def)

lemma map_of_header_Del: "map_of (header_Del k h) x = (if x = CanonicalHeaderKey k then None else map_of h x)"
  by (simp add: header_Del_def)

lemma lower_upper: "lower_char (upper_char c) = lower_char c"
proof (cases "is_lower c")
  case True
  let ?n = "of_char c :: nat"
  have n: "97 \<le> ?n" "?n \<le> 122" using True by (auto simp: is_lower_def)
  then have u: "(of_char (upper_char c) :: nat) = ?n - 32" using True by (simp add: upper_char_def)
  have "char_of ?n = c" by simp
  moreover have "65 \<le> ?n - 32 \<and> ?n - 32 \<le> 90 \<and> ?n - 32 + 32 = ?n" using n by arith
  ultimately show ?thesis unfolding lower_char_def u Let_def using n by simp
qed (simp add: upper_char_def)

lemma to_lower_canonical [simp]: "to_lower (CanonicalHeaderKey k) = to_lower k"
proof -
  have "to_lower (canonical_loop b s) = to_lower s" for b s
    by (induction b s rule: canonical_loop.induct) (simp_all add: to_lower_def lower_upper)
  then show ?thesis by (simp add: CanonicalHeaderKey_def)
qed

end
