(* ===== verification/Session_Redirect.thy ===== *)
theory Session_Redirect
  imports Session_Cookies Go_HTTP
begin

text \<open>
  The redirect rules of \<^verbatim>\<open>session/session.go\<close>: origins, the Referer of the next hop,
  relative Locations, and the request that follows a 3xx response.
\<close>

section \<open>Origins\<close>

definition parseOrigin :: "url_lib \<Rightarrow> string \<Rightarrow> string \<times> string \<times> string" where
  "parseOrigin ul urlStr =
     (case ul_Parse ul urlStr of
        None \<Rightarrow> ([], [], [])
      | Some u \<Rightarrow>
          if url_Scheme u = [] then ([], [], [])
          else
            (let scheme = to_lower (url_Scheme u);
                 host = to_lower (url_Hostname u);
                 port = url_Port u
             in (scheme, host,
                 if port \<noteq> [] then port
                 else if scheme = ''https'' then ''443'' else if scheme = ''http'' then ''80'' else [])))"

definition sameOrigin :: "url_lib \<Rightarrow> string \<Rightarrow> string \<Rightarrow> bool" where
  "sameOrigin ul a b =
     (let (s, h, p) = parseOrigin ul a; (s', h', p') = parseOrigin ul b in
      if s = [] \<or> s' = [] then False else s = s' \<and> h = h' \<and> p = p')"

definition isSchemeDowngrade :: "url_lib \<Rightarrow> string \<Rightarrow> string \<Rightarrow> bool" where
  "isSchemeDowngrade ul from to \<longleftrightarrow>
     fst (parseOrigin ul from) = ''https'' \<and> fst (parseOrigin ul to) = ''http''"

definition sameOriginReferer :: "url_lib \<Rightarrow> string \<Rightarrow> string" where
  "sameOriginReferer ul prevURL =
     (case ul_Parse ul prevURL of
        None \<Rightarrow> []
      | Some u0 \<Rightarrow>
          (let u = u0\<lparr>url_Fragment := [], url_RawFragment := [], url_User := None\<rparr>;
               scheme = to_lower (url_Scheme u); p = url_Port u
           in if (scheme = ''https'' \<and> p = ''443'') \<or> (scheme = ''http'' \<and> p = ''80'') then
                (let host = url_Hostname u in
                 ul_String ul (u\<lparr>url_Host := (if contains host '':'' then ''['' @ host @ '']'' else host)\<rparr>))
              else ul_String ul u))"

definition redirectReferer :: "url_lib \<Rightarrow> string \<Rightarrow> bool \<Rightarrow> bool \<Rightarrow> string" where
  "redirectReferer ul prevURL schemeDowngrade crossOrigin =
     (if schemeDowngrade then []
      else if \<not> crossOrigin then sameOriginReferer ul prevURL
      else
        (let (scheme, host, port) = parseOrigin ul prevURL in
         if scheme = [] \<or> host = [] then []
         else
           (let origin = scheme @ ''://'' @ host;
                origin' = (if \<not> ((scheme = ''https'' \<and> port = ''443'') \<or> (scheme = ''http'' \<and> port = ''80''))
                           then origin @ '':'' @ port else origin)
            in origin' @ ''/'')))"

definition resolveURL :: "url_lib \<Rightarrow> string \<Rightarrow> string \<Rightarrow> string" where
  "resolveURL ul base ref =
     (if has_prefix ref ''http://'' \<or> has_prefix ref ''https://'' then ref
      else (case ul_Parse ul base of
        None \<Rightarrow> ref
      | Some baseURL \<Rightarrow>
          (case ul_Parse ul ref of
             None \<Rightarrow> ref
           | Some refURL \<Rightarrow>
               (let fixed =
                      (if url_RawQuery refURL = [] then
                         (case index_byte (url_Path refURL) (CHR ''?'') of
                            None \<Rightarrow> refURL
                          | Some idx \<Rightarrow>
                              refURL\<lparr>url_RawQuery := drop (idx + 1) (url_Path refURL),
                                     url_Path := take idx (url_Path refURL), url_RawPath := []\<rparr>)
                       else refURL)
                in ul_String ul (ul_ResolveReference ul baseURL fixed)))))"

section \<open>Requests and responses\<close>

text \<open>
  A streaming body is its remaining bytes, with a mark for the in-memory reader
  types that \<^verbatim>\<open>DeriveGetBody\<close> knows; \<^verbatim>\<open>GetBody\<close> is what calling it returns. A redirect
  callback answers that the hop may proceed, that the last response is to be
  used, or with an error.
\<close>

record body_reader =
  br_mem :: bool
  br_data :: "byte list"

type_synonym get_body = "string + body_reader"

record redirect =
  rd_Hop :: nat
  rd_StatusCode :: int
  rd_Headers :: headers
  rd_From :: string
  rd_To :: string
  rd_Method :: string
  rd_CrossOrigin :: bool
  rd_SchemeDowngrade :: bool

datatype redirect_answer = Proceed | UseLastResponse | Veto string

record request =
  rq_Method :: string
  rq_URL :: string
  rq_Headers :: headers
  rq_Body :: "byte list"
  rq_BodyReader :: "body_reader option"
  rq_GetBody :: "get_body option"
  rq_Timeout :: duration
  rq_HeaderOrder :: "string list"
  rq_ExactHeaders :: "(string \<times> string) list"
  rq_TLSOnly :: "bool option"
  rq_FollowRedirects :: "bool option"
  rq_DisableConditionalCache :: bool
  rq_DisableClientHints :: bool
  rq_DisableHighEntropyClientHints :: bool
  rq_DisableRedirectReferer :: bool
  rq_OnRedirect :: "(redirect \<Rightarrow> redirect_answer) option"

record redirect_info =
  ri_StatusCode :: int
  ri_URL :: string
  ri_Headers :: headers

record response =
  rs_StatusCode :: int
  rs_Headers :: headers
  rs_History :: "redirect_info list"

definition DeriveGetBody :: "body_reader \<Rightarrow> get_body option" where
  "DeriveGetBody r = (if br_mem r then Some (Inr r) else None)"

definition first_value :: "headers \<Rightarrow> string \<Rightarrow> string" where
  "first_value h key = (case map_of h key of Some (v # _) \<Rightarrow> v | _ \<Rightarrow> [])"

definition location_of :: "headers \<Rightarrow> string" where
  "location_of h = (let l = first_value h ''Location'' in if l = [] then first_value h ''location'' else l)"

definition redirect_method :: "int \<Rightarrow> string \<Rightarrow> string" where
  "redirect_method status method =
     (if status = 303 \<or> ((status = 301 \<or> status = 302) \<and> method = ''POST'') then ''GET'' else method)"

definition keep_header :: "bool \<Rightarrow> bool \<Rightarrow> bool \<Rightarrow> string \<Rightarrow> bool" where
  "keep_header methodChanged schemeDowngrade crossOrigin k \<longleftrightarrow>
     \<not> (methodChanged \<and> (k = ''Content-Type'' \<or> k = ''Content-Length'' \<or> k = ''content-type'' \<or> k = ''content-length'')) \<and>
     \<not> (k = ''Cookie'' \<or> k = ''cookie'') \<and>
     \<not> (schemeDowngrade \<and> to_lower k = ''referer'') \<and>
     \<not> ((crossOrigin \<or> schemeDowngrade) \<and> (to_lower k = ''authorization'' \<or> to_lower k = ''proxy-authorization''))"

definition redirect_headers :: "url_lib \<Rightarrow> request \<Rightarrow> string \<Rightarrow> bool \<Rightarrow> bool \<Rightarrow> headers" where
  "redirect_headers ul req newMethod schemeDowngrade crossOrigin =
     (let copied = filter (\<lambda>(k, v). keep_header (newMethod \<noteq> rq_Method req) schemeDowngrade crossOrigin k) (rq_Headers req);
          cleared = AList.delete ''referer'' (AList.delete ''Referer'' copied);
          ref = redirectReferer ul (rq_URL req) schemeDowngrade crossOrigin
      in if \<not> rq_DisableRedirectReferer req \<and> ref \<noteq> [] then AList.update ''Referer'' [ref] cleared else cleared)"

definition ErrBodyNotReplayable :: string where
  "ErrBodyNotReplayable = ''httpcloak/transport: request body is not replayable (set Request.GetBody)''"

text \<open>The body of the next hop: an error, or the request with the body in place.\<close>

definition redirect_body :: "int \<Rightarrow> string \<Rightarrow> request \<Rightarrow> request \<Rightarrow> string + request" where
  "redirect_body status redirectURL req newReq =
     (if status = 307 \<or> status = 308 then
        (case (rq_BodyReader req, rq_GetBody req) of
           (Some _, Some (Inl err)) \<Rightarrow>
             Inl (''httpcloak: reopen request body for '' @ show_nat (nat status) @ '' redirect to '' @ redirectURL @ '': '' @ err)
         | (Some _, Some (Inr fresh)) \<Rightarrow>
             Inr (newReq\<lparr>rq_BodyReader := Some fresh, rq_GetBody := rq_GetBody req\<rparr>)
         | (Some _, None) \<Rightarrow> Inl (''cannot follow '' @ show_nat (nat status) @ '' redirect to '' @ redirectURL @ '': '' @ ErrBodyNotReplayable)
         | (None, _) \<Rightarrow> Inr (newReq\<lparr>rq_Body := rq_Body req\<rparr>))
      else Inr newReq)"

definition redirect_request :: "url_lib \<Rightarrow> request \<Rightarrow> string \<Rightarrow> string \<Rightarrow> request" where
  "redirect_request ul req newMethod redirectURL =
     \<lparr>rq_Method = newMethod, rq_URL = redirectURL,
      rq_Headers = redirect_headers ul req newMethod (isSchemeDowngrade ul (rq_URL req) redirectURL)
        (\<not> sameOrigin ul (rq_URL req) redirectURL),
      rq_Body = [], rq_BodyReader = None, rq_GetBody = None,
      rq_Timeout = rq_Timeout req, rq_HeaderOrder = rq_HeaderOrder req, rq_ExactHeaders = rq_ExactHeaders req,
      rq_TLSOnly = rq_TLSOnly req, rq_FollowRedirects = rq_FollowRedirects req,
      rq_DisableConditionalCache = rq_DisableConditionalCache req,
      rq_DisableClientHints = rq_DisableClientHints req,
      rq_DisableHighEntropyClientHints = rq_DisableHighEntropyClientHints req,
      rq_DisableRedirectReferer = rq_DisableRedirectReferer req, rq_OnRedirect = rq_OnRedirect req\<rparr>"

text \<open>
  The part of \<^verbatim>\<open>requestWithRedirects\<close> after the exchange: return a response and an
  error, either of which may be missing, or follow with a new request and the
  extended history.
\<close>

datatype hop_result =
    Return "response option" "string option"
  | Follow request "redirect_info list"

definition ErrTooManyRedirects :: string where
  "ErrTooManyRedirects = ''httpcloak/transport: too many redirects''"

definition redirect_step ::
    "url_lib \<Rightarrow> bool \<Rightarrow> nat \<Rightarrow> nat \<Rightarrow> redirect_info list \<Rightarrow> request \<Rightarrow> response \<Rightarrow> hop_result" where
  "redirect_step ul configFollow maxRedirects redirectCount history req resp =
     (let done = resp\<lparr>rs_History := history\<rparr>;
          follow = (case rq_FollowRedirects req of None \<Rightarrow> configFollow | Some b \<Rightarrow> b);
          location = location_of (rs_Headers resp)
      in if \<not> isRedirectStatus (rs_StatusCode resp) \<or> \<not> follow then Return (Some done) None
         else if redirectCount \<ge> maxRedirects
         then Return (Some done) (Some (ErrTooManyRedirects @ '' (max '' @ show_nat maxRedirects @ '')''))
         else if location = [] then Return (Some done) None
         else
           (let redirectURL = resolveURL ul (rq_URL req) location;
                newMethod = redirect_method (rs_StatusCode resp) (rq_Method req);
                hop = \<lparr>rd_Hop = redirectCount + 1, rd_StatusCode = rs_StatusCode resp,
                       rd_Headers = rs_Headers resp, rd_From = rq_URL req, rd_To = redirectURL,
                       rd_Method = newMethod, rd_CrossOrigin = \<not> sameOrigin ul (rq_URL req) redirectURL,
                       rd_SchemeDowngrade = isSchemeDowngrade ul (rq_URL req) redirectURL\<rparr>
            in case (case rq_OnRedirect req of None \<Rightarrow> Proceed | Some cb \<Rightarrow> cb hop) of
                 UseLastResponse \<Rightarrow> Return (Some done) None
               | Veto err \<Rightarrow> Return None (Some err)
               | Proceed \<Rightarrow>
                   (case redirect_body (rs_StatusCode resp) redirectURL req
                           (redirect_request ul req newMethod redirectURL) of
                      Inl err \<Rightarrow> Return (Some done) (Some err)
                    | Inr newReq \<Rightarrow>
                        Follow newReq
                          (history @ [\<lparr>ri_StatusCode = rs_StatusCode resp, ri_URL = rq_URL req,
                                       ri_Headers = rs_Headers resp\<rparr>]))))"

end
