(* ===== verification/Session_Requests.thy ===== *)
theory Session_Requests
  imports Session_Redirect "HOL-Library.Log_Nat"
begin

text \<open>
  The session of \<^verbatim>\<open>session/session.go\<close>: its state, the request path with cookies,
  client hints, conditional headers, retries and redirects, and the operations
  that change its settings.

  The transport is the argument \<open>ev_Do\<close> of the environment: its answer to the
  n-th request of the session. What the session hands to the transport is kept
  in the state: the requests in \<open>se_sent\<close>, all other calls in \<open>se_cmds\<close>. The
  context is the error, if any, that ends a wait after the n-th request.
  Every session has a configuration, since both constructors set one.
\<close>

section \<open>State\<close>

datatype protocol = ProtocolAuto | ProtocolHTTP1 | ProtocolHTTP2 | ProtocolHTTP3

text \<open>Functions and pointers that the session only passes on are known by a name.\<close>

type_synonym ref = nat

record tls_verify =
  tv_VerifyPeerCertificate :: "ref option"
  tv_VerifyConnection :: "ref option"
  tv_RootCAs :: "ref option"

record transport_config =
  tpc_ConnectTo :: "(string, string) gomap"
  tpc_ECHConfigDomain :: string
  tpc_TLSOnly :: bool
  tpc_QuicIdleTimeout :: duration
  tpc_LocalAddr :: string
  tpc_KeyLogWriter :: bool
  tpc_EnableSpeculativeTLS :: bool
  tpc_SessionCacheBackend :: "ref option"
  tpc_SessionCacheErrorCallback :: "ref option"
  tpc_CustomJA3 :: string
  tpc_CustomJA3Extras :: "ref option"
  tpc_CustomH2Settings :: "ref option"
  tpc_CustomPseudoOrder :: "string list"
  tpc_CustomTCPFingerprint :: "ref option"

record proxy_config =
  px_URL :: string
  px_TCPProxy :: string
  px_UDPProxy :: string

datatype transport_cmd =
    TNew string "proxy_config option" "transport_config option"
  | TClose | TCloseGraceful | TRefresh | TRefreshWithProtocol protocol
  | TSetProxy "proxy_config option" | TSetHeaderOrder "string list" | TSetSessionIdentifier string
  | TSetTimeout duration | TSetInsecureSkipVerify | TSetTLSVerify tls_verify | TSetProtocol protocol
  | TSetDisableHTTP3 | TSetPreferIPv4 | TSetDisableECH | TSetSessionCache protocol

record session_config =
  cf_Preset :: string
  cf_Proxy :: string
  cf_TCPProxy :: string
  cf_UDPProxy :: string
  cf_Timeout :: int
  cf_FollowRedirects :: bool
  cf_MaxRedirects :: int
  cf_RetryEnabled :: bool
  cf_MaxRetries :: int
  cf_RetryWaitMin :: int
  cf_RetryWaitMax :: int
  cf_RetryOnStatus :: "int list"
  cf_InsecureSkipVerify :: bool
  cf_TLSVerifyPeerCertificate :: "ref option"
  cf_TLSVerifyConnection :: "ref option"
  cf_TLSRootCAs :: "ref option"
  cf_DisableHTTP3 :: bool
  cf_ForceHTTP1 :: bool
  cf_ForceHTTP2 :: bool
  cf_ForceHTTP3 :: bool
  cf_PreferIPv4 :: bool
  cf_LocalAddress :: string
  cf_ConnectTo :: "(string, string) gomap"
  cf_ECHConfigDomain :: string
  cf_TLSOnly :: bool
  cf_QuicIdleTimeout :: int
  cf_KeyLogFile :: string
  cf_DisableECH :: bool
  cf_EnableSpeculativeTLS :: bool
  cf_SwitchProtocol :: string
  cf_WithoutCookieJar :: bool
  cf_WithoutConditionalCache :: bool
  cf_WithoutClientHints :: bool
  cf_WithoutHighEntropyClientHints :: bool

record cache_entry =
  ce_etag :: string
  ce_lastModified :: string

record session =
  se_ID :: string
  se_CreatedAt :: time
  se_LastUsed :: time
  se_RequestCount :: int
  se_Config :: session_config
  se_cookies :: cookie_jar
  se_cacheEntries :: "(string, cache_entry) gomap"
  se_conditionalCacheEnabled :: bool
  se_clientHints :: "(string, string list) gomap"
  se_clientHintsEnabled :: bool
  se_highEntropyClientHintsEnabled :: bool
  se_keyLogWriter :: bool
  se_draining :: bool
  se_refreshed :: bool
  se_switchProtocol :: protocol
  se_active :: bool
  se_sent :: "request list"
  se_cmds :: "transport_cmd list"
  se_waits :: "duration list"

record client_hints =
  ch_UAArch :: string
  ch_UABitness :: string
  ch_UAFullVersionList :: string
  ch_UAModel :: string
  ch_UAPlatformVersion :: string
  ch_UAWow64 :: string

record env =
  ev_Do :: "nat \<Rightarrow> request \<Rightarrow> string + response"
  ev_ctx :: "nat \<Rightarrow> string option"
  ev_rand :: "nat \<Rightarrow> nat"
  ev_now :: "nat \<Rightarrow> time"
  ev_url :: url_lib
  ev_hints :: "string \<Rightarrow> client_hints"
  ev_timeParse :: "string \<Rightarrow> string \<Rightarrow> time option"

definition env_time :: "env \<Rightarrow> session \<Rightarrow> time" where
  "env_time env s = ev_now env (length (se_sent s))"

definition ErrSessionClosed :: string where
  "ErrSessionClosed = ''session is closed''"

definition header_set :: "string \<Rightarrow> string \<Rightarrow> request \<Rightarrow> request" where
  "header_set k v req = req\<lparr>rq_Headers := AList.update k [v] (rq_Headers req)\<rparr>"

section \<open>Conditional requests\<close>

definition storeCacheHeaders :: "string \<Rightarrow> headers \<Rightarrow> session \<Rightarrow> session" where
  "storeCacheHeaders url h s =
     (let etag = (let e = first_value h ''etag'' in if e = [] then first_value h ''ETag'' else e);
          lastModified = (let l = first_value h ''last-modified'' in
                          if l = [] then first_value h ''Last-Modified'' else l)
      in if etag = [] \<and> lastModified = [] then s
         else s\<lparr>se_cacheEntries :=
                AList.update url \<lparr>ce_etag = etag, ce_lastModified = lastModified\<rparr> (se_cacheEntries s)\<rparr>)"

definition add_validators :: "session \<Rightarrow> request \<Rightarrow> request" where
  "add_validators s req =
     (if se_conditionalCacheEnabled s \<and> \<not> rq_DisableConditionalCache req then
        (case map_of (se_cacheEntries s) (rq_URL req) of
           None \<Rightarrow> req
         | Some cached \<Rightarrow>
             (let r1 = (if ce_etag cached \<noteq> [] then header_set ''If-None-Match'' (ce_etag cached) req else req)
              in if ce_lastModified cached \<noteq> []
                 then header_set ''If-Modified-Since'' (ce_lastModified cached) r1 else r1))
      else req)"

section \<open>Client hints\<close>

definition parseAcceptCH :: "string \<Rightarrow> headers \<Rightarrow> session \<Rightarrow> session" where
  "parseAcceptCH host h s =
     (let acceptCH = (let a = first_value h ''accept-ch'' in if a = [] then first_value h ''Accept-CH'' else a);
          hints = remdups (filter (\<lambda>x. x \<noteq> []) (map (\<lambda>x. trim (toLowerASCII x)) (splitByComma acceptCH)))
      in if acceptCH = [] \<or> hints = [] then s
         else s\<lparr>se_clientHints := AList.update host hints (se_clientHints s)\<rparr>)"

definition resolveClientHints :: "env \<Rightarrow> session \<Rightarrow> client_hints" where
  "resolveClientHints env s =
     ev_hints env (if cf_Preset (se_Config s) \<noteq> [] then cf_Preset (se_Config s) else ''chrome-latest'')"

definition headerKeyPresent :: "headers \<Rightarrow> string \<Rightarrow> bool" where
  "headerKeyPresent h key \<longleftrightarrow> map_of h key \<noteq> None \<or> list_ex (\<lambda>(k, v). to_lower k = to_lower key) h"

definition hint_values :: "client_hints \<Rightarrow> (string \<times> string \<times> string) list" where
  "hint_values ch =
     [(''sec-ch-ua-arch'', ''Sec-Ch-Ua-Arch'', ch_UAArch ch),
      (''sec-ch-ua-bitness'', ''Sec-Ch-Ua-Bitness'', ch_UABitness ch),
      (''sec-ch-ua-full-version-list'', ''Sec-Ch-Ua-Full-Version-List'', ch_UAFullVersionList ch),
      (''sec-ch-ua-model'', ''Sec-Ch-Ua-Model'', ch_UAModel ch),
      (''sec-ch-ua-platform-version'', ''Sec-Ch-Ua-Platform-Version'', ch_UAPlatformVersion ch),
      (''sec-ch-ua-wow64'', ''Sec-Ch-Ua-Wow64'', ch_UAWow64 ch)]"

definition add_hint :: "string list \<Rightarrow> string \<times> string \<times> string \<Rightarrow> headers \<Rightarrow> headers" where
  "add_hint hints = (\<lambda>(hintName, header, value) h.
     if hintName \<notin> set hints \<or> value = [] then h
     else if headerKeyPresent h header then h
     else AList.update header [value] h)"

definition applyClientHints :: "env \<Rightarrow> session \<Rightarrow> string \<Rightarrow> headers \<Rightarrow> headers" where
  "applyClientHints env s host h =
     (case map_of (se_clientHints s) host of
        None \<Rightarrow> h
      | Some hints \<Rightarrow>
          if hints = [] then h else fold (add_hint hints) (hint_values (resolveClientHints env s)) h)"

definition applyClientHintPolicy :: "env \<Rightarrow> session \<Rightarrow> string \<Rightarrow> request \<Rightarrow> request" where
  "applyClientHintPolicy env s host req =
     (if rq_DisableClientHints req \<or> \<not> se_clientHintsEnabled s then req\<lparr>rq_DisableClientHints := True\<rparr>
      else if rq_DisableHighEntropyClientHints req \<or> \<not> se_highEntropyClientHintsEnabled s then req
      else req\<lparr>rq_Headers := applyClientHints env s host (rq_Headers req)\<rparr>)"

section \<open>Retries\<close>

text \<open>\<^verbatim>\<open>float64(w)\<close>: the integer rounded to 53 significant bits, ties to even.\<close>

definition float64 :: "int \<Rightarrow> int" where
  "float64 w =
     (let n = nat \<bar>w\<bar>;
          k = (if n < 2 ^ 53 then 0 else floorlog 2 n - 53);
          q = n div 2 ^ k; r = 2 * (n mod 2 ^ k);
          q' = (if r > 2 ^ k \<or> (r = 2 ^ k \<and> k > 0 \<and> odd q) then q + 1 else q)
      in sgn w * int (q' * 2 ^ k))"

definition quarter :: "int \<Rightarrow> int" where
  "quarter w = sgn w * (\<bar>float64 w\<bar> div 4)"

definition randInt64 :: "nat \<Rightarrow> int \<Rightarrow> int" where
  "randInt64 v n = (if n \<le> 0 then 0 else int (v mod 2 ^ 63) mod n)"

definition retry_wait :: "duration \<Rightarrow> duration \<Rightarrow> nat \<Rightarrow> nat \<Rightarrow> duration" where
  "retry_wait waitMin waitMax attempt v =
     (let w0 = int64 (waitMin * int64 (2 ^ attempt));
          w = (if w0 > waitMax then waitMax else w0);
          jitter = quarter w
      in int64 (w - jitter + randInt64 v (int64 (jitter * 2))))"

record retry_config =
  rc_maxRetries :: nat
  rc_waitMin :: duration
  rc_waitMax :: duration
  rc_onStatus :: "int list"

abbreviation millisecond :: duration where "millisecond \<equiv> 1000000"

definition retry_config_of :: "session_config \<Rightarrow> retry_config" where
  "retry_config_of cf =
     (if cf_RetryEnabled cf \<and> cf_MaxRetries cf > 0 then
        \<lparr>rc_maxRetries = nat (cf_MaxRetries cf),
         rc_waitMin = (if cf_RetryWaitMin cf > 0 then int64 (cf_RetryWaitMin cf * millisecond) else 500 * millisecond),
         rc_waitMax = (if cf_RetryWaitMax cf > 0 then int64 (cf_RetryWaitMax cf * millisecond) else 10 * second),
         rc_onStatus = (if cf_RetryOnStatus cf \<noteq> [] then cf_RetryOnStatus cf else [429, 500, 502, 503, 504])\<rparr>
      else \<lparr>rc_maxRetries = 0, rc_waitMin = 500 * millisecond, rc_waitMax = 10 * second, rc_onStatus = []\<rparr>)"

definition transport_Do :: "env \<Rightarrow> request \<Rightarrow> session \<Rightarrow> (string + response) \<times> session" where
  "transport_Do env req s =
     (ev_Do env (length (se_sent s)) req, s\<lparr>se_sent := se_sent s @ [req]\<rparr>)"

text \<open>Sending reads a streaming body to its end.\<close>

definition drain :: "request \<Rightarrow> request" where
  "drain req = req\<lparr>rq_BodyReader := map_option (br_data_update (\<lambda>_. [])) (rq_BodyReader req)\<rparr>"

definition rearm :: "nat \<Rightarrow> request \<Rightarrow> string + request" where
  "rearm attempt req =
     (if attempt > 0 \<and> rq_BodyReader req \<noteq> None then
        (case rq_GetBody req of
           Some (Inr fresh) \<Rightarrow> Inr (req\<lparr>rq_BodyReader := Some fresh\<rparr>)
         | Some (Inl err) \<Rightarrow> Inl (''httpcloak: reopen request body for retry: '' @ err)
         | None \<Rightarrow> Inl ''nil pointer dereference'')
      else Inr req)"

definition bodyReplayable :: "request \<Rightarrow> bool" where
  "bodyReplayable req \<longleftrightarrow> rq_BodyReader req = None \<or> rq_GetBody req \<noteq> None"

definition attempt_cookies :: "env \<Rightarrow> session \<Rightarrow> string \<Rightarrow> request \<Rightarrow> request" where
  "attempt_cookies env s origCookie req =
     (if cf_WithoutCookieJar (se_Config s) then req
      else
        (let sessionCookies = BuildCookieHeader (env_time env s) (extractHost (rq_URL req))
               (extractPath (rq_URL req)) (isSecureURL (rq_URL req)) (se_cookies s)
         in if sessionCookies \<noteq> [] then
              header_set ''Cookie'' (if origCookie \<noteq> [] then origCookie @ ''; '' @ sessionCookies else sessionCookies) req
            else if origCookie \<noteq> [] then header_set ''Cookie'' origCookie req
            else req))"

definition store_response :: "env \<Rightarrow> string \<Rightarrow> response \<Rightarrow> session \<Rightarrow> session" where
  "store_response env url resp s =
     (let s1 = (if cf_WithoutCookieJar (se_Config s) then s
                else s\<lparr>se_cookies := extractCookies (ev_timeParse env) (env_time env s) (rs_Headers resp) url (se_cookies s)\<rparr>)
      in parseAcceptCH (extractHost url) (rs_Headers resp) s1)"

text \<open>
  One turn of the attempt loop: the body could not be re-opened, or the answer
  of the transport with the request and the session after it.
\<close>

definition one_attempt ::
    "env \<Rightarrow> retry_config \<Rightarrow> string \<Rightarrow> nat \<Rightarrow> request \<Rightarrow> session \<Rightarrow>
     string \<times> request + (string + response) \<times> request \<times> session" where
  "one_attempt env rc origCookie attempt req0 s =
     (let req1 = applyClientHintPolicy env s (extractHost (rq_URL req0)) (attempt_cookies env s origCookie req0) in
      case rearm attempt req1 of
        Inl err \<Rightarrow> Inl (err, req1)
      | Inr req2 \<Rightarrow>
          (case transport_Do env req2 s of
             (r, s1) \<Rightarrow>
               Inr (r, drain req2,
                    (case r of
                       Inl err \<Rightarrow> s1
                     | Inr resp \<Rightarrow> if rc_maxRetries rc = 0 then s1 else store_response env (rq_URL req2) resp s1))))"

definition shouldRetry :: "retry_config \<Rightarrow> string + response \<Rightarrow> bool" where
  "shouldRetry rc r = (case r of Inl err \<Rightarrow> True | Inr resp \<Rightarrow> rs_StatusCode resp \<in> set (rc_onStatus rc))"

definition wait_before_retry :: "env \<Rightarrow> retry_config \<Rightarrow> nat \<Rightarrow> session \<Rightarrow> session" where
  "wait_before_retry env rc attempt s =
     s\<lparr>se_waits := se_waits s @ [retry_wait (rc_waitMin rc) (rc_waitMax rc) attempt (ev_rand env (length (se_sent s)))]\<rparr>"

text \<open>
  The attempt loop with \<open>left\<close> retries still allowed, so that \<open>attempt + left\<close> is
  the configured maximum. The request is returned as the loop leaves it.
\<close>

fun attempt_loop ::
    "env \<Rightarrow> retry_config \<Rightarrow> string \<Rightarrow> bool \<Rightarrow> nat \<Rightarrow> nat \<Rightarrow> request \<Rightarrow> session \<Rightarrow>
     (string + response) \<times> request \<times> session" where
  "attempt_loop env rc origCookie replayable 0 attempt req s =
     (case one_attempt env rc origCookie attempt req s of
        Inl (err, req') \<Rightarrow> (Inl err, req', s)
      | Inr rrs \<Rightarrow> rrs)"
| "attempt_loop env rc origCookie replayable (Suc left) attempt req s =
     (case one_attempt env rc origCookie attempt req s of
        Inl (err, req') \<Rightarrow> (Inl err, req', s)
      | Inr (r, req', s') \<Rightarrow>
          if \<not> shouldRetry rc r \<or> \<not> replayable then (r, req', s')
          else (case ev_ctx env (length (se_sent s')) of
                  Some err \<Rightarrow> (Inl err, req', wait_before_retry env rc attempt s')
                | None \<Rightarrow>
                    attempt_loop env rc origCookie replayable left (attempt + 1) req'
                      (wait_before_retry env rc attempt s')))"

section \<open>One request\<close>

definition hop_begin :: "env \<Rightarrow> request \<Rightarrow> session \<Rightarrow> (request \<times> session) option" where
  "hop_begin env req s =
     (if \<not> se_active s then None
      else
        (let s1 = s\<lparr>se_LastUsed := env_time env s, se_RequestCount := int64 (se_RequestCount s + 1)\<rparr>;
             r1 = (if se_refreshed s then header_set ''cache-control'' ''max-age=0'' req else req)
         in Some (add_validators s1 r1, s1)))"

definition exchange :: "env \<Rightarrow> request \<Rightarrow> session \<Rightarrow> (string + response) \<times> request \<times> session" where
  "exchange env req s =
     (let rc = retry_config_of (se_Config s) in
      attempt_loop env rc (first_value (rq_Headers req) ''Cookie'') (bodyReplayable req) (rc_maxRetries rc) 0 req s)"

definition hop_store :: "env \<Rightarrow> request \<Rightarrow> response \<Rightarrow> session \<Rightarrow> session" where
  "hop_store env req resp s =
     (let s1 = store_response env (rq_URL req) resp s in
      if se_conditionalCacheEnabled s1 \<and> \<not> rq_DisableConditionalCache req
      then storeCacheHeaders (rq_URL req) (rs_Headers resp) s1 else s1)"

definition derive_body :: "request \<Rightarrow> request" where
  "derive_body req =
     (case (rq_BodyReader req, rq_GetBody req) of
        (Some r, None) \<Rightarrow> req\<lparr>rq_GetBody := DeriveGetBody r\<rparr>
      | _ \<Rightarrow> req)"

definition max_redirects :: "session_config \<Rightarrow> nat" where
  "max_redirects cf = (if cf_MaxRedirects cf > 0 then nat (cf_MaxRedirects cf) else 10)"

section \<open>The configuration is not changed by requests\<close>

lemma config_parseAcceptCH [simp]: "se_Config (parseAcceptCH host h s) = se_Config s"
  by (simp add: parseAcceptCH_def Let_def)

lemma config_store_response [simp]: "se_Config (store_response env url resp s) = se_Config s"
  by (simp add: store_response_def Let_def)

lemma config_storeCacheHeaders [simp]: "se_Config (storeCacheHeaders url h s) = se_Config s"
  by (simp add: storeCacheHeaders_def Let_def)

lemma config_hop_store [simp]: "se_Config (hop_store env req resp s) = se_Config s"
  by (simp add: hop_store_def Let_def)

lemma config_hop_begin: "hop_begin env req s = Some (req', s') \<Longrightarrow> se_Config s' = se_Config s"
  by (auto simp: hop_begin_def Let_def split: if_splits)

lemma config_one_attempt:
  "one_attempt env rc oc attempt req s = Inr (r, req', s') \<Longrightarrow> se_Config s' = se_Config s"
  by (auto simp: one_attempt_def transport_Do_def Let_def split: sum.splits if_splits)

lemma config_attempt_loop:
  "attempt_loop env rc oc rep left attempt req s = (r, req', s') \<Longrightarrow> se_Config s' = se_Config s"
proof (induction left arbitrary: attempt req s)
  case 0
  then show ?case by (auto split: sum.splits dest: config_one_attempt)
next
  case (Suc left)
  then show ?case
    by (auto simp: wait_before_retry_def split: sum.splits if_splits option.splits
        dest!: config_one_attempt Suc.IH)
qed

lemma config_exchange: "exchange env req s = (r, req', s') \<Longrightarrow> se_Config s' = se_Config s"
  by (auto simp: exchange_def Let_def dest: config_attempt_loop)

section \<open>Redirects\<close>

function requestWithRedirects ::
    "env \<Rightarrow> nat \<Rightarrow> redirect_info list \<Rightarrow> request \<Rightarrow> session \<Rightarrow>
     (response option \<times> string option) \<times> session" where
  "requestWithRedirects env redirectCount history req s =
     (case hop_begin env (if redirectCount = 0 then derive_body req else req) s of
        None \<Rightarrow> ((None, Some ErrSessionClosed), s)
      | Some (req1, s1) \<Rightarrow>
          (case exchange env req1 s1 of
             (Inl err, req2, s2) \<Rightarrow> ((None, Some err), s2)
           | (Inr resp, req2, s2) \<Rightarrow>
               (let s3 = hop_store env req2 resp s2 in
                case redirect_step (ev_url env) (cf_FollowRedirects (se_Config s3)) (max_redirects (se_Config s3))
                       redirectCount history req2 resp of
                  Return r e \<Rightarrow> ((r, e), s3)
                | Follow newReq history' \<Rightarrow> requestWithRedirects env (redirectCount + 1) history' newReq s3)))"
  by pat_completeness auto

lemma follow_below_max: "redirect_step ul cf m n h req resp = Follow newReq h' \<Longrightarrow> n < m"
  by (auto simp: redirect_step_def Let_def split: if_splits)

termination requestWithRedirects
  by (relation "measure (\<lambda>(env, n, h, req, s). max_redirects (se_Config s) - n)")
    (auto dest!: follow_below_max config_exchange [OF sym] config_hop_begin)

declare requestWithRedirects.simps [simp del]

definition Request :: "env \<Rightarrow> request \<Rightarrow> session \<Rightarrow> (response option \<times> string option) \<times> session" where
  "Request env req s = requestWithRedirects env 0 [] req s"

definition stream_cookies :: "env \<Rightarrow> session \<Rightarrow> request \<Rightarrow> request" where
  "stream_cookies env s req =
     (if cf_WithoutCookieJar (se_Config s) then req
      else
        (let sessionCookies = BuildCookieHeader (env_time env s) (extractHost (rq_URL req))
               (extractPath (rq_URL req)) (isSecureURL (rq_URL req)) (se_cookies s);
             existing = first_value (rq_Headers req) ''Cookie''
         in if sessionCookies = [] then req
            else header_set ''Cookie'' (if existing \<noteq> [] then existing @ ''; '' @ sessionCookies else sessionCookies) req))"

definition RequestStream :: "env \<Rightarrow> request \<Rightarrow> session \<Rightarrow> (string + response) \<times> session" where
  "RequestStream env req s =
     (if \<not> se_active s then (Inl ErrSessionClosed, s)
      else
        (let s1 = s\<lparr>se_LastUsed := env_time env s, se_RequestCount := int64 (se_RequestCount s + 1)\<rparr>;
             req1 = stream_cookies env s1 req;
             req2 = applyClientHintPolicy env s1 (extractHost (rq_URL req)) req1
         in case transport_Do env req2 s1 of
              (Inl err, s2) \<Rightarrow> (Inl err, s2)
            | (Inr resp, s2) \<Rightarrow> (Inr resp, store_response env (rq_URL req2) resp s2)))"

definition get_request :: "string \<Rightarrow> string \<Rightarrow> byte list \<Rightarrow> headers \<Rightarrow> request" where
  "get_request method url body h =
     \<lparr>rq_Method = method, rq_URL = url, rq_Headers = h, rq_Body = body, rq_BodyReader = None, rq_GetBody = None,
      rq_Timeout = 0, rq_HeaderOrder = [], rq_ExactHeaders = [], rq_TLSOnly = None, rq_FollowRedirects = None,
      rq_DisableConditionalCache = False, rq_DisableClientHints = False,
      rq_DisableHighEntropyClientHints = False, rq_DisableRedirectReferer = False, rq_OnRedirect = None\<rparr>"

definition se_Get :: "env \<Rightarrow> string \<Rightarrow> headers \<Rightarrow> session \<Rightarrow> (response option \<times> string option) \<times> session" where
  "se_Get env url h s = Request env (get_request ''GET'' url [] h) s"

definition se_Post :: "env \<Rightarrow> string \<Rightarrow> byte list \<Rightarrow> headers \<Rightarrow> session \<Rightarrow> (response option \<times> string option) \<times> session" where
  "se_Post env url body h s = Request env (get_request ''POST'' url body h) s"


section \<open>What the session adds to a request\<close>

definition session_headers :: "string list" where
  "session_headers = ''Cookie'' # map (fst \<circ> snd) (hint_values \<lparr>ch_UAArch = [], ch_UABitness = [], ch_UAFullVersionList = [],
     ch_UAModel = [], ch_UAPlatformVersion = [], ch_UAWow64 = []\<rparr>)"

definition begin_headers :: "string list" where
  "begin_headers = [''cache-control'', ''If-None-Match'', ''If-Modified-Since'']"

text \<open>Two requests that differ only in the headers named and in the state of the body.\<close>

definition same_but :: "string list \<Rightarrow> request \<Rightarrow> request \<Rightarrow> bool" where
  "same_but ks a b \<longleftrightarrow>
     rq_URL b = rq_URL a \<and> rq_Method b = rq_Method a \<and> rq_Body b = rq_Body a \<and>
     (rq_BodyReader b = None \<longleftrightarrow> rq_BodyReader a = None) \<and>
     rq_DisableRedirectReferer b = rq_DisableRedirectReferer a \<and>
     (\<forall>k. k \<notin> set ks \<longrightarrow> map_of (rq_Headers b) k = map_of (rq_Headers a) k)"

lemma same_but_refl [simp]: "same_but ks a a"
  by (simp add: same_but_def)

lemma same_but_trans [trans]: "same_but ks a b \<Longrightarrow> same_but ks b c \<Longrightarrow> same_but ks a c"
  by (simp add: same_but_def)

lemma same_but_mono: "same_but ks a b \<Longrightarrow> set ks \<subseteq> set ls \<Longrightarrow> same_but ls a b"
  by (auto simp: same_but_def)

lemma same_but_header_set: "k \<in> set ks \<Longrightarrow> same_but ks req (header_set k v req)"
  by (auto simp: same_but_def header_set_def)

lemma same_but_cookies: "same_but session_headers req (attempt_cookies env s oc req)"
  by (auto simp: attempt_cookies_def Let_def session_headers_def intro!: same_but_header_set)

lemma map_of_add_hint: "k \<noteq> fst (snd hv) \<Longrightarrow> map_of (add_hint hints hv h) k = map_of h k"
  by (cases hv) (auto simp: add_hint_def)

lemma map_of_fold_hints:
  "k \<notin> set (map (fst \<circ> snd) hvs) \<Longrightarrow> map_of (fold (add_hint hints) hvs h) k = map_of h k"
  by (induction hvs arbitrary: h) (auto simp: map_of_add_hint)

lemma hint_names: "set session_headers = insert ''Cookie'' (set (map (fst \<circ> snd) (hint_values ch)))"
  by (simp add: session_headers_def hint_values_def)

lemma map_of_applyClientHints:
  "k \<notin> set session_headers \<Longrightarrow> map_of (applyClientHints env s host h) k = map_of h k"
  unfolding applyClientHints_def
  using hint_names [of "resolveClientHints env s"] by (auto split: option.split intro!: map_of_fold_hints)

lemma same_but_hints: "same_but session_headers req (applyClientHintPolicy env s host req)"
  by (auto simp: applyClientHintPolicy_def same_but_def map_of_applyClientHints)

lemma same_but_rearm: "rearm n req = Inr req' \<Longrightarrow> same_but ks req req'"
  by (auto simp: rearm_def same_but_def split: if_splits option.splits sum.splits)

lemma same_but_drain: "same_but ks req (drain req)"
  by (simp add: drain_def same_but_def)

lemma same_but_header_set': "same_but ks a b \<Longrightarrow> k \<in> set ks \<Longrightarrow> same_but ks a (header_set k v b)"
  using same_but_trans same_but_header_set by blast

lemma same_but_validators: "same_but begin_headers a b \<Longrightarrow> same_but begin_headers a (add_validators s b)"
  by (auto simp: add_validators_def begin_headers_def Let_def split: option.split intro!: same_but_header_set')

lemma same_but_begin:
  "hop_begin env req s = Some (req', s') \<Longrightarrow> same_but begin_headers req req' \<and> se_sent s' = se_sent s"
  by (auto simp: hop_begin_def Let_def split: if_splits intro!: same_but_validators same_but_header_set)
    (simp_all add: begin_headers_def)

lemma same_but_derive: "same_but ks req (derive_body req)"
  by (auto simp: derive_body_def same_but_def split: option.split)

lemma sent_store_response [simp]: "se_sent (store_response env url resp s) = se_sent s"
  by (simp add: store_response_def parseAcceptCH_def Let_def)

lemma sent_hop_store [simp]: "se_sent (hop_store env req resp s) = se_sent s"
  by (simp add: hop_store_def storeCacheHeaders_def Let_def)

lemma one_attempt_sent:
  assumes "one_attempt env rc oc attempt req s = Inr (r, req', s')"
  shows "\<exists>x. se_sent s' = se_sent s @ [x] \<and> same_but session_headers req x \<and> same_but session_headers req req' \<and>
    r = ev_Do env (length (se_sent s)) x"
proof -
  let ?p = "applyClientHintPolicy env s (extractHost (rq_URL req)) (attempt_cookies env s oc req)"
  obtain x where x: "rearm attempt ?p = Inr x" and r: "r = ev_Do env (length (se_sent s)) x" and q: "req' = drain x"
    and s: "se_sent s' = se_sent s @ [x]"
    using assms by (auto simp: one_attempt_def transport_Do_def Let_def split: sum.splits if_splits)
  have "same_but session_headers req ?p"
    by (rule same_but_trans [OF same_but_cookies same_but_hints])
  then have "same_but session_headers req x" using same_but_rearm [OF x] by (rule same_but_trans)
  then show ?thesis using r q s same_but_trans [OF _ same_but_drain] by blast
qed

lemma one_attempt_fail:
  "one_attempt env rc oc attempt req s = Inl (e, req') \<Longrightarrow> same_but session_headers req req'"
  by (auto simp: one_attempt_def transport_Do_def Let_def split: sum.splits
      intro: same_but_trans [OF same_but_cookies same_but_hints])

lemma attempt_loop_sent:
  "attempt_loop env rc oc rep left attempt req s = (r, req', s') \<Longrightarrow>
   \<exists>sent. se_sent s' = se_sent s @ sent \<and> length sent \<le> Suc left \<and>
     list_all (same_but session_headers req) sent \<and> same_but session_headers req req'"
proof (induction left arbitrary: attempt req s)
  case 0
  show ?case
  proof (cases "one_attempt env rc oc attempt req s")
    case (Inl a)
    then show ?thesis using 0 one_attempt_fail by (cases a) fastforce
  next
    case (Inr a)
    then show ?thesis using 0 one_attempt_sent by (cases a) fastforce
  qed
next
  case (Suc left)
  show ?case
  proof (cases "one_attempt env rc oc attempt req s")
    case (Inl a)
    then show ?thesis using Suc.prems one_attempt_fail by (cases a) fastforce
  next
    case (Inr a)
    obtain r1 req1 s1 where a: "a = (r1, req1, s1)" by (cases a)
    obtain x where x: "se_sent s1 = se_sent s @ [x]" "same_but session_headers req x" "same_but session_headers req req1"
      using one_attempt_sent Inr a by blast
    let ?w = "wait_before_retry env rc attempt s1"
    have w: "se_sent ?w = se_sent s1" by (simp add: wait_before_retry_def)
    show ?thesis
    proof (cases "shouldRetry rc r1 \<and> rep \<and> ev_ctx env (length (se_sent s1)) = None")
      case True
      then have "attempt_loop env rc oc rep left (attempt + 1) req1 ?w = (r, req', s')"
        using Suc.prems Inr a by simp
      from Suc.IH [OF this] obtain sent where "se_sent s' = se_sent s1 @ sent" "length sent \<le> Suc left"
        "list_all (same_but session_headers req1) sent" "same_but session_headers req1 req'" using w by auto
      then show ?thesis
        using x same_but_trans by (intro exI [of _ "x # sent"]) (auto simp: list_all_iff intro: same_but_trans)
    next
      case False
      then have "req' = req1 \<and> se_sent s' = se_sent s1"
        using Suc.prems Inr a w by (auto split: if_splits option.splits)
      then show ?thesis using x by (intro exI [of _ "[x]"]) simp
    qed
  qed
qed

lemma exchange_sent:
  assumes "exchange env req s = (r, req', s')"
  shows "\<exists>sent. se_sent s' = se_sent s @ sent \<and> length sent \<le> Suc (rc_maxRetries (retry_config_of (se_Config s))) \<and>
     list_all (same_but session_headers req) sent \<and> same_but session_headers req req'"
  using assms by (auto simp: exchange_def Let_def dest: attempt_loop_sent)

section \<open>Credentials across redirects\<close>

definition credential_key :: "string \<Rightarrow> bool" where
  "credential_key k \<longleftrightarrow> to_lower k = ''authorization'' \<or> to_lower k = ''proxy-authorization''"

definition has_credentials :: "request \<Rightarrow> bool" where
  "has_credentials req \<longleftrightarrow> list_ex (\<lambda>(k, v). credential_key k) (rq_Headers req)"

lemma has_credentials_map_of: "has_credentials req \<longleftrightarrow> (\<exists>k. credential_key k \<and> map_of (rq_Headers req) k \<noteq> None)"
  by (force simp: has_credentials_def list_ex_iff map_of_eq_None_iff image_iff)

lemma session_header_no_credential: "credential_key k \<Longrightarrow> k \<notin> set (session_headers @ begin_headers)"
proof -
  have "list_all (\<lambda>k. \<not> credential_key k) (session_headers @ begin_headers)" by code_simp
  then show "credential_key k \<Longrightarrow> ?thesis" by (auto simp: list_all_iff)
qed

lemma credentials_same_but:
  assumes "same_but ks a b" and "set ks \<subseteq> set (session_headers @ begin_headers)"
  shows "has_credentials b \<longleftrightarrow> has_credentials a"
proof -
  have "map_of (rq_Headers b) k = map_of (rq_Headers a) k" if "credential_key k" for k
    using assms session_header_no_credential [OF that] unfolding same_but_def by blast
  then show ?thesis unfolding has_credentials_map_of by (metis (no_types, lifting))
qed

lemma sameOrigin_trans: "sameOrigin ul a b \<Longrightarrow> sameOrigin ul b c \<Longrightarrow> sameOrigin ul a c"
  by (auto simp: sameOrigin_def split: prod.splits if_splits)

lemma redirect_body_frame:
  "redirect_body st url req new = Inr new' \<Longrightarrow> rq_Headers new' = rq_Headers new \<and> rq_URL new' = rq_URL new \<and> rq_Method new' = rq_Method new"
  by (auto simp: redirect_body_def split: if_splits option.splits sum.splits)

lemma redirect_follow:
  assumes "redirect_step ul cf m n h req resp = Follow new h'"
  obtains redirectURL newMethod where "rq_URL new = redirectURL" and "rq_Method new = newMethod"
    and "rq_Headers new = redirect_headers ul req newMethod (isSchemeDowngrade ul (rq_URL req) redirectURL)
        (\<not> sameOrigin ul (rq_URL req) redirectURL)"
    and "newMethod = redirect_method (rs_StatusCode resp) (rq_Method req)"
    and "redirect_body (rs_StatusCode resp) redirectURL req (redirect_request ul req newMethod redirectURL) = Inr new"
proof -
  let ?u = "resolveURL ul (rq_URL req) (location_of (rs_Headers resp))"
  let ?m = "redirect_method (rs_StatusCode resp) (rq_Method req)"
  have b: "redirect_body (rs_StatusCode resp) ?u req (redirect_request ul req ?m ?u) = Inr new"
    using assms by (auto simp: redirect_step_def Let_def split: if_splits redirect_answer.splits option.splits sum.splits)
  from that [of ?u ?m] redirect_body_frame [OF b] b show ?thesis by (simp add: redirect_request_def)
qed

lemma redirect_headers_key:
  "k \<in> fst ` set (redirect_headers ul req m dg co) \<Longrightarrow>
   k = ''Referer'' \<or> k \<in> fst ` set (rq_Headers req) \<and> keep_header (m \<noteq> rq_Method req) dg co k"
  by (auto simp: redirect_headers_def Let_def keys_update keys_delete split: if_splits)

lemma Referer_no_credential: "\<not> credential_key ''Referer''"
  by code_simp

lemma redirect_credentials:
  assumes "redirect_step ul cf m n h req resp = Follow new h'" and "has_credentials new"
  shows "has_credentials req \<and> sameOrigin ul (rq_URL req) (rq_URL new)"
proof -
  obtain u me where f: "rq_URL new = u" "rq_Headers new =
      redirect_headers ul req me (isSchemeDowngrade ul (rq_URL req) u) (\<not> sameOrigin ul (rq_URL req) u)"
    using redirect_follow [OF assms(1)] by metis
  obtain k where k: "credential_key k" "k \<in> fst ` set (rq_Headers new)"
    using assms(2) by (force simp: has_credentials_def list_ex_iff)
  have "k \<in> fst ` set (rq_Headers req)"
    "keep_header (me \<noteq> rq_Method req) (isSchemeDowngrade ul (rq_URL req) u) (\<not> sameOrigin ul (rq_URL req) u) k"
    using redirect_headers_key [OF k(2) [unfolded f(2)]] k(1) Referer_no_credential by auto
  then show ?thesis
    using k(1) f(1) by (force simp: keep_header_def credential_key_def has_credentials_def list_ex_iff)
qed


section \<open>Runs as chains of hops\<close>

text \<open>
  Where the body of a request that was sent comes from: it is the reader the
  hop started with, or a fresh one from \<^verbatim>\<open>GetBody\<close>.
\<close>

definition body_from :: "request \<Rightarrow> request \<Rightarrow> bool" where
  "body_from req x \<longleftrightarrow>
     rq_BodyReader x = rq_BodyReader req \<or>
     rq_BodyReader req \<noteq> None \<and> (\<exists>fresh. rq_GetBody req = Some (Inr fresh) \<and> rq_BodyReader x = Some fresh)"

definition hop_ok :: "nat \<Rightarrow> request \<Rightarrow> request list \<Rightarrow> request \<Rightarrow> bool" where
  "hop_ok retries req sent req' \<longleftrightarrow>
     length sent \<le> Suc retries \<and>
     list_all (\<lambda>x. same_but (session_headers @ begin_headers) req x \<and> body_from req x) sent \<and>
     same_but (session_headers @ begin_headers) req req' \<and> rq_GetBody req' = rq_GetBody req"

lemma attempt_prepare_body:
  "rq_BodyReader (applyClientHintPolicy env s h (attempt_cookies env s oc req)) = rq_BodyReader req \<and>
   rq_GetBody (applyClientHintPolicy env s h (attempt_cookies env s oc req)) = rq_GetBody req"
  by (auto simp: applyClientHintPolicy_def attempt_cookies_def header_set_def Let_def)

lemma one_attempt_body:
  assumes "one_attempt env rc oc attempt req s = Inr (r, req', s')" and "se_sent s' = se_sent s @ [x]"
  shows "rq_GetBody x = rq_GetBody req \<and> rq_GetBody req' = rq_GetBody req \<and>
    (rq_BodyReader req' = None \<longleftrightarrow> rq_BodyReader req = None) \<and>
    (if attempt = 0 then rq_BodyReader x = rq_BodyReader req
     else rq_BodyReader req = None \<and> rq_BodyReader x = None \<or>
          rq_BodyReader req \<noteq> None \<and> (\<exists>fresh. rq_GetBody req = Some (Inr fresh) \<and> rq_BodyReader x = Some fresh))"
proof -
  let ?p = "applyClientHintPolicy env s (extractHost (rq_URL req)) (attempt_cookies env s oc req)"
  have x: "rearm attempt ?p = Inr x" and q: "req' = drain x"
    using assms by (auto simp: one_attempt_def transport_Do_def Let_def split: sum.splits if_splits)
  then show ?thesis
    using attempt_prepare_body [of env s "extractHost (rq_URL req)" oc req]
    by (auto simp: rearm_def drain_def split: if_splits option.splits sum.splits)
qed

lemma attempt_loop_body:
  "attempt_loop env rc oc rep left attempt req s = (r, req', s') \<Longrightarrow> se_sent s' = se_sent s @ sent \<Longrightarrow>
   rq_GetBody req' = rq_GetBody req \<and>
   list_all (\<lambda>x. attempt = 0 \<and> rq_BodyReader x = rq_BodyReader req \<or>
     rq_BodyReader req = None \<and> rq_BodyReader x = None \<or>
     rq_BodyReader req \<noteq> None \<and> (\<exists>fresh. rq_GetBody req = Some (Inr fresh) \<and> rq_BodyReader x = Some fresh)) sent"
proof (induction left arbitrary: attempt req s sent)
  case 0
  show ?case
  proof (cases "one_attempt env rc oc attempt req s")
    case (Inl a)
    then show ?thesis using 0 attempt_prepare_body by (cases a) (auto simp: one_attempt_def transport_Do_def Let_def split: sum.splits)
  next
    case (Inr a)
    then have o: "one_attempt env rc oc attempt req s = Inr (r, req', s')" using 0 by (cases a) simp
    obtain x where "se_sent s' = se_sent s @ [x]" using one_attempt_sent [OF o] by blast
    then show ?thesis using one_attempt_body [OF o, of x] 0(2) by (auto split: if_splits)
  qed
next
  case (Suc left)
  show ?case
  proof (cases "one_attempt env rc oc attempt req s")
    case (Inl a)
    then show ?thesis using Suc.prems attempt_prepare_body by (cases a) (auto simp: one_attempt_def transport_Do_def Let_def split: sum.splits)
  next
    case (Inr a)
    obtain r1 req1 s1 where a: "a = (r1, req1, s1)" by (cases a)
    then have o: "one_attempt env rc oc attempt req s = Inr (r1, req1, s1)" using Inr by simp
    obtain x where x: "se_sent s1 = se_sent s @ [x]" using one_attempt_sent [OF o] by blast
    note b = one_attempt_body [OF o x]
    let ?w = "wait_before_retry env rc attempt s1"
    have w: "se_sent ?w = se_sent s1" by (simp add: wait_before_retry_def)
    show ?thesis
    proof (cases "shouldRetry rc r1 \<and> rep \<and> ev_ctx env (length (se_sent s1)) = None")
      case True
      then have l: "attempt_loop env rc oc rep left (attempt + 1) req1 ?w = (r, req', s')"
        using Suc.prems(1) o by simp
      obtain rest where rest: "se_sent s' = se_sent ?w @ rest" using attempt_loop_sent [OF l] by blast
      then have "sent = x # rest" using Suc.prems(2) x w by simp
      then show ?thesis using Suc.IH [OF l rest] b by (auto simp: list_all_iff split: if_splits)
    next
      case False
      then have "req' = req1 \<and> se_sent s' = se_sent s1"
        using Suc.prems(1) o w by (auto split: if_splits option.splits)
      then show ?thesis using b x Suc.prems(2) by (auto split: if_splits)
    qed
  qed
qed

lemma begin_body:
  "hop_begin env req s = Some (req', s') \<Longrightarrow> rq_GetBody req' = rq_GetBody req \<and> rq_BodyReader req' = rq_BodyReader req"
  by (auto simp: hop_begin_def add_validators_def header_set_def Let_def split: if_splits option.splits)

lemma hop_chain:
  assumes "hop_begin env req s = Some (req1, s1)" and "exchange env req1 s1 = (r, req2, s2)"
  shows "\<exists>sent. se_sent s2 = se_sent s @ sent \<and> hop_ok (rc_maxRetries (retry_config_of (se_Config s))) req sent req2"
proof -
  have b: "same_but begin_headers req req1" "se_sent s1 = se_sent s" using same_but_begin [OF assms(1)] by auto
  have mono: "same_but (session_headers @ begin_headers) req x" if "same_but session_headers req1 x" for x
    using same_but_trans [OF same_but_mono [OF b(1)] same_but_mono [OF that]] by simp
  obtain sent where s: "se_sent s2 = se_sent s1 @ sent"
    "length sent \<le> Suc (rc_maxRetries (retry_config_of (se_Config s)))"
    "list_all (same_but session_headers req1) sent" "same_but session_headers req1 req2"
    using exchange_sent [OF assms(2)] config_hop_begin [OF assms(1)] by auto
  have "rq_GetBody req2 = rq_GetBody req \<and> list_all (body_from req) sent"
    using attempt_loop_body [of env "retry_config_of (se_Config s1)" "first_value (rq_Headers req1) ''Cookie''"
        "bodyReplayable req1" "rc_maxRetries (retry_config_of (se_Config s1))" 0 req1 s1 r req2 s2 sent]
      assms(2) s(1) begin_body [OF assms(1)]
    by (auto simp: exchange_def Let_def body_from_def list_all_iff)
  then show ?thesis using s b mono by (intro exI [of _ sent]) (auto simp: hop_ok_def list_all_iff)
qed

text \<open>
  A chain of hops: the request of a hop and the list of the requests sent for
  it, then the chain of the redirect that follows, if any.
\<close>

inductive chain :: "url_lib \<Rightarrow> nat \<Rightarrow> nat \<Rightarrow> request \<Rightarrow> request list list \<Rightarrow> bool" for ul retries where
  chain_none: "chain ul retries left req []"
| chain_last: "hop_ok retries req sent req' \<Longrightarrow> chain ul retries left req [sent]"
| chain_hop: "hop_ok retries req sent req' \<Longrightarrow>
    redirect_step ul cf m n h req' resp = Follow new h' \<Longrightarrow> chain ul retries left new rest \<Longrightarrow>
    chain ul retries (Suc left) req (sent # rest)"

lemma run_chain:
  assumes "requestWithRedirects env n h req s = (res, s')"
  shows "\<exists>hops. se_sent s' = se_sent s @ concat hops \<and>
    chain (ev_url env) (rc_maxRetries (retry_config_of (se_Config s))) (max_redirects (se_Config s) - n)
      (if n = 0 then derive_body req else req) hops"
  using assms
proof (induction env n h req s arbitrary: rule: requestWithRedirects.induct)
  case (1 env n h req s)
  let ?req = "if n = 0 then derive_body req else req"
  let ?R = "rc_maxRetries (retry_config_of (se_Config s))"
  show ?case
  proof (cases "hop_begin env ?req s")
    case None
    then have "s' = s" using "1.prems" by (subst (asm) requestWithRedirects.simps) auto
    then show ?thesis by (intro exI [of _ "[]"]) (simp add: chain_none)
  next
    case (Some b)
    obtain req1 s1 where b: "hop_begin env ?req s = Some (req1, s1)" using Some by (cases b) auto
    obtain r req2 s2 where x: "exchange env req1 s1 = (r, req2, s2)" by (metis surj_pair)
    obtain sent where sent: "se_sent s2 = se_sent s @ sent" "hop_ok ?R ?req sent req2"
      using hop_chain [OF b x] by blast
    have cfg: "se_Config s2 = se_Config s" using config_exchange [OF x] config_hop_begin [OF b] by simp
    have last: ?thesis if "se_sent s' = se_sent s2"
      using that sent by (intro exI [of _ "[sent]"]) (auto intro: chain_last)
    show ?thesis
    proof (cases r)
      case (Inl e)
      then have "s' = s2" using "1.prems" b x by (subst (asm) requestWithRedirects.simps) auto
      then show ?thesis using last by simp
    next
      case (Inr resp)
      let ?s3 = "hop_store env req2 resp s2"
      show ?thesis
      proof (cases "redirect_step (ev_url env) (cf_FollowRedirects (se_Config ?s3)) (max_redirects (se_Config ?s3)) n h req2 resp")
        case (Return a e)
        then have "s' = ?s3" using "1.prems" b x Inr by (subst (asm) requestWithRedirects.simps) (auto simp: Let_def)
        then show ?thesis using last by simp
      next
        case (Follow new h')
        then have rec: "requestWithRedirects env (n + 1) h' new ?s3 = (res, s')"
          using "1.prems" b x Inr by (subst (asm) requestWithRedirects.simps) (auto simp: Let_def)
        have lt: "n < max_redirects (se_Config s)" using follow_below_max [OF Follow] cfg by simp
        obtain hops where hops: "se_sent s' = se_sent ?s3 @ concat hops"
          "chain (ev_url env) ?R (max_redirects (se_Config s) - (n + 1)) new hops"
          using "1.IH" [OF b refl x [symmetric] Inr refl refl Follow rec] cfg by auto
        have "chain (ev_url env) ?R (Suc (max_redirects (se_Config s) - (n + 1))) ?req (sent # hops)"
          by (rule chain_hop [OF sent(2) Follow hops(2)])
        moreover have "Suc (max_redirects (se_Config s) - (n + 1)) = max_redirects (se_Config s) - n" using lt by simp
        ultimately show ?thesis using hops(1) sent(1) by (intro exI [of _ "sent # hops"]) simp
      qed
    qed
  qed
qed

end
