(* ===== verification/Session_Runs.thy ===== *)
theory Session_Runs
  imports Session_Requests
begin

text \<open>
  What a whole run of \<^verbatim>\<open>Request\<close> does, over all its redirects and retries: where
  credentials may go, how many requests are sent, which bodies they carry, and
  the bounds of the waits between retries. The proofs are rule inductions over
  the chain of hops that \<open>run_chain\<close> gives for every run.
\<close>

section \<open>Runs\<close>

lemma Request_chain:
  assumes "Request env req s = (res, s')"
  shows "\<exists>hops. se_sent s' = se_sent s @ concat hops \<and>
    chain (ev_url env) (rc_maxRetries (retry_config_of (se_Config s))) (max_redirects (se_Config s)) (derive_body req) hops"
  using run_chain [of env 0 "[]" req s res s'] assms by (simp add: Request_def)

lemma same_origin_refl: "sameOrigin ul a b \<Longrightarrow> sameOrigin ul a a"
  by (auto simp: sameOrigin_def split: prod.splits if_splits)

lemma has_credentials_derive [simp]: "has_credentials (derive_body req) = has_credentials req"
  using credentials_same_but [of _ req "derive_body req"] same_but_derive by blast

lemma url_derive [simp]: "rq_URL (derive_body req) = rq_URL req"
  by (auto simp: derive_body_def split: option.split)

lemma hop_ok_same:
  assumes "hop_ok r req sent req'" and "y = req' \<or> y \<in> set sent"
  shows "has_credentials y \<longleftrightarrow> has_credentials req" and "rq_URL y = rq_URL req"
proof -
  have "same_but (session_headers @ begin_headers) req y"
    using assms by (auto simp: hop_ok_def list_all_iff)
  then show "has_credentials y \<longleftrightarrow> has_credentials req" and "rq_URL y = rq_URL req"
    using credentials_same_but by (blast, simp add: same_but_def)
qed

lemma chain_credentials:
  "chain ul r left req hops \<Longrightarrow> x \<in> set (concat hops) \<Longrightarrow> has_credentials x \<Longrightarrow>
   has_credentials req \<and> (rq_URL x = rq_URL req \<or> sameOrigin ul (rq_URL req) (rq_URL x))"
proof (induction arbitrary: x rule: chain.induct)
  case (chain_last req sent req' left)
  then show ?case using hop_ok_same [of r req sent req' x] by simp
next
  case (chain_hop req sent req' cf m n h resp new h' left rest)
  show ?case
  proof (cases "x \<in> set sent")
    case True
    then show ?thesis using chain_hop.prems hop_ok_same [OF chain_hop.hyps(1)] by blast
  next
    case False
    then have n: "has_credentials new" "rq_URL x = rq_URL new \<or> sameOrigin ul (rq_URL new) (rq_URL x)"
      using chain_hop by auto
    then show ?thesis
      using redirect_credentials [OF chain_hop.hyps(2)] hop_ok_same [OF chain_hop.hyps(1), of req'] sameOrigin_trans by metis
  qed
qed simp

lemma chain_length:
  "chain ul r left req hops \<Longrightarrow> length (concat hops) \<le> (left + 1) * (r + 1)"
  by (induction rule: chain.induct) (auto simp: hop_ok_def)

text \<open>A streaming body of the data \<open>d\<close>, which \<^verbatim>\<open>GetBody\<close> re-opens with the same data.\<close>

definition carries :: "byte list \<Rightarrow> request \<Rightarrow> bool" where
  "carries d req \<longleftrightarrow>
     (case rq_BodyReader req of None \<Rightarrow> True | Some b \<Rightarrow> br_data b = d) \<and>
     (case rq_GetBody req of Some (Inr fresh) \<Rightarrow> br_data fresh = d | _ \<Rightarrow> True)"

lemma carries_derive: "carries d req \<Longrightarrow> carries d (derive_body req)"
  by (auto simp: carries_def derive_body_def DeriveGetBody_def split: option.splits)

lemma carries_redirect:
  assumes "redirect_step ul cf m n h req' resp = Follow new h'" and "rq_GetBody req' = rq_GetBody req" and "carries d req"
  shows "carries d new"
proof -
  obtain u me where "redirect_body (rs_StatusCode resp) u req' (redirect_request ul req' me u) = Inr new"
    using redirect_follow [OF assms(1)] by metis
  then show ?thesis using assms(2,3)
    by (auto simp: redirect_body_def redirect_request_def carries_def split: if_splits option.splits sum.splits)
qed

lemma hop_ok_body:
  "hop_ok r req sent req' \<Longrightarrow> carries d req \<Longrightarrow> x \<in> set sent \<Longrightarrow> rq_BodyReader x = Some b \<Longrightarrow> br_data b = d"
  by (force simp: hop_ok_def list_all_iff body_from_def carries_def)

lemma chain_body:
  "chain ul r left req hops \<Longrightarrow> carries d req \<Longrightarrow> x \<in> set (concat hops) \<Longrightarrow> rq_BodyReader x = Some b \<Longrightarrow> br_data b = d"
proof (induction rule: chain.induct)
  case (chain_last req sent req' left)
  then show ?case using hop_ok_body by auto
next
  case (chain_hop req sent req' cf m n h resp new h' left rest)
  then show ?case using hop_ok_body carries_redirect [OF chain_hop.hyps(2)] by (auto simp: hop_ok_def)
qed simp

section \<open>A small web for the examples\<close>

definition demo_url :: "string \<Rightarrow> string \<Rightarrow> string \<Rightarrow> url" where
  "demo_url scheme host path = \<lparr>url_Scheme = scheme, url_User = None, url_Host = host, url_Path = path, url_RawPath = [],
     url_RawQuery = [], url_Fragment = [], url_RawFragment = []\<rparr>"

definition demo_lib :: url_lib where
  "demo_lib =
     \<lparr>ul_Parse = map_of [(''https://a.test/x'', demo_url ''https'' ''a.test'' ''/x''),
                         (''https://b.test/'', demo_url ''https'' ''b.test'' ''/'')],
      ul_String = (\<lambda>u. url_Scheme u @ ''://'' @ url_Host u @ url_Path u),
      ul_ResolveReference = (\<lambda>base ref. ref)\<rparr>"

definition demo_config :: session_config where
  "demo_config =
     \<lparr>cf_Preset = ''chrome-latest'', cf_Proxy = [], cf_TCPProxy = [], cf_UDPProxy = [], cf_Timeout = 30,
      cf_FollowRedirects = True, cf_MaxRedirects = 0, cf_RetryEnabled = False, cf_MaxRetries = 1, cf_RetryWaitMin = 0,
      cf_RetryWaitMax = 0, cf_RetryOnStatus = [], cf_InsecureSkipVerify = False, cf_TLSVerifyPeerCertificate = None,
      cf_TLSVerifyConnection = None, cf_TLSRootCAs = None,
      cf_DisableHTTP3 = False, cf_ForceHTTP1 = False, cf_ForceHTTP2 = False, cf_ForceHTTP3 = False,
      cf_PreferIPv4 = False, cf_LocalAddress = [], cf_ConnectTo = [], cf_ECHConfigDomain = [], cf_TLSOnly = False,
      cf_QuicIdleTimeout = 0, cf_KeyLogFile = [], cf_DisableECH = False, cf_EnableSpeculativeTLS = False, cf_SwitchProtocol = [], cf_WithoutCookieJar = False,
      cf_WithoutConditionalCache = False, cf_WithoutClientHints = False, cf_WithoutHighEntropyClientHints = False\<rparr>"

definition demo_session :: session where
  "demo_session =
     \<lparr>se_ID = ''s'', se_CreatedAt = 0, se_LastUsed = 0, se_RequestCount = 0, se_Config = demo_config,
      se_cookies = NewCookieJar, se_cacheEntries = [], se_conditionalCacheEnabled = True, se_clientHints = [],
      se_clientHintsEnabled = True, se_highEntropyClientHintsEnabled = True, se_keyLogWriter = False,
      se_draining = False, se_refreshed = False, se_switchProtocol = ProtocolAuto, se_active = True,
      se_sent = [], se_cmds = [], se_waits = []\<rparr>"

definition demo_response :: "int \<Rightarrow> headers \<Rightarrow> response" where
  "demo_response status h = \<lparr>rs_StatusCode = status, rs_Headers = h, rs_History = []\<rparr>"

text \<open>The first site sends everyone to the second with status 307.\<close>

definition demo_env :: env where
  "demo_env =
     \<lparr>ev_Do = (\<lambda>n req. if rq_URL req = ''https://a.test/x'' then
                 Inr (demo_response 307 [(''Location'', [''https://b.test/''])])
               else Inr (demo_response 200 [])),
      ev_ctx = (\<lambda>n. None), ev_rand = (\<lambda>n. 0), ev_now = (\<lambda>n. 0), ev_url = demo_lib,
      ev_hints = (\<lambda>p. \<lparr>ch_UAArch = [], ch_UABitness = [], ch_UAFullVersionList = [], ch_UAModel = [],
                       ch_UAPlatformVersion = [], ch_UAWow64 = []\<rparr>),
      ev_timeParse = (\<lambda>f v. None)\<rparr>"

definition demo_request :: request where
  "demo_request = (get_request ''POST'' ''https://a.test/x'' [] [(''Authorization'', [''Basic x''])])
     \<lparr>rq_BodyReader := Some \<lparr>br_mem = True, br_data = [1, 2]\<rparr>\<rparr>"

abbreviation sent_by :: "env \<Rightarrow> request \<Rightarrow> session \<Rightarrow> request list" where
  "sent_by env req s \<equiv> drop (length (se_sent s)) (se_sent (snd (Request env req s)))"

lemma sent_by_chain:
  "\<exists>hops. sent_by env req s = concat hops \<and>
    chain (ev_url env) (rc_maxRetries (retry_config_of (se_Config s))) (max_redirects (se_Config s)) (derive_body req) hops"
  using Request_chain [of env req s "fst (Request env req s)" "snd (Request env req s)"] by auto

lemma demo_run:
  "map (\<lambda>x. (rq_URL x, has_credentials x)) (sent_by demo_env demo_request demo_session) =
     [(''https://a.test/x'', True), (''https://b.test/'', False)]"
  by code_simp

section \<open>Safety of a run\<close>



text \<open>
  Property C30. A run ends after a bounded number of requests: at most one more than the
  redirect limit times one more than the retry limit, for every transport and every
  server behaviour.
\<close>

theorem request_sends_bounded:
  "length (sent_by env req s) \<le>
     (max_redirects (se_Config s) + 1) * (rc_maxRetries (retry_config_of (se_Config s)) + 1)"
  using sent_by_chain chain_length by metis

text \<open>
  Property C29. A streaming body is never sent half-read: when the reader that
  \<^verbatim>\<open>GetBody\<close> re-opens has the data of the first one, every request of the run that
  streams a body streams all of it, over all retries and redirects, although
  each attempt reads the reader to its end.
\<close>

theorem streamed_body_intact:
  assumes "carries d req" and "x \<in> set (sent_by env req s)" and "rq_BodyReader x = Some b"
  shows "br_data b = d"
proof -
  obtain hops where h: "sent_by env req s = concat hops" "chain (ev_url env)
      (rc_maxRetries (retry_config_of (se_Config s))) (max_redirects (se_Config s)) (derive_body req) hops"
    using sent_by_chain by blast
  show ?thesis using chain_body [OF h(2) carries_derive [OF assms(1)]] assms(2,3) h(1) by simp
qed

lemma demo_bodies:
  "map (\<lambda>x. (rq_URL x, map_option (length \<circ> br_data) (rq_BodyReader x))) (sent_by demo_env demo_request demo_session) =
     [(''https://a.test/x'', Some 2), (''https://b.test/'', Some 2)]"
  by code_simp

theorem streamed_body_intact_witness:
  "\<exists>x \<in> set (sent_by demo_env demo_request demo_session).
     rq_URL x = ''https://b.test/'' \<and> (\<exists>b. rq_BodyReader x = Some b \<and> br_data b = [1, 2])"
proof -
  obtain x b where "x \<in> set (sent_by demo_env demo_request demo_session)" "rq_URL x = ''https://b.test/''" "rq_BodyReader x = Some b"
    using demo_bodies by (auto simp: map_eq_Cons_conv) blast
  moreover have "carries [1, 2] demo_request" by (simp add: carries_def demo_request_def get_request_def)
  ultimately show ?thesis using streamed_body_intact [where env = demo_env and req = demo_request and s = demo_session and x = x and d = "[1, 2]" and b = b] by blast
qed

text \<open>
  Lemma. A closed session sends nothing and answers every request with
  \<^verbatim>\<open>ErrSessionClosed\<close>, its state unchanged.
\<close>

theorem closed_session_sends_nothing:
  assumes "\<not> se_active s"
  shows "Request env req s = ((None, Some ErrSessionClosed), s) \<and> RequestStream env req s = (Inl ErrSessionClosed, s)"
  using assms by (auto simp: Request_def requestWithRedirects.simps [of env 0] hop_begin_def RequestStream_def)

theorem closed_session_sends_nothing_witness:
  "Request demo_env demo_request (demo_session\<lparr>se_active := False\<rparr>) =
     ((None, Some ErrSessionClosed), demo_session\<lparr>se_active := False\<rparr>)"
  using closed_session_sends_nothing [of "demo_session\<lparr>se_active := False\<rparr>" demo_env demo_request] by simp

section \<open>The request after a redirect\<close>

lemma keep_header_cookie: "\<not> keep_header mc dg co ''Cookie''" "\<not> keep_header mc dg co ''cookie''"
  by (simp_all add: keep_header_def)

lemma map_of_filter_key: "map_of (filter (\<lambda>(k, v). P k) xs) k = (if P k then map_of xs k else None)"
  by (induction xs) auto

lemma redirect_headers_other:
  assumes "k \<noteq> ''Referer''" and "k \<noteq> ''referer''"
  shows "map_of (redirect_headers ul req m dg co) k =
    (if keep_header (m \<noteq> rq_Method req) dg co k then map_of (rq_Headers req) k else None)"
  using assms by (simp add: redirect_headers_def Let_def map_of_filter_key delete_conv)

lemma redirect_headers_referer:
  "map_of (redirect_headers ul req m dg co) ''Referer'' =
    (let ref = redirectReferer ul (rq_URL req) dg co in
     if rq_DisableRedirectReferer req \<or> ref = [] then None else Some [ref])"
  by (auto simp: redirect_headers_def Let_def delete_conv)

lemma redirectReferer_origin:
  "redirectReferer ul u False True \<noteq> [] \<Longrightarrow>
   \<exists>port. redirectReferer ul u False True = fst (parseOrigin ul u) @ ''://'' @ fst (snd (parseOrigin ul u)) @ port @ ''/'' \<and>
     (port = [] \<or> port = '':'' @ snd (snd (parseOrigin ul u)))"
  by (auto simp: redirectReferer_def Let_def split: prod.splits if_splits)

lemma redirect_body_only_307:
  assumes "redirect_body st url req (redirect_request ul req m url) = Inr new"
    and "rq_Body new \<noteq> [] \<or> rq_BodyReader new \<noteq> None"
  shows "(st = 307 \<or> st = 308) \<and> (rq_Body new \<noteq> [] \<longrightarrow> rq_Body new = rq_Body req)"
  using assms by (auto simp: redirect_body_def redirect_request_def split: if_splits option.splits sum.splits)

definition referer_origin :: "url_lib \<Rightarrow> string \<Rightarrow> string list \<Rightarrow> bool" where
  "referer_origin ul url v \<longleftrightarrow> (let (scheme, host, port) = parseOrigin ul url in
     v = [scheme @ ''://'' @ host @ ''/''] \<or> v = [scheme @ ''://'' @ host @ '':'' @ port @ ''/''])"


definition demo_next :: hop_result where
  "demo_next = redirect_step demo_lib True 10 0 [] (derive_body demo_request) (demo_response 307 [(''Location'', [''https://b.test/''])])"


text \<open>
  Lemma. The validators of one URL are sent to another: when the session
  has cached an entity tag for a page that redirects, the request to the target
  of the redirect, in another origin, carries the tag of the first page.
\<close>

theorem validators_cross_origin:
  "map (\<lambda>x. (rq_URL x, map_of (rq_Headers x) ''If-None-Match''))
     (sent_by demo_env demo_request
        (demo_session\<lparr>se_cacheEntries := [(''https://a.test/x'', \<lparr>ce_etag = ''v1'', ce_lastModified = []\<rparr>)]\<rparr>)) =
     [(''https://a.test/x'', Some [''v1'']), (''https://b.test/'', Some [''v1''])]"
  by code_simp

text \<open>Lemma. A redirect of PUT with status 301 or 302 keeps the method and the content headers but not the body.\<close>

lemma put_redirect_loses_body:
  assumes "redirect_step ul cf m n h req resp = Follow new h'" and "rq_Method req = ''PUT''"
    and "rs_StatusCode resp = 301 \<or> rs_StatusCode resp = 302"
  shows "rq_Method new = ''PUT'' \<and> rq_Body new = [] \<and> rq_BodyReader new = None \<and>
    map_of (rq_Headers new) ''Content-Length'' = map_of (rq_Headers req) ''Content-Length''"
proof -
  obtain u me where f: "rq_Method new = me"
    "rq_Headers new = redirect_headers ul req me (isSchemeDowngrade ul (rq_URL req) u) (\<not> sameOrigin ul (rq_URL req) u)"
    "me = redirect_method (rs_StatusCode resp) (rq_Method req)"
    "redirect_body (rs_StatusCode resp) u req (redirect_request ul req me u) = Inr new"
    by (rule redirect_follow [OF assms(1)])
  have me: "me = ''PUT''" using f(3) assms(2,3) by (auto simp: redirect_method_def)
  have k: "keep_header False dg co ''Content-Length''" for dg co
  proof -
    have "to_lower ''Content-Length'' = ''content-length''" by code_simp
    then show ?thesis by (simp add: keep_header_def)
  qed
  have "map_of (rq_Headers new) ''Content-Length'' = map_of (rq_Headers req) ''Content-Length''"
    using k me assms(2) by (simp add: f(2) redirect_headers_other)
  moreover have "rq_Body new = [] \<and> rq_BodyReader new = None"
    using redirect_body_only_307 [OF f(4)] assms(3) by fastforce
  ultimately show ?thesis using f(1) me by simp
qed

section \<open>Waits\<close>

lemma float64_small: "\<bar>w\<bar> < 2 ^ 53 \<Longrightarrow> float64 w = w"
  by (auto simp: float64_def Let_def sgn_if nat_less_iff)

lemma randInt64_bounds: "0 < n \<Longrightarrow> 0 \<le> randInt64 v n \<and> randInt64 v n < n"
  by (simp add: randInt64_def)

text \<open>
  Lemma. Backoff with jitter: as long as the doubled wait fits into 64
  bits, the wait before a retry is the doubled minimum, capped by the maximum,
  give or take a quarter, and never negative.
\<close>

theorem retry_wait_bounds:
  assumes "0 < waitMin" and "waitMin * 2 ^ attempt < 2 ^ 63" and "0 < waitMax" and "waitMax < 2 ^ 53"
  shows "\<bar>retry_wait waitMin waitMax attempt v - min (waitMin * 2 ^ attempt) waitMax\<bar> \<le> min (waitMin * 2 ^ attempt) waitMax div 4 \<and>
    0 < retry_wait waitMin waitMax attempt v"
proof -
  define w where "w = min (waitMin * 2 ^ attempt) waitMax"
  have pos: "0 < w" "w < 2 ^ 53" using assms by (auto simp: w_def)
  have p: "(2 :: int) ^ attempt \<le> waitMin * 2 ^ attempt" using assms(1) by simp
  have e: "int64 (waitMin * int64 (2 ^ attempt)) = waitMin * 2 ^ attempt"
  proof -
    have "int64 (2 ^ attempt) = 2 ^ attempt"
      using le_less_trans [OF p assms(2)] by (intro int64_id) (auto intro: order_trans [of _ 0])
    moreover have "0 < waitMin * 2 ^ attempt" using assms(1) by simp
    ultimately show ?thesis using assms(2) by simp
  qed
  have q: "quarter w = w div 4" using pos by (simp add: quarter_def float64_small)
  have j: "int64 (w div 4 * 2) = w div 4 * 2" using pos by (intro int64_id) auto
  let ?r = "randInt64 v (w div 4 * 2)"
  have r: "0 \<le> ?r \<and> ?r \<le> w div 4 * 2" using pos randInt64_bounds [of "w div 4 * 2" v] 
    by (cases "w div 4 = 0") (simp add: randInt64_def, linarith)
  have "retry_wait waitMin waitMax attempt v = int64 (w - w div 4 + ?r)"
    using q j by (auto simp: retry_wait_def Let_def e w_def min_def)
  also have "\<dots> = w - w div 4 + ?r" using r pos by (intro int64_id) auto
  finally show ?thesis using r pos unfolding w_def [symmetric] by auto
qed

theorem retry_wait_bounds_witness:
  "\<bar>retry_wait (500 * millisecond) (10 * second) 3 7 - 4 * second\<bar> \<le> second"
  using retry_wait_bounds [of "500 * millisecond" 3 "10 * second" 7] by simp

text \<open>Lemma. After 35 retries the doubled wait no longer fits: it is negative, below the cap.\<close>

lemma retry_wait_overflow:
  "int64 (500 * millisecond * int64 (2 ^ 35)) < 0"
  by (simp add: int64_def)

end
