(* ===== verification/Session_Lifecycle.thy ===== *)
theory Session_Lifecycle
  imports Session_Runs
begin

text \<open>
  The life of a session: its constructor and the transport it sets up, closing at
  once or gracefully, refreshing and switching protocol, proxies and the other
  settings, forks, from \<^verbatim>\<open>session/session.go\<close> and \<^verbatim>\<open>session/fork.go\<close>. What the
  session asks of its transport is kept in order in \<open>se_cmds\<close>.
\<close>

section \<open>Constructor\<close>

record session_options =
  so_SessionCacheBackend :: "ref option"
  so_SessionCacheErrorCallback :: "ref option"
  so_CustomJA3 :: string
  so_CustomJA3Extras :: "ref option"
  so_CustomH2Settings :: "ref option"
  so_CustomPseudoOrder :: "string list"
  so_CustomTCPFingerprint :: "ref option"

definition zero_config :: session_config where
  "zero_config =
     \<lparr>cf_Preset = [], cf_Proxy = [], cf_TCPProxy = [], cf_UDPProxy = [], cf_Timeout = 0, cf_FollowRedirects = False,
      cf_MaxRedirects = 0, cf_RetryEnabled = False, cf_MaxRetries = 0, cf_RetryWaitMin = 0, cf_RetryWaitMax = 0,
      cf_RetryOnStatus = [], cf_InsecureSkipVerify = False, cf_TLSVerifyPeerCertificate = None,
      cf_TLSVerifyConnection = None, cf_TLSRootCAs = None, cf_DisableHTTP3 = False, cf_ForceHTTP1 = False,
      cf_ForceHTTP2 = False, cf_ForceHTTP3 = False, cf_PreferIPv4 = False, cf_LocalAddress = [], cf_ConnectTo = [],
      cf_ECHConfigDomain = [], cf_TLSOnly = False, cf_QuicIdleTimeout = 0, cf_KeyLogFile = [], cf_DisableECH = False,
      cf_EnableSpeculativeTLS = False, cf_SwitchProtocol = [], cf_WithoutCookieJar = False,
      cf_WithoutConditionalCache = False, cf_WithoutClientHints = False, cf_WithoutHighEntropyClientHints = False\<rparr>"

definition preset_name :: "session_config \<Rightarrow> string" where
  "preset_name config = (if cf_Preset config \<noteq> [] then cf_Preset config else ''chrome-latest'')"

definition proxy_of :: "session_config \<Rightarrow> proxy_config option" where
  "proxy_of config =
     (if cf_Proxy config \<noteq> [] \<or> cf_TCPProxy config \<noteq> [] \<or> cf_UDPProxy config \<noteq> []
      then Some \<lparr>px_URL = cf_Proxy config, px_TCPProxy = cf_TCPProxy config, px_UDPProxy = cf_UDPProxy config\<rparr>
      else None)"

definition options_need_config :: "session_options option \<Rightarrow> bool" where
  "options_need_config opts =
     (case opts of
        None \<Rightarrow> False
      | Some o' \<Rightarrow> so_SessionCacheBackend o' \<noteq> None \<or> so_CustomJA3 o' \<noteq> [] \<or> so_CustomH2Settings o' \<noteq> None \<or>
                  so_CustomPseudoOrder o' \<noteq> [] \<or> so_CustomTCPFingerprint o' \<noteq> None)"

definition needs_config :: "session_config \<Rightarrow> bool" where
  "needs_config config \<longleftrightarrow>
     cf_ConnectTo config \<noteq> [] \<or> cf_ECHConfigDomain config \<noteq> [] \<or> cf_TLSOnly config \<or>
     cf_QuicIdleTimeout config > 0 \<or> cf_LocalAddress config \<noteq> [] \<or> cf_EnableSpeculativeTLS config"

definition transport_config_of :: "session_config \<Rightarrow> bool \<Rightarrow> session_options option \<Rightarrow> transport_config" where
  "transport_config_of config keyLog opts =
     \<lparr>tpc_ConnectTo = cf_ConnectTo config, tpc_ECHConfigDomain = cf_ECHConfigDomain config,
      tpc_TLSOnly = cf_TLSOnly config, tpc_QuicIdleTimeout = int64 (cf_QuicIdleTimeout config * second),
      tpc_LocalAddr = cf_LocalAddress config, tpc_KeyLogWriter = keyLog,
      tpc_EnableSpeculativeTLS = cf_EnableSpeculativeTLS config,
      tpc_SessionCacheBackend = Option.bind opts so_SessionCacheBackend,
      tpc_SessionCacheErrorCallback = Option.bind opts so_SessionCacheErrorCallback,
      tpc_CustomJA3 = (case opts of None \<Rightarrow> [] | Some o' \<Rightarrow> so_CustomJA3 o'),
      tpc_CustomJA3Extras = Option.bind opts so_CustomJA3Extras,
      tpc_CustomH2Settings = Option.bind opts so_CustomH2Settings,
      tpc_CustomPseudoOrder = (case opts of None \<Rightarrow> [] | Some o' \<Rightarrow> so_CustomPseudoOrder o'),
      tpc_CustomTCPFingerprint = Option.bind opts so_CustomTCPFingerprint\<rparr>"

text \<open>The settings both the constructor and \<^verbatim>\<open>forkOne\<close> apply to a new transport.\<close>

definition transport_settings :: "session_config \<Rightarrow> transport_cmd list" where
  "transport_settings config =
     (if cf_InsecureSkipVerify config then [TSetInsecureSkipVerify] else []) @
     (if cf_TLSVerifyPeerCertificate config \<noteq> None \<or> cf_TLSVerifyConnection config \<noteq> None \<or> cf_TLSRootCAs config \<noteq> None
      then [TSetTLSVerify \<lparr>tv_VerifyPeerCertificate = cf_TLSVerifyPeerCertificate config,
                           tv_VerifyConnection = cf_TLSVerifyConnection config, tv_RootCAs = cf_TLSRootCAs config\<rparr>]
      else []) @
     (if cf_ForceHTTP1 config then [TSetProtocol ProtocolHTTP1]
      else if cf_ForceHTTP2 config then [TSetProtocol ProtocolHTTP2]
      else if cf_ForceHTTP3 config then [TSetProtocol ProtocolHTTP3]
      else if cf_DisableHTTP3 config then [TSetDisableHTTP3] else []) @
     (if cf_PreferIPv4 config then [TSetPreferIPv4] else []) @
     (if cf_DisableECH config then [TSetDisableECH] else [])"

definition parseProtocol :: "string \<Rightarrow> protocol option" where
  "parseProtocol proto =
     (if proto \<in> {''h1'', ''http1'', ''1''} then Some ProtocolHTTP1
      else if proto \<in> {''h2'', ''http2'', ''2''} then Some ProtocolHTTP2
      else if proto \<in> {''h3'', ''http3'', ''3''} then Some ProtocolHTTP3
      else if proto \<in> {''auto'', []} then Some ProtocolAuto
      else None)"

definition switch_protocol_of :: "session_config \<Rightarrow> protocol" where
  "switch_protocol_of config =
     (if cf_SwitchProtocol config \<noteq> [] then
        (case parseProtocol (cf_SwitchProtocol config) of Some p \<Rightarrow> p | None \<Rightarrow> ProtocolAuto)
      else ProtocolAuto)"

text \<open>
  \<open>gen\<close> is the random identifier and \<open>openLog\<close> tells whether a key log file can
  be opened.
\<close>

definition NewSessionWithOptions ::
    "string \<Rightarrow> (string \<Rightarrow> bool) \<Rightarrow> time \<Rightarrow> string \<Rightarrow> session_config option \<Rightarrow> session_options option \<Rightarrow> session" where
  "NewSessionWithOptions gen openLog now id' configPtr opts =
     (let config = (case configPtr of
            Some c \<Rightarrow> c
          | None \<Rightarrow> zero_config\<lparr>cf_Preset := ''chrome-latest'', cf_Timeout := 30\<rparr>);
          keyLog = (cf_KeyLogFile config \<noteq> [] \<and> openLog (cf_KeyLogFile config));
          transportConfig = (if needs_config config \<or> keyLog \<or> options_need_config opts
            then Some (transport_config_of config keyLog opts) else None)
      in \<lparr>se_ID = (if id' = [] then gen else id'), se_CreatedAt = now, se_LastUsed = now, se_RequestCount = 0,
          se_Config = config, se_cookies = NewCookieJar, se_cacheEntries = [],
          se_conditionalCacheEnabled = (\<not> cf_WithoutConditionalCache config), se_clientHints = [],
          se_clientHintsEnabled = (\<not> cf_WithoutClientHints config),
          se_highEntropyClientHintsEnabled = (\<not> cf_WithoutHighEntropyClientHints config),
          se_keyLogWriter = keyLog, se_draining = False, se_refreshed = False,
          se_switchProtocol = switch_protocol_of config, se_active = True, se_sent = [],
          se_cmds = TNew (preset_name config) (proxy_of config) transportConfig #
            (if cf_Timeout config > 0 then [TSetTimeout (int64 (cf_Timeout config * second))] else []) @
            transport_settings config,
          se_waits = []\<rparr>)"

definition NewSession :: "string \<Rightarrow> (string \<Rightarrow> bool) \<Rightarrow> time \<Rightarrow> string \<Rightarrow> session_config option \<Rightarrow> session" where
  "NewSession gen openLog now id' config = NewSessionWithOptions gen openLog now id' config None"

section \<open>Closing and refreshing\<close>

definition cmd :: "transport_cmd \<Rightarrow> session \<Rightarrow> session" where
  "cmd c s = s\<lparr>se_cmds := se_cmds s @ [c]\<rparr>"

definition closeKeyLog :: "session \<Rightarrow> session" where
  "closeKeyLog s = s\<lparr>se_keyLogWriter := False\<rparr>"

definition se_Close :: "session \<Rightarrow> session" where
  "se_Close s =
     (if \<not> se_active s \<and> \<not> se_draining s then s
      else closeKeyLog (cmd TClose (s\<lparr>se_active := False, se_draining := False\<rparr>)))"

definition CloseGraceful :: "session \<Rightarrow> session" where
  "CloseGraceful s =
     (if \<not> se_active s then s
      else closeKeyLog (cmd TCloseGraceful (s\<lparr>se_active := False, se_draining := True\<rparr>)))"

definition se_Refresh :: "session \<Rightarrow> session" where
  "se_Refresh s =
     (if \<not> se_active s then s
      else cmd (if se_switchProtocol s \<noteq> ProtocolAuto then TRefreshWithProtocol (se_switchProtocol s) else TRefresh)
             (s\<lparr>se_refreshed := True\<rparr>))"

text \<open>\<open>h3\<close> is the \<^verbatim>\<open>SupportHTTP3\<close> flag of the preset a name stands for, if there is one.\<close>

definition RefreshWithProtocol :: "(string \<Rightarrow> bool option) \<Rightarrow> string \<Rightarrow> session \<Rightarrow> string option \<times> session" where
  "RefreshWithProtocol h3 proto s =
     (case parseProtocol proto of
        None \<Rightarrow> (Some (''invalid protocol '' @ proto), s)
      | Some p \<Rightarrow>
          if p = ProtocolHTTP3 \<and> h3 (cf_Preset (se_Config s)) = Some False
          then (Some (''preset '' @ cf_Preset (se_Config s) @ '' does not support HTTP/3''), s)
          else if \<not> se_active s then (Some ErrSessionClosed, s)
          else (None, cmd (TRefreshWithProtocol p) (s\<lparr>se_refreshed := True, se_switchProtocol := p\<rparr>)))"

definition Touch :: "time \<Rightarrow> session \<Rightarrow> session" where
  "Touch now s = s\<lparr>se_LastUsed := now\<rparr>"

definition IdleTime :: "time \<Rightarrow> session \<Rightarrow> duration" where
  "IdleTime now s = now - se_LastUsed s"

section \<open>Settings\<close>

definition ClearCache :: "session \<Rightarrow> session" where
  "ClearCache s = s\<lparr>se_cacheEntries := []\<rparr>"

definition SetConditionalCacheEnabled :: "bool \<Rightarrow> session \<Rightarrow> session" where
  "SetConditionalCacheEnabled b s = s\<lparr>se_conditionalCacheEnabled := b\<rparr>"

definition SetClientHintsEnabled :: "bool \<Rightarrow> session \<Rightarrow> session" where
  "SetClientHintsEnabled b s = s\<lparr>se_clientHintsEnabled := b\<rparr>"

definition SetHighEntropyClientHintsEnabled :: "bool \<Rightarrow> session \<Rightarrow> session" where
  "SetHighEntropyClientHintsEnabled b s = s\<lparr>se_highEntropyClientHintsEnabled := b\<rparr>"

definition SetFollowRedirects :: "bool \<Rightarrow> session \<Rightarrow> session" where
  "SetFollowRedirects b s = s\<lparr>se_Config := (se_Config s)\<lparr>cf_FollowRedirects := b\<rparr>\<rparr>"

definition SetMaxRedirects :: "int \<Rightarrow> session \<Rightarrow> session" where
  "SetMaxRedirects m s = (if m \<le> 0 then s else s\<lparr>se_Config := (se_Config s)\<lparr>cf_MaxRedirects := m\<rparr>\<rparr>)"

definition MaxRedirects :: "session \<Rightarrow> int" where
  "MaxRedirects s = (if cf_MaxRedirects (se_Config s) \<le> 0 then 10 else cf_MaxRedirects (se_Config s))"

definition SetProxy :: "string \<Rightarrow> session \<Rightarrow> session" where
  "SetProxy proxyURL s =
     (cmd (TSetProxy (if proxyURL \<noteq> [] then Some \<lparr>px_URL = proxyURL, px_TCPProxy = [], px_UDPProxy = []\<rparr> else None)) s)
       \<lparr>se_Config := (se_Config s)\<lparr>cf_Proxy := proxyURL, cf_TCPProxy := [], cf_UDPProxy := []\<rparr>\<rparr>"

definition SetTCPProxy :: "string \<Rightarrow> session \<Rightarrow> session" where
  "SetTCPProxy proxyURL s =
     (cmd (TSetProxy (Some \<lparr>px_URL = [], px_TCPProxy = proxyURL, px_UDPProxy = cf_UDPProxy (se_Config s)\<rparr>)) s)
       \<lparr>se_Config := (se_Config s)\<lparr>cf_TCPProxy := proxyURL, cf_Proxy := []\<rparr>\<rparr>"

definition SetUDPProxy :: "string \<Rightarrow> session \<Rightarrow> session" where
  "SetUDPProxy proxyURL s =
     (cmd (TSetProxy (Some \<lparr>px_URL = [], px_TCPProxy = cf_TCPProxy (se_Config s), px_UDPProxy = proxyURL\<rparr>)) s)
       \<lparr>se_Config := (se_Config s)\<lparr>cf_UDPProxy := proxyURL, cf_Proxy := []\<rparr>\<rparr>"

definition GetProxy :: "session \<Rightarrow> string" where
  "GetProxy s = (if cf_Proxy (se_Config s) \<noteq> [] then cf_Proxy (se_Config s) else cf_TCPProxy (se_Config s))"

definition GetTCPProxy :: "session \<Rightarrow> string" where
  "GetTCPProxy s = (if cf_TCPProxy (se_Config s) \<noteq> [] then cf_TCPProxy (se_Config s) else cf_Proxy (se_Config s))"

definition GetUDPProxy :: "session \<Rightarrow> string" where
  "GetUDPProxy s = (if cf_UDPProxy (se_Config s) \<noteq> [] then cf_UDPProxy (se_Config s) else cf_Proxy (se_Config s))"

definition SetHeaderOrder :: "string list \<Rightarrow> session \<Rightarrow> session" where
  "SetHeaderOrder order s = cmd (TSetHeaderOrder order) s"

definition se_SetSessionIdentifier :: "string \<Rightarrow> session \<Rightarrow> session" where
  "se_SetSessionIdentifier i s = cmd (TSetSessionIdentifier i) s"

definition se_SetCookies :: "time \<Rightarrow> cookie_state list \<Rightarrow> session \<Rightarrow> session" where
  "se_SetCookies now cs s =
     s\<lparr>se_cookies := fold (\<lambda>c. jar_SetSimple now (cs_Name c) (cs_Value c) (cs_Domain c) (cs_Path c) (cs_Secure c)
         (cs_HttpOnly c) (cs_SameSite c) (cs_MaxAge c) (cs_Expires c)) cs (se_cookies s)\<rparr>"

definition DeleteCookie :: "string \<Rightarrow> string \<Rightarrow> session \<Rightarrow> session" where
  "DeleteCookie name domain s = s\<lparr>se_cookies := jar_Delete name domain (se_cookies s)\<rparr>"

definition ClearCookies :: "session \<Rightarrow> session" where
  "ClearCookies s = s\<lparr>se_cookies := jar_Clear (se_cookies s)\<rparr>"

definition GetCookies :: "time \<Rightarrow> session \<Rightarrow> cookie_state list" where
  "GetCookies now s = jar_GetAll now (se_cookies s)"

record session_stats =
  st_ID :: string
  st_Preset :: string
  st_CreatedAt :: time
  st_LastUsed :: time
  st_RequestCount :: int
  st_Active :: bool
  st_CookieCount :: nat
  st_CacheEntryCount :: nat
  st_Age :: duration
  st_IdleTime :: duration

definition Stats :: "time \<Rightarrow> session \<Rightarrow> session_stats" where
  "Stats now s =
     \<lparr>st_ID = se_ID s, st_Preset = cf_Preset (se_Config s), st_CreatedAt = se_CreatedAt s, st_LastUsed = se_LastUsed s,
      st_RequestCount = se_RequestCount s, st_Active = se_active s, st_CookieCount = jar_Count (se_cookies s),
      st_CacheEntryCount = length (se_cacheEntries s), st_Age = now - se_CreatedAt s, st_IdleTime = now - se_LastUsed s\<rparr>"

section \<open>Forks\<close>

text \<open>
  \<open>parentConfig\<close> is the configuration the parent's transport was made with and
  \<open>has\<close> the protocols both transports have.
\<close>

definition fork_transport_config :: "transport_config option \<Rightarrow> session_config \<Rightarrow> transport_config option" where
  "fork_transport_config parentConfig config =
     (case parentConfig of
        Some pc \<Rightarrow> Some (pc\<lparr>tpc_KeyLogWriter := False\<rparr>)
      | None \<Rightarrow> if needs_config config then Some (transport_config_of config False None) else None)"

definition forkOne :: "string \<Rightarrow> time \<Rightarrow> transport_config option \<Rightarrow> (protocol \<Rightarrow> bool) \<Rightarrow> session \<Rightarrow> session" where
  "forkOne gen now parentConfig has s =
     \<lparr>se_ID = gen, se_CreatedAt = now, se_LastUsed = now, se_RequestCount = 0, se_Config = se_Config s,
      se_cookies = se_cookies s, se_cacheEntries = se_cacheEntries s, se_conditionalCacheEnabled = False,
      se_clientHints = se_clientHints s, se_clientHintsEnabled = se_clientHintsEnabled s,
      se_highEntropyClientHintsEnabled = se_highEntropyClientHintsEnabled s, se_keyLogWriter = False,
      se_draining = False, se_refreshed = False, se_switchProtocol = switch_protocol_of (se_Config s),
      se_active = True, se_sent = [],
      se_cmds = TNew (preset_name (se_Config s)) (proxy_of (se_Config s)) (fork_transport_config parentConfig (se_Config s)) #
        transport_settings (se_Config s) @
        map TSetSessionCache (filter has [ProtocolHTTP1, ProtocolHTTP2, ProtocolHTTP3]),
      se_waits = []\<rparr>"

definition Fork ::
    "(nat \<Rightarrow> string) \<Rightarrow> time \<Rightarrow> transport_config option \<Rightarrow> (protocol \<Rightarrow> bool) \<Rightarrow> int \<Rightarrow> session \<Rightarrow> session list" where
  "Fork gens now parentConfig has n s =
     (if \<not> se_active s \<or> n \<le> 0 then []
      else map (\<lambda>i. forkOne (gens i) now parentConfig has s) [0..<nat n])"

text \<open>
  A session and its forks point to one jar. A family is the jar with the
  sessions; an operation of the i-th session runs on that jar.
\<close>

record family =
  fa_jar :: cookie_jar
  fa_sessions :: "session list"

definition family_run :: "nat \<Rightarrow> (session \<Rightarrow> 'r \<times> session) \<Rightarrow> family \<Rightarrow> 'r \<times> family" where
  "family_run i f fam =
     (let (r, s) = f ((fa_sessions fam ! i)\<lparr>se_cookies := fa_jar fam\<rparr>)
      in (r, fam\<lparr>fa_jar := se_cookies s, fa_sessions := (fa_sessions fam)[i := s]\<rparr>))"

section \<open>Requests leave the life of a session alone\<close>

definition life_view :: "session \<Rightarrow> bool \<times> bool \<times> bool \<times> transport_cmd list \<times> session_config" where
  "life_view s = (se_active s, se_draining s, se_keyLogWriter s, se_cmds s, se_Config s)"

lemma life_store_response [simp]: "life_view (store_response env url resp s) = life_view s"
  by (simp add: life_view_def store_response_def parseAcceptCH_def Let_def)

lemma life_storeCacheHeaders [simp]: "life_view (storeCacheHeaders url h s) = life_view s"
  by (simp add: life_view_def storeCacheHeaders_def Let_def)

lemma life_hop_store [simp]: "life_view (hop_store env req resp s) = life_view s"
  by (simp add: hop_store_def Let_def)

lemma life_hop_begin: "hop_begin env req s = Some (req', s') \<Longrightarrow> life_view s' = life_view s"
  by (auto simp: life_view_def hop_begin_def Let_def split: if_splits)

lemma life_one_attempt: "one_attempt env rc oc n req s = Inr (r, req', s') \<Longrightarrow> life_view s' = life_view s"
  by (auto simp: one_attempt_def transport_Do_def Let_def split: sum.splits if_splits)
    (simp_all add: life_view_def)

lemma life_wait [simp]: "life_view (wait_before_retry env rc n s) = life_view s"
  by (simp add: life_view_def wait_before_retry_def)

lemma life_attempt_loop:
  "attempt_loop env rc oc rep left n req s = (r, req', s') \<Longrightarrow> life_view s' = life_view s"
proof (induction left arbitrary: n req s)
  case 0
  then show ?case by (auto split: sum.splits dest: life_one_attempt)
next
  case (Suc left)
  show ?case
  proof (cases "one_attempt env rc oc n req s")
    case (Inl a)
    then show ?thesis using Suc.prems by (cases a) simp
  next
    case (Inr a)
    obtain r1 req1 s1 where "a = (r1, req1, s1)" by (cases a)
    then show ?thesis
      using Suc.prems Inr life_one_attempt [of env rc oc n req s r1 req1 s1] Suc.IH [of "n + 1" req1]
      by (auto split: if_splits option.splits)
  qed
qed

lemma life_requestWithRedirects: "life_view (snd (requestWithRedirects env n h req s)) = life_view s"
proof (induction env n h req s rule: requestWithRedirects.induct)
  case (1 env n h req s)
  show ?case
  proof (cases "hop_begin env (if n = 0 then derive_body req else req) s")
    case None
    then show ?thesis by (simp add: requestWithRedirects.simps [of env n])
  next
    case (Some b)
    obtain req1 s1 where b: "hop_begin env (if n = 0 then derive_body req else req) s = Some (req1, s1)"
      using Some by (cases b) auto
    obtain r req2 s2 where x: "exchange env req1 s1 = (r, req2, s2)" by (metis surj_pair)
    have v: "life_view s2 = life_view s"
      using life_hop_begin [OF b] life_attempt_loop x by (metis exchange_def)
    show ?thesis
    proof (cases r)
      case (Inl e)
      then show ?thesis using b x v by (simp add: requestWithRedirects.simps [of env n])
    next
      case (Inr resp)
      note IH = "1.IH" [OF b refl x [symmetric] Inr refl refl]
      show ?thesis
        using b x v Inr IH by (subst requestWithRedirects.simps) (auto simp: Let_def split: hop_result.splits)
    qed
  qed
qed

lemma life_Request [simp]: "life_view (snd (Request env req s)) = life_view s"
  by (simp add: Request_def life_requestWithRedirects)

lemma life_RequestStream [simp]: "life_view (snd (RequestStream env req s)) = life_view s"
  by (auto simp: RequestStream_def transport_Do_def Let_def split: prod.splits sum.splits)
    (simp_all add: life_view_def)

section \<open>Reachable sessions\<close>

datatype session_op =
    OpRequest request | OpStream request | OpClose | OpCloseGraceful | OpRefresh | OpRefreshWithProtocol string
  | OpTouch time | OpSetProxy string | OpSetTCPProxy string | OpSetUDPProxy string | OpSetHeaderOrder "string list"
  | OpSetSessionIdentifier string | OpSetFollowRedirects bool | OpSetMaxRedirects int | OpClearCache
  | OpSetConditionalCacheEnabled bool | OpSetClientHintsEnabled bool | OpSetHighEntropyClientHintsEnabled bool
  | OpSetCookies time "cookie_state list" | OpDeleteCookie string string | OpClearCookies

fun session_do :: "env \<Rightarrow> (string \<Rightarrow> bool option) \<Rightarrow> session_op \<Rightarrow> session \<Rightarrow> session" where
  "session_do env h3 (OpRequest req) s = snd (Request env req s)"
| "session_do env h3 (OpStream req) s = snd (RequestStream env req s)"
| "session_do env h3 OpClose s = se_Close s"
| "session_do env h3 OpCloseGraceful s = CloseGraceful s"
| "session_do env h3 OpRefresh s = se_Refresh s"
| "session_do env h3 (OpRefreshWithProtocol p) s = snd (RefreshWithProtocol h3 p s)"
| "session_do env h3 (OpTouch now) s = Touch now s"
| "session_do env h3 (OpSetProxy u) s = SetProxy u s"
| "session_do env h3 (OpSetTCPProxy u) s = SetTCPProxy u s"
| "session_do env h3 (OpSetUDPProxy u) s = SetUDPProxy u s"
| "session_do env h3 (OpSetHeaderOrder ks) s = SetHeaderOrder ks s"
| "session_do env h3 (OpSetSessionIdentifier i) s = se_SetSessionIdentifier i s"
| "session_do env h3 (OpSetFollowRedirects b) s = SetFollowRedirects b s"
| "session_do env h3 (OpSetMaxRedirects m) s = SetMaxRedirects m s"
| "session_do env h3 OpClearCache s = ClearCache s"
| "session_do env h3 (OpSetConditionalCacheEnabled b) s = SetConditionalCacheEnabled b s"
| "session_do env h3 (OpSetClientHintsEnabled b) s = SetClientHintsEnabled b s"
| "session_do env h3 (OpSetHighEntropyClientHintsEnabled b) s = SetHighEntropyClientHintsEnabled b s"
| "session_do env h3 (OpSetCookies now cs) s = se_SetCookies now cs s"
| "session_do env h3 (OpDeleteCookie n d) s = DeleteCookie n d s"
| "session_do env h3 OpClearCookies s = ClearCookies s"

inductive session_reachable :: "session \<Rightarrow> bool" where
  reach_new: "session_reachable (NewSessionWithOptions gen openLog now i config opts)"
| reach_fork: "session_reachable s \<Longrightarrow> f \<in> set (Fork gens now pc has n s) \<Longrightarrow> session_reachable f"
| reach_op: "session_reachable s \<Longrightarrow> session_reachable (session_do env h3 oper s)"

text \<open>
  What the transport was last told about proxies, and the proxies it then uses:
  no configuration at all counts as three empty addresses.
\<close>

fun proxy_after :: "transport_cmd \<Rightarrow> proxy_config option \<Rightarrow> proxy_config option" where
  "proxy_after (TNew p px c) _ = px"
| "proxy_after (TSetProxy px) _ = px"
| "proxy_after _ px = px"

definition transport_proxy :: "transport_cmd list \<Rightarrow> proxy_config option" where
  "transport_proxy cmds = fold proxy_after cmds None"

definition proxies :: "proxy_config option \<Rightarrow> string \<times> string \<times> string" where
  "proxies px = (case px of None \<Rightarrow> ([], [], []) | Some p \<Rightarrow> (px_URL p, px_TCPProxy p, px_UDPProxy p))"

definition is_close :: "transport_cmd \<Rightarrow> bool" where
  "is_close c \<longleftrightarrow> c = TClose \<or> c = TCloseGraceful"

definition is_refresh :: "transport_cmd \<Rightarrow> bool" where
  "is_refresh c = (case c of TRefresh \<Rightarrow> True | TRefreshWithProtocol _ \<Rightarrow> True | _ \<Rightarrow> False)"

definition life_ok :: "bool \<Rightarrow> bool \<Rightarrow> bool \<Rightarrow> transport_cmd list \<Rightarrow> bool" where
  "life_ok active draining keyLog cmds \<longleftrightarrow>
     (active \<longrightarrow> \<not> draining \<and> list_all (\<lambda>c. \<not> is_close c) cmds) \<and>
     (\<not> active \<longrightarrow> \<not> keyLog) \<and>
     (TClose \<in> set cmds \<longleftrightarrow> \<not> active \<and> \<not> draining) \<and>
     count_list cmds TClose \<le> 1 \<and> count_list cmds TCloseGraceful \<le> 1 \<and>
     list_all (\<lambda>c. \<not> is_refresh c) (dropWhile (\<lambda>c. \<not> is_close c) cmds)"

definition proxy_ok :: "transport_cmd list \<Rightarrow> session_config \<Rightarrow> bool" where
  "proxy_ok cmds config \<longleftrightarrow> proxies (transport_proxy cmds) = (cf_Proxy config, cf_TCPProxy config, cf_UDPProxy config)"

definition session_ok :: "bool \<times> bool \<times> bool \<times> transport_cmd list \<times> session_config \<Rightarrow> bool" where
  "session_ok = (\<lambda>(active, draining, keyLog, cmds, config). life_ok active draining keyLog cmds \<and> proxy_ok cmds config)"

lemma dropWhile_none: "list_all (\<lambda>c. \<not> P c) xs \<Longrightarrow> list_all Q (dropWhile (\<lambda>c. \<not> P c) xs)"
  by (induction xs) auto

lemma list_all_dropWhile_snoc:
  "list_all Q (dropWhile P (xs @ [x])) \<longleftrightarrow>
   (if list_all P xs then P x \<or> Q x else list_all Q (dropWhile P xs) \<and> Q x)"
  by (induction xs) auto

lemma life_ok_snoc:
  "life_ok a d k cmds \<Longrightarrow> \<not> is_close c \<Longrightarrow> a \<or> \<not> is_refresh c \<Longrightarrow> life_ok a d k (cmds @ [c])"
  by (auto simp: life_ok_def list_all_dropWhile_snoc is_close_def dropWhile_none)

lemma life_ok_close: "life_ok a d k cmds \<Longrightarrow> a \<or> d \<Longrightarrow> life_ok False False False (cmds @ [TClose])"
  by (auto simp: life_ok_def list_all_dropWhile_snoc is_close_def is_refresh_def dropWhile_none count_list_0_iff)

lemma life_ok_graceful: "life_ok True d k cmds \<Longrightarrow> life_ok False True False (cmds @ [TCloseGraceful])"
  by (auto simp: life_ok_def list_all_dropWhile_snoc is_close_def is_refresh_def dropWhile_none count_list_0_iff list_all_iff)

lemma proxy_ok_snoc:
  "proxy_ok cmds config \<Longrightarrow> (\<And>p. proxy_after c p = p) \<Longrightarrow> proxy_ok (cmds @ [c]) config"
  by (simp add: proxy_ok_def transport_proxy_def)

lemma proxy_ok_set: "proxy_ok (cmds @ [TSetProxy px]) config \<longleftrightarrow>
   proxies px = (cf_Proxy config, cf_TCPProxy config, cf_UDPProxy config)"
  by (simp add: proxy_ok_def transport_proxy_def)

lemma proxies_of [simp]: "proxies (proxy_of config) = (cf_Proxy config, cf_TCPProxy config, cf_UDPProxy config)"
  by (simp add: proxies_def proxy_of_def)

lemma proxy_after_settings: "c \<in> set (transport_settings config) \<Longrightarrow> proxy_after c p = p \<and> \<not> is_close c \<and> \<not> is_refresh c"
  by (auto simp: transport_settings_def is_close_def is_refresh_def split: if_splits)

lemma proxy_keep_fold: "(\<And>c p. c \<in> set cmds \<Longrightarrow> proxy_after c p = p) \<Longrightarrow> fold proxy_after cmds p = p"
  by (induction cmds) auto

lemma fresh_ok:
  assumes "\<And>c. c \<in> set cmds \<Longrightarrow> (\<forall>p. proxy_after c p = p) \<and> \<not> is_close c"
  shows "session_ok (True, False, k, TNew name (proxy_of config) tc # cmds, config)"
proof -
  let ?l = "TNew name (proxy_of config) tc # cmds"
  have n: "list_all (\<lambda>c. \<not> is_close c) ?l" using assms by (auto simp: list_all_iff is_close_def)
  then have "TClose \<notin> set ?l" "TCloseGraceful \<notin> set ?l" by (auto simp: list_all_iff is_close_def)
  then have "life_ok True False k ?l" 
    unfolding life_ok_def by (intro conjI impI dropWhile_none n) (simp_all add: count_notin)
  moreover have "proxy_ok ?l config"
    using assms proxy_keep_fold [of cmds] by (simp add: proxy_ok_def transport_proxy_def)
  ultimately show ?thesis by (simp add: session_ok_def)
qed

lemma new_ok: "session_ok (life_view (NewSessionWithOptions gen openLog now i config opts))"
proof -
  let ?c = "se_Config (NewSessionWithOptions gen openLog now i config opts)"
  let ?t = "(if cf_Timeout ?c > 0 then [TSetTimeout (int64 (cf_Timeout ?c * second))] else []) @ transport_settings ?c"
  have t: "(\<forall>p. proxy_after c p = p) \<and> \<not> is_close c" if "c \<in> set ?t" for c
    using that proxy_after_settings by (auto simp: is_close_def split: if_splits)
  obtain name tc k where "life_view (NewSessionWithOptions gen openLog now i config opts) =
      (True, False, k, TNew name (proxy_of ?c) tc # ?t, ?c)"
    by (simp add: life_view_def NewSessionWithOptions_def Let_def)
  then show ?thesis using fresh_ok [OF t] by metis
qed

lemma fork_ok: "f \<in> set (Fork gens now pc has n s) \<Longrightarrow> session_ok (life_view f)"
proof -
  assume "f \<in> set (Fork gens now pc has n s)"
  then obtain i where f: "f = forkOne (gens i) now pc has s" by (auto simp: Fork_def split: if_splits)
  let ?t = "transport_settings (se_Config s) @ map TSetSessionCache (filter has [ProtocolHTTP1, ProtocolHTTP2, ProtocolHTTP3])"
  have t: "(\<forall>p. proxy_after c p = p) \<and> \<not> is_close c" if "c \<in> set ?t" for c
    using that proxy_after_settings by (auto simp: is_close_def split: if_splits)
  show ?thesis using fresh_ok [of ?t, OF t] by (simp add: f forkOne_def life_view_def)
qed

lemma life_view_frame [simp]:
  "life_view (s\<lparr>se_LastUsed := t\<rparr>) = life_view s" "life_view (s\<lparr>se_cacheEntries := ce\<rparr>) = life_view s"
  "life_view (s\<lparr>se_conditionalCacheEnabled := b\<rparr>) = life_view s" "life_view (s\<lparr>se_clientHintsEnabled := b\<rparr>) = life_view s"
  "life_view (s\<lparr>se_highEntropyClientHintsEnabled := b\<rparr>) = life_view s" "life_view (s\<lparr>se_cookies := j\<rparr>) = life_view s"
  by (simp_all add: life_view_def)

lemma session_ok_redirects:
  "session_ok (life_view s) \<Longrightarrow> session_ok (life_view (s\<lparr>se_Config := (se_Config s)\<lparr>cf_FollowRedirects := b\<rparr>\<rparr>))"
  "session_ok (life_view s) \<Longrightarrow> session_ok (life_view (s\<lparr>se_Config := (se_Config s)\<lparr>cf_MaxRedirects := m\<rparr>\<rparr>))"
  by (simp_all add: session_ok_def life_view_def proxy_ok_def)

lemma op_ok:
  assumes "session_ok (life_view s)"
  shows "session_ok (life_view (session_do env h3 oper s))"
proof -
  have l: "life_ok (se_active s) (se_draining s) (se_keyLogWriter s) (se_cmds s)" and p: "proxy_ok (se_cmds s) (se_Config s)"
    using assms by (simp_all add: session_ok_def life_view_def)
  note defs = session_ok_def life_view_def cmd_def
  show ?thesis
  proof (cases oper)
    case OpClose
    then show ?thesis using assms life_ok_close [OF l] proxy_ok_snoc [OF p, of TClose]
      by (auto simp: se_Close_def closeKeyLog_def defs)
  next
    case OpCloseGraceful
    then show ?thesis using assms life_ok_graceful l proxy_ok_snoc [OF p, of TCloseGraceful]
      by (auto simp: CloseGraceful_def closeKeyLog_def defs)
  next
    case OpRefresh
    then show ?thesis using assms life_ok_snoc [OF l] p
      by (auto simp: se_Refresh_def defs is_close_def intro!: proxy_ok_snoc)
  next
    case (OpRefreshWithProtocol proto)
    then show ?thesis using assms life_ok_snoc [OF l] p
      by (auto simp: RefreshWithProtocol_def defs is_close_def split: option.split intro!: proxy_ok_snoc)
  next
    case (OpSetProxy u)
    then show ?thesis using life_ok_snoc [OF l, of "TSetProxy _"]
      by (auto simp: SetProxy_def defs proxy_ok_set proxies_def is_close_def is_refresh_def)
  next
    case (OpSetTCPProxy u)
    then show ?thesis using life_ok_snoc [OF l, of "TSetProxy _"]
      by (auto simp: SetTCPProxy_def defs proxy_ok_set proxies_def is_close_def is_refresh_def)
  next
    case (OpSetUDPProxy u)
    then show ?thesis using life_ok_snoc [OF l, of "TSetProxy _"]
      by (auto simp: SetUDPProxy_def defs proxy_ok_set proxies_def is_close_def is_refresh_def)
  next
    case (OpSetHeaderOrder ks)
    then show ?thesis using life_ok_snoc [OF l, of "TSetHeaderOrder ks"] p
      by (auto simp: SetHeaderOrder_def defs is_close_def is_refresh_def intro!: proxy_ok_snoc)
  next
    case (OpSetSessionIdentifier i)
    then show ?thesis using life_ok_snoc [OF l, of "TSetSessionIdentifier i"] p
      by (auto simp: se_SetSessionIdentifier_def defs is_close_def is_refresh_def intro!: proxy_ok_snoc)
  qed (use assms in \<open>auto simp: Touch_def SetFollowRedirects_def SetMaxRedirects_def ClearCache_def
    SetConditionalCacheEnabled_def SetClientHintsEnabled_def SetHighEntropyClientHintsEnabled_def se_SetCookies_def
    DeleteCookie_def ClearCookies_def session_ok_redirects\<close>)
qed

lemma reachable_ok: "session_reachable s \<Longrightarrow> session_ok (life_view s)"
  by (induction rule: session_reachable.induct) (auto intro: new_ok fork_ok op_ok)

section \<open>Properties\<close>

text \<open>
  Property C15. The life of a session, whatever is called on it in whatever order:
  a session that is not active has closed its key log; its transport is closed
  once, exactly when the session is neither active nor draining, asked to
  drain at most once, and never refreshed after either; and the proxies the
  transport was last given are those of the configuration.
\<close>

theorem session_lifecycle:
  assumes "session_reachable s"
  shows "(se_active s \<longrightarrow> \<not> se_draining s) \<and> (se_keyLogWriter s \<longrightarrow> se_active s) \<and>
    (TClose \<in> set (se_cmds s) \<longleftrightarrow> \<not> se_active s \<and> \<not> se_draining s) \<and>
    count_list (se_cmds s) TClose \<le> 1 \<and> count_list (se_cmds s) TCloseGraceful \<le> 1 \<and>
    list_all (\<lambda>c. \<not> is_refresh c) (dropWhile (\<lambda>c. \<not> is_close c) (se_cmds s)) \<and>
    proxies (transport_proxy (se_cmds s)) =
      (cf_Proxy (se_Config s), cf_TCPProxy (se_Config s), cf_UDPProxy (se_Config s))"
  using reachable_ok [OF assms] by (auto simp: session_ok_def life_view_def life_ok_def proxy_ok_def)

definition demo_closed :: session where
  "demo_closed = fold (session_do demo_env (\<lambda>p. Some True)) [OpSetProxy ''http://p:1'', OpCloseGraceful, OpRefresh, OpClose, OpClose]
     (NewSession ''id'' (\<lambda>f. False) 0 [] (Some (demo_config\<lparr>cf_KeyLogFile := ''k''\<rparr>)))"

lemma demo_closed_reachable: "session_reachable demo_closed"
  by (simp add: demo_closed_def NewSession_def reach_new reach_op del: session_do.simps)

theorem session_lifecycle_witness:
  "session_reachable demo_closed \<and> \<not> se_active demo_closed \<and> TClose \<in> set (se_cmds demo_closed) \<and>
   proxies (transport_proxy (se_cmds demo_closed)) = (''http://p:1'', [], [])"
proof -
  have "\<not> se_active demo_closed \<and> \<not> se_draining demo_closed \<and> cf_Proxy (se_Config demo_closed) = ''http://p:1'' \<and>
      cf_TCPProxy (se_Config demo_closed) = [] \<and> cf_UDPProxy (se_Config demo_closed) = []"
    by code_simp
  then show ?thesis using session_lifecycle [OF demo_closed_reachable] demo_closed_reachable by simp
qed

text \<open>
  Lemma. Setting the TCP proxy of a session that had one proxy for
  everything leaves its UDP traffic without any: the transport is handed the TCP
  proxy alone, and \<^verbatim>\<open>GetUDPProxy\<close> goes from the old address to none.
\<close>

theorem set_tcp_proxy_drops_udp:
  "GetUDPProxy (SetProxy p s) = p \<and> GetUDPProxy (SetTCPProxy t (SetProxy p s)) = [] \<and>
   proxies (transport_proxy (se_cmds (SetTCPProxy t (SetProxy p s)))) = ([], t, [])"
  by (simp add: GetUDPProxy_def SetProxy_def SetTCPProxy_def cmd_def transport_proxy_def proxies_def)

text \<open>
  Lemma. What a fork has of its parent: the configuration, the cookies, the
  validators and client hints, and the proxies; but validators are switched off
  in the fork and the timeout of the session is not given to its transport.
\<close>

theorem fork_inherits:
  assumes "f \<in> set (Fork gens now pc has n s)"
  shows "se_Config f = se_Config s \<and> se_cookies f = se_cookies s \<and> se_cacheEntries f = se_cacheEntries s \<and>
    se_clientHints f = se_clientHints s \<and> se_active f \<and>
    proxies (transport_proxy (se_cmds f)) = (cf_Proxy (se_Config s), cf_TCPProxy (se_Config s), cf_UDPProxy (se_Config s)) \<and>
    add_validators f req = req \<and> (\<forall>d. TSetTimeout d \<notin> set (se_cmds f))"
proof -
  obtain i where f: "f = forkOne (gens i) now pc has s"
    using assms by (auto simp: Fork_def split: if_splits)
  have p: "proxy_ok (se_cmds f) (se_Config f)"
    using fork_ok [OF assms] by (simp add: session_ok_def life_view_def)
  have "\<forall>d. TSetTimeout d \<notin> set (se_cmds f)"
    by (auto simp: f forkOne_def transport_settings_def split: if_splits)
  then show ?thesis using p by (simp add: f forkOne_def add_validators_def proxy_ok_def)
qed

theorem fork_inherits_witness:
  "se_active demo_session \<and> Fork (\<lambda>i. ''f'') 0 None (\<lambda>p. True) 2 demo_session \<noteq> [] \<and>
   se_conditionalCacheEnabled demo_session \<and>
   add_validators (hd (Fork (\<lambda>i. ''f'') 0 None (\<lambda>p. True) 2 demo_session)) demo_request = demo_request"
proof -
  have n: "Fork (\<lambda>i. ''f'') 0 None (\<lambda>p. True) 2 demo_session \<noteq> []" by (simp add: Fork_def demo_session_def)
  then show ?thesis using fork_inherits [OF hd_in_set [OF n]] by (simp add: demo_session_def)
qed

lemma Fork_count: "length (Fork gens now pc has n s) = (if se_active s then nat n else 0)"
  by (simp add: Fork_def)

text \<open>Lemma. A successful switch stays for later refreshes, a failed one changes nothing.\<close>

lemma refresh_with_protocol_sticks:
  "RefreshWithProtocol h3 proto s = (e, s') \<Longrightarrow>
   (case e of
      Some _ \<Rightarrow> s' = s
    | None \<Rightarrow> parseProtocol proto = Some (se_switchProtocol s') \<and> se_active s \<and>
        last (se_cmds (se_Refresh s')) =
          (if se_switchProtocol s' = ProtocolAuto then TRefresh else TRefreshWithProtocol (se_switchProtocol s')))"
  by (auto simp: RefreshWithProtocol_def se_Refresh_def cmd_def split: option.splits if_splits)

end
