(* ===== verification/Session_Manager.thy ===== *)
theory Session_Manager
  imports Session_Lifecycle
begin

text \<open>
  The session manager of \<^verbatim>\<open>session/manager.go\<close>. Sessions are shared by pointer between
  the manager and its callers, so they live in a heap, a list whose positions
  are the addresses. The locale \<open>closable\<close> is all the manager needs to know of a
  session; it is interpreted by the sessions of the model.
\<close>

section \<open>Closing objects of a heap\<close>

definition close_at :: "('s \<Rightarrow> 's) \<Rightarrow> nat list \<Rightarrow> 's list \<Rightarrow> 's list" where
  "close_at close as heap = fold (\<lambda>a h. h[a := close (h ! a)]) as heap"

locale closable =
  fixes close :: "'s \<Rightarrow> 's" and live :: "'s \<Rightarrow> bool"
  assumes close_dead: "\<not> live (close s)"
    and close_idem: "close (close s) = close s"
begin

lemma close_at_length [simp]: "length (close_at close as h) = length h"
  by (induction as arbitrary: h) (auto simp: close_at_def)

lemma close_at_nth:
  "i < length h \<Longrightarrow> close_at close as h ! i = (if i \<in> set as then close (h ! i) else h ! i)"
proof (induction as arbitrary: h)
  case (Cons a as)
  have "close_at close (a # as) h = close_at close as (h[a := close (h ! a)])" by (simp add: close_at_def)
  then show ?case using Cons.IH [of "h[a := close (h ! a)]"] Cons.prems close_idem by (cases "a = i") auto
qed (simp add: close_at_def)

lemma close_at_dead: "i < length h \<Longrightarrow> i \<in> set as \<or> \<not> live (h ! i) \<Longrightarrow> \<not> live (close_at close as h ! i)"
  using close_dead by (auto simp: close_at_nth)

end

definition se_live :: "session \<Rightarrow> bool" where
  "se_live s \<longleftrightarrow> se_active s \<or> se_draining s"

interpretation session_closable: closable se_Close se_live
  by unfold_locales (auto simp: se_Close_def se_live_def closeKeyLog_def cmd_def)

section \<open>The manager\<close>

record manager =
  mg_sessions :: "(string, nat) gomap"
  mg_maxSessions :: int
  mg_sessionTimeout :: duration
  mg_cleanupInterval :: duration
  mg_shutdown :: bool

abbreviation minute :: duration where "minute \<equiv> 60 * second"

definition NewManager :: manager where
  "NewManager = \<lparr>mg_sessions = [], mg_maxSessions = 100, mg_sessionTimeout = 30 * minute,
     mg_cleanupInterval = minute, mg_shutdown = False\<rparr>"

type_synonym world = "manager \<times> session list"

definition CreateSession ::
    "string \<Rightarrow> (string \<Rightarrow> bool) \<Rightarrow> time \<Rightarrow> session_config option \<Rightarrow> world \<Rightarrow> (string + string) \<times> world" where
  "CreateSession gen openLog now config = (\<lambda>(m, h).
     if int (length (mg_sessions m)) \<ge> mg_maxSessions m
     then (Inl ''maximum sessions limit reached'', (m, h))
     else (Inr gen, (m\<lparr>mg_sessions := AList.update gen (length h) (mg_sessions m)\<rparr>,
                     h @ [NewSession gen openLog now gen config])))"

definition GetSession :: "string \<Rightarrow> world \<Rightarrow> string + nat" where
  "GetSession sessionID = (\<lambda>(m, h).
     case map_of (mg_sessions m) sessionID of
       None \<Rightarrow> Inl (''session not found: '' @ sessionID)
     | Some a \<Rightarrow> if \<not> se_active (h ! a) then Inl (''session is closed: '' @ sessionID) else Inr a)"

definition CloseSession :: "string \<Rightarrow> world \<Rightarrow> string option \<times> world" where
  "CloseSession sessionID = (\<lambda>(m, h).
     case map_of (mg_sessions m) sessionID of
       None \<Rightarrow> (Some (''session not found: '' @ sessionID), (m, h))
     | Some a \<Rightarrow> (None, (m\<lparr>mg_sessions := AList.delete sessionID (mg_sessions m)\<rparr>, h[a := se_Close (h ! a)])))"

definition ListSessions :: "time \<Rightarrow> world \<Rightarrow> session_stats list" where
  "ListSessions now = (\<lambda>(m, h). map (\<lambda>(i, a). Stats now (h ! a)) (mg_sessions m))"

definition SessionCount :: "world \<Rightarrow> nat" where
  "SessionCount = (\<lambda>(m, h). length (mg_sessions m))"

definition cleanup_one :: "time \<Rightarrow> string \<times> nat \<Rightarrow> world \<Rightarrow> world" where
  "cleanup_one now = (\<lambda>(i, a) (m, h).
     if now - se_LastUsed (h ! a) > mg_sessionTimeout m
     then (m\<lparr>mg_sessions := AList.delete i (mg_sessions m)\<rparr>, h[a := se_Close (h ! a)])
     else (m, h))"

definition cleanupExpiredSessions :: "time \<Rightarrow> world \<Rightarrow> world" where
  "cleanupExpiredSessions now = (\<lambda>(m, h). fold (cleanup_one now) (mg_sessions m) (m, h))"

text \<open>Closing the shutdown channel a second time panics.\<close>

definition Shutdown :: "world \<Rightarrow> world option" where
  "Shutdown = (\<lambda>(m, h).
     if mg_shutdown m then None
     else Some (fold (\<lambda>(i, a) (m, h). (m\<lparr>mg_sessions := AList.delete i (mg_sessions m)\<rparr>, h[a := se_Close (h ! a)]))
                  (mg_sessions m) (m\<lparr>mg_shutdown := True\<rparr>, h)))"

definition SetMaxSessions :: "int \<Rightarrow> world \<Rightarrow> world" where
  "SetMaxSessions x = (\<lambda>(m, h). (m\<lparr>mg_maxSessions := x\<rparr>, h))"

definition SetSessionTimeout :: "duration \<Rightarrow> world \<Rightarrow> world" where
  "SetSessionTimeout d = (\<lambda>(m, h). (m\<lparr>mg_sessionTimeout := d\<rparr>, h))"

section \<open>Sweeps\<close>

text \<open>Both loops delete the entries of a list and close their sessions.\<close>

definition drop_entries :: "(string \<times> nat) list \<Rightarrow> world \<Rightarrow> world" where
  "drop_entries es = (\<lambda>(m, h).
     (m\<lparr>mg_sessions := filter (\<lambda>e. fst e \<notin> fst ` set es) (mg_sessions m)\<rparr>, close_at se_Close (map snd es) h))"

lemma delete_filter: "AList.delete i xs = filter (\<lambda>e. fst e \<noteq> i) xs"
  by (induction xs) auto

lemma drop_entries_Nil [simp]: "drop_entries [] w = w"
  by (cases w) (simp add: drop_entries_def close_at_def)

lemma drop_entries_Cons:
  "drop_entries (e # es) (m, h) =
   drop_entries es (m\<lparr>mg_sessions := AList.delete (fst e) (mg_sessions m)\<rparr>, h[snd e := se_Close (h ! snd e)])"
  by (auto simp: drop_entries_def close_at_def delete_filter intro: filter_cong)

lemma shutdown_drop:
  "fold (\<lambda>(i, a) (m, h). (m\<lparr>mg_sessions := AList.delete i (mg_sessions m)\<rparr>, h[a := se_Close (h ! a)])) es w =
   drop_entries es w"
  by (induction es arbitrary: w) (auto simp: drop_entries_Cons)

lemma last_used_Close [simp]: "se_LastUsed (se_Close s) = se_LastUsed s"
  by (simp add: se_Close_def closeKeyLog_def cmd_def)

definition idle :: "time \<Rightarrow> duration \<Rightarrow> session list \<Rightarrow> string \<times> nat \<Rightarrow> bool" where
  "idle now timeout h e \<longleftrightarrow> now - se_LastUsed (h ! snd e) > timeout"

lemma idle_update [simp]: "a < length h \<Longrightarrow> idle now t (h[a := se_Close (h ! a)]) e = idle now t h e"
  by (cases "snd e = a") (auto simp: idle_def)

lemma cleanup_drop:
  assumes "list_all (\<lambda>e. snd e < length (snd w)) es"
  shows "fold (cleanup_one now) es w = drop_entries (filter (idle now (mg_sessionTimeout (fst w)) (snd w)) es) w"
  using assms
proof (induction es arbitrary: w)
  case (Cons e es)
  obtain m h where w: "w = (m, h)" by (cases w)
  obtain i a where e: "e = (i, a)" by (cases e)
  show ?case
  proof (cases "idle now (mg_sessionTimeout m) h e")
    case True
    let ?w = "(m\<lparr>mg_sessions := AList.delete i (mg_sessions m)\<rparr>, h[a := se_Close (h ! a)])"
    have c: "cleanup_one now e w = ?w" using True by (simp add: cleanup_one_def w e idle_def)
    have a: "a < length h" using Cons.prems by (simp add: w e)
    have "fold (cleanup_one now) es ?w = drop_entries (filter (idle now (mg_sessionTimeout m) h) es) ?w"
      using Cons.IH [of ?w] Cons.prems a by (simp add: w)
    then show ?thesis using True by (simp add: w c [unfolded w] drop_entries_Cons) (simp add: e)
  next
    case False
    have c: "cleanup_one now e w = w" using False by (auto simp: cleanup_one_def w e idle_def)
    show ?thesis using Cons.IH [of w] Cons.prems False by (simp add: w c [unfolded w])
  qed
qed simp

section \<open>No session is lost\<close>

lemma live_view: "se_live s \<longleftrightarrow> fst (life_view s) \<or> fst (snd (life_view s))"
  by (simp add: se_live_def life_view_def)

lemma live_requests [simp]:
  "se_live (snd (Request env req s)) = se_live s" "se_live (snd (RequestStream env req s)) = se_live s"
  by (simp_all add: live_view)

lemma dead_stays: "\<not> se_live s \<Longrightarrow> \<not> se_live (session_do env h3 oper s)"
  using live_requests [where env = env and s = s, unfolded se_live_def]
  by (cases oper) (simp_all add: se_live_def se_Close_def CloseGraceful_def se_Refresh_def RefreshWithProtocol_def cmd_def
        SetProxy_def SetTCPProxy_def SetUDPProxy_def SetHeaderOrder_def se_SetSessionIdentifier_def Touch_def
        SetFollowRedirects_def SetMaxRedirects_def ClearCache_def SetConditionalCacheEnabled_def
        SetClientHintsEnabled_def SetHighEntropyClientHintsEnabled_def se_SetCookies_def DeleteCookie_def
        ClearCookies_def split: option.split)

text \<open>
  The steps of a manager with its callers. A new identifier is 16 random bytes
  and is taken to be one that is not in use.
\<close>

inductive manager_step :: "world \<Rightarrow> world \<Rightarrow> bool" where
  step_create: "map_of (mg_sessions m) gen = None \<Longrightarrow>
    manager_step (m, h) (snd (CreateSession gen openLog now config (m, h)))"
| step_close: "manager_step w (snd (CloseSession i w))"
| step_cleanup: "manager_step w (cleanupExpiredSessions now w)"
| step_shutdown: "Shutdown w = Some w' \<Longrightarrow> manager_step w w'"
| step_max: "manager_step w (SetMaxSessions n w)"
| step_timeout: "manager_step w (SetSessionTimeout d w)"
| step_use: "a < length h \<Longrightarrow> manager_step (m, h) (m, h[a := session_do env h3 oper (h ! a)])"

definition manager_ok :: "world \<Rightarrow> bool" where
  "manager_ok = (\<lambda>(m, h).
     distinct (map fst (mg_sessions m)) \<and> distinct (map snd (mg_sessions m)) \<and>
     list_all (\<lambda>e. snd e < length h) (mg_sessions m) \<and>
     (\<forall>a < length h. a \<in> snd ` set (mg_sessions m) \<or> \<not> se_live (h ! a)))"

lemma manager_ok_drop:
  assumes "manager_ok (m, h)" and "set es \<subseteq> set (mg_sessions m)"
  shows "manager_ok (drop_entries es (m, h))"
proof -
  let ?keep = "filter (\<lambda>e. fst e \<notin> fst ` set es) (mg_sessions m)"
  have same: "e = e'" if "e \<in> set (mg_sessions m)" "e' \<in> set (mg_sessions m)" "fst e = fst e'" for e e'
    using assms(1) that by (auto simp: manager_ok_def distinct_map dest: inj_onD)
  have "a \<in> snd ` set ?keep \<or> \<not> se_live (close_at se_Close (map snd es) h ! a)" if a: "a < length h" for a
  proof (cases "a \<in> snd ` set es \<or> \<not> se_live (h ! a)")
    case True
    then show ?thesis using session_closable.close_at_dead [OF a, of "map snd es"] by auto
  next
    case False
    then obtain e where e: "e \<in> set (mg_sessions m)" "snd e = a" using assms(1) a by (auto simp: manager_ok_def)
    have "fst e \<notin> fst ` set es"
    proof
      assume "fst e \<in> fst ` set es"
      then obtain e' where "e' \<in> set es" "fst e = fst e'" by auto
      then have "e = e'" using same e(1) assms(2) by blast
      then show False using False e(2) \<open>e' \<in> set es\<close> by blast
    qed
    then show ?thesis using e by auto
  qed
  then show ?thesis using assms(1)
    unfolding manager_ok_def drop_entries_def prod.case
    by (intro conjI) (simp_all add: list_all_iff distinct_map_filter)
qed

lemma same_addr: "distinct (map snd xs) \<Longrightarrow> (j, a) \<in> set xs \<Longrightarrow> (i, a) \<in> set xs \<Longrightarrow> j = i"
  using inj_onD [of snd "set xs" "(j, a)" "(i, a)"] by (simp add: distinct_map)

lemma manager_ok_create:
  assumes "manager_ok (m, h)" and "map_of (mg_sessions m) gen = None"
  shows "manager_ok (snd (CreateSession gen openLog now config (m, h)))"
proof -
  have new: "AList.update gen (length h) (mg_sessions m) = mg_sessions m @ [(gen, length h)]"
    using assms(2) by (simp add: alist_update_fresh)
  show ?thesis using assms
    by (auto simp: CreateSession_def manager_ok_def new list_all_iff nth_append map_of_eq_None_iff less_Suc_eq)
qed

lemma manager_ok_close: "manager_ok w \<Longrightarrow> manager_ok (snd (CloseSession i w))"
proof -
  assume ok: "manager_ok w"
  obtain m h where w: "w = (m, h)" by (cases w)
  show ?thesis
  proof (cases "map_of (mg_sessions m) i")
    case None
    then show ?thesis using ok by (simp add: CloseSession_def w)
  next
    case (Some a)
    then have "snd (CloseSession i w) = drop_entries [(i, a)] w"
      by (simp add: CloseSession_def w drop_entries_Cons del: map_of_eq_Some_iff)
    then show ?thesis using manager_ok_drop [of m h "[(i, a)]"] ok map_of_SomeD [OF Some] by (simp add: w)
  qed
qed

lemma manager_ok_cleanup: "manager_ok w \<Longrightarrow> manager_ok (cleanupExpiredSessions now w)"
proof -
  assume ok: "manager_ok w"
  obtain m h where w: "w = (m, h)" by (cases w)
  have "list_all (\<lambda>e. snd e < length h) (mg_sessions m)" using ok by (simp add: manager_ok_def w)
  then show ?thesis
    using manager_ok_drop [of m h "filter (idle now (mg_sessionTimeout m) h) (mg_sessions m)"] ok
      cleanup_drop [of w "mg_sessions m" now] by (simp add: cleanupExpiredSessions_def w)
qed

lemma manager_ok_frame:
  "manager_ok (m, h) \<Longrightarrow> mg_sessions m' = mg_sessions m \<Longrightarrow> manager_ok (m', h)"
  by (simp add: manager_ok_def)

lemma shutdown_is_drop:
  "Shutdown (m, h) = Some w' \<Longrightarrow> \<not> mg_shutdown m \<and> w' = drop_entries (mg_sessions m) (m\<lparr>mg_shutdown := True\<rparr>, h)"
  by (auto simp: Shutdown_def shutdown_drop split: if_splits)

lemma manager_step_ok: "manager_step w w' \<Longrightarrow> manager_ok w \<Longrightarrow> manager_ok w'"
proof (induction rule: manager_step.induct)
  case (step_shutdown w w')
  obtain m h where w: "w = (m, h)" by (cases w)
  then show ?case
    using shutdown_is_drop [of m h w'] step_shutdown manager_ok_drop [of "m\<lparr>mg_shutdown := True\<rparr>" h "mg_sessions m"]
      manager_ok_frame [of m h "m\<lparr>mg_shutdown := True\<rparr>"] by simp
next
  case (step_use a h m env h3 oper)
  then show ?case using dead_stays by (auto simp: manager_ok_def nth_list_update)
qed (auto simp: manager_ok_create manager_ok_close manager_ok_cleanup SetMaxSessions_def SetSessionTimeout_def
  intro: manager_ok_frame)

inductive manager_reachable :: "world \<Rightarrow> bool" where
  reach_start: "manager_reachable (NewManager, [])"
| reach_step: "manager_reachable w \<Longrightarrow> manager_step w w' \<Longrightarrow> manager_reachable w'"

lemma manager_reachable_ok: "manager_reachable w \<Longrightarrow> manager_ok w"
proof (induction rule: manager_reachable.induct)
  case reach_start
  show ?case by (simp add: manager_ok_def NewManager_def)
qed (rule manager_step_ok)

section \<open>Properties\<close>

text \<open>
  Property C16. No session is lost: in every state of a manager and its callers,
  whatever the callers do with the sessions they were given, each session that
  was ever created is registered under exactly one identifier or has been closed.
\<close>

theorem manager_no_leak:
  assumes "manager_reachable (m, h)" and "a < length h"
  shows "(\<exists>!i. map_of (mg_sessions m) i = Some a) \<or> \<not> se_active (h ! a) \<and> \<not> se_draining (h ! a)"
proof -
  have ok: "distinct (map fst (mg_sessions m))" "distinct (map snd (mg_sessions m))"
    "a \<in> snd ` set (mg_sessions m) \<or> \<not> se_live (h ! a)"
    using manager_reachable_ok [OF assms(1)] assms(2) by (auto simp: manager_ok_def)
  have "\<exists>!i. map_of (mg_sessions m) i = Some a" if reg: "a \<in> snd ` set (mg_sessions m)"
  proof -
    obtain i where "(i, a) \<in> set (mg_sessions m)" using reg by auto
    then show ?thesis using ok(1) same_addr [OF ok(2)] by (auto simp: map_of_eq_Some_iff)
  qed
  then show ?thesis using ok(3) by (auto simp: se_live_def)
qed

text \<open>
  Lemma. Cleaning up closes and removes exactly the sessions that have been
  idle for longer than the timeout; every other session keeps its identifier and
  its state.
\<close>

theorem manager_cleanup_exact:
  assumes "manager_reachable (m, h)" and "cleanupExpiredSessions now (m, h) = (m', h')" and "(i, a) \<in> set (mg_sessions m)"
  shows "((i, a) \<in> set (mg_sessions m') \<longleftrightarrow> now - se_LastUsed (h ! a) \<le> mg_sessionTimeout m) \<and>
    h' ! a = (if now - se_LastUsed (h ! a) \<le> mg_sessionTimeout m then h ! a else se_Close (h ! a))"
proof -
  note ok = manager_reachable_ok [OF assms(1), unfolded manager_ok_def prod.case]
  let ?es = "filter (idle now (mg_sessionTimeout m) h) (mg_sessions m)"
  have a: "a < length h" using ok assms(3) by (auto simp: list_all_iff)
  have d: "drop_entries ?es (m, h) = (m', h')"
    using cleanup_drop [of "(m, h)" "mg_sessions m" now] ok assms(2) by (simp add: cleanupExpiredSessions_def)
  have i: "b = a" if "(i, b) \<in> set (mg_sessions m)" for b
    using ok assms(3) that inj_onD [of fst "set (mg_sessions m)" "(i, b)" "(i, a)"] by (auto simp: distinct_map)
  have s: "j = i" if "(j, a) \<in> set (mg_sessions m)" for j
    using ok same_addr [OF _ that assms(3)] by blast
  have i: "i \<in> fst ` set ?es \<longleftrightarrow> idle now (mg_sessionTimeout m) h (i, a)"
    using assms(3) by (auto simp: image_iff dest: i)
  have s: "a \<in> snd ` set ?es \<longleftrightarrow> idle now (mg_sessionTimeout m) h (i, a)"
    using assms(3) by (auto simp: image_iff dest: s)
  have "(i, a) \<in> set (mg_sessions m') \<longleftrightarrow> now - se_LastUsed (h ! a) \<le> mg_sessionTimeout m"
  proof -
    have "mg_sessions m' = filter (\<lambda>e. fst e \<notin> fst ` set ?es) (mg_sessions m)" using d by (auto simp: drop_entries_def)
    then have "(i, a) \<in> set (mg_sessions m') \<longleftrightarrow> i \<notin> fst ` set ?es" using assms(3) by simp
    then show ?thesis unfolding i by (simp add: idle_def not_less)
  qed
  moreover have "h' ! a = (if now - se_LastUsed (h ! a) \<le> mg_sessionTimeout m then h ! a else se_Close (h ! a))"
    using d s a session_closable.close_at_nth [OF a, of "map snd ?es"] by (auto simp: drop_entries_def idle_def)
  ultimately show ?thesis by simp
qed

definition demo_world :: world where
  "demo_world =
     snd (CloseSession ''b'' (snd (CreateSession ''b'' (\<lambda>f. False) minute None
       (snd (CreateSession ''a'' (\<lambda>f. False) 0 None (NewManager, []))))))"

lemma demo_world_reachable: "manager_reachable demo_world"
proof -
  let ?w = "snd (CreateSession ''a'' (\<lambda>f. False) 0 None (NewManager, []))"
  have a: "manager_reachable ?w"
    by (rule reach_step [OF reach_start step_create]) (simp add: NewManager_def)
  have "manager_reachable (snd (CreateSession ''b'' (\<lambda>f. False) minute None ?w))"
  proof -
    obtain m h where w: "?w = (m, h)" by (cases ?w)
    then have "map_of (mg_sessions m) ''b'' = None" by (auto simp: CreateSession_def NewManager_def)
    then show ?thesis using reach_step [OF a [unfolded w] step_create] unfolding w by blast
  qed
  then show ?thesis unfolding demo_world_def by (rule reach_step [OF _ step_close])
qed

lemma demo_world_eq:
  "demo_world = (NewManager\<lparr>mg_sessions := [(''a'', 0)]\<rparr>,
     [NewSession ''a'' (\<lambda>f. False) 0 ''a'' None, se_Close (NewSession ''b'' (\<lambda>f. False) minute ''b'' None)])"
  by (simp add: demo_world_def CreateSession_def CloseSession_def NewManager_def)

theorem manager_no_leak_witness:
  "\<exists>m h. demo_world = (m, h) \<and> length h = 2 \<and> ((\<exists>!i. map_of (mg_sessions m) i = Some 1) \<or> \<not> se_active (h ! 1) \<and> \<not> se_draining (h ! 1))"
  using manager_no_leak [OF demo_world_reachable [unfolded demo_world_eq], of 1] by (simp add: demo_world_eq)

theorem manager_cleanup_exact_witness:
  "\<exists>m h. cleanupExpiredSessions (31 * minute) demo_world = (m, h) \<and> (''a'', 0) \<notin> set (mg_sessions m) \<and>
     h ! 0 = se_Close (snd demo_world ! 0)"
proof -
  obtain m h where c: "cleanupExpiredSessions (31 * minute) demo_world = (m, h)" by (metis surj_pair)
  have u: "se_LastUsed (NewSession ''a'' (\<lambda>f. False) 0 ''a'' None) = 0"
    by (simp add: NewSession_def NewSessionWithOptions_def Let_def)
  show ?thesis
    using manager_cleanup_exact [OF demo_world_reachable [unfolded demo_world_eq] c [unfolded demo_world_eq], of "''a''" 0] c u
    by (simp add: NewManager_def demo_world_eq)
qed

text \<open>
  Lemma. The limit on sessions: a session is created exactly when fewer than
  the maximum are registered, the count then stays within the maximum, the new
  identifier finds the new session, and all others are found as before.
\<close>

theorem create_session_limit:
  assumes "CreateSession gen openLog now config (m, h) = (r, (m', h'))" and "map_of (mg_sessions m) gen = None"
  shows "case r of
      Inl err \<Rightarrow> mg_maxSessions m \<le> int (SessionCount (m, h)) \<and> (m', h') = (m, h)
    | Inr i \<Rightarrow> i = gen \<and> int (SessionCount (m', h')) \<le> mg_maxSessions m \<and>
        GetSession gen (m', h') = Inr (length h) \<and>
        (list_all (\<lambda>(j, a). a < length h) (mg_sessions m) \<longrightarrow>
           (\<forall>j. j \<noteq> gen \<longrightarrow> GetSession j (m', h') = GetSession j (m, h)))"
proof -
  have n: "se_active (NewSession gen openLog now gen config)"
    by (simp add: NewSession_def NewSessionWithOptions_def Let_def)
  have o': "GetSession j (m\<lparr>mg_sessions := mg_sessions m @ [(gen, length h)]\<rparr>, h @ [NewSession gen openLog now gen config]) =
      GetSession j (m, h)"
    if "list_all (\<lambda>(j, a). a < length h) (mg_sessions m)" "j \<noteq> gen" for j
    using that by (auto simp: GetSession_def map_add_def list_all_iff nth_append split: option.splits dest!: map_of_SomeD)
  have g: "GetSession gen (m\<lparr>mg_sessions := mg_sessions m @ [(gen, length h)]\<rparr>, h @ [NewSession gen openLog now gen config]) =
      Inr (length h)"
    using assms(2) n by (simp add: GetSession_def map_add_def del: map_of_eq_None_iff)
  show ?thesis
    using assms g o' by (auto simp: CreateSession_def SessionCount_def alist_update_fresh split: if_splits)
qed

theorem create_session_limit_witness:
  "GetSession ''a'' (snd (CreateSession ''a'' (\<lambda>f. False) 0 None (NewManager, []))) = Inr 0"
  using create_session_limit [of "''a''" "\<lambda>f. False" 0 None NewManager "[]"]
  by (simp add: CreateSession_def NewManager_def)

end
