(* ===== verification/Go_Encoding.thy ===== *)
theory Go_Encoding
  imports Go_Prelude
begin

text \<open>
  The encodings of Go's standard library that the program uses: bytes of a
  string, base64 (\<^verbatim>\<open>base64.StdEncoding\<close>) and hexadecimal (\<^verbatim>\<open>encoding/hex\<close>, \<^verbatim>\<open>%08x\<close>).
\<close>

section \<open>Bytes of a string\<close>

definition bytes_of :: "string \<Rightarrow> byte list" where
  "bytes_of s = map (\<lambda>c. of_nat (of_char c)) s"

definition string_of :: "byte list \<Rightarrow> string" where
  "string_of bs = map (\<lambda>b. char_of (unat b)) bs"

lemma string_of_bytes [simp]: "string_of (bytes_of s) = s"
  by (induction s) (simp_all add: bytes_of_def string_of_def unat_of_nat of_char_mod_256)

section \<open>Base64\<close>

definition b64_alphabet :: string where
  "b64_alphabet = ''ABCDEFGHIJKLMNOPQRSTUVWXYZabcdefghijklmnopqrstuvwxyz0123456789+/''"

definition b64_char :: "nat \<Rightarrow> char" where
  "b64_char i = b64_alphabet ! i"

definition b64_val :: "char \<Rightarrow> nat option" where
  "b64_val c = index_byte b64_alphabet c"

fun b64_encode :: "byte list \<Rightarrow> string" where
  "b64_encode (a # b # c # rest) =
     (let n = unat a * 65536 + unat b * 256 + unat c in
      b64_char (n div 262144) # b64_char (n div 4096 mod 64) # b64_char (n div 64 mod 64) # b64_char (n mod 64) #
      b64_encode rest)"
| "b64_encode [a, b] =
     (let n = unat a * 65536 + unat b * 256 in
      [b64_char (n div 262144), b64_char (n div 4096 mod 64), b64_char (n div 64 mod 64), CHR ''=''])"
| "b64_encode [a] =
     (let n = unat a * 65536 in
      [b64_char (n div 262144), b64_char (n div 4096 mod 64), CHR ''='', CHR ''=''])"
| "b64_encode [] = []"

fun b64_quads :: "string \<Rightarrow> byte list option" where
  "b64_quads [] = Some []"
| "b64_quads (p # q # r # s # rest) =
     (case (b64_val p, b64_val q) of
        (Some i, Some j) \<Rightarrow>
          (case b64_val r of
             None \<Rightarrow>
               if r = CHR ''='' \<and> s = CHR ''='' \<and> rest = []
               then Some [of_nat ((i * 262144 + j * 4096) div 65536)] else None
           | Some k \<Rightarrow>
               (case b64_val s of
                  None \<Rightarrow>
                    if s = CHR ''='' \<and> rest = []
                    then (let n = i * 262144 + j * 4096 + k * 64 in
                          Some [of_nat (n div 65536), of_nat (n div 256 mod 256)]) else None
                | Some l \<Rightarrow>
                    (let n = i * 262144 + j * 4096 + k * 64 + l in
                     map_option (\<lambda>bs. of_nat (n div 65536) # of_nat (n div 256 mod 256) # of_nat (n mod 256) # bs)
                       (b64_quads rest))))
      | _ \<Rightarrow> None)"
| "b64_quads _ = None"

text \<open>The decoder skips line breaks.\<close>

definition b64_decode :: "string \<Rightarrow> byte list option" where
  "b64_decode s = b64_quads (filter (\<lambda>c. c \<noteq> CHR 0x0A \<and> c \<noteq> CHR 0x0D) s)"

section \<open>Base64 round trip\<close>

lemma b64_table:
  "list_all (\<lambda>i. b64_val (b64_char i) = Some i \<and> b64_char i \<noteq> CHR 0x0A \<and> b64_char i \<noteq> CHR 0x0D) [0..<64]"
  by code_simp

lemma b64_char_facts:
  assumes "i < 64"
  shows "b64_val (b64_char i) = Some i" "b64_char i \<noteq> CHR 0x0A" "b64_char i \<noteq> CHR 0x0D"
  using b64_table assms by (auto simp: list_all_iff)

lemma b64_val_pad [simp]: "b64_val (CHR ''='') = None"
  by code_simp

lemma base64_digits:
  fixes n :: nat
  shows "n div 262144 * 262144 + n div 4096 mod 64 * 4096 + n div 64 mod 64 * 64 + n mod 64 = n"
proof -
  have "n div 64 div 64 = n div 4096" "n div 4096 div 64 = n div 262144"
    by (simp_all add: div_mult2_eq [symmetric])
  moreover have "n = n div 64 * 64 + n mod 64"
      "n div 64 = n div 64 div 64 * 64 + n div 64 mod 64"
      "n div 4096 = n div 4096 div 64 * 64 + n div 4096 mod 64"
    by (simp_all only: div_mult_mod_eq)
  ultimately show ?thesis by linarith
qed

lemma mod64_zero: "(a * 65536 + b * 256) mod 64 = (0::nat)" "a * 65536 div 64 mod 64 = (0::nat)"
proof -
  have "a * 65536 + b * 256 = 64 * (a * 1024 + b * 4)" by simp
  then show "(a * 65536 + b * 256) mod 64 = 0" by (metis mod_mult_self1_is_0)
  have "a * 65536 div 64 = 64 * (a * 16)" by simp
  then show "a * 65536 div 64 mod 64 = 0" by (metis mod_mult_self1_is_0)
qed

lemma byte_bound: "unat (a :: byte) < 256"
  using unsigned_less [of a] by simp

lemma triple_parts:
  assumes "a < 256" "b < 256" "(c::nat) < 256" and "n = a * 65536 + b * 256 + c"
  shows "n div 262144 < 64" "n div 65536 = a" "n div 256 mod 256 = b" "n mod 256 = c"
proof -
  have "n < 16777216" using assms by linarith
  then show "n div 262144 < 64" by simp
  show "n div 65536 = a" using assms by (intro div_nat_eqI) simp_all
  have "n div 256 = a * 256 + b" using assms by (intro div_nat_eqI) simp_all
  then show "n div 256 mod 256 = b" using assms(2) by simp
  have "n = c + (a * 256 + b) * 256" using assms(4) by simp
  then have "n mod 256 = c mod 256" by (simp only: mod_mult_self1)
  then show "n mod 256 = c" using assms(3) by simp
qed

lemma b64_quads_encode: "b64_quads (b64_encode bs) = Some bs"
proof (induction bs rule: b64_encode.induct)
  case (1 a b c rest)
  let ?n = "unat a * 65536 + unat b * 256 + unat c"
  note t = triple_parts [OF byte_bound [of a] byte_bound [of b] byte_bound [of c] refl]
  have lt: "?n div 4096 mod 64 < 64" "?n div 64 mod 64 < 64" "?n mod 64 < 64" by simp_all
  show ?case
    using 1 t by (simp only: b64_encode.simps Let_def b64_quads.simps b64_char_facts(1) [OF t(1)]
        b64_char_facts(1) [OF lt(1)] b64_char_facts(1) [OF lt(2)] b64_char_facts(1) [OF lt(3)]
        prod.case option.case base64_digits option.map) simp
next
  case (2 a b)
  let ?n = "unat a * 65536 + unat b * 256"
  have t: "?n div 262144 < 64" "?n div 65536 = unat a" "?n div 256 mod 256 = unat b"
    using triple_parts [OF byte_bound [of a] byte_bound [of b], of 0 ?n] by simp_all
  have lt: "?n div 4096 mod 64 < 64" "?n div 64 mod 64 < 64" by simp_all
  have "?n mod 64 = 0" by (rule mod64_zero)
  then have d: "?n div 262144 * 262144 + ?n div 4096 mod 64 * 4096 + ?n div 64 mod 64 * 64 = ?n"
    using base64_digits [of ?n] by linarith
  show ?case
    using t by (simp only: b64_encode.simps Let_def b64_quads.simps b64_char_facts(1) [OF t(1)]
        b64_char_facts(1) [OF lt(1)] b64_char_facts(1) [OF lt(2)] prod.case option.case b64_val_pad d) simp
next
  case (3 a)
  let ?n = "unat a * 65536"
  have t: "?n div 262144 < 64" "?n div 65536 = unat a"
    using triple_parts [OF byte_bound [of a], of 0 0 ?n] by simp_all
  have lt: "?n div 4096 mod 64 < 64" by simp
  have "?n mod 64 = 0" using mod64_zero(1) [of "unat a" 0] by simp
  moreover have "?n div 64 mod 64 = 0" by (rule mod64_zero)
  ultimately have d: "?n div 262144 * 262144 + ?n div 4096 mod 64 * 4096 = ?n"
    using base64_digits [of ?n] by linarith
  show ?case
    using t by (simp only: b64_encode.simps Let_def b64_quads.simps b64_char_facts(1) [OF t(1)]
        b64_char_facts(1) [OF lt(1)] prod.case option.case b64_val_pad d) simp
qed simp

lemma b64_encode_no_break: "CHR 0x0A \<notin> set (b64_encode bs) \<and> CHR 0x0D \<notin> set (b64_encode bs)"
proof (induction bs rule: b64_encode.induct)
  case (1 a b c rest)
  have "(unat a * 65536 + unat b * 256 + unat c) div 262144 < 64"
    using triple_parts(1) [OF byte_bound [of a] byte_bound [of b] byte_bound [of c] refl] .
  with 1 show ?case by (simp add: Let_def b64_char_facts [symmetric])
next
  case (2 a b)
  have "(unat a * 65536 + unat b * 256) div 262144 < 64"
    using triple_parts(1) [OF byte_bound [of a] byte_bound [of b], of 0] by simp
  then show ?case by (simp add: Let_def b64_char_facts [symmetric])
next
  case (3 a)
  have "unat a * 65536 div 262144 < 64"
    using triple_parts(1) [OF byte_bound [of a], of 0 0] by simp
  then show ?case by (simp add: Let_def b64_char_facts [symmetric])
qed simp

lemma b64_roundtrip [simp]: "b64_decode (b64_encode bs) = Some bs"
proof -
  have "filter (\<lambda>c. c \<noteq> CHR 0x0A \<and> c \<noteq> CHR 0x0D) (b64_encode bs) = b64_encode bs"
    using b64_encode_no_break by (intro filter_True) metis
  then show ?thesis by (simp add: b64_decode_def b64_quads_encode)
qed

section \<open>Hexadecimal\<close>

definition hex_digit :: "nat \<Rightarrow> char" where
  "hex_digit n = ''0123456789abcdef'' ! n"

definition hex_encode :: "byte list \<Rightarrow> string" where
  "hex_encode bs = concat (map (\<lambda>b. [hex_digit (unat b div 16), hex_digit (unat b mod 16)]) bs)"

definition hex_digit_val :: "char \<Rightarrow> nat option" where
  "hex_digit_val c =
     (case index_byte ''0123456789abcdef'' c of
        Some i \<Rightarrow> Some i
      | None \<Rightarrow> index_byte ''0123456789ABCDEF'' c)"

fun hex_decode :: "string \<Rightarrow> byte list option" where
  "hex_decode [] = Some []"
| "hex_decode (a # b # rest) =
     (case (hex_digit_val a, hex_digit_val b, hex_decode rest) of
        (Some x, Some y, Some bs) \<Rightarrow> Some (of_nat (16 * x + y) # bs)
      | _ \<Rightarrow> None)"
| "hex_decode [_] = None"

lemma hex_table: "list_all (\<lambda>i. hex_digit_val (hex_digit i) = Some i) [0..<16]"
  by code_simp

lemma hex_digit_val_digit [simp]: "i < 16 \<Longrightarrow> hex_digit_val (hex_digit i) = Some i"
  using hex_table by (auto simp: list_all_iff)

lemma hex_roundtrip [simp]: "hex_decode (hex_encode bs) = Some bs"
proof (induction bs)
  case (Cons b bs)
  have "unat b div 16 < 16" using byte_bound [of b] by simp
  then show ?case using Cons by (simp add: hex_encode_def)
qed (simp add: hex_encode_def)

lemma hex_digit_inj: "i < 16 \<Longrightarrow> j < 16 \<Longrightarrow> hex_digit i = hex_digit j \<longleftrightarrow> i = j"
  by (metis hex_digit_val_digit option.inject)

text \<open>\<^verbatim>\<open>%x\<close>, and \<^verbatim>\<open>%08x\<close> which pads with zeros to eight digits.\<close>

fun show_hex :: "nat \<Rightarrow> string" where
  "show_hex n = (if n < 16 then [hex_digit n] else show_hex (n div 16) @ [hex_digit (n mod 16)])"

declare show_hex.simps [simp del]

definition show_08x :: "nat \<Rightarrow> string" where
  "show_08x n = replicate (8 - length (show_hex n)) (CHR ''0'') @ show_hex n"

fun hex_value :: "string \<Rightarrow> nat \<Rightarrow> nat" where
  "hex_value [] acc = acc"
| "hex_value (c # cs) acc = hex_value cs (16 * acc + (case hex_digit_val c of Some d \<Rightarrow> d | None \<Rightarrow> 0))"

lemma hex_value_append: "hex_value (s @ t) acc = hex_value t (hex_value s acc)"
  by (induction s arbitrary: acc) auto

lemma hex_value_show: "hex_value (show_hex n) 0 = n"
proof (induction n rule: show_hex.induct)
  case (1 n)
  then show ?case by (subst show_hex.simps) (simp add: hex_value_append)
qed

lemma hex_value_zeros: "hex_value (replicate k (CHR ''0'')) 0 = 0"
proof (induction k)
  case (Suc k)
  have "hex_digit_val (CHR ''0'') = Some 0" by code_simp
  then show ?case using Suc by simp
qed simp

lemma show_08x_value: "hex_value (show_08x n) 0 = n"
  by (simp add: show_08x_def hex_value_append hex_value_zeros hex_value_show)

lemma show_08x_inj: "show_08x m = show_08x n \<longleftrightarrow> m = n"
  by (metis show_08x_value)

end
