(* ===== verification/TLS_Cache.thy ===== *)
theory TLS_Cache
  imports Go_Encoding
begin

text \<open>
  \<^verbatim>\<open>transport/tls_cache.go\<close>: the cache of TLS sessions with least-recently-used
  eviction, export and import, and an optional distributed backend.

  A session of the TLS library is a value of any type \<^typ>\<open>'cs\<close>; turning one into a
  ticket and state bytes and back is the pair of arguments \<open>ser\<close>
  (\<^verbatim>\<open>ResumptionState\<close>, \<^verbatim>\<open>Bytes\<close>) and \<open>des\<close> (\<^verbatim>\<open>ParseSessionState\<close>,
  \<^verbatim>\<open>NewResumptionState\<close>). The backend is
  its answer to \<^verbatim>\<open>Get\<close>; what the cache sends to it in the background is the list
  of commands that an operation returns, and the calls of the error callback
  are the list of reports.
\<close>

section \<open>Keys\<close>

definition CacheKeyPrefixSession :: string where
  "CacheKeyPrefixSession = ''httpcloak:sessions''"

definition CacheKeyPrefixECH :: string where
  "CacheKeyPrefixECH = ''httpcloak:ech''"

definition FormatSessionCacheKey :: "string \<Rightarrow> string \<Rightarrow> string \<Rightarrow> string \<Rightarrow> string" where
  "FormatSessionCacheKey preset protocol host port =
     CacheKeyPrefixSession @ '':'' @ preset @ '':'' @ protocol @ '':'' @ host @ '':'' @ port"

definition FormatSessionCacheKeyWithID ::
    "string \<Rightarrow> string \<Rightarrow> string \<Rightarrow> string \<Rightarrow> string \<Rightarrow> string" where
  "FormatSessionCacheKeyWithID sessionId preset protocol host port =
     (if sessionId = [] then FormatSessionCacheKey preset protocol host port
      else CacheKeyPrefixSession @ '':'' @ sessionId @ '':'' @ preset @ '':'' @ protocol @ '':'' @ host @ '':'' @ port)"

definition FormatECHCacheKey :: "string \<Rightarrow> string \<Rightarrow> string \<Rightarrow> string" where
  "FormatECHCacheKey preset host port = CacheKeyPrefixECH @ '':'' @ preset @ '':'' @ host @ '':'' @ port"

definition parseSessionKey :: "string \<Rightarrow> string \<times> string" where
  "parseSessionKey key0 =
     (let key = (if length key0 > 8 \<and> take 8 key0 = ''https://'' then drop 8 key0
                 else if length key0 > 7 \<and> take 7 key0 = ''http://'' then drop 7 key0
                 else key0)
      in case last_index_byte key (CHR '':'') of
           None \<Rightarrow> (key, ''443'')
         | Some lastColon \<Rightarrow> (take lastColon key, drop (lastColon + 1) key))"

section \<open>Data\<close>

abbreviation hour :: duration where "hour \<equiv> 3600 * second"
abbreviation TLSSessionMaxAge :: duration where "TLSSessionMaxAge \<equiv> 24 * hour"
abbreviation TLSSessionCacheMaxSize :: nat where "TLSSessionCacheMaxSize \<equiv> 32"

record tls_session_state =
  ts_Ticket :: string
  ts_State :: string
  ts_CreatedAt :: time

record 'cs cached_session =
  cs_state :: 'cs
  cs_createdAt :: time

type_synonym backend = "string \<Rightarrow> string + tls_session_state option"

datatype backend_cmd =
    BackendPut (cmd_key: string) tls_session_state duration
  | BackendDelete (cmd_key: string)

datatype report = Report (rep_op: string) (rep_key: string)

record 'cs session_cache =
  sc_sessions :: "(string, 'cs cached_session) gomap"
  sc_accessOrder :: "string list"
  sc_backend :: "backend option"
  sc_preset :: string
  sc_protocol :: string
  sc_sessionId :: string

definition NewPersistableSessionCache :: "'cs session_cache" where
  "NewPersistableSessionCache =
     \<lparr>sc_sessions = [], sc_accessOrder = [], sc_backend = None, sc_preset = [], sc_protocol = [],
      sc_sessionId = []\<rparr>"

definition NewPersistableSessionCacheWithBackend ::
    "backend \<Rightarrow> string \<Rightarrow> string \<Rightarrow> 'cs session_cache" where
  "NewPersistableSessionCacheWithBackend backend preset protocol =
     \<lparr>sc_sessions = [], sc_accessOrder = [], sc_backend = Some backend, sc_preset = preset,
      sc_protocol = protocol, sc_sessionId = []\<rparr>"

definition SetBackend :: "backend option \<Rightarrow> string \<Rightarrow> string \<Rightarrow> 'cs session_cache \<Rightarrow> 'cs session_cache" where
  "SetBackend backend preset protocol c =
     c\<lparr>sc_backend := backend, sc_preset := preset, sc_protocol := protocol\<rparr>"

definition SetSessionIdentifier :: "string \<Rightarrow> 'cs session_cache \<Rightarrow> 'cs session_cache" where
  "SetSessionIdentifier sessionId c = c\<lparr>sc_sessionId := sessionId\<rparr>"

section \<open>Serialisation\<close>

definition ToClientSessionState ::
    "(byte list \<Rightarrow> byte list \<Rightarrow> 'cs option) \<Rightarrow> tls_session_state \<Rightarrow> 'cs option" where
  "ToClientSessionState des s =
     (case b64_decode (ts_Ticket s) of
        None \<Rightarrow> None
      | Some ticket \<Rightarrow>
          (case b64_decode (ts_State s) of
             None \<Rightarrow> None
           | Some stateBytes \<Rightarrow> des ticket stateBytes))"

definition NewTLSSessionState ::
    "('cs \<Rightarrow> (byte list \<times> byte list) option) \<Rightarrow> time \<Rightarrow> 'cs \<Rightarrow> tls_session_state option" where
  "NewTLSSessionState ser now cs =
     (case ser cs of
        None \<Rightarrow> None
      | Some (ticket, stateBytes) \<Rightarrow>
          Some \<lparr>ts_Ticket = b64_encode ticket, ts_State = b64_encode stateBytes, ts_CreatedAt = now\<rparr>)"

section \<open>Operations\<close>

definition backend_key :: "'cs session_cache \<Rightarrow> string \<Rightarrow> string \<Rightarrow> string" where
  "backend_key c host port = FormatSessionCacheKeyWithID (sc_sessionId c) (sc_preset c) (sc_protocol c) host port"

text \<open>The eviction loop on the pair of map and order.\<close>

fun evict_loop ::
    "(string, 'cs cached_session) gomap \<Rightarrow> string list \<Rightarrow>
     (string, 'cs cached_session) gomap \<times> string list" where
  "evict_loop sessions [] = (sessions, [])"
| "evict_loop sessions (oldest # order) =
     (if length sessions > TLSSessionCacheMaxSize then evict_loop (AList.delete oldest sessions) order
      else (sessions, oldest # order))"

definition evictIfNeeded :: "'cs session_cache \<Rightarrow> 'cs session_cache" where
  "evictIfNeeded c =
     (let (sessions, order) = evict_loop (sc_sessions c) (sc_accessOrder c)
      in c\<lparr>sc_sessions := sessions, sc_accessOrder := order\<rparr>)"

definition moveToEnd :: "string \<Rightarrow> 'cs session_cache \<Rightarrow> 'cs session_cache" where
  "moveToEnd key c =
     (if key \<in> set (sc_accessOrder c) then c\<lparr>sc_accessOrder := remove1 key (sc_accessOrder c) @ [key]\<rparr> else c)"

definition deleteFromBackend :: "string \<Rightarrow> 'cs session_cache \<Rightarrow> backend_cmd list" where
  "deleteFromBackend sessionKey c =
     (let (host, port) = parseSessionKey sessionKey in
      if host = [] then [] else [BackendDelete (backend_key c host port)])"

definition deleteLocked :: "string \<Rightarrow> 'cs session_cache \<Rightarrow> backend_cmd list \<times> 'cs session_cache" where
  "deleteLocked sessionKey c =
     (let c' = (if map_of (sc_sessions c) sessionKey \<noteq> None
                then c\<lparr>sc_sessions := AList.delete sessionKey (sc_sessions c),
                       sc_accessOrder := remove1 sessionKey (sc_accessOrder c)\<rparr>
                else c)
      in (if sc_backend c \<noteq> None then deleteFromBackend sessionKey c else [], c'))"

definition putToBackend ::
    "('cs \<Rightarrow> (byte list \<times> byte list) option) \<Rightarrow> time \<Rightarrow> string \<Rightarrow> 'cs \<Rightarrow> 'cs session_cache \<Rightarrow>
     backend_cmd list \<times> report list" where
  "putToBackend ser now sessionKey cs c =
     (let (host, port) = parseSessionKey sessionKey in
      if host = [] then ([], [])
      else (case NewTLSSessionState ser now cs of
              None \<Rightarrow> ([], [Report ''put_serialize'' sessionKey])
            | Some s \<Rightarrow> ([BackendPut (backend_key c host port) s TLSSessionMaxAge], [])))"

text \<open>A nil session is \<^const>\<open>None\<close>.\<close>

definition tc_Put ::
    "('cs \<Rightarrow> (byte list \<times> byte list) option) \<Rightarrow> time \<Rightarrow> string \<Rightarrow> 'cs option \<Rightarrow> 'cs session_cache \<Rightarrow>
     (backend_cmd list \<times> report list) \<times> 'cs session_cache" where
  "tc_Put ser now sessionKey cso c =
     (case cso of
        None \<Rightarrow> (case deleteLocked sessionKey c of (cmds, c') \<Rightarrow> ((cmds, []), c'))
      | Some cs \<Rightarrow>
          (let entry = \<lparr>cs_state = cs, cs_createdAt = now\<rparr>;
               c' = (if map_of (sc_sessions c) sessionKey \<noteq> None
                     then moveToEnd sessionKey (c\<lparr>sc_sessions := AList.update sessionKey entry (sc_sessions c)\<rparr>)
                     else
                       (let e = evictIfNeeded c in
                        e\<lparr>sc_sessions := AList.update sessionKey entry (sc_sessions e),
                          sc_accessOrder := sc_accessOrder e @ [sessionKey]\<rparr>))
           in (if sc_backend c \<noteq> None then putToBackend ser now sessionKey cs c else ([], []), c')))"

definition getFromBackend ::
    "(byte list \<Rightarrow> byte list \<Rightarrow> 'cs option) \<Rightarrow> time \<Rightarrow> backend \<Rightarrow> string \<Rightarrow> 'cs session_cache \<Rightarrow>
     (report list \<times> 'cs option) \<times> 'cs session_cache" where
  "getFromBackend des now backend sessionKey c =
     (let (host, port) = parseSessionKey sessionKey in
      if host = [] then (([], None), c)
      else (case backend (backend_key c host port) of
              Inl err \<Rightarrow> (([Report ''get'' sessionKey], None), c)
            | Inr None \<Rightarrow> (([], None), c)
            | Inr (Some s) \<Rightarrow>
                if now - ts_CreatedAt s > TLSSessionMaxAge then (([], None), c)
                else (case ToClientSessionState des s of
                        None \<Rightarrow> (([Report ''get'' sessionKey], None), c)
                      | Some cs \<Rightarrow>
                          (([], Some cs),
                           evictIfNeeded
                             (c\<lparr>sc_sessions := AList.update sessionKey
                                  \<lparr>cs_state = cs, cs_createdAt = ts_CreatedAt s\<rparr> (sc_sessions c),
                                sc_accessOrder := sc_accessOrder c @ [sessionKey]\<rparr>)))))"

definition tc_Get ::
    "(byte list \<Rightarrow> byte list \<Rightarrow> 'cs option) \<Rightarrow> time \<Rightarrow> string \<Rightarrow> 'cs session_cache \<Rightarrow>
     (report list \<times> 'cs option) \<times> 'cs session_cache" where
  "tc_Get des now sessionKey c =
     (case map_of (sc_sessions c) sessionKey of
        Some cached \<Rightarrow> (([], Some (cs_state cached)), moveToEnd sessionKey c)
      | None \<Rightarrow>
          (case sc_backend c of
             Some backend \<Rightarrow> getFromBackend des now backend sessionKey c
           | None \<Rightarrow> (([], None), c)))"

definition tc_Export ::
    "('cs \<Rightarrow> (byte list \<times> byte list) option) \<Rightarrow> 'cs session_cache \<Rightarrow> (string, tls_session_state) gomap" where
  "tc_Export ser c =
     List.map_filter (\<lambda>(key, cached).
        case ser (cs_state cached) of
          None \<Rightarrow> None
        | Some (ticket, stateBytes) \<Rightarrow>
            Some (key, \<lparr>ts_Ticket = b64_encode ticket, ts_State = b64_encode stateBytes,
                        ts_CreatedAt = cs_createdAt cached\<rparr>))
       (sc_sessions c)"

definition import_session ::
    "(byte list \<Rightarrow> byte list \<Rightarrow> 'cs option) \<Rightarrow> time \<Rightarrow> string \<times> tls_session_state \<Rightarrow>
     'cs session_cache \<Rightarrow> 'cs session_cache" where
  "import_session des now = (\<lambda>(key, s) c.
     if now - ts_CreatedAt s > TLSSessionMaxAge then c
     else (case ToClientSessionState des s of
             None \<Rightarrow> c
           | Some cs \<Rightarrow>
               c\<lparr>sc_sessions := AList.update key \<lparr>cs_state = cs, cs_createdAt = ts_CreatedAt s\<rparr> (sc_sessions c),
                 sc_accessOrder := sc_accessOrder c @ [key]\<rparr>))"

definition tc_Import ::
    "(byte list \<Rightarrow> byte list \<Rightarrow> 'cs option) \<Rightarrow> time \<Rightarrow> (string, tls_session_state) gomap \<Rightarrow>
     'cs session_cache \<Rightarrow> 'cs session_cache" where
  "tc_Import des now sessions c = evictIfNeeded (fold (import_session des now) sessions c)"

definition tc_Clear :: "'cs session_cache \<Rightarrow> 'cs session_cache" where
  "tc_Clear c = c\<lparr>sc_sessions := [], sc_accessOrder := []\<rparr>"

definition tc_Count :: "'cs session_cache \<Rightarrow> nat" where
  "tc_Count c = length (sc_sessions c)"

section \<open>Eviction\<close>

definition tc_ok :: "'cs session_cache \<Rightarrow> bool" where
  "tc_ok c \<longleftrightarrow> wf_map (sc_sessions c) \<and> fst ` set (sc_sessions c) \<subseteq> set (sc_accessOrder c)"

lemma evict_loop_ok:
  assumes "evict_loop m order = (m', order')" and "wf_map m" and "fst ` set m \<subseteq> set order"
  shows "wf_map m' \<and> fst ` set m' \<subseteq> set order' \<and> length m' \<le> TLSSessionCacheMaxSize \<and> length m' \<le> length m"
  using assms
proof (induction m order rule: evict_loop.induct)
  case (2 m oldest order)
  show ?case
  proof (cases "length m > TLSSessionCacheMaxSize")
    case True
    have "fst ` set (AList.delete oldest m) \<subseteq> set order"
      using "2.prems"(3) by (auto simp: keys_delete)
    moreover have "length (AList.delete oldest m) \<le> length m" by (simp add: length_delete_le)
    ultimately show ?thesis
      using 2 True wf_map_delete [OF "2.prems"(2), of oldest] by simp
  next
    case False
    then show ?thesis using 2 by simp
  qed
qed simp

lemma tc_ok_evict: "tc_ok c \<Longrightarrow> tc_ok (evictIfNeeded c) \<and> tc_Count (evictIfNeeded c) \<le> TLSSessionCacheMaxSize"
  using evict_loop_ok [of "sc_sessions c" "sc_accessOrder c"]
  by (auto simp: evictIfNeeded_def tc_ok_def tc_Count_def split: prod.splits)

lemma tc_evict_le: "tc_ok c \<Longrightarrow> tc_Count (evictIfNeeded c) \<le> Suc TLSSessionCacheMaxSize"
  using tc_ok_evict [of c] by simp

inductive tc_reachable ::
    "('cs \<Rightarrow> (byte list \<times> byte list) option) \<Rightarrow> (byte list \<Rightarrow> byte list \<Rightarrow> 'cs option) \<Rightarrow> 'cs session_cache \<Rightarrow> bool"
    for ser des where
  tc_new: "tc_reachable ser des NewPersistableSessionCache"
| tc_new_backend: "tc_reachable ser des (NewPersistableSessionCacheWithBackend b p pr)"
| tc_put: "tc_reachable ser des c \<Longrightarrow> tc_reachable ser des (snd (tc_Put ser now k cs c))"
| tc_get: "tc_reachable ser des c \<Longrightarrow> tc_reachable ser des (snd (tc_Get des now k c))"
| tc_import: "tc_reachable ser des c \<Longrightarrow> tc_reachable ser des (tc_Import des now saved c)"
| tc_clear: "tc_reachable ser des c \<Longrightarrow> tc_reachable ser des (tc_Clear c)"
| tc_backend: "tc_reachable ser des c \<Longrightarrow> tc_reachable ser des (SetBackend b p pr c)"
| tc_session_id: "tc_reachable ser des c \<Longrightarrow> tc_reachable ser des (SetSessionIdentifier sid c)"

lemma insert_remove1: "k \<in> set l \<Longrightarrow> insert k (set (remove1 k l)) = set l"
  by (induction l) auto

lemma set_moveToEnd [simp]: "set (sc_accessOrder (moveToEnd k c)) = set (sc_accessOrder c)"
  by (simp add: moveToEnd_def insert_remove1)

lemma sessions_moveToEnd [simp]: "sc_sessions (moveToEnd k c) = sc_sessions c"
  by (simp add: moveToEnd_def)

lemma tc_ok_moveToEnd: "tc_ok c \<Longrightarrow> tc_ok (moveToEnd k c)"
  by (simp add: tc_ok_def)

lemma tc_ok_add:
  "tc_ok c \<Longrightarrow> tc_ok (c\<lparr>sc_sessions := AList.update k e (sc_sessions c), sc_accessOrder := sc_accessOrder c @ [k]\<rparr>)"
  by (auto simp: tc_ok_def keys_update)

lemma tc_ok_import_session: "tc_ok c \<Longrightarrow> tc_ok (import_session des now ks c)"
  by (cases ks) (auto simp: import_session_def tc_ok_add split: option.split)

lemma tc_ok_import_all: "tc_ok c \<Longrightarrow> tc_ok (fold (import_session des now) saved c)"
  by (induction saved arbitrary: c) (auto intro: tc_ok_import_session)

lemma tc_ok_delete:
  "tc_ok c \<Longrightarrow> tc_ok (snd (deleteLocked k c)) \<and> tc_Count (snd (deleteLocked k c)) \<le> tc_Count c"
  using length_delete_le [of k "sc_sessions c"]
  by (auto simp: deleteLocked_def tc_ok_def tc_Count_def keys_delete Let_def subset_iff)

lemma Count_update_known: "map_of m k \<noteq> None \<Longrightarrow> length (AList.update k v m) = length m"
  by (induction m) auto

lemma tc_bound_put:
  assumes "tc_ok c" and "tc_Count c \<le> Suc TLSSessionCacheMaxSize"
  shows "tc_ok (snd (tc_Put ser now k cso c)) \<and> tc_Count (snd (tc_Put ser now k cso c)) \<le> Suc TLSSessionCacheMaxSize"
proof (cases cso)
  case None
  then show ?thesis using tc_ok_delete [OF assms(1), of k] assms(2) by (auto simp: tc_Put_def split: prod.split)
next
  case (Some cs)
  let ?e = "\<lparr>cs_state = cs, cs_createdAt = now\<rparr>"
  show ?thesis
  proof (cases "map_of (sc_sessions c) k")
    case None
    note e = tc_ok_evict [OF assms(1)]
    have "tc_ok ((evictIfNeeded c)\<lparr>sc_sessions := AList.update k ?e (sc_sessions (evictIfNeeded c)),
        sc_accessOrder := sc_accessOrder (evictIfNeeded c) @ [k]\<rparr>)" using e by (intro tc_ok_add) simp
    moreover have "length (AList.update k ?e (sc_sessions (evictIfNeeded c))) \<le> Suc TLSSessionCacheMaxSize"
      using e length_update_le [of "sc_sessions (evictIfNeeded c)" k ?e]
      by (simp add: tc_Count_def tc_ok_def)
    ultimately show ?thesis using Some None by (simp add: tc_Put_def tc_Count_def Let_def)
  next
    case known: (Some old)
    have "tc_ok (c\<lparr>sc_sessions := AList.update k ?e (sc_sessions c)\<rparr>)"
      using assms(1) known map_of_SomeD [OF known] by (force simp: tc_ok_def keys_update)
    then show ?thesis
      using Some known assms(2) Count_update_known [of "sc_sessions c" k ?e]
      by (simp add: tc_Put_def tc_Count_def tc_ok_moveToEnd Let_def del: map_of_eq_Some_iff)
  qed
qed

lemma tc_bound_backend:
  assumes "tc_ok c" and "tc_Count c \<le> Suc TLSSessionCacheMaxSize"
  shows "tc_ok (snd (getFromBackend des now b k c)) \<and>
    tc_Count (snd (getFromBackend des now b k c)) \<le> Suc TLSSessionCacheMaxSize"
  using assms
  by (auto simp: getFromBackend_def Let_def tc_ok_add tc_ok_evict tc_evict_le [simplified]
      split: prod.split sum.split option.split)

lemma tc_bound_get:
  assumes "tc_ok c" and "tc_Count c \<le> Suc TLSSessionCacheMaxSize"
  shows "tc_ok (snd (tc_Get des now k c)) \<and> tc_Count (snd (tc_Get des now k c)) \<le> Suc TLSSessionCacheMaxSize"
  using assms tc_bound_backend [OF assms] tc_ok_moveToEnd [OF assms(1)]
  by (auto simp: tc_Get_def tc_Count_def split: option.split)

lemma tc_reachable_ok:
  "tc_reachable ser des c \<Longrightarrow> tc_ok c \<and> tc_Count c \<le> Suc TLSSessionCacheMaxSize"
proof (induction rule: tc_reachable.induct)
  case (tc_import c now saved)
  then show ?case
    by (simp add: tc_Import_def tc_ok_import_all tc_ok_evict tc_evict_le [simplified])
next
  case (tc_put c now k cs)
  then show ?case by (simp add: tc_bound_put [simplified])
next
  case (tc_get c now k)
  then show ?case by (simp add: tc_bound_get [simplified])
qed (simp_all add: tc_ok_def tc_Count_def NewPersistableSessionCache_def
    NewPersistableSessionCacheWithBackend_def tc_Clear_def SetBackend_def SetSessionIdentifier_def)


text \<open>
  Lemma. Whatever sequence of operations was applied (backend answers
  and imports of any size included), the cache holds at most 33 sessions, one
  more than \<^verbatim>\<open>TLSSessionCacheMaxSize\<close>, at most one per key, and every session it
  holds is in the eviction order, so that it can be evicted.
\<close>

theorem tls_cache_bound:
  assumes "tc_reachable ser des c"
  shows "tc_Count c \<le> 33 \<and> wf_map (sc_sessions c) \<and> fst ` set (sc_sessions c) \<subseteq> set (sc_accessOrder c)"
  using tc_reachable_ok [OF assms] by (simp add: tc_ok_def)

text \<open>Witness: an empty cache with one session put.\<close>

theorem tls_cache_bound_witness:
  "tc_Count (snd (tc_Put (\<lambda>_. None) 0 ''k'' (Some ()) NewPersistableSessionCache)) = 1 \<and>
   tc_Count (snd (tc_Put (\<lambda>_. None) 0 ''k'' (Some ()) NewPersistableSessionCache)) \<le> 33"
  using tls_cache_bound [OF tc_put [OF tc_new, where ser = "\<lambda>_. None" and now = 0 and k = "''k''" and cs = "Some ()"]]
  by (simp add: tc_Put_def tc_Count_def evictIfNeeded_def NewPersistableSessionCache_def)

section \<open>The cache as a list in order of use\<close>

text \<open>
  The contract of a least-recently-used cache, on its list of entries from the
  oldest to the newest: putting a new key first drops the oldest entries until
  at most \<open>cap\<close> are left, using a key makes it the newest.
\<close>

definition lru_del :: "'k \<Rightarrow> ('k \<times> 'v) list \<Rightarrow> ('k \<times> 'v) list" where
  "lru_del k l = filter (\<lambda>p. fst p \<noteq> k) l"

definition lru_put :: "nat \<Rightarrow> 'k \<Rightarrow> 'v \<Rightarrow> ('k \<times> 'v) list \<Rightarrow> ('k \<times> 'v) list" where
  "lru_put cap k v l =
     (if k \<in> fst ` set l then lru_del k l else drop (length l - cap) l) @ [(k, v)]"

definition lru_use :: "'k \<Rightarrow> ('k \<times> 'v) list \<Rightarrow> ('k \<times> 'v) list" where
  "lru_use k l = (case map_of l k of None \<Rightarrow> l | Some v \<Rightarrow> lru_del k l @ [(k, v)])"

datatype ('k, 'v) lru_op = OpPut (op_key: 'k) 'v | OpGet (op_key: 'k) | OpDel (op_key: 'k)

definition recent :: "nat \<Rightarrow> 'k \<Rightarrow> 'v \<Rightarrow> ('k \<times> 'v) list \<Rightarrow> bool" where
  "recent n k v l \<longleftrightarrow> (\<exists>ys zs. l = ys @ (k, v) # zs \<and> length zs \<le> n)"

lemma recent_del:
  assumes "recent n k v l" and "k' \<noteq> k"
  shows "recent n k v (lru_del k' l)"
proof -
  obtain ys zs where l: "l = ys @ (k, v) # zs" "length zs \<le> n" using assms(1) by (auto simp: recent_def)
  have "lru_del k' l = lru_del k' ys @ (k, v) # lru_del k' zs" using l assms(2) by (simp add: lru_del_def)
  moreover have "length (lru_del k' zs) \<le> n"
    unfolding lru_del_def using l(2) length_filter_le le_trans by blast
  ultimately show ?thesis unfolding recent_def by blast
qed

lemma recent_snoc: "recent n k v l \<Longrightarrow> recent (Suc n) k v (l @ [p])"
  unfolding recent_def by (force intro: exI [of _ "_ @ [p]"])

lemma recent_drop:
  assumes "recent n k v l" and "n < cap"
  shows "recent n k v (drop (length l - cap) l)"
proof -
  obtain ys zs where l: "l = ys @ (k, v) # zs" "length zs \<le> n" using assms(1) by (auto simp: recent_def)
  then have "length l - cap \<le> length ys" using assms(2) by simp
  then have "drop (length l - cap) l = drop (length l - cap) ys @ (k, v) # zs" using l(1) by simp
  then show ?thesis using l(2) unfolding recent_def by blast
qed

lemma recent_mono: "recent n k v l \<Longrightarrow> n \<le> m \<Longrightarrow> recent m k v l"
  unfolding recent_def by (blast intro: order_trans)

lemma recent_put: "recent n k v l \<Longrightarrow> n < cap \<Longrightarrow> k' \<noteq> k \<Longrightarrow> recent (Suc n) k v (lru_put cap k' v' l)"
  by (simp add: lru_put_def recent_snoc recent_del recent_drop)

lemma recent_use: "recent n k v l \<Longrightarrow> k' \<noteq> k \<Longrightarrow> recent (Suc n) k v (lru_use k' l)"
  by (auto simp: lru_use_def recent_snoc recent_del split: option.split intro: recent_mono)

lemma recent_lookup: "recent n k v l \<Longrightarrow> distinct (map fst l) \<Longrightarrow> map_of l k = Some v"
  by (auto simp: recent_def)

locale lru_cache =
  fixes cap :: nat
    and inv :: "'s \<Rightarrow> bool"
    and entries :: "'s \<Rightarrow> ('k \<times> 'v) list"
    and put :: "'k \<Rightarrow> 'v \<Rightarrow> 's \<Rightarrow> 's"
    and get :: "'k \<Rightarrow> 's \<Rightarrow> 'r option \<times> 's"
    and del :: "'k \<Rightarrow> 's \<Rightarrow> 's"
    and view :: "'v \<Rightarrow> 'r"
  assumes entries_distinct: "inv s \<Longrightarrow> distinct (map fst (entries s))"
    and inv_put: "inv s \<Longrightarrow> inv (put k v s)"
    and inv_get: "inv s \<Longrightarrow> inv (snd (get k s))"
    and inv_del: "inv s \<Longrightarrow> inv (del k s)"
    and put_refines: "inv s \<Longrightarrow> entries (put k v s) = lru_put cap k v (entries s)"
    and get_refines: "inv s \<Longrightarrow> entries (snd (get k s)) = lru_use k (entries s)"
    and get_answer: "inv s \<Longrightarrow> fst (get k s) = map_option view (map_of (entries s) k)"
    and del_refines: "inv s \<Longrightarrow> entries (del k s) = lru_del k (entries s)"
begin

definition lru_step :: "('k, 'v) lru_op \<Rightarrow> 's \<Rightarrow> 's" where
  "lru_step opn s = (case opn of OpPut k v \<Rightarrow> put k v s | OpGet k \<Rightarrow> snd (get k s) | OpDel k \<Rightarrow> del k s)"

lemma step_recent:
  assumes "inv s" and "recent n k v (entries s)" and "n < cap" and "op_key opn \<noteq> k"
  shows "inv (lru_step opn s) \<and> recent (Suc n) k v (entries (lru_step opn s))"
  using assms
  by (cases opn) (auto simp: lru_step_def inv_put inv_get inv_del put_refines get_refines del_refines
      recent_put recent_use intro: recent_mono recent_del)

lemma steps_recent:
  "inv s \<Longrightarrow> recent n k v (entries s) \<Longrightarrow> n + length opns \<le> cap \<Longrightarrow> \<forall>opn \<in> set opns. op_key opn \<noteq> k \<Longrightarrow>
   inv (fold lru_step opns s) \<and> recent (n + length opns) k v (entries (fold lru_step opns s))"
proof (induction opns arbitrary: s n)
  case (Cons opn opns)
  have "inv (lru_step opn s) \<and> recent (Suc n) k v (entries (lru_step opn s))"
    using Cons.prems by (intro step_recent) auto
  then show ?case using Cons.IH [of "lru_step opn s" "Suc n"] Cons.prems by simp
qed simp

lemma put_survives:
  assumes "inv s" and "length opns \<le> cap" and "\<forall>opn \<in> set opns. op_key opn \<noteq> k"
  shows "fst (get k (fold lru_step opns (put k v s))) = Some (view v)"
proof -
  have "recent 0 k v (entries (put k v s))"
    using assms(1) by (auto simp: put_refines lru_put_def recent_def)
  then have r: "inv (fold lru_step opns (put k v s)) \<and>
      recent (length opns) k v (entries (fold lru_step opns (put k v s)))"
    using steps_recent [of "put k v s" 0 k v opns] assms by (simp add: inv_put)
  from r have "map_of (entries (fold lru_step opns (put k v s))) k = Some v"
    by (intro recent_lookup [of "length opns"] entries_distinct) simp_all
  with r show ?thesis by (simp add: get_answer del: map_of_eq_Some_iff)
qed

end

section \<open>The code implements the contract\<close>

text \<open>
  The state of a cache without a backend, whose order lists every session once
  (an import may list a key twice).
\<close>

definition lru_ok :: "'cs session_cache \<Rightarrow> bool" where
  "lru_ok c \<longleftrightarrow> wf_map (sc_sessions c) \<and> distinct (sc_accessOrder c) \<and>
     set (sc_accessOrder c) = fst ` set (sc_sessions c) \<and> sc_backend c = None"

definition lru_entries :: "'cs session_cache \<Rightarrow> (string \<times> 'cs cached_session) list" where
  "lru_entries c = map (\<lambda>k. (k, the (map_of (sc_sessions c) k))) (sc_accessOrder c)"

lemma keys_entries: "map fst (lru_entries c) = sc_accessOrder c"
  by (simp add: lru_entries_def o_def)

lemma lru_length: "lru_ok c \<Longrightarrow> length (sc_sessions c) = length (sc_accessOrder c)"
  unfolding lru_ok_def by (metis distinct_card length_map list.set_map)

lemma lru_known: "lru_ok c \<Longrightarrow> k \<in> set (sc_accessOrder c) \<longleftrightarrow> map_of (sc_sessions c) k \<noteq> None"
  by (simp add: lru_ok_def map_of_eq_None_iff)

lemma map_of_tabulate: "map_of (map (\<lambda>k. (k, f k)) l) k = (if k \<in> set l then Some (f k) else None)"
  by (induction l) auto

lemma lru_lookup: "lru_ok c \<Longrightarrow> map_of (lru_entries c) k = map_of (sc_sessions c) k"
  using lru_known [of c k] by (simp add: lru_entries_def map_of_tabulate del: map_of_eq_Some_iff)

lemma lru_del_entries: "lru_del k (lru_entries c) = map (\<lambda>k'. (k', the (map_of (sc_sessions c) k'))) (filter (\<lambda>k'. k' \<noteq> k) (sc_accessOrder c))"
  by (simp add: lru_del_def lru_entries_def filter_map o_def)

lemma lru_keys_iff: "k \<in> fst ` set (lru_entries c) \<longleftrightarrow> k \<in> set (sc_accessOrder c)"
  by (metis keys_entries list.set_map)

lemma evict_loop_drop:
  "wf_map m \<Longrightarrow> distinct order \<Longrightarrow> set order = fst ` set m \<Longrightarrow>
   evict_loop m order =
     (filter (\<lambda>p. fst p \<in> set (drop (length order - TLSSessionCacheMaxSize) order)) m,
      drop (length order - TLSSessionCacheMaxSize) order)"
proof (induction m order rule: evict_loop.induct)
  case (2 m oldest order)
  have len: "length m = length (oldest # order)"
    using "2.prems" by (metis distinct_card length_map list.set_map)
  show ?case
  proof (cases "length m > TLSSessionCacheMaxSize")
    case True
    have "set order = fst ` set (AList.delete oldest m)" using "2.prems" by (auto simp: keys_delete)
    then have ih: "evict_loop (AList.delete oldest m) order =
       (filter (\<lambda>p. fst p \<in> set (drop (length order - TLSSessionCacheMaxSize) order)) (AList.delete oldest m),
        drop (length order - TLSSessionCacheMaxSize) order)"
      using 2 True by simp
    have d: "length (oldest # order) - TLSSessionCacheMaxSize = Suc (length order - TLSSessionCacheMaxSize)"
      using True len by simp
    have "oldest \<notin> set (drop (length order - TLSSessionCacheMaxSize) order)"
      using "2.prems"(2) by (meson distinct.simps(2) in_set_dropD)
    then have "filter (\<lambda>p. fst p \<in> set (drop (length order - TLSSessionCacheMaxSize) order)) (AList.delete oldest m) =
       filter (\<lambda>p. fst p \<in> set (drop (length order - TLSSessionCacheMaxSize) order)) m"
      by (induction m) (auto simp: AList.delete_eq)
    then show ?thesis using True ih unfolding d by simp
  next
    case False
    then have "length (oldest # order) - TLSSessionCacheMaxSize = 0" using len by simp
    moreover have "filter (\<lambda>p. fst p \<in> set (oldest # order)) m = m"
      using "2.prems"(3) by (intro filter_True) auto
    ultimately show ?thesis using False by (simp del: length_Cons)
  qed
qed simp

lemma evict_lru:
  assumes "lru_ok c"
  shows "lru_ok (evictIfNeeded c)"
    and "lru_entries (evictIfNeeded c) =
      drop (length (lru_entries c) - TLSSessionCacheMaxSize) (lru_entries c)"
proof -
  let ?o = "sc_accessOrder c" let ?m = "sc_sessions c"
  let ?d = "drop (length ?o - TLSSessionCacheMaxSize) ?o"
  have e: "evictIfNeeded c = c\<lparr>sc_sessions := filter (\<lambda>p. fst p \<in> set ?d) ?m, sc_accessOrder := ?d\<rparr>"
    using assms evict_loop_drop [of ?m ?o] by (simp add: evictIfNeeded_def lru_ok_def)
  have sub: "set ?d \<subseteq> fst ` set ?m" using assms in_set_dropD by (fastforce simp: lru_ok_def)
  have "fst ` set (filter (\<lambda>p. fst p \<in> set ?d) ?m) = set ?d" using sub by auto
  then show "lru_ok (evictIfNeeded c)"
    using assms by (simp add: e lru_ok_def distinct_map_filter)
  have look: "map_of (filter (\<lambda>p. fst p \<in> S) m) k = (if k \<in> S then map_of m k else None)"
    for S and m :: "(string \<times> 'a cached_session) list" and k
    by (induction m) auto
  show "lru_entries (evictIfNeeded c) =
      drop (length (lru_entries c) - TLSSessionCacheMaxSize) (lru_entries c)"
    by (simp add: e lru_entries_def look drop_map)
qed

lemma remove1_filter: "distinct l \<Longrightarrow> remove1 k l = filter (\<lambda>k'. k' \<noteq> k) l"
  by (simp add: distinct_remove1_removeAll removeAll_filter_not_eq eq_commute)

lemma lru_touch:
  assumes "lru_ok c" and "map_of (sc_sessions c) k \<noteq> None"
  shows "lru_ok (moveToEnd k (c\<lparr>sc_sessions := AList.update k e (sc_sessions c)\<rparr>))"
    and "lru_entries (moveToEnd k (c\<lparr>sc_sessions := AList.update k e (sc_sessions c)\<rparr>)) =
      lru_del k (lru_entries c) @ [(k, e)]"
proof -
  have k: "k \<in> set (sc_accessOrder c)" using assms lru_known by blast
  show "lru_ok (moveToEnd k (c\<lparr>sc_sessions := AList.update k e (sc_sessions c)\<rparr>))"
    using assms(1) k by (auto simp: lru_ok_def moveToEnd_def remove1_filter keys_update)
  show "lru_entries (moveToEnd k (c\<lparr>sc_sessions := AList.update k e (sc_sessions c)\<rparr>)) =
      lru_del k (lru_entries c) @ [(k, e)]"
    unfolding lru_del_entries
    using assms(1) k by (simp add: moveToEnd_def lru_entries_def remove1_filter lru_ok_def)
qed

lemma lru_insert:
  assumes "lru_ok c" and "map_of (sc_sessions c) k = None"
  shows "lru_ok (c\<lparr>sc_sessions := AList.update k e (sc_sessions c), sc_accessOrder := sc_accessOrder c @ [k]\<rparr>)"
    and "lru_entries (c\<lparr>sc_sessions := AList.update k e (sc_sessions c), sc_accessOrder := sc_accessOrder c @ [k]\<rparr>) =
      lru_entries c @ [(k, e)]"
proof -
  have k: "k \<notin> set (sc_accessOrder c)" using assms lru_known by blast
  show "lru_ok (c\<lparr>sc_sessions := AList.update k e (sc_sessions c), sc_accessOrder := sc_accessOrder c @ [k]\<rparr>)"
    using assms(1) k by (auto simp: lru_ok_def keys_update)
  show "lru_entries (c\<lparr>sc_sessions := AList.update k e (sc_sessions c), sc_accessOrder := sc_accessOrder c @ [k]\<rparr>) =
      lru_entries c @ [(k, e)]"
    using k by (auto simp: lru_entries_def)
qed

lemma lru_delete:
  assumes "lru_ok c"
  shows "lru_ok (snd (deleteLocked k c))"
    and "lru_entries (snd (deleteLocked k c)) = lru_del k (lru_entries c)"
proof -
  show "lru_ok (snd (deleteLocked k c))"
    using assms by (auto simp: deleteLocked_def lru_ok_def keys_delete remove1_filter Let_def)
  have "k \<notin> set (sc_accessOrder c) \<Longrightarrow> lru_del k (lru_entries c) = lru_entries c"
    unfolding lru_del_entries by (subst filter_True) (auto simp: lru_entries_def)
  moreover have "map_of (sc_sessions c) k \<noteq> None \<Longrightarrow>
      lru_entries (snd (deleteLocked k c)) = lru_del k (lru_entries c)"
    unfolding lru_del_entries
    using assms by (simp add: deleteLocked_def Let_def lru_ok_def remove1_filter lru_entries_def)
  ultimately show "lru_entries (snd (deleteLocked k c)) = lru_del k (lru_entries c)"
    using lru_known [OF assms, of k] by (cases "map_of (sc_sessions c) k") (simp_all add: deleteLocked_def)
qed

definition lru_Put :: "string \<Rightarrow> 'cs cached_session \<Rightarrow> 'cs session_cache \<Rightarrow> 'cs session_cache" where
  "lru_Put k e c = snd (tc_Put (\<lambda>_. None) (cs_createdAt e) k (Some (cs_state e)) c)"

definition lru_Get :: "string \<Rightarrow> 'cs session_cache \<Rightarrow> 'cs option \<times> 'cs session_cache" where
  "lru_Get k c = (case tc_Get (\<lambda>_ _. None) 0 k c of ((reports, r), c') \<Rightarrow> (r, c'))"

definition lru_Delete :: "string \<Rightarrow> 'cs session_cache \<Rightarrow> 'cs session_cache" where
  "lru_Delete k c = snd (tc_Put (\<lambda>_. None) 0 k None c)"

lemma session_eta [simp]: "\<lparr>cs_state = cs_state e, cs_createdAt = cs_createdAt e\<rparr> = e"
  by (cases e) simp

lemma lru_Put_refines:
  assumes "lru_ok c"
  shows "lru_ok (lru_Put k e c)" and "lru_entries (lru_Put k e c) = lru_put TLSSessionCacheMaxSize k e (lru_entries c)"
proof -
  have "lru_ok (lru_Put k e c) \<and> lru_entries (lru_Put k e c) = lru_put TLSSessionCacheMaxSize k e (lru_entries c)"
  proof (cases "map_of (sc_sessions c) k = None")
    case True
    have "k \<notin> fst ` set (lru_entries c)" using True lru_known [OF assms] by (simp add: lru_keys_iff)
    then have "map_of (lru_entries (evictIfNeeded c)) k = None"
      unfolding evict_lru(2) [OF assms] map_of_eq_None_iff using in_set_dropD by fastforce
    then have n: "map_of (sc_sessions (evictIfNeeded c)) k = None"
      using lru_lookup [OF evict_lru(1) [OF assms], of k] by simp
    have "k \<notin> fst ` set (lru_entries c)" using True lru_known [OF assms] by (simp add: lru_keys_iff)
    then show ?thesis
      using True lru_insert [OF evict_lru(1) [OF assms] n, of e] evict_lru(2) [OF assms]
      by (simp add: lru_Put_def tc_Put_def Let_def lru_put_def)
  next
    case False
    then show ?thesis
      using lru_touch [OF assms False, of e] lru_known [OF assms, of k]
      by (simp add: lru_Put_def tc_Put_def Let_def lru_put_def lru_keys_iff)
  qed
  then show "lru_ok (lru_Put k e c)" "lru_entries (lru_Put k e c) = lru_put TLSSessionCacheMaxSize k e (lru_entries c)"
    by blast+
qed

lemma alist_update_same: "map_of m k = Some v \<Longrightarrow> AList.update k v m = m"
  by (induction m) (auto split: if_splits simp del: map_of_eq_Some_iff)

lemma lru_Get_refines:
  assumes "lru_ok c"
  shows "lru_ok (snd (lru_Get k c))" and "lru_entries (snd (lru_Get k c)) = lru_use k (lru_entries c)"
    and "fst (lru_Get k c) = map_option cs_state (map_of (lru_entries c) k)"
proof -
  have b: "sc_backend c = None" using assms by (simp add: lru_ok_def)
  have "lru_ok (snd (lru_Get k c)) \<and> lru_entries (snd (lru_Get k c)) = lru_use k (lru_entries c) \<and>
      fst (lru_Get k c) = map_option cs_state (map_of (lru_entries c) k)"
  proof (cases "map_of (sc_sessions c) k")
    case None
    then show ?thesis using assms b lru_lookup [OF assms, of k]
      by (simp add: lru_Get_def tc_Get_def lru_use_def)
  next
    case (Some e)
    have "AList.update k e (sc_sessions c) = sc_sessions c" using Some by (rule alist_update_same)
    moreover have "c\<lparr>sc_sessions := sc_sessions c\<rparr> = c" by simp
    ultimately show ?thesis
      using assms Some lru_lookup [OF assms, of k] lru_touch [OF assms, of k e]
      by (simp add: lru_Get_def tc_Get_def lru_use_def del: map_of_eq_Some_iff)
  qed
  then show "lru_ok (snd (lru_Get k c))" "lru_entries (snd (lru_Get k c)) = lru_use k (lru_entries c)"
    "fst (lru_Get k c) = map_option cs_state (map_of (lru_entries c) k)" by blast+
qed

lemma lru_Delete_refines:
  assumes "lru_ok c"
  shows "lru_ok (lru_Delete k c)" and "lru_entries (lru_Delete k c) = lru_del k (lru_entries c)"
  using lru_delete [OF assms, of k] by (simp_all add: lru_Delete_def tc_Put_def split: prod.split)
     (metis snd_conv)+

interpretation tls_lru: lru_cache TLSSessionCacheMaxSize lru_ok lru_entries lru_Put lru_Get lru_Delete cs_state
  by unfold_locales
    (simp_all only: lru_Put_refines lru_Get_refines lru_Delete_refines keys_entries, simp add: lru_ok_def)

section \<open>What the cache promises\<close>

lemma tc_Put_lru:
  "snd (tc_Put ser now k (Some cs) c) = lru_Put k \<lparr>cs_state = cs, cs_createdAt = now\<rparr> c"
  by (simp add: lru_Put_def tc_Put_def Let_def)

lemma tc_Delete_lru: "snd (tc_Put ser now k None c) = lru_Delete k c"
  by (simp add: lru_Delete_def tc_Put_def split: prod.split)

lemma tc_Get_lru:
  "lru_ok c \<Longrightarrow> (snd (fst (tc_Get des now k c)), snd (tc_Get des now k c)) = lru_Get k c"
  by (simp add: lru_Get_def tc_Get_def lru_ok_def split: option.split prod.split)

lemmas tc_Get_lru_parts = tc_Get_lru [THEN arg_cong [where f = fst], simplified] tc_Get_lru [THEN arg_cong [where f = snd], simplified]



definition tls_step ::
    "('cs \<Rightarrow> (byte list \<times> byte list) option) \<Rightarrow> (byte list \<Rightarrow> byte list \<Rightarrow> 'cs option) \<Rightarrow> time \<Rightarrow>
     (string, 'cs cached_session) lru_op \<Rightarrow> 'cs session_cache \<Rightarrow> 'cs session_cache" where
  "tls_step ser des now opn c =
     (case opn of
        OpPut k e \<Rightarrow> snd (tc_Put ser (cs_createdAt e) k (Some (cs_state e)) c)
      | OpGet k \<Rightarrow> snd (tc_Get des now k c)
      | OpDel k \<Rightarrow> snd (tc_Put ser now k None c))"

lemma tls_step_lru: "lru_ok c \<Longrightarrow> tls_step ser des now opn c = tls_lru.lru_step opn c"
  by (cases opn) (simp_all add: tls_step_def tls_lru.lru_step_def tc_Put_lru tc_Get_lru_parts tc_Delete_lru)

lemma lru_ok_step: "lru_ok c \<Longrightarrow> lru_ok (tls_lru.lru_step opn c)"
  by (cases opn) (simp_all add: tls_lru.lru_step_def lru_Put_refines lru_Get_refines lru_Delete_refines)

lemma tls_steps_lru:
  "lru_ok c \<Longrightarrow> fold (tls_step ser des now) opns c = fold tls_lru.lru_step opns c \<and> lru_ok (fold tls_lru.lru_step opns c)"
  by (induction opns arbitrary: c) (simp_all add: tls_step_lru lru_ok_step)



definition fill_cache :: "nat \<Rightarrow> unit session_cache" where
  "fill_cache n =
     fold (\<lambda>i c. snd (tc_Put (\<lambda>_. None) 0 (show_nat i) (Some ()) c)) [0..<n] NewPersistableSessionCache"

lemma fill_cache_order:
  "n \<le> 33 \<Longrightarrow> lru_ok (fill_cache n) \<and> sc_accessOrder (fill_cache n) = map show_nat [0..<n]"
proof (induction n)
  case 0
  then show ?case by (simp add: fill_cache_def lru_ok_def NewPersistableSessionCache_def)
next
  case (Suc n)
  then have ih: "lru_ok (fill_cache n)" "sc_accessOrder (fill_cache n) = map show_nat [0..<n]" by simp_all
  let ?e = "\<lparr>cs_state = (), cs_createdAt = 0\<rparr>"
  have s: "fill_cache (Suc n) = lru_Put (show_nat n) ?e (fill_cache n)"
    by (simp add: fill_cache_def tc_Put_lru)
  have l: "length (lru_entries (fill_cache n)) = n" using ih(2) by (simp add: lru_entries_def)
  have new: "show_nat n \<notin> fst ` set (lru_entries (fill_cache n))"
    using ih(2) by (auto simp: lru_keys_iff show_nat_inj)
  have "map fst (lru_entries (fill_cache (Suc n))) = map show_nat [0..<Suc n]"
    using lru_Put_refines(2) [OF ih(1), of "show_nat n" ?e] new l Suc.prems ih(2)
    by (simp add: s lru_put_def keys_entries)
  then show ?case using lru_Put_refines(1) [OF ih(1)] by (simp add: s keys_entries)
qed

text \<open>
  Lemma. The bound of 33 is reached: 33 sessions put into a new cache are
  all kept, although \<^verbatim>\<open>TLSSessionCacheMaxSize\<close> is 32. \<^verbatim>\<open>Put\<close> evicts before it adds, and
  \<^verbatim>\<open>evictIfNeeded\<close> leaves a cache that is at the limit alone.
\<close>

theorem tls_cache_exceeds_max: "tc_Count (fill_cache 33) = Suc TLSSessionCacheMaxSize"
  using fill_cache_order [of 33] lru_length [of "fill_cache 33"] by (simp add: tc_Count_def)


section \<open>Saving and restoring\<close>

lemma map_of_mset: "mset m' = mset m \<Longrightarrow> wf_map m \<Longrightarrow> map_of m' = map_of m"
proof -
  assume ms: "mset m' = mset m" and wf: "wf_map m"
  have "mset (map fst m') = mset (map fst m)" using ms by simp
  then have wf': "wf_map m'" using wf by (metis mset_eq_imp_distinct_iff)
  have "set m' = set m" using ms by (metis set_mset_mset)
  then show ?thesis by (rule map_of_inject_set [THEN iffD2, OF wf' wf])
qed

lemma import_all:
  assumes "\<forall>(k, s) \<in> set saved. now - ts_CreatedAt s \<le> TLSSessionMaxAge \<and> ToClientSessionState des s \<noteq> None"
    and "distinct (map fst saved)" and "fst ` set (sc_sessions c) \<inter> fst ` set saved = {}"
  shows "sc_sessions (fold (import_session des now) saved c) =
    sc_sessions c @ map (\<lambda>(k, s). (k, \<lparr>cs_state = the (ToClientSessionState des s), cs_createdAt = ts_CreatedAt s\<rparr>)) saved"
  using assms
proof (induction saved arbitrary: c)
  case (Cons ks saved)
  obtain k s where ks: "ks = (k, s)" by (cases ks)
  let ?c = "import_session des now ks c"
  obtain cs where cs: "ToClientSessionState des s = Some cs" using Cons.prems(1) ks by auto
  have new: "map_of (sc_sessions c) k = None" using Cons.prems(3) ks by (auto simp: map_of_eq_None_iff)
  have c: "sc_sessions ?c = sc_sessions c @ [(k, \<lparr>cs_state = cs, cs_createdAt = ts_CreatedAt s\<rparr>)]"
    using Cons.prems(1) ks cs new by (simp add: import_session_def alist_update_fresh)
  then have "fst ` set (sc_sessions ?c) \<inter> fst ` set saved = {}" using Cons.prems(2,3) ks by auto
  then show ?case using Cons.IH [of ?c] Cons.prems(1,2) c ks cs by simp
qed simp

definition saved_state :: "('cs \<Rightarrow> (byte list \<times> byte list) option) \<Rightarrow> 'cs cached_session \<Rightarrow> tls_session_state" where
  "saved_state ser e =
     \<lparr>ts_Ticket = b64_encode (fst (the (ser (cs_state e)))), ts_State = b64_encode (snd (the (ser (cs_state e)))),
      ts_CreatedAt = cs_createdAt e\<rparr>"

definition saves :: "('cs \<Rightarrow> (byte list \<times> byte list) option) \<Rightarrow> (byte list \<Rightarrow> byte list \<Rightarrow> 'cs option) \<Rightarrow> 'cs \<Rightarrow> bool" where
  "saves ser des cs \<longleftrightarrow> (case ser cs of None \<Rightarrow> False | Some (t, b) \<Rightarrow> des t b = Some cs)"

lemma restore_saved_state: "saves ser des (cs_state e) \<Longrightarrow> ToClientSessionState des (saved_state ser e) = Some (cs_state e)"
  by (auto simp: ToClientSessionState_def saved_state_def saves_def split: option.splits)

lemma saved_state_created [simp]: "ts_CreatedAt (saved_state ser e) = cs_createdAt e"
  by (simp add: saved_state_def)

lemma export_all:
  "\<forall>(k, e) \<in> set (sc_sessions c). saves ser des (cs_state e) \<Longrightarrow>
   tc_Export ser c = map (\<lambda>(k, e). (k, saved_state ser e)) (sc_sessions c)"
proof -
  have "\<forall>(k, e) \<in> set m. saves ser des (cs_state e) \<Longrightarrow>
    List.map_filter (\<lambda>(key, cached).
        case ser (cs_state cached) of
          None \<Rightarrow> None
        | Some (ticket, stateBytes) \<Rightarrow>
            Some (key, \<lparr>ts_Ticket = b64_encode ticket, ts_State = b64_encode stateBytes,
                        ts_CreatedAt = cs_createdAt cached\<rparr>)) m =
      map (\<lambda>(k, e). (k, saved_state ser e)) m" for m
    by (induction m) (auto simp: map_filter_simps saves_def saved_state_def split: option.splits)
  then show "\<forall>(k, e) \<in> set (sc_sessions c). saves ser des (cs_state e) \<Longrightarrow> ?thesis"
    by (simp add: tc_Export_def)
qed

lemma import_export:
  assumes "wf_map (sc_sessions c)" and "tc_Count c \<le> 32"
    and "\<forall>(k, e) \<in> set (sc_sessions c). now - cs_createdAt e \<le> TLSSessionMaxAge \<and>
saves ser des (cs_state e)"
    and "mset saved = mset (tc_Export ser c)" and "sc_sessions new = []"
  shows "map_of (sc_sessions (tc_Import des now saved new)) = map_of (sc_sessions c) \<and>
    tc_Count (tc_Import des now saved new) = tc_Count c"
proof -
  let ?f = "\<lambda>(k, s). (k, \<lparr>cs_state = the (ToClientSessionState des s), cs_createdAt = ts_CreatedAt s\<rparr>)"
  let ?m = "sc_sessions c" let ?x = "tc_Export ser c"
  have x: "?x = map (\<lambda>(k, e). (k, saved_state ser e)) ?m" using assms(3) by (intro export_all) auto
  have fx: "map ?f ?x = ?m"
    unfolding x map_map by (rule map_idI) (use assms(3) in \<open>auto simp: restore_saved_state\<close>)
  have set: "set saved = set ?x" using assms(4) by (metis set_mset_mset)
  have "mset (map fst saved) = mset (map fst ?m)" using assms(4) by (simp add: x image_mset.compositionality o_def case_prod_unfold)
  then have d: "distinct (map fst saved)" using assms(1) by (metis mset_eq_imp_distinct_iff)
  have fresh: "\<forall>(k, s) \<in> set saved. now - ts_CreatedAt s \<le> TLSSessionMaxAge \<and> ToClientSessionState des s \<noteq> None"
    unfolding set x using assms(3) by (auto simp: restore_saved_state)
  define r where "r = fold (import_session des now) saved new"
  have r: "sc_sessions r = map ?f saved"
    using import_all [OF fresh d, of new] by (simp add: r_def assms(5))
  have "mset (map ?f saved) = mset (map ?f ?x)" using assms(4) by simp
  then have ms: "mset (map ?f saved) = mset ?m" by (simp only: fx)
  have len: "length (map ?f saved) = length ?m" by (rule mset_eq_length [OF ms])
  have "evict_loop (sc_sessions r) ord = (sc_sessions r, ord)" for ord
    using assms(2) len r by (cases ord) (simp_all add: tc_Count_def)
  then have i: "sc_sessions (tc_Import des now saved new) = map ?f saved"
    using r by (simp add: tc_Import_def r_def [symmetric] evictIfNeeded_def)
  have "map_of (map ?f saved) = map_of ?m"
    by (rule map_of_mset [OF ms assms(1)])
  then show ?thesis using i len by (simp add: tc_Count_def)
qed

text \<open>
  Lemma. Export and Import are inverse: if the TLS library parses what it
  serialised, every session serialises and none is older than a day, then a
  new cache that imports the exported sessions, in whatever order the map is
  walked, has the same sessions with the same creation times under the same
  keys (as long as there are at most 32 of them; a 33rd is evicted).
\<close>

theorem tls_export_import:
  assumes "wf_map (sc_sessions c)" and "tc_Count c \<le> 32"
    and "\<forall>(k, e) \<in> set (sc_sessions c). now - cs_createdAt e \<le> TLSSessionMaxAge \<and>
saves ser des (cs_state e)"
    and "mset saved = mset (tc_Export ser c)"
  shows "map_of (sc_sessions (tc_Import des now saved NewPersistableSessionCache)) = map_of (sc_sessions c) \<and>
    tc_Count (tc_Import des now saved NewPersistableSessionCache) = tc_Count c"
  by (rule import_export [OF assms]) (simp add: NewPersistableSessionCache_def)

text \<open>Witness: one session of a library whose sessions are byte lists.\<close>

theorem tls_export_import_witness:
  "map_of (sc_sessions (tc_Import (\<lambda>t b. Some (t @ b)) 7
     (tc_Export (\<lambda>cs. Some (cs, []))
        (snd (tc_Put (\<lambda>_. None) 5 ''a.b:443'' (Some [1, 2, 3]) NewPersistableSessionCache)))
     NewPersistableSessionCache)) ''a.b:443'' = Some \<lparr>cs_state = [1, 2, 3], cs_createdAt = 5\<rparr>"
proof -
  let ?c = "snd (tc_Put (\<lambda>_. None) 5 ''a.b:443'' (Some [1, 2, 3]) NewPersistableSessionCache) :: byte list session_cache"
  have s: "sc_sessions ?c = [(''a.b:443'', \<lparr>cs_state = [1, 2, 3], cs_createdAt = 5\<rparr>)]"
    by (simp add: tc_Put_def NewPersistableSessionCache_def evictIfNeeded_def)
  show ?thesis
    using tls_export_import [of ?c 7 "\<lambda>cs. Some (cs, [])" "\<lambda>t b. Some (t @ b)" "tc_Export (\<lambda>cs. Some (cs, [])) ?c"]
    by (simp add: s tc_Count_def saves_def del: map_of_eq_Some_iff)
qed

section \<open>Keys of the backend\<close>

lemma first_sep_inj:
  "a @ c # x = b @ c # y \<Longrightarrow> c \<notin> set a \<Longrightarrow> c \<notin> set b \<Longrightarrow> a = b \<and> x = y"
proof (induction a arbitrary: b)
  case Nil
  then show ?case by (cases b) auto
next
  case (Cons z a)
  then show ?case by (cases b) auto
qed

lemma last_sep_inj:
  assumes "x @ c # a = y @ c # b" and "c \<notin> set a" and "c \<notin> set b"
  shows "x = y \<and> a = b"
proof -
  have "rev a @ c # rev x = rev b @ c # rev y"
    using arg_cong [OF assms(1), of rev] by simp
  then have "rev a = rev b \<and> rev x = rev y" by (rule first_sep_inj) (use assms in simp_all)
  then show ?thesis by simp
qed

definition key_part :: "string \<Rightarrow> bool" where
  "key_part s \<longleftrightarrow> CHR '':'' \<notin> set s"

definition key_names_ok :: "string \<Rightarrow> string \<Rightarrow> string \<Rightarrow> string \<Rightarrow> bool" where
  "key_names_ok sessionId preset protocol port \<longleftrightarrow>
     key_part sessionId \<and> key_part preset \<and> key_part port \<and> protocol \<in> {''h1'', ''h2'', ''h3''} \<and>
     preset \<notin> {''h1'', ''h2'', ''h3''}"

lemma session_keys_inj:
  assumes "p @ '':'' @ q @ '':'' @ h @ '':'' @ t = p' @ '':'' @ q' @ '':'' @ h' @ '':'' @ t'"
    and "key_part p" "key_part q" "key_part t" "key_part p'" "key_part q'" "key_part t'"
  shows "p = p' \<and> q = q' \<and> h = h' \<and> t = t'"
proof -
  have 1: "p = p' \<and> q @ '':'' @ h @ '':'' @ t = q' @ '':'' @ h' @ '':'' @ t'"
    using first_sep_inj [of p "CHR '':''" "q @ '':'' @ h @ '':'' @ t" p' "q' @ '':'' @ h' @ '':'' @ t'"] assms
    by (simp add: key_part_def)
  then have 2: "q = q' \<and> h @ '':'' @ t = h' @ '':'' @ t'"
    using first_sep_inj [of q "CHR '':''" "h @ '':'' @ t" q' "h' @ '':'' @ t'"] assms
    by (simp add: key_part_def)
  then show ?thesis using 1 last_sep_inj [of h "CHR '':''" t h' t'] assms by (simp add: key_part_def)
qed

lemma protocol_part: "key_names_ok i p q t \<Longrightarrow> key_part q"
  by (auto simp: key_names_ok_def key_part_def)

text \<open>
  Lemma. Two caches never share a backend key: the keys of two sessions
  are equal only if session identifier, preset, protocol, host and port all
  are, whether or not the identifiers are empty. Hosts may contain colons (an
  IPv6 literal); the other parts may not, and no preset is named like a protocol.
\<close>

theorem tls_keys_isolated:
  assumes "FormatSessionCacheKeyWithID i p q h t = FormatSessionCacheKeyWithID i' p' q' h' t'"
    and "key_names_ok i p q t" and "key_names_ok i' p' q' t'"
  shows "i = i' \<and> p = p' \<and> q = q' \<and> h = h' \<and> t = t'"
proof -
  note parts = protocol_part [OF assms(2)] protocol_part [OF assms(3)]
  have mixed: False if e: "p @ '':'' @ q @ '':'' @ h @ '':'' @ t = j @ '':'' @ p2 @ '':'' @ z"
    and ok: "key_names_ok i p q t" "key_part j" "key_names_ok i2 p2 q2 t2" for i p q h t j p2 z i2 q2 t2
  proof -
    have 1: "q @ '':'' @ h @ '':'' @ t = p2 @ '':'' @ z"
      using first_sep_inj [of p "CHR '':''" "q @ '':'' @ h @ '':'' @ t" j "p2 @ '':'' @ z"] e ok
      by (simp add: key_part_def key_names_ok_def)
    then have "q = p2"
      using first_sep_inj [of q "CHR '':''" "h @ '':'' @ t" p2 z] ok protocol_part [OF ok(1)]
      by (simp add: key_part_def key_names_ok_def)
    then show False using ok by (auto simp: key_names_ok_def)
  qed
  show ?thesis
  proof (cases "i = []"; cases "i' = []")
    assume "i = []" "i' = []"
    then show ?thesis
      using assms parts session_keys_inj [of p q h t p' q' h' t']
      by (simp add: FormatSessionCacheKeyWithID_def FormatSessionCacheKey_def key_names_ok_def)
  next
    assume "i = []" "i' \<noteq> []"
    then show ?thesis
      using assms mixed [of p q h t i' p' "q' @ '':'' @ h' @ '':'' @ t'" i i' q' t']
      by (simp add: FormatSessionCacheKeyWithID_def FormatSessionCacheKey_def key_names_ok_def)
  next
    assume "i \<noteq> []" "i' = []"
    then show ?thesis
      using assms mixed [of p' q' h' t' i p "q @ '':'' @ h @ '':'' @ t" i' i q t]
      by (simp add: FormatSessionCacheKeyWithID_def FormatSessionCacheKey_def key_names_ok_def)
  next
    assume ne: "i \<noteq> []" "i' \<noteq> []"
    then have "i = i' \<and> p @ '':'' @ q @ '':'' @ h @ '':'' @ t = p' @ '':'' @ q' @ '':'' @ h' @ '':'' @ t'"
      using assms first_sep_inj [of i "CHR '':''" "p @ '':'' @ q @ '':'' @ h @ '':'' @ t" i'
          "p' @ '':'' @ q' @ '':'' @ h' @ '':'' @ t'"]
      by (simp add: FormatSessionCacheKeyWithID_def key_names_ok_def key_part_def)
    then show ?thesis
      using assms parts session_keys_inj [of p q h t p' q' h' t'] by (simp add: key_names_ok_def)
  qed
qed

text \<open>Witness: an IPv6 host.\<close>

theorem tls_keys_isolated_witness:
  "FormatSessionCacheKeyWithID ''a'' ''chrome'' ''h2'' ''::1'' ''443'' \<noteq>
   FormatSessionCacheKeyWithID ''a'' ''chrome'' ''h3'' ''::1'' ''443''"
  using tls_keys_isolated [of "''a''" "''chrome''" "''h2''" "''::1''" "''443''" "''a''" "''chrome''" "''h3''" "''::1''" "''443''"]
  by (auto simp: key_names_ok_def key_part_def)

end
