(* ===== verification/Session_Persistence.thy ===== *)
theory Session_Persistence
  imports Session_Lifecycle TLS_Cache
begin

text \<open>
  Saving and restoring a session: \<^verbatim>\<open>Marshal\<close>, \<^verbatim>\<open>UnmarshalSessionWithOptions\<close> and the
  older file versions of \<^verbatim>\<open>session/session.go\<close>, with the records of
  \<^verbatim>\<open>session/state.go\<close>. A file is what \<^verbatim>\<open>json.Unmarshal\<close> makes of it for each of the
  types it is decoded into; its text is not modelled. The TLS session caches
  and the ECH configurations of a transport are the record \<open>caches\<close>.
\<close>

section \<open>State of the transport that is saved\<close>

record 'cs caches =
  ca_h1 :: "'cs session_cache option"
  ca_h2 :: "'cs session_cache option"
  ca_h3 :: "'cs session_cache option"
  ca_ech :: "(string, byte list option) gomap"

text \<open>
  The HTTP/3 transport is there exactly when \<open>ca_h3\<close> is not None. An ECH entry
  without a configuration records that a host has none.
\<close>

definition export_cache ::
    "('cs \<Rightarrow> (byte list \<times> byte list) option) \<Rightarrow> string \<Rightarrow> 'cs session_cache option \<Rightarrow> (string, tls_session_state) gomap" where
  "export_cache ser prefix c =
     (case c of None \<Rightarrow> [] | Some cache \<Rightarrow> map (\<lambda>(k, v). (prefix @ k, v)) (tc_Export ser cache))"

definition exportTLSSessions ::
    "('cs \<Rightarrow> (byte list \<times> byte list) option) \<Rightarrow> 'cs caches \<Rightarrow> (string, tls_session_state) gomap" where
  "exportTLSSessions ser t =
     export_cache ser ''h1:'' (ca_h1 t) @ export_cache ser ''h2:'' (ca_h2 t) @ export_cache ser ''h3:'' (ca_h3 t)"

definition protocol_sessions :: "string \<Rightarrow> (string, tls_session_state) gomap \<Rightarrow> (string, tls_session_state) gomap" where
  "protocol_sessions proto sessions =
     List.map_filter (\<lambda>(key, s).
        if length key > 3 \<and> key ! 2 = CHR '':'' \<and> take 2 key = proto then Some (drop 3 key, s) else None) sessions"

definition import_cache ::
    "(byte list \<Rightarrow> byte list \<Rightarrow> 'cs option) \<Rightarrow> time \<Rightarrow> (string, tls_session_state) gomap \<Rightarrow>
     'cs session_cache option \<Rightarrow> 'cs session_cache option" where
  "import_cache des now sessions c = (if sessions = [] then c else map_option (tc_Import des now sessions) c)"

definition importTLSSessions ::
    "(byte list \<Rightarrow> byte list \<Rightarrow> 'cs option) \<Rightarrow> time \<Rightarrow> (string, tls_session_state) gomap \<Rightarrow> 'cs caches \<Rightarrow> 'cs caches" where
  "importTLSSessions des now sessions t =
     t\<lparr>ca_h1 := import_cache des now (protocol_sessions ''h1'' sessions) (ca_h1 t),
       ca_h2 := import_cache des now (protocol_sessions ''h2'' sessions) (ca_h2 t),
       ca_h3 := import_cache des now (protocol_sessions ''h3'' sessions) (ca_h3 t)\<rparr>"

definition GetECHConfigCache :: "'cs caches \<Rightarrow> (string, byte list) gomap" where
  "GetECHConfigCache t = List.map_filter (\<lambda>(k, v). map_option (\<lambda>c. (k, c)) v) (ca_ech t)"

definition SetECHConfigCache :: "(string, byte list) gomap \<Rightarrow> 'cs caches \<Rightarrow> 'cs caches" where
  "SetECHConfigCache configs t = t\<lparr>ca_ech := fold (\<lambda>(k, v). AList.update k (Some v)) configs (ca_ech t)\<rparr>"

definition exportECHConfigs :: "'cs caches \<Rightarrow> (string, string) gomap" where
  "exportECHConfigs t =
     (if ca_h3 t = None then [] else map (\<lambda>(host, config). (host, b64_encode config)) (GetECHConfigCache t))"

definition importECHConfigs :: "(string, string) gomap \<Rightarrow> 'cs caches \<Rightarrow> 'cs caches" where
  "importECHConfigs configs t =
     (if configs = [] \<or> ca_h3 t = None then t
      else SetECHConfigCache
             (List.map_filter (\<lambda>(host, b64). map_option (\<lambda>c. (host, c)) (b64_decode b64)) configs) t)"

section \<open>Files\<close>

record tls_verify_state =
  vs_PeerCertificate :: bool
  vs_Connection :: bool
  vs_RootCAs :: bool

record session_state =
  ss_Version :: int
  ss_CreatedAt :: time
  ss_UpdatedAt :: time
  ss_Config :: "session_config option"
  ss_Cookies :: "(string, cookie_state list) gomap"
  ss_TLSSessions :: "(string, tls_session_state) gomap"
  ss_ECHConfigs :: "(string, string) gomap"
  ss_TLSVerify :: "tls_verify_state option"

record session_state_v4 =
  s4_Version :: int
  s4_CreatedAt :: time
  s4_UpdatedAt :: time
  s4_Config :: "session_config option"
  s4_Cookies :: "cookie_state list"
  s4_TLSSessions :: "(string, tls_session_state) gomap"
  s4_ECHConfigs :: "(string, string) gomap"

record session_state_v3 =
  s3_Version :: int
  s3_Preset :: string
  s3_ForceHTTP3 :: bool
  s3_ECHConfigDomain :: string
  s3_CreatedAt :: time
  s3_UpdatedAt :: time
  s3_Cookies :: "cookie_state list"
  s3_TLSSessions :: "(string, tls_session_state) gomap"
  s3_ECHConfigs :: "(string, string) gomap"
  s3_Proxy :: string
  s3_TCPProxy :: string
  s3_UDPProxy :: string

record session_file =
  sf_head :: "(int \<times> tls_verify_state option) option"
  sf_v3 :: "session_state_v3 option"
  sf_v4 :: "session_state_v4 option"
  sf_v5 :: "session_state option"

definition SessionStateVersion :: int where
  "SessionStateVersion = 5"

text \<open>
  Encoding a state: the hooks of the configuration have no JSON form. The older
  types do not fit, since their cookies are a list and not an object.
\<close>

definition json_config :: "session_config \<Rightarrow> session_config" where
  "json_config c = c\<lparr>cf_TLSVerifyPeerCertificate := None, cf_TLSVerifyConnection := None, cf_TLSRootCAs := None\<rparr>"

definition json_state :: "session_state \<Rightarrow> session_file" where
  "json_state st = \<lparr>sf_head = Some (ss_Version st, ss_TLSVerify st), sf_v3 = None, sf_v4 = None,
     sf_v5 = Some (st\<lparr>ss_Config := map_option json_config (ss_Config st)\<rparr>)\<rparr>"

definition tlsVerifyStateOf :: "session_config \<Rightarrow> tls_verify_state option" where
  "tlsVerifyStateOf c =
     (let v = \<lparr>vs_PeerCertificate = (cf_TLSVerifyPeerCertificate c \<noteq> None),
               vs_Connection = (cf_TLSVerifyConnection c \<noteq> None), vs_RootCAs = (cf_TLSRootCAs c \<noteq> None)\<rparr>
      in if \<not> vs_PeerCertificate v \<and> \<not> vs_Connection v \<and> \<not> vs_RootCAs v then None else Some v)"

definition Marshal ::
    "('cs \<Rightarrow> (byte list \<times> byte list) option) \<Rightarrow> time \<Rightarrow> session \<Rightarrow> 'cs caches \<Rightarrow> session_file" where
  "Marshal ser now s t =
     json_state
       \<lparr>ss_Version = SessionStateVersion, ss_CreatedAt = se_CreatedAt s, ss_UpdatedAt = now,
        ss_Config = Some (se_Config s), ss_Cookies = jar_Export now (se_cookies s),
        ss_TLSSessions = exportTLSSessions ser t, ss_ECHConfigs = exportECHConfigs t,
        ss_TLSVerify = tlsVerifyStateOf (se_Config s)\<rparr>"

section \<open>Restoring\<close>

record load_options =
  lo_TLSVerifyPeerCertificate :: "ref option"
  lo_TLSVerifyConnection :: "ref option"
  lo_TLSRootCAs :: "ref option"

definition applyTo :: "load_options option \<Rightarrow> session_config \<Rightarrow> session_config" where
  "applyTo opts c =
     (case opts of
        None \<Rightarrow> c
      | Some o' \<Rightarrow>
          c\<lparr>cf_TLSVerifyPeerCertificate :=
               (if lo_TLSVerifyPeerCertificate o' \<noteq> None then lo_TLSVerifyPeerCertificate o' else cf_TLSVerifyPeerCertificate c),
            cf_TLSVerifyConnection :=
               (if lo_TLSVerifyConnection o' \<noteq> None then lo_TLSVerifyConnection o' else cf_TLSVerifyConnection c),
            cf_TLSRootCAs := (if lo_TLSRootCAs o' \<noteq> None then lo_TLSRootCAs o' else cf_TLSRootCAs c)\<rparr>)"

definition missingFrom :: "tls_verify_state option \<Rightarrow> load_options option \<Rightarrow> string list" where
  "missingFrom v opts =
     (case v of
        None \<Rightarrow> []
      | Some v' \<Rightarrow>
          (if vs_PeerCertificate v' \<and> Option.bind opts lo_TLSVerifyPeerCertificate = None then [''TLSVerifyPeerCertificate''] else []) @
          (if vs_Connection v' \<and> Option.bind opts lo_TLSVerifyConnection = None then [''TLSVerifyConnection''] else []) @
          (if vs_RootCAs v' \<and> Option.bind opts lo_TLSRootCAs = None then [''TLSRootCAs''] else []))"

text \<open>
  What a load needs from its surroundings: the identifier and key log of the
  constructor, the clock, the TLS library's parser, and the caches of the new
  transport.
\<close>

record 'cs load_env =
  le_gen :: string
  le_openLog :: "string \<Rightarrow> bool"
  le_now :: time
  le_des :: "byte list \<Rightarrow> byte list \<Rightarrow> 'cs option"
  le_caches :: "session_config \<Rightarrow> 'cs caches"

definition build_session ::
    "'cs load_env \<Rightarrow> session_config \<Rightarrow> time \<Rightarrow> (cookie_jar \<Rightarrow> cookie_jar) \<Rightarrow> (string, string) gomap \<Rightarrow>
     (string, tls_session_state) gomap \<Rightarrow> session \<times> 'cs caches" where
  "build_session le config createdAt importCookies ech tls =
     (let s = NewSession (le_gen le) (le_openLog le) (le_now le) [] (Some config)
      in (s\<lparr>se_CreatedAt := createdAt, se_cookies := importCookies (se_cookies s)\<rparr>,
          importTLSSessions (le_des le) (le_now le) tls (importECHConfigs ech (le_caches le config))))"

definition config_or_default :: "session_config option \<Rightarrow> session_config" where
  "config_or_default c = (case c of Some c' \<Rightarrow> c' | None \<Rightarrow> zero_config\<lparr>cf_Preset := ''chrome-latest''\<rparr>)"

definition unmarshalSessionV3 ::
    "'cs load_env \<Rightarrow> session_file \<Rightarrow> load_options option \<Rightarrow> string + session \<times> 'cs caches" where
  "unmarshalSessionV3 le f opts =
     (case sf_v3 f of
        None \<Rightarrow> Inl ''failed to parse v3 session data''
      | Some st \<Rightarrow>
          Inr (build_session le
                 (applyTo opts (zero_config\<lparr>cf_Preset := s3_Preset st, cf_ForceHTTP3 := s3_ForceHTTP3 st,
                    cf_ECHConfigDomain := s3_ECHConfigDomain st, cf_Proxy := s3_Proxy st,
                    cf_TCPProxy := s3_TCPProxy st, cf_UDPProxy := s3_UDPProxy st\<rparr>))
                 (s3_CreatedAt st) (jar_ImportV4 (le_now le) (s3_Cookies st)) (s3_ECHConfigs st) (s3_TLSSessions st)))"

definition unmarshalSessionV4 ::
    "'cs load_env \<Rightarrow> session_file \<Rightarrow> load_options option \<Rightarrow> string + session \<times> 'cs caches" where
  "unmarshalSessionV4 le f opts =
     (case sf_v4 f of
        None \<Rightarrow> Inl ''failed to parse v4 session data''
      | Some st \<Rightarrow>
          Inr (build_session le (applyTo opts (config_or_default (s4_Config st))) (s4_CreatedAt st)
                 (jar_ImportV4 (le_now le) (s4_Cookies st)) (s4_ECHConfigs st) (s4_TLSSessions st)))"

definition UnmarshalSessionWithOptions ::
    "'cs load_env \<Rightarrow> session_file \<Rightarrow> load_options option \<Rightarrow> string + session \<times> 'cs caches" where
  "UnmarshalSessionWithOptions le f opts =
     (case sf_head f of
        None \<Rightarrow> Inl ''failed to parse session data''
      | Some (version, verify) \<Rightarrow>
          if version > SessionStateVersion then Inl ''session file version is newer than supported version''
          else if missingFrom verify opts \<noteq> [] then Inl ''session was saved with certificate verification configured''
          else if version \<le> 3 then unmarshalSessionV3 le f opts
          else if version = 4 then unmarshalSessionV4 le f opts
          else (case sf_v5 f of
                  None \<Rightarrow> Inl ''failed to parse session data''
                | Some st \<Rightarrow>
                    Inr (build_session le (applyTo opts (config_or_default (ss_Config st))) (ss_CreatedAt st)
                           (jar_Import (le_now le) (ss_Cookies st)) (ss_ECHConfigs st) (ss_TLSSessions st))))"

definition UnmarshalSession :: "'cs load_env \<Rightarrow> session_file \<Rightarrow> string + session \<times> 'cs caches" where
  "UnmarshalSession le f = UnmarshalSessionWithOptions le f None"

text \<open>\<^verbatim>\<open>ValidateSessionFile\<close> on the contents of the file; None is no error.\<close>

definition ValidateSessionFile :: "session_file \<Rightarrow> string option" where
  "ValidateSessionFile f =
     (case sf_head f of
        None \<Rightarrow> Some ''invalid JSON''
      | Some (version, verify) \<Rightarrow>
          if version > SessionStateVersion then Some ''session file version is newer than supported version''
          else if version \<le> 3 then
            (case sf_v3 f of
               None \<Rightarrow> Some ''invalid JSON''
             | Some st \<Rightarrow> if s3_Preset st = [] then Some ''missing preset in session file'' else None)
          else if version = 4 then
            (case sf_v4 f of
               None \<Rightarrow> Some ''invalid JSON''
             | Some st \<Rightarrow> if s4_Config st = None \<or> cf_Preset (the (s4_Config st)) = []
                          then Some ''missing preset in session file'' else None)
          else
            (case sf_v5 f of
               None \<Rightarrow> Some ''invalid JSON''
             | Some st \<Rightarrow> if ss_Config st = None \<or> cf_Preset (the (ss_Config st)) = []
                          then Some ''missing preset in session file'' else None))"

section \<open>TLS sessions and ECH configurations survive\<close>

lemma protocol_sessions_append [simp]:
  "protocol_sessions p (xs @ ys) = protocol_sessions p xs @ protocol_sessions p ys"
  by (induction xs) (auto simp: protocol_sessions_def map_filter_simps split: option.split)

lemma protocol_sessions_prefixed:
  assumes "p \<in> {''h1'', ''h2'', ''h3''}" and "q \<in> {''h1'', ''h2'', ''h3''}" and "list_all (\<lambda>(k, v). k \<noteq> []) xs"
  shows "protocol_sessions p (map (\<lambda>(k, v). (q @ '':'' @ k, v)) xs) = (if p = q then xs else [])"
  using assms(3)
proof (induction xs)
  case (Cons x xs)
  obtain k v where x: "x = (k, v)" by (cases x)
  have k: "0 < length k" using Cons.prems by (simp add: x)
  then show ?case using Cons assms(1,2) by (auto simp: protocol_sessions_def map_filter_simps x)
qed (simp add: protocol_sessions_def map_filter_simps)

definition cache_savable ::
    "('cs \<Rightarrow> (byte list \<times> byte list) option) \<Rightarrow> (byte list \<Rightarrow> byte list \<Rightarrow> 'cs option) \<Rightarrow> time \<Rightarrow> 'cs session_cache option \<Rightarrow> bool" where
  "cache_savable ser des now c =
     (case c of
        None \<Rightarrow> True
      | Some c' \<Rightarrow> wf_map (sc_sessions c') \<and> tc_Count c' \<le> 32 \<and>
          list_all (\<lambda>(k, e). k \<noteq> [] \<and> now - cs_createdAt e \<le> TLSSessionMaxAge \<and> saves ser des (cs_state e)) (sc_sessions c'))"

definition cache_new :: "'cs session_cache option \<Rightarrow> bool" where
  "cache_new c = (case c of None \<Rightarrow> False | Some c' \<Rightarrow> sc_sessions c' = [])"

definition cache_restored :: "'cs session_cache option \<Rightarrow> 'cs session_cache option \<Rightarrow> bool" where
  "cache_restored c r =
     (case c of None \<Rightarrow> True | Some c' \<Rightarrow> (\<exists>r'. r = Some r' \<and> map_of (sc_sessions r') = map_of (sc_sessions c')))"

lemma export_keys: "cache_savable ser des now (Some c) \<Longrightarrow> list_all (\<lambda>(k, v). k \<noteq> []) (tc_Export ser c)"
  by (force simp: cache_savable_def tc_Export_def list_all_iff map_filter_def split: option.splits)

lemma export_cache_sessions:
  assumes "cache_savable ser des now c" and "p \<in> {''h1'', ''h2'', ''h3''}" and "q \<in> {''h1'', ''h2'', ''h3''}"
  shows "protocol_sessions p (export_cache ser (q @ '':'') c) =
    (if p = q then (case c of None \<Rightarrow> [] | Some c' \<Rightarrow> tc_Export ser c') else [])"
proof (cases c)
  case None
  then show ?thesis by (simp add: export_cache_def protocol_sessions_def map_filter_simps)
next
  case (Some c')
  then show ?thesis
    using protocol_sessions_prefixed [OF assms(2,3) export_keys [of ser des now c']] assms(1)
    by (simp add: export_cache_def)
qed

lemma exported_sessions:
  assumes "cache_savable ser des now (ca_h1 t)" "cache_savable ser des now (ca_h2 t)" "cache_savable ser des now (ca_h3 t)"
  shows "protocol_sessions ''h1'' (exportTLSSessions ser t) = (case ca_h1 t of None \<Rightarrow> [] | Some c \<Rightarrow> tc_Export ser c)"
    and "protocol_sessions ''h2'' (exportTLSSessions ser t) = (case ca_h2 t of None \<Rightarrow> [] | Some c \<Rightarrow> tc_Export ser c)"
    and "protocol_sessions ''h3'' (exportTLSSessions ser t) = (case ca_h3 t of None \<Rightarrow> [] | Some c \<Rightarrow> tc_Export ser c)"
  using export_cache_sessions [OF assms(1), of _ "''h1''"] export_cache_sessions [OF assms(2), of _ "''h2''"]
    export_cache_sessions [OF assms(3), of _ "''h3''"]
  by (simp_all add: exportTLSSessions_def)

lemma import_cache_restored:
  assumes "cache_savable ser des now c" and "cache_new n"
  shows "cache_restored c (import_cache des now (case c of None \<Rightarrow> [] | Some c' \<Rightarrow> tc_Export ser c') n)"
proof (cases c)
  case (Some c')
  obtain n' where n: "n = Some n'" "sc_sessions n' = []" using assms(2) by (auto simp: cache_new_def split: option.splits)
  have s: "wf_map (sc_sessions c')" "tc_Count c' \<le> 32"
    "\<forall>(k, e) \<in> set (sc_sessions c'). now - cs_createdAt e \<le> TLSSessionMaxAge \<and> saves ser des (cs_state e)"
    using assms(1) Some by (auto simp: cache_savable_def list_all_iff)
  have m: "map_of (sc_sessions (tc_Import des now (tc_Export ser c') n')) = map_of (sc_sessions c')"
    using import_export [OF s refl n(2)] by simp
  have "tc_Export ser c' = [] \<Longrightarrow> sc_sessions c' = []"
    using export_all [of c' ser des] s(3) by (force simp: case_prod_unfold)
  then show ?thesis using m n by (auto simp: cache_restored_def Some import_cache_def)
qed (simp add: cache_restored_def)

lemma map_filter_decode_encode:
  "List.map_filter (\<lambda>(host, b64). map_option (\<lambda>c. (host, c)) (b64_decode b64)) (map (\<lambda>(host, config). (host, b64_encode config)) xs) = xs"
  by (induction xs) (auto simp: map_filter_simps)

lemma ech_after_set:
  "map_of (fold (\<lambda>(k, v). AList.update k (Some v)) xs m) k = (case map_of (rev xs) k of None \<Rightarrow> map_of m k | Some v \<Rightarrow> Some (Some v))"
  by (induction xs arbitrary: m) (auto simp: map_add_def split: option.split)

lemma wf_GetECHConfigCache: "wf_map (ca_ech t) \<Longrightarrow> wf_map (GetECHConfigCache t)"
proof -
  have "fst ` set (List.map_filter (\<lambda>(k, v). map_option (\<lambda>c. (k, c)) v) m) \<subseteq> fst ` set m \<and>
      (distinct (map fst m) \<longrightarrow> distinct (map fst (List.map_filter (\<lambda>(k, v). map_option (\<lambda>c. (k, c)) v) m)))"
    for m :: "(string \<times> byte list option) list"
    by (induction m) (force simp: map_filter_simps split: option.split)+
  then show "wf_map (ca_ech t) \<Longrightarrow> ?thesis" by (simp add: GetECHConfigCache_def)
qed

lemma map_of_ech_restored:
  assumes "wf_map (ca_ech t)" and "ca_h3 t \<noteq> None" and "ca_h3 n \<noteq> None" and "ca_ech n = []"
  shows "map_of (ca_ech (importECHConfigs (exportECHConfigs t) n)) k =
    map_option Some (map_of (GetECHConfigCache t) k)"
proof (cases "GetECHConfigCache t = []")
  case True
  then show ?thesis using assms by (simp add: importECHConfigs_def exportECHConfigs_def)
next
  case False
  have "map_of (rev (GetECHConfigCache t)) k = map_of (GetECHConfigCache t) k"
    by (rule map_of_mset [OF _ wf_GetECHConfigCache [OF assms(1)], THEN fun_cong]) simp
  then show ?thesis using assms False
    by (simp add: importECHConfigs_def exportECHConfigs_def map_filter_decode_encode SetECHConfigCache_def
        ech_after_set split: option.split)
qed

section \<open>Loading what was saved\<close>

lemma load_saved:
  assumes "UnmarshalSessionWithOptions le (Marshal ser t s ca) opts = Inr (s', ca')"
  shows "missingFrom (tlsVerifyStateOf (se_Config s)) opts = []"
    and "(s', ca') = build_session le (applyTo opts (json_config (se_Config s))) (se_CreatedAt s)
      (jar_Import (le_now le) (jar_Export t (se_cookies s))) (exportECHConfigs ca) (exportTLSSessions ser ca)"
  using assms by (auto simp: UnmarshalSessionWithOptions_def Marshal_def json_state_def SessionStateVersion_def
      config_or_default_def split: if_splits)

lemma hooks_not_missing:
  assumes "missingFrom (tlsVerifyStateOf c) opts = []"
  shows "cf_TLSVerifyPeerCertificate c \<noteq> None \<Longrightarrow> Option.bind opts lo_TLSVerifyPeerCertificate \<noteq> None"
    and "cf_TLSVerifyConnection c \<noteq> None \<Longrightarrow> Option.bind opts lo_TLSVerifyConnection \<noteq> None"
    and "cf_TLSRootCAs c \<noteq> None \<Longrightarrow> Option.bind opts lo_TLSRootCAs \<noteq> None"
  using assms by (auto simp: missingFrom_def tlsVerifyStateOf_def Let_def split: if_splits option.splits)

lemma applied_hooks:
  "cf_TLSVerifyPeerCertificate (applyTo opts (json_config c)) = Option.bind opts lo_TLSVerifyPeerCertificate"
  "cf_TLSVerifyConnection (applyTo opts (json_config c)) = Option.bind opts lo_TLSVerifyConnection"
  "cf_TLSRootCAs (applyTo opts (json_config c)) = Option.bind opts lo_TLSRootCAs"
  "json_config (applyTo opts (json_config c)) = json_config c"
  by (cases opts; simp add: applyTo_def json_config_def)+

lemma built_session:
  "(s', ca') = build_session le config created imp ech tls \<Longrightarrow>
   se_Config s' = config \<and> se_CreatedAt s' = created \<and> se_cookies s' = imp NewCookieJar \<and> se_active s' \<and>
   set (transport_settings config) \<subseteq> set (se_cmds s') \<and>
   ca' = importTLSSessions (le_des le) (le_now le) tls (importECHConfigs ech (le_caches le config))"
  by (auto simp: build_session_def NewSession_def NewSessionWithOptions_def Let_def)

lemma import_keeps_caches [simp]:
  "ca_h1 (importECHConfigs e n) = ca_h1 n" "ca_h2 (importECHConfigs e n) = ca_h2 n" "ca_h3 (importECHConfigs e n) = ca_h3 n"
  "ca_ech (importTLSSessions des now ss n) = ca_ech n"
  by (simp_all add: importECHConfigs_def SetECHConfigCache_def importTLSSessions_def)

text \<open>
  Property C13. Loading fails closed: a session that was saved with certificate
  verification hooks is only restored when the caller supplies each of them
  again, and the transport of the restored session is given those hooks.
\<close>

theorem restore_fails_closed:
  assumes "UnmarshalSessionWithOptions le (Marshal ser t s ca) opts = Inr (s', ca')"
    and "cf_TLSVerifyPeerCertificate (se_Config s) \<noteq> None \<or> cf_TLSVerifyConnection (se_Config s) \<noteq> None \<or>
      cf_TLSRootCAs (se_Config s) \<noteq> None"
  shows "\<exists>o'. opts = Some o' \<and>
    TSetTLSVerify \<lparr>tv_VerifyPeerCertificate = lo_TLSVerifyPeerCertificate o',
      tv_VerifyConnection = lo_TLSVerifyConnection o', tv_RootCAs = lo_TLSRootCAs o'\<rparr> \<in> set (se_cmds s') \<and>
    (cf_TLSVerifyPeerCertificate (se_Config s) \<noteq> None \<longrightarrow> lo_TLSVerifyPeerCertificate o' \<noteq> None) \<and>
    (cf_TLSVerifyConnection (se_Config s) \<noteq> None \<longrightarrow> lo_TLSVerifyConnection o' \<noteq> None) \<and>
    (cf_TLSRootCAs (se_Config s) \<noteq> None \<longrightarrow> lo_TLSRootCAs o' \<noteq> None)"
proof -
  note h = hooks_not_missing [OF load_saved(1) [OF assms(1)]]
  obtain o' where o': "opts = Some o'" using h assms(2) by (cases opts) auto
  note b = built_session [OF load_saved(2) [OF assms(1)]]
  have "TSetTLSVerify \<lparr>tv_VerifyPeerCertificate = lo_TLSVerifyPeerCertificate o',
      tv_VerifyConnection = lo_TLSVerifyConnection o', tv_RootCAs = lo_TLSRootCAs o'\<rparr>
      \<in> set (transport_settings (applyTo opts (json_config (se_Config s))))"
    using h assms(2) by (auto simp: transport_settings_def applied_hooks o')
  then show ?thesis using b h o' by auto
qed


definition demo_load :: "byte list load_env" where
  "demo_load =
     \<lparr>le_gen = ''id'', le_openLog = (\<lambda>f. False), le_now = 8, le_des = (\<lambda>a b. Some (a @ b)),
      le_caches = (\<lambda>cf. \<lparr>ca_h1 = Some NewPersistableSessionCache, ca_h2 = Some NewPersistableSessionCache,
                        ca_h3 = Some NewPersistableSessionCache, ca_ech = []\<rparr>)\<rparr>"

definition demo_caches :: "byte list caches" where
  "demo_caches =
     \<lparr>ca_h1 = None, ca_h2 = None,
      ca_h3 = Some (snd (tc_Put (\<lambda>_. None) 5 ''a.b:443'' (Some [1, 2, 3]) NewPersistableSessionCache)),
      ca_ech = [(''a.b'', Some [7])]\<rparr>"

definition demo_hooks :: load_options where
  "demo_hooks = \<lparr>lo_TLSVerifyPeerCertificate = Some 1, lo_TLSVerifyConnection = None, lo_TLSRootCAs = None\<rparr>"

definition demo_saved :: session where
  "demo_saved = demo_session\<lparr>se_Config := demo_config\<lparr>cf_TLSVerifyPeerCertificate := Some 1\<rparr>\<rparr>"

abbreviation demo_ser :: "byte list \<Rightarrow> (byte list \<times> byte list) option" where
  "demo_ser \<equiv> \<lambda>cs. Some (cs, [])"

lemma demo_cache_sessions:
  "sc_sessions (the (ca_h3 demo_caches)) = [(''a.b:443'', \<lparr>cs_state = [1, 2, 3], cs_createdAt = 5\<rparr>)]"
  by (simp add: demo_caches_def tc_Put_def NewPersistableSessionCache_def evictIfNeeded_def)

lemma demo_missing: "missingFrom (tlsVerifyStateOf (se_Config demo_saved)) (Some demo_hooks) = []"
  by (simp add: demo_saved_def demo_hooks_def demo_config_def missingFrom_def tlsVerifyStateOf_def)

lemma demo_refused: "UnmarshalSession demo_load (Marshal demo_ser 7 demo_saved demo_caches) =
    Inl ''session was saved with certificate verification configured''"
  by (simp add: UnmarshalSession_def UnmarshalSessionWithOptions_def Marshal_def json_state_def SessionStateVersion_def
      demo_saved_def demo_config_def missingFrom_def tlsVerifyStateOf_def)


theorem restore_fails_closed_witness:
  "\<exists>s' ca'. UnmarshalSessionWithOptions demo_load (Marshal demo_ser 7 demo_saved demo_caches) (Some demo_hooks) = Inr (s', ca') \<and>
     TSetTLSVerify \<lparr>tv_VerifyPeerCertificate = Some 1, tv_VerifyConnection = None, tv_RootCAs = None\<rparr> \<in> set (se_cmds s')"
proof -
  obtain s' ca' where u: "UnmarshalSessionWithOptions demo_load (Marshal demo_ser 7 demo_saved demo_caches) (Some demo_hooks) = Inr (s', ca')"
    using demo_missing by (cases "build_session demo_load (applyTo (Some demo_hooks) (json_config (se_Config demo_saved)))
      (se_CreatedAt demo_saved) (jar_Import (le_now demo_load) (jar_Export 7 (se_cookies demo_saved)))
      (exportECHConfigs demo_caches) (exportTLSSessions demo_ser demo_caches)")
      (simp add: UnmarshalSessionWithOptions_def Marshal_def json_state_def SessionStateVersion_def config_or_default_def)
  have "cf_TLSVerifyPeerCertificate (se_Config demo_saved) \<noteq> None" by (simp add: demo_saved_def)
  then have "TSetTLSVerify \<lparr>tv_VerifyPeerCertificate = Some 1, tv_VerifyConnection = None, tv_RootCAs = None\<rparr> \<in> set (se_cmds s')"
    using restore_fails_closed [OF u] by (simp add: demo_hooks_def)
  then show ?thesis using u by blast
qed

end
