(* ===== verification/Client_Cookies.thy ===== *)
theory Client_Cookies
  imports Cookie_Rules Go_HTTP
begin

text \<open>
  \<^verbatim>\<open>client/cookie.go\<close> and \<^verbatim>\<open>client/cookiejar.go\<close>: the cookie type and the jar of the
  low-level client. The jar files cookies in lists under the normalised domain
  and looks a host up under itself and each of its parent domains.

  \<^verbatim>\<open>time.Parse\<close> is the
  argument \<open>tp\<close>, \<^verbatim>\<open>time.Now()\<close> the argument \<open>now\<close>; the jar's mutex makes each
  operation one function. A nil \<^verbatim>\<open>*Cookie\<close> is \<^const>\<open>None\<close>.
\<close>

section \<open>Cookies\<close>

record cookie =
  ck_Name :: string
  ck_Value :: string
  ck_Domain :: string
  ck_Path :: string
  ck_Expires :: time
  ck_MaxAge :: int
  ck_Secure :: bool
  ck_HttpOnly :: bool
  ck_SameSite :: string
  ck_Raw :: string

definition ck_IsExpired :: "time \<Rightarrow> cookie \<Rightarrow> bool" where
  "ck_IsExpired now c =
     (if ck_MaxAge c < 0 then True
      else if is_zero_time (ck_Expires c) then False
      else now > ck_Expires c)"

definition ck_String :: "cookie \<Rightarrow> string" where
  "ck_String c = ck_Name c @ ''='' @ ck_Value c"

text \<open>\<^verbatim>\<open>if idx := strings.LastIndex(host, ":"); idx != -1 { host = host[:idx] }\<close>\<close>

definition strip_port :: "string \<Rightarrow> string" where
  "strip_port host = (case last_index_byte host (CHR '':'') of None \<Rightarrow> host | Some idx \<Rightarrow> take idx host)"

definition matchesDomain :: "cookie \<Rightarrow> string \<Rightarrow> bool" where
  "matchesDomain c host0 =
     (let host = to_lower (strip_port host0); domain = to_lower (ck_Domain c) in
      if host = domain then True
      else if has_prefix domain ''.'' then
        (if host = drop 1 domain then True else if has_suffix host domain then True else False)
      else False)"

definition matchesPath :: "cookie \<Rightarrow> string \<Rightarrow> bool" where
  "matchesPath c path0 =
     (if ck_Path c = [] \<or> ck_Path c = ''/'' then True
      else
        (let path = (if path0 = [] then ''/'' else path0) in
         if has_prefix path (ck_Path c) then
           length path = length (ck_Path c) \<or> path ! length (ck_Path c) = CHR ''/'' \<or>
           ck_Path c ! (length (ck_Path c) - 1) = CHR ''/''
         else False))"

definition ck_Matches :: "cookie \<Rightarrow> url \<Rightarrow> bool" where
  "ck_Matches c u =
     (if \<not> matchesDomain c (url_Host u) then False
      else if \<not> matchesPath c (url_Path u) then False
      else if ck_Secure c \<and> url_Scheme u \<noteq> ''https'' then False
      else True)"

text \<open>The loop over the layouts of \<^verbatim>\<open>parseExpires\<close>.\<close>

definition expires_formats :: "string list" where
  "expires_formats =
     [''Mon, 02 Jan 2006 15:04:05 MST'', ''Mon, 02 Jan 2006 15:04:05 -0700'',
      ''Mon, 02-Jan-2006 15:04:05 MST'', ''Mon, 02 Jan 2006 15:04:05 MST'',
      ''Monday, 02-Jan-06 15:04:05 MST'', ''Mon Jan 2 15:04:05 2006'']"

fun try_formats :: "(string \<Rightarrow> string \<Rightarrow> time option) \<Rightarrow> string list \<Rightarrow> string \<Rightarrow> time option" where
  "try_formats tp [] s = None"
| "try_formats tp (f # fs) s = (case tp f s of Some t \<Rightarrow> Some t | None \<Rightarrow> try_formats tp fs s)"

definition parseExpires :: "(string \<Rightarrow> string \<Rightarrow> time option) \<Rightarrow> string \<Rightarrow> time option" where
  "parseExpires tp s = try_formats tp expires_formats (trim_space s)"

text \<open>\<^verbatim>\<open>parseInt\<close>: \<open>None\<close> in the loop is its \<^verbatim>\<open>return 0\<close>; the accumulator wraps at 64 bits.\<close>

fun parseInt_digits :: "int \<Rightarrow> string \<Rightarrow> int option" where
  "parseInt_digits n [] = Some n"
| "parseInt_digits n (c # cs) =
     (if \<not> is_digit c then None else parseInt_digits (int64 (n * 10 + int (digit_val c))) cs)"

definition parseInt :: "string \<Rightarrow> int" where
  "parseInt s0 =
     (let s = trim_space s0 in
      if s = [] then 0
      else
        (let negative = (hd s = CHR ''-''); ds = (if negative then tl s else s) in
         case parseInt_digits 0 ds of
           None \<Rightarrow> 0
         | Some n \<Rightarrow> if negative then int64 (- n) else n))"

definition parse_attribute ::
    "(string \<Rightarrow> string \<Rightarrow> time option) \<Rightarrow> string \<Rightarrow> cookie \<Rightarrow> cookie" where
  "parse_attribute tp part cookie =
     (let attr = trim_space part in
      if attr = [] then cookie
      else
        (let (name, value) =
           (case index_byte attr (CHR ''='') of
              Some eq \<Rightarrow> (to_lower (trim_space (take eq attr)), trim_space (drop (eq + 1) attr))
            | None \<Rightarrow> (to_lower attr, []))
         in if name = ''domain'' then
              (if value \<noteq> [] then
                 (let v = to_lower value in
                  cookie\<lparr>ck_Domain := (if has_prefix v ''.'' then v else ''.'' @ v)\<rparr>)
               else cookie)
            else if name = ''path'' then (if value \<noteq> [] then cookie\<lparr>ck_Path := value\<rparr> else cookie)
            else if name = ''expires'' then
              (case parseExpires tp value of Some t \<Rightarrow> cookie\<lparr>ck_Expires := t\<rparr> | None \<Rightarrow> cookie)
            else if name = ''max-age'' then
              (let maxAge = parseInt value in
               if maxAge \<noteq> 0 \<or> value = ''0'' then cookie\<lparr>ck_MaxAge := maxAge\<rparr> else cookie)
            else if name = ''secure'' then cookie\<lparr>ck_Secure := True\<rparr>
            else if name = ''httponly'' then cookie\<lparr>ck_HttpOnly := True\<rparr>
            else if name = ''samesite'' then cookie\<lparr>ck_SameSite := value\<rparr>
            else cookie))"

definition ParseSetCookie ::
    "(string \<Rightarrow> string \<Rightarrow> time option) \<Rightarrow> time \<Rightarrow> string \<Rightarrow> url option \<Rightarrow> cookie option" where
  "ParseSetCookie tp now header requestURL =
     (if header = [] then None
      else
        (let cookie0 = \<lparr>ck_Name = [], ck_Value = [],
               ck_Domain = (case requestURL of None \<Rightarrow> [] | Some u \<Rightarrow> strip_port (url_Host u)),
               ck_Path = ''/'', ck_Expires = 0, ck_MaxAge = 0, ck_Secure = False, ck_HttpOnly = False,
               ck_SameSite = [], ck_Raw = header\<rparr>;
             parts = split_on (CHR '';'') header
         in case parts of
              [] \<Rightarrow> None
            | part0 # attrs \<Rightarrow>
                (let nameValue = trim_space part0 in
                 case index_byte nameValue (CHR ''='') of
                   None \<Rightarrow> None
                 | Some eq \<Rightarrow>
                     (let cookie1 = cookie0\<lparr>ck_Name := trim_space (take eq nameValue),
                                           ck_Value := trim_space (drop (eq + 1) nameValue)\<rparr>;
                          cookie2 = fold (parse_attribute tp) attrs cookie1
                      in Some (if ck_MaxAge cookie2 > 0
                               then cookie2\<lparr>ck_Expires := now + int64 (ck_MaxAge cookie2 * second)\<rparr>
                               else cookie2)))))"

section \<open>The jar\<close>

record client_jar =
  cj_cookies :: "(string, cookie list) gomap"

definition cj_New :: client_jar where
  "cj_New = \<lparr>cj_cookies = []\<rparr>"

definition domainKey :: "string \<Rightarrow> string" where
  "domainKey dmn = trim_prefix (to_lower dmn) ''.''"

text \<open>\<open>j.cookies[domain]\<close>, nil when the key is missing.\<close>

definition cj_at :: "client_jar \<Rightarrow> string \<Rightarrow> cookie list" where
  "cj_at j dmn = (case map_of (cj_cookies j) dmn of None \<Rightarrow> [] | Some cs \<Rightarrow> cs)"

definition cj_put :: "time \<Rightarrow> cookie option \<Rightarrow> client_jar \<Rightarrow> client_jar" where
  "cj_put now co j =
     (case co of
        None \<Rightarrow> j
      | Some cookie \<Rightarrow>
          if ck_Name cookie = [] then j
          else
            (let dmn = domainKey (ck_Domain cookie);
                 filtered = filter (\<lambda>c. ck_Name c \<noteq> ck_Name cookie \<or> ck_Path c \<noteq> ck_Path cookie) (cj_at j dmn);
                 filtered' = (if \<not> ck_IsExpired now cookie then filtered @ [cookie] else filtered)
             in j\<lparr>cj_cookies := AList.update dmn filtered' (cj_cookies j)\<rparr>))"

definition SetCookies :: "time \<Rightarrow> cookie option list \<Rightarrow> client_jar \<Rightarrow> client_jar" where
  "SetCookies now cookies j = (if cookies = [] then j else fold (cj_put now) cookies j)"

definition SetCookiesFromHeaders ::
    "(string \<Rightarrow> string \<Rightarrow> time option) \<Rightarrow> time \<Rightarrow> url option \<Rightarrow> (string, string) gomap \<Rightarrow> client_jar \<Rightarrow>
     client_jar" where
  "SetCookiesFromHeaders tp now u headers j =
     fold (\<lambda>(key, value) j.
        if to_lower key = ''set-cookie'' then
          (case ParseSetCookie tp now value u of None \<Rightarrow> j | Some c \<Rightarrow> SetCookies now [Some c] j)
        else j) headers j"

definition SetCookiesFromHeaderList ::
    "(string \<Rightarrow> string \<Rightarrow> time option) \<Rightarrow> time \<Rightarrow> url option \<Rightarrow> string list \<Rightarrow> client_jar \<Rightarrow> client_jar" where
  "SetCookiesFromHeaderList tp now u setCookieHeaders j =
     SetCookies now
       (map Some (List.map_filter (\<lambda>header. ParseSetCookie tp now header u) setCookieHeaders)) j"

text \<open>The loop over the parent domains of \<^verbatim>\<open>getMatchingDomains\<close>; \<open>parts\<close> is \<open>parts[i:]\<close>.\<close>

fun parent_domains :: "string list \<Rightarrow> string list" where
  "parent_domains [] = []"
| "parent_domains (p # ps) = join ''.'' (p # ps) # parent_domains ps"

definition getMatchingDomains :: "client_jar \<Rightarrow> string \<Rightarrow> string list" where
  "getMatchingDomains j host =
     filter (\<lambda>d. map_of (cj_cookies j) d \<noteq> None)
       (host # parent_domains (tl (split_on (CHR ''.'') host)))"

definition path_less :: "cookie \<Rightarrow> cookie \<Rightarrow> bool" where
  "path_less a b \<longleftrightarrow> length (ck_Path a) > length (ck_Path b)"

definition cj_Cookies :: "time \<Rightarrow> url \<Rightarrow> client_jar \<Rightarrow> cookie list" where
  "cj_Cookies now u j =
     (let host = to_lower (strip_port (url_Host u)) in
      sort_slice path_less
        (concat (map (\<lambda>dmn.
           filter (\<lambda>cookie. \<not> ck_MaxAge cookie < 0 \<and>
                     \<not> (\<not> is_zero_time (ck_Expires cookie) \<and> now > ck_Expires cookie) \<and>
                     ck_Matches cookie u)
             (cj_at j dmn))
           (getMatchingDomains j host))))"

definition CookieHeader :: "time \<Rightarrow> url \<Rightarrow> client_jar \<Rightarrow> string" where
  "CookieHeader now u j =
     (let cookies = cj_Cookies now u j in
      if cookies = [] then [] else join ''; '' (map ck_String cookies))"

definition cj_Clear :: "client_jar \<Rightarrow> client_jar" where
  "cj_Clear j = j\<lparr>cj_cookies := []\<rparr>"

definition cj_ClearDomain :: "string \<Rightarrow> client_jar \<Rightarrow> client_jar" where
  "cj_ClearDomain dmn j = j\<lparr>cj_cookies := AList.delete (domainKey dmn) (cj_cookies j)\<rparr>"

definition cj_ClearExpired :: "time \<Rightarrow> client_jar \<Rightarrow> client_jar" where
  "cj_ClearExpired now j =
     j\<lparr>cj_cookies := filter (\<lambda>(d, cs). length cs > 0)
        (map (\<lambda>(d, cs). (d, filter (\<lambda>c. ck_MaxAge c \<ge> 0 \<and>
              (is_zero_time (ck_Expires c) \<or> now < ck_Expires c)) cs)) (cj_cookies j))\<rparr>"

definition cj_Count :: "client_jar \<Rightarrow> nat" where
  "cj_Count j = sum_list (map (\<lambda>(_, cs). length cs) (cj_cookies j))"

definition cj_AllCookies :: "client_jar \<Rightarrow> (string, cookie list) gomap" where
  "cj_AllCookies j = cj_cookies j"

definition cj_SetCookie :: "time \<Rightarrow> url \<Rightarrow> string \<Rightarrow> string \<Rightarrow> client_jar \<Rightarrow> client_jar" where
  "cj_SetCookie now u name value j =
     SetCookies now [Some \<lparr>ck_Name = name, ck_Value = value, ck_Domain = url_Host u, ck_Path = ''/'',
        ck_Expires = 0, ck_MaxAge = 0, ck_Secure = False, ck_HttpOnly = False, ck_SameSite = [],
        ck_Raw = []\<rparr>] j"


section \<open>Matching\<close>

lemma matchesPath_rfc:
  assumes "has_prefix req ''/''" and "ck_Path c \<noteq> []"
  shows "matchesPath c req \<longleftrightarrow> rfc_path_match req (ck_Path c)"
proof (cases "ck_Path c = ''/''")
  case True
  then show ?thesis
    using assms by (auto simp: matchesPath_def rfc_path_match_def has_prefix_iff has_suffix_def)
next
  case False
  let ?p = "ck_Path c"
  have ne: "req \<noteq> []" using assms(1) by (auto simp: has_prefix_iff)
  have m: "matchesPath c req \<longleftrightarrow> has_prefix req ?p \<and>
      (length req = length ?p \<or> req ! length ?p = CHR ''/'' \<or> has_suffix ?p ''/'')"
    using False assms(2) ne
    by (auto simp: matchesPath_def has_suffix_def Cons_nth_drop_Suc [symmetric] Suc_le_eq)
  have iff: "rfc_path_match (?p @ rest) ?p \<longleftrightarrow> length (?p @ rest) = length ?p \<or>
      (?p @ rest) ! length ?p = CHR ''/'' \<or> has_suffix ?p ''/''" for rest
    by (cases rest) (auto simp: rfc_path_match_def)
  show ?thesis
  proof (cases "has_prefix req ?p")
    case True
    then obtain rest where "req = ?p @ rest" by (auto simp: has_prefix_iff)
    with True iff show ?thesis unfolding m by simp
  next
    case False
    then show ?thesis unfolding m using rfc_path_match_prefix by blast
  qed
qed

interpretation client_path: cookie_path_matcher "\<lambda>req p. matchesPath (c\<lparr>ck_Path := p\<rparr>) req" for c
  by unfold_locales (simp add: matchesPath_rfc)

definition plain_host :: "string \<Rightarrow> bool" where
  "plain_host h \<longleftrightarrow> CHR '':'' \<notin> set h \<and> to_lower h = h"

definition lower_domain :: "string \<Rightarrow> bool" where
  "lower_domain d \<longleftrightarrow> to_lower d = d"

lemma lower_char_dot [simp]: "lower_char CHR ''.'' = CHR ''.''"
  by code_simp

lemma to_lower_Cons [simp]: "to_lower (c # s) = lower_char c # to_lower s"
  by (simp add: to_lower_def)

lemma strip_port_plain: "CHR '':'' \<notin> set h \<Longrightarrow> strip_port h = h"
  by (simp add: strip_port_def last_index_byte_None [THEN iffD2])

lemma matchesDomain_iff:
  "matchesDomain c host \<longleftrightarrow>
     (let h = to_lower (strip_port host); d = to_lower (ck_Domain c) in
      h = d \<or> (\<exists>t. d = CHR ''.'' # t \<and> rfc_domain_match h t))"
  by (auto simp: matchesDomain_def rfc_domain_match_suffix has_prefix_iff Let_def)

interpretation client_domain:
  cookie_domain_matcher "\<lambda>d h. matchesDomain (c\<lparr>ck_Domain := d\<rparr>) h" plain_host lower_domain for c
proof
  fix host d
  assume "plain_host host" "lower_domain d"
  then show "matchesDomain (c\<lparr>ck_Domain := CHR ''.'' # d\<rparr>) host \<longleftrightarrow> rfc_domain_match host d"
    by (auto simp: matchesDomain_iff plain_host_def lower_domain_def strip_port_plain rfc_domain_match_def Let_def)
next
  fix host d
  assume "plain_host host" "lower_domain d" "\<not> has_prefix d ''.''"
  then show "matchesDomain (c\<lparr>ck_Domain := d\<rparr>) host \<longleftrightarrow> host = d"
    by (auto simp: matchesDomain_iff plain_host_def lower_domain_def strip_port_plain has_prefix_iff Let_def)
qed

section \<open>The domains a host is looked up under\<close>

lemma join_split_parts: "join ''.'' (split_on (CHR ''.'') s) = s"
  by (rule join_split_on)

lemma split_on_eq_Cons:
  "split_on c s = p # q # ps \<longleftrightarrow> (\<exists>r. s = p @ c # r \<and> c \<notin> set p \<and> split_on c r = q # ps)"
proof
  assume e: "split_on c s = p # q # ps"
  then have p: "c \<notin> set p" using split_on_no_sep [of p c s] by simp
  have "s = join [c] (p # q # ps)" using join_split_on [of c s] e by simp
  then have s: "s = p @ c # join [c] (q # ps)" by simp
  then have "split_on c (join [c] (q # ps)) = q # ps"
    using e split_on_append [OF p] by simp
  with s p show "\<exists>r. s = p @ c # r \<and> c \<notin> set p \<and> split_on c r = q # ps" by blast
qed (auto simp: split_on_append)

lemma parent_domains_iff:
  "d \<in> set (parent_domains (tl (split_on (CHR ''.'') host))) \<longleftrightarrow> (\<exists>labels. host = labels @ CHR ''.'' # d)"
proof (induction "split_on (CHR ''.'') host" arbitrary: host)
  case Nil
  then show ?case by (metis split_on_neq_Nil)
next
  case (Cons p ps)
  show ?case
  proof (cases ps)
    case Nil
    then have "CHR ''.'' \<notin> set host"
      using Cons.hyps(2) join_split_on [of "CHR ''.''" host] split_on_no_sep [of p "CHR ''.''" host]
      by (metis join.simps(2) list.set_intros(1))
    then show ?thesis using Nil Cons.hyps(2) [symmetric] by auto
  next
    case (Cons q qs)
    then obtain r where r: "host = p @ CHR ''.'' # r" "CHR ''.'' \<notin> set p" "split_on (CHR ''.'') r = q # qs"
      using Cons.hyps(2) split_on_eq_Cons [of "CHR ''.''" host p q qs] by metis
    have step: "(\<exists>labels. host = labels @ CHR ''.'' # d) \<longleftrightarrow> d = r \<or> (\<exists>labels. r = labels @ CHR ''.'' # d)"
    proof
      assume "\<exists>labels. host = labels @ CHR ''.'' # d"
      then obtain labels where "p @ CHR ''.'' # r = labels @ CHR ''.'' # d" using r(1) by auto
      then show "d = r \<or> (\<exists>labels. r = labels @ CHR ''.'' # d)"
        using r(2) by (auto simp: append_eq_append_conv2 Cons_eq_append_conv append_eq_Cons_conv)
    next
      assume "d = r \<or> (\<exists>labels. r = labels @ CHR ''.'' # d)"
      then show "\<exists>labels. host = labels @ CHR ''.'' # d"
        using r(1) by (metis append.assoc append_Cons)
    qed
    have "join ''.'' (q # qs) = r" using r(3) join_split_parts [of r] by simp
    moreover have "tl (split_on (CHR ''.'') host) = q # qs" using Cons.hyps(2) Cons by (metis list.sel(3))
    ultimately show ?thesis
      using Cons.hyps(1) [of r] r(3) Cons step by auto
  qed
qed

lemma matching_domains_iff:
  "d \<in> set (getMatchingDomains j host) \<longleftrightarrow> map_of (cj_cookies j) d \<noteq> None \<and> rfc_domain_match host d"
  unfolding getMatchingDomains_def rfc_domain_match_def
  using parent_domains_iff [of d host] by auto

text \<open>A cookie that matches a host is filed under a domain that the host is looked up under.\<close>

lemma matchesDomain_key:
  "matchesDomain c host \<Longrightarrow> rfc_domain_match (to_lower (strip_port host)) (domainKey (ck_Domain c))"
  by (auto simp: matchesDomain_iff domainKey_def trim_prefix_def has_prefix_iff rfc_domain_match_def Let_def)

section \<open>Reachable jars\<close>

definition cj_ok :: "client_jar \<Rightarrow> bool" where
  "cj_ok j \<longleftrightarrow> wf_map (cj_cookies j) \<and>
     (\<forall>d cs. map_of (cj_cookies j) d = Some cs \<longrightarrow>
        (\<forall>c \<in> set cs. domainKey (ck_Domain c) = d) \<and> distinct (map (\<lambda>c. (ck_Name c, ck_Path c)) cs))"

inductive cj_reachable :: "client_jar \<Rightarrow> bool" where
  cj_new: "cj_reachable cj_New"
| cj_set: "cj_reachable j \<Longrightarrow> cj_reachable (SetCookies now cs j)"
| cj_clear: "cj_reachable j \<Longrightarrow> cj_reachable (cj_Clear j)"
| cj_clear_domain: "cj_reachable j \<Longrightarrow> cj_reachable (cj_ClearDomain d j)"
| cj_clear_expired: "cj_reachable j \<Longrightarrow> cj_reachable (cj_ClearExpired now j)"

lemma cj_ok_at:
  assumes "cj_ok j"
  shows "(\<forall>c \<in> set (cj_at j d). domainKey (ck_Domain c) = d) \<and>
    distinct (map (\<lambda>c. (ck_Name c, ck_Path c)) (cj_at j d))"
  using assms by (auto simp: cj_ok_def cj_at_def split: option.split)

lemma cj_ok_put: "cj_ok j \<Longrightarrow> cj_ok (cj_put now co j)"
proof -
  assume ok: "cj_ok j"
  have d: "distinct (map (\<lambda>c. (ck_Name c, ck_Path c))
      (filter (\<lambda>c. ck_Name c \<noteq> n \<or> ck_Path c \<noteq> p) (cj_at j d)))" for n p d
    using cj_ok_at [OF ok, of d] distinct_map_filter by blast
  show ?thesis
    using ok d cj_ok_at [OF ok]
    by (auto simp: cj_put_def cj_ok_def Let_def simp del: map_of_eq_Some_iff
        split: option.split if_splits)
qed

lemma cj_ok_fold: "cj_ok j \<Longrightarrow> cj_ok (fold (cj_put now) cs j)"
  by (induction cs arbitrary: j) (auto intro: cj_ok_put)

lemma map_of_prune:
  "wf_map m \<Longrightarrow> map_of (filter (\<lambda>(d, cs). length cs > 0) (map (\<lambda>(d, cs). (d, filter P cs)) m)) d =
     (case map_of m d of None \<Rightarrow> None | Some cs \<Rightarrow> if filter P cs = [] then None else Some (filter P cs))"
  by (induction m) (auto split: option.splits intro: rev_image_eqI)

lemma cj_reachable_ok: "cj_reachable j \<Longrightarrow> cj_ok j"
proof (induction rule: cj_reachable.induct)
  case (cj_clear_expired j now)
  have "wf_map (filter (\<lambda>(d, cs). length cs > 0) (map (\<lambda>(d, cs). (d, filter P cs)) m))"
    if "wf_map m" for P and m :: "(string, cookie list) gomap"
    using that by (intro distinct_map_filter) (simp add: comp_def case_prod_unfold)
  then show ?case
    using cj_clear_expired.IH
    by (auto simp: cj_ok_def cj_ClearExpired_def map_of_prune distinct_map_filter
        simp del: map_of_eq_Some_iff length_greater_0_conv split: option.splits if_splits)
next
  case (cj_set j now cs)
  then show ?case by (simp add: SetCookies_def cj_ok_fold)
next
  case (cj_clear_domain j d)
  then show ?case
    by (auto simp: cj_ok_def cj_ClearDomain_def simp del: map_of_eq_Some_iff split: if_splits)
qed (simp_all add: cj_ok_def cj_New_def cj_Clear_def)

definition ck_live :: "time \<Rightarrow> cookie \<Rightarrow> bool" where
  "ck_live now c \<longleftrightarrow> 0 \<le> ck_MaxAge c \<and> (is_zero_time (ck_Expires c) \<or> now \<le> ck_Expires c)"

definition cj_all :: "client_jar \<Rightarrow> cookie list" where
  "cj_all j = concat (map snd (cj_cookies j))"

lemma set_cj_Cookies:
  assumes "cj_ok j"
  shows "set (cj_Cookies now u j) = {c \<in> set (cj_all j). ck_live now c \<and> ck_Matches c u}"
proof -
  let ?h = "to_lower (strip_port (url_Host u))"
  have wf: "wf_map (cj_cookies j)" using assms by (simp add: cj_ok_def)
  have look: "c \<in> set (cj_Cookies now u j) \<longleftrightarrow>
      (\<exists>d \<in> set (getMatchingDomains j ?h). c \<in> set (cj_at j d)) \<and> ck_live now c \<and> ck_Matches c u" for c
    by (auto simp: cj_Cookies_def ck_live_def Let_def)
  have all: "c \<in> set (cj_all j) \<longleftrightarrow> (\<exists>d. map_of (cj_cookies j) d \<noteq> None \<and> c \<in> set (cj_at j d))" for c
  proof -
    have "c \<in> set (cj_all j) \<longleftrightarrow> (\<exists>d cs. (d, cs) \<in> set (cj_cookies j) \<and> c \<in> set cs)"
      by (force simp: cj_all_def)
    then show ?thesis unfolding wf_map_in_iff [OF wf] cj_at_def by (metis not_Some_eq option.simps(5))
  qed
  have key: "rfc_domain_match ?h d" if "c \<in> set (cj_at j d)" "ck_Matches c u" for c d
    using cj_ok_at [OF assms, of d] that matchesDomain_key [of c "url_Host u"]
    by (auto simp: ck_Matches_def split: if_splits)
  show ?thesis
  proof (rule set_eqI)
    show "c \<in> set (cj_Cookies now u j) \<longleftrightarrow> c \<in> {c \<in> set (cj_all j). ck_live now c \<and> ck_Matches c u}" for c
      unfolding look mem_Collect_eq all Bex_def matching_domains_iff using key [of c] by blast
  qed
qed

interpretation path_order: slice_less path_less
  by unfold_locales (auto simp: path_less_def)

section \<open>Properties\<close>

text \<open>
  Property C37. The client jar's lookup under the host and its parent domains
  misses nothing and adds nothing: for every jar the operations can build, the
  cookies it returns are exactly the stored ones that are live and match the
  URL, longest path first.
\<close>

theorem client_lookup_complete:
  assumes "cj_reachable j"
  shows "set (cj_Cookies now u j) = {c \<in> set (cj_all j). ck_live now c \<and> ck_Matches c u} \<and>
    sorted_wrt (\<lambda>a b. length (ck_Path a) \<ge> length (ck_Path b)) (cj_Cookies now u j)"
proof
  show "sorted_wrt (\<lambda>a b. length (ck_Path a) \<ge> length (ck_Path b)) (cj_Cookies now u j)"
    unfolding cj_Cookies_def Let_def using path_order.sorted_sort_slice
    by (rule sorted_wrt_mono_rel [rotated]) (simp add: path_less_def)
qed (rule set_cj_Cookies [OF cj_reachable_ok [OF assms]])

definition page :: "string \<Rightarrow> url" where
  "page host = \<lparr>url_Scheme = ''https'', url_User = None, url_Host = host, url_Path = ''/app/x'', url_RawPath = [],
     url_RawQuery = [], url_Fragment = [], url_RawFragment = []\<rparr>"

definition page_jar :: client_jar where
  "page_jar = SetCookies 5 (map (\<lambda>l. ParseSetCookie (\<lambda>_ _. None) 5 l (Some (page ''www.example.com'')))
     [''a=1; Domain=Example.com'', ''b=2; Path=/app'', ''c=3; Domain=other.org'']) cj_New"

theorem client_lookup_complete_witness:
  "map ck_String (cj_Cookies 9 (page ''www.example.com:443'') page_jar) = [''b=2'', ''a=1''] \<and>
   set (cj_Cookies 9 (page ''www.example.com:443'') page_jar) =
     {c \<in> set (cj_all page_jar). ck_live 9 c \<and> ck_Matches c (page ''www.example.com:443'')}"
proof
  have "cj_reachable page_jar" unfolding page_jar_def by (rule cj_set [OF cj_new])
  then show "set (cj_Cookies 9 (page ''www.example.com:443'') page_jar) =
     {c \<in> set (cj_all page_jar). ck_live 9 c \<and> ck_Matches c (page ''www.example.com:443'')}"
    using client_lookup_complete by blast
qed code_simp

text \<open>
  Lemma. The client jar takes cookies for any domain: \<^verbatim>\<open>ParseSetCookie\<close> and
  \<^verbatim>\<open>SetCookies\<close> never compare the \<open>Domain\<close> attribute with the host that sent it, so a
  response from \<open>evil.org\<close> sets a cookie that is sent to \<open>bank.example\<close>.
\<close>

theorem client_foreign_domain_accepted:
  "CookieHeader 9 (page ''bank.example'')
     (SetCookiesFromHeaderList (\<lambda>_ _. None) 5 (Some (page ''evil.org''))
        [''sid=fixed; Domain=bank.example''] cj_New) = ''sid=fixed''"
  by code_simp

text \<open>
  Lemma. \<open>Max-Age=0\<close> does not delete a cookie: the parser keeps 0, which
  everywhere else means that no Max-Age was given, so the replacement is stored
  and sent as a session cookie. A negative Max-Age does delete.
\<close>

theorem client_max_age_zero_kept:
  "let jar = SetCookiesFromHeaderList (\<lambda>_ _. None) 5 (Some (page ''example.com'')) [''sid=1''] cj_New
   in CookieHeader 9 (page ''example.com'')
        (SetCookiesFromHeaderList (\<lambda>_ _. None) 6 (Some (page ''example.com'')) [''sid=; Max-Age=0''] jar) = ''sid='' \<and>
      CookieHeader 9 (page ''example.com'')
        (SetCookiesFromHeaderList (\<lambda>_ _. None) 6 (Some (page ''example.com'')) [''sid=; Max-Age=-1''] jar) = []"
  by code_simp


end
