(* ===== verification/Client_Auth.thy ===== *)
theory Client_Auth
  imports Go_Encoding Go_HTTP
begin

text \<open>
  \<^verbatim>\<open>client/auth.go\<close>: Basic, Bearer and Digest authentication. The interface
  \<^verbatim>\<open>Auth\<close> is the locale \<open>auth_scheme\<close>, interpreted by the three schemes; a value of
  the interface is one of them, with the state of the scheme. MD5 is the
  argument \<open>md5\<close>, its result in hexadecimal, and the random client nonce the
  argument \<open>cnonce\<close>.
\<close>

section \<open>Requests\<close>

record http_request =
  hr_Method :: string
  hr_URL :: url
  hr_RequestURI :: string
  hr_Header :: headers
  hr_Body :: "byte list"

section \<open>Basic and Bearer\<close>

record basic_auth =
  ba_Username :: string
  ba_Password :: string

definition basic_Apply :: "basic_auth \<Rightarrow> http_request \<Rightarrow> basic_auth \<times> http_request" where
  "basic_Apply a req =
     (let auth = ba_Username a @ '':'' @ ba_Password a;
          encoded = b64_encode (bytes_of auth)
      in (a, req\<lparr>hr_Header := header_Set ''Authorization'' (''Basic '' @ encoded) (hr_Header req)\<rparr>))"

definition basic_HandleChallenge :: "int \<Rightarrow> headers \<Rightarrow> basic_auth \<Rightarrow> (string + bool) \<times> basic_auth" where
  "basic_HandleChallenge status h a = (Inr False, a)"

record bearer_auth =
  be_Token :: string

definition bearer_Apply :: "bearer_auth \<Rightarrow> http_request \<Rightarrow> bearer_auth \<times> http_request" where
  "bearer_Apply a req = (a, req\<lparr>hr_Header := header_Set ''Authorization'' (''Bearer '' @ be_Token a) (hr_Header req)\<rparr>)"

definition bearer_HandleChallenge :: "int \<Rightarrow> headers \<Rightarrow> bearer_auth \<Rightarrow> (string + bool) \<times> bearer_auth" where
  "bearer_HandleChallenge status h a = (Inr False, a)"

section \<open>Digest\<close>

record digest_auth =
  da_Username :: string
  da_Password :: string
  da_realm :: string
  da_nonce :: string
  da_qop :: string
  da_opaque :: string
  da_algorithm :: string
  da_nc :: nat

definition NewDigestAuth :: "string \<Rightarrow> string \<Rightarrow> digest_auth" where
  "NewDigestAuth username password =
     \<lparr>da_Username = username, da_Password = password, da_realm = [], da_nonce = [], da_qop = [], da_opaque = [],
      da_algorithm = [], da_nc = 0\<rparr>"

definition challenge_param :: "string \<Rightarrow> digest_auth \<Rightarrow> digest_auth" where
  "challenge_param part0 a =
     (let part = trim_space part0 in
      case index_byte part (CHR ''='') of
        None \<Rightarrow> a
      | Some idx \<Rightarrow>
          (let key = to_lower (trim_space (take idx part));
               value = trim_fn (\<lambda>c. c = CHR 0x22) (trim_space (drop (idx + 1) part))
           in if key = ''realm'' then a\<lparr>da_realm := value\<rparr>
              else if key = ''nonce'' then a\<lparr>da_nonce := value\<rparr>
              else if key = ''qop'' then a\<lparr>da_qop := value\<rparr>
              else if key = ''opaque'' then a\<lparr>da_opaque := value\<rparr>
              else if key = ''algorithm'' then a\<lparr>da_algorithm := value\<rparr>
              else a))"

definition parseChallenge :: "string \<Rightarrow> digest_auth \<Rightarrow> string option \<times> digest_auth" where
  "parseChallenge wwwAuth a =
     (let params = trim_prefix (trim_prefix wwwAuth ''Digest '') ''digest '';
          a' = fold challenge_param (split_on (CHR '','') params) a
      in (if da_nonce a' = [] then Some ''digest auth: missing nonce in challenge'' else None, a'))"

definition digest_HandleChallenge :: "int \<Rightarrow> headers \<Rightarrow> digest_auth \<Rightarrow> (string + bool) \<times> digest_auth" where
  "digest_HandleChallenge status h a =
     (if status \<noteq> 401 then (Inr False, a)
      else
        (let wwwAuth = header_Get h ''WWW-Authenticate'' in
         if wwwAuth = [] \<or> \<not> has_prefix (to_lower wwwAuth) ''digest '' then (Inr False, a)
         else (case parseChallenge wwwAuth a of
                 (Some err, a') \<Rightarrow> (Inl err, a')
               | (None, a') \<Rightarrow> (Inr True, a'))))"

definition quoted :: "string \<Rightarrow> string" where
  "quoted s = [CHR 0x22] @ s @ [CHR 0x22]"

definition digest_response ::
    "(string \<Rightarrow> string) \<Rightarrow> digest_auth \<Rightarrow> string \<Rightarrow> string \<Rightarrow> string \<Rightarrow> string \<Rightarrow> string" where
  "digest_response md5 a nc cnonce method uri =
     (let ha1 = md5 (da_Username a @ '':'' @ da_realm a @ '':'' @ da_Password a);
          ha2 = md5 (method @ '':'' @ uri)
      in if da_qop a = ''auth'' \<or> da_qop a = ''auth-int''
         then md5 (ha1 @ '':'' @ da_nonce a @ '':'' @ nc @ '':'' @ cnonce @ '':'' @ da_qop a @ '':'' @ ha2)
         else md5 (ha1 @ '':'' @ da_nonce a @ '':'' @ ha2))"

definition applyDigestHeader :: "(string \<Rightarrow> string) \<Rightarrow> string \<Rightarrow> digest_auth \<Rightarrow> http_request \<Rightarrow> digest_auth \<times> http_request" where
  "applyDigestHeader md5 cnonce a0 req =
     (let a = a0\<lparr>da_nc := da_nc a0 + 1\<rparr>;
          nc = show_08x (da_nc a);
          uri = hr_RequestURI req;
          method = (if hr_Method req = [] then ''GET'' else hr_Method req);
          response = digest_response md5 a nc cnonce method uri;
          auth = ''Digest username='' @ quoted (da_Username a) @ '', realm='' @ quoted (da_realm a) @
                 '', nonce='' @ quoted (da_nonce a) @ '', uri='' @ quoted uri @ '', response='' @ quoted response;
          auth' = (if da_qop a \<noteq> [] then auth @ '', qop='' @ da_qop a @ '', nc='' @ nc @ '', cnonce='' @ quoted cnonce else auth);
          auth'' = (if da_opaque a \<noteq> [] then auth' @ '', opaque='' @ quoted (da_opaque a) else auth');
          auth''' = (if da_algorithm a \<noteq> [] then auth'' @ '', algorithm='' @ da_algorithm a else auth'')
      in (a, req\<lparr>hr_Header := header_Set ''Authorization'' auth''' (hr_Header req)\<rparr>))"

definition digest_Apply :: "(string \<Rightarrow> string) \<Rightarrow> string \<Rightarrow> digest_auth \<Rightarrow> http_request \<Rightarrow> digest_auth \<times> http_request" where
  "digest_Apply md5 cnonce a req = (if da_nonce a = [] then (a, req) else applyDigestHeader md5 cnonce a req)"

section \<open>The interface\<close>

text \<open>
  What the client relies on: applying a scheme touches no header but
  Authorization, a challenge is only taken up on 401, and one that is not taken
  up leaves the scheme as it is.
\<close>

locale auth_scheme =
  fixes apply_to :: "'a \<Rightarrow> http_request \<Rightarrow> 'a \<times> http_request"
    and handle :: "int \<Rightarrow> headers \<Rightarrow> 'a \<Rightarrow> (string + bool) \<times> 'a"
  assumes apply_frame: "apply_to a req = (a', req') \<Longrightarrow>
      req' = req\<lparr>hr_Header := hr_Header req'\<rparr> \<and>
      (\<forall>k. k \<noteq> ''Authorization'' \<longrightarrow> map_of (hr_Header req') k = map_of (hr_Header req) k)"
    and handle_401: "handle status h a = (Inr True, a') \<Longrightarrow> status = 401"
    and handle_frame: "handle status h a = (Inr False, a') \<Longrightarrow> a' = a"
begin

lemma apply_header: "k \<noteq> ''Authorization'' \<Longrightarrow> map_of (hr_Header (snd (apply_to a req))) k = map_of (hr_Header req) k"
  using apply_frame [of a req "fst (apply_to a req)" "snd (apply_to a req)"] by simp

lemma apply_same: "hr_Method (snd (apply_to a req)) = hr_Method req" "hr_URL (snd (apply_to a req)) = hr_URL req"
  "hr_Body (snd (apply_to a req)) = hr_Body req" "hr_RequestURI (snd (apply_to a req)) = hr_RequestURI req"
  using apply_frame [of a req "fst (apply_to a req)" "snd (apply_to a req)"]
  by (metis http_request.ext_inject http_request.surjective http_request.update_convs(4) prod.collapse)+

lemma handle_quiet: "status \<noteq> 401 \<Longrightarrow> handle status h a \<noteq> (Inr True, a')"
  using handle_401 by blast

end

lemma canonical_authorization [simp]: "CanonicalHeaderKey ''Authorization'' = ''Authorization''"
  by code_simp

interpretation basic: auth_scheme basic_Apply basic_HandleChallenge
  by unfold_locales (auto simp: basic_Apply_def basic_HandleChallenge_def map_of_header_Set Let_def)

interpretation bearer: auth_scheme bearer_Apply bearer_HandleChallenge
  by unfold_locales (auto simp: bearer_Apply_def bearer_HandleChallenge_def map_of_header_Set)

interpretation digest: auth_scheme "digest_Apply md5 cnonce" digest_HandleChallenge
  by unfold_locales
    (auto simp: digest_Apply_def applyDigestHeader_def digest_HandleChallenge_def map_of_header_Set Let_def
      split: if_splits prod.splits option.splits)

text \<open>A value of the interface.\<close>

datatype auth = BasicAuth basic_auth | BearerAuth bearer_auth | DigestAuth digest_auth

definition Apply :: "(string \<Rightarrow> string) \<Rightarrow> string \<Rightarrow> auth \<Rightarrow> http_request \<Rightarrow> auth \<times> http_request" where
  "Apply md5 cnonce a req =
     (case a of
        BasicAuth b \<Rightarrow> map_prod BasicAuth id (basic_Apply b req)
      | BearerAuth b \<Rightarrow> map_prod BearerAuth id (bearer_Apply b req)
      | DigestAuth d \<Rightarrow> map_prod DigestAuth id (digest_Apply md5 cnonce d req))"

definition HandleChallenge :: "int \<Rightarrow> headers \<Rightarrow> auth \<Rightarrow> (string + bool) \<times> auth" where
  "HandleChallenge status h a =
     (case a of
        BasicAuth b \<Rightarrow> map_prod id BasicAuth (basic_HandleChallenge status h b)
      | BearerAuth b \<Rightarrow> map_prod id BearerAuth (bearer_HandleChallenge status h b)
      | DigestAuth d \<Rightarrow> map_prod id DigestAuth (digest_HandleChallenge status h d))"

interpretation any_auth: auth_scheme "Apply md5 cnonce" HandleChallenge
proof
  fix a a' req req'
  assume "Apply md5 cnonce a req = (a', req')"
  then show "req' = req\<lparr>hr_Header := hr_Header req'\<rparr> \<and>
      (\<forall>k. k \<noteq> ''Authorization'' \<longrightarrow> map_of (hr_Header req') k = map_of (hr_Header req) k)"
    using basic.apply_frame bearer.apply_frame digest.apply_frame
    by (cases a) (auto simp: Apply_def map_prod_def split: prod.splits)
next
  fix status h and a a' :: auth
  assume "HandleChallenge status h a = (Inr True, a')"
  then show "status = 401" using basic.handle_401 bearer.handle_401 digest.handle_401
    by (cases a) (auto simp: HandleChallenge_def map_prod_def split: prod.splits)
next
  fix status h and a a' :: auth
  assume "HandleChallenge status h a = (Inr False, a')"
  then show "a' = a" using basic.handle_frame bearer.handle_frame digest.handle_frame
    by (cases a) (auto simp: HandleChallenge_def map_prod_def split: prod.splits)
qed

section \<open>Basic credentials\<close>

text \<open>How a server reads Basic credentials (RFC 7617): the user name ends at the first colon.\<close>

definition basic_credentials :: "string \<Rightarrow> (string \<times> string) option" where
  "basic_credentials value =
     (if has_prefix value ''Basic '' then
        (case b64_decode (drop 6 value) of
           None \<Rightarrow> None
         | Some bs \<Rightarrow>
             (case index_byte (string_of bs) (CHR '':'') of
                None \<Rightarrow> None
              | Some i \<Rightarrow> Some (take i (string_of bs), drop (i + 1) (string_of bs))))
      else None)"

text \<open>
  Lemma. A server reads back from the header that \<^verbatim>\<open>BasicAuth.Apply\<close> sets the user
  name and the password, whatever bytes the password has, as long as the user
  name has no colon; every other header of the request is as before.
\<close>

theorem basic_auth_roundtrip:
  assumes "CHR '':'' \<notin> set (ba_Username a)" and "basic_Apply a req = (a', req')"
  shows "basic_credentials (header_Get (hr_Header req') ''Authorization'') = Some (ba_Username a, ba_Password a) \<and>
    (\<forall>k. k \<noteq> ''Authorization'' \<longrightarrow> map_of (hr_Header req') k = map_of (hr_Header req) k)"
proof -
  let ?s = "ba_Username a @ '':'' @ ba_Password a"
  have h: "header_Get (hr_Header req') ''Authorization'' = ''Basic '' @ b64_encode (bytes_of ?s)"
    using assms(2) by (auto simp: basic_Apply_def header_Get_def map_of_header_Set Let_def)
  have "index_byte ?s (CHR '':'') = Some (length (ba_Username a))"
    using index_byte_append [OF assms(1), of "ba_Password a"] by simp
  then have "basic_credentials (''Basic '' @ b64_encode (bytes_of ?s)) = Some (ba_Username a, ba_Password a)"
    by (simp add: basic_credentials_def has_prefix_def)
  then show ?thesis using basic.apply_frame [OF assms(2)] unfolding h by blast
qed

definition empty_request :: http_request where
  "empty_request = \<lparr>hr_Method = ''GET'',
     hr_URL = \<lparr>url_Scheme = ''https'', url_User = None, url_Host = ''a.test'', url_Path = ''/'', url_RawPath = [],
       url_RawQuery = [], url_Fragment = [], url_RawFragment = []\<rparr>,
     hr_RequestURI = ''/'', hr_Header = [], hr_Body = []\<rparr>"

theorem basic_auth_roundtrip_witness:
  "basic_credentials (header_Get (hr_Header (snd (basic_Apply \<lparr>ba_Username = ''u'', ba_Password = ''p:q''\<rparr> empty_request))) ''Authorization'') =
     Some (''u'', ''p:q'')"
  using basic_auth_roundtrip [of "\<lparr>ba_Username = ''u'', ba_Password = ''p:q''\<rparr>" empty_request
      "fst (basic_Apply \<lparr>ba_Username = ''u'', ba_Password = ''p:q''\<rparr> empty_request)"
      "snd (basic_Apply \<lparr>ba_Username = ''u'', ba_Password = ''p:q''\<rparr> empty_request)"] by simp

section \<open>Digest challenges\<close>

text \<open>A challenge as servers print it, and values that can stand in one.\<close>

definition print_challenge :: "string \<Rightarrow> string \<Rightarrow> string \<Rightarrow> string \<Rightarrow> string \<Rightarrow> string" where
  "print_challenge realm nonce qop opaque algorithm =
     ''Digest '' @ join '','' [''realm='' @ quoted realm, '' nonce='' @ quoted nonce, '' qop='' @ quoted qop,
       '' opaque='' @ quoted opaque, '' algorithm='' @ quoted algorithm]"

definition challenge_value :: "string \<Rightarrow> bool" where
  "challenge_value v \<longleftrightarrow> CHR 0x22 \<notin> set v \<and> CHR '','' \<notin> set v"

lemma trim_quoted: "CHR 0x22 \<notin> set v \<Longrightarrow> trim_fn (\<lambda>c. c = CHR 0x22) (trim_space (quoted v)) = v"
proof -
  assume v: "CHR 0x22 \<notin> set v"
  have s: "trim_space (quoted v) = quoted v"
    unfolding trim_space_def by (rule trim_fn_id) (simp add: quoted_def is_space_def)
  have "trim_fn (\<lambda>c. c = CHR 0x22) (quoted v) = v"
  proof (cases v rule: rev_cases)
    case (snoc w z)
    then have "z \<noteq> CHR 0x22" "hd v \<noteq> CHR 0x22" using v hd_in_set [of v] by auto
    then show ?thesis using v snoc by (cases w) (auto simp: quoted_def trim_fn_def)
  qed (simp add: quoted_def trim_fn_def)
  then show ?thesis by (simp add: s)
qed

lemma trim_space_blank:
  assumes "x \<noteq> []" and "\<not> is_space (hd x)" and "\<not> is_space (last x)"
  shows "trim_space ('' '' @ x) = x" and "trim_space x = x"
proof -
  show t: "trim_space x = x" using assms by (auto simp: trim_space_def intro!: trim_fn_id)
  have "is_space (CHR '' '')" by (simp add: is_space_def)
  then have "trim_space ('' '' @ x) = trim_space x" by (simp add: trim_space_def trim_fn_def)
  then show "trim_space ('' '' @ x) = x" by (simp add: t)
qed

lemma challenge_param_quoted:
  assumes "sp = [] \<or> sp = '' ''" and "k \<noteq> []" and "list_all (\<lambda>c. is_lower c) k" and "CHR 0x22 \<notin> set v"
  shows "challenge_param (sp @ k @ ''='' @ quoted v) a =
    (if k = ''realm'' then a\<lparr>da_realm := v\<rparr> else if k = ''nonce'' then a\<lparr>da_nonce := v\<rparr>
     else if k = ''qop'' then a\<lparr>da_qop := v\<rparr> else if k = ''opaque'' then a\<lparr>da_opaque := v\<rparr>
     else if k = ''algorithm'' then a\<lparr>da_algorithm := v\<rparr> else a)"
proof -
  have low: "\<not> is_space c \<and> lower_char c = c \<and> c \<noteq> CHR ''=''" if "c \<in> set k" for c
    using assms(3) that by (auto simp: list_all_iff is_lower_def is_space_def lower_char_def)
  have hl: "hd k \<in> set k" "last k \<in> set k" using assms(2) by auto
  have t: "trim_space (sp @ k @ ''='' @ quoted v) = k @ ''='' @ quoted v"
    using trim_space_blank [of "k @ ''='' @ quoted v"] assms(1,2) low [OF hl(1)]
    by (auto simp: quoted_def is_space_def)
  have k: "trim_space k = k" using trim_space_blank(2) [of k] assms(2) low hl by auto
  have l: "to_lower k = k" using low by (simp add: to_lower_def map_idI)
  have i: "index_byte (k @ ''='' @ quoted v) (CHR ''='') = Some (length k)"
    using index_byte_append [of "CHR ''=''" k "quoted v"] low by auto
  show ?thesis unfolding challenge_param_def Let_def t i by (simp add: k l trim_quoted [OF assms(4)])
qed

lemma split_challenge:
  assumes "list_all challenge_value [r, n, q, o', g]"
  shows "split_on (CHR '','') (join '','' [''realm='' @ quoted r, '' nonce='' @ quoted n, '' qop='' @ quoted q,
      '' opaque='' @ quoted o', '' algorithm='' @ quoted g]) =
    [''realm='' @ quoted r, '' nonce='' @ quoted n, '' qop='' @ quoted q, '' opaque='' @ quoted o', '' algorithm='' @ quoted g]"
  using assms by (intro split_join) (auto simp: challenge_value_def quoted_def)

lemma challenge_read:
  assumes "list_all challenge_value [realm, nonce, qop, opaque, algorithm]" and "nonce \<noteq> []"
    and "map_of h ''Www-Authenticate'' = Some [print_challenge realm nonce qop opaque algorithm]"
  shows "digest_HandleChallenge 401 h a =
    (Inr True, a\<lparr>da_realm := realm, da_nonce := nonce, da_qop := qop, da_opaque := opaque, da_algorithm := algorithm\<rparr>)"
proof -
  let ?l = "[''realm='' @ quoted realm, '' nonce='' @ quoted nonce, '' qop='' @ quoted qop,
      '' opaque='' @ quoted opaque, '' algorithm='' @ quoted algorithm]"
  let ?c = "print_challenge realm nonce qop opaque algorithm"
  have c: "?c = ''Digest '' @ join '','' ?l" by (simp add: print_challenge_def)
  have w: "header_Get h ''WWW-Authenticate'' = ?c"
  proof -
    have "CanonicalHeaderKey ''WWW-Authenticate'' = ''Www-Authenticate''" by code_simp
    then show ?thesis using assms(3) by (simp add: header_Get_def)
  qed
  have d: "has_prefix (to_lower ?c) ''digest ''"
  proof -
    have "to_lower ''Digest '' = ''digest ''" by code_simp
    then show ?thesis by (simp add: c has_prefix_iff del: append_Cons)
  qed
  have p: "trim_prefix (trim_prefix ?c ''Digest '') ''digest '' = join '','' ?l"
    by (simp add: c trim_prefix_def has_prefix_def)
  have k: "list_all is_lower ''realm''" "list_all is_lower ''nonce''" "list_all is_lower ''qop''" "list_all is_lower ''opaque''"
    "list_all is_lower ''algorithm''" by code_simp+
  have v: "CHR 0x22 \<notin> set realm" "CHR 0x22 \<notin> set nonce" "CHR 0x22 \<notin> set qop" "CHR 0x22 \<notin> set opaque" "CHR 0x22 \<notin> set algorithm"
    using assms(1) by (auto simp: challenge_value_def)
  have f: "fold challenge_param ?l a =
      a\<lparr>da_realm := realm, da_nonce := nonce, da_qop := qop, da_opaque := opaque, da_algorithm := algorithm\<rparr>"
    using challenge_param_quoted [OF _ _ k(1) v(1), of "[]"] challenge_param_quoted [OF _ _ k(2) v(2), of "'' ''"]
      challenge_param_quoted [OF _ _ k(3) v(3), of "'' ''"] challenge_param_quoted [OF _ _ k(4) v(4), of "'' ''"]
      challenge_param_quoted [OF _ _ k(5) v(5), of "'' ''"] by simp
  have "parseChallenge ?c a =
      (None, a\<lparr>da_realm := realm, da_nonce := nonce, da_qop := qop, da_opaque := opaque, da_algorithm := algorithm\<rparr>)"
    unfolding parseChallenge_def Let_def p split_challenge [OF assms(1)] f using assms(2) by simp
  then show ?thesis using w d by (simp add: digest_HandleChallenge_def c)
qed

text \<open>
  Lemma. Reading a challenge gives the values it was printed from, for any
  values without quotes and commas, and the client then retries.
\<close>

theorem digest_challenge_roundtrip:
  assumes "list_all challenge_value [realm, nonce, qop, opaque, algorithm]" and "nonce \<noteq> []"
    and "map_of h ''Www-Authenticate'' = Some [print_challenge realm nonce qop opaque algorithm]"
  shows "digest_HandleChallenge 401 h a =
    (Inr True, a\<lparr>da_realm := realm, da_nonce := nonce, da_qop := qop, da_opaque := opaque, da_algorithm := algorithm\<rparr>)"
  using assms by (rule challenge_read)

definition demo_challenge :: headers where
  "demo_challenge = [(''Www-Authenticate'', [print_challenge ''r'' ''n'' ''auth'' ''o'' ''MD5''])]"

theorem digest_challenge_roundtrip_witness:
  "digest_HandleChallenge 401 demo_challenge (NewDigestAuth ''u'' ''p'') =
     (Inr True, (NewDigestAuth ''u'' ''p'')\<lparr>da_realm := ''r'', da_nonce := ''n'', da_qop := ''auth'', da_opaque := ''o'',
        da_algorithm := ''MD5''\<rparr>)"
  by (rule digest_challenge_roundtrip) (simp_all add: demo_challenge_def challenge_value_def)

text \<open>Lemma. The scheme name is matched in any case but only two spellings are cut off.\<close>

lemma digest_upper_case_lost:
  "digest_HandleChallenge 401 [(''Www-Authenticate'', [''DIGEST nonce=n, realm=r''])] (NewDigestAuth ''u'' ''p'') =
     (Inl ''digest auth: missing nonce in challenge'', (NewDigestAuth ''u'' ''p'')\<lparr>da_realm := ''r''\<rparr>)"
  by code_simp

section \<open>Nonce counts\<close>

fun apply_times :: "(string \<Rightarrow> string) \<Rightarrow> (nat \<Rightarrow> string) \<Rightarrow> nat \<Rightarrow> digest_auth \<Rightarrow> http_request \<Rightarrow> digest_auth" where
  "apply_times md5 cn 0 a req = a"
| "apply_times md5 cn (Suc k) a req = fst (digest_Apply md5 (cn k) (apply_times md5 cn k a req) req)"

lemma digest_Apply_state: "fst (digest_Apply md5 cn a req) = (if da_nonce a = [] then a else a\<lparr>da_nc := da_nc a + 1\<rparr>)"
  by (simp add: digest_Apply_def applyDigestHeader_def Let_def)

lemma apply_times_state: "da_nonce a \<noteq> [] \<Longrightarrow> apply_times md5 cn k a req = a\<lparr>da_nc := da_nc a + k\<rparr>"
  by (induction k) (auto simp: digest_Apply_state)

text \<open>The count that a request carries.\<close>

definition sent_nc :: "digest_auth \<Rightarrow> string" where
  "sent_nc a = show_08x (da_nc a + 1)"

lemma sent_nc_header:
  "da_nonce a \<noteq> [] \<Longrightarrow> da_qop a \<noteq> [] \<Longrightarrow>
   \<exists>pre post. header_Get (hr_Header (snd (digest_Apply md5 cn a req))) ''Authorization'' =
     pre @ '', nc='' @ sent_nc a @ '', cnonce='' @ quoted cn @ post"
proof -
  assume n: "da_nonce a \<noteq> []" and q: "da_qop a \<noteq> []"
  let ?a = "a\<lparr>da_nc := da_nc a + 1\<rparr>"
  let ?m = "if hr_Method req = [] then ''GET'' else hr_Method req"
  let ?pre = "''Digest username='' @ quoted (da_Username a) @ '', realm='' @ quoted (da_realm a) @ '', nonce='' @ quoted (da_nonce a) @
      '', uri='' @ quoted (hr_RequestURI req) @ '', response='' @
      quoted (digest_response md5 ?a (show_08x (da_nc ?a)) cn ?m (hr_RequestURI req)) @ '', qop='' @ da_qop a"
  let ?post = "(if da_opaque a \<noteq> [] then '', opaque='' @ quoted (da_opaque a) else []) @
      (if da_algorithm a \<noteq> [] then '', algorithm='' @ da_algorithm a else [])"
  show ?thesis using n q
    by (intro exI [of _ ?pre] exI [of _ ?post])
      (simp add: digest_Apply_def applyDigestHeader_def header_Get_def map_of_header_Set sent_nc_def Let_def)
qed



lemma challenge_keeps_count: "da_nc (snd (digest_HandleChallenge status h a)) = da_nc a"
proof -
  have "da_nc (fold challenge_param ps a) = da_nc a" for ps a
    by (induction ps arbitrary: a) (auto simp: challenge_param_def Let_def split: option.split)
  then show ?thesis
    by (auto simp: digest_HandleChallenge_def parseChallenge_def Let_def split: option.splits prod.splits)
qed

text \<open>
  Lemma. The count is not reset by a new challenge: after one request with an
  old nonce, the first request with a new nonce is sent with the count 2.
\<close>

theorem digest_count_not_reset:
  "let a = fst (digest_Apply md5 cn ((NewDigestAuth u p)\<lparr>da_nonce := ''old''\<rparr>) req);
       b = snd (digest_HandleChallenge 401 demo_challenge a)
   in da_nonce b = ''n'' \<and> sent_nc b = ''00000002''"
proof -
  let ?a = "fst (digest_Apply md5 cn ((NewDigestAuth u p)\<lparr>da_nonce := ''old''\<rparr>) req)"
  have "digest_HandleChallenge 401 demo_challenge ?a =
      (Inr True, ?a\<lparr>da_realm := ''r'', da_nonce := ''n'', da_qop := ''auth'', da_opaque := ''o'', da_algorithm := ''MD5''\<rparr>)"
    by (rule challenge_read) (simp_all add: demo_challenge_def challenge_value_def)
  moreover have "da_nc ?a = 1" by (simp add: digest_Apply_state NewDigestAuth_def)
  moreover have "show_08x 2 = ''00000002''" by (simp add: show_08x_def show_hex.simps hex_digit_def numeral_eq_Suc)
  ultimately show ?thesis by (simp add: Let_def sent_nc_def numeral_eq_Suc)
qed

end
