(* ===== verification/Wire_Headers.thy ===== *)
theory Wire_Headers
  imports Go_HTTP "HOL-Library.List_Lexorder" "HOL-Library.Char_ord"
begin

text \<open>
  How headers are laid out on the wire: the order of all headers of a request
  (\<^verbatim>\<open>CompleteHeaderOrder\<close> of \<^verbatim>\<open>transport/transport.go\<close>), the crumbs of a Cookie header
  (\<^verbatim>\<open>transport/cookie_crumble.go\<close>) and the spelling of the header names of an HTTP/1.1
  response (\<^verbatim>\<open>transport/h1_header_case.go\<close>).
\<close>

section \<open>Header order\<close>

definition HeaderOrderKey :: string where
  "HeaderOrderKey = ''Header-Order:''"

definition PHeaderOrderKey :: string where
  "PHeaderOrderKey = ''PHeader-Order:''"

text \<open>The cache of lowered names only saves time; names that are lower-case already are not copied.\<close>

definition lowerHeaderName :: "string \<Rightarrow> string" where
  "lowerHeaderName name =
     (if list_all (\<lambda>c. (of_char c :: nat) < 128 \<and> \<not> is_upper c) name then name else to_lower name)"

lemma lowerHeaderName_eq [simp]: "lowerHeaderName name = to_lower name"
  by (auto simp: lowerHeaderName_def list_all_iff to_lower_def lower_char_def is_upper_def intro!: map_idI [symmetric])

definition place :: "string \<Rightarrow> string list \<Rightarrow> string list" where
  "place name buf = (let lower = lowerHeaderName name in if lower = [] \<or> lower \<in> set buf then buf else buf @ [lower])"

definition control_key :: "string \<Rightarrow> bool" where
  "control_key name \<longleftrightarrow> to_lower name = to_lower HeaderOrderKey \<or> to_lower name = to_lower PHeaderOrderKey"

definition collect :: "string \<Rightarrow> string list \<Rightarrow> string list" where
  "collect name buf = (if control_key name then buf else place name buf)"

definition CompleteHeaderOrder :: "string list \<Rightarrow> string list \<Rightarrow> headers \<Rightarrow> headers \<Rightarrow> string list" where
  "CompleteHeaderOrder explicitOrder presetOrder header userHeaders =
     (let named = fold place presetOrder (fold place explicitOrder []);
          buf = fold collect (map fst userHeaders) (fold collect (map fst header) named)
      in take (length named) buf @ sort (drop (length named) buf))"

lemma place_extends: "\<exists>rest. fold place names buf = buf @ rest"
  by (induction names arbitrary: buf) (auto simp: place_def Let_def split: if_splits, metis append.assoc)

lemma collect_extends: "\<exists>rest. fold collect names buf = buf @ rest"
proof (induction names arbitrary: buf)
  case (Cons n names)
  have "\<exists>r. collect n buf = buf @ r" by (auto simp: collect_def place_def Let_def)
  then obtain r where "collect n buf = buf @ r" by blast
  moreover obtain r' where "fold collect names (buf @ r) = (buf @ r) @ r'" using Cons.IH by blast
  ultimately show ?case by simp
qed simp

lemma set_place: "set (fold place names buf) = set buf \<union> {to_lower n | n. n \<in> set names \<and> n \<noteq> []}"
proof (induction names arbitrary: buf)
  case (Cons n names)
  have "set (place n buf) = set buf \<union> (if n = [] then {} else {to_lower n})"
    by (auto simp: place_def Let_def to_lower_def)
  then show ?case using Cons by auto
qed simp

lemma set_collect:
  "set (fold collect names buf) = set buf \<union> {to_lower n | n. n \<in> set names \<and> n \<noteq> [] \<and> \<not> control_key n}"
proof (induction names arbitrary: buf)
  case (Cons n names)
  have "set (collect n buf) = set buf \<union> (if n = [] \<or> control_key n then {} else {to_lower n})"
    by (auto simp: collect_def place_def Let_def to_lower_def)
  then show ?case using Cons by auto
qed simp

lemma distinct_place: "distinct buf \<Longrightarrow> distinct (fold place names buf)"
  by (induction names arbitrary: buf) (simp_all add: place_def Let_def)

lemma distinct_collect: "distinct buf \<Longrightarrow> distinct (fold collect names buf)"
  by (induction names arbitrary: buf) (simp_all add: collect_def place_def Let_def)


lemma order_split:
  "CompleteHeaderOrder e p h u =
    fold place (e @ p) [] @ sort (drop (length (fold place (e @ p) [])) (fold collect (map fst h @ map fst u) (fold place (e @ p) [])))"
proof -
  let ?n = "fold place (e @ p) []"
  obtain r where "fold collect (map fst h @ map fst u) ?n = ?n @ r" using collect_extends by blast
  then show ?thesis by (simp add: CompleteHeaderOrder_def Let_def)
qed

lemma remainder_set:
  "fold collect ns (fold place xs []) = fold place xs [] @ r \<Longrightarrow>
   distinct r \<and> set r = {to_lower n | n. n \<in> set ns \<and> n \<noteq> [] \<and> \<not> control_key n} - set (fold place xs [])"
proof -
  assume e: "fold collect ns (fold place xs []) = fold place xs [] @ r"
  have d: "distinct (fold place xs [] @ r)"
    using distinct_collect [where buf = "fold place xs []" and names = ns] distinct_place [where buf = "[]" and names = xs] e by simp
  have "set (fold place xs [] @ r) = set (fold place xs []) \<union> {to_lower n | n. n \<in> set ns \<and> n \<noteq> [] \<and> \<not> control_key n}"
    using set_collect [of ns "fold place xs []"] e by simp
  then show ?thesis using d by auto
qed

lemma place_id: "distinct (buf @ names) \<Longrightarrow> list_all (\<lambda>n. n \<noteq> [] \<and> to_lower n = n) names \<Longrightarrow> fold place names buf = buf @ names"
proof (induction names arbitrary: buf)
  case (Cons n names)
  have "place n buf = buf @ [n]" using Cons.prems by (auto simp: place_def)
  then show ?case using Cons.IH [of "buf @ [n]"] Cons.prems by simp
qed simp

text \<open>
  Property C17. The header order names every header once: it has no duplicates, it
  begins with the caller's list when that is in lower case, all headers of the
  request are in it, the two control entries are not (unless named in a list),
  and what neither list names comes last in alphabetical order.
\<close>

theorem header_order_complete:
  assumes "distinct explicit" and "list_all (\<lambda>n. n \<noteq> [] \<and> to_lower n = n) explicit"
  shows "distinct (CompleteHeaderOrder explicit preset h u) \<and>
    take (length explicit) (CompleteHeaderOrder explicit preset h u) = explicit \<and>
    set (CompleteHeaderOrder explicit preset h u) = set explicit \<union> {to_lower n | n. n \<in> set preset \<and> n \<noteq> []} \<union>
      {to_lower n | n. n \<in> fst ` set h \<union> fst ` set u \<and> n \<noteq> [] \<and> \<not> control_key n} \<and>
    (\<exists>named rest. CompleteHeaderOrder explicit preset h u = named @ rest \<and> sorted rest \<and>
      set named = set explicit \<union> {to_lower n | n. n \<in> set preset \<and> n \<noteq> []})"
proof -
  let ?n = "fold place (explicit @ preset) []"
  let ?ks = "map fst h @ map fst u"
  obtain r where r: "fold collect ?ks ?n = ?n @ r" using collect_extends by blast
  have o': "CompleteHeaderOrder explicit preset h u = ?n @ sort r" unfolding order_split r by simp
  have n: "fold place explicit [] = explicit" using place_id [of "[]" explicit] assms by simp
  obtain x where x: "?n = explicit @ x" using place_extends [of preset explicit] n by auto
  have sn: "set ?n = set explicit \<union> {to_lower m | m. m \<in> set preset \<and> m \<noteq> []}"
    using n set_place [of preset explicit] by simp
  note rs = remainder_set [OF r]
  have d: "distinct (?n @ sort r)" using rs distinct_place [where buf = "[]" and names = "explicit @ preset"] by auto
  have s: "set (?n @ sort r) = set ?n \<union> {to_lower m | m. m \<in> set ?ks \<and> m \<noteq> [] \<and> \<not> control_key m}" using rs by auto
  have t: "take (length explicit) (?n @ sort r) = explicit" unfolding x by simp
  have a: "set (?n @ sort r) = set explicit \<union> {to_lower m | m. m \<in> set preset \<and> m \<noteq> []} \<union>
      {to_lower m | m. m \<in> fst ` set h \<union> fst ` set u \<and> m \<noteq> [] \<and> \<not> control_key m}" unfolding s sn by auto
  show ?thesis unfolding o' by (intro conjI d t a exI [of _ ?n] exI [of _ "sort r"]) (simp_all only: sorted_sort sn)
qed

theorem header_order_complete_witness:
  "take 2 (CompleteHeaderOrder [''x-b'', ''accept''] [''user-agent'', ''accept''] [(''Cookie'', [''a=1'']), (''Accept'', [''*'']), (''User-Agent'', [''u''])] [(''Zed'', [''1''])]) =
     [''x-b'', ''accept'']"
proof -
  let ?e = "[''x-b'', ''accept'']"
  have e: "distinct ?e" "list_all (\<lambda>n. n \<noteq> [] \<and> to_lower n = n) ?e" by (simp, code_simp)
  have l: "length ?e = 2" by simp
  show ?thesis
    by (rule header_order_complete [OF e, unfolded l, THEN conjunct2, THEN conjunct1])
qed

text \<open>
  Lemma. The order does not depend on how Go walks its maps: requests with the
  same header names get the same order, whatever order the maps are ranged over.
\<close>

theorem header_order_deterministic:
  assumes "fst ` set h = fst ` set h'" and "fst ` set u = fst ` set u'"
  shows "CompleteHeaderOrder explicit preset h u = CompleteHeaderOrder explicit preset h' u'"
proof -
  let ?n = "fold place (explicit @ preset) []"
  obtain r r' where r: "fold collect (map fst h @ map fst u) ?n = ?n @ r" "fold collect (map fst h' @ map fst u') ?n = ?n @ r'"
    using collect_extends by metis
  have "distinct r" "distinct r'" "set r = set r'"
    using remainder_set [OF r(1)] remainder_set [OF r(2)] assms by auto
  then have "sort r = sort r'" by (metis set_eq_iff_mset_eq_distinct properties_for_sort mset_sort sorted_sort)
  then show ?thesis unfolding order_split r by simp
qed

theorem header_order_deterministic_witness:
  "CompleteHeaderOrder [] [''accept''] [(''B'', []), (''Accept'', []), (''A'', [])] [] =
   CompleteHeaderOrder [] [''accept''] [(''A'', []), (''B'', []), (''Accept'', [])] []"
  by (rule header_order_deterministic) auto

section \<open>Cookie crumbs\<close>

definition drop_one_space :: "string \<Rightarrow> string" where
  "drop_one_space s = (case s of c # cs \<Rightarrow> if c = CHR '' '' then cs else s | [] \<Rightarrow> [])"

lemma length_drop_one_space: "length (drop_one_space s) \<le> length s"
  by (simp add: drop_one_space_def split: list.split)

function crumbs :: "string \<Rightarrow> string list" where
  "crumbs value =
     (case index_byte value (CHR '';'') of
        None \<Rightarrow> [value]
      | Some rel \<Rightarrow> take rel value # crumbs (drop_one_space (drop (rel + 1) value)))"
  by pat_completeness auto

termination crumbs
proof (relation "measure length", simp_all)
  fix v rel
  assume "index_byte v (CHR '';'') = Some rel"
  then have "rel < length v" using index_byte_Some by blast
  then show "length (drop_one_space (drop (Suc rel) v)) < length v"
    using length_drop_one_space [of "drop (Suc rel) v"] by simp
qed

declare crumbs.simps [simp del]

definition blank :: "char \<Rightarrow> bool" where
  "blank c \<longleftrightarrow> c = CHR '' '' \<or> c = CHR 0x09"

definition crumbleCookie :: "string \<Rightarrow> string list" where
  "crumbleCookie value0 =
     (let value = trim_fn blank value0 in if value = [] then [] else crumbs value)"

lemma crumbs_join: "pairs \<noteq> [] \<Longrightarrow> list_all (\<lambda>p. CHR '';'' \<notin> set p) pairs \<Longrightarrow> crumbs (join ''; '' pairs) = pairs"
proof (induction pairs rule: induct_list012)
  case (2 p)
  then have "index_byte p (CHR '';'') = None" by simp
  then show ?case by (simp add: crumbs.simps [of p] del: index_byte_None)
next
  case (3 p q ps)
  have j: "join ''; '' (p # q # ps) = p @ CHR '';'' # '' '' @ join ''; '' (q # ps)" by simp
  have "index_byte (p @ CHR '';'' # '' '' @ join ''; '' (q # ps)) (CHR '';'') = Some (length p)"
    using 3(4) by (intro index_byte_append) simp
  then have "crumbs (join ''; '' (p # q # ps)) = p # crumbs (join ''; '' (q # ps))"
    unfolding j by (subst crumbs.simps) (simp add: drop_one_space_def)
  then show ?case using 3 by simp
qed simp

text \<open>
  Lemma. Crumbling undoes joining: the Cookie header that the jar builds from
  name-value pairs is sent as exactly these pairs, one field each.
\<close>

theorem crumbs_roundtrip:
  assumes "pairs \<noteq> []" and "list_all (\<lambda>p. p \<noteq> [] \<and> CHR '';'' \<notin> set p \<and> \<not> blank (hd p) \<and> \<not> blank (last p)) pairs"
  shows "crumbleCookie (join ''; '' pairs) = pairs"
proof -
  let ?j = "join ''; '' pairs"
  have ne: "?j \<noteq> []" using assms by (intro join_ne) (auto simp: list_all_iff)
  have h: "hd ?j = hd (hd pairs)" using assms hd_join [of "hd pairs" "''; ''" "tl pairs"] by (cases pairs) auto
  have l: "last ?j = last (last pairs)" using assms last_in_set [OF assms(1)] by (intro last_join) (auto simp: list_all_iff)
  have "\<not> blank (hd ?j)" "\<not> blank (last ?j)"
    unfolding h l using assms hd_in_set [OF assms(1)] last_in_set [OF assms(1)] by (auto simp: list_all_iff)
  then have "trim_fn blank ?j = ?j" by (intro trim_fn_id) simp
  moreover have "crumbs ?j = pairs" using assms by (intro crumbs_join) (auto simp: list_all_iff)
  ultimately show ?thesis using ne by (simp add: crumbleCookie_def)
qed

theorem crumbs_roundtrip_witness: "crumbleCookie (join ''; '' [''a=1'', ''b=2'']) = [''a=1'', ''b=2'']"
  by (rule crumbs_roundtrip) (simp_all add: blank_def)

section \<open>Header names of an HTTP/1.1 response\<close>

definition crlf :: string where
  "crlf = [CHR 0x0D, CHR 0x0A]"

text \<open>\<^verbatim>\<open>bytes.Index\<close> and \<^verbatim>\<open>bytes.Split\<close>.\<close>

fun index_sub :: "string \<Rightarrow> string \<Rightarrow> nat option" where
  "index_sub [] sep = (if sep = [] then Some 0 else None)"
| "index_sub (c # cs) sep = (if has_prefix (c # cs) sep then Some 0 else map_option Suc (index_sub cs sep))"

fun split_crlf :: "string \<Rightarrow> string list" where
  "split_crlf (c # d # cs) =
     (if c = CHR 0x0D \<and> d = CHR 0x0A then [] # split_crlf cs
      else (case split_crlf (d # cs) of l # ls \<Rightarrow> (c # l) # ls | [] \<Rightarrow> [[c]]))"
| "split_crlf s = [s]"

definition header_name :: "string \<Rightarrow> string option" where
  "header_name line =
     (case line of
        [] \<Rightarrow> None
      | b # _ \<Rightarrow>
          if b = CHR '' '' \<or> b = CHR 0x09 then None
          else (case index_byte line (CHR '':'') of
                  None \<Rightarrow> None
                | Some c \<Rightarrow> if c = 0 then None else Some (trim_space (take c line))))"

text \<open>The argument is what the reader has buffered after one read; None is a reader with nothing.\<close>

definition peekHeaderCasing :: "string option \<Rightarrow> string list" where
  "peekHeaderCasing buffered =
     (case buffered of
        None \<Rightarrow> []
      | Some buf \<Rightarrow>
          (case index_sub buf (crlf @ crlf) of
             None \<Rightarrow> []
           | Some end' \<Rightarrow>
               (let block = take end' buf in
                case index_byte block (CHR 0x0A) of
                  None \<Rightarrow> []
                | Some nl \<Rightarrow> List.map_filter header_name (split_crlf (drop (nl + 1) block)))))"

definition h1HeaderCasingKey :: string where
  "h1HeaderCasingKey = ''Header-Casing:''"

definition stashHeaderCasing :: "string list \<Rightarrow> headers \<Rightarrow> headers" where
  "stashHeaderCasing names h = (if names = [] then h else AList.update h1HeaderCasingKey names h)"

definition takeHeaderCasing :: "headers \<Rightarrow> string list" where
  "takeHeaderCasing h = (case map_of h h1HeaderCasingKey of Some names \<Rightarrow> names | None \<Rightarrow> [])"

lemma take_stash: "map_of h h1HeaderCasingKey = None \<Longrightarrow> takeHeaderCasing (stashHeaderCasing names h) = names"
  by (simp add: takeHeaderCasing_def stashHeaderCasing_def)

definition no_break :: "string \<Rightarrow> bool" where
  "no_break s \<longleftrightarrow> CHR 0x0D \<notin> set s \<and> CHR 0x0A \<notin> set s"

lemma split_crlf_line: "no_break l \<Longrightarrow> split_crlf (l @ crlf @ rest) = l # split_crlf rest"
  by (induction l rule: split_crlf.induct) (auto simp: no_break_def crlf_def)

lemma split_crlf_last: "no_break l \<Longrightarrow> split_crlf l = [l]"
  by (induction l rule: split_crlf.induct) (auto simp: no_break_def)

lemma split_crlf_join: "ls \<noteq> [] \<Longrightarrow> list_all no_break ls \<Longrightarrow> split_crlf (join crlf ls) = ls"
proof (induction ls rule: induct_list012)
  case (3 a b ls)
  then show ?case using split_crlf_line [of a "join crlf (b # ls)"] by simp
qed (simp_all add: split_crlf_last)

lemma index_sub_no_break:
  assumes "no_break l" and "rest \<noteq> [] \<Longrightarrow> hd rest \<noteq> CHR 0x0D"
  shows "index_sub (l @ crlf @ rest) (crlf @ crlf) = map_option ((+) (length l + 2)) (index_sub rest (crlf @ crlf))"
  using assms(1)
proof (induction l)
  case Nil
  have "\<not> has_prefix (crlf @ rest) (crlf @ crlf)" "\<not> has_prefix (tl (crlf @ rest)) (crlf @ crlf)"
    using assms(2) by (cases rest; auto simp: crlf_def has_prefix_def)+
  then show ?case by (simp add: crlf_def option.map_comp comp_def)
next
  case (Cons c l)
  have "\<not> has_prefix (c # l @ crlf @ rest) (crlf @ crlf)" using Cons.prems by (auto simp: crlf_def has_prefix_def no_break_def)
  then show ?case using Cons by (simp add: no_break_def option.map_comp comp_def)
qed

lemma index_sub_end: "no_break l \<Longrightarrow> index_sub (l @ crlf @ crlf @ body) (crlf @ crlf) = Some (length l)"
proof (induction l)
  case Nil
  then show ?case by (cases "crlf @ crlf @ body") (auto simp: crlf_def has_prefix_def)
next
  case (Cons c l)
  have "\<not> has_prefix (c # l @ crlf @ crlf @ body) (crlf @ crlf)" using Cons.prems by (auto simp: crlf_def has_prefix_def no_break_def)
  then show ?case using Cons by (simp add: no_break_def)
qed

lemma index_sub_block:
  "ls \<noteq> [] \<Longrightarrow> list_all (\<lambda>l. no_break l \<and> l \<noteq> []) ls \<Longrightarrow>
   index_sub (join crlf ls @ crlf @ crlf @ body) (crlf @ crlf) = Some (length (join crlf ls))"
proof (induction ls rule: induct_list012)
  case (3 a b ls)
  let ?r = "join crlf (b # ls) @ crlf @ crlf @ body"
  have "b \<noteq> []" "no_break b" using 3(4) by auto
  then have h: "hd ?r \<noteq> CHR 0x0D" by (cases ls; cases b) (auto simp: no_break_def)
  have "index_sub (a @ crlf @ ?r) (crlf @ crlf) = map_option ((+) (length a + 2)) (index_sub ?r (crlf @ crlf))"
    using 3(4) h by (intro index_sub_no_break) auto
  then show ?case using 3(2) 3(4) by (simp add: crlf_def)
qed (simp_all add: index_sub_end)

definition header_line :: "string \<times> string \<Rightarrow> string" where
  "header_line = (\<lambda>(name, value). name @ '':'' @ value)"

definition response_ok :: "string \<Rightarrow> (string \<times> string) list \<Rightarrow> bool" where
  "response_ok status hs \<longleftrightarrow> no_break status \<and> status \<noteq> [] \<and>
     list_all (\<lambda>(n, v). n \<noteq> [] \<and> list_all token_byte n \<and> no_break v) hs"

lemma token_facts: "token_byte c \<Longrightarrow> c \<noteq> CHR '':'' \<and> \<not> is_space c \<and> c \<noteq> CHR 0x0D \<and> c \<noteq> CHR 0x0A \<and> c \<noteq> CHR '' '' \<and> c \<noteq> CHR 0x09"
  by (auto simp: token_byte_def is_upper_def is_lower_def is_digit_def is_space_def)

lemma header_name_line:
  assumes "n \<noteq> []" and "list_all token_byte n"
  shows "header_name (header_line (n, v)) = Some n"
proof -
  have t: "c \<in> set n \<Longrightarrow> token_byte c" for c using assms(2) by (simp add: list_all_iff)
  have i: "index_byte (n @ CHR '':'' # v) (CHR '':'') = Some (length n)"
    using t token_facts by (intro index_byte_append) blast
  have s: "trim_space n = n"
    unfolding trim_space_def using t [OF hd_in_set] t [OF last_in_set] assms(1) token_facts by (intro trim_fn_id) blast
  obtain b bs where n: "n = b # bs" using assms(1) by (cases n) auto
  have b: "b \<noteq> CHR '' ''" "b \<noteq> CHR 0x09" using t [of b] token_facts [of b] n by auto
  have "header_name (n @ CHR '':'' # v) = Some (trim_space (take (length n) (n @ CHR '':'' # v)))"
    using i b assms(1) unfolding header_name_def n by simp
  then show ?thesis by (simp add: header_line_def s)
qed

text \<open>
  Lemma. The spelling of the server is found exactly: when the whole header
  block of a response has arrived, whatever the status line, the values and the
  body are, the names are returned as they stand in the response, in order.
\<close>

theorem header_casing_exact:
  assumes "response_ok status hs"
  shows "peekHeaderCasing (Some (join crlf (status # map header_line hs) @ crlf @ crlf @ body)) = map fst hs"
proof (cases hs)
  case Nil
  have "index_byte status (CHR 0x0A) = None" using assms by (simp add: response_ok_def no_break_def)
  then show ?thesis using assms Nil index_sub_block [of "[status]" body]
    by (simp add: peekHeaderCasing_def response_ok_def del: index_byte_None)
next
  case (Cons x xs)
  let ?ls = "map header_line hs" let ?b = "join crlf (status # ?ls)"
  have ok: "list_all (\<lambda>l. no_break l \<and> l \<noteq> []) (status # ?ls)"
    using assms token_facts by (fastforce simp: response_ok_def list_all_iff header_line_def no_break_def)
  have e: "index_sub (?b @ crlf @ crlf @ body) (crlf @ crlf) = Some (length ?b)" by (rule index_sub_block [OF _ ok]) simp
  have b: "?b = (status @ [CHR 0x0D]) @ CHR 0x0A # join crlf ?ls" using Cons by (simp add: crlf_def)
  have nl: "index_byte ?b (CHR 0x0A) = Some (length status + 1)"
    unfolding b using assms by (subst index_byte_append) (auto simp: response_ok_def no_break_def)
  have d: "drop (length status + 1 + 1) ?b = join crlf ?ls" unfolding b by simp
  have sp: "split_crlf (join crlf ?ls) = ?ls" using ok Cons by (intro split_crlf_join) (auto simp: list_all_iff)
  have "List.map_filter header_name ?ls = map fst hs"
    using assms by (induction hs) (auto simp: map_filter_simps header_name_line response_ok_def)
  then show ?thesis unfolding peekHeaderCasing_def using e nl d sp by (simp add: Let_def del: append_assoc)
qed

theorem header_casing_exact_witness:
  "peekHeaderCasing (Some (join crlf (''HTTP/1.1 200 OK'' # map header_line [(''X-FOO'', '' 1''), (''etag'', '' a'')]) @ crlf @ crlf @ ''x'')) =
     [''X-FOO'', ''etag'']"
proof -
  have r: "response_ok ''HTTP/1.1 200 OK'' [(''X-FOO'', '' 1''), (''etag'', '' a'')]" by code_simp
  show ?thesis using header_casing_exact [OF r, of "''x''"] by simp
qed

end
