(* ===== verification/Go_Net.thy ===== *)
theory Go_Net
  imports Go_Prelude
begin

unbundle bit_operations_syntax

text \<open>
  The parts of Go's package \<^verbatim>\<open>net\<close> that the resolver cache and the proxy code
  call: \<^verbatim>\<open>net.ParseIP\<close> (dotted IPv4 and IPv6 with \<open>::\<close> and a trailing IPv4 part),
  the methods \<^verbatim>\<open>To4\<close>, \<^verbatim>\<open>To16\<close> and \<^verbatim>\<open>IsUnspecified\<close> of \<^verbatim>\<open>net.IP\<close>, and big-endian 16-bit
  numbers. An IP address is its byte slice, of length 4 or 16.
\<close>

type_synonym ip = "byte list"

section \<open>Dotted IPv4\<close>

text \<open>
  The loop of \<^verbatim>\<open>netip.parseIPv4Fields\<close>: \<open>val\<close> and \<open>digLen\<close> belong to the field being
  read, \<open>fields\<close> are those before it. A dot needs a digit before it and a
  character after it, which is the same as a digit count that is not zero at
  every dot and at the end.
\<close>

fun parse_v4_loop :: "nat \<Rightarrow> nat \<Rightarrow> byte list \<Rightarrow> string \<Rightarrow> byte list option" where
  "parse_v4_loop val digLen fields [] =
     (if digLen = 0 \<or> length fields \<noteq> 3 then None else Some (fields @ [of_nat val]))"
| "parse_v4_loop val digLen fields (c # cs) =
     (if is_digit c then
        (if digLen = 1 \<and> val = 0 then None
         else
           (let val' = val * 10 + digit_val c in
            if val' > 255 then None else parse_v4_loop val' (digLen + 1) fields cs))
      else if c = CHR ''.'' then
        (if digLen = 0 \<or> length fields = 3 then None
         else parse_v4_loop 0 0 (fields @ [of_nat val]) cs)
      else None)"

definition parse_v4 :: "string \<Rightarrow> byte list option" where
  "parse_v4 s = parse_v4_loop 0 0 [] s"

section \<open>IPv6\<close>

definition hex_val :: "char \<Rightarrow> nat option" where
  "hex_val c =
     (let n = of_char c :: nat in
      if 48 \<le> n \<and> n \<le> 57 then Some (n - 48)
      else if 97 \<le> n \<and> n \<le> 102 then Some (n - 87)
      else if 65 \<le> n \<and> n \<le> 70 then Some (n - 55)
      else None)"

text \<open>A group of hex digits: its value, the number of digits and the rest; five digits are an error.\<close>

fun hex_group :: "nat \<Rightarrow> nat \<Rightarrow> string \<Rightarrow> (nat \<times> nat \<times> string) option" where
  "hex_group acc off [] = Some (acc, off, [])"
| "hex_group acc off (c # cs) =
     (case hex_val c of
        None \<Rightarrow> Some (acc, off, c # cs)
      | Some d \<Rightarrow> if off > 3 then None else hex_group (acc * 16 + d) (off + 1) cs)"

lemma hex_group_length: "hex_group acc off s = Some (a, k, rest) \<Longrightarrow> length rest + k = length s + off"
  by (induction acc off s rule: hex_group.induct) (auto split: option.splits if_splits)

text \<open>
  The loop of \<^verbatim>\<open>netip.parseIPv6\<close>: \<open>bs\<close> are the bytes so far, \<open>ell\<close> the position of
  the ellipsis. It returns the rest of the string, the bytes and the ellipsis.
\<close>

function v6_loop :: "byte list \<Rightarrow> nat option \<Rightarrow> string \<Rightarrow> (string \<times> byte list \<times> nat option) option" where
  "v6_loop bs ell s =
     (if length bs \<ge> 16 then Some (s, bs, ell)
      else (case hex_group 0 0 s of
        None \<Rightarrow> None
      | Some (acc, off, rest) \<Rightarrow>
          if off = 0 then None
          else if rest \<noteq> [] \<and> hd rest = CHR ''.'' then
            (if ell = None \<and> length bs \<noteq> 12 then None
             else if length bs + 4 > 16 then None
             else (case parse_v4 s of None \<Rightarrow> None | Some v4 \<Rightarrow> Some ([], bs @ v4, ell)))
          else
            (let bs' = bs @ [of_nat (acc div 256), of_nat (acc mod 256)] in
             if rest = [] then Some ([], bs', ell)
             else if hd rest \<noteq> CHR '':'' then None
             else if tl rest = [] then None
             else
               (let s' = tl rest in
                if hd s' = CHR '':'' then
                  (if ell \<noteq> None then None
                   else if tl s' = [] then Some ([], bs', Some (length bs'))
                   else v6_loop bs' (Some (length bs')) (tl s'))
                else v6_loop bs' ell s'))))"
  by pat_completeness auto
termination
  by (relation "measure (\<lambda>(bs, ell, s). 16 - length bs)") auto

declare v6_loop.simps [simp del]

definition v6_finish :: "string \<times> byte list \<times> nat option \<Rightarrow> byte list option" where
  "v6_finish = (\<lambda>(s, bs, ell).
     if s \<noteq> [] then None
     else if length bs < 16 then
       (case ell of
          None \<Rightarrow> None
        | Some e \<Rightarrow> Some (take e bs @ replicate (16 - length bs) 0 @ drop e bs))
     else if ell \<noteq> None then None
     else Some bs)"

definition parse_v6 :: "string \<Rightarrow> byte list option" where
  "parse_v6 s =
     (if has_prefix s ''::'' then
        (if length s = 2 then Some (replicate 16 0)
         else (case v6_loop [] (Some 0) (drop 2 s) of None \<Rightarrow> None | Some r \<Rightarrow> v6_finish r))
      else (case v6_loop [] None s of None \<Rightarrow> None | Some r \<Rightarrow> v6_finish r))"

section \<open>net.IP\<close>

definition v4_mapped :: "byte list \<Rightarrow> ip" where
  "v4_mapped v4 = replicate 10 0 @ [0xff, 0xff] @ v4"

text \<open>
  \<^verbatim>\<open>net.ParseIP\<close>: the first dot or colon decides the syntax; a zone (\<open>%\<close>) is never
  accepted; the result always has 16 bytes.
\<close>

definition ParseIP :: "string \<Rightarrow> ip option" where
  "ParseIP s =
     (if CHR ''%'' \<in> set s then None
      else (case find (\<lambda>c. c = CHR ''.'' \<or> c = CHR '':'') s of
        None \<Rightarrow> None
      | Some c \<Rightarrow> if c = CHR ''.'' then map_option v4_mapped (parse_v4 s) else parse_v6 s))"

definition To4 :: "ip \<Rightarrow> ip option" where
  "To4 p =
     (if length p = 4 then Some p
      else if length p = 16 \<and> take 12 p = replicate 10 0 @ [0xff, 0xff] then Some (drop 12 p)
      else None)"

definition To16 :: "ip \<Rightarrow> ip option" where
  "To16 p =
     (if length p = 4 then Some (v4_mapped p) else if length p = 16 then Some p else None)"

text \<open>\<^verbatim>\<open>IsUnspecified\<close> is \<^verbatim>\<open>Equal\<close> with 0.0.0.0 or with ::, where a 4-byte address equals its 16-byte form.\<close>

definition IsUnspecified :: "ip \<Rightarrow> bool" where
  "IsUnspecified p \<longleftrightarrow> To4 p = Some [0, 0, 0, 0] \<or> p = replicate 16 0"

section \<open>Big-endian\<close>

definition put_u16 :: "u16 \<Rightarrow> byte list" where
  "put_u16 v = [ucast (drop_bit 8 v), ucast v]"

definition get_u16 :: "byte list \<Rightarrow> u16" where
  "get_u16 bs = push_bit 8 (ucast (bs ! 0)) OR ucast (bs ! 1)"

section \<open>Laws\<close>

lemma get_put_u16: "get_u16 (put_u16 v) = v"
  unfolding get_u16_def put_u16_def
  by (rule bit_word_eqI) (auto simp: bit_simps)

lemma length_put_u16 [simp]: "length (put_u16 v) = 2"
  by (simp add: put_u16_def)

lemma length_v4_mapped [simp]: "length (v4_mapped v4) = 12 + length v4"
  by (simp add: v4_mapped_def)

lemma To4_v4_mapped: "length v4 = 4 \<Longrightarrow> To4 (v4_mapped v4) = Some v4"
  by (simp add: To4_def v4_mapped_def eval_nat_numeral)

lemma To4_length: "To4 p = Some q \<Longrightarrow> length q = 4"
  by (auto simp: To4_def split: if_splits)

lemma parse_v4_loop_length: "parse_v4_loop val n fs s = Some bs \<Longrightarrow> length bs = 4"
  by (induction val n fs s rule: parse_v4_loop.induct) (auto simp: Let_def split: if_splits)

lemma parse_v4_length: "parse_v4 s = Some bs \<Longrightarrow> length bs = 4"
  unfolding parse_v4_def by (rule parse_v4_loop_length)

text \<open>Reading a printed byte, digit by digit.\<close>

lemma parse_v4_loop_digits:
  assumes "\<forall>c \<in> set ds. is_digit c"
    and "parse_uint_loop 255 val ds = Inr v" and "val \<noteq> 0 \<or> n \<noteq> 1"
    and "ds \<noteq> [] \<longrightarrow> val * 10 + digit_val (hd ds) \<noteq> 0 \<or> length ds = 1"
  shows "parse_v4_loop val n fs (ds @ rest) = parse_v4_loop v (n + length ds) fs rest"
  using assms
proof (induction ds arbitrary: val n)
  case (Cons d ds)
  then show ?case by (auto simp: Let_def not_less split: if_splits)
qed simp

lemma show_nat_hd: "n \<noteq> 0 \<Longrightarrow> digit_val (hd (show_nat n)) \<noteq> 0"
proof (induction n rule: show_nat.induct)
  case (1 n)
  then show ?case
    by (subst show_nat.simps) (auto simp: digit_val_char_of)
qed

lemma parse_v4_loop_show:
  assumes "n < 256"
  shows "parse_v4_loop 0 0 fs (show_nat n @ rest) = parse_v4_loop n (length (show_nat n)) fs rest"
proof -
  have "show_nat 0 = ''0''" by (simp add: show_nat_eval)
  then have "digit_val (hd (show_nat n)) \<noteq> 0 \<or> length (show_nat n) = 1"
    using show_nat_hd [of n] by (cases "n = 0") auto
  then show ?thesis
    using parse_v4_loop_digits [of "show_nat n" 0 n 0 fs rest] show_nat_digits parse_show_nat_loop [of n 255] assms
    by simp
qed

definition show_v4 :: "byte \<Rightarrow> byte \<Rightarrow> byte \<Rightarrow> byte \<Rightarrow> string" where
  "show_v4 a b c d = join ''.'' (map (\<lambda>x. show_nat (unat x)) [a, b, c, d])"

lemma byte_unat [simp]: "unat (x :: byte) < 256"
  using unsigned_less [of x] by simp

lemma parse_show_v4: "parse_v4 (show_v4 a b c d) = Some [a, b, c, d]"
  by (simp add: parse_v4_def show_v4_def parse_v4_loop_show [of _ _ "[]", simplified] parse_v4_loop_show
      is_digit_def)

lemma find_digits: "\<forall>c \<in> set s. is_digit c \<Longrightarrow> find (\<lambda>c. c = CHR ''.'' \<or> c = CHR '':'') (s @ CHR ''.'' # t) = Some (CHR ''.'')"
  by (induction s) (auto simp: is_digit_def)

lemma ParseIP_show_v4: "ParseIP (show_v4 a b c d) = Some (v4_mapped [a, b, c, d])"
proof -
  have "CHR ''%'' \<notin> set (show_v4 a b c d)"
    using show_nat_no_sep [of "CHR ''%''"] by (auto simp: show_v4_def is_digit_def)
  moreover have "find (\<lambda>c. c = CHR ''.'' \<or> c = CHR '':'') (show_v4 a b c d) = Some (CHR ''.'')"
    using find_digits [OF show_nat_digits [of "unat a"]] by (simp add: show_v4_def)
  ultimately show ?thesis by (simp add: ParseIP_def parse_show_v4)
qed

lemma v6_loop_length:
  "v6_loop bs ell s = Some (rest, bs', ell') \<Longrightarrow> length bs \<le> 16 \<Longrightarrow> even (length bs) \<Longrightarrow>
     (\<forall>e. ell = Some e \<longrightarrow> e \<le> length bs) \<Longrightarrow>
     length bs' \<le> 16 \<and> (\<forall>e. ell' = Some e \<longrightarrow> e \<le> length bs')"
proof (induction bs ell s rule: v6_loop.induct)
  case (1 bs ell s)
  note u = "1.prems"(1) [unfolded v6_loop.simps [of bs ell s]]
  show ?case
  proof (cases "16 \<le> length bs")
    case True
    then show ?thesis using u "1.prems" by simp
  next
    case False
    then have l: "length bs + 2 \<le> 16" using "1.prems"(3) by presburger
    obtain acc off r where h: "hex_group 0 0 s = Some (acc, off, r)"
      using u False by (auto split: option.splits)
    let ?bs = "bs @ [of_nat (acc div 256), of_nat (acc mod 256)]"
    note IH = "1.IH" [OF False h refl refl _ _ refl]
    show ?thesis
    proof (cases "r \<noteq> [] \<and> hd r = CHR ''.''")
      case True
      then show ?thesis
        using u False h "1.prems"(4) by (auto split: if_splits option.splits dest: parse_v4_length)
    next
      case nodot: False
      have off: "off \<noteq> 0" using u False h by (auto split: if_splits)
      have rest: "r = [] \<or> (r \<noteq> [] \<and> hd r = CHR '':'' \<and> tl r \<noteq> [])"
        using u False h nodot off by (auto simp: Let_def split: if_splits)
      show ?thesis
      proof (cases "r = []")
        case True
        then show ?thesis using u False h off l "1.prems"(4) by auto
      next
        case ne: False
        show ?thesis
        proof (cases "hd (tl r) = CHR '':''")
          case True
          then show ?thesis
            using u False h off nodot rest ne l IH(1) [OF off nodot] "1.prems"(3)
            by (auto simp: Let_def split: if_splits)
        next
          case False
          have "\<forall>e. ell = Some e \<longrightarrow> e \<le> length ?bs" using "1.prems"(4) by auto
          then show ?thesis
            using u \<open>\<not> 16 \<le> length bs\<close> h off nodot rest ne l IH(2) [OF off nodot] "1.prems"(3) False
            by (auto simp: Let_def split: if_splits)
        qed
      qed
    qed
  qed
qed

lemma v6_finish_length:
  "v6_finish (s, bs, ell) = Some q \<Longrightarrow> length bs \<le> 16 \<Longrightarrow> (\<forall>e. ell = Some e \<longrightarrow> e \<le> length bs) \<Longrightarrow>
     length q = 16"
  by (auto simp: v6_finish_def split: if_splits option.splits)

lemma parse_v6_length: "parse_v6 s = Some q \<Longrightarrow> length q = 16"
  by (auto simp: parse_v6_def split: if_splits option.splits
      dest!: v6_loop_length intro: v6_finish_length)

lemma ParseIP_length: "ParseIP s = Some p \<Longrightarrow> length p = 16"
  by (auto simp: ParseIP_def split: if_splits option.splits dest: parse_v4_length parse_v6_length)


section \<open>Addresses with a port\<close>

definition addr_error :: "string \<Rightarrow> string \<Rightarrow> string" where
  "addr_error addr why = ''address '' @ addr @ '': '' @ why"

definition SplitHostPort :: "string \<Rightarrow> string + string \<times> string" where
  "SplitHostPort hostport =
     (let finish = (\<lambda>host j k i.
            if CHR ''['' \<in> set (drop j hostport) then Inl (addr_error hostport ''unexpected '[' in address'')
            else if CHR '']'' \<in> set (drop k hostport) then Inl (addr_error hostport ''unexpected ']' in address'')
            else Inr (host, drop (i + 1) hostport))
      in case last_index_byte hostport (CHR '':'') of
           None \<Rightarrow> Inl (addr_error hostport ''missing port in address'')
         | Some i \<Rightarrow>
             if hd hostport = CHR ''['' then
               (case index_byte hostport (CHR '']'') of
                  None \<Rightarrow> Inl (addr_error hostport ''missing ']' in address'')
                | Some e \<Rightarrow>
                    if e + 1 = length hostport then Inl (addr_error hostport ''missing port in address'')
                    else if e + 1 = i then finish (drop 1 (take e hostport)) 1 (e + 1) i
                    else if hostport ! (e + 1) = CHR '':'' then Inl (addr_error hostport ''too many colons in address'')
                    else Inl (addr_error hostport ''missing port in address''))
             else if CHR '':'' \<in> set (take i hostport) then Inl (addr_error hostport ''too many colons in address'')
             else finish (take i hostport) 0 0 i)"

definition JoinHostPort :: "string \<Rightarrow> string \<Rightarrow> string" where
  "JoinHostPort host port =
     (if CHR '':'' \<in> set host then ''['' @ host @ '']:'' @ port else host @ '':'' @ port)"

text \<open>
  \<^verbatim>\<open>net.LookupPort\<close>: \<^verbatim>\<open>parsePort\<close> reads a decimal number with an optional sign in
  32-bit arithmetic (\<^const>\<open>None\<close>: not a number); names are looked up in the
  system's table \<open>services\<close>.
\<close>

fun parse_port_loop :: "u32 \<Rightarrow> string \<Rightarrow> u32 option" where
  "parse_port_loop n [] = Some n"
| "parse_port_loop n (c # cs) =
     (if \<not> is_digit c then None
      else if n \<ge> 0x40000000 then Some 0xFFFFFFFF
      else
        (let m = n * 10; nn = m + of_nat (digit_val c) in
         if nn < m then Some 0xFFFFFFFF else parse_port_loop nn cs))"

definition LookupPort :: "(string \<Rightarrow> string + nat) \<Rightarrow> string \<Rightarrow> string + nat" where
  "LookupPort services service =
     (let neg = has_prefix service ''-'';
          digits = (if neg \<or> has_prefix service ''+'' then drop 1 service else service)
      in if service = [] then Inr 0
         else (case parse_port_loop 0 digits of
           None \<Rightarrow> services service
         | Some n \<Rightarrow>
             if (neg \<and> n \<noteq> 0) \<or> unat n > 65535 then Inl (addr_error service ''invalid port'') else Inr (unat n)))"

lemma Split_Join_HostPort:
  assumes "CHR '':'' \<notin> set port" and "set (host @ port) \<inter> {CHR ''['', CHR '']''} = {}"
  shows "SplitHostPort (JoinHostPort host port) = Inr (host, port)"
proof (cases "CHR '':'' \<in> set host")
  case False
  then have "last_index_byte (host @ CHR '':'' # port) (CHR '':'') = Some (length host)"
    using assms(1) by (simp add: last_index_byte_append)
  moreover have "hd (host @ CHR '':'' # port) \<noteq> CHR ''[''" using assms(2) by (cases host) auto
  ultimately show ?thesis using False assms by (auto simp: SplitHostPort_def JoinHostPort_def Let_def)
next
  case True
  let ?s = "CHR ''['' # host @ CHR '']'' # CHR '':'' # port"
  have l: "last_index_byte ?s (CHR '':'') = Some (length host + 2)"
    using last_index_byte_append [of "CHR '':''" port "CHR ''['' # host @ '']''"] assms(1) by simp
  have i: "index_byte ?s (CHR '']'') = Some (length host + 1)"
    using index_byte_append [of "CHR '']''" "CHR ''['' # host" "CHR '':'' # port"] assms(2) by simp
  have "JoinHostPort host port = ?s" using True by (simp add: JoinHostPort_def)
  then show ?thesis
    unfolding SplitHostPort_def Let_def by (simp only: l i option.case) (use assms(2) in auto)
qed

lemma parse_port_loop_show:
  assumes "parse_uint_loop 65535 (unat n) s = Inr v"
  shows "parse_port_loop n s = Some (of_nat v)"
  using assms
proof (induction s arbitrary: n)
  case (Cons c cs)
  have d: "is_digit c" "unat n * 10 + digit_val c \<le> 65535"
    "parse_uint_loop 65535 (unat n * 10 + digit_val c) cs = Inr v"
    using Cons.prems by (auto split: if_splits)
  have small: "unat n < 0x40000000" using d(2) by simp
  have m: "unat (n * 10) = unat n * 10" using d(2) by (subst unat_mult_lem [THEN iffD1]) auto
  have nn: "unat (n * 10 + of_nat (digit_val c)) = unat n * 10 + digit_val c"
    using d(2) by (simp add: unat_word_ariths m unat_of_nat take_bit_nat_eq_self)
  then have "\<not> n * 10 + of_nat (digit_val c) < n * 10" by (simp add: word_less_nat_alt m)
  moreover have "\<not> n \<ge> 0x40000000" using small by (simp add: word_le_nat_alt not_le)
  ultimately show ?case using d Cons.IH [of "n * 10 + of_nat (digit_val c)"] nn by (simp add: Let_def)
qed auto

lemma LookupPort_show: "p < 65536 \<Longrightarrow> LookupPort services (show_nat p) = Inr p"
proof -
  assume p: "p < 65536"
  have ns: "\<not> has_prefix (show_nat p) ''-''" "\<not> has_prefix (show_nat p) ''+''"
    using show_nat_no_sep [of "CHR ''-''" p] show_nat_no_sep [of "CHR ''+''" p]
    by (auto simp: has_prefix_iff is_digit_def)
  have "parse_port_loop 0 (show_nat p) = Some (of_nat p)"
    using parse_port_loop_show [of 0 "show_nat p" p] parse_show_nat_loop [of p 65535] p by simp
  moreover have "unat (of_nat p :: u32) = p" using p by (simp add: unat_of_nat take_bit_nat_eq_self)
  ultimately show ?thesis using p ns by (simp add: LookupPort_def)
qed

end
