(* ===== verification/Client_Headers.thy ===== *)
theory Client_Headers
  imports Client_Auth Wire_Headers Go_Net
begin

text \<open>
  The headers of a client request: \<^verbatim>\<open>applyModeHeaders\<close> and its helpers of
  \<^verbatim>\<open>client/client.go\<close>, the normalisation of \<^verbatim>\<open>client/helpers.go\<close>, and the URL helpers of
  \<^verbatim>\<open>client/url.go\<close>. What the request path reads of a preset is the record \<open>preset\<close>.
\<close>

section \<open>Requests\<close>

datatype fetch_mode = FetchModeNavigate | FetchModeCORS | FetchModeNoCors
datatype fetch_site = FetchSiteAuto | FetchSiteNone | FetchSiteSameOrigin | FetchSiteSameSite | FetchSiteCrossSite
datatype force_protocol = ForceAuto | ForceHTTP1 | ForceHTTP2 | ForceHTTP3

record client_redirect =
  cd_Hop :: nat
  cd_StatusCode :: int
  cd_Headers :: headers
  cd_From :: string
  cd_To :: string
  cd_Method :: string
  cd_CrossOrigin :: bool
  cd_SchemeDowngrade :: bool

datatype hop_answer = HopProceed | HopUseLastResponse | HopVeto string

text \<open>
  An authentication scheme is shared by pointer: \<open>cr_Auth\<close> is its address. A body is
  the data its reader still has. Copies of a request share the header map unless
  it is nil, which \<open>cr_HeadersNil\<close> says.
\<close>

record client_request =
  cr_Method :: string
  cr_URL :: string
  cr_Headers :: headers
  cr_HeadersNil :: bool
  cr_Body :: "byte list option"
  cr_Timeout :: duration
  cr_UserAgent :: string
  cr_ForceProtocol :: force_protocol
  cr_FetchMode :: fetch_mode
  cr_FetchSite :: fetch_site
  cr_FetchDest :: string
  cr_Referer :: string
  cr_Auth :: "nat option"
  cr_Params :: "(string, string) gomap"
  cr_FollowRedirects :: "bool option"
  cr_MaxRedirects :: int
  cr_DisableRetry :: bool
  cr_HeaderOrder :: "string list"
  cr_OnRedirect :: "(client_redirect \<Rightarrow> hop_answer) option"

record preset =
  pr_UserAgent :: string
  pr_Headers :: "(string, string) gomap"
  pr_NavigationAccept :: string
  pr_ImageAccept :: string
  pr_HasPriorityTable :: bool
  pr_PriorityFor :: "string \<Rightarrow> string option"
  pr_H2HeaderOrder :: "string list"
  pr_PseudoHeaderOrder :: "string list option"
  pr_NoRFC7540Priorities :: bool
  pr_SendsPriorityOverHTTP1 :: bool

definition to_upper :: "string \<Rightarrow> string" where
  "to_upper s = map upper_char s"

definition getHeaderCaseInsensitive :: "headers \<Rightarrow> string \<Rightarrow> string list option" where
  "getHeaderCaseInsensitive h key =
     (case map_of h key of
        Some vs \<Rightarrow> Some vs
      | None \<Rightarrow> map_option snd (find (\<lambda>(k, v). to_lower k = to_lower key) h))"

section \<open>Fetch mode\<close>

definition isAPIAcceptHeader :: "string \<Rightarrow> bool" where
  "isAPIAcceptHeader accept \<longleftrightarrow>
     (let lower = to_lower accept in
      contains lower ''application/json'' \<or> contains lower ''application/xml'' \<or> contains lower ''text/plain'' \<or>
      contains lower ''application/octet-stream'' \<or> lower = ''*/*'')"

definition isFormContentType :: "string \<Rightarrow> bool" where
  "isFormContentType ct \<longleftrightarrow>
     (let lower = to_lower ct in
      has_prefix lower ''application/x-www-form-urlencoded'' \<or> has_prefix lower ''multipart/form-data'')"

definition isAPIContentType :: "string \<Rightarrow> bool" where
  "isAPIContentType ct \<longleftrightarrow>
     (let lower = to_lower ct in
      has_prefix lower ''application/json'' \<or> has_prefix lower ''application/xml'' \<or>
      has_prefix lower ''application/octet-stream'' \<or> has_prefix lower ''application/grpc'' \<or>
      has_prefix lower ''application/x-protobuf'' \<or> has_prefix lower ''text/plain'' \<or>
      (has_prefix lower ''application/'' \<and> \<not> isFormContentType lower))"

text \<open>An explicit Sec-Fetch header decides, or leaves the decision open.\<close>

definition sniff_override :: "headers \<Rightarrow> bool option" where
  "sniff_override h =
     (let byMode = (case getHeaderCaseInsensitive h ''Sec-Fetch-Mode'' of
            Some (v # _) \<Rightarrow>
              if to_lower v \<in> {''cors'', ''no-cors'', ''websocket''} then Some True
              else if to_lower v = ''navigate'' then Some False else None
          | _ \<Rightarrow> None)
      in case byMode of
           Some b \<Rightarrow> Some b
         | None \<Rightarrow>
             (case getHeaderCaseInsensitive h ''Sec-Fetch-Dest'' of
                Some (v # _) \<Rightarrow> Some (to_lower v \<noteq> ''document'')
              | _ \<Rightarrow> None))"

definition sniffXHRMode :: "client_request \<Rightarrow> bool" where
  "sniffXHRMode req =
     (case sniff_override (cr_Headers req) of
        Some b \<Rightarrow> b
      | None \<Rightarrow>
          if (case getHeaderCaseInsensitive (cr_Headers req) ''Accept'' of Some (a # _) \<Rightarrow> isAPIAcceptHeader a | _ \<Rightarrow> False)
          then True
          else if to_upper (cr_Method req) \<in> {''GET'', ''HEAD'', ''OPTIONS'', []} then False
          else if to_upper (cr_Method req) = ''DELETE'' then True
          else (case getHeaderCaseInsensitive (cr_Headers req) ''Content-Type'' of
                  Some (ct # _) \<Rightarrow>
                    if isFormContentType ct then False else if isAPIContentType ct then True else True
                | _ \<Rightarrow> True))"

definition effective_mode :: "client_request \<Rightarrow> fetch_mode" where
  "effective_mode req =
     (if cr_FetchMode req = FetchModeNavigate \<and> sniffXHRMode req then FetchModeCORS else cr_FetchMode req)"

section \<open>Sites\<close>

definition extractSite :: "string \<Rightarrow> string" where
  "extractSite hostname =
     (if ParseIP hostname \<noteq> None then hostname
      else
        (let parts = split_on (CHR ''.'') hostname; n = length parts in
         if n \<le> 2 then hostname
         else if length (parts ! (n - 2)) \<le> 3 then join ''.'' (drop (n - 3) parts)
         else join ''.'' (drop (n - 2) parts)))"

definition detectSecFetchSiteForMode :: "url_lib \<Rightarrow> fetch_site \<Rightarrow> url \<Rightarrow> string \<Rightarrow> fetch_mode \<Rightarrow> string" where
  "detectSecFetchSiteForMode ul fetchSite requestURL referer mode =
     (if fetchSite = FetchSiteNone \<and> mode \<noteq> FetchModeCORS then ''none''
      else if fetchSite = FetchSiteSameOrigin then ''same-origin''
      else if fetchSite = FetchSiteSameSite then ''same-site''
      else if fetchSite = FetchSiteCrossSite then ''cross-site''
      else
        (let unknown = (if mode = FetchModeCORS \<or> mode = FetchModeNoCors then ''cross-site'' else ''none'') in
         if referer = [] then unknown
         else (case ul_Parse ul referer of
                 None \<Rightarrow> unknown
               | Some refererURL \<Rightarrow>
                   if url_Scheme requestURL = url_Scheme refererURL \<and> url_Host requestURL = url_Host refererURL
                   then ''same-origin''
                   else if extractSite (url_Hostname requestURL) = extractSite (url_Hostname refererURL) \<and>
                           url_Scheme requestURL = url_Scheme refererURL
                   then ''same-site'' else ''cross-site'')))"

section \<open>Headers of the modes\<close>

definition preset_or :: "preset \<Rightarrow> string \<Rightarrow> string \<Rightarrow> string" where
  "preset_or p key dflt = (case map_of (pr_Headers p) key of Some v \<Rightarrow> v | None \<Rightarrow> dflt)"

definition set_if_preset :: "preset \<Rightarrow> string \<Rightarrow> string \<Rightarrow> headers \<Rightarrow> headers" where
  "set_if_preset p key name h = (case map_of (pr_Headers p) key of Some v \<Rightarrow> header_Set name v h | None \<Rightarrow> h)"

definition low_entropy_hints :: "preset \<Rightarrow> headers \<Rightarrow> headers" where
  "low_entropy_hints p h =
     set_if_preset p ''sec-ch-ua-platform'' ''Sec-Ch-Ua-Platform''
       (set_if_preset p ''sec-ch-ua-mobile'' ''Sec-Ch-Ua-Mobile''
         (set_if_preset p ''sec-ch-ua'' ''Sec-Ch-Ua'' h))"

definition applyNavigationModeHeaders :: "preset \<Rightarrow> headers \<Rightarrow> headers" where
  "applyNavigationModeHeaders p h0 =
     (let h = low_entropy_hints p h0;
          h = header_Set ''Accept'' (pr_NavigationAccept p) h;
          h = header_Set ''Accept-Encoding'' (preset_or p ''Accept-Encoding'' ''gzip, deflate, br, zstd'') h;
          h = header_Set ''Accept-Language'' (preset_or p ''Accept-Language'' ''en-US,en;q=0.9'') h;
          h = header_Set ''Sec-Fetch-Dest'' ''document'' h;
          h = header_Set ''Sec-Fetch-Mode'' ''navigate'' h;
          h = header_Set ''Sec-Fetch-User'' ''?1'' h;
          h = header_Set ''Upgrade-Insecure-Requests'' ''1'' h;
          h = set_if_preset p ''Priority'' ''Priority'' h
      in set_if_preset p ''TE'' ''TE'' h)"

definition cors_origin :: "url_lib \<Rightarrow> client_request \<Rightarrow> url \<Rightarrow> headers \<Rightarrow> headers" where
  "cors_origin ul req parsedURL h =
     (if cr_Referer req \<noteq> [] then
        (case ul_Parse ul (cr_Referer req) of
           Some refURL \<Rightarrow> header_Set ''Origin'' (url_Scheme refURL @ ''://'' @ url_Host refURL) h
         | None \<Rightarrow> h)
      else header_Set ''Origin'' (url_Scheme parsedURL @ ''://'' @ url_Host parsedURL) h)"

definition applyCORSModeHeaders :: "url_lib \<Rightarrow> preset \<Rightarrow> client_request \<Rightarrow> url \<Rightarrow> headers \<Rightarrow> headers" where
  "applyCORSModeHeaders ul p req parsedURL h0 =
     (let h = low_entropy_hints p h0;
          accept = (case getHeaderCaseInsensitive (cr_Headers req) ''Accept'' of
                      Some (a # _) \<Rightarrow> if a \<noteq> [] then a else ''*/*'' | _ \<Rightarrow> ''*/*'');
          h = header_Set ''Accept'' accept h;
          h = header_Set ''Accept-Encoding'' (preset_or p ''Accept-Encoding'' ''gzip, deflate, br, zstd'') h;
          h = header_Set ''Accept-Language'' (preset_or p ''Accept-Language'' ''en-US,en;q=0.9'') h;
          h = header_Set ''Sec-Fetch-Dest'' ''empty'' h;
          h = header_Set ''Sec-Fetch-Mode'' ''cors'' h;
          h = cors_origin ul req parsedURL h
      in header_Set ''Priority'' ''u=1, i'' h)"

definition applyNoCorsHeaders :: "preset \<Rightarrow> client_request \<Rightarrow> headers \<Rightarrow> headers" where
  "applyNoCorsHeaders p req h0 =
     (let h = low_entropy_hints p h0;
          dest = cr_FetchDest req;
          h = header_Set ''Accept'' (if dest = ''style'' then ''text/css,*/*;q=0.1''
                else if dest = ''image'' then pr_ImageAccept p else ''*/*'') h;
          h = header_Set ''Accept-Encoding'' ''gzip, deflate, br, zstd'' h;
          h = header_Set ''Accept-Language'' ''en-US,en;q=0.9'' h;
          h = header_Set ''Sec-Fetch-Mode'' ''no-cors'' h
      in header_Set ''Sec-Fetch-Dest'' (if dest \<noteq> [] then dest else ''empty'') h)"

definition applyTablePriority :: "preset \<Rightarrow> headers \<Rightarrow> headers" where
  "applyTablePriority p h =
     (if \<not> pr_HasPriorityTable p then h
      else (case pr_PriorityFor p (header_Get h ''Sec-Fetch-Dest'') of
              None \<Rightarrow> h
            | Some hv \<Rightarrow> if hv = [] then header_Del ''Priority'' h else header_Set ''Priority'' hv h))"

text \<open>The caller's headers: the first value replaces, the others are added.\<close>

definition user_header :: "string \<times> string list \<Rightarrow> headers \<Rightarrow> headers" where
  "user_header = (\<lambda>(key, values) h.
     (case values of [] \<Rightarrow> h | v # vs \<Rightarrow> fold (header_Add key) vs (header_Set key v h)))"

definition set_orders :: "preset \<Rightarrow> string list \<Rightarrow> headers \<Rightarrow> headers" where
  "set_orders p customHeaderOrder h =
     (let h' = AList.update HeaderOrderKey (CompleteHeaderOrder customHeaderOrder (pr_H2HeaderOrder p) h []) h
      in AList.update PHeaderOrderKey
           (case pr_PseudoHeaderOrder p of
              Some order \<Rightarrow> order
            | None \<Rightarrow> if pr_NoRFC7540Priorities p then ['':method'', '':scheme'', '':path'', '':authority'']
                      else ['':method'', '':authority'', '':scheme'', '':path'']) h')"

definition mode_headers :: "url_lib \<Rightarrow> preset \<Rightarrow> client_request \<Rightarrow> url \<Rightarrow> headers \<Rightarrow> headers" where
  "mode_headers ul p req parsedURL h0 =
     (let h = header_Set ''User-Agent'' (if cr_UserAgent req \<noteq> [] then cr_UserAgent req else pr_UserAgent p) h0;
          h = header_Set ''Host'' (url_Hostname parsedURL) h;
          h = (if cr_Referer req \<noteq> [] then header_Set ''Referer'' (cr_Referer req) h else h);
          mode = effective_mode req;
          h = header_Set ''Sec-Fetch-Site'' (detectSecFetchSiteForMode ul (cr_FetchSite req) parsedURL (cr_Referer req) mode) h;
          h = (case mode of
                 FetchModeCORS \<Rightarrow> applyCORSModeHeaders ul p req parsedURL h
               | FetchModeNoCors \<Rightarrow> applyNoCorsHeaders p req h
               | FetchModeNavigate \<Rightarrow> applyNavigationModeHeaders p h)
      in applyTablePriority p h)"

definition applyModeHeaders :: "url_lib \<Rightarrow> preset \<Rightarrow> client_request \<Rightarrow> url \<Rightarrow> string list \<Rightarrow> headers \<Rightarrow> headers" where
  "applyModeHeaders ul p req parsedURL customHeaderOrder h =
     set_orders p customHeaderOrder (fold user_header (cr_Headers req) (mode_headers ul p req parsedURL h))"

definition applyTLSOnlyHeaders :: "preset \<Rightarrow> client_request \<Rightarrow> url \<Rightarrow> string list \<Rightarrow> headers \<Rightarrow> headers" where
  "applyTLSOnlyHeaders p req parsedURL customHeaderOrder h0 =
     (let h = header_Set ''Host'' (url_Hostname parsedURL) h0;
          h = fold user_header (cr_Headers req) h;
          h = (if getHeaderCaseInsensitive (cr_Headers req) ''User-Agent'' = None then header_Set ''User-Agent'' [] h else h)
      in set_orders p customHeaderOrder h)"

section \<open>Coherence\<close>

definition known_names :: "string list" where
  "known_names = [''Accept'', ''Accept-Encoding'', ''Accept-Language'', ''Sec-Fetch-Dest'', ''Sec-Fetch-Mode'', ''Sec-Fetch-User'',
     ''Sec-Fetch-Site'', ''Upgrade-Insecure-Requests'', ''Priority'', ''Origin'', ''User-Agent'', ''Host'', ''Referer'',
     ''Sec-Ch-Ua'', ''Sec-Ch-Ua-Mobile'', ''Sec-Ch-Ua-Platform'', ''Cookie'', ''Content-Length'', ''Content-Type'', ''Location'']"

lemma known_canonical: "list_all (\<lambda>k. CanonicalHeaderKey k = k) known_names"
  by code_simp

lemma known_names_canonical [simp]:
  "CanonicalHeaderKey ''Accept'' = ''Accept''" "CanonicalHeaderKey ''Accept-Encoding'' = ''Accept-Encoding''"
  "CanonicalHeaderKey ''Accept-Language'' = ''Accept-Language''" "CanonicalHeaderKey ''Sec-Fetch-Dest'' = ''Sec-Fetch-Dest''"
  "CanonicalHeaderKey ''Sec-Fetch-Mode'' = ''Sec-Fetch-Mode''" "CanonicalHeaderKey ''Sec-Fetch-User'' = ''Sec-Fetch-User''"
  "CanonicalHeaderKey ''Sec-Fetch-Site'' = ''Sec-Fetch-Site''"
  "CanonicalHeaderKey ''Upgrade-Insecure-Requests'' = ''Upgrade-Insecure-Requests''"
  "CanonicalHeaderKey ''Priority'' = ''Priority''" "CanonicalHeaderKey ''Origin'' = ''Origin''"
  "CanonicalHeaderKey ''User-Agent'' = ''User-Agent''" "CanonicalHeaderKey ''Host'' = ''Host''"
  "CanonicalHeaderKey ''Referer'' = ''Referer''" "CanonicalHeaderKey ''Sec-Ch-Ua'' = ''Sec-Ch-Ua''"
  "CanonicalHeaderKey ''Sec-Ch-Ua-Mobile'' = ''Sec-Ch-Ua-Mobile''"
  "CanonicalHeaderKey ''Sec-Ch-Ua-Platform'' = ''Sec-Ch-Ua-Platform''" "CanonicalHeaderKey ''Cookie'' = ''Cookie''"
  "CanonicalHeaderKey ''Content-Length'' = ''Content-Length''" "CanonicalHeaderKey ''Content-Type'' = ''Content-Type''"
  "CanonicalHeaderKey ''Location'' = ''Location''"
  using known_canonical unfolding known_names_def by simp_all

lemma canonical_TE [simp]: "CanonicalHeaderKey ''TE'' = ''Te''"
  by code_simp

definition fetch_keys :: "string list" where
  "fetch_keys = [''Sec-Fetch-Mode'', ''Sec-Fetch-Dest'', ''Sec-Fetch-Site'', ''Sec-Fetch-User'', ''Upgrade-Insecure-Requests'']"

lemma user_header_other: "k \<noteq> CanonicalHeaderKey (fst e) \<Longrightarrow> map_of (user_header e h) k = map_of h k"
proof -
  assume k: "k \<noteq> CanonicalHeaderKey (fst e)"
  have a: "map_of (fold (header_Add (fst e)) vs h) k = map_of h k" for vs h
    using k by (induction vs arbitrary: h) (auto simp: map_of_header_Add)
  show ?thesis using k a by (cases e) (auto simp: user_header_def map_of_header_Set split: list.split)
qed

lemma user_headers_other:
  "list_all (\<lambda>e. k \<noteq> CanonicalHeaderKey (fst e)) es \<Longrightarrow> map_of (fold user_header es h) k = map_of h k"
  by (induction es arbitrary: h) (auto simp: user_header_other)

lemma set_orders_other: "k \<noteq> HeaderOrderKey \<Longrightarrow> k \<noteq> PHeaderOrderKey \<Longrightarrow> map_of (set_orders p c h) k = map_of h k"
  by (simp add: set_orders_def Let_def)

lemma set_if_preset_other: "k \<noteq> CanonicalHeaderKey name \<Longrightarrow> map_of (set_if_preset p key name h) k = map_of h k"
  by (auto simp: set_if_preset_def map_of_header_Set split: option.split)

lemma hints_other: "k \<notin> {''Sec-Ch-Ua'', ''Sec-Ch-Ua-Mobile'', ''Sec-Ch-Ua-Platform''} \<Longrightarrow> map_of (low_entropy_hints p h) k = map_of h k"
  by (simp add: low_entropy_hints_def set_if_preset_other)

lemma table_priority_other: "k \<noteq> ''Priority'' \<Longrightarrow> map_of (applyTablePriority p h) k = map_of h k"
  by (auto simp: applyTablePriority_def map_of_header_Set map_of_header_Del split: option.split)

lemma cors_origin_other: "k \<noteq> ''Origin'' \<Longrightarrow> map_of (cors_origin ul req u h) k = map_of h k"
  by (auto simp: cors_origin_def map_of_header_Set split: option.split)

text \<open>What each mode says about the fetch.\<close>

definition fetch_metadata :: "fetch_mode \<Rightarrow> string \<Rightarrow> string \<Rightarrow> string \<Rightarrow> string list option" where
  "fetch_metadata mode site dest k =
     (if k = ''Sec-Fetch-Site'' then Some [site]
      else if k = ''Sec-Fetch-Mode'' then
        Some [case mode of FetchModeCORS \<Rightarrow> ''cors'' | FetchModeNoCors \<Rightarrow> ''no-cors'' | FetchModeNavigate \<Rightarrow> ''navigate'']
      else if k = ''Sec-Fetch-Dest'' then
        Some [case mode of FetchModeCORS \<Rightarrow> ''empty'' | FetchModeNavigate \<Rightarrow> ''document''
              | FetchModeNoCors \<Rightarrow> if dest = [] then ''empty'' else dest]
      else if mode \<noteq> FetchModeNavigate then None
      else if k = ''Sec-Fetch-User'' then Some [''?1''] else Some [''1''])"

lemma mode_headers_fetch:
  assumes "k \<in> set fetch_keys" and "map_of h k = None"
  shows "map_of (mode_headers ul p req u h) k = fetch_metadata (effective_mode req)
    (detectSecFetchSiteForMode ul (cr_FetchSite req) u (cr_Referer req) (effective_mode req)) (cr_FetchDest req) k"
proof -
  have k: "k = ''Sec-Fetch-Mode'' \<or> k = ''Sec-Fetch-Dest'' \<or> k = ''Sec-Fetch-Site'' \<or> k = ''Sec-Fetch-User'' \<or> k = ''Upgrade-Insecure-Requests''"
    using assms(1) by (simp add: fetch_keys_def)
  show ?thesis
  proof (cases "effective_mode req")
    case FetchModeNavigate
    then show ?thesis using assms(2) k
      by (elim disjE) (simp_all add: mode_headers_def Let_def table_priority_other applyNavigationModeHeaders_def set_if_preset_other
          hints_other map_of_header_Set fetch_metadata_def)
  next
    case FetchModeCORS
    then show ?thesis using assms(2) k
      by (elim disjE) (simp_all add: mode_headers_def Let_def table_priority_other applyCORSModeHeaders_def cors_origin_other
          hints_other map_of_header_Set fetch_metadata_def)
  next
    case FetchModeNoCors
    then show ?thesis using assms(2) k
      by (elim disjE) (simp_all add: mode_headers_def Let_def table_priority_other applyNoCorsHeaders_def
          hints_other map_of_header_Set fetch_metadata_def)
  qed
qed

lemma fetch_site_cors: "detectSecFetchSiteForMode ul site u ref FetchModeCORS \<noteq> ''none''"
  by (auto simp: detectSecFetchSiteForMode_def Let_def split: option.split)


definition demo_preset :: preset where
  "demo_preset = \<lparr>pr_UserAgent = ''ua'', pr_Headers = [], pr_NavigationAccept = ''text/html'', pr_ImageAccept = ''image/*'',
     pr_HasPriorityTable = False, pr_PriorityFor = (\<lambda>d. None), pr_H2HeaderOrder = [''host'', ''cookie''], pr_PseudoHeaderOrder = None,
     pr_NoRFC7540Priorities = False, pr_SendsPriorityOverHTTP1 = False\<rparr>"

definition client_get :: "string \<Rightarrow> client_request" where
  "client_get url = \<lparr>cr_Method = ''GET'', cr_URL = url, cr_Headers = [], cr_HeadersNil = True, cr_Body = None, cr_Timeout = 0, cr_UserAgent = [],
     cr_ForceProtocol = ForceAuto, cr_FetchMode = FetchModeNavigate, cr_FetchSite = FetchSiteAuto, cr_FetchDest = [],
     cr_Referer = [], cr_Auth = None, cr_Params = [], cr_FollowRedirects = None, cr_MaxRedirects = 0,
     cr_DisableRetry = False, cr_HeaderOrder = [], cr_OnRedirect = None\<rparr>"

definition page_url :: "string \<Rightarrow> url" where
  "page_url host = \<lparr>url_Scheme = ''https'', url_User = None, url_Host = host, url_Path = ''/'', url_RawPath = [], url_RawQuery = [],
     url_Fragment = [], url_RawFragment = []\<rparr>"

definition no_urls :: url_lib where
  "no_urls = \<lparr>ul_Parse = (\<lambda>s. None), ul_String = (\<lambda>u. []), ul_ResolveReference = (\<lambda>a b. b)\<rparr>"


text \<open>Lemma. A subresource load can claim to come from no site, which only a navigation can.\<close>

lemma nocors_site_none:
  "detectSecFetchSiteForMode ul FetchSiteNone u ref FetchModeNoCors = ''none''"
  by (simp add: detectSecFetchSiteForMode_def)

text \<open>
  Lemma. Hosts of one site are taken for different sites when the name of the
  site has at most three letters, since that is taken for a two-part suffix.
\<close>

theorem short_site_split:
  "extractSite ''www.example.com'' = extractSite ''m.example.com'' \<and> extractSite ''www.bbc.com'' \<noteq> extractSite ''m.bbc.com''"
  by code_simp

section \<open>Normalisation\<close>

definition isLikelyJSON :: "string \<Rightarrow> bool" where
  "isLikelyJSON body \<longleftrightarrow> length body \<ge> 2 \<and>
     ((hd body = CHR ''{'' \<and> last body = CHR ''}'') \<or> (hd body = CHR ''['' \<and> last body = CHR '']''))"

definition isFormEncoded :: "string \<Rightarrow> bool" where
  "isFormEncoded body \<longleftrightarrow> CHR ''='' \<in> set body \<and> CHR 0x0A \<notin> set body \<and> CHR '' '' \<notin> set body"

definition detectContentType :: "byte list \<Rightarrow> string" where
  "detectContentType body =
     (if body = [] then []
      else
        (let trimmed = trim_space (string_of body) in
         if trimmed \<noteq> [] \<and> (hd trimmed = CHR ''{'' \<or> hd trimmed = CHR ''['') \<and> isLikelyJSON trimmed then ''application/json''
         else if trimmed \<noteq> [] \<and> hd trimmed = CHR ''<'' \<and>
                 (has_prefix trimmed ''<?xml'' \<or> has_prefix trimmed ''<soap'' \<or> has_prefix trimmed ''<SOAP'')
         then ''application/xml''
         else if trimmed \<noteq> [] \<and> hd trimmed = CHR ''<'' \<and> contains (take 100 trimmed) ''html'' then ''text/html''
         else if isFormEncoded trimmed then ''application/x-www-form-urlencoded''
         else []))"

definition hasBody :: "string \<Rightarrow> bool" where
  "hasBody method \<longleftrightarrow> to_upper method \<in> {''POST'', ''PUT'', ''PATCH''}"

definition normalizeRequest :: "string \<Rightarrow> nat \<Rightarrow> headers \<Rightarrow> headers" where
  "normalizeRequest method0 bodyLen h =
     (let method = to_upper method0;
          h' = (if bodyLen > 0 then header_Set ''Content-Length'' (show_nat bodyLen) h
                else if method \<in> {''POST'', ''PUT'', ''PATCH''} then header_Set ''Content-Length'' ''0'' h else h)
      in if method \<in> {''GET'', ''HEAD'', ''OPTIONS'', ''TRACE''} \<and> bodyLen = 0 then header_Del ''Content-Length'' h' else h')"

definition normalizeRequestWithBody :: "string \<Rightarrow> byte list \<Rightarrow> headers \<Rightarrow> headers" where
  "normalizeRequestWithBody method body h =
     (let h' = normalizeRequest method (length body) h in
      if body \<noteq> [] \<and> header_Get h' ''Content-Type'' = [] \<and> detectContentType body \<noteq> []
      then header_Set ''Content-Type'' (detectContentType body) h' else h')"

section \<open>URLs\<close>

text \<open>Of \<^verbatim>\<open>net/url\<close> also the query of a URL and its encoding, the fields of \<open>q\<close>.\<close>

record query_lib =
  ql_Query :: "url \<Rightarrow> (string, string list) gomap"
  ql_Encode :: "(string, string list) gomap \<Rightarrow> string"

definition values_Add :: "string \<Rightarrow> string \<Rightarrow> (string, string list) gomap \<Rightarrow> (string, string list) gomap" where
  "values_Add key v m = AList.update key ((case map_of m key of Some vs \<Rightarrow> vs | None \<Rightarrow> []) @ [v]) m"

record url_builder =
  ub_base :: string
  ub_params :: "(string, string list) gomap"

definition NewURLBuilder :: "string \<Rightarrow> url_builder" where
  "NewURLBuilder baseURL = \<lparr>ub_base = baseURL, ub_params = []\<rparr>"

definition ub_Param :: "string \<Rightarrow> string \<Rightarrow> url_builder \<Rightarrow> url_builder" where
  "ub_Param key v b = b\<lparr>ub_params := AList.update key [v] (ub_params b)\<rparr>"

definition ub_Params :: "(string, string) gomap \<Rightarrow> url_builder \<Rightarrow> url_builder" where
  "ub_Params params b = fold (\<lambda>(key, v). ub_Param key v) params b"

definition ub_AddParam :: "string \<Rightarrow> string \<Rightarrow> url_builder \<Rightarrow> url_builder" where
  "ub_AddParam key v b = b\<lparr>ub_params := values_Add key v (ub_params b)\<rparr>"

definition ub_merge :: "query_lib \<Rightarrow> url \<Rightarrow> url_builder \<Rightarrow> (string, string list) gomap" where
  "ub_merge q parsed b = fold (\<lambda>(key, vs) m. fold (values_Add key) vs m) (ub_params b) (ql_Query q parsed)"

definition ub_Build :: "url_lib \<Rightarrow> query_lib \<Rightarrow> url_builder \<Rightarrow> string" where
  "ub_Build ul q b =
     (if ub_params b = [] then ub_base b
      else (case ul_Parse ul (ub_base b) of
              None \<Rightarrow> ub_base b @ ''?'' @ ql_Encode q (ub_params b)
            | Some parsed \<Rightarrow> ul_String ul (parsed\<lparr>url_RawQuery := ql_Encode q (ub_merge q parsed b)\<rparr>)))"

definition JoinURL :: "url_lib \<Rightarrow> string \<Rightarrow> string \<Rightarrow> string" where
  "JoinURL ul base path =
     (if path = [] then base
      else if has_prefix path ''http://'' \<or> has_prefix path ''https://'' then path
      else (case ul_Parse ul base of
              None \<Rightarrow> base @ ''/'' @ trim_prefix path ''/''
            | Some parsed \<Rightarrow>
                if has_prefix path ''//'' then url_Scheme parsed @ '':'' @ path
                else if has_prefix path ''/'' then ul_String ul (parsed\<lparr>url_Path := path, url_RawQuery := []\<rparr>)
                else
                  (let p = url_Path parsed;
                       dir = (if has_suffix p ''/'' then p
                              else (case last_index_byte p (CHR ''/'') of
                                      Some lastSlash \<Rightarrow> take (lastSlash + 1) p
                                    | None \<Rightarrow> ''/''))
                   in ul_String ul (parsed\<lparr>url_Path := dir @ path, url_RawQuery := []\<rparr>))))"

text \<open>
  Lemma. A relative Location with a query loses it: the query is put into the
  path of the URL, with the question mark, and the query of the URL is empty.
\<close>

theorem join_url_query_in_path:
  assumes "ul_Parse ul base = Some u"
  shows "JoinURL ul base ''/login?next=1'' = ul_String ul (u\<lparr>url_Path := ''/login?next=1'', url_RawQuery := []\<rparr>)"
  using assms by (simp add: JoinURL_def has_prefix_def)

theorem join_url_query_in_path_witness:
  "JoinURL \<lparr>ul_Parse = (\<lambda>s. Some (page_url ''a.test'')), ul_String = url_RawQuery, ul_ResolveReference = (\<lambda>a b. b)\<rparr> ''https://a.test/'' ''/login?next=1'' = []"
  by (subst join_url_query_in_path) simp_all

end
