(* ===== verification/Client_Pin.thy ===== *)
theory Client_Pin
  imports Go_Encoding
begin

text \<open>
  \<^verbatim>\<open>client/certpin.go\<close>: certificate pinning. SHA-256 is the argument \<open>sha256\<close>; decoding a
  PEM block and parsing the certificate in it is the argument \<open>parsePEM\<close>.
\<close>

section \<open>Pins\<close>

datatype pin_type = PinTypeSHA256 | PinTypeCertificate

record certificate_pin =
  pin_Type :: pin_type
  pin_Hash :: string
  pin_Host :: string
  pin_IncludeSubdomains :: bool

record cert_pinner =
  cp_pins :: "certificate_pin list"
  cp_allowExpiry :: bool

record certificate =
  ce_RawSubjectPublicKeyInfo :: "byte list"

record cert_pin_error =
  pe_Host :: string
  pe_ExpectedHashes :: "string list"
  pe_ActualHashes :: "string list"

datatype pin_failure = NoCertificates | CertPinError cert_pin_error

definition NewCertPinner :: cert_pinner where
  "NewCertPinner = \<lparr>cp_pins = [], cp_allowExpiry = False\<rparr>"

definition ForHost :: "string \<Rightarrow> certificate_pin \<Rightarrow> certificate_pin" where
  "ForHost host p = p\<lparr>pin_Host := host\<rparr>"

definition IncludeSubdomains :: "certificate_pin \<Rightarrow> certificate_pin" where
  "IncludeSubdomains p = p\<lparr>pin_IncludeSubdomains := True\<rparr>"

definition normalizeHash :: "string \<Rightarrow> string" where
  "normalizeHash hash0 =
     (let hash = trim_prefix (trim_prefix hash0 ''sha256/'') ''sha256:''
      in if length hash = 64 \<and> list_all (\<lambda>c. c \<notin> set ''+/='') hash then
           (case hex_decode hash of Some decoded \<Rightarrow> b64_encode decoded | None \<Rightarrow> hash)
         else hash)"

definition add_pin :: "string \<Rightarrow> (certificate_pin \<Rightarrow> certificate_pin) list \<Rightarrow> cert_pinner \<Rightarrow> cert_pinner" where
  "add_pin hash opts p =
     p\<lparr>cp_pins := cp_pins p @ [fold (\<lambda>opt pin. opt pin) opts
         \<lparr>pin_Type = PinTypeSHA256, pin_Hash = hash, pin_Host = [], pin_IncludeSubdomains = False\<rparr>]\<rparr>"

definition AddPin :: "string \<Rightarrow> (certificate_pin \<Rightarrow> certificate_pin) list \<Rightarrow> cert_pinner \<Rightarrow> cert_pinner" where
  "AddPin hash opts p = add_pin (normalizeHash hash) opts p"

definition CalculateSPKIHash :: "(byte list \<Rightarrow> byte list) \<Rightarrow> certificate \<Rightarrow> string" where
  "CalculateSPKIHash sha256 cert = b64_encode (sha256 (ce_RawSubjectPublicKeyInfo cert))"

definition AddPinFromPEM ::
    "(byte list \<Rightarrow> string + certificate) \<Rightarrow> (byte list \<Rightarrow> byte list) \<Rightarrow> byte list \<Rightarrow>
     (certificate_pin \<Rightarrow> certificate_pin) list \<Rightarrow> cert_pinner \<Rightarrow> string option \<times> cert_pinner" where
  "AddPinFromPEM parsePEM sha256 pem opts p =
     (case parsePEM pem of
        Inl err \<Rightarrow> (Some err, p)
      | Inr cert \<Rightarrow> (None, add_pin (CalculateSPKIHash sha256 cert) opts p))"

definition pin_applies :: "string \<Rightarrow> certificate_pin \<Rightarrow> bool" where
  "pin_applies host pin \<longleftrightarrow>
     pin_Host pin = [] \<or> pin_Host pin = host \<or> (pin_IncludeSubdomains pin \<and> has_suffix host (''.'' @ pin_Host pin))"

definition getPinsForHost :: "string \<Rightarrow> cert_pinner \<Rightarrow> certificate_pin list" where
  "getPinsForHost host p = filter (pin_applies host) (cp_pins p)"

definition pin_Verify ::
    "(byte list \<Rightarrow> byte list) \<Rightarrow> string \<Rightarrow> certificate list \<Rightarrow> cert_pinner \<Rightarrow> pin_failure option" where
  "pin_Verify sha256 host certs p =
     (if cp_pins p = [] then None
      else if certs = [] then Some NoCertificates
      else
        (let applicable = getPinsForHost host p in
         if applicable = [] then None
         else if list_ex (\<lambda>cert. list_ex (\<lambda>pin. pin_Hash pin = CalculateSPKIHash sha256 cert) applicable) certs then None
         else Some (CertPinError \<lparr>pe_Host = host, pe_ExpectedHashes = map pin_Hash applicable,
                                 pe_ActualHashes = map (CalculateSPKIHash sha256) certs\<rparr>)))"

definition pin_Clear :: "cert_pinner \<Rightarrow> cert_pinner" where
  "pin_Clear p = p\<lparr>cp_pins := []\<rparr>"

definition HasPins :: "cert_pinner \<Rightarrow> bool" where
  "HasPins p \<longleftrightarrow> cp_pins p \<noteq> []"

section \<open>Formats\<close>

lemma length_hex_encode: "length (hex_encode bs) = 2 * length bs"
  by (induction bs) (simp_all add: hex_encode_def)

lemma length_b64_encode: "length (b64_encode bs) = 4 * ((length bs + 2) div 3)"
  by (induction bs rule: b64_encode.induct) (simp_all add: Let_def, presburger)

lemma hex_digit_plain: "i < 16 \<Longrightarrow> hex_digit i \<notin> set ''+/='' \<and> hex_digit i \<noteq> CHR ''s''"
proof -
  have "list_all (\<lambda>i. hex_digit i \<notin> set ''+/='' \<and> hex_digit i \<noteq> CHR ''s'') [0..<16]" by code_simp
  then show "i < 16 \<Longrightarrow> ?thesis" by (auto simp: list_all_iff)
qed

lemma hex_encode_plain: "c \<in> set (hex_encode bs) \<Longrightarrow> c \<notin> set ''+/='' \<and> c \<noteq> CHR ''s''"
proof -
  assume "c \<in> set (hex_encode bs)"
  then obtain b where b: "c = hex_digit (unat (b :: byte) div 16) \<or> c = hex_digit (unat b mod 16)"
    by (auto simp: hex_encode_def)
  have "unat b div 16 < 16" using byte_bound [of b] by simp
  then show ?thesis using b hex_digit_plain by (metis mod_less_divisor zero_less_numeral)
qed

lemma trim_prefix_sha256: "CHR ''s'' \<notin> set s \<Longrightarrow> trim_prefix s (''sha256'' @ x) = s"
  by (cases s) (auto simp: trim_prefix_def has_prefix_def)

lemma trim_prefix_append: "trim_prefix (p @ s) p = s"
  by (simp add: trim_prefix_def)

lemma normalize_hex:
  assumes "length d = 32"
  shows "normalizeHash (hex_encode d) = b64_encode d" and "normalizeHash (''sha256:'' @ hex_encode d) = b64_encode d"
proof -
  have h: "CHR ''s'' \<notin> set (hex_encode d)" "list_all (\<lambda>c. c \<notin> set ''+/='') (hex_encode d)" "length (hex_encode d) = 64"
    using hex_encode_plain assms by (auto simp: list_all_iff length_hex_encode)
  have t: "trim_prefix (hex_encode d) ''sha256/'' = hex_encode d" "trim_prefix (hex_encode d) ''sha256:'' = hex_encode d"
    using trim_prefix_sha256 [OF h(1), of "''/''"] trim_prefix_sha256 [OF h(1), of "'':''"] by simp_all
  have p: "trim_prefix (''sha256:'' @ hex_encode d) ''sha256/'' = ''sha256:'' @ hex_encode d"
    by (simp add: trim_prefix_def has_prefix_def)
  show "normalizeHash (hex_encode d) = b64_encode d" using h t by (simp add: normalizeHash_def)
  show "normalizeHash (''sha256:'' @ hex_encode d) = b64_encode d"
    unfolding normalizeHash_def p trim_prefix_append using h by (simp add: Let_def)
qed

lemma b64_encode_chars: "set (b64_encode bs) \<subseteq> insert (CHR ''='') (b64_char ` {..<64})"
proof (induction bs rule: b64_encode.induct)
  case (1 a b d rest)
  have "(unat a * 65536 + unat b * 256 + unat d) div 262144 < 64"
    using triple_parts(1) [OF byte_bound [of a] byte_bound [of b] byte_bound [of d] refl] .
  then show ?case using 1 by (simp add: Let_def)
next
  case (2 a b)
  have "(unat a * 65536 + unat b * 256) div 262144 < 64"
    using triple_parts(1) [OF byte_bound [of a] byte_bound [of b], of 0] by simp
  then show ?case by (simp add: Let_def)
next
  case (3 a)
  have "unat a * 65536 div 262144 < 64" using triple_parts(1) [OF byte_bound [of a], of 0 0] by simp
  then show ?case by (simp add: Let_def)
qed simp

lemma b64_no_colon: "CHR '':'' \<notin> set (b64_encode bs)"
proof -
  have "list_all (\<lambda>i. b64_char i \<noteq> CHR '':'') [0..<64]" by code_simp
  then show ?thesis using b64_encode_chars [of bs] by (force simp: list_all_iff)
qed

lemma normalize_b64:
  assumes "length d = 32"
  shows "normalizeHash (''sha256/'' @ b64_encode d) = b64_encode d"
proof -
  have c: "trim_prefix (b64_encode d) ''sha256:'' = b64_encode d"
    using b64_no_colon [of d] by (auto simp: trim_prefix_def has_prefix_iff)
  have "length (b64_encode d) \<noteq> 64" using assms by (simp add: length_b64_encode)
  then show ?thesis unfolding normalizeHash_def trim_prefix_append c Let_def by simp
qed

text \<open>
  Lemma. A pin may be written in any of three ways: for a certificate whose key
  has the 32-byte digest \<open>d\<close>, a pin given as hexadecimal, as \<^verbatim>\<open>sha256:\<close> with
  hexadecimal or as \<^verbatim>\<open>sha256/\<close> with base64 accepts a chain for a host it applies to
  exactly when some certificate of the chain has that digest.
\<close>

theorem pin_formats_equivalent:
  assumes "length d = 32" and "certs \<noteq> []" and "pin_applies host (fold (\<lambda>opt pin. opt pin) opts
      \<lparr>pin_Type = PinTypeSHA256, pin_Hash = b64_encode d, pin_Host = [], pin_IncludeSubdomains = False\<rparr>)"
    and "pin_Hash (fold (\<lambda>opt pin. opt pin) opts
      \<lparr>pin_Type = PinTypeSHA256, pin_Hash = b64_encode d, pin_Host = [], pin_IncludeSubdomains = False\<rparr>) = b64_encode d"
    and "hash \<in> {hex_encode d, ''sha256:'' @ hex_encode d, ''sha256/'' @ b64_encode d}"
  shows "pin_Verify sha256 host certs (AddPin hash opts NewCertPinner) = None \<longleftrightarrow>
    (\<exists>cert \<in> set certs. sha256 (ce_RawSubjectPublicKeyInfo cert) = d)"
proof -
  have n: "normalizeHash hash = b64_encode d" using assms(5) normalize_hex [OF assms(1)] normalize_b64 [OF assms(1)] by auto
  have e: "b64_encode d = b64_encode x \<longleftrightarrow> x = d" for x by (metis b64_roundtrip option.inject)
  show ?thesis using assms(2-4)
    by (auto simp: pin_Verify_def AddPin_def n add_pin_def NewCertPinner_def getPinsForHost_def Let_def
        CalculateSPKIHash_def e list_ex_iff)
qed

theorem pin_formats_equivalent_witness:
  "pin_Verify (\<lambda>bs. replicate 32 (hd bs)) ''www.a.test'' [\<lparr>ce_RawSubjectPublicKeyInfo = [7]\<rparr>]
     (AddPin (''sha256:'' @ hex_encode (replicate 32 7)) [ForHost ''a.test'', IncludeSubdomains] NewCertPinner) = None"
  by (subst pin_formats_equivalent [where d = "replicate 32 7"])
    (simp_all add: ForHost_def IncludeSubdomains_def pin_applies_def has_suffix_def)

text \<open>Lemma. The host of a pin is compared letter by letter, so another spelling of the host is not pinned.\<close>

lemma pin_host_case:
  "pin_Verify sha256 ''A.test'' [\<lparr>ce_RawSubjectPublicKeyInfo = k\<rparr>] (AddPin hash [ForHost ''a.test''] NewCertPinner) = None"
  by (simp add: pin_Verify_def AddPin_def add_pin_def NewCertPinner_def getPinsForHost_def pin_applies_def ForHost_def)

end
