(* ===== verification/Client_Requests.thy ===== *)
theory Client_Requests
  imports Client_Headers Client_Cookies Client_Pin Session_Requests
begin

text \<open>
  The request loop of \<^verbatim>\<open>client/client.go\<close>: \<^verbatim>\<open>Do\<close>, \<^verbatim>\<open>doWithRetry\<close> and \<^verbatim>\<open>doOnce\<close> with the choice of
  protocol, authentication, cookies, hooks, pinning and redirects, and the hooks of
  \<^verbatim>\<open>client/hooks.go\<close>. The pools and transports below are the fields
  \<open>ne_GetConn\<close> and \<open>ne_RoundTrip\<close> of the argument \<open>env\<close>, which are given the number of
  calls made so far; a deadline that passes is one of their errors. The client
  records in \<open>cl_sent\<close> what it hands to a transport that starts to write it.
  \<^verbatim>\<open>doOnce\<close> calls itself on a redirect and on an authentication challenge, so it
  takes fuel; running out of it is \<open>None\<close>. Request bodies are readers that do not
  fail, and timing measurements are left out.
\<close>

section \<open>Origins\<close>

definition parseOriginClient :: "url_lib \<Rightarrow> string \<Rightarrow> string \<times> string \<times> string" where
  "parseOriginClient ul urlStr =
     (case ul_Parse ul urlStr of
        None \<Rightarrow> ([], [], [])
      | Some u \<Rightarrow>
          if url_Scheme u = [] then ([], [], [])
          else
            (let scheme = to_lower (url_Scheme u);
                 host = to_lower (url_Hostname u);
                 port = url_Port u
             in (scheme, host,
                 if port = [] then (if scheme = ''https'' then ''443'' else if scheme = ''http'' then ''80'' else port)
                 else port)))"

definition sameOriginClient :: "url_lib \<Rightarrow> string \<Rightarrow> string \<Rightarrow> bool" where
  "sameOriginClient ul a b =
     (let (as, ah, ap) = parseOriginClient ul a; (bs, bh, bp) = parseOriginClient ul b in
      if as = [] \<or> bs = [] then False else as = bs \<and> ah = bh \<and> ap = bp)"

definition isSchemeDowngradeClient :: "url_lib \<Rightarrow> string \<Rightarrow> string \<Rightarrow> bool" where
  "isSchemeDowngradeClient ul from to \<longleftrightarrow>
     fst (parseOriginClient ul from) = ''https'' \<and> fst (parseOriginClient ul to) = ''http''"

text \<open>The origins of the client are those of the session.\<close>

lemma parseOriginClient_eq: "parseOriginClient = parseOrigin"
  by (intro ext) (auto simp: parseOriginClient_def parseOrigin_def Let_def split: option.split)

lemma sameOriginClient_eq: "sameOriginClient = sameOrigin"
  by (intro ext) (simp add: sameOriginClient_def sameOrigin_def parseOriginClient_eq)

section \<open>Proxies\<close>

definition IsSOCKS5Proxy :: "url_lib \<Rightarrow> string \<Rightarrow> bool" where
  "IsSOCKS5Proxy ul proxyURL =
     (case ul_Parse ul proxyURL of
        None \<Rightarrow> False
      | Some parsed \<Rightarrow> url_Scheme parsed = ''socks5'' \<or> url_Scheme parsed = ''socks5h'')"

definition IsMASQUEProxy :: "url_lib \<Rightarrow> string \<Rightarrow> bool" where
  "IsMASQUEProxy ul proxyURL =
     (case ul_Parse ul proxyURL of
        None \<Rightarrow> False
      | Some parsed \<Rightarrow>
          url_Scheme parsed = ''masque'' \<or>
          (url_Scheme parsed = ''https'' \<and>
             (let path = to_lower (url_Path parsed) in contains path ''masque'' \<or> contains path ''connect-udp'')))"

definition SupportsQUIC :: "url_lib \<Rightarrow> string \<Rightarrow> bool" where
  "SupportsQUIC ul proxyURL \<longleftrightarrow> IsSOCKS5Proxy ul proxyURL \<or> IsMASQUEProxy ul proxyURL"

section \<open>State\<close>

record http_response =
  hp_StatusCode :: int
  hp_Header :: headers
  hp_Body :: "string + byte list"
  hp_TLS :: "certificate list option"

datatype round_trip = RTResponse http_response | RTRetired | RTError string

record client_redirect_info =
  ci_StatusCode :: int
  ci_URL :: string
  ci_Headers :: headers

record client_response =
  cp_StatusCode :: int
  cp_Headers :: headers
  cp_Body :: "byte list"
  cp_FinalURL :: string
  cp_Protocol :: string
  cp_Request :: client_request
  cp_RedirectHistory :: "client_redirect_info list"

text \<open>Hooks get a pointer and may change what it points to; an error stops the rest.\<close>

type_synonym pre_hook = "http_request \<Rightarrow> http_request \<times> string option"
type_synonym post_hook = "client_response \<Rightarrow> client_response \<times> string option"

record hooks =
  hk_preRequest :: "pre_hook list"
  hk_postResponse :: "post_hook list"

record client_config =
  cc_TLSOnly :: bool
  cc_FollowRedirects :: bool
  cc_MaxRedirects :: int
  cc_RetryEnabled :: bool
  cc_MaxRetries :: int
  cc_RetryOnStatus :: "int list"
  cc_ForceProtocol :: force_protocol
  cc_Proxy :: string

text \<open>
  The authentication schemes are the list \<open>cl_auths\<close>, indexed by address. Of the
  HTTP/3 transports only their presence is kept.
\<close>

record client =
  cl_preset :: preset
  cl_config :: client_config
  cl_auth :: "nat option"
  cl_auths :: "auth list"
  cl_cookies :: "client_jar option"
  cl_hooks :: "hooks option"
  cl_certPinner :: "cert_pinner option"
  cl_quicManager :: bool
  cl_masqueTransport :: bool
  cl_socks5H3Transport :: bool
  cl_h3Failures :: "(string, time) gomap"
  cl_h2Failures :: "(string, time) gomap"
  cl_h3InitError :: "string option"
  cl_configErr :: "string option"
  cl_customHeaderOrder :: "string list"
  cl_calls :: nat
  cl_sent :: "(string \<times> string \<times> http_request) list"

record client_env =
  ne_url :: url_lib
  ne_query :: query_lib
  ne_now :: "nat \<Rightarrow> time"
  ne_NewRequest :: "string \<Rightarrow> string \<Rightarrow> string + url \<times> string"
  ne_GetConn :: "nat \<Rightarrow> string \<Rightarrow> string \<Rightarrow> string \<Rightarrow> string option"
  ne_RoundTrip :: "nat \<Rightarrow> string \<Rightarrow> http_request \<Rightarrow> round_trip"
  ne_md5 :: "string \<Rightarrow> string"
  ne_cnonce :: "nat \<Rightarrow> string"
  ne_sha256 :: "byte list \<Rightarrow> byte list"
  ne_timeParse :: "string \<Rightarrow> string \<Rightarrow> time option"
  ne_codec :: "string \<Rightarrow> byte list \<Rightarrow> string + byte list"
  ne_ctxDone :: "nat \<Rightarrow> string option"

definition client_now :: "client_env \<Rightarrow> client \<Rightarrow> time" where
  "client_now env c = ne_now env (cl_calls c)"

text \<open>
  An error of a redirect callback is marked, so that it is not retried. The error
  after the last attempt wraps the error of that attempt, or nil.
\<close>

datatype client_error =
    ClientError string
  | RedirectHookError string
  | PinError pin_failure
  | RetriesFailed int "client_error option"

section \<open>Hooks\<close>

fun RunPreRequest :: "pre_hook list \<Rightarrow> http_request \<Rightarrow> http_request \<times> string option" where
  "RunPreRequest [] req = (req, None)"
| "RunPreRequest (hook # hs) req =
     (case hook req of
        (req', Some err) \<Rightarrow> (req', Some err)
      | (req', None) \<Rightarrow> RunPreRequest hs req')"

fun RunPostResponse :: "post_hook list \<Rightarrow> client_response \<Rightarrow> client_response \<times> string option" where
  "RunPostResponse [] resp = (resp, None)"
| "RunPostResponse (hook # hs) resp =
     (case hook resp of
        (resp', Some err) \<Rightarrow> (resp', Some err)
      | (resp', None) \<Rightarrow> RunPostResponse hs resp')"

definition NewHooks :: hooks where
  "NewHooks = \<lparr>hk_preRequest = [], hk_postResponse = []\<rparr>"

definition hooks_Clear :: "hooks \<Rightarrow> hooks" where
  "hooks_Clear h = h\<lparr>hk_preRequest := [], hk_postResponse := []\<rparr>"

section \<open>Settings\<close>

definition SetAuth :: "nat option \<Rightarrow> client \<Rightarrow> client" where
  "SetAuth a c = c\<lparr>cl_auth := a\<rparr>"

definition new_auth :: "auth \<Rightarrow> client \<Rightarrow> client" where
  "new_auth a c = c\<lparr>cl_auth := Some (length (cl_auths c)), cl_auths := cl_auths c @ [a]\<rparr>"

definition SetBasicAuth :: "string \<Rightarrow> string \<Rightarrow> client \<Rightarrow> client" where
  "SetBasicAuth username password = new_auth (BasicAuth \<lparr>ba_Username = username, ba_Password = password\<rparr>)"

definition SetBearerAuth :: "string \<Rightarrow> client \<Rightarrow> client" where
  "SetBearerAuth token = new_auth (BearerAuth \<lparr>be_Token = token\<rparr>)"

definition EnableCookies :: "client \<Rightarrow> client" where
  "EnableCookies c = (case cl_cookies c of None \<Rightarrow> c\<lparr>cl_cookies := Some cj_New\<rparr> | Some j \<Rightarrow> c)"

definition DisableCookies :: "client \<Rightarrow> client" where
  "DisableCookies c = c\<lparr>cl_cookies := None\<rparr>"

definition cl_ClearCookies :: "client \<Rightarrow> client" where
  "cl_ClearCookies c = c\<lparr>cl_cookies := map_option cj_Clear (cl_cookies c)\<rparr>"

definition Hooks :: "client \<Rightarrow> hooks" where
  "Hooks c = (case cl_hooks c of None \<Rightarrow> NewHooks | Some h \<Rightarrow> h)"

definition OnPreRequest :: "pre_hook \<Rightarrow> client \<Rightarrow> client" where
  "OnPreRequest hook c = c\<lparr>cl_hooks := Some ((Hooks c)\<lparr>hk_preRequest := hk_preRequest (Hooks c) @ [hook]\<rparr>)\<rparr>"

definition OnPostResponse :: "post_hook \<Rightarrow> client \<Rightarrow> client" where
  "OnPostResponse hook c = c\<lparr>cl_hooks := Some ((Hooks c)\<lparr>hk_postResponse := hk_postResponse (Hooks c) @ [hook]\<rparr>)\<rparr>"

definition ClearHooks :: "client \<Rightarrow> client" where
  "ClearHooks c = c\<lparr>cl_hooks := map_option hooks_Clear (cl_hooks c)\<rparr>"

definition CertPinner :: "client \<Rightarrow> cert_pinner" where
  "CertPinner c = (case cl_certPinner c of None \<Rightarrow> NewCertPinner | Some p \<Rightarrow> p)"

definition PinCertificate :: "string \<Rightarrow> (certificate_pin \<Rightarrow> certificate_pin) list \<Rightarrow> client \<Rightarrow> client" where
  "PinCertificate hash opts c = c\<lparr>cl_certPinner := Some (AddPin hash opts (CertPinner c))\<rparr>"

definition ClearPins :: "client \<Rightarrow> client" where
  "ClearPins c = c\<lparr>cl_certPinner := map_option pin_Clear (cl_certPinner c)\<rparr>"

definition cl_SetHeaderOrder :: "string list \<Rightarrow> client \<Rightarrow> client" where
  "cl_SetHeaderOrder order c = c\<lparr>cl_customHeaderOrder := map to_lower order\<rparr>"

definition effectiveHeaderOrder :: "client_request \<Rightarrow> client \<Rightarrow> string list" where
  "effectiveHeaderOrder req c = (if cr_HeaderOrder req \<noteq> [] then cr_HeaderOrder req else cl_customHeaderOrder c)"

section \<open>Protocols\<close>

definition five_minutes :: duration where
  "five_minutes = 5 * 60 * second"

definition h3_available :: "client \<Rightarrow> bool" where
  "h3_available c \<longleftrightarrow> cl_quicManager c \<or> cl_masqueTransport c \<or> cl_socks5H3Transport c"

definition shouldTryHTTP3 :: "client_env \<Rightarrow> string \<Rightarrow> client \<Rightarrow> bool" where
  "shouldTryHTTP3 env hostKey c \<longleftrightarrow>
     h3_available c \<and>
     (case map_of (cl_h3Failures c) hostKey of
        Some failTime \<Rightarrow> \<not> client_now env c - failTime < five_minutes
      | None \<Rightarrow> True)"

definition markH3Failed :: "client_env \<Rightarrow> string \<Rightarrow> client \<Rightarrow> client" where
  "markH3Failed env hostKey c = c\<lparr>cl_h3Failures := AList.update hostKey (client_now env c) (cl_h3Failures c)\<rparr>"

definition markH2Failed :: "client_env \<Rightarrow> string \<Rightarrow> client \<Rightarrow> client" where
  "markH2Failed env hostKey c = c\<lparr>cl_h2Failures := AList.update hostKey (client_now env c) (cl_h2Failures c)\<rparr>"

definition shouldUseH1 :: "client_env \<Rightarrow> string \<Rightarrow> client \<Rightarrow> bool \<times> client" where
  "shouldUseH1 env hostKey c =
     (case map_of (cl_h2Failures c) hostKey of
        None \<Rightarrow> (False, c)
      | Some failTime \<Rightarrow>
          if client_now env c - failTime > five_minutes
          then (False, c\<lparr>cl_h2Failures := AList.delete hostKey (cl_h2Failures c)\<rparr>)
          else (True, c))"

definition getConn :: "client_env \<Rightarrow> string \<Rightarrow> string \<Rightarrow> string \<Rightarrow> client \<Rightarrow> string option \<times> client" where
  "getConn env proto host port c =
     (ne_GetConn env (cl_calls c) proto host port, c\<lparr>cl_calls := cl_calls c + 1\<rparr>)"

text \<open>
  A round trip over one connection for the URL \<open>u\<close>. A retired connection refuses before
  anything is written; otherwise the body is read to its end.
\<close>

definition roundTrip ::
    "client_env \<Rightarrow> string \<Rightarrow> string \<Rightarrow> http_request \<Rightarrow> client \<Rightarrow> round_trip \<times> http_request \<times> client" where
  "roundTrip env u proto httpReq c =
     (let r = ne_RoundTrip env (cl_calls c) proto httpReq;
          c' = c\<lparr>cl_calls := cl_calls c + 1\<rparr>
      in if r = RTRetired then (r, httpReq, c')
         else (r, httpReq\<lparr>hr_Body := []\<rparr>, c'\<lparr>cl_sent := cl_sent c @ [(u, proto, httpReq)]\<rparr>))"

type_synonym exchange_result = "(string + http_response) \<times> http_request \<times> client"

definition answer_of :: "(string \<Rightarrow> string) \<Rightarrow> round_trip \<times> http_request \<times> client \<Rightarrow> exchange_result" where
  "answer_of wrap = (\<lambda>(r, rest).
     (case r of
        RTResponse resp \<Rightarrow> Inr resp
      | RTRetired \<Rightarrow> Inl (wrap ''connection retired before request started'')
      | RTError err \<Rightarrow> Inl (wrap err), rest))"

text \<open>A round trip on a pooled connection, with one more try when it was retired.\<close>

definition pooled_exchange ::
    "client_env \<Rightarrow> string \<Rightarrow> string \<Rightarrow> (string \<Rightarrow> string) \<Rightarrow> (string \<Rightarrow> string) \<Rightarrow> string \<Rightarrow> string \<Rightarrow>
     http_request \<Rightarrow> client \<Rightarrow> exchange_result" where
  "pooled_exchange env u proto noConn wrap host port httpReq c =
     (case getConn env proto host port c of
        (Some err, c1) \<Rightarrow> (Inl (noConn err), httpReq, c1)
      | (None, c1) \<Rightarrow>
          (case roundTrip env u proto httpReq c1 of
             (RTRetired, httpReq1, c2) \<Rightarrow>
               (case getConn env proto host port c2 of
                  (Some err, c3) \<Rightarrow> (Inl (noConn err), httpReq1, c3)
                | (None, c3) \<Rightarrow> answer_of wrap (roundTrip env u proto httpReq1 c3))
           | other \<Rightarrow> answer_of wrap other))"

definition doHTTP2 :: "client_env \<Rightarrow> string \<Rightarrow> string \<Rightarrow> string \<Rightarrow> http_request \<Rightarrow> client \<Rightarrow> exchange_result" where
  "doHTTP2 env u host port httpReq c =
     pooled_exchange env u ''h2'' (\<lambda>err. ''failed to get connection: '' @ err) (\<lambda>err. ''request failed: '' @ err)
       host port httpReq c"

definition doHTTP3 :: "client_env \<Rightarrow> string \<Rightarrow> string \<Rightarrow> string \<Rightarrow> http_request \<Rightarrow> client \<Rightarrow> exchange_result" where
  "doHTTP3 env u host port httpReq c =
     (if cl_masqueTransport c \<or> cl_socks5H3Transport c then answer_of id (roundTrip env u ''h3'' httpReq c)
      else if \<not> cl_quicManager c then (Inl ''no HTTP/3 transport available'', httpReq, c)
      else pooled_exchange env u ''h3'' (\<lambda>err. ''failed to get QUIC connection: '' @ err) id host port httpReq c)"

text \<open>The priority header is taken off a copy of the request, which shares the body.\<close>

definition h1_request :: "preset \<Rightarrow> http_request \<Rightarrow> http_request" where
  "h1_request p httpReq =
     (if \<not> pr_SendsPriorityOverHTTP1 p \<and>
         (header_Get (hr_Header httpReq) ''Priority'' \<noteq> [] \<or>
          (case map_of (hr_Header httpReq) ''priority'' of None \<Rightarrow> False | Some vs \<Rightarrow> vs \<noteq> []))
      then httpReq\<lparr>hr_Header := AList.delete ''priority'' (header_Del ''Priority'' (hr_Header httpReq))\<rparr>
      else httpReq)"

definition doHTTP1 :: "client_env \<Rightarrow> string \<Rightarrow> http_request \<Rightarrow> client \<Rightarrow> exchange_result" where
  "doHTTP1 env u httpReq c =
     (case answer_of (\<lambda>err. ''HTTP/1.1 request failed: '' @ err) (roundTrip env u ''h1'' (h1_request (cl_preset c) httpReq) c) of
        (r, sent, c') \<Rightarrow> (r, httpReq\<lparr>hr_Body := hr_Body sent\<rparr>, c'))"

definition resetRequestBody :: "byte list \<Rightarrow> http_request \<Rightarrow> http_request" where
  "resetRequestBody body httpReq =
     (if body \<noteq> [] then httpReq\<lparr>hr_Body := body\<rparr>
      else if hasBody (hr_Method httpReq) then httpReq\<lparr>hr_Body := []\<rparr>
      else httpReq)"

section \<open>Preparing a request\<close>

record in_flight =
  fl_reqURL :: string
  fl_parsedURL :: url
  fl_host :: string
  fl_port :: string
  fl_method :: string
  fl_body :: "byte list"
  fl_useH3 :: bool
  fl_auth :: "nat option"
  fl_httpReq :: http_request

definition hostKey_of :: "in_flight \<Rightarrow> string" where
  "hostKey_of f = fl_host f @ '':'' @ fl_port f"

definition request_url :: "client_env \<Rightarrow> client_request \<Rightarrow> string" where
  "request_url env req =
     (if cr_Params req \<noteq> [] then ub_Build (ne_url env) (ne_query env) (ub_Params (cr_Params req) (NewURLBuilder (cr_URL req)))
      else cr_URL req)"

definition body_bytes :: "client_request \<Rightarrow> byte list" where
  "body_bytes req = (case cr_Body req of None \<Rightarrow> [] | Some b \<Rightarrow> b)"

definition request_headers :: "client_env \<Rightarrow> client_request \<Rightarrow> url \<Rightarrow> string \<Rightarrow> client \<Rightarrow> headers" where
  "request_headers env req parsedURL method c =
     (let h = normalizeRequestWithBody method (body_bytes req) [] in
      if cc_TLSOnly (cl_config c) then applyTLSOnlyHeaders (cl_preset c) req parsedURL (effectiveHeaderOrder req c) h
      else applyModeHeaders (ne_url env) (cl_preset c) req parsedURL (effectiveHeaderOrder req c) h)"

definition effective_auth :: "client_request \<Rightarrow> client \<Rightarrow> nat option" where
  "effective_auth req c = (case cr_Auth req of None \<Rightarrow> cl_auth c | Some a \<Rightarrow> Some a)"

definition apply_auth :: "client_env \<Rightarrow> nat option \<Rightarrow> http_request \<Rightarrow> client \<Rightarrow> http_request \<times> client" where
  "apply_auth env auth httpReq c =
     (case auth of
        None \<Rightarrow> (httpReq, c)
      | Some a \<Rightarrow>
          if a < length (cl_auths c) then
            (case Apply (ne_md5 env) (ne_cnonce env (cl_calls c)) (cl_auths c ! a) httpReq of
               (auth', httpReq') \<Rightarrow> (httpReq', c\<lparr>cl_auths := (cl_auths c)[a := auth'], cl_calls := cl_calls c + 1\<rparr>))
          else (httpReq, c))"

definition apply_cookies :: "client_env \<Rightarrow> url \<Rightarrow> client \<Rightarrow> http_request \<Rightarrow> http_request" where
  "apply_cookies env parsedURL c httpReq =
     (case cl_cookies c of
        None \<Rightarrow> httpReq
      | Some j \<Rightarrow>
          (let cookieHeader = CookieHeader (client_now env c) parsedURL j in
           if cookieHeader \<noteq> [] then httpReq\<lparr>hr_Header := header_Set ''Cookie'' cookieHeader (hr_Header httpReq)\<rparr>
           else httpReq))"

text \<open>The copy of all headers into the request of the caller.\<close>

definition debug_copy :: "headers \<Rightarrow> headers \<Rightarrow> headers" where
  "debug_copy sent h =
     fold (\<lambda>(key, vs) h.
        if key = HeaderOrderKey \<or> key = PHeaderOrderKey then h
        else if getHeaderCaseInsensitive h key = None then AList.update key vs h else h) sent h"

definition pre_request :: "http_request \<Rightarrow> client \<Rightarrow> http_request \<times> string option" where
  "pre_request httpReq c =
     (case cl_hooks c of None \<Rightarrow> (httpReq, None) | Some h \<Rightarrow> RunPreRequest (hk_preRequest h) httpReq)"

text \<open>
  The first half of \<^verbatim>\<open>doOnce\<close>: an error, or the request as it will be sent and the
  request of the caller with the headers copied into it.
\<close>

definition prepare ::
    "client_env \<Rightarrow> client_request \<Rightarrow> client \<Rightarrow> (string + in_flight \<times> client_request) \<times> client" where
  "prepare env req c =
     (let reqURL = request_url env req in
      case ul_Parse (ne_url env) reqURL of
        None \<Rightarrow> (Inl ''invalid URL'', c)
      | Some parsedURL \<Rightarrow>
          if url_Scheme parsedURL \<noteq> ''https'' then (Inl ''only HTTPS is supported'', c)
          else
            (let host = url_Hostname parsedURL;
                 port = (if url_Port parsedURL = [] then ''443'' else url_Port parsedURL);
                 useH3 = shouldTryHTTP3 env (host @ '':'' @ port) c;
                 method = (if cr_Method req = [] then ''GET'' else cr_Method req)
             in case ne_NewRequest env method reqURL of
                  Inl err \<Rightarrow> (Inl (''failed to create request: '' @ err), c)
                | Inr (u, requestURI) \<Rightarrow>
                    (let auth = effective_auth req c;
                         httpReq0 = \<lparr>hr_Method = method, hr_URL = u, hr_RequestURI = requestURI,
                                     hr_Header = request_headers env req parsedURL method c, hr_Body = body_bytes req\<rparr>
                     in case apply_auth env auth httpReq0 c of
                          (httpReq1, c1) \<Rightarrow>
                            (case pre_request (apply_cookies env parsedURL c1 httpReq1) c1 of
                               (httpReq2, Some err) \<Rightarrow> (Inl (''pre-request hook failed: '' @ err), c1)
                             | (httpReq2, None) \<Rightarrow>
                                 (Inr (\<lparr>fl_reqURL = reqURL, fl_parsedURL = parsedURL, fl_host = host, fl_port = port,
                                        fl_method = method, fl_body = body_bytes req, fl_useH3 = useH3,
                                        fl_auth = auth, fl_httpReq = httpReq2\<rparr>,
                                       req\<lparr>cr_Headers := debug_copy (hr_Header httpReq2) (cr_Headers req), cr_HeadersNil := False\<rparr>),
                                  c1)))))"

section \<open>Sending\<close>

definition named :: "string \<Rightarrow> exchange_result \<Rightarrow> (string + http_response \<times> string) \<times> http_request \<times> client" where
  "named proto = (\<lambda>(r, rest). (map_sum id (\<lambda>resp. (resp, proto)) r, rest))"

text \<open>A protocol and, when it fails, the next one.\<close>

definition or_else ::
    "string \<Rightarrow> exchange_result \<Rightarrow> (http_request \<Rightarrow> client \<Rightarrow> (string + http_response \<times> string) \<times> http_request \<times> client) \<Rightarrow>
     (string + http_response \<times> string) \<times> http_request \<times> client" where
  "or_else proto x next =
     (case x of (Inr resp, rest) \<Rightarrow> named proto (Inr resp, rest) | (Inl err, httpReq, c) \<Rightarrow> next httpReq c)"

definition send_auto :: "client_env \<Rightarrow> in_flight \<Rightarrow> client \<Rightarrow> (string + http_response \<times> string) \<times> http_request \<times> client" where
  "send_auto env f c0 =
     (let u = fl_reqURL f; host = fl_host f; port = fl_port f; hostKey = hostKey_of f;
          reset = resetRequestBody (fl_body f); req0 = fl_httpReq f;
          proxy = cc_Proxy (cl_config c0);
          usesQUICProxy = (proxy \<noteq> [] \<and> SupportsQUIC (ne_url env) proxy)
      in case shouldUseH1 env hostKey c0 of
           (useH1, c) \<Rightarrow>
             if useH1 \<and> \<not> usesQUICProxy then named ''h1'' (doHTTP1 env u req0 c)
             else if usesQUICProxy \<and> fl_useH3 f then
               or_else ''h3'' (doHTTP3 env u host port req0 c)
                 (\<lambda>req1 c1. or_else ''h2'' (doHTTP2 env u host port (reset req1) (markH3Failed env hostKey c1))
                    (\<lambda>req2 c2. named ''h1'' (doHTTP1 env u (reset req2) c2)))
             else
               or_else ''h2'' (doHTTP2 env u host port req0 c)
                 (\<lambda>req1 c1.
                    if fl_useH3 f then
                      or_else ''h3'' (doHTTP3 env u host port (reset req1) c1)
                        (\<lambda>req2 c2. named ''h1'' (doHTTP1 env u (reset req2) (markH3Failed env hostKey c2)))
                    else named ''h1'' (doHTTP1 env u (reset req1) (markH2Failed env hostKey c1))))"

definition effective_protocol :: "client_request \<Rightarrow> client \<Rightarrow> force_protocol" where
  "effective_protocol req c =
     (if cr_ForceProtocol req = ForceAuto \<and> cc_ForceProtocol (cl_config c) \<noteq> ForceAuto
      then cc_ForceProtocol (cl_config c) else cr_ForceProtocol req)"

definition send :: "client_env \<Rightarrow> client_request \<Rightarrow> in_flight \<Rightarrow> client \<Rightarrow> (string + http_response \<times> string) \<times> http_request \<times> client" where
  "send env req f c =
     (case effective_protocol req c of
        ForceHTTP1 \<Rightarrow> named ''h1'' (doHTTP1 env (fl_reqURL f) (fl_httpReq f) c)
      | ForceHTTP3 \<Rightarrow>
          if cc_Proxy (cl_config c) \<noteq> [] \<and> \<not> SupportsQUIC (ne_url env) (cc_Proxy (cl_config c))
          then (Inl ''HTTP/3 requires SOCKS5 or MASQUE proxy: HTTP proxies cannot tunnel UDP'', fl_httpReq f, c)
          else if \<not> h3_available c
          then (Inl (case cl_h3InitError c of
                       Some err \<Rightarrow> ''HTTP/3 is disabled: '' @ err
                     | None \<Rightarrow> ''HTTP/3 is disabled (no QUIC transport available)''), fl_httpReq f, c)
          else (case doHTTP3 env (fl_reqURL f) (fl_host f) (fl_port f) (fl_httpReq f) c of
                  (Inl err, rest) \<Rightarrow> (Inl (''HTTP/3 failed: '' @ err), rest)
                | (Inr resp, rest) \<Rightarrow> named ''h3'' (Inr resp, rest))
      | ForceHTTP2 \<Rightarrow> named ''h2'' (doHTTP2 env (fl_reqURL f) (fl_host f) (fl_port f) (fl_httpReq f) c)
      | ForceAuto \<Rightarrow> send_auto env f c)"

section \<open>Responses\<close>

definition client_decompress :: "client_env \<Rightarrow> byte list \<Rightarrow> string \<Rightarrow> string + byte list" where
  "client_decompress env data encoding =
     (if to_lower encoding \<in> set [''gzip'', ''br'', ''zstd'', ''deflate''] then ne_codec env (to_lower encoding) data
      else Inr data)"

definition response_headers :: "headers \<Rightarrow> headers" where
  "response_headers h = fold (\<lambda>(key, vs). AList.update (to_lower key) vs) h []"

definition pin_check :: "client_env \<Rightarrow> string \<Rightarrow> http_response \<Rightarrow> client \<Rightarrow> pin_failure option" where
  "pin_check env host resp c =
     (case (cl_certPinner c, hp_TLS resp) of
        (Some p, Some certs) \<Rightarrow> if HasPins p then pin_Verify (ne_sha256 env) host certs p else None
      | _ \<Rightarrow> None)"

definition store_cookies :: "client_env \<Rightarrow> url \<Rightarrow> http_response \<Rightarrow> client \<Rightarrow> client" where
  "store_cookies env parsedURL resp c =
     (case (cl_cookies c, map_of (hp_Header resp) ''Set-Cookie'') of
        (Some j, Some (v # vs)) \<Rightarrow>
          c\<lparr>cl_cookies := Some (SetCookiesFromHeaderList (ne_timeParse env) (client_now env c) (Some parsedURL) (v # vs) j)\<rparr>
      | _ \<Rightarrow> c)"

definition isRedirect :: "int \<Rightarrow> bool" where
  "isRedirect code \<longleftrightarrow> code = 301 \<or> code = 302 \<or> code = 303 \<or> code = 307 \<or> code = 308"

section \<open>Redirects\<close>

definition show_int :: "int \<Rightarrow> string" where
  "show_int i = (if i < 0 then ''-'' @ show_nat (nat (- i)) else show_nat (nat i))"

definition carried_headers :: "bool \<Rightarrow> bool \<Rightarrow> headers \<Rightarrow> headers" where
  "carried_headers schemeDowngrade crossOrigin h =
     filter (\<lambda>(k, v).
        \<not> (schemeDowngrade \<and> to_lower k = ''referer'') \<and>
        \<not> ((crossOrigin \<or> schemeDowngrade) \<and> (to_lower k = ''authorization'' \<or> to_lower k = ''proxy-authorization''))) h"

definition redirected_request :: "client_env \<Rightarrow> in_flight \<Rightarrow> client_request \<Rightarrow> int \<Rightarrow> string \<Rightarrow> string \<Rightarrow> client_request" where
  "redirected_request env f req status newMethod redirectURL =
     (let schemeDowngrade = isSchemeDowngradeClient (ne_url env) (fl_reqURL f) redirectURL;
          crossOrigin = (\<not> sameOriginClient (ne_url env) (fl_reqURL f) redirectURL)
      in \<lparr>cr_Method = newMethod, cr_URL = redirectURL,
          cr_Headers = carried_headers schemeDowngrade crossOrigin (cr_Headers req), cr_HeadersNil = (cr_Headers req = []),
          cr_Body = (if (status = 307 \<or> status = 308) \<and> fl_body f \<noteq> [] then Some (fl_body f) else None),
          cr_Timeout = cr_Timeout req, cr_UserAgent = cr_UserAgent req, cr_ForceProtocol = cr_ForceProtocol req,
          cr_FetchMode = cr_FetchMode req, cr_FetchSite = FetchSiteCrossSite, cr_FetchDest = [],
          cr_Referer = (if schemeDowngrade then [] else fl_reqURL f),
          cr_Auth = (if schemeDowngrade \<or> crossOrigin then None else cr_Auth req),
          cr_Params = [], cr_FollowRedirects = cr_FollowRedirects req, cr_MaxRedirects = cr_MaxRedirects req,
          cr_DisableRetry = True, cr_HeaderOrder = cr_HeaderOrder req, cr_OnRedirect = cr_OnRedirect req\<rparr>)"

text \<open>What becomes of a response: an error, the next hop, or the response itself.\<close>

datatype client_hop = HopError client_error | HopFollow client_request "client_redirect_info list" | HopKeep

definition max_hops :: "client_request \<Rightarrow> client \<Rightarrow> int" where
  "max_hops req c = (if cr_MaxRedirects req > 0 then cr_MaxRedirects req else cc_MaxRedirects (cl_config c))"

definition next_hop ::
    "client_env \<Rightarrow> in_flight \<Rightarrow> client_request \<Rightarrow> client_redirect_info list \<Rightarrow> http_response \<Rightarrow> client \<Rightarrow> client_hop" where
  "next_hop env f req history resp c =
     (let follow = (case cr_FollowRedirects req of None \<Rightarrow> cc_FollowRedirects (cl_config c) | Some b \<Rightarrow> b);
          status = hp_StatusCode resp; headers = response_headers (hp_Header resp);
          location = header_Get (hp_Header resp) ''Location''
      in if \<not> isRedirect status \<or> \<not> follow then HopKeep
         else if int (length history) \<ge> max_hops req c
         then HopError (ClientError (ErrTooManyRedirects @ '' (max '' @ show_int (max_hops req c) @ '')''))
         else if location = [] then HopError (ClientError ''redirect response missing Location header'')
         else
           (let redirectURL = JoinURL (ne_url env) (fl_reqURL f) location;
                newMethod = redirect_method status (fl_method f);
                hop = \<lparr>cd_Hop = length history + 1, cd_StatusCode = status, cd_Headers = headers, cd_From = fl_reqURL f,
                       cd_To = redirectURL, cd_Method = newMethod,
                       cd_CrossOrigin = \<not> sameOriginClient (ne_url env) (fl_reqURL f) redirectURL,
                       cd_SchemeDowngrade = isSchemeDowngradeClient (ne_url env) (fl_reqURL f) redirectURL\<rparr>
            in case (case cr_OnRedirect req of None \<Rightarrow> HopProceed | Some cb \<Rightarrow> cb hop) of
                 HopVeto err \<Rightarrow> HopError (RedirectHookError err)
               | HopUseLastResponse \<Rightarrow> HopKeep
               | HopProceed \<Rightarrow>
                   HopFollow (redirected_request env f req status newMethod redirectURL)
                     (history @ [\<lparr>ci_StatusCode = status, ci_URL = fl_reqURL f, ci_Headers = headers\<rparr>])))"

section \<open>One request\<close>

text \<open>The answer of the scheme to a 401: an error, a new attempt, or none.\<close>

definition challenge :: "client_env \<Rightarrow> in_flight \<Rightarrow> http_request \<Rightarrow> http_response \<Rightarrow> client \<Rightarrow> (string + bool) \<times> client" where
  "challenge env f httpReq resp c =
     (case fl_auth f of
        Some a \<Rightarrow>
          if hp_StatusCode resp = 401 \<and> a < length (cl_auths c) then
            (case HandleChallenge (hp_StatusCode resp) (hp_Header resp) (cl_auths c ! a) of
               (Inl err, auth') \<Rightarrow> (Inl (''failed to handle auth challenge: '' @ err), c\<lparr>cl_auths := (cl_auths c)[a := auth']\<rparr>)
             | (Inr False, auth') \<Rightarrow> (Inr False, c\<lparr>cl_auths := (cl_auths c)[a := auth']\<rparr>)
             | (Inr True, auth') \<Rightarrow>
                 (Inr True, snd (apply_auth env (Some a) (resetRequestBody (fl_body f) httpReq) (c\<lparr>cl_auths := (cl_auths c)[a := auth']\<rparr>))))
          else (Inr False, c)
      | None \<Rightarrow> (Inr False, c))"

definition post_response :: "client_response \<Rightarrow> client \<Rightarrow> client_response" where
  "post_response resp c =
     (case cl_hooks c of None \<Rightarrow> resp | Some h \<Rightarrow> fst (RunPostResponse (hk_postResponse h) resp))"

definition finish_response ::
    "client_env \<Rightarrow> in_flight \<Rightarrow> client_request \<Rightarrow> client_redirect_info list \<Rightarrow> http_response \<Rightarrow> string \<Rightarrow> client \<Rightarrow>
     client_error + client_response" where
  "finish_response env f req history resp proto c =
     (case hp_Body resp of
        Inl err \<Rightarrow> Inl (ClientError (''failed to read response body: '' @ err))
      | Inr data \<Rightarrow>
          (case client_decompress env data (header_Get (hp_Header resp) ''Content-Encoding'') of
             Inl err \<Rightarrow> Inl (ClientError (''failed to decompress response: '' @ err))
           | Inr body \<Rightarrow>
               Inr (post_response
                      \<lparr>cp_StatusCode = hp_StatusCode resp, cp_Headers = response_headers (hp_Header resp), cp_Body = body,
                       cp_FinalURL = fl_reqURL f, cp_Protocol = proto, cp_Request = req, cp_RedirectHistory = history\<rparr> c)))"

text \<open>
  \<^verbatim>\<open>doOnce\<close> returns the result, the headers of the caller's request as they are left,
  and the client.
\<close>

type_synonym once_result = "(client_error + client_response) \<times> headers \<times> client"

fun doOnce :: "nat \<Rightarrow> client_env \<Rightarrow> client_request \<Rightarrow> client_redirect_info list \<Rightarrow> client \<Rightarrow> once_result option" where
  "doOnce 0 env req history c = None"
| "doOnce (Suc fuel) env req history c =
     (case prepare env req c of
        (Inl err, c1) \<Rightarrow> Some (Inl (ClientError err), cr_Headers req, c1)
      | (Inr (f, req1), c1) \<Rightarrow>
          (case send env req1 f c1 of
             (Inl err, httpReq, c2) \<Rightarrow> Some (Inl (ClientError err), cr_Headers req1, c2)
           | (Inr (resp, proto), httpReq, c2) \<Rightarrow>
               (case pin_check env (fl_host f) resp c2 of
                  Some failure \<Rightarrow> Some (Inl (PinError failure), cr_Headers req1, c2)
                | None \<Rightarrow>
                    (let c3 = store_cookies env (fl_parsedURL f) resp c2 in
                     case next_hop env f req1 history resp c3 of
                       HopError err \<Rightarrow> Some (Inl err, cr_Headers req1, c3)
                     | HopFollow newReq history' \<Rightarrow>
                         map_option (\<lambda>(r, h, c'). (r, cr_Headers req1, c')) (doOnce fuel env newReq history' c3)
                     | HopKeep \<Rightarrow>
                         (case challenge env f httpReq resp c3 of
                            (Inl err, c4) \<Rightarrow> Some (Inl (ClientError err), cr_Headers req1, c4)
                          | (Inr True, c4) \<Rightarrow> doOnce fuel env req1 history c4
                          | (Inr False, c4) \<Rightarrow> Some (finish_response env f req1 history resp proto c4, cr_Headers req1, c4))))))"

section \<open>Retries\<close>

definition shouldRetryStatus :: "int \<Rightarrow> client \<Rightarrow> bool" where
  "shouldRetryStatus status c \<longleftrightarrow> status \<in> set (cc_RetryOnStatus (cl_config c))"

text \<open>
  The loop over the attempts, \<open>left\<close> of them after this one. The header map of the
  caller is carried from one attempt to the next unless it is nil.
\<close>

record retry_state =
  ry_challenged :: bool
  ry_lastErr :: "client_error option"
  ry_lastResp :: "client_response option"
  ry_headers :: headers

definition attempt_request :: "client_request \<Rightarrow> retry_state \<Rightarrow> client \<Rightarrow> client_request" where
  "attempt_request req st c =
     (let r = req\<lparr>cr_Headers := ry_headers st\<rparr> in
      if ry_challenged st \<and> cr_ForceProtocol req = ForceAuto \<and> (cl_quicManager c \<or> cl_masqueTransport c)
      then r\<lparr>cr_ForceProtocol := ForceHTTP3\<rparr> else r)"

definition retries_over :: "retry_state \<Rightarrow> client \<Rightarrow> client_error + client_response" where
  "retries_over st c =
     (case ry_lastResp st of
        Some resp \<Rightarrow> Inr resp
      | None \<Rightarrow> Inl (RetriesFailed (cc_MaxRetries (cl_config c)) (ry_lastErr st)))"

definition cookie_challenge :: "client_request \<Rightarrow> client_response \<Rightarrow> retry_state \<Rightarrow> bool" where
  "cookie_challenge req resp st \<longleftrightarrow>
     (cp_StatusCode resp = 403 \<or> cp_StatusCode resp = 429) \<and> \<not> ry_challenged st \<and> cr_ForceProtocol req = ForceAuto \<and>
     (case map_of (cp_Headers resp) ''set-cookie'' of None \<Rightarrow> False | Some vs \<Rightarrow> vs \<noteq> [])"

fun retry_loop ::
    "nat \<Rightarrow> client_env \<Rightarrow> client_request \<Rightarrow> nat \<Rightarrow> bool \<Rightarrow> retry_state \<Rightarrow> client \<Rightarrow>
     ((client_error + client_response) \<times> client) option" where
  "retry_loop fuel env req 0 first st c = Some (retries_over st c, c)"
| "retry_loop fuel env req (Suc left) first st c =
     (case (if first then None else ne_ctxDone env (cl_calls c)) of
        Some err \<Rightarrow> Some (Inl (ClientError err), c)
      | None \<Rightarrow>
          (case doOnce fuel env (attempt_request req st c) [] c of
             None \<Rightarrow> None
           | Some (r, h, c1) \<Rightarrow>
               (let st1 = (if cr_HeadersNil req then st else st\<lparr>ry_headers := h\<rparr>) in
                case r of
                  Inl (RedirectHookError err) \<Rightarrow> Some (Inl (ClientError err), c1)
                | Inl err \<Rightarrow> retry_loop fuel env req left False (st1\<lparr>ry_lastErr := Some err\<rparr>) c1
                | Inr resp \<Rightarrow>
                    if cookie_challenge req resp st then retry_loop fuel env req left False (st1\<lparr>ry_challenged := True\<rparr>) c1
                    else if shouldRetryStatus (cp_StatusCode resp) c1 \<and> left > 0
                    then retry_loop fuel env req left False
                           (st1\<lparr>ry_lastResp := Some resp,
                                ry_lastErr := Some (ClientError (''server returned status '' @ show_int (cp_StatusCode resp)))\<rparr>) c1
                    else Some (Inr resp, c1))))"

definition doWithRetry :: "nat \<Rightarrow> client_env \<Rightarrow> client_request \<Rightarrow> client \<Rightarrow> ((client_error + client_response) \<times> client) option" where
  "doWithRetry fuel env req c =
     retry_loop fuel env req (nat (cc_MaxRetries (cl_config c) + 1)) True
       \<lparr>ry_challenged = False, ry_lastErr = None, ry_lastResp = None, ry_headers = cr_Headers req\<rparr> c"

definition Do :: "nat \<Rightarrow> client_env \<Rightarrow> client_request \<Rightarrow> client \<Rightarrow> ((client_error + client_response) \<times> client) option" where
  "Do fuel env req c =
     (case cl_configErr c of
        Some err \<Rightarrow> Some (Inl (ClientError err), c)
      | None \<Rightarrow>
          if cc_RetryEnabled (cl_config c) \<and> \<not> cr_DisableRetry req then doWithRetry fuel env req c
          else map_option (\<lambda>(r, h, c'). (case r of Inl (RedirectHookError err) \<Rightarrow> Inl (ClientError err) | _ \<Rightarrow> r, c'))
                 (doOnce fuel env req [] c))"

end
