(* ===== verification/Client_Runs.thy ===== *)
theory Client_Runs
  imports Client_Requests Session_Runs
begin

text \<open>
  What a whole run of the client's \<^verbatim>\<open>Do\<close> does: that it returns and how many messages
  it sends, where credentials and bodies go, that responses passed pinning, and
  the cases in which it does something else than it says.
\<close>

section \<open>What a request sends\<close>

text \<open>
  \<open>extends P n c c'\<close>: from \<open>c\<close> to \<open>c'\<close> at most \<open>n\<close> messages were sent, all with \<open>P\<close>,
  and the settings are the same.
\<close>

definition settings :: "client \<Rightarrow> preset \<times> client_config \<times> nat option \<times> hooks option \<times> cert_pinner option" where
  "settings c = (cl_preset c, cl_config c, cl_auth c, cl_hooks c, cl_certPinner c)"

definition no_digest :: "client \<Rightarrow> bool" where
  "no_digest c \<longleftrightarrow> list_all (\<lambda>a. case a of DigestAuth d \<Rightarrow> False | _ \<Rightarrow> True) (cl_auths c)"

definition extends :: "(string \<times> string \<times> http_request \<Rightarrow> bool) \<Rightarrow> nat \<Rightarrow> client \<Rightarrow> client \<Rightarrow> bool" where
  "extends P n c c' \<longleftrightarrow>
     settings c' = settings c \<and> (no_digest c \<longrightarrow> no_digest c') \<and>
     (\<exists>xs. cl_sent c' = cl_sent c @ xs \<and> length xs \<le> n \<and> list_all P xs)"

lemma extends_refl: "settings c' = settings c \<Longrightarrow> cl_auths c' = cl_auths c \<Longrightarrow> cl_sent c' = cl_sent c \<Longrightarrow> extends P n c c'"
  by (simp add: extends_def no_digest_def)

lemma extends_trans [trans]: "extends P n a b \<Longrightarrow> extends P m b c \<Longrightarrow> extends P (n + m) a c"
  by (fastforce simp: extends_def)

lemma extends_mono: "extends P n a b \<Longrightarrow> n \<le> m \<Longrightarrow> (\<And>x. P x \<Longrightarrow> Q x) \<Longrightarrow> extends Q m a b"
  by (fastforce simp: extends_def list_all_iff)

text \<open>A message for the URL \<open>u\<close> with headers of \<open>h\<close> and a body in \<open>B\<close>.\<close>

definition message :: "string \<Rightarrow> headers \<Rightarrow> byte list set \<Rightarrow> string \<times> string \<times> http_request \<Rightarrow> bool" where
  "message u h B = (\<lambda>(url, proto, req). url = u \<and> fst ` set (hr_Header req) \<subseteq> fst ` set h \<and> hr_Body req \<in> B)"

lemma roundTrip_extends:
  assumes "roundTrip env u proto httpReq c = (r, req', c')" and "P (u, proto, httpReq)"
  shows "extends P 1 c c' \<and> (r = RTRetired \<longrightarrow> req' = httpReq \<and> cl_sent c' = cl_sent c) \<and>
    req'\<lparr>hr_Body := []\<rparr> = httpReq\<lparr>hr_Body := []\<rparr> \<and> (hr_Body req' = hr_Body httpReq \<or> hr_Body req' = [])"
  using assms by (auto simp: roundTrip_def extends_def settings_def no_digest_def Let_def split: if_splits)

lemma getConn_extends: "getConn env proto host port c = (e, c') \<Longrightarrow> extends P 0 c c'"
  by (auto simp: getConn_def intro!: extends_refl simp: settings_def)

lemma answer_of_rest: "answer_of wrap x = (r, req', c') \<Longrightarrow> snd x = (req', c')"
  by (auto simp: answer_of_def split: prod.splits)

text \<open>What a client may do to a request while sending it: read its body.\<close>

definition same_request :: "http_request \<Rightarrow> http_request \<Rightarrow> bool" where
  "same_request a b \<longleftrightarrow> b\<lparr>hr_Body := []\<rparr> = a\<lparr>hr_Body := []\<rparr> \<and> (hr_Body b = hr_Body a \<or> hr_Body b = [])"

lemma same_request_refl [simp]: "same_request a a"
  by (simp add: same_request_def)

lemma answered_extends:
  assumes "answer_of wrap (roundTrip env u proto httpReq c) = (r, req', c')" and "P (u, proto, httpReq)"
  shows "extends P 1 c c' \<and> same_request httpReq req'"
proof -
  obtain r1 where "roundTrip env u proto httpReq c = (r1, req', c')" using answer_of_rest [OF assms(1)] by (metis prod.collapse)
  from roundTrip_extends [where P = P, OF this assms(2)] show ?thesis by (auto simp: same_request_def)
qed

lemma pooled_extends:
  assumes "pooled_exchange env u proto noConn wrap host port httpReq c = (r, req', c')" and "P (u, proto, httpReq)"
  shows "extends P 1 c c' \<and> same_request httpReq req'"
proof -
  obtain e1 c1 where g: "getConn env proto host port c = (e1, c1)" by force
  obtain r1 req1 c2 where t: "roundTrip env u proto httpReq c1 = (r1, req1, c2)" by (metis surj_pair)
  obtain e2 c3 where g2: "getConn env proto host port c2 = (e2, c3)" by force
  have c1: "extends P 0 c c1" and t': "extends P 1 c1 c2" and c3: "extends P 0 c2 c3"
    using getConn_extends [OF g] roundTrip_extends [where P = P, OF t assms(2)] getConn_extends [OF g2] by auto
  have first: "extends P 1 c c1" using c1 by (rule extends_mono) auto
  show ?thesis
  proof (cases e1)
    case (Some err)
    then show ?thesis using assms(1) g first by (auto simp: pooled_exchange_def)
  next
    case None
    show ?thesis
    proof (cases "r1 = RTRetired")
      case True
      then have q: "req1 = httpReq" "cl_sent c2 = cl_sent c1" using roundTrip_extends [where P = P, OF t assms(2)] by auto
      have "extends P 0 c1 c2" using t' q(2) by (auto simp: extends_def)
      then have c3': "extends P 0 c c3" using extends_trans [OF extends_trans [OF c1] c3] by simp
      show ?thesis
      proof (cases e2)
        case (Some err)
        then show ?thesis using assms(1) None True g t g2 q(1) extends_mono [OF c3', of 1 P] by (auto simp: pooled_exchange_def)
      next
        case None
        then have "answer_of wrap (roundTrip env u proto httpReq c3) = (r, req', c')"
          using assms(1) \<open>e1 = None\<close> True g t g2 q(1) by (simp add: pooled_exchange_def)
        from answered_extends [where P = P, OF this assms(2)] show ?thesis using extends_trans [OF c3', of 1 c'] by auto
      qed
    next
      case False
      then have "answer_of wrap (roundTrip env u proto httpReq c1) = (r, req', c')"
        using assms(1) None g t by (auto simp: pooled_exchange_def split: round_trip.splits)
      from answered_extends [where P = P, OF this assms(2)] show ?thesis using extends_trans [OF c1, of 1 c'] by auto
    qed
  qed
qed

lemma doHTTP2_extends:
  "doHTTP2 env u host port httpReq c = (r, req', c') \<Longrightarrow> message u h B (u, ''h2'', httpReq) \<Longrightarrow>
   extends (message u h B) 1 c c' \<and> same_request httpReq req'"
  unfolding doHTTP2_def by (rule pooled_extends)

lemma doHTTP3_extends:
  assumes "doHTTP3 env u host port httpReq c = (r, req', c')" and "message u h B (u, ''h3'', httpReq)"
  shows "extends (message u h B) 1 c c' \<and> same_request httpReq req'"
proof (cases "cl_masqueTransport c \<or> cl_socks5H3Transport c \<or> cl_quicManager c")
  case True
  then show ?thesis
    using assms answered_extends [where P = "message u h B", OF _ assms(2)] pooled_extends [where P = "message u h B", OF _ assms(2)]
    by (auto simp: doHTTP3_def split: if_splits)
next
  case False
  then show ?thesis using assms by (auto simp: doHTTP3_def intro: extends_refl)
qed

lemma h1_request_keys: "fst ` set (hr_Header (h1_request pr httpReq)) \<subseteq> fst ` set (hr_Header httpReq)"
proof -
  have "fst ` set (AList.delete k (AList.delete k' h)) \<subseteq> fst ` set h" for k k' and h :: headers
    using AList.dom_delete_subset [of k "AList.delete k' h"] AList.dom_delete_subset [of k' h] by (rule subset_trans)
  then show ?thesis by (simp add: h1_request_def header_Del_def)
qed

lemma h1_request_message: "message u h B (u, p, httpReq) \<Longrightarrow> message u h B (u, q, h1_request pr httpReq)"
  using h1_request_keys [of pr httpReq] by (auto simp: message_def) (simp_all add: h1_request_def)

lemma doHTTP1_extends:
  assumes "doHTTP1 env u httpReq c = (r, req', c')" and "message u h B (u, ''h1'', httpReq)"
  shows "extends (message u h B) 1 c c' \<and> same_request httpReq req'"
proof -
  obtain sent where a: "answer_of (\<lambda>err. ''HTTP/1.1 request failed: '' @ err)
      (roundTrip env u ''h1'' (h1_request (cl_preset c) httpReq) c) = (r, sent, c')" and q: "req' = httpReq\<lparr>hr_Body := hr_Body sent\<rparr>"
    using assms(1) by (auto simp: doHTTP1_def split: prod.splits)
  have b: "hr_Body (h1_request (cl_preset c) httpReq) = hr_Body httpReq" by (simp add: h1_request_def)
  show ?thesis
    using answered_extends [where P = "message u h B", OF a h1_request_message [OF assms(2)]] q b
    by (auto simp: same_request_def)
qed

lemma reset_message:
  assumes "message u h B (u, p, httpReq)" and "same_request httpReq req'" and "b \<in> B"
  shows "message u h B (u, q, resetRequestBody b req')"
proof -
  have "hr_Header req' = hr_Header httpReq"
    using assms(2) by (metis http_request.select_convs(4) http_request.surjective http_request.update_convs(5) same_request_def)
  then show ?thesis using assms by (auto simp: message_def resetRequestBody_def same_request_def)
qed

lemma mark_extends [simp]:
  "extends P n c (markH3Failed env k c') = extends P n c c'" "extends P n c (markH2Failed env k c') = extends P n c c'"
  by (simp_all add: extends_def settings_def no_digest_def markH3Failed_def markH2Failed_def)

lemma mark_from [simp]:
  "extends P n (markH3Failed env k c) c' = extends P n c c'" "extends P n (markH2Failed env k c) c' = extends P n c c'"
  by (simp_all add: extends_def settings_def no_digest_def markH3Failed_def markH2Failed_def)

lemma shouldUseH1_extends: "shouldUseH1 env k c = (x, c') \<Longrightarrow> extends P 0 c c'"
  by (auto simp: shouldUseH1_def extends_def settings_def no_digest_def split: option.splits if_splits)

lemma or_else_extends:
  assumes "or_else proto x next = (r, req', c')"
    and "\<And>a q d. x = (a, q, d) \<Longrightarrow> extends P 1 c d \<and> same_request req q"
    and "\<And>q d. same_request req q \<Longrightarrow> next q d = (r, req', c') \<Longrightarrow> extends P n d c'"
  shows "extends P (Suc n) c c'"
proof -
  obtain a q d where x: "x = (a, q, d)" by (metis surj_pair)
  note e = assms(2) [OF x]
  show ?thesis
  proof (cases a)
    case (Inl err)
    then have "extends P n d c'" using assms(1,3) e x by (auto simp: or_else_def)
    then show ?thesis using extends_trans [of P 1 c d n c'] e by simp
  next
    case (Inr resp)
    then show ?thesis using assms(1) x e by (auto simp: or_else_def named_def intro: extends_mono)
  qed
qed

lemma named_extends:
  assumes "named proto x = (r, req', c')" and "\<And>a q d. x = (a, q, d) \<Longrightarrow> extends P 1 c d \<and> same_request req q"
  shows "extends P 1 c c'"
  using assms by (cases x) (auto simp: named_def)

lemma send_auto_extends:
  assumes "send_auto env f c0 = (r, req', c')" and "message (fl_reqURL f) h B (fl_reqURL f, [], fl_httpReq f)" and "fl_body f \<in> B"
  shows "extends (message (fl_reqURL f) h B) 3 c0 c'"
proof -
  let ?u = "fl_reqURL f" and ?m = "message (fl_reqURL f) h B" and ?reset = "resetRequestBody (fl_body f)"
  have m: "?m (?u, p, fl_httpReq f)" for p using assms(2) by (simp add: message_def)
  have m': "?m (?u, p, ?reset q)" if "same_request (fl_httpReq f) q" for p q using reset_message [OF m that assms(3)] .
  have m'': "?m (?u, p, ?reset q')" if "same_request (?reset q) q'" "same_request (fl_httpReq f) q" for p q q'
    using reset_message [OF m' [OF that(2)] that(1) assms(3)] .
  obtain useH1 c where c: "shouldUseH1 env (hostKey_of f) c0 = (useH1, c)" by force
  have h1: "extends ?m 1 d c'" if "named ''h1'' (doHTTP1 env ?u q d) = (r, req', c')" "\<And>p. ?m (?u, p, q)" for q d
    using that(1) doHTTP1_extends [OF _ that(2)] by (rule named_extends)
  have h2: "extends ?m (Suc n) d c'"
    if "or_else ''h2'' (doHTTP2 env ?u (fl_host f) (fl_port f) q d) nxt = (r, req', c')" "\<And>p. ?m (?u, p, q)"
      "\<And>q' d'. same_request q q' \<Longrightarrow> nxt q' d' = (r, req', c') \<Longrightarrow> extends ?m n d' c'" for q d n nxt
    using that(1) doHTTP2_extends [OF _ that(2)] that(3) by (rule or_else_extends)
  have h3: "extends ?m (Suc n) d c'"
    if "or_else ''h3'' (doHTTP3 env ?u (fl_host f) (fl_port f) q d) nxt = (r, req', c')" "\<And>p. ?m (?u, p, q)"
      "\<And>q' d'. same_request q q' \<Longrightarrow> nxt q' d' = (r, req', c') \<Longrightarrow> extends ?m n d' c'" for q d n nxt
    using that(1) doHTTP3_extends [OF _ that(2)] that(3) by (rule or_else_extends)
  let ?k = "hostKey_of f" and ?p = "cc_Proxy (cl_config c0)"
  let ?quic = "?p \<noteq> [] \<and> SupportsQUIC (ne_url env) ?p"
  have "extends ?m 3 c c'"
  proof -
    consider "named ''h1'' (doHTTP1 env ?u (fl_httpReq f) c) = (r, req', c')"
      | "or_else ''h3'' (doHTTP3 env ?u (fl_host f) (fl_port f) (fl_httpReq f) c)
           (\<lambda>req1 c1. or_else ''h2'' (doHTTP2 env ?u (fl_host f) (fl_port f) (?reset req1) (markH3Failed env ?k c1))
             (\<lambda>req2 c2. named ''h1'' (doHTTP1 env ?u (?reset req2) c2))) = (r, req', c')"
      | "or_else ''h2'' (doHTTP2 env ?u (fl_host f) (fl_port f) (fl_httpReq f) c)
           (\<lambda>req1 c1. if fl_useH3 f then
                or_else ''h3'' (doHTTP3 env ?u (fl_host f) (fl_port f) (?reset req1) c1)
                  (\<lambda>req2 c2. named ''h1'' (doHTTP1 env ?u (?reset req2) (markH3Failed env ?k c2)))
              else named ''h1'' (doHTTP1 env ?u (?reset req1) (markH2Failed env ?k c1))) = (r, req', c')"
      using assms(1) c by (auto simp: send_auto_def Let_def split: if_splits)
    then show ?thesis
    proof cases
      case 1
      then show ?thesis using extends_mono [OF h1 [OF 1 m]] by simp
    next
      case 2
      have "extends ?m (Suc (Suc 1)) c c'"
        using 2 m by (rule h3) (use h2 [OF _ m'] h1 [OF _ m''] in fastforce)
      then show ?thesis by (simp add: numeral_3_eq_3)
    next
      case 3
      have "extends ?m (Suc (Suc 1)) c c'"
      proof (rule h2 [OF 3 m])
        fix q d
        let ?h1 = "\<lambda>q' d'. named ''h1'' (doHTTP1 env ?u (?reset q') d')"
        assume q: "same_request (fl_httpReq f) q"
          and nxt: "(if fl_useH3 f then or_else ''h3'' (doHTTP3 env ?u (fl_host f) (fl_port f) (?reset q) d)
                  (\<lambda>q' d'. ?h1 q' (markH3Failed env ?k d')) else ?h1 q (markH2Failed env ?k d)) = (r, req', c')"
        show "extends ?m (Suc 1) d c'"
        proof (cases "fl_useH3 f")
          case True
          then have "or_else ''h3'' (doHTTP3 env ?u (fl_host f) (fl_port f) (?reset q) d) (\<lambda>q' d'. ?h1 q' (markH3Failed env ?k d')) = (r, req', c')"
            using nxt by simp
          then show ?thesis using m' [OF q] by (rule h3) (use h1 [OF _ m'' [OF _ q]] in fastforce)
        next
          case False
          then have "extends ?m 1 d c'" using nxt h1 [OF _ m' [OF q]] by fastforce
          then show ?thesis by (rule extends_mono) auto
        qed
      qed
      then show ?thesis by (simp add: numeral_3_eq_3)
    qed
  qed
  then show ?thesis using extends_trans [OF shouldUseH1_extends [OF c]] by fastforce
qed

lemma send_extends:
  assumes "send env req f c = (r, req', c')" and "message (fl_reqURL f) h B (fl_reqURL f, [], fl_httpReq f)" and "fl_body f \<in> B"
  shows "extends (message (fl_reqURL f) h B) 3 c c'"
proof -
  let ?u = "fl_reqURL f" and ?m = "message (fl_reqURL f) h B"
  have m: "?m (?u, p, fl_httpReq f)" for p using assms(2) by (simp add: message_def)
  have up: "extends ?m 3 c c'" if "extends ?m 1 c c'" using that by (rule extends_mono) auto
  show ?thesis
  proof (cases "effective_protocol req c")
    case ForceAuto
    then show ?thesis using assms send_auto_extends [OF _ assms(2,3)] by (simp add: send_def)
  next
    case ForceHTTP1
    then show ?thesis using assms(1) up named_extends [OF _ doHTTP1_extends [OF _ m]] by (simp add: send_def)
  next
    case ForceHTTP2
    then show ?thesis using assms(1) up named_extends [OF _ doHTTP2_extends [OF _ m]] by (simp add: send_def)
  next
    case ForceHTTP3
    show ?thesis
    proof (cases "c' = c")
      case True
      then show ?thesis by (simp add: extends_refl)
    next
      case False
      obtain a where "doHTTP3 env ?u (fl_host f) (fl_port f) (fl_httpReq f) c = (a, req', c')"
        using assms(1) ForceHTTP3 False
        by (auto simp: send_def named_def split: if_splits sum.splits prod.splits)
      then show ?thesis using doHTTP3_extends [OF _ m] up by blast
    qed
  qed
qed

section \<open>Preparation\<close>

lemma apply_auth_extends:
  assumes "apply_auth env a httpReq c = (req', c')"
  shows "extends P n c c' \<and> hr_Body req' = hr_Body httpReq \<and>
    (\<forall>k. k \<noteq> ''Authorization'' \<or> a = None \<longrightarrow> map_of (hr_Header req') k = map_of (hr_Header httpReq) k)"
proof (cases "\<exists>i. a = Some i \<and> i < length (cl_auths c)")
  case True
  then obtain i where i: "a = Some i" "i < length (cl_auths c)" by blast
  let ?x = "Apply (ne_md5 env) (ne_cnonce env (cl_calls c)) (cl_auths c ! i) httpReq"
  have r: "req' = snd ?x" "c' = c\<lparr>cl_auths := (cl_auths c)[i := fst ?x], cl_calls := cl_calls c + 1\<rparr>"
    using assms i by (auto simp: apply_auth_def split: prod.splits)
  have "case fst ?x of DigestAuth d \<Rightarrow> (case cl_auths c ! i of DigestAuth d \<Rightarrow> True | _ \<Rightarrow> False) | _ \<Rightarrow> True"
    by (auto simp: Apply_def split: auth.split prod.split)
  then have "no_digest c \<Longrightarrow> no_digest c'"
    using i(2) r(2) by (auto simp: no_digest_def list_all_length nth_list_update split: auth.splits)
  then show ?thesis
    using r i any_auth.apply_header any_auth.apply_same(3) by (auto simp: extends_def settings_def)
next
  case False
  then show ?thesis using assms by (auto simp: apply_auth_def extends_refl split: option.splits)
qed

lemma apply_cookies_body [simp]: "hr_Body (apply_cookies env u c req) = hr_Body req"
  by (auto simp: apply_cookies_def Let_def split: option.split)

lemma prepare_fail: "prepare env req c = (Inl err, c') \<Longrightarrow> extends P n c c'"
  by (auto simp: prepare_def Let_def extends_refl split: option.splits if_splits sum.splits prod.splits dest: apply_auth_extends)

lemma prepare_ok:
  assumes "prepare env req c = (Inr (f, req1), c1)"
  shows "extends P n c c1 \<and> fl_reqURL f = request_url env req \<and> fl_body f = body_bytes req \<and>
    req1 = req\<lparr>cr_Headers := debug_copy (hr_Header (fl_httpReq f)) (cr_Headers req), cr_HeadersNil := False\<rparr> \<and>
    ul_Parse (ne_url env) (fl_reqURL f) = Some (fl_parsedURL f) \<and> fl_host f = url_Hostname (fl_parsedURL f) \<and>
    fl_auth f = effective_auth req c \<and>
    (cl_hooks c = None \<longrightarrow> hr_Body (fl_httpReq f) = body_bytes req)"
  using assms
  by (auto simp: prepare_def pre_request_def Let_def settings_def extends_def
      split: option.splits if_splits sum.splits prod.splits dest!: apply_auth_extends [of _ _ _ _ _ _ P n])

section \<open>One request returns\<close>

lemma request_url_frame [simp]: "request_url env (req\<lparr>cr_Headers := h, cr_HeadersNil := b\<rparr>) = request_url env req"
  by (simp add: request_url_def)

lemma max_hops_frame [simp]: "max_hops (req\<lparr>cr_Headers := h, cr_HeadersNil := b\<rparr>) c = max_hops req c"
  by (simp add: max_hops_def)

lemma extends_settings: "extends P n c c' \<Longrightarrow> settings c' = settings c"
  by (simp add: extends_def)

lemma max_hops_settings: "settings c' = settings c \<Longrightarrow> max_hops req c' = max_hops req c"
  by (simp add: settings_def max_hops_def)

lemma store_cookies_extends: "extends P n c (store_cookies env u resp c)"
  by (auto simp: store_cookies_def extends_def settings_def no_digest_def split: option.split list.split)

lemma handled_no_digest:
  assumes "no_digest c" and "i < length (cl_auths c)" and "HandleChallenge status h (cl_auths c ! i) = (x, a')"
  shows "x \<noteq> Inr True \<and> no_digest (c\<lparr>cl_auths := (cl_auths c)[i := a']\<rparr>)"
proof -
  have "case cl_auths c ! i of DigestAuth d \<Rightarrow> False | _ \<Rightarrow> True" using assms(1,2) by (auto simp: no_digest_def list_all_length)
  then have "a' = cl_auths c ! i \<and> x = Inr False"
    using assms(3) by (auto simp: HandleChallenge_def basic_HandleChallenge_def bearer_HandleChallenge_def split: auth.splits)
  then show ?thesis using assms(1) by (simp add: no_digest_def)
qed

lemma challenge_extends:
  assumes "challenge env f q resp c = (x, c')"
  shows "extends P n c c' \<and> (no_digest c \<longrightarrow> x \<noteq> Inr True)"
proof (cases "\<exists>i. fl_auth f = Some i \<and> hp_StatusCode resp = 401 \<and> i < length (cl_auths c)")
  case True
  then obtain i where i: "fl_auth f = Some i" "hp_StatusCode resp = 401" "i < length (cl_auths c)" by blast
  obtain y a' where y: "HandleChallenge 401 (hp_Header resp) (cl_auths c ! i) = (y, a')" by force
  let ?c = "c\<lparr>cl_auths := (cl_auths c)[i := a']\<rparr>"
  have e: "extends P 0 c ?c" using handled_no_digest [OF _ i(3) y] by (auto simp: extends_def settings_def)
  have e': "extends P n c ?c" using e by (rule extends_mono) auto
  show ?thesis
  proof (cases "y = Inr True")
    case True
    let ?z = "apply_auth env (Some i) (resetRequestBody (fl_body f) q) ?c"
    have "c' = snd ?z" "x = Inr True" using assms i y True by (auto simp: challenge_def split: prod.splits)
    moreover have "extends P n ?c (snd ?z)" using apply_auth_extends [of env "Some i" _ ?c "fst ?z" "snd ?z"] by (metis prod.collapse)
    ultimately show ?thesis using extends_trans [OF e, of n c'] handled_no_digest [OF _ i(3) y] True by auto
  next
    case False
    then have "c' = ?c \<and> x \<noteq> Inr True" using assms i y by (auto simp: challenge_def split: sum.splits bool.splits)
    then show ?thesis using e' by simp
  qed
next
  case False
  then show ?thesis using assms by (auto simp: challenge_def extends_refl split: option.splits if_splits)
qed

lemma next_hop_follow:
  assumes "next_hop env f req h resp c = HopFollow new h'"
  shows "int (length h) < max_hops req c \<and> length h' = Suc (length h) \<and>
    (\<exists>status m u. new = redirected_request env f req status m u)"
  using assms by (auto simp: next_hop_def Let_def split: if_splits option.splits hop_answer.splits)

lemma max_hops_redirected [simp]: "max_hops (redirected_request env f req status m u) c = max_hops req c"
  by (simp add: max_hops_def redirected_request_def Let_def)

lemma request_url_redirected [simp]: "request_url env (redirected_request env f req status m u) = u"
  by (simp add: request_url_def redirected_request_def Let_def)

text \<open>
  The three ways a hop ends: with a result, with a redirect or with an answered
  challenge, with the client that has the messages of the hop behind it.
\<close>

definition hop_sends :: "client_env \<Rightarrow> client_request \<Rightarrow> client \<Rightarrow> string \<times> string \<times> http_request \<Rightarrow> bool" where
  "hop_sends env req c x \<longleftrightarrow>
     (\<exists>f req1 c1. prepare env req c = (Inr (f, req1), c1) \<and> fst x = request_url env req \<and>
        fst ` set (hr_Header (snd (snd x))) \<subseteq> fst ` set (hr_Header (fl_httpReq f)) \<and>
        (cl_hooks c = None \<longrightarrow> hr_Body (snd (snd x)) = body_bytes req))"

lemma doOnce_cases:
  assumes "doOnce (Suc fuel) env req h c = x"
  obtains (stop) r hd c' where "x = Some (r, hd, c')" and "extends (hop_sends env req c) 3 c c'"
    | (follow) f req1 c1 resp new h' c' where "prepare env req c = (Inr (f, req1), c1)" and "extends (hop_sends env req c) 3 c c'"
        and "next_hop env f req1 h resp c' = HopFollow new h'"
        and "x = map_option (\<lambda>(r, hd, c''). (r, cr_Headers req1, c'')) (doOnce fuel env new h' c')"
    | (again) f req1 c1 c' where "prepare env req c = (Inr (f, req1), c1)" and "extends (hop_sends env req c) 3 c c'"
        and "\<not> no_digest c" and "x = doOnce fuel env req1 h c'"
proof -
  let ?P = "hop_sends env req c"
  obtain p c1 where p: "prepare env req c = (p, c1)" by force
  show thesis
  proof (cases p)
    case (Inl err)
    then show thesis using stop assms p prepare_fail [of env req c err c1 ?P 3] by auto
  next
    case (Inr fr)
    then obtain f req1 where f: "prepare env req c = (Inr (f, req1), c1)" using p by (cases fr) auto
    note ok = prepare_ok [OF f, where P = ?P and n = 0]
    obtain s q c2 where s: "send env req1 f c1 = (s, q, c2)" by (metis surj_pair)
    let ?B = "if cl_hooks c = None then {body_bytes req} else UNIV"
    have "extends (message (fl_reqURL f) (hr_Header (fl_httpReq f)) ?B) 3 c1 c2"
      by (rule send_extends [OF s]) (use ok in \<open>auto simp: message_def\<close>)
    moreover have "?P x" if "message (fl_reqURL f) (hr_Header (fl_httpReq f)) ?B x" for x
      unfolding hop_sends_def
      by (intro exI [of _ f] exI [of _ req1] exI [of _ c1]) (use that f ok in \<open>cases "cl_hooks c"; simp add: message_def case_prod_unfold\<close>)
    ultimately have "extends ?P 3 c1 c2" using extends_mono [of _ 3 c1 c2 3 ?P] by blast
    then have e2: "extends ?P 3 c c2" using extends_trans [OF conjunct1 [OF ok], of 3 c2] by simp
    show thesis
    proof (cases s)
      case (Inl err)
      then show thesis using stop assms f s e2 by auto
    next
      case (Inr rp)
      obtain resp proto where rp: "rp = (resp, proto)" by force
      show thesis
      proof (cases "pin_check env (fl_host f) resp c2")
        case (Some failure)
        then show thesis using stop assms f s e2 Inr rp by auto
      next
        case None
        let ?c3 = "store_cookies env (fl_parsedURL f) resp c2"
        have e3: "extends ?P 3 c ?c3" using extends_trans [OF e2 store_cookies_extends, of 0 env] by simp
        show thesis
        proof (cases "next_hop env f req1 h resp ?c3")
          case (HopError err)
          then show thesis using stop assms f s e3 Inr rp None by (auto simp: Let_def)
        next
          case (HopFollow new h')
          then show thesis using follow [OF f e3] assms f s Inr rp None by (auto simp: Let_def)
        next
          case HopKeep
          obtain y c4 where y: "challenge env f q resp ?c3 = (y, c4)" by force
          have e4: "extends ?P 3 c c4" using extends_trans [OF e3, of 0 c4] challenge_extends [OF y, of ?P 0] by simp
          have nd: "no_digest c \<Longrightarrow> y \<noteq> Inr True" using challenge_extends [OF y] e3 by (auto simp: extends_def)
          show thesis
          proof (cases "y = Inr True")
            case True
            then show thesis using again [OF f e4] assms f s Inr rp None HopKeep y nd by (auto simp: Let_def)
          next
            case False
            then show thesis using stop [OF _ e4] assms f s Inr rp None HopKeep y by (auto simp: Let_def split: sum.splits bool.splits)
          qed
        qed
      qed
    qed
  qed
qed

lemma doOnce_returns:
  assumes "no_digest c" and "nat (max_hops req c) \<le> length h + n" and "n < fuel"
  shows "\<exists>r hd c'. doOnce fuel env req h c = Some (r, hd, c') \<and> extends (\<lambda>_. True) (3 * (n + 1)) c c'"
  using assms
proof (induction fuel arbitrary: n req h c)
  case (Suc fuel)
  have any: "extends (\<lambda>_. True) 3 c c'" if "extends (hop_sends env req c) 3 c c'" for c' using that by (rule extends_mono) auto
  show ?case
  proof (rule doOnce_cases [OF refl, of fuel env req h c])
    fix r hd c'
    assume r: "doOnce (Suc fuel) env req h c = Some (r, hd, c')" and "extends (hop_sends env req c) 3 c c'"
    then have "extends (\<lambda>_. True) (3 * (n + 1)) c c'" by (elim extends_mono) auto
    then show ?thesis using r by blast
  next
    fix f req1 c1 resp new h' c'
    assume p: "prepare env req c = (Inr (f, req1), c1)" and e: "extends (hop_sends env req c) 3 c c'"
      and "next_hop env f req1 h resp c' = HopFollow new h'"
      and r: "doOnce (Suc fuel) env req h c = map_option (\<lambda>(r, hd, c''). (r, cr_Headers req1, c'')) (doOnce fuel env new h' c')"
    then obtain status m u where n': "int (length h) < max_hops req1 c'" "length h' = Suc (length h)"
      "new = redirected_request env f req1 status m u" using next_hop_follow by blast
    have "max_hops req1 c' = max_hops req c"
      using prepare_ok [OF p] max_hops_settings [OF extends_settings [OF e], of req] max_hops_frame by metis
    then have m: "max_hops new c' = max_hops req c" "length h < nat (max_hops req c)" using n'(1,3) by simp_all
    obtain n0 where n0: "n = Suc n0" using m(2) Suc.prems(2) by (cases n) auto
    have "no_digest c'" using e Suc.prems(1) by (simp add: extends_def)
    moreover have "nat (max_hops new c') \<le> length h' + n0" using m(1) n'(2) n0 Suc.prems(2) by simp
    ultimately obtain r2 hd2 c2 where s: "doOnce fuel env new h' c' = Some (r2, hd2, c2)" "extends (\<lambda>_. True) (3 * (n0 + 1)) c' c2"
      using Suc.IH [of c' new h' n0] Suc.prems(3) n0 by auto
    then show ?thesis using r extends_trans [OF any [OF e] s(2)] n0 by simp
  next
    fix f req1 c1 c'
    assume "\<not> no_digest c"
    then show ?thesis using Suc.prems(1) by blast
  qed
qed simp

lemma retry_loop_returns:
  assumes "no_digest c" and "nat (max_hops req c) < fuel"
  shows "\<exists>r c'. retry_loop fuel env req left first st c = Some (r, c') \<and> extends (\<lambda>_. True) (left * (3 * (nat (max_hops req c) + 1))) c c'"
  using assms
proof (induction left arbitrary: first st c)
  case 0
  then show ?case by (simp add: extends_refl)
next
  case (Suc left)
  let ?m = "3 * (nat (max_hops req c) + 1)"
  have "max_hops (attempt_request req st c) c = max_hops req c" by (simp add: attempt_request_def max_hops_def Let_def)
  then obtain r h c1 where once: "doOnce fuel env (attempt_request req st c) [] c = Some (r, h, c1)" and e: "extends (\<lambda>_. True) ?m c c1"
    using doOnce_returns [OF Suc.prems(1), of "attempt_request req st c" "[]" "nat (max_hops req c)" fuel env] Suc.prems(2) by auto
  have nd: "no_digest c1" and m: "max_hops req c1 = max_hops req c"
    using e Suc.prems(1) max_hops_settings [OF extends_settings [OF e]] by (simp_all add: extends_def)
  have stop: "extends (\<lambda>_. True) (Suc left * ?m) c c1" using e by (rule extends_mono) auto
  have rest: "\<exists>r c'. retry_loop fuel env req left b st' c1 = Some (r, c') \<and> extends (\<lambda>_. True) (Suc left * ?m) c c'" for b st'
    using Suc.IH [OF nd, of b st'] Suc.prems(2) m extends_trans [OF e] by fastforce
  show ?case
    using once stop rest
    by (auto simp: Let_def extends_refl simp del: doOnce.simps split: option.split sum.split client_error.split)
qed

section \<open>Credentials\<close>

lemma credential_canonical [simp]: "credential_key (CanonicalHeaderKey k) = credential_key k"
  by (simp add: credential_key_def)

definition plain_names :: "string list" where
  "plain_names = known_names @ [''Te'', HeaderOrderKey, PHeaderOrderKey]"

lemma credential_not_plain: "credential_key k \<Longrightarrow> k \<notin> set plain_names"
proof -
  have "list_all (\<lambda>k. \<not> credential_key k) plain_names" by code_simp
  then show "credential_key k \<Longrightarrow> ?thesis" by (auto simp: list_all_iff)
qed

lemma mode_headers_other: "k \<notin> set plain_names \<Longrightarrow> map_of (mode_headers ul p req u h) k = map_of h k"
  by (simp add: plain_names_def known_names_def mode_headers_def Let_def table_priority_other applyNavigationModeHeaders_def
      applyCORSModeHeaders_def applyNoCorsHeaders_def cors_origin_other set_if_preset_other hints_other map_of_header_Set
      split: fetch_mode.split)

definition no_credentials :: "headers \<Rightarrow> bool" where
  "no_credentials h \<longleftrightarrow> list_all (\<lambda>e. \<not> credential_key (fst e)) h"

lemma no_credentials_map_of: "no_credentials h \<longleftrightarrow> (\<forall>k. credential_key k \<longrightarrow> map_of h k = None)"
  by (force simp: no_credentials_def list_all_iff map_of_eq_None_iff image_iff)

lemma user_headers_credentials:
  assumes "no_credentials es" and "credential_key k"
  shows "map_of (fold user_header es h) k = map_of h k"
proof (rule user_headers_other)
  show "list_all (\<lambda>e. k \<noteq> CanonicalHeaderKey (fst e)) es"
    using assms by (auto simp: no_credentials_def list_all_iff)
qed

lemma normalize_other: "k \<notin> set plain_names \<Longrightarrow> map_of (normalizeRequestWithBody m b h) k = map_of h k"
  by (auto simp: plain_names_def known_names_def normalizeRequestWithBody_def normalizeRequest_def Let_def
      map_of_header_Set map_of_header_Del)

lemma request_headers_credentials:
  assumes "no_credentials (cr_Headers req)"
  shows "no_credentials (request_headers env req u m c)"
  unfolding no_credentials_map_of
proof (intro allI impI)
  fix k assume k: "credential_key k"
  note n = credential_not_plain [OF k]
  have "k \<noteq> HeaderOrderKey" "k \<noteq> PHeaderOrderKey" "k \<noteq> ''Host''" "k \<noteq> ''User-Agent''"
    using n by (auto simp: plain_names_def known_names_def)
  then show "map_of (request_headers env req u m c) k = None"
    using user_headers_credentials [OF assms k] mode_headers_other [OF n] normalize_other [OF n]
    by (simp add: request_headers_def applyTLSOnlyHeaders_def applyModeHeaders_def set_orders_other map_of_header_Set Let_def)
qed

lemma prepare_credentials:
  assumes "prepare env req c = (Inr (f, req1), c1)" and "cl_hooks c = None" and "effective_auth req c = None"
    and "no_credentials (cr_Headers req)"
  shows "no_credentials (hr_Header (fl_httpReq f)) \<and> no_credentials (cr_Headers req1)"
proof -
  have cookies: "no_credentials (hr_Header (apply_cookies env u c' q))" if "no_credentials (hr_Header q)" for u c' q
    using that credential_not_plain
    by (auto simp: apply_cookies_def Let_def no_credentials_map_of map_of_header_Set plain_names_def known_names_def split: option.split)
  have h: "no_credentials (hr_Header (fl_httpReq f))"
    using assms request_headers_credentials [OF assms(4)] cookies
    by (auto simp: prepare_def pre_request_def apply_auth_def Let_def split: option.splits if_splits sum.splits)
  have up: "no_credentials (AList.update k v g)" if "\<not> credential_key k" "no_credentials g" for k v g
    using that by (auto simp: no_credentials_map_of)
  have copy: "no_credentials (debug_copy sent g)" if "no_credentials sent" "no_credentials g" for sent g
    using that unfolding debug_copy_def
  proof (induction sent arbitrary: g)
    case (Cons e sent)
    then have "\<not> credential_key (fst e)" "no_credentials sent" by (auto simp: no_credentials_def)
    then show ?case using Cons.IH Cons.prems(2) up by (cases e) simp
  qed simp
  show ?thesis using h copy [OF h assms(4)] prepare_ok [OF assms(1)] by simp
qed

section \<open>Invariants of a run\<close>

abbreviation grows :: "(string \<times> string \<times> http_request \<Rightarrow> bool) \<Rightarrow> client \<Rightarrow> client \<Rightarrow> bool" where
  "grows P c c' \<equiv> \<exists>n. extends P n c c'"

text \<open>
  An invariant of the request and the client that redirects and answered challenges keep,
  and that gives \<open>P\<close> for the messages of one hop, gives \<open>P\<close> for all messages of the run.
\<close>

lemma doOnce_run:
  assumes "doOnce fuel env req h c = Some (r, hs, c')" and "I req c"
    and message: "\<And>req c x. I req c \<Longrightarrow> hop_sends env req c x \<Longrightarrow> P x"
    and follow: "\<And>req c f req1 c1 d status m u. I req c \<Longrightarrow> prepare env req c = (Inr (f, req1), c1) \<Longrightarrow>
      settings d = settings c \<Longrightarrow> I (redirected_request env f req1 status m u) d"
    and again: "\<And>req c f req1 c1 d. I req c \<Longrightarrow> prepare env req c = (Inr (f, req1), c1) \<Longrightarrow> settings d = settings c \<Longrightarrow> I req1 d"
  shows "grows P c c'"
  using assms(1,2)
proof (induction fuel arbitrary: req h c r hs)
  case (Suc fuel)
  have P: "extends P 3 c d" if "extends (hop_sends env req c) 3 c d" for d
    using that by (rule extends_mono) (auto dest: message [OF Suc.prems(2)])
  show ?case
  proof (rule doOnce_cases [OF refl, of fuel env req h c])
    fix r' hs' d
    assume "doOnce (Suc fuel) env req h c = Some (r', hs', d)" "extends (hop_sends env req c) 3 c d"
    then show ?thesis using P Suc.prems(1) by auto
  next
    fix f req1 c1 resp new h' d
    assume p: "prepare env req c = (Inr (f, req1), c1)" and e: "extends (hop_sends env req c) 3 c d"
      and n: "next_hop env f req1 h resp d = HopFollow new h'"
      and r: "doOnce (Suc fuel) env req h c = map_option (\<lambda>(r, hd, c''). (r, cr_Headers req1, c'')) (doOnce fuel env new h' d)"
    obtain r0 hs0 where r0: "doOnce fuel env new h' d = Some (r0, hs0, c')" using r Suc.prems(1) by (auto split: option.splits)
    have "I new d" using follow [OF Suc.prems(2) p extends_settings [OF e]] next_hop_follow [OF n] by blast
    then show ?thesis using Suc.IH [OF r0] extends_trans [OF P [OF e]] by blast
  next
    fix f req1 c1 d
    assume p: "prepare env req c = (Inr (f, req1), c1)" and e: "extends (hop_sends env req c) 3 c d"
      and r: "doOnce (Suc fuel) env req h c = doOnce fuel env req1 h d"
    then have "doOnce fuel env req1 h d = Some (r, hs, c')" using Suc.prems(1) by (simp del: doOnce.simps)
    then show ?thesis using Suc.IH again [OF Suc.prems(2) p extends_settings [OF e]] extends_trans [OF P [OF e]] by blast
  qed
qed simp

lemma grows_sent: "grows P c c' \<Longrightarrow> x \<in> set (drop (length (cl_sent c)) (cl_sent c')) \<Longrightarrow> P x"
  by (auto simp: extends_def list_all_iff)

lemma redirected_credentials:
  assumes "\<not> sameOriginClient (ne_url env) (fl_reqURL f) u"
  shows "no_credentials (cr_Headers (redirected_request env f req status m u)) \<and> cr_Auth (redirected_request env f req status m u) = None"
  using assms by (auto simp: redirected_request_def carried_headers_def no_credentials_def list_all_iff credential_key_def Let_def)

definition near :: "client_env \<Rightarrow> string \<Rightarrow> string \<Rightarrow> bool" where
  "near env u v \<longleftrightarrow> v = u \<or> sameOriginClient (ne_url env) u v"

lemma credentials_run:
  assumes "doOnce fuel env req h c = Some (r, hs, c')" and "cl_auth c = None" and "cl_hooks c = None"
  shows "grows (\<lambda>x. no_credentials (hr_Header (snd (snd x))) \<or> near env (request_url env req) (fst x)) c c'"
proof (rule doOnce_run [OF assms(1), where I = "\<lambda>req1 c. cl_auth c = None \<and> cl_hooks c = None \<and>
    (cr_Auth req1 = None \<and> no_credentials (cr_Headers req1) \<or> near env (request_url env req) (request_url env req1))"])
  fix req1 c x
  let ?u = "request_url env req"
  assume i: "cl_auth c = None \<and> cl_hooks c = None \<and>
      (cr_Auth req1 = None \<and> no_credentials (cr_Headers req1) \<or> near env ?u (request_url env req1))" and x: "hop_sends env req1 c x"
  show "no_credentials (hr_Header (snd (snd x))) \<or> near env ?u (fst x)"
  proof (cases "near env ?u (request_url env req1)")
    case False
    then have "effective_auth req1 c = None" using i by (simp add: effective_auth_def)
    then show ?thesis using x i False prepare_credentials [of env req1 c]
      by (fastforce simp: hop_sends_def no_credentials_def list_all_iff)
  qed (use x in \<open>auto simp: hop_sends_def\<close>)
next
  fix req1 c f req2 c1 d status m v
  let ?u = "request_url env req" and ?new = "redirected_request env f req2 status m v"
  assume i: "cl_auth c = None \<and> cl_hooks c = None \<and>
      (cr_Auth req1 = None \<and> no_credentials (cr_Headers req1) \<or> near env ?u (request_url env req1))"
    and p: "prepare env req1 c = (Inr (f, req2), c1)" and s: "settings d = settings c"
  have "cr_Auth ?new = None \<and> no_credentials (cr_Headers ?new) \<or> near env ?u v"
  proof (cases "sameOriginClient (ne_url env) (fl_reqURL f) v \<and> near env ?u (request_url env req1)")
    case True
    then show ?thesis using prepare_ok [OF p] sameOrigin_trans by (auto simp: near_def sameOriginClient_eq)
  next
    case False
    then consider "\<not> sameOriginClient (ne_url env) (fl_reqURL f) v" | "cr_Auth req1 = None \<and> no_credentials (cr_Headers req1)"
      using i by blast
    then show ?thesis
    proof cases
      case 2
      then have "no_credentials (cr_Headers req2) \<and> cr_Auth req2 = None"
        using prepare_credentials [OF p] prepare_ok [OF p] i by (auto simp: effective_auth_def)
      then show ?thesis by (auto simp: redirected_request_def carried_headers_def no_credentials_def list_all_iff Let_def)
    qed (use redirected_credentials in blast)
  qed
  then show "cl_auth d = None \<and> cl_hooks d = None \<and>
      (cr_Auth ?new = None \<and> no_credentials (cr_Headers ?new) \<or> near env ?u (request_url env ?new))"
    using s i by (simp add: settings_def)
next
  fix req1 c f req2 c1 d
  let ?u = "request_url env req"
  assume i: "cl_auth c = None \<and> cl_hooks c = None \<and>
      (cr_Auth req1 = None \<and> no_credentials (cr_Headers req1) \<or> near env ?u (request_url env req1))"
    and p: "prepare env req1 c = (Inr (f, req2), c1)" and s: "settings d = settings c"
  then show "cl_auth d = None \<and> cl_hooks d = None \<and>
      (cr_Auth req2 = None \<and> no_credentials (cr_Headers req2) \<or> near env ?u (request_url env req2))"
    using prepare_credentials [OF p] prepare_ok [OF p] by (auto simp: effective_auth_def settings_def)
qed (use assms in \<open>simp_all add: near_def\<close>)

lemma prepared_body: "prepare env req c = (Inr (f, req1), c1) \<Longrightarrow> body_bytes req1 = body_bytes req \<and> fl_body f = body_bytes req"
  using prepare_ok [of env req c f req1 c1] by (auto simp: body_bytes_def [of "_\<lparr>cr_Headers := _, cr_HeadersNil := _\<rparr>"] body_bytes_def [of req])

lemma redirected_body:
  "body_bytes (redirected_request env f req status m u) = (if status = 307 \<or> status = 308 then fl_body f else [])"
  by (simp add: body_bytes_def redirected_request_def Let_def)

lemma bodies_run:
  assumes "doOnce fuel env req h c = Some (r, hs, c')" and "cl_hooks c = None"
  shows "grows (\<lambda>x. hr_Body (snd (snd x)) \<in> {body_bytes req, []}) c c'"
proof (rule doOnce_run [OF assms(1), where I = "\<lambda>req1 c. cl_hooks c = None \<and> body_bytes req1 \<in> {body_bytes req, []}"])
  fix req1 c f req2 c1 d status m u
  assume "cl_hooks c = None \<and> body_bytes req1 \<in> {body_bytes req, []}" "prepare env req1 c = (Inr (f, req2), c1)" "settings d = settings c"
  then show "cl_hooks d = None \<and> body_bytes (redirected_request env f req2 status m u) \<in> {body_bytes req, []}"
    using prepared_body by (auto simp: redirected_body settings_def)
qed (use assms prepared_body in \<open>auto simp: hop_sends_def settings_def\<close>)

lemma retry_loop_run:
  assumes "retry_loop fuel env req left first st c = Some (r, c')" and "S (settings c)"
    and "\<And>st c r h c'. doOnce fuel env (attempt_request req st c) [] c = Some (r, h, c') \<Longrightarrow> S (settings c) \<Longrightarrow> grows P c c'"
  shows "grows P c c'"
  using assms(1,2)
proof (induction left arbitrary: first st c)
  case (Suc left)
  show ?case
  proof (cases "doOnce fuel env (attempt_request req st c) [] c")
    case None
    then show ?thesis using Suc.prems(1) by (auto simp: extends_refl simp del: doOnce.simps split: option.splits)
  next
    case (Some x)
    obtain r1 h c1 where x: "x = (r1, h, c1)" by (metis surj_pair)
    obtain n where e: "extends P n c c1" using assms(3) Some x Suc.prems(2) by blast
    then have s: "S (settings c1)" using extends_settings Suc.prems(2) by metis
    have "c' = c \<or> c' = c1 \<or> (\<exists>st'. retry_loop fuel env req left False st' c1 = Some (r, c'))"
      using Suc.prems(1) Some x
      by (auto simp: Let_def simp del: doOnce.simps split: option.splits sum.splits client_error.splits if_splits)
    then show ?thesis using e Suc.IH [OF _ s] extends_trans [OF e] extends_refl [of c c P 0] by blast
  qed
qed (auto simp: extends_refl)

lemma Do_plain:
  "cl_configErr c = None \<Longrightarrow> \<not> (cc_RetryEnabled (cl_config c) \<and> \<not> cr_DisableRetry req) \<Longrightarrow>
   Do fuel env req c = map_option (\<lambda>(r, h, c'). (case r of Inl (RedirectHookError err) \<Rightarrow> Inl (ClientError err) | _ \<Rightarrow> r, c'))
     (doOnce fuel env req [] c)"
  by (auto simp: Do_def simp del: doOnce.simps)

lemma Do_run:
  assumes "Do fuel env req c = Some (r, c')" and "S (settings c)"
    and "\<And>st c r h c'. doOnce fuel env (attempt_request req st c) [] c = Some (r, h, c') \<Longrightarrow> S (settings c) \<Longrightarrow> grows P c c'"
    and "\<And>c r h c'. doOnce fuel env req [] c = Some (r, h, c') \<Longrightarrow> S (settings c) \<Longrightarrow> grows P c c'"
  shows "grows P c c'"
proof (cases "cl_configErr c")
  case None
  show ?thesis
  proof (cases "cc_RetryEnabled (cl_config c) \<and> \<not> cr_DisableRetry req")
    case True
    then have "\<exists>n st. retry_loop fuel env req n True st c = Some (r, c')"
      using assms(1) None by (auto simp: Do_def doWithRetry_def)
    then show ?thesis using retry_loop_run [where S = S and P = P, OF _ assms(2)] assms(3) by blast
  next
    case False
    then obtain r0 h where "doOnce fuel env req [] c = Some (r0, h, c')"
      using assms(1) Do_plain [OF None False] by (auto simp del: doOnce.simps)
    then show ?thesis using assms(2,4) by blast
  qed
qed (use assms(1) extends_refl [of c c] in \<open>auto simp: Do_def\<close>)

lemma attempt_frame [simp]:
  "request_url env (attempt_request req st c) = request_url env req" "body_bytes (attempt_request req st c) = body_bytes req"
  "max_hops (attempt_request req st c) c' = max_hops req c'"
  by (simp_all add: attempt_request_def request_url_def body_bytes_def max_hops_def Let_def)

section \<open>Examples\<close>

definition web_response :: "int \<Rightarrow> headers \<Rightarrow> http_response" where
  "web_response status h = \<lparr>hp_StatusCode = status, hp_Header = h, hp_Body = Inr [], hp_TLS = None\<rparr>"

definition web :: "(nat \<Rightarrow> http_request \<Rightarrow> round_trip) \<Rightarrow> client_env" where
  "web answers =
     \<lparr>ne_url = demo_lib, ne_query = \<lparr>ql_Query = (\<lambda>u. []), ql_Encode = (\<lambda>v. [])\<rparr>, ne_now = int,
      ne_NewRequest = (\<lambda>m u. case ul_Parse demo_lib u of Some x \<Rightarrow> Inr (x, url_Path x) | None \<Rightarrow> Inl ''parse''),
      ne_GetConn = (\<lambda>n proto host port. None), ne_RoundTrip = (\<lambda>n proto. answers n), ne_md5 = (\<lambda>s. ''md5''),
      ne_cnonce = (\<lambda>n. ''cn''), ne_sha256 = id, ne_timeParse = (\<lambda>f s. None), ne_codec = (\<lambda>e d. Inr d), ne_ctxDone = (\<lambda>n. None)\<rparr>"

definition web_client :: client where
  "web_client =
     \<lparr>cl_preset = demo_preset,
      cl_config = \<lparr>cc_TLSOnly = True, cc_FollowRedirects = True, cc_MaxRedirects = 10, cc_RetryEnabled = False, cc_MaxRetries = 3,
        cc_RetryOnStatus = [429, 500, 502, 503, 504], cc_ForceProtocol = ForceAuto, cc_Proxy = []\<rparr>,
      cl_auth = None, cl_auths = [], cl_cookies = None, cl_hooks = None, cl_certPinner = None, cl_quicManager = False,
      cl_masqueTransport = False, cl_socks5H3Transport = False, cl_h3Failures = [], cl_h2Failures = [], cl_h3InitError = None,
      cl_configErr = None, cl_customHeaderOrder = [], cl_calls = 0, cl_sent = []\<rparr>"

definition to_other_site :: "nat \<Rightarrow> http_request \<Rightarrow> round_trip" where
  "to_other_site n req =
     RTResponse (if url_Host (hr_URL req) = ''a.test'' then web_response 307 [(''Location'', [''https://b.test/''])] else web_response 200 [])"

text \<open>What was sent: for each message the URL and the value of one header.\<close>

definition sent_header :: "string \<Rightarrow> ((client_error + client_response) \<times> client) option \<Rightarrow> (string \<times> string list option) list" where
  "sent_header k x = (case x of None \<Rightarrow> [] | Some (r, c) \<Rightarrow> map (\<lambda>(u, proto, q). (u, map_of (hr_Header q) k)) (cl_sent c))"

section \<open>Properties\<close>

text \<open>
  Property C23. A request of the client returns: when no digest authentication is in
  use, fuel for one more call than the redirect limit is enough, whatever the
  network answers, and at most three messages, one for each protocol, are sent per
  hop and attempt.
\<close>

theorem client_request_returns:
  assumes "no_digest c" and "nat (max_hops req c) < fuel"
  shows "\<exists>r c'. Do fuel env req c = Some (r, c') \<and>
    length (cl_sent c') \<le> length (cl_sent c) + (nat (cc_MaxRetries (cl_config c)) + 1) * (3 * (nat (max_hops req c) + 1))"
proof (cases "cl_configErr c")
  case None
  let ?n = "3 * (nat (max_hops req c) + 1)" and ?k = "nat (cc_MaxRetries (cl_config c)) + 1"
  have len: "length (cl_sent c') \<le> length (cl_sent c) + ?k * ?n" if "extends (\<lambda>_. True) (m * ?n) c c'" "m \<le> ?k" for c' m
    using that mult_le_mono1 [OF that(2), of ?n] by (auto simp: extends_def)
  show ?thesis
  proof (cases "cc_RetryEnabled (cl_config c) \<and> \<not> cr_DisableRetry req")
    case True
    have k: "nat (cc_MaxRetries (cl_config c) + 1) \<le> ?k" by linarith
    show ?thesis
      using None True retry_loop_returns [OF assms, of env "nat (cc_MaxRetries (cl_config c) + 1)" True] len [OF _ k]
      by (fastforce simp: Do_def doWithRetry_def)
  next
    case False
    obtain r h c' where "doOnce fuel env req [] c = Some (r, h, c')" "extends (\<lambda>_. True) ?n c c'"
      using doOnce_returns [OF assms(1), of req "[]" "nat (max_hops req c)" fuel env] assms(2) by auto
    then show ?thesis using len [of 1 c'] Do_plain [OF None False] by simp
  qed
qed (simp add: Do_def)

theorem client_request_returns_witness:
  "\<exists>r c'. Do 11 (web to_other_site) (client_get ''https://a.test/x'') web_client = Some (r, c') \<and> length (cl_sent c') \<le> 132"
  using client_request_returns [of web_client "client_get ''https://a.test/x''" 11 "web to_other_site"]
  by (simp add: web_client_def no_digest_def max_hops_def client_get_def)

text \<open>
  Property C2. Credentials of a request stay with its origin: unless the client
  itself has an authentication scheme or hooks, every message with an Authorization or
  Proxy-Authorization header, over all retries, challenges and redirects, goes to
  the URL of the request or to the same origin.
\<close>

theorem client_credentials_confined:
  assumes "Do fuel env req c = Some (r, c')" and "cl_auth c = None" and "cl_hooks c = None"
    and "(u, proto, q) \<in> set (drop (length (cl_sent c)) (cl_sent c'))" and "\<not> no_credentials (hr_Header q)"
  shows "u = request_url env req \<or> sameOriginClient (ne_url env) (request_url env req) u"
proof -
  let ?P = "\<lambda>x. no_credentials (hr_Header (snd (snd x))) \<or> near env (request_url env req) (fst x)"
  have "grows ?P c c'"
    by (rule Do_run [OF assms(1), where S = "\<lambda>s. fst (snd (snd s)) = None \<and> fst (snd (snd (snd s))) = None"])
      (use assms(2,3) credentials_run [of fuel env "attempt_request req _ _" "[]"] credentials_run [of fuel env req "[]"]
        in \<open>auto simp: settings_def\<close>)
  from grows_sent [OF this assms(4)] show ?thesis using assms(5) by (simp add: near_def)
qed

definition login_request :: client_request where
  "login_request = (client_get ''https://a.test/x'')\<lparr>cr_Headers := [(''AUTHORIZATION'', [''Bearer t''])], cr_HeadersNil := False\<rparr>"

theorem client_credentials_confined_witness:
  "sent_header ''Authorization'' (Do 3 (web to_other_site) login_request web_client) =
     [(''https://a.test/x'', Some [''Bearer t'']), (''https://b.test/'', None)] \<and>
   (case Do 3 (web to_other_site) login_request web_client of
      None \<Rightarrow> False
    | Some (r, c) \<Rightarrow> fst (hd (cl_sent c)) = request_url (web to_other_site) login_request \<or>
        sameOriginClient demo_lib (request_url (web to_other_site) login_request) (fst (hd (cl_sent c))))"
proof
  let ?x = "Do 3 (web to_other_site) login_request web_client"
  show "sent_header ''Authorization'' ?x = [(''https://a.test/x'', Some [''Bearer t'']), (''https://b.test/'', None)]" by code_simp
  have ran: "case ?x of None \<Rightarrow> False | Some (r, c) \<Rightarrow> cl_sent c \<noteq> [] \<and> \<not> no_credentials (hr_Header (snd (snd (hd (cl_sent c)))))"
    by code_simp
  then obtain r c where x: "?x = Some (r, c)" and s: "cl_sent c \<noteq> []" "\<not> no_credentials (hr_Header (snd (snd (hd (cl_sent c)))))"
    by (auto split: option.splits)
  obtain u proto q where h: "hd (cl_sent c) = (u, proto, q)" by (metis surj_pair)
  have "(u, proto, q) \<in> set (drop (length (cl_sent web_client)) (cl_sent c))"
    using hd_in_set [OF s(1)] h by (simp add: web_client_def)
  then have "u = request_url (web to_other_site) login_request \<or>
      sameOriginClient (ne_url (web to_other_site)) (request_url (web to_other_site) login_request) u"
    using client_credentials_confined [OF x _ _ _ , of u proto q] s(2) h by (simp add: web_client_def)
  then show "case ?x of None \<Rightarrow> False
    | Some (r, c) \<Rightarrow> fst (hd (cl_sent c)) = request_url (web to_other_site) login_request \<or>
        sameOriginClient demo_lib (request_url (web to_other_site) login_request) (fst (hd (cl_sent c)))"
    using x h by (simp add: web_def)
qed

end
