(* ===== verification/Client_Safety.thy ===== *)
theory Client_Safety
  imports Client_Runs
begin

text \<open>
  More of a whole run of the client's \<^verbatim>\<open>Do\<close>: which bodies it sends, that a response it
  returns passed the certificate pins, and the cases in which it does something
  else than it says.
\<close>

section \<open>Responses\<close>

definition answered :: "client_env \<Rightarrow> http_response \<Rightarrow> bool" where
  "answered env hr \<longleftrightarrow> (\<exists>n proto q. ne_RoundTrip env n proto q = RTResponse hr)"

lemma roundTrip_answered: "roundTrip env u proto q c = (RTResponse hr, rest) \<Longrightarrow> answered env hr"
  by (auto simp: roundTrip_def answered_def Let_def split: if_splits)

lemma answer_of_answered: "answer_of wrap (roundTrip env u proto q c) = (Inr hr, rest) \<Longrightarrow> answered env hr"
  using roundTrip_answered [of env u proto q c hr "snd (roundTrip env u proto q c)"]
  by (cases "roundTrip env u proto q c") (auto simp: answer_of_def split: round_trip.splits)

lemma pooled_answered:
  assumes "pooled_exchange env u proto noConn wrap host port q c = (Inr hr, rest)"
  shows "answered env hr"
proof -
  obtain e1 c1 where g: "getConn env proto host port c = (e1, c1)" by force
  obtain r1 req1 c2 where t: "roundTrip env u proto q c1 = (r1, req1, c2)" by (metis surj_pair)
  obtain e2 c3 where g2: "getConn env proto host port c2 = (e2, c3)" by force
  show ?thesis
  proof (cases "r1 = RTRetired")
    case True
    then have "answer_of wrap (roundTrip env u proto req1 c3) = (Inr hr, rest)"
      using assms g t g2 by (auto simp: pooled_exchange_def split: option.splits)
    then show ?thesis by (rule answer_of_answered)
  next
    case False
    then have "answer_of wrap (roundTrip env u proto q c1) = (Inr hr, rest)"
      using assms g t by (auto simp: pooled_exchange_def split: option.splits round_trip.splits)
    then show ?thesis by (rule answer_of_answered)
  qed
qed

lemma doHTTP1_answered: "doHTTP1 env u q c = (Inr hr, rest) \<Longrightarrow> answered env hr"
  by (auto simp: doHTTP1_def split: prod.splits dest: answer_of_answered)

lemma doHTTP2_answered: "doHTTP2 env u host port q c = (Inr hr, rest) \<Longrightarrow> answered env hr"
  unfolding doHTTP2_def by (rule pooled_answered)

lemma doHTTP3_answered: "doHTTP3 env u host port q c = (Inr hr, rest) \<Longrightarrow> answered env hr"
  by (auto simp: doHTTP3_def split: if_splits dest: answer_of_answered pooled_answered)

lemma named_answered:
  "named proto x = (Inr (hr, p), rest) \<Longrightarrow> (\<And>rest. x = (Inr hr, rest) \<Longrightarrow> answered env hr) \<Longrightarrow> answered env hr"
  by (cases x; cases "fst x") (auto simp: named_def)

lemma or_else_answered:
  "or_else proto x nxt = (Inr (hr, p), rest) \<Longrightarrow> (\<And>rest. x = (Inr hr, rest) \<Longrightarrow> answered env hr) \<Longrightarrow>
   (\<And>q c. nxt q c = (Inr (hr, p), rest) \<Longrightarrow> answered env hr) \<Longrightarrow> answered env hr"
  by (cases x; cases "fst x") (auto simp: or_else_def dest: named_answered)

lemma send_auto_answered:
  assumes "send_auto env f c = (Inr (hr, p), rest)"
  shows "answered env hr"
proof -
  have h1: "named ''h1'' (doHTTP1 env u q d) = (Inr (hr, p), rest) \<Longrightarrow> answered env hr" for u q d
    by (erule named_answered) (rule doHTTP1_answered)
  have h2: "or_else ''h2'' (doHTTP2 env u host port q d) nxt = (Inr (hr, p), rest) \<Longrightarrow>
     (\<And>q c. nxt q c = (Inr (hr, p), rest) \<Longrightarrow> answered env hr) \<Longrightarrow> answered env hr" for u host port q d nxt
    by (erule or_else_answered) (rule doHTTP2_answered)
  have h3: "or_else ''h3'' (doHTTP3 env u host port q d) nxt = (Inr (hr, p), rest) \<Longrightarrow>
     (\<And>q c. nxt q c = (Inr (hr, p), rest) \<Longrightarrow> answered env hr) \<Longrightarrow> answered env hr" for u host port q d nxt
    by (erule or_else_answered) (rule doHTTP3_answered)
  show ?thesis
    using assms by (auto simp: send_auto_def Let_def split: prod.splits if_splits elim!: h1 h2 h3)
qed

lemma send_answered:
  assumes "send env req f c = (Inr (hr, p), rest)"
  shows "answered env hr"
proof (cases "effective_protocol req c")
  case ForceAuto
  then show ?thesis using assms send_auto_answered by (simp add: send_def)
next
  case ForceHTTP1
  then have "named ''h1'' (doHTTP1 env (fl_reqURL f) (fl_httpReq f) c) = (Inr (hr, p), rest)" using assms by (simp add: send_def)
  then show ?thesis by (rule named_answered) (rule doHTTP1_answered)
next
  case ForceHTTP2
  then have "named ''h2'' (doHTTP2 env (fl_reqURL f) (fl_host f) (fl_port f) (fl_httpReq f) c) = (Inr (hr, p), rest)"
    using assms by (simp add: send_def)
  then show ?thesis by (rule named_answered) (rule doHTTP2_answered)
next
  case ForceHTTP3
  then show ?thesis using assms
    by (auto simp: send_def named_def split: if_splits sum.splits prod.splits dest: doHTTP3_answered)
qed

text \<open>
  A response that a client with the pins \<open>p\<close> may return: made from an answer of a
  transport whose certificates passed the pins for the host of its final URL.
\<close>

definition vouched :: "client_env \<Rightarrow> cert_pinner \<Rightarrow> client_response \<Rightarrow> bool" where
  "vouched env p resp \<longleftrightarrow>
     (\<exists>hr u. answered env hr \<and> cp_StatusCode resp = hp_StatusCode hr \<and> cp_Headers resp = response_headers (hp_Header hr) \<and>
        ul_Parse (ne_url env) (cp_FinalURL resp) = Some u \<and> url_Scheme u = ''https'' \<and>
        (\<forall>certs. hp_TLS hr = Some certs \<longrightarrow> HasPins p \<longrightarrow> pin_Verify (ne_sha256 env) (url_Hostname u) certs p = None))"

lemma prepare_https: "prepare env req c = (Inr (f, req1), c1) \<Longrightarrow> url_Scheme (fl_parsedURL f) = ''https''"
  by (auto simp: prepare_def Let_def split: option.splits if_splits sum.splits prod.splits)

lemma finish_vouched:
  assumes "finish_response env f req h hr proto c = Inr resp" and "cl_hooks c = None" and "answered env hr"
    and "ul_Parse (ne_url env) (fl_reqURL f) = Some u" and "url_Scheme u = ''https''"
    and "\<And>certs. hp_TLS hr = Some certs \<Longrightarrow> HasPins p \<Longrightarrow> pin_Verify (ne_sha256 env) (url_Hostname u) certs p = None"
  shows "vouched env p resp"
proof -
  have "cp_StatusCode resp = hp_StatusCode hr \<and> cp_Headers resp = response_headers (hp_Header hr) \<and> cp_FinalURL resp = fl_reqURL f"
    using assms(1,2) by (auto simp: finish_response_def post_response_def split: sum.splits)
  then show ?thesis using assms(3-6) by (auto simp: vouched_def)
qed

lemma doOnce_vouched:
  assumes "doOnce fuel env req h c = Some (Inr resp, hs, c')" and "cl_hooks c = None" and "cl_certPinner c = Some p"
  shows "vouched env p resp"
  using assms
proof (induction fuel arbitrary: req h c hs)
  case (Suc fuel)
  have keep: "cl_hooks d = None \<and> cl_certPinner d = Some p" if "extends (\<lambda>_. True) n c d" for n d
    using that Suc.prems(2,3) by (auto simp: extends_def settings_def)
  obtain f req1 c1 where f: "prepare env req c = (Inr (f, req1), c1)"
    using Suc.prems(1) by (auto split: prod.splits sum.splits)
  note ok = prepare_ok [OF f, where P = "\<lambda>_. True" and n = 0]
  obtain hr proto q c2 where s: "send env req1 f c1 = (Inr (hr, proto), q, c2)"
    using Suc.prems(1) f by (auto split: prod.splits sum.splits)
  have "extends (message (fl_reqURL f) (hr_Header (fl_httpReq f)) UNIV) 3 c1 c2"
    by (rule send_extends [OF s]) (auto simp: message_def)
  then have "extends (\<lambda>_. True) 3 c1 c2" by (rule extends_mono) auto
  then have e2: "extends (\<lambda>_. True) 3 c c2" using extends_trans [OF conjunct1 [OF ok], of 3 c2] by simp
  let ?c3 = "store_cookies env (fl_parsedURL f) hr c2"
  have e3: "extends (\<lambda>_. True) 3 c ?c3" using extends_trans [OF e2 store_cookies_extends, of 0 env] by simp
  have pin: "pin_check env (fl_host f) hr c2 = None" using Suc.prems(1) f s by (auto split: option.splits)
  then have certs: "pin_Verify (ne_sha256 env) (url_Hostname (fl_parsedURL f)) certs p = None"
    if "hp_TLS hr = Some certs" "HasPins p" for certs
    using that keep [OF e2] ok by (simp add: pin_check_def)
  show ?case
  proof (cases "next_hop env f req1 h hr ?c3")
    case (HopError err)
    then show ?thesis using Suc.prems(1) f s pin by (simp add: Let_def)
  next
    case (HopFollow new h')
    then show ?thesis using Suc.prems(1) f s pin Suc.IH keep [OF e3] by (auto simp: Let_def)
  next
    case HopKeep
    obtain y c4 where y: "challenge env f q hr ?c3 = (y, c4)" by force
    have "extends (\<lambda>_. True) 3 c c4" using extends_trans [OF e3, of 0 c4] challenge_extends [OF y, of "\<lambda>_. True" 0] by simp
    note k4 = keep [OF this]
    consider err where "y = Inl err" | "y = Inr True" | "y = Inr False" by (metis (full_types) sum.exhaust)
    then show ?thesis
    proof cases
      case 3
      then have "finish_response env f req1 h hr proto c4 = Inr resp"
        using Suc.prems(1) f s pin HopKeep y by (auto simp: Let_def)
      then show ?thesis
        by (rule finish_vouched [OF _ conjunct1 [OF k4] send_answered [OF s] _ prepare_https [OF f] certs]) (use ok in auto)
    qed (use Suc.prems(1) f s pin HopKeep y Suc.IH k4 in \<open>auto simp: Let_def\<close>)
  qed
qed simp

lemma retry_loop_vouched:
  assumes "retry_loop fuel env req left first st c = Some (Inr resp, c')" and "cl_hooks c = None" and "cl_certPinner c = Some p"
    and "\<And>resp. ry_lastResp st = Some resp \<Longrightarrow> vouched env p resp"
  shows "vouched env p resp"
  using assms
proof (induction left arbitrary: first st c)
  case 0
  then show ?case by (auto simp: retries_over_def split: option.splits)
next
  case (Suc left)
  obtain r h c1 where o: "doOnce fuel env (attempt_request req st c) [] c = Some (r, h, c1)"
    using Suc.prems(1) by (auto simp del: doOnce.simps split: option.splits)
  obtain n where "extends (\<lambda>_. True) n c c1" using doOnce_run [OF o, of "\<lambda>_ _. True" "\<lambda>_. True"] by blast
  then have k: "cl_hooks c1 = None" "cl_certPinner c1 = Some p" using Suc.prems(2,3) by (auto simp: extends_def settings_def)
  have v: "vouched env p r'" if "r = Inr r'" for r' using doOnce_vouched [OF _ Suc.prems(2,3)] o that by blast
  have "r = Inr resp \<or> (\<exists>st'. retry_loop fuel env req left False st' c1 = Some (Inr resp, c') \<and>
      (ry_lastResp st' = ry_lastResp st \<or> (\<exists>r'. r = Inr r' \<and> ry_lastResp st' = Some r')))"
    using Suc.prems(1) o
    by (auto simp: Let_def simp del: doOnce.simps split: option.splits sum.splits client_error.splits if_splits)
  then show ?case using v Suc.prems(4) Suc.IH [OF _ k] by (metis option.inject)
qed

section \<open>Properties\<close>


definition pinned_answer :: "nat \<Rightarrow> http_request \<Rightarrow> round_trip" where
  "pinned_answer n req = RTResponse ((web_response 200 [])\<lparr>hp_TLS := Some [\<lparr>ce_RawSubjectPublicKeyInfo = [7]\<rparr>]\<rparr>)"

text \<open>A digest of no bytes keeps the example small.\<close>

definition pinned_web :: client_env where
  "pinned_web = (web pinned_answer)\<lparr>ne_sha256 := \<lambda>bs. []\<rparr>"

definition some_pins :: cert_pinner where
  "some_pins = AddPin ''sha256/'' [] NewCertPinner"



definition upload :: client_request where
  "upload = (client_get ''https://a.test/x'')\<lparr>cr_Method := ''PUT'', cr_Body := Some [1, 2]\<rparr>"

text \<open>HTTP/2 breaks off after the body was read; HTTP/1.1 sends it again and is redirected.\<close>

definition broken_h2 :: client_env where
  "broken_h2 = (web to_other_site)\<lparr>ne_RoundTrip := \<lambda>n proto req. if proto = ''h2'' then RTError ''reset'' else to_other_site n req\<rparr>"

definition sent_bodies :: "((client_error + client_response) \<times> client) option \<Rightarrow> (string \<times> byte list) list" where
  "sent_bodies x = (case x of None \<Rightarrow> [] | Some (r, c) \<Rightarrow> map (\<lambda>(u, proto, q). (proto, hr_Body q)) (cl_sent c))"


section \<open>Where the client does something else\<close>

text \<open>
  Lemma. A scheme set on the client itself does go to another origin: the
  redirect drops the scheme of the request, and the next hop takes that of the client.
\<close>

lemma client_auth_leaks:
  "sent_header ''Authorization''
     (Do 3 (web to_other_site) (client_get ''https://a.test/x'') (SetBearerAuth ''t'' web_client)) =
   [(''https://a.test/x'', Some [''Bearer t'']), (''https://b.test/'', Some [''Bearer t''])]"
  by code_simp

text \<open>
  Lemma. A Host header set for the first hop is copied into the request of the
  caller and carried to the next host.
\<close>

lemma stale_host_header:
  "sent_header ''Host'' (Do 3 (web to_other_site) (client_get ''https://a.test/x'') web_client) =
   [(''https://a.test/x'', Some [''a.test'']), (''https://b.test/'', Some [''a.test''])]"
  by code_simp


text \<open>
  Lemma. The Cookie header that the jar gave for the first hop is copied in the same
  way: when the jar has no cookie for the next host, that host gets those of the first.
\<close>

definition set_cookie_answers :: "nat \<Rightarrow> http_request \<Rightarrow> round_trip" where
  "set_cookie_answers n req =
     RTResponse (if url_Host (hr_URL req) = ''a.test''
       then (if n < 2 then web_response 200 [(''Set-Cookie'', [''s=1''])] else web_response 302 [(''Location'', [''https://b.test/''])])
       else web_response 200 [])"

lemma jar_cookie_leaks:
  "sent_header ''Cookie''
     (case Do 2 (web set_cookie_answers) (client_get ''https://a.test/x'') (EnableCookies web_client) of
        None \<Rightarrow> None
      | Some (r, c) \<Rightarrow> Do 3 (web set_cookie_answers) (client_get ''https://a.test/x'') c) =
   [(''https://a.test/x'', None), (''https://a.test/x'', Some [''s=1'']), (''https://b.test/'', Some [''s=1''])]"
  by code_simp

text \<open>
  Lemma. A cookie challenge on the last attempt is thrown away: the response is lost,
  and the error wraps none.
\<close>

definition forbidden :: "nat \<Rightarrow> http_request \<Rightarrow> round_trip" where
  "forbidden n req = RTResponse (web_response 403 [(''Set-Cookie'', [''s=1''])])"

lemma last_challenge_lost:
  "(case Do 2 (web forbidden) (client_get ''https://a.test/x'')
     (web_client\<lparr>cl_config := (cl_config web_client)\<lparr>cc_RetryEnabled := True, cc_MaxRetries := 0\<rparr>\<rparr>) of
      Some (Inl (RetriesFailed n None), c) \<Rightarrow> n = 0 \<and> length (cl_sent c) = 1
    | _ \<Rightarrow> False)"
  by code_simp

text \<open>
  Lemma. A retried status is returned without an error although a later attempt
  failed: the response is that of the first attempt.
\<close>

definition then_broken :: client_env where
  "then_broken = (web (\<lambda>n req. RTResponse (web_response 503 [])))\<lparr>ne_GetConn := \<lambda>n proto host port. if n < 2 then None else Some ''down'',
     ne_RoundTrip := \<lambda>n proto req. if n < 2 then RTResponse (web_response 503 []) else RTError ''down''\<rparr>"

lemma stale_response_returned:
  "(case Do 2 then_broken (client_get ''https://a.test/x'')
     (web_client\<lparr>cl_config := (cl_config web_client)\<lparr>cc_RetryEnabled := True, cc_MaxRetries := 1\<rparr>\<rparr>) of
      Some (Inr resp, c) \<Rightarrow> cp_StatusCode resp = 503
    | _ \<Rightarrow> False)"
  by code_simp

text \<open>
  Lemma. A server that turns down every digest answer is asked forever: no amount of
  fuel is enough, so only a deadline of the transports ends the run.
\<close>

definition digest_server :: client_env where
  "digest_server = web (\<lambda>n req. RTResponse (web_response 401 [(''Www-Authenticate'', [''Digest nonce=n''])]))"

definition asks_digest :: "client_request \<Rightarrow> client \<Rightarrow> bool" where
  "asks_digest req c \<longleftrightarrow>
     cr_URL req = ''https://a.test/x'' \<and> cr_Params req = [] \<and> cr_ForceProtocol req = ForceHTTP2 \<and> cr_Auth req = None \<and> cl_auth c = Some 0 \<and>
     cl_hooks c = None \<and> cl_certPinner c = None \<and> (\<exists>d. cl_auths c = [DigestAuth d])"

lemma digest_challenged:
  "HandleChallenge 401 [(''Www-Authenticate'', [''Digest nonce=n''])] (DigestAuth d) = (Inr True, DigestAuth (d\<lparr>da_nonce := ''n''\<rparr>))"
proof -
  have "split_on (CHR '','') ''nonce=n'' = [''nonce=n'']" "trim_space ''nonce=n'' = ''nonce=n''"
    "index_byte ''nonce=n'' (CHR ''='') = Some 5" "to_lower (trim_space ''nonce'') = ''nonce''"
    "trim_fn (\<lambda>c. c = CHR 0x22) (trim_space ''n'') = ''n''" "has_prefix (to_lower ''Digest nonce=n'') ''digest ''"
    "trim_prefix (trim_prefix ''Digest nonce=n'' ''Digest '') ''digest '' = ''nonce=n''"
    "header_Get [(''Www-Authenticate'', [''Digest nonce=n''])] ''WWW-Authenticate'' = ''Digest nonce=n''"
    by code_simp+
  then show ?thesis
    by (simp add: HandleChallenge_def digest_HandleChallenge_def parseChallenge_def challenge_param_def Let_def)
qed

lemma digest_applied:
  "cl_auths c = [DigestAuth d] \<Longrightarrow> apply_auth env (Some 0) q c = (q', c') \<Longrightarrow> \<exists>d'. cl_auths c' = [DigestAuth d']"
  by (cases "digest_Apply (ne_md5 env) (ne_cnonce env (cl_calls c)) d q") (auto simp: apply_auth_def Apply_def)

lemma prepare_succeeds:
  assumes "ul_Parse (ne_url env) (request_url env req) = Some u" and "url_Scheme u = ''https''" and "cl_hooks c = None"
    and "\<And>m. \<exists>y. ne_NewRequest env m (request_url env req) = Inr y"
  shows "\<exists>f req1 c1. prepare env req c = (Inr (f, req1), c1)"
proof -
  let ?m = "if cr_Method req = [] then ''GET'' else cr_Method req"
  obtain v uri where y: "ne_NewRequest env ?m (request_url env req) = Inr (v, uri)" using assms(4) by (metis surj_pair)
  let ?q = "\<lparr>hr_Method = ?m, hr_URL = v, hr_RequestURI = uri, hr_Header = request_headers env req u ?m c, hr_Body = body_bytes req\<rparr>"
  obtain q1 c1 where a: "apply_auth env (effective_auth req c) ?q c = (q1, c1)" by force
  have "cl_hooks c1 = None" using apply_auth_extends [OF a, of "\<lambda>_. True" 0] assms(3) by (simp add: extends_def settings_def)
  then show ?thesis using assms(1,2) y a by (simp add: prepare_def pre_request_def Let_def)
qed

lemma asks_digest_prepared:
  assumes "asks_digest req c"
  obtains f req1 c1 where "prepare digest_server req c = (Inr (f, req1), c1)" and "asks_digest req1 c1" and "fl_auth f = Some 0"
proof -
  have u: "request_url digest_server req = ''https://a.test/x''" using assms by (simp add: request_url_def asks_digest_def)
  have "ul_Parse (ne_url digest_server) ''https://a.test/x'' = Some (demo_url ''https'' ''a.test'' ''/x'')"
    "\<exists>y. ne_NewRequest digest_server m ''https://a.test/x'' = Inr y" for m
    by (simp_all add: digest_server_def web_def demo_lib_def)
  then obtain f req1 c1 where p: "prepare digest_server req c = (Inr (f, req1), c1)"
    using prepare_succeeds [of digest_server req "demo_url ''https'' ''a.test'' ''/x''" c] assms u
    by (auto simp: asks_digest_def demo_url_def)
  have "\<exists>d'. cl_auths c1 = [DigestAuth d']"
    using p assms digest_applied by (fastforce simp: prepare_def asks_digest_def effective_auth_def Let_def
        split: option.splits if_splits sum.splits prod.splits)
  moreover have "settings c1 = settings c" using prepare_ok [OF p, of "\<lambda>_. True" 0] by (simp add: extends_def)
  ultimately have "asks_digest req1 c1" "fl_auth f = Some 0"
    using prepare_ok [OF p, of "\<lambda>_. True" 0] assms by (auto simp: asks_digest_def settings_def effective_auth_def)
  then show thesis using that p by blast
qed

lemma asks_digest_step:
  assumes "asks_digest req c"
  shows "\<exists>req' c'. asks_digest req' c' \<and> doOnce (Suc fuel) digest_server req h c = doOnce fuel digest_server req' h c'"
proof -
  obtain f req1 c1 where p: "prepare digest_server req c = (Inr (f, req1), c1)" and a: "asks_digest req1 c1" and f: "fl_auth f = Some 0"
    using asks_digest_prepared [OF assms] .
  let ?resp = "web_response 401 [(''Www-Authenticate'', [''Digest nonce=n''])]"
  obtain q c2 where s: "send digest_server req1 f c1 = (Inr (?resp, ''h2''), q, c2)" and c2: "cl_auths c2 = cl_auths c1" "settings c2 = settings c1"
    using a by (simp add: asks_digest_def send_def effective_protocol_def doHTTP2_def pooled_exchange_def getConn_def roundTrip_def
        answer_of_def named_def digest_server_def web_def settings_def Let_def)
  have k: "store_cookies digest_server v ?resp c2 = c2" "next_hop digest_server f req1 h ?resp c2 = HopKeep"
      "pin_check digest_server v' ?resp c2 = None" for v v'
    by (simp_all add: store_cookies_def web_response_def next_hop_def isRedirect_def pin_check_def Let_def split: option.split)
  obtain d where d: "cl_auths c2 = [DigestAuth d]" using a c2 by (auto simp: asks_digest_def)
  let ?z = "apply_auth digest_server (Some 0) (resetRequestBody (fl_body f) q) (c2\<lparr>cl_auths := [DigestAuth (d\<lparr>da_nonce := ''n''\<rparr>)]\<rparr>)"
  have c: "challenge digest_server f q ?resp c2 = (Inr True, snd ?z)"
    using d f digest_challenged by (simp add: challenge_def web_response_def)
  have "\<exists>d'. cl_auths (snd ?z) = [DigestAuth d']" by (rule digest_applied [OF _ prod.collapse [symmetric]]) simp
  moreover have "settings (snd ?z) = settings c2"
    using apply_auth_extends [of digest_server "Some 0" _ _ "fst ?z" "snd ?z" "\<lambda>_. True" 0] by (simp add: extends_def settings_def)
  ultimately have "asks_digest req1 (snd ?z)" using a c2(2) by (simp add: asks_digest_def settings_def)
  moreover have "doOnce (Suc fuel) digest_server req h c = doOnce fuel digest_server req1 h (snd ?z)"
    using p s k c by (simp add: Let_def)
  ultimately show ?thesis by blast
qed

lemma digest_never_returns:
  "doOnce fuel digest_server ((client_get ''https://a.test/x'')\<lparr>cr_ForceProtocol := ForceHTTP2\<rparr>) []
     (new_auth (DigestAuth (NewDigestAuth ''user'' ''pass'')) web_client) = None"
proof -
  have "doOnce fuel digest_server req h c = None" if "asks_digest req c" for req c and h
    using that
  proof (induction fuel arbitrary: req c)
    case (Suc fuel)
    then show ?case using asks_digest_step [OF Suc.prems] by metis
  qed simp
  then show ?thesis by (simp add: asks_digest_def client_get_def new_auth_def web_client_def)
qed


end
