(* ===== verification/DNS_Cache.thy ===== *)
theory DNS_Cache
  imports Go_Net
begin

text \<open>
  \<^verbatim>\<open>dns/cache.go\<close>: the resolver cache with positive and negative entries, the
  address-family restriction, the Happy Eyeballs ordering, and the process-wide
  caches of ECH configurations and of hosts that do not tolerate ECH.

  A lookup that misses the cache is two atomic steps, as in the code: the
  single-flight body reads the entry and the family under the lock
  (\<^verbatim>\<open>flight_begin\<close>) and later writes under the lock (\<^verbatim>\<open>flight_end\<close>); other operations
  may run in between. \<^verbatim>\<open>Resolve\<close> is the run in which nothing does. The system
  resolver is the argument \<open>resolver\<close> (family, host), a DNS exchange with a
  server the argument \<open>exchange\<close>; the test seam \<^verbatim>\<open>lookupHook\<close> is nil. The times
  are what the calls of \<^verbatim>\<open>time.Now()\<close> return, in the order of the calls.
\<close>

section \<open>Data\<close>

text \<open>Errors, as \<^verbatim>\<open>isTransientDNSErr\<close> tells them apart.\<close>

datatype dns_error =
    CtxCanceled
  | CtxDeadlineExceeded
  | DNSError (dns_msg: string) (dns_name: string) (IsNotFound: bool) (IsTimeout: bool) (IsTemporary: bool)
  | OtherError string

record dns_entry =
  de_IPs :: "ip list"
  de_ExpiresAt :: time
  de_LookupAt :: time
  de_negative :: bool
  de_err :: "dns_error option"
  de_network :: string

record dns_cache =
  dc_entries :: "(string, dns_entry) gomap"
  dc_defaultTTL :: duration
  dc_negTTL :: duration
  dc_minTTL :: duration
  dc_preferIPv4 :: bool
  dc_network :: string

type_synonym dns_result = "dns_error + ip list"
type_synonym resolver = "string \<Rightarrow> string \<Rightarrow> dns_result"

abbreviation maxCacheEntries :: nat where "maxCacheEntries \<equiv> 4096"

definition entry_IsExpired :: "time \<Rightarrow> dns_entry \<Rightarrow> bool" where
  "entry_IsExpired now e \<longleftrightarrow> now > de_ExpiresAt e"

definition NewCache :: dns_cache where
  "NewCache = \<lparr>dc_entries = [], dc_defaultTTL = 60 * second, dc_negTTL = 10 * second,
     dc_minTTL = 5 * second, dc_preferIPv4 = False, dc_network = []\<rparr>"

section \<open>Settings\<close>

definition SetPreferIPv4 :: "bool \<Rightarrow> dns_cache \<Rightarrow> dns_cache" where
  "SetPreferIPv4 prefer c = c\<lparr>dc_preferIPv4 := prefer\<rparr>"

definition SetNetwork :: "string \<Rightarrow> dns_cache \<Rightarrow> dns_cache" where
  "SetNetwork network c =
     (if network \<noteq> [] \<and> network \<noteq> ''ip4'' \<and> network \<noteq> ''ip6'' then c else c\<lparr>dc_network := network\<rparr>)"

definition NetworkForLocalAddr :: "string \<Rightarrow> string" where
  "NetworkForLocalAddr addr =
     (case ParseIP addr of
        None \<Rightarrow> []
      | Some p \<Rightarrow> if To4 p \<noteq> None then ''ip4'' else ''ip6'')"

definition SetTTL :: "duration \<Rightarrow> dns_cache \<Rightarrow> dns_cache" where
  "SetTTL ttl c = c\<lparr>dc_defaultTTL := (if ttl < dc_minTTL c then dc_minTTL c else ttl)\<rparr>"

section \<open>Resolution\<close>

definition isTransientDNSErr :: "dns_error option \<Rightarrow> bool" where
  "isTransientDNSErr err =
     (case err of
        None \<Rightarrow> False
      | Some CtxCanceled \<Rightarrow> True
      | Some CtxDeadlineExceeded \<Rightarrow> True
      | Some (DNSError _ _ notFound timeout temporary) \<Rightarrow> if notFound then False else timeout \<or> temporary
      | Some (OtherError _) \<Rightarrow> True)"

definition dns_lookup :: "resolver \<Rightarrow> string \<Rightarrow> string \<Rightarrow> dns_result" where
  "dns_lookup resolver network host =
     (case ParseIP host of Some p \<Rightarrow> Inr [p] | None \<Rightarrow> resolver network host)"

text \<open>The write, with the inline sweep; the entry is stamped with the family of the cache.\<close>

definition dns_store :: "time \<Rightarrow> string \<Rightarrow> dns_entry \<Rightarrow> dns_cache \<Rightarrow> dns_cache" where
  "dns_store now host e c =
     (let e' = e\<lparr>de_network := dc_network c\<rparr>;
          swept = (if length (dc_entries c) \<ge> maxCacheEntries
                   then map_remove (\<lambda>_ ent. now > de_ExpiresAt ent) (dc_entries c)
                   else dc_entries c)
      in c\<lparr>dc_entries := AList.update host e' swept\<rparr>)"

text \<open>The check that the fast path and the re-check inside the flight make.\<close>

definition cached_answer :: "time \<Rightarrow> string \<Rightarrow> dns_cache \<Rightarrow> dns_result option" where
  "cached_answer now host c =
     (case map_of (dc_entries c) host of
        None \<Rightarrow> None
      | Some entry \<Rightarrow>
          if de_network entry = dc_network c \<and> \<not> entry_IsExpired now entry then
            (if de_negative entry then Some (Inl (the (de_err entry))) else Some (Inr (de_IPs entry)))
          else None)"

record flight =
  fl_entry :: "dns_entry option"
  fl_current :: string

definition flight_begin :: "string \<Rightarrow> dns_cache \<Rightarrow> flight" where
  "flight_begin host c = \<lparr>fl_entry = map_of (dc_entries c) host, fl_current = dc_network c\<rparr>"

definition negative_entry :: "time \<Rightarrow> dns_error \<Rightarrow> dns_entry" where
  "negative_entry expires err =
     \<lparr>de_IPs = [], de_ExpiresAt = expires, de_LookupAt = 0, de_negative = True, de_err = Some err,
      de_network = []\<rparr>"

definition positive_entry :: "time \<Rightarrow> duration \<Rightarrow> ip list \<Rightarrow> dns_entry" where
  "positive_entry now ttl ips =
     \<lparr>de_IPs = ips, de_ExpiresAt = now + ttl, de_LookupAt = now, de_negative = False, de_err = None,
      de_network = []\<rparr>"

definition flight_end ::
    "time \<Rightarrow> string \<Rightarrow> flight \<Rightarrow> dns_result \<Rightarrow> dns_cache \<Rightarrow> dns_result \<times> dns_cache" where
  "flight_end now host fl looked c =
     (case looked of
        Inl lerr \<Rightarrow>
          if isTransientDNSErr (Some lerr) then
            (case fl_entry fl of
               Some e \<Rightarrow>
                 if de_network e = fl_current fl \<and> \<not> de_negative e \<and> length (de_IPs e) > 0
                 then (Inr (de_IPs e), c) else (Inl lerr, c)
             | None \<Rightarrow> (Inl lerr, c))
          else (Inl lerr, dns_store now host (negative_entry (now + dc_negTTL c) lerr) c)
      | Inr ips \<Rightarrow>
          if length ips = 0 then
            (let noAddr = DNSError ''no addresses found'' host True False False in
             (Inl noAddr, dns_store now host (negative_entry (now + dc_negTTL c) noAddr) c))
          else
            (Inr ips,
             dns_store now host (positive_entry now (dc_defaultTTL c) ips) c))"

text \<open>
  A call that runs alone: \<open>t0\<close> is the fast path, \<open>t1\<close> the re-check, \<open>t2\<close> the write.
  \<open>done\<close> is the error of the caller's context when it ends before the shared
  result arrives; the cache is written all the same.
\<close>

definition Resolve ::
    "time \<Rightarrow> time \<Rightarrow> time \<Rightarrow> resolver \<Rightarrow> dns_error option \<Rightarrow> string \<Rightarrow> dns_cache \<Rightarrow>
     dns_result \<times> dns_cache" where
  "Resolve t0 t1 t2 resolver ctxDone host c =
     (case cached_answer t0 host c of
        Some r \<Rightarrow> (r, c)
      | None \<Rightarrow>
          (let (r, c') =
             (case cached_answer t1 host c of
                Some r \<Rightarrow> (r, c)
              | None \<Rightarrow> flight_end t2 host (flight_begin host c) (dns_lookup resolver (dc_network c) host) c)
           in case ctxDone of Some e \<Rightarrow> (Inl e, c') | None \<Rightarrow> (r, c')))"

section \<open>Choosing addresses\<close>

definition no_addresses :: "string \<Rightarrow> dns_error" where
  "no_addresses host = DNSError ''no addresses found'' host False False False"

definition is_v4 :: "ip \<Rightarrow> bool" where
  "is_v4 p \<longleftrightarrow> To4 p \<noteq> None"

text \<open>What \<^verbatim>\<open>ResolveOne\<close>, \<^verbatim>\<open>ResolveAllSorted\<close> and \<^verbatim>\<open>ResolveIPv6First\<close> make of the answer of \<^verbatim>\<open>Resolve\<close>.\<close>

definition ResolveOne :: "string \<Rightarrow> bool \<Rightarrow> dns_result \<Rightarrow> dns_error + ip" where
  "ResolveOne host preferIPv4 r =
     (case r of
        Inl e \<Rightarrow> Inl e
      | Inr ips \<Rightarrow>
          if length ips = 0 then Inl (no_addresses host)
          else
            (case find (\<lambda>p. if preferIPv4 then To4 p \<noteq> None else To4 p = None \<and> To16 p \<noteq> None) ips of
               Some p \<Rightarrow> Inr p
             | None \<Rightarrow> Inr (ips ! 0)))"

fun interleave :: "'a list \<Rightarrow> 'a list \<Rightarrow> 'a list" where
  "interleave [] ys = ys"
| "interleave (x # xs) [] = x # xs"
| "interleave (x # xs) (y # ys) = x # y # interleave xs ys"

definition ResolveAllSorted :: "string \<Rightarrow> bool \<Rightarrow> dns_result \<Rightarrow> dns_result" where
  "ResolveAllSorted host preferIPv4 r =
     (case r of
        Inl e \<Rightarrow> Inl e
      | Inr ips \<Rightarrow>
          if length ips = 0 then Inl (no_addresses host)
          else
            (let ipv4 = filter is_v4 ips; ipv6 = filter (\<lambda>p. \<not> is_v4 p) ips in
             Inr (if preferIPv4 then interleave ipv4 ipv6 else interleave ipv6 ipv4)))"

definition ResolveIPv6First :: "string \<Rightarrow> dns_result \<Rightarrow> dns_error + (ip list \<times> ip list)" where
  "ResolveIPv6First host r =
     (case r of
        Inl e \<Rightarrow> Inl e
      | Inr ips \<Rightarrow>
          if length ips = 0 then Inl (no_addresses host)
          else Inr (filter (\<lambda>p. \<not> is_v4 p) ips, filter is_v4 ips))"

section \<open>Maintenance\<close>

definition dns_Invalidate :: "string \<Rightarrow> dns_cache \<Rightarrow> dns_cache" where
  "dns_Invalidate host c = c\<lparr>dc_entries := AList.delete host (dc_entries c)\<rparr>"

definition dns_Clear :: "dns_cache \<Rightarrow> dns_cache" where
  "dns_Clear c = c\<lparr>dc_entries := []\<rparr>"

definition dns_Stats :: "time \<Rightarrow> dns_cache \<Rightarrow> nat \<times> nat" where
  "dns_Stats now c =
     (length (dc_entries c), length (filter (\<lambda>(_, e). now > de_ExpiresAt e) (dc_entries c)))"

definition dns_Cleanup :: "time \<Rightarrow> dns_cache \<Rightarrow> dns_cache" where
  "dns_Cleanup now c = c\<lparr>dc_entries := map_remove (\<lambda>_ e. now > de_ExpiresAt e) (dc_entries c)\<rparr>"

section \<open>ECH configurations\<close>

text \<open>The package-level variables. A negative entry has no configuration.\<close>

record ech_entry =
  ee_ConfigList :: "byte list option"
  ee_ExpiresAt :: time

record ech_state =
  es_cache :: "(string, ech_entry) gomap"
  es_incompat :: "(string, time) gomap"
  es_servers :: "string list"

abbreviation minute :: duration where "minute \<equiv> 60 * second"
abbreviation echStaleGrace :: duration where "echStaleGrace \<equiv> 5 * minute"
abbreviation echMaxEntries :: nat where "echMaxEntries \<equiv> 4096"
abbreviation echIncompatTTL :: duration where "echIncompatTTL \<equiv> 10 * minute"

definition MarkECHIncompatible :: "time \<Rightarrow> string \<Rightarrow> ech_state \<Rightarrow> ech_state" where
  "MarkECHIncompatible now host s =
     (let swept = (if length (es_incompat s) \<ge> echMaxEntries
                   then map_remove (\<lambda>_ expiry. now > expiry) (es_incompat s) else es_incompat s)
      in s\<lparr>es_incompat := AList.update host (now + echIncompatTTL) swept\<rparr>)"

definition IsECHIncompatible :: "time \<Rightarrow> string \<Rightarrow> ech_state \<Rightarrow> bool" where
  "IsECHIncompatible now host s =
     (case map_of (es_incompat s) host of None \<Rightarrow> False | Some expiry \<Rightarrow> now < expiry)"

definition echStore :: "time \<Rightarrow> string \<Rightarrow> ech_entry \<Rightarrow> ech_state \<Rightarrow> ech_state" where
  "echStore now hostname e s =
     (let swept = (if length (es_cache s) \<ge> echMaxEntries
                   then map_remove (\<lambda>_ ent. now > ee_ExpiresAt ent) (es_cache s) else es_cache s)
      in s\<lparr>es_cache := AList.update hostname e swept\<rparr>)"

definition InvalidateECHConfig :: "string \<Rightarrow> ech_state \<Rightarrow> ech_state" where
  "InvalidateECHConfig hostname s = s\<lparr>es_cache := AList.delete hostname (es_cache s)\<rparr>"

definition default_ech_servers :: "string list" where
  "default_ech_servers = [''8.8.8.8:53'', ''1.1.1.1:53'', ''9.9.9.9:53'']"

definition SetECHDNSServers :: "string list \<Rightarrow> ech_state \<Rightarrow> ech_state" where
  "SetECHDNSServers servers s =
     s\<lparr>es_servers := (if length servers = 0 then default_ech_servers else servers)\<rparr>"

text \<open>
  A DNS response, as far as the code reads it: the response code and the answer
  records; an HTTPS record has a TTL and service parameters.
\<close>

datatype svc_param = SVCBECHConfig "byte list" | OtherParam
datatype dns_rr = HTTPSRecord u32 "svc_param list" | OtherRR

record dns_response =
  rs_Rcode :: nat
  rs_Answer :: "dns_rr list"

fun first_param :: "svc_param list \<Rightarrow> byte list option" where
  "first_param [] = None"
| "first_param (OtherParam # ps) = first_param ps"
| "first_param (SVCBECHConfig b # ps) = (if length b > 0 then Some b else first_param ps)"

fun first_ech :: "dns_rr list \<Rightarrow> (byte list \<times> u32) option" where
  "first_ech [] = None"
| "first_ech (OtherRR # as) = first_ech as"
| "first_ech (HTTPSRecord ttl ps # as) =
     (case first_param ps of Some b \<Rightarrow> Some (b, ttl) | None \<Rightarrow> first_ech as)"

text \<open>
  The loop over the servers of \<^verbatim>\<open>queryECHFromDNS\<close>; \<open>lastErr\<close> is the last failure. With
  no server at all the code returns no error.
\<close>

fun queryECHFromDNS ::
    "(string \<Rightarrow> string \<Rightarrow> string + dns_response) \<Rightarrow> string \<Rightarrow> string option \<Rightarrow> string list \<Rightarrow>
     string + (byte list option \<times> u32)" where
  "queryECHFromDNS exchange hostname lastErr [] =
     (case lastErr of Some e \<Rightarrow> Inl e | None \<Rightarrow> Inr (None, 0))"
| "queryECHFromDNS exchange hostname lastErr (server # servers) =
     (case exchange server hostname of
        Inl e \<Rightarrow> queryECHFromDNS exchange hostname (Some e) servers
      | Inr resp \<Rightarrow>
          if rs_Rcode resp \<noteq> 0 then queryECHFromDNS exchange hostname (Some ''rcode'') servers
          else (case first_ech (rs_Answer resp) of
                  Some (b, ttl) \<Rightarrow> Inr (Some b, ttl)
                | None \<Rightarrow> Inr (None, 300)))"

text \<open>\<open>t0\<close> is the first check, \<open>t1\<close> the re-check in the flight, \<open>t2\<close> after the query.\<close>

definition FetchECHConfigs ::
    "time \<Rightarrow> time \<Rightarrow> time \<Rightarrow> (string \<Rightarrow> string \<Rightarrow> string + dns_response) \<Rightarrow> string \<Rightarrow> ech_state \<Rightarrow>
     byte list option \<times> ech_state" where
  "FetchECHConfigs t0 t1 t2 exchange hostname s =
     (if ParseIP (trim_fn (\<lambda>c. c = CHR ''['' \<or> c = CHR '']'') hostname) \<noteq> None then (None, s)
      else
        (let entry = map_of (es_cache s) hostname;
             fresh = (\<lambda>t. case entry of None \<Rightarrow> False | Some e \<Rightarrow> t < ee_ExpiresAt e)
         in if fresh t0 then (ee_ConfigList (the entry), s)
            else if fresh t1 then (ee_ConfigList (the entry), s)
            else (case queryECHFromDNS exchange hostname None (es_servers s) of
               Inl e \<Rightarrow>
                 (case entry of
                    Some e \<Rightarrow> if t2 < ee_ExpiresAt e + echStaleGrace then (ee_ConfigList e, s) else (None, s)
                  | None \<Rightarrow> (None, s))
             | Inr (config, ttl) \<Rightarrow>
                 (config,
                  echStore t2 hostname
                    \<lparr>ee_ConfigList = config, ee_ExpiresAt = t2 + uint ttl * second\<rparr> s))))"


section \<open>Stores that sweep\<close>

text \<open>
  The contract the three caches share: a write is found again, and what it may
  remove besides is only what has expired.
\<close>

locale expiring_store =
  fixes get :: "string \<Rightarrow> 's \<Rightarrow> 'v option"
    and put :: "time \<Rightarrow> string \<Rightarrow> 'v \<Rightarrow> 's \<Rightarrow> 's"
    and stamp :: "time \<Rightarrow> 's \<Rightarrow> 'v \<Rightarrow> 'v"
    and expiry :: "'v \<Rightarrow> time"
    and ok :: "'s \<Rightarrow> bool"
  assumes put_ok: "ok s \<Longrightarrow> ok (put now k v s)"
    and get_put: "get k (put now k v s) = Some (stamp now s v)"
    and get_put_other: "ok s \<Longrightarrow> k' \<noteq> k \<Longrightarrow>
      get k' (put now k v s) = get k' s \<or>
      (\<exists>x. get k' s = Some x \<and> expiry x < now \<and> get k' (put now k v s) = None)"
begin

lemma fresh_survives:
  "ok s \<Longrightarrow> k' \<noteq> k \<Longrightarrow> get k' s = Some x \<Longrightarrow> now \<le> expiry x \<Longrightarrow> get k' (put now k v s) = Some x"
  using get_put_other [of s k' k now v] by auto

lemma fresh_survives_all:
  assumes "ok s" and "get k' s = Some x" and "\<forall>(now, k, v) \<in> set ps. now \<le> expiry x \<and> k \<noteq> k'"
  shows "get k' (fold (\<lambda>(now, k, v). put now k v) ps s) = Some x"
  using assms
proof (induction ps arbitrary: s)
  case (Cons p ps)
  obtain now k v where p: "p = (now, k, v)" by (cases p)
  have "get k' (put now k v s) = Some x" using Cons.prems p by (intro fresh_survives) auto
  then show ?case using Cons p put_ok by simp
qed simp

lemma no_new_keys: "ok s \<Longrightarrow> k' \<noteq> k \<Longrightarrow> get k' (put now k v s) = Some x \<Longrightarrow> get k' s = Some x"
  using get_put_other [of s k' k now v] by auto

end

lemma sweep_update_other:
  assumes "wf_map m" and "k' \<noteq> k"
  shows "map_of (AList.update k v (if B then map_remove (\<lambda>_ x. e x < now) m else m)) k' = map_of m k' \<or>
    (\<exists>x. map_of m k' = Some x \<and> e x < now \<and>
       map_of (AList.update k v (if B then map_remove (\<lambda>_ x. e x < now) m else m)) k' = None)"
proof (cases "map_of m k'")
  case None
  then show ?thesis using assms by (simp add: map_of_remove)
next
  case (Some x)
  then show ?thesis using assms by (simp add: map_of_remove del: map_of_eq_Some_iff)
qed

lemma swept_entries:
  "dc_entries (dns_store now h e c) = AList.update h (e\<lparr>de_network := dc_network c\<rparr>)
     (if length (dc_entries c) \<ge> maxCacheEntries then map_remove (\<lambda>_ x. de_ExpiresAt x < now) (dc_entries c)
      else dc_entries c)"
  "es_cache (echStore now h x s) = AList.update h x
     (if length (es_cache s) \<ge> echMaxEntries then map_remove (\<lambda>_ x. ee_ExpiresAt x < now) (es_cache s)
      else es_cache s)"
  "es_incompat (MarkECHIncompatible now h s) = AList.update h (now + echIncompatTTL)
     (if length (es_incompat s) \<ge> echMaxEntries then map_remove (\<lambda>_ x. x < now) (es_incompat s)
      else es_incompat s)"
  by (simp_all add: dns_store_def echStore_def MarkECHIncompatible_def Let_def)

interpretation dns_entries: expiring_store "\<lambda>h c. map_of (dc_entries c) h" dns_store
    "\<lambda>_ c e. e\<lparr>de_network := dc_network c\<rparr>" de_ExpiresAt "\<lambda>c. wf_map (dc_entries c)"
proof
  show "k' \<noteq> k \<Longrightarrow> wf_map (dc_entries c) \<Longrightarrow>
      map_of (dc_entries (dns_store now k v c)) k' = map_of (dc_entries c) k' \<or>
      (\<exists>x. map_of (dc_entries c) k' = Some x \<and> de_ExpiresAt x < now \<and>
         map_of (dc_entries (dns_store now k v c)) k' = None)" for c k k' now v
    unfolding swept_entries by (rule sweep_update_other)
qed (simp_all add: swept_entries)

interpretation ech_entries: expiring_store "\<lambda>h s. map_of (es_cache s) h" echStore
    "\<lambda>_ s e. e" ee_ExpiresAt "\<lambda>s. wf_map (es_cache s)"
proof
  show "k' \<noteq> k \<Longrightarrow> wf_map (es_cache s) \<Longrightarrow>
      map_of (es_cache (echStore now k v s)) k' = map_of (es_cache s) k' \<or>
      (\<exists>x. map_of (es_cache s) k' = Some x \<and> ee_ExpiresAt x < now \<and>
         map_of (es_cache (echStore now k v s)) k' = None)" for s k k' now v
    unfolding swept_entries by (rule sweep_update_other)
qed (simp_all add: swept_entries)

interpretation ech_marks: expiring_store "\<lambda>h s. map_of (es_incompat s) h"
    "\<lambda>now h _. MarkECHIncompatible now h" "\<lambda>now _ _. now + echIncompatTTL" "\<lambda>e. e"
    "\<lambda>s. wf_map (es_incompat s)"
proof
  show "k' \<noteq> k \<Longrightarrow> wf_map (es_incompat s) \<Longrightarrow>
      map_of (es_incompat (MarkECHIncompatible now k s)) k' = map_of (es_incompat s) k' \<or>
      (\<exists>x. map_of (es_incompat s) k' = Some x \<and> x < now \<and>
         map_of (es_incompat (MarkECHIncompatible now k s)) k' = None)" for s k k' now
    unfolding swept_entries by (rule sweep_update_other)
qed (simp_all add: swept_entries)

section \<open>Reachable caches\<close>

inductive dns_reachable :: "resolver \<Rightarrow> dns_cache \<Rightarrow> bool" for resolver where
  dns_new: "dns_reachable resolver NewCache"
| dns_resolve: "dns_reachable resolver c \<Longrightarrow>
    dns_reachable resolver (snd (Resolve t0 t1 t2 resolver ctxDone host c))"
| dns_prefer: "dns_reachable resolver c \<Longrightarrow> dns_reachable resolver (SetPreferIPv4 b c)"
| dns_network: "dns_reachable resolver c \<Longrightarrow> dns_reachable resolver (SetNetwork n c)"
| dns_ttl: "dns_reachable resolver c \<Longrightarrow> dns_reachable resolver (SetTTL ttl c)"
| dns_inv: "dns_reachable resolver c \<Longrightarrow> dns_reachable resolver (dns_Invalidate host c)"
| dns_clr: "dns_reachable resolver c \<Longrightarrow> dns_reachable resolver (dns_Clear c)"
| dns_cln: "dns_reachable resolver c \<Longrightarrow> dns_reachable resolver (dns_Cleanup now c)"

text \<open>What the system resolver promises when it is asked for one family.\<close>

definition family_ok :: "string \<Rightarrow> ip list \<Rightarrow> bool" where
  "family_ok network ips \<longleftrightarrow>
     (network = ''ip4'' \<longrightarrow> (\<forall>p \<in> set ips. is_v4 p)) \<and> (network = ''ip6'' \<longrightarrow> (\<forall>p \<in> set ips. \<not> is_v4 p))"

definition resolver_ok :: "resolver \<Rightarrow> bool" where
  "resolver_ok resolver \<longleftrightarrow> (\<forall>network host ips. resolver network host = Inr ips \<longrightarrow> family_ok network ips)"

definition dns_ok :: "dns_cache \<Rightarrow> bool" where
  "dns_ok c \<longleftrightarrow> wf_map (dc_entries c) \<and> dc_minTTL c = 5 * second \<and> dc_defaultTTL c \<ge> 5 * second \<and>
     dc_negTTL c = 10 * second \<and>
     (\<forall>h e. map_of (dc_entries c) h = Some e \<longrightarrow> ParseIP h = None \<longrightarrow> \<not> de_negative e \<longrightarrow>
        family_ok (de_network e) (de_IPs e))"

lemma dns_ok_store:
  assumes "dns_ok c" and "ParseIP host = None \<longrightarrow> \<not> de_negative e \<longrightarrow> family_ok (dc_network c) (de_IPs e)"
  shows "dns_ok (dns_store now host e c)"
proof -
  have wf: "wf_map (dc_entries c)" using assms(1) by (simp add: dns_ok_def)
  have "family_ok (de_network x) (de_IPs x)"
    if "map_of (dc_entries (dns_store now host e c)) h = Some x" "ParseIP h = None" "\<not> de_negative x" for h x
  proof (cases "h = host")
    case True
    then show ?thesis using that assms(2) by (auto simp: dns_entries.get_put simp del: map_of_eq_Some_iff)
  next
    case False
    then have "map_of (dc_entries c) h = Some x" using dns_entries.no_new_keys [OF wf False that(1)] by simp
    then show ?thesis using that assms(1) by (simp only: dns_ok_def) blast
  qed
  moreover have "wf_map (dc_entries (dns_store now host e c))" using wf by (rule dns_entries.put_ok)
  moreover have "dc_minTTL (dns_store now host e c) = dc_minTTL c"
      "dc_defaultTTL (dns_store now host e c) = dc_defaultTTL c" "dc_negTTL (dns_store now host e c) = dc_negTTL c"
    by (simp_all add: dns_store_def Let_def)
  ultimately show ?thesis using assms(1) unfolding dns_ok_def by metis
qed

lemma lookup_family: "resolver_ok resolver \<Longrightarrow> ParseIP host = None \<Longrightarrow>
    dns_lookup resolver network host = Inr ips \<Longrightarrow> family_ok network ips"
  by (simp add: dns_lookup_def resolver_ok_def)

lemma flight_end_store:
  "snd (flight_end now host fl looked c) = c \<or>
   (\<exists>err. snd (flight_end now host fl looked c) = dns_store now host (negative_entry (now + dc_negTTL c) err) c) \<or>
   (\<exists>ips. looked = Inr ips \<and>
      snd (flight_end now host fl looked c) = dns_store now host (positive_entry now (dc_defaultTTL c) ips) c)"
  by (auto simp: flight_end_def Let_def split: sum.split option.split)

lemma dns_ok_flight:
  assumes "dns_ok c" and "resolver_ok resolver"
  shows "dns_ok (snd (flight_end t2 host fl (dns_lookup resolver (dc_network c) host) c))"
  using flight_end_store [of t2 host fl "dns_lookup resolver (dc_network c) host" c]
proof (elim disjE exE conjE)
  show "dns_ok (snd (flight_end t2 host fl (dns_lookup resolver (dc_network c) host) c))"
    if "snd (flight_end t2 host fl (dns_lookup resolver (dc_network c) host) c) =
        dns_store t2 host (negative_entry (t2 + dc_negTTL c) err) c" for err
    unfolding that using assms(1) by (rule dns_ok_store) (simp add: negative_entry_def)
  show "dns_ok (snd (flight_end t2 host fl (dns_lookup resolver (dc_network c) host) c))"
    if "dns_lookup resolver (dc_network c) host = Inr ips"
      "snd (flight_end t2 host fl (dns_lookup resolver (dc_network c) host) c) =
        dns_store t2 host (positive_entry t2 (dc_defaultTTL c) ips) c" for ips
    unfolding that(2) using assms lookup_family [OF assms(2) _ that(1)]
    by (intro dns_ok_store) (auto simp: positive_entry_def)
qed (simp add: assms(1))

lemma dns_ok_Resolve:
  "dns_ok c \<Longrightarrow> resolver_ok resolver \<Longrightarrow> dns_ok (snd (Resolve t0 t1 t2 resolver d host c))"
  using dns_ok_flight [of c resolver t2 host "flight_begin host c"]
  by (auto simp: Resolve_def split: option.splits prod.splits)

lemma dns_ok_subset:
  assumes "dns_ok c" and "wf_map m" and "\<And>h e. map_of m h = Some e \<Longrightarrow> map_of (dc_entries c) h = Some e"
  shows "dns_ok (c\<lparr>dc_entries := m\<rparr>)"
  using assms unfolding dns_ok_def by (auto simp del: map_of_eq_Some_iff)

lemma dns_reachable_ok: "dns_reachable resolver c \<Longrightarrow> resolver_ok resolver \<Longrightarrow> dns_ok c"
proof (induction rule: dns_reachable.induct)
  case (dns_inv c host)
  have "wf_map (dc_entries c)" using dns_inv by (simp add: dns_ok_def)
  then show ?case
    unfolding dns_Invalidate_def using dns_inv
    by (intro dns_ok_subset) (auto simp del: map_of_eq_Some_iff split: if_splits)
next
  case (dns_cln c now)
  have "wf_map (dc_entries c)" using dns_cln by (simp add: dns_ok_def)
  then show ?case
    unfolding dns_Cleanup_def using dns_cln
    by (intro dns_ok_subset) (auto simp: map_of_remove simp del: map_of_eq_Some_iff split: option.splits if_splits)
next
  case (dns_clr c)
  then show ?case unfolding dns_Clear_def by (intro dns_ok_subset) auto
next
  case (dns_resolve c t0 t1 t2 ctxDone host)
  then show ?case by (simp add: dns_ok_Resolve)
qed (auto simp: NewCache_def SetPreferIPv4_def SetNetwork_def SetTTL_def dns_ok_def
    simp del: map_of_eq_Some_iff)

lemma flight_answer_family:
  assumes "dns_ok c" and "resolver_ok resolver" and "ParseIP host = None"
    and "fst (flight_end t2 host (flight_begin host c) (dns_lookup resolver (dc_network c) host) c) = Inr ips"
  shows "family_ok (dc_network c) ips"
proof (cases "dns_lookup resolver (dc_network c) host")
  case (Inr looked)
  then show ?thesis
    using assms lookup_family [OF assms(2,3) Inr] by (auto simp: flight_end_def Let_def split: if_splits)
next
  case (Inl e)
  then obtain x where "map_of (dc_entries c) host = Some x" "de_network x = dc_network c"
      "\<not> de_negative x" "ips = de_IPs x"
    using assms(4) by (auto simp: flight_end_def flight_begin_def simp del: map_of_eq_Some_iff
        split: if_splits option.splits)
  then show ?thesis using assms(1,3) unfolding dns_ok_def by metis
qed

lemma cached_answer_family:
  assumes "dns_ok c" and "ParseIP host = None" and "cached_answer now host c = Some (Inr ips)"
  shows "family_ok (dc_network c) ips"
proof -
  obtain x where "map_of (dc_entries c) host = Some x" "de_network x = dc_network c"
      "\<not> de_negative x" "ips = de_IPs x"
    using assms(3) by (auto simp: cached_answer_def simp del: map_of_eq_Some_iff
        split: if_splits option.splits)
  then show ?thesis using assms(1,2) unfolding dns_ok_def by metis
qed

section \<open>Properties\<close>

text \<open>
  Lemma. Once a host has been resolved, every call within the TTL is answered
  with the same addresses from the cache, without the resolver and without
  changing the cache.
\<close>

theorem dns_answer_cached:
  assumes "cached_answer t0 host c = None" and "cached_answer t1 host c = None"
    and "dns_lookup resolver (dc_network c) host = Inr ips" and "ips \<noteq> []"
    and "Resolve t0 t1 t2 resolver None host c = (r, c')" and "t \<le> t2 + dc_defaultTTL c"
  shows "r = Inr ips \<and> Resolve t t' t'' resolver' d host c' = (Inr ips, c')"
proof -
  have rc: "r = Inr ips" "c' = dns_store t2 host (positive_entry t2 (dc_defaultTTL c) ips) c"
    using assms(1-5) by (auto simp: Resolve_def flight_end_def)
  have "map_of (dc_entries c') host = Some ((positive_entry t2 (dc_defaultTTL c) ips)\<lparr>de_network := dc_network c\<rparr>)"
    unfolding rc(2) by (rule dns_entries.get_put)
  moreover have "dc_network c' = dc_network c" unfolding rc(2) by (simp add: dns_store_def Let_def)
  ultimately have "cached_answer t host c' = Some (Inr ips)"
    using assms(6) by (simp add: cached_answer_def entry_IsExpired_def positive_entry_def)
  then show ?thesis using rc(1) by (simp add: Resolve_def)
qed

definition sample_resolver :: resolver where
  "sample_resolver network host =
     (if network = ''ip4'' then Inr [[1, 2, 3, 4]]
      else if network = ''ip6'' then Inr [replicate 16 1]
      else Inr [[1, 2, 3, 4], replicate 16 1])"

lemma sample_resolver_ok: "resolver_ok sample_resolver"
  by (auto simp: resolver_ok_def sample_resolver_def family_ok_def is_v4_def To4_def numeral_eq_Suc)

lemma example_not_ip: "ParseIP ''example.com'' = None"
  by (simp add: ParseIP_def parse_v4_def is_digit_def)

theorem dns_answer_cached_witness:
  "let (r, c') = Resolve 100 101 102 sample_resolver None ''example.com'' NewCache
   in r = Inr [[1, 2, 3, 4], replicate 16 1] \<and>
      Resolve (60 * second) 0 0 (\<lambda>_ _. Inl CtxCanceled) None ''example.com'' c' =
        (Inr [[1, 2, 3, 4], replicate 16 1], c')"
proof -
  obtain r c' where r: "Resolve 100 101 102 sample_resolver None ''example.com'' NewCache = (r, c')" by fastforce
  have "cached_answer t ''example.com'' NewCache = None" for t by (simp add: cached_answer_def NewCache_def)
  moreover have "dns_lookup sample_resolver (dc_network NewCache) ''example.com'' = Inr [[1, 2, 3, 4], replicate 16 1]"
    by (simp add: dns_lookup_def example_not_ip NewCache_def sample_resolver_def)
  moreover have "dc_defaultTTL NewCache = 60 * second" by (simp add: NewCache_def)
  ultimately show ?thesis
    using dns_answer_cached [of 100 "''example.com''" NewCache 101 sample_resolver
        "[[1, 2, 3, 4], replicate 16 1]" 102 r c' "60 * second"] r by simp
qed

text \<open>
  Property C35. A cache restricted to one address family only answers with that family:
  in every state that calls running one after the other can reach, with any
  switches of the family in between, an answer for a host name has only IPv4
  addresses under \<open>ip4\<close> and none under \<open>ip6\<close>, as long as the resolver itself
  respects the family it is asked for.
\<close>

theorem dns_family_respected:
  assumes "resolver_ok resolver" and "dns_reachable resolver c" and "ParseIP host = None"
    and "fst (Resolve t0 t1 t2 resolver d host c) = Inr ips"
  shows "family_ok (dc_network c) ips"
proof -
  have ok: "dns_ok c" using assms(2,1) by (rule dns_reachable_ok)
  from assms(4) consider "cached_answer t0 host c = Some (Inr ips)" | "cached_answer t1 host c = Some (Inr ips)"
    | "fst (flight_end t2 host (flight_begin host c) (dns_lookup resolver (dc_network c) host) c) = Inr ips"
    by (auto simp: Resolve_def split: option.splits prod.splits)
  then show ?thesis
    using cached_answer_family [OF ok assms(3)] flight_answer_family [OF ok assms(1,3)] by cases auto
qed

theorem dns_family_respected_witness:
  "family_ok ''ip6'' [replicate 16 1] \<and> \<not> family_ok ''ip6'' [[1, 2, 3, 4]]"
proof
  define c where "c = SetNetwork ''ip6'' (snd (Resolve 0 0 0 sample_resolver None ''example.com'' NewCache))"
  have n: "dc_network c = ''ip6''" by (simp add: c_def SetNetwork_def)
  have "dns_reachable sample_resolver c" unfolding c_def by (intro dns_reachable.intros)
  moreover have "cached_answer t ''example.com'' c = None" for t
    unfolding c_def by (simp add: cached_answer_def SetNetwork_def Resolve_def NewCache_def flight_end_def dns_lookup_def
        example_not_ip sample_resolver_def dns_store_def positive_entry_def Let_def)
  then have "fst (Resolve 1 1 1 sample_resolver None ''example.com'' c) = Inr [replicate 16 1]"
    by (simp add: Resolve_def flight_end_def dns_lookup_def example_not_ip n sample_resolver_def)
  ultimately show "family_ok ''ip6'' [replicate 16 1]"
    using dns_family_respected [OF sample_resolver_ok _ example_not_ip] n by metis
  show "\<not> family_ok ''ip6'' [[1, 2, 3, 4]]" by (simp add: family_ok_def is_v4_def To4_def)
qed

text \<open>
  Lemma. A lookup in flight while the family changes is filed under the new
  family: \<^verbatim>\<open>store\<close> stamps the family of the moment of the write, not the one the
  addresses were resolved under, so the fast path serves IPv6 addresses to a
  cache that has moved to IPv4. The comment on \<^verbatim>\<open>SetNetwork\<close> excludes this.
\<close>

theorem dns_inflight_family_confused:
  assumes "dc_network c = ''ip6''" and "dc_defaultTTL c \<ge> 0" and "ips \<noteq> []"
  shows "cached_answer now host (snd (flight_end now host (flight_begin host c) (Inr ips) (SetNetwork ''ip4'' c))) =
    Some (Inr ips)"
  using assms
  by (simp add: flight_end_def cached_answer_def dns_store_def SetNetwork_def positive_entry_def
      entry_IsExpired_def Let_def)

theorem dns_inflight_family_confused_witness:
  "\<not> is_v4 (replicate 16 1) \<and>
   (let c = SetNetwork ''ip6'' NewCache
    in cached_answer 7 ''example.com''
         (snd (flight_end 7 ''example.com'' (flight_begin ''example.com'' c)
            (dns_lookup sample_resolver (dc_network c) ''example.com'') (SetNetwork ''ip4'' c))) =
       Some (Inr [replicate 16 1]))"
proof
  show "\<not> is_v4 (replicate 16 1)" by (simp add: is_v4_def To4_def numeral_eq_Suc)
  have "dns_lookup sample_resolver ''ip6'' ''example.com'' = Inr [replicate 16 1]"
    by (simp add: dns_lookup_def example_not_ip sample_resolver_def)
  moreover have "dc_network (SetNetwork ''ip6'' NewCache) = ''ip6''" "dc_defaultTTL (SetNetwork ''ip6'' NewCache) \<ge> 0"
    by (simp_all add: SetNetwork_def NewCache_def)
  ultimately show "let c = SetNetwork ''ip6'' NewCache
    in cached_answer 7 ''example.com''
         (snd (flight_end 7 ''example.com'' (flight_begin ''example.com'' c)
            (dns_lookup sample_resolver (dc_network c) ''example.com'') (SetNetwork ''ip4'' c))) =
       Some (Inr [replicate 16 1])"
    using dns_inflight_family_confused [of "SetNetwork ''ip6'' NewCache" "[replicate 16 1]" 7 "''example.com''"]
    by simp
qed

lemma resolve_new_host:
  assumes "map_of (dc_entries c) host = None" and "ParseIP host = None" and "dns_ok c"
    and "\<forall>(h, e) \<in> set (dc_entries c). 0 \<le> de_ExpiresAt e"
    and "c' = snd (Resolve 0 0 0 sample_resolver None host c)"
  shows "length (dc_entries c') = Suc (length (dc_entries c)) \<and>
    (\<forall>h e. map_of (dc_entries c') h \<noteq> None \<longleftrightarrow> h = host \<or> map_of (dc_entries c) h \<noteq> None) \<and>
    (\<forall>(h, e) \<in> set (dc_entries c'). 0 \<le> de_ExpiresAt e)"
proof -
  have keep: "map_remove (\<lambda>_ x. de_ExpiresAt x < 0) (dc_entries c) = dc_entries c"
    using assms(4) by (auto simp: map_remove_def intro!: filter_True)
  have ans: "cached_answer t host c = None" for t using assms(1) by (simp add: cached_answer_def)
  obtain ips where ips: "dns_lookup sample_resolver (dc_network c) host = Inr ips" "ips \<noteq> []"
    using assms(2)
    by (cases "dc_network c = ''ip4''"; cases "dc_network c = ''ip6''") (auto simp: dns_lookup_def sample_resolver_def)
  define e where "e = (positive_entry 0 (dc_defaultTTL c) ips)\<lparr>de_network := dc_network c\<rparr>"
  have "c' = dns_store 0 host (positive_entry 0 (dc_defaultTTL c) ips) c"
    using assms(5) ans ips by (simp add: Resolve_def flight_end_def)
  then have "dc_entries c' = AList.update host e (dc_entries c)"
    by (simp add: swept_entries keep e_def)
  also have "\<dots> = dc_entries c @ [(host, e)]" by (rule alist_update_fresh [OF assms(1)])
  finally have c': "dc_entries c' = dc_entries c @ [(host, e)]" .
  have "0 \<le> de_ExpiresAt e" using assms(3) by (simp add: e_def positive_entry_def dns_ok_def)
  then show ?thesis unfolding c' using assms(4) by (auto simp: map_add_def split: option.splits)
qed

lemma host_names: "ParseIP (replicate n (CHR ''a'')) = None"
proof -
  have "find (\<lambda>c. c = CHR ''.'' \<or> c = CHR '':'') (replicate n (CHR ''a'')) = None"
    by (induction n) auto
  then show ?thesis by (simp add: ParseIP_def)
qed

lemma grow_cache:
  "\<exists>c. dns_reachable sample_resolver c \<and> length (dc_entries c) = n \<and>
     (\<forall>h. map_of (dc_entries c) h \<noteq> None \<longrightarrow> length h < n) \<and>
     (\<forall>(h, e) \<in> set (dc_entries c). 0 \<le> de_ExpiresAt e)"
proof (induction n)
  case 0
  have "dc_entries NewCache = []" by (simp add: NewCache_def)
  then show ?case using dns_new by force
next
  case (Suc n)
  then obtain c where c: "dns_reachable sample_resolver c" "length (dc_entries c) = n"
      "\<forall>h. map_of (dc_entries c) h \<noteq> None \<longrightarrow> length h < n"
      "\<forall>(h, e) \<in> set (dc_entries c). 0 \<le> de_ExpiresAt e" by blast
  let ?host = "replicate n (CHR ''a'')"
  let ?c = "snd (Resolve 0 0 0 sample_resolver None ?host c)"
  have new: "map_of (dc_entries c) ?host = None"
    using c(3) by (metis length_replicate less_irrefl)
  have ok: "dns_ok c" using dns_reachable_ok [OF c(1) sample_resolver_ok] .
  note r = resolve_new_host [OF new host_names ok c(4) refl]
  have "dns_reachable sample_resolver ?c" using c(1) by (rule dns_resolve)
  moreover have "length h < Suc n" if "map_of (dc_entries ?c) h \<noteq> None" for h
    using r c(3) that by (metis length_replicate less_Suc_eq)
  ultimately show ?case using r c(2) by (intro exI [of _ ?c]) auto
qed

text \<open>
  Lemma. The cache is not bounded by \<^verbatim>\<open>maxCacheEntries\<close>: the sweep only removes
  expired entries, so resolving distinct hosts within one TTL makes it as large
  as one likes. The comments promise a bounded map, and for the ECH cache a
  hard cap.
\<close>

theorem dns_cache_unbounded:
  "\<exists>c. dns_reachable sample_resolver c \<and> length (dc_entries c) > maxCacheEntries + n"
  using grow_cache [of "Suc (maxCacheEntries + n)"] by auto

lemma mset_interleave: "mset (interleave xs ys) = mset xs + mset ys"
  by (induction xs ys rule: interleave.induct) auto

lemma filter_interleave:
  "\<forall>x \<in> set xs. P x \<Longrightarrow> \<forall>y \<in> set ys. \<not> P y \<Longrightarrow>
     filter P (interleave xs ys) = xs \<and> filter (\<lambda>x. \<not> P x) (interleave xs ys) = ys"
  by (induction xs ys rule: interleave.induct) (auto simp: filter_empty_conv filter_id_conv)

lemma interleave_start:
  "xs \<noteq> [] \<Longrightarrow> hd (interleave xs ys) = hd xs"
  "xs \<noteq> [] \<Longrightarrow> ys \<noteq> [] \<Longrightarrow> hd (tl (interleave xs ys)) = hd ys"
  by (induction xs ys rule: interleave.induct; simp)+

text \<open>
  Lemma. Happy Eyeballs loses no address: the ordered answer is a permutation of
  the resolved one, each family keeps its order, and when the preferred family
  has an address the first attempt goes to it, the second to the other family
  if that has one.
\<close>

theorem happy_eyeballs_order:
  assumes "ResolveAllSorted host preferIPv4 (Inr ips) = Inr out"
    and "preferred = (\<lambda>p. is_v4 p = preferIPv4)"
  shows "mset out = mset ips \<and>
    filter preferred out = filter preferred ips \<and>
    filter (\<lambda>p. \<not> preferred p) out = filter (\<lambda>p. \<not> preferred p) ips \<and>
    (filter preferred ips \<noteq> [] \<longrightarrow> preferred (hd out)) \<and>
    (filter preferred ips \<noteq> [] \<and> filter (\<lambda>p. \<not> preferred p) ips \<noteq> [] \<longrightarrow> \<not> preferred (hd (tl out)))"
proof -
  let ?a = "filter preferred ips" and ?b = "filter (\<lambda>p. \<not> preferred p) ips"
  have s: "out = interleave ?a ?b"
    using assms by (cases preferIPv4) (auto simp: ResolveAllSorted_def Let_def split: if_splits)
  have f: "filter preferred out = ?a \<and> filter (\<lambda>p. \<not> preferred p) out = ?b"
    unfolding s by (rule filter_interleave) auto
  have "preferred (hd out)" if "?a \<noteq> []"
    using interleave_start(1) [OF that, of ?b] hd_in_set [OF that] s by auto
  moreover have "\<not> preferred (hd (tl out))" if "?a \<noteq> []" "?b \<noteq> []"
    using interleave_start(2) [OF that] hd_in_set [OF that(2)] s by auto
  moreover have "mset out = mset ips" unfolding s mset_interleave mset_filter by simp
  ultimately show ?thesis using f by blast
qed

theorem happy_eyeballs_order_witness:
  "mset [replicate 16 1, [1, 2, 3, 4], replicate 16 2] = mset [[1, 2, 3, 4], replicate 16 1, replicate 16 (2::byte)]"
proof -
  have "\<not> is_v4 (replicate 16 1)" "\<not> is_v4 (replicate 16 2)" "is_v4 [1, 2, 3, 4]"
    by (simp_all add: is_v4_def To4_def numeral_eq_Suc)
  then have "ResolveAllSorted ''h'' False (Inr [[1, 2, 3, 4], replicate 16 1, replicate 16 2]) =
      Inr [replicate 16 1, [1, 2, 3, 4], replicate 16 2]"
    by (simp add: ResolveAllSorted_def)
  from happy_eyeballs_order [OF this refl] show ?thesis by blast
qed

text \<open>
  Lemma. A retired ECH configuration is not served: a configuration handed out is
  one that DNS has just returned, or a cached one that had not expired when the
  cache was read, or one whose expiry is less than the grace period of five
  minutes ago after the query failed.
\<close>

theorem ech_config_not_stale:
  assumes "FetchECHConfigs t0 t1 t2 exchange hostname s = (Some cfg, s')"
  shows "(\<exists>ttl. queryECHFromDNS exchange hostname None (es_servers s) = Inr (Some cfg, ttl)) \<or>
    (\<exists>e. map_of (es_cache s) hostname = Some e \<and> ee_ConfigList e = Some cfg \<and>
       (t0 < ee_ExpiresAt e \<or> t1 < ee_ExpiresAt e \<or>
        t2 < ee_ExpiresAt e + echStaleGrace \<and> isl (queryECHFromDNS exchange hostname None (es_servers s))))"
  using assms
  by (cases "map_of (es_cache s) hostname")
    (auto simp: FetchECHConfigs_def Let_def simp del: map_of_eq_Some_iff
      split: if_splits sum.splits prod.splits)

definition down :: "string \<Rightarrow> string \<Rightarrow> string + dns_response" where
  "down server host = Inl ''timeout''"

theorem ech_config_not_stale_witness:
  "(\<exists>e. map_of [(''example.com'', \<lparr>ee_ConfigList = Some [7], ee_ExpiresAt = 100\<rparr>)] ''example.com'' = Some e \<and>
     ee_ConfigList e = Some [7] \<and> 200 < ee_ExpiresAt e + echStaleGrace)"
proof -
  let ?s = "\<lparr>es_cache = [(''example.com'', \<lparr>ee_ConfigList = Some [7], ee_ExpiresAt = 100\<rparr>)],
     es_incompat = [], es_servers = [''8.8.8.8:53'']\<rparr>"
  have "trim_fn (\<lambda>c. c = CHR ''['' \<or> c = CHR '']'') ''example.com'' = ''example.com''"
    by (simp add: trim_fn_def)
  then have "FetchECHConfigs 150 160 200 down ''example.com'' ?s = (Some [7], ?s)"
    by (simp add: FetchECHConfigs_def example_not_ip down_def Let_def)
  from ech_config_not_stale [OF this] show ?thesis by (simp add: down_def)
qed

end
