(* ===== verification/Socks5.thy ===== *)
theory Socks5
  imports Go_Net
begin

text \<open>
  \<^verbatim>\<open>proxy/socks5_tcp.go\<close>, \<^verbatim>\<open>proxy/socks5_udp.go\<close> and \<^verbatim>\<open>proxy/dialutil.go\<close>: dialling a
  proxy, the SOCKS5 handshake, CONNECT, UDP ASSOCIATE and the UDP relay.

  A TCP connection is the bytes its peer will still send, the error that a
  read meets after them, the messages written to it and the number of writes
  that will still succeed. Errors are their texts, because the retry decision
  of the code reads the text. The resolver, the dialler and the system's
  service table are arguments; \<^verbatim>\<open>url.Parse\<close> is an argument of the constructors.
  Deadlines only change when a read fails, which the connection's error covers.
\<close>

section \<open>Connections\<close>

record conn =
  cn_in :: "byte list"
  cn_err :: string
  cn_out :: "byte list list"
  cn_writes :: "nat option"

type_synonym 'a io = "conn \<Rightarrow> (string + 'a) \<times> conn"

definition io_return :: "'a \<Rightarrow> 'a io" where
  "io_return x = (\<lambda>c. (Inr x, c))"

definition io_fail :: "string \<Rightarrow> 'a io" where
  "io_fail e = (\<lambda>c. (Inl e, c))"

definition io_bind :: "'a io \<Rightarrow> ('a \<Rightarrow> 'b io) \<Rightarrow> 'b io" where
  "io_bind m f = (\<lambda>c. case m c of (Inl e, c') \<Rightarrow> (Inl e, c') | (Inr x, c') \<Rightarrow> f x c')"

text \<open>\<^verbatim>\<open>fmt.Errorf("msg: %w", err)\<close>.\<close>

definition io_ctx :: "string \<Rightarrow> 'a io \<Rightarrow> 'a io" where
  "io_ctx msg m = (\<lambda>c. case m c of (Inl e, c') \<Rightarrow> (Inl (msg @ '': '' @ e), c') | r \<Rightarrow> r)"

definition io_write :: "byte list \<Rightarrow> unit io" where
  "io_write bs = (\<lambda>c.
     case cn_writes c of
       None \<Rightarrow> (Inr (), c\<lparr>cn_out := cn_out c @ [bs]\<rparr>)
     | Some 0 \<Rightarrow> (Inl (cn_err c), c)
     | Some (Suc n) \<Rightarrow> (Inr (), c\<lparr>cn_out := cn_out c @ [bs], cn_writes := Some n\<rparr>))"

text \<open>\<^verbatim>\<open>io.ReadFull\<close>: an end of file after some bytes is an unexpected one.\<close>

definition io_readFull :: "nat \<Rightarrow> byte list io" where
  "io_readFull n = (\<lambda>c.
     if n \<le> length (cn_in c) then (Inr (take n (cn_in c)), c\<lparr>cn_in := drop n (cn_in c)\<rparr>)
     else (Inl (if cn_in c \<noteq> [] \<and> cn_err c = ''EOF'' then ''unexpected EOF'' else cn_err c), c\<lparr>cn_in := []\<rparr>))"

definition str_bytes :: "string \<Rightarrow> byte list" where
  "str_bytes s = map of_char s"

definition show_byte :: "byte \<Rightarrow> string" where
  "show_byte b = show_nat (unat b)"

section \<open>Dialling the proxy\<close>

definition orderIPv4First :: "string list \<Rightarrow> string list" where
  "orderIPv4First ips =
     (let is4 = (\<lambda>s. case ParseIP s of None \<Rightarrow> False | Some ip \<Rightarrow> To4 ip \<noteq> None);
          is6 = (\<lambda>s. case ParseIP s of None \<Rightarrow> False | Some ip \<Rightarrow> To4 ip = None)
      in filter is4 ips @ filter is6 ips @ filter (\<lambda>s. ParseIP s = None) ips)"

definition dial_network :: "string \<Rightarrow> string" where
  "dial_network ipStr =
     (case ParseIP ipStr of
        None \<Rightarrow> ''tcp''
      | Some ip \<Rightarrow> if To4 ip \<noteq> None then ''tcp4'' else ''tcp6'')"

definition dial_budget :: "duration \<Rightarrow> nat \<Rightarrow> duration" where
  "dial_budget connectTimeout remaining =
     (let perAddr = (if connectTimeout > 0 \<and> remaining > 0 then connectTimeout div int remaining else connectTimeout)
      in if perAddr \<le> 0 \<or> perAddr > 10 * second then 10 * second else perAddr)"

type_synonym dial = "string \<Rightarrow> string \<Rightarrow> duration \<Rightarrow> string + conn"

text \<open>The loop also returns the attempts it made: address and time budget.\<close>

fun dial_loop ::
    "dial \<Rightarrow> string \<Rightarrow> duration \<Rightarrow> string \<Rightarrow> string list \<Rightarrow> (string + conn) \<times> (string \<times> duration) list" where
  "dial_loop dial port connectTimeout lastErr [] = (Inl lastErr, [])"
| "dial_loop dial port connectTimeout lastErr (ipStr # rest) =
     (let perAddr = dial_budget connectTimeout (length (ipStr # rest)) in
      case dial (dial_network ipStr) (JoinHostPort ipStr port) perAddr of
        Inr conn \<Rightarrow> (Inr conn, [(ipStr, perAddr)])
      | Inl err \<Rightarrow>
          (case dial_loop dial port connectTimeout err rest of
             (r, tried) \<Rightarrow> (r, (ipStr, perAddr) # tried)))"

definition dialTCPFirstReachable ::
    "dial \<Rightarrow> string list \<Rightarrow> string \<Rightarrow> duration \<Rightarrow> (string + conn) \<times> (string \<times> duration) list" where
  "dialTCPFirstReachable dial proxyIPs proxyPort connectTimeout =
     (let ordered = orderIPv4First proxyIPs in
      if ordered = [] then (Inl ''no proxy addresses to dial'', [])
      else (case dial_loop dial proxyPort connectTimeout [] ordered of
              (Inr conn, tried) \<Rightarrow> (Inr conn, tried)
            | (Inl lastErr, tried) \<Rightarrow>
                (Inl (''failed to connect to proxy (tried '' @ show_nat (length ordered) @ '' address(es)): '' @ lastErr),
                 tried)))"

section \<open>Protocol constants and replies\<close>

abbreviation socks5Version :: byte where "socks5Version \<equiv> 0x05"
abbreviation authNone :: byte where "authNone \<equiv> 0x00"
abbreviation authPassword :: byte where "authPassword \<equiv> 0x02"
abbreviation authNoAccept :: byte where "authNoAccept \<equiv> 0xFF"
abbreviation cmdConnect :: byte where "cmdConnect \<equiv> 0x01"
abbreviation cmdUDPAssociate :: byte where "cmdUDPAssociate \<equiv> 0x03"
abbreviation atypIPv4 :: byte where "atypIPv4 \<equiv> 0x01"
abbreviation atypDomain :: byte where "atypDomain \<equiv> 0x03"
abbreviation atypIPv6 :: byte where "atypIPv6 \<equiv> 0x04"

definition socks5ReplyString :: "byte \<Rightarrow> string" where
  "socks5ReplyString code =
     (if code = 0 then ''success''
      else if code = 1 then ''general SOCKS server failure''
      else if code = 2 then ''connection not allowed by ruleset''
      else if code = 3 then ''network unreachable''
      else if code = 4 then ''host unreachable''
      else if code = 5 then ''connection refused''
      else if code = 6 then ''TTL expired''
      else if code = 7 then ''command not supported''
      else if code = 8 then ''address type not supported''
      else ''unknown error (code '' @ show_byte code @ '')'')"

section \<open>SOCKS5 over TCP\<close>

record socks5_dialer =
  sd_proxyHost :: string
  sd_proxyPort :: string
  sd_username :: string
  sd_password :: string
  sd_timeout :: duration
  sd_localAddr :: string

text \<open>What the code reads of a parsed URL; the user part is the name and the password, if any.\<close>

record parsed_url =
  pu_Scheme :: string
  pu_Hostname :: string
  pu_Port :: string
  pu_User :: "(string \<times> string) option"

definition NewSOCKS5Dialer :: "(string \<Rightarrow> string + parsed_url) \<Rightarrow> string \<Rightarrow> string + socks5_dialer" where
  "NewSOCKS5Dialer parse proxyURL =
     (case parse proxyURL of
        Inl err \<Rightarrow> Inl (''invalid proxy URL: '' @ err)
      | Inr parsed \<Rightarrow>
          if pu_Scheme parsed \<noteq> ''socks5'' \<and> pu_Scheme parsed \<noteq> ''socks5h''
          then Inl (''unsupported proxy scheme: '' @ pu_Scheme parsed @ '' (need socks5 or socks5h)'')
          else
            (let port = (if pu_Port parsed = [] then ''1080'' else pu_Port parsed);
                 (user, pass) = (case pu_User parsed of None \<Rightarrow> ([], []) | Some up \<Rightarrow> up)
             in Inr \<lparr>sd_proxyHost = pu_Hostname parsed, sd_proxyPort = port, sd_username = user,
                     sd_password = pass, sd_timeout = 30 * second, sd_localAddr = []\<rparr>))"

definition sd_SetLocalAddr :: "string \<Rightarrow> socks5_dialer \<Rightarrow> socks5_dialer" where
  "sd_SetLocalAddr addr d = d\<lparr>sd_localAddr := addr\<rparr>"

definition IsSOCKS5URL :: "(string \<Rightarrow> string + parsed_url) \<Rightarrow> string \<Rightarrow> bool" where
  "IsSOCKS5URL parse proxyURL =
     (case parse proxyURL of
        Inl err \<Rightarrow> False
      | Inr parsed \<Rightarrow> pu_Scheme parsed = ''socks5'' \<or> pu_Scheme parsed = ''socks5h'')"

definition socks5PasswordAuth :: "socks5_dialer \<Rightarrow> unit io" where
  "socks5PasswordAuth d =
     (if sd_username d = [] then io_fail ''proxy requires authentication but no credentials provided''
      else
        io_bind (io_ctx ''failed to send auth request''
                  (io_write ([0x01, of_nat (length (sd_username d))] @ str_bytes (sd_username d) @
                             [of_nat (length (sd_password d))] @ str_bytes (sd_password d)))) (\<lambda>_.
        io_bind (io_ctx ''failed to read auth response'' (io_readFull 2)) (\<lambda>resp.
        if resp ! 1 \<noteq> 0x00 then io_fail ''authentication failed: invalid credentials''
        else io_return ())))"

definition socks5Handshake :: "socks5_dialer \<Rightarrow> unit io" where
  "socks5Handshake d =
     (let greeting = (if sd_username d \<noteq> [] then [socks5Version, 0x02, authNone, authPassword]
                      else [socks5Version, 0x01, authNone])
      in io_bind (io_ctx ''failed to send greeting'' (io_write greeting)) (\<lambda>_.
         io_bind (io_ctx ''failed to read auth response'' (io_readFull 2)) (\<lambda>resp.
         if resp ! 0 \<noteq> socks5Version then io_fail (''invalid SOCKS version: '' @ show_byte (resp ! 0))
         else if resp ! 1 = authNone then io_return ()
         else if resp ! 1 = authPassword then socks5PasswordAuth d
         else if resp ! 1 = authNoAccept then io_fail ''proxy rejected all authentication methods''
         else io_fail (''unsupported authentication method: '' @ show_byte (resp ! 1)))))"

definition connect_request :: "string \<Rightarrow> nat \<Rightarrow> string + byte list" where
  "connect_request host portNum =
     (let head = [socks5Version, cmdConnect, 0x00];
          port = put_u16 (of_nat portNum)
      in case ParseIP host of
           Some ip \<Rightarrow>
             (case To4 ip of
                Some ip4 \<Rightarrow> Inr (head @ [atypIPv4] @ ip4 @ port)
              | None \<Rightarrow> Inr (head @ [atypIPv6] @ (case To16 ip of None \<Rightarrow> [] | Some ip16 \<Rightarrow> ip16) @ port))
         | None \<Rightarrow>
             if length host > 255 then Inl ''domain name too long''
             else Inr (head @ [atypDomain, of_nat (length host)] @ str_bytes host @ port))"

definition discard_bound_addr :: "byte \<Rightarrow> unit io" where
  "discard_bound_addr atyp =
     (if atyp = atypIPv4 then
        io_bind (io_ctx ''failed to read bound address'' (io_readFull 6)) (\<lambda>_. io_return ())
      else if atyp = atypDomain then
        io_bind (io_ctx ''failed to read domain length'' (io_readFull 1)) (\<lambda>lenByte.
        io_bind (io_ctx ''failed to read domain and port'' (io_readFull (unat (lenByte ! 0) + 2))) (\<lambda>_. io_return ()))
      else if atyp = atypIPv6 then
        io_bind (io_ctx ''failed to read bound address'' (io_readFull 18)) (\<lambda>_. io_return ())
      else io_fail (''unsupported address type in reply: '' @ show_byte atyp))"

definition socks5Connect :: "(string \<Rightarrow> string + nat) \<Rightarrow> string \<Rightarrow> string \<Rightarrow> unit io" where
  "socks5Connect services host port =
     (case LookupPort services port of
        Inl err \<Rightarrow> io_fail (''invalid port: '' @ err)
      | Inr portNum \<Rightarrow>
          (case connect_request host portNum of
             Inl err \<Rightarrow> io_fail err
           | Inr request \<Rightarrow>
               io_bind (io_ctx ''failed to send CONNECT request'' (io_write request)) (\<lambda>_.
               io_bind (io_ctx ''failed to read reply header'' (io_readFull 4)) (\<lambda>header.
               if header ! 0 \<noteq> socks5Version
               then io_fail (''invalid SOCKS version in reply: '' @ show_byte (header ! 0))
               else if header ! 1 \<noteq> 0x00
               then io_fail (''CONNECT failed: '' @ socks5ReplyString (header ! 1) @ '' (reply='' @ show_byte (header ! 1) @ '')'')
               else discard_bound_addr (header ! 3)))))"

record net_env =
  ne_lookupHost :: "string \<Rightarrow> string + string list"
  ne_lookupIP :: "string \<Rightarrow> string + ip list"
  ne_dial :: dial
  ne_listenUDP :: "string option"
  ne_services :: "string \<Rightarrow> string + nat"

definition DialContext :: "net_env \<Rightarrow> string \<Rightarrow> socks5_dialer \<Rightarrow> string + conn" where
  "DialContext env addr d =
     (case SplitHostPort addr of
        Inl err \<Rightarrow> Inl (''invalid target address: '' @ err)
      | Inr (targetHost, targetPort) \<Rightarrow>
          (case ne_lookupHost env (sd_proxyHost d) of
             Inl err \<Rightarrow> Inl (''failed to resolve proxy host '' @ sd_proxyHost d @ '': '' @ err)
           | Inr proxyIPs \<Rightarrow>
               if proxyIPs = [] then Inl (''no IP addresses found for proxy host '' @ sd_proxyHost d)
               else (case fst (dialTCPFirstReachable (ne_dial env) proxyIPs (sd_proxyPort d) (sd_timeout d)) of
                 Inl err \<Rightarrow> Inl (''failed to connect to SOCKS5 proxy: '' @ err)
               | Inr conn \<Rightarrow>
                   (case socks5Handshake d conn of
                      (Inl err, c) \<Rightarrow> Inl (''SOCKS5 handshake failed: '' @ err)
                    | (Inr _, c) \<Rightarrow>
                        (case socks5Connect (ne_services env) targetHost targetPort c of
                           (Inl err, c') \<Rightarrow> Inl (''SOCKS5 CONNECT failed: '' @ err)
                         | (Inr _, c') \<Rightarrow> Inr c')))))"


section \<open>The UDP relay: headers\<close>

text \<open>
  An address that a caller gets from \<^verbatim>\<open>ReadFrom\<close> is either a value of its own or a
  slice of the connection's read buffer, which the code does not copy.
\<close>

datatype ip_value = IPBytes ip | IPSlice nat nat

definition ip_bytes :: "byte list \<Rightarrow> ip_value \<Rightarrow> ip" where
  "ip_bytes buf v = (case v of IPBytes p \<Rightarrow> p | IPSlice off len \<Rightarrow> take len (drop off buf))"

record udp_addr =
  ua_IP :: ip
  ua_Port :: int

record src_addr =
  sa_IP :: ip_value
  sa_Port :: int

datatype net_addr = UDPAddr udp_addr | OtherAddr string

definition buildSOCKS5UDPHeader :: "udp_addr \<Rightarrow> byte list" where
  "buildSOCKS5UDPHeader addr =
     [0x00, 0x00, 0x00] @
     (case To4 (ua_IP addr) of
        Some ip4 \<Rightarrow> atypIPv4 # ip4
      | None \<Rightarrow>
          (case To16 (ua_IP addr) of
             Some ip16 \<Rightarrow> atypIPv6 # ip16
           | None \<Rightarrow> [atypIPv4, 0, 0, 0, 0])) @
     put_u16 (word_of_int (ua_Port addr))"

definition IPv4zero :: ip where
  "IPv4zero = v4_mapped [0, 0, 0, 0]"

definition parseSOCKS5UDPHeader ::
    "(string \<Rightarrow> string + ip list) \<Rightarrow> byte list \<Rightarrow> string + nat \<times> src_addr" where
  "parseSOCKS5UDPHeader lookupIP packet =
     (if length packet < 10 then Inl ''packet too small''
      else if packet ! 2 \<noteq> 0x00 then Inl (''fragmented packets not supported (frag='' @ show_byte (packet ! 2) @ '')'')
      else
        (let atyp = packet ! 3 in
         if atyp = atypIPv4 then
           Inr (10, \<lparr>sa_IP = IPSlice 4 4, sa_Port = uint (get_u16 (take 2 (drop 8 packet)))\<rparr>)
         else if atyp = atypDomain then
           (let domainLen = unat (packet ! 4) in
            if length packet < 7 + domainLen then Inl ''packet too small for domain''
            else
              (let domain = map (\<lambda>b. char_of (unat b)) (take domainLen (drop 5 packet));
                   ip = (case lookupIP domain of Inr (i # _) \<Rightarrow> i | _ \<Rightarrow> IPv4zero)
               in Inr (7 + domainLen,
                       \<lparr>sa_IP = IPBytes ip, sa_Port = uint (get_u16 (take 2 (drop (5 + domainLen) packet)))\<rparr>)))
         else if atyp = atypIPv6 then
           (if length packet < 22 then Inl ''packet too small for IPv6 address''
            else Inr (22, \<lparr>sa_IP = IPSlice 4 16, sa_Port = uint (get_u16 (take 2 (drop 20 packet)))\<rparr>))
         else Inl (''unsupported address type: '' @ show_byte atyp)))"

section \<open>The UDP relay: association\<close>

text \<open>The local UDP socket is the datagrams sent through it.\<close>

record udp_conn =
  uc_tcpConn :: "conn option"
  uc_udpConn :: "(byte list \<times> udp_addr) list option"
  uc_relayAddr :: "udp_addr option"
  uc_proxyHost :: string
  uc_proxyPort :: string
  uc_username :: string
  uc_password :: string
  uc_established :: bool
  uc_closed :: bool
  uc_lastActivity :: time
  uc_writeCount :: int
  uc_readCount :: int
  uc_readBuf :: "byte list"
  uc_readDeadline :: time
  uc_writeDeadline :: time

definition NewSOCKS5UDPConn :: "(string \<Rightarrow> string + parsed_url) \<Rightarrow> string \<Rightarrow> string + udp_conn" where
  "NewSOCKS5UDPConn parse proxyURL =
     (case parse proxyURL of
        Inl err \<Rightarrow> Inl (''invalid proxy URL: '' @ err)
      | Inr parsed \<Rightarrow>
          if pu_Scheme parsed \<noteq> ''socks5'' \<and> pu_Scheme parsed \<noteq> ''socks5h''
          then Inl (''unsupported proxy scheme: '' @ pu_Scheme parsed @ '' (need socks5)'')
          else
            (let port = (if pu_Port parsed = [] then ''1080'' else pu_Port parsed);
                 (user, pass) = (case pu_User parsed of None \<Rightarrow> ([], []) | Some up \<Rightarrow> up)
             in Inr \<lparr>uc_tcpConn = None, uc_udpConn = None, uc_relayAddr = None,
                     uc_proxyHost = pu_Hostname parsed, uc_proxyPort = port,
                     uc_username = user, uc_password = pass, uc_established = False, uc_closed = False,
                     uc_lastActivity = 0, uc_writeCount = 0, uc_readCount = 0, uc_readBuf = replicate 65535 0,
                     uc_readDeadline = 0, uc_writeDeadline = 0\<rparr>))"

definition udp_socks5PasswordAuth :: "udp_conn \<Rightarrow> unit io" where
  "udp_socks5PasswordAuth u =
     (if uc_username u = [] then io_fail ''proxy requires authentication but no credentials provided''
      else
        io_bind (io_ctx ''failed to send auth request''
                  (io_write ([0x01, of_nat (length (uc_username u))] @ str_bytes (uc_username u) @
                             [of_nat (length (uc_password u))] @ str_bytes (uc_password u)))) (\<lambda>_.
        io_bind (io_ctx ''failed to read auth response'' (io_readFull 2)) (\<lambda>resp.
        if resp ! 1 \<noteq> 0x00 then io_fail ''authentication failed: invalid credentials''
        else io_return ())))"

definition udp_socks5Handshake :: "udp_conn \<Rightarrow> unit io" where
  "udp_socks5Handshake u =
     (let greeting = (if uc_username u \<noteq> [] then [socks5Version, 0x02, authNone, authPassword]
                      else [socks5Version, 0x01, authNone])
      in io_bind (io_ctx ''failed to send greeting'' (io_write greeting)) (\<lambda>_.
         io_bind (io_ctx ''failed to read auth response'' (io_readFull 2)) (\<lambda>resp.
         if resp ! 0 \<noteq> socks5Version then io_fail (''invalid SOCKS version: '' @ show_byte (resp ! 0))
         else if resp ! 1 = authNone then io_return ()
         else if resp ! 1 = authPassword then udp_socks5PasswordAuth u
         else if resp ! 1 = authNoAccept then io_fail ''proxy rejected all authentication methods''
         else io_fail (''unsupported authentication method: '' @ show_byte (resp ! 1)))))"

text \<open>The first address of a lookup, or the error text; an empty answer has no error to wrap.\<close>

definition first_ip :: "string \<Rightarrow> string + ip list \<Rightarrow> ip io" where
  "first_ip msg r =
     (case r of
        Inl err \<Rightarrow> io_fail (msg @ '': '' @ err)
      | Inr [] \<Rightarrow> io_fail (msg @ '': %!w(<nil>)'')
      | Inr (p # _) \<Rightarrow> io_return p)"

definition read_relay_ip :: "net_env \<Rightarrow> byte \<Rightarrow> ip io" where
  "read_relay_ip env atyp =
     (if atyp = atypIPv4 then io_ctx ''failed to read IPv4 address'' (io_readFull 4)
      else if atyp = atypDomain then
        io_bind (io_ctx ''failed to read domain length'' (io_readFull 1)) (\<lambda>lenByte.
        io_bind (io_ctx ''failed to read domain'' (io_readFull (unat (lenByte ! 0)))) (\<lambda>bs.
        (let domain = map (\<lambda>b. char_of (unat b)) bs in
         first_ip (''failed to resolve relay domain '' @ domain) (ne_lookupIP env domain))))
      else if atyp = atypIPv6 then io_ctx ''failed to read IPv6 address'' (io_readFull 16)
      else io_fail (''unsupported address type in reply: '' @ show_byte atyp))"

definition parseUDPAssociateReply :: "net_env \<Rightarrow> string \<Rightarrow> udp_addr io" where
  "parseUDPAssociateReply env proxyHost =
     io_bind (io_ctx ''failed to read reply header'' (io_readFull 4)) (\<lambda>header.
     if header ! 0 \<noteq> socks5Version
     then io_fail (''invalid SOCKS version in reply: '' @ show_byte (header ! 0))
     else if header ! 1 \<noteq> 0x00 then io_fail (''UDP ASSOCIATE failed: '' @ socks5ReplyString (header ! 1))
     else
       io_bind (read_relay_ip env (header ! 3)) (\<lambda>relayIP.
       io_bind (io_ctx ''failed to read port'' (io_readFull 2)) (\<lambda>portBytes.
       io_bind
         (if IsUnspecified relayIP then
            (case ParseIP proxyHost of
               Some p \<Rightarrow> io_return p
             | None \<Rightarrow> first_ip (''failed to resolve proxy host '' @ proxyHost) (ne_lookupIP env proxyHost))
          else io_return relayIP) (\<lambda>p.
       io_return \<lparr>ua_IP = p, ua_Port = uint (get_u16 portBytes)\<rparr>))))"

definition sendUDPAssociate :: "net_env \<Rightarrow> string \<Rightarrow> udp_addr io" where
  "sendUDPAssociate env proxyHost =
     io_bind (io_ctx ''failed to send UDP ASSOCIATE''
       (io_write [socks5Version, cmdUDPAssociate, 0x00, atypIPv4, 0, 0, 0, 0, 0, 0])) (\<lambda>_.
     parseUDPAssociateReply env proxyHost)"

text \<open>The result is the error, if any; the sockets opened so far stay in the state.\<close>

definition tryEstablish :: "net_env \<Rightarrow> udp_conn \<Rightarrow> string option \<times> udp_conn" where
  "tryEstablish env u =
     (case ne_lookupHost env (uc_proxyHost u) of
        Inl err \<Rightarrow> (Some (''failed to resolve proxy host '' @ uc_proxyHost u @ '': '' @ err), u)
      | Inr proxyIPs \<Rightarrow>
          if proxyIPs = [] then (Some (''no IP addresses found for proxy host '' @ uc_proxyHost u), u)
          else (case fst (dialTCPFirstReachable (ne_dial env) proxyIPs (uc_proxyPort u) (30 * second)) of
            Inl err \<Rightarrow> (Some (''failed to connect to SOCKS5 proxy: '' @ err), u)
          | Inr tcp \<Rightarrow>
              (case udp_socks5Handshake u tcp of
                 (Inl err, tcp1) \<Rightarrow> (Some (''SOCKS5 handshake failed: '' @ err), u\<lparr>uc_tcpConn := Some tcp1\<rparr>)
               | (Inr _, tcp1) \<Rightarrow>
                   (case ne_listenUDP env of
                      Some err \<Rightarrow> (Some (''failed to create UDP socket: '' @ err), u\<lparr>uc_tcpConn := Some tcp1\<rparr>)
                    | None \<Rightarrow>
                        (case sendUDPAssociate env (uc_proxyHost u) tcp1 of
                           (Inl err, tcp2) \<Rightarrow>
                             (Some err, u\<lparr>uc_tcpConn := Some tcp2, uc_udpConn := Some []\<rparr>)
                         | (Inr relay, tcp2) \<Rightarrow>
                             (None, u\<lparr>uc_tcpConn := Some tcp2, uc_udpConn := Some [], uc_relayAddr := Some relay\<rparr>))))))"

definition isRetryableError :: "string \<Rightarrow> bool" where
  "isRetryableError err \<longleftrightarrow> contains err ''reply=1'' \<or> contains err ''general''"

text \<open>
  The retry loop with \<open>n\<close> attempts left: \<open>env i\<close> is the network at attempt \<open>i\<close> and
  \<open>cancelled i\<close> the error of the context after it, if it is done. The number of
  attempts made is returned too.
\<close>

fun establish_loop ::
    "(nat \<Rightarrow> net_env) \<Rightarrow> (nat \<Rightarrow> string option) \<Rightarrow> time \<Rightarrow> nat \<Rightarrow> nat \<Rightarrow> string \<Rightarrow> udp_conn \<Rightarrow>
     (string option \<times> nat) \<times> udp_conn" where
  "establish_loop env cancelled now 0 attempt lastErr u =
     ((Some (''UDP ASSOCIATE failed after '' @ show_nat (attempt - 1) @ '' attempts: '' @ lastErr), attempt - 1), u)"
| "establish_loop env cancelled now (Suc n) attempt lastErr u =
     (case tryEstablish (env attempt) u of
        (None, u') \<Rightarrow> ((None, attempt), u'\<lparr>uc_established := True, uc_lastActivity := now\<rparr>)
      | (Some err, u') \<Rightarrow>
          (let u'' = u'\<lparr>uc_udpConn := None, uc_tcpConn := None\<rparr> in
           if \<not> isRetryableError err then ((Some err, attempt), u'')
           else (case cancelled attempt of
                   Some cerr \<Rightarrow> ((Some cerr, attempt), u'')
                 | None \<Rightarrow> establish_loop env cancelled now n (attempt + 1) err u'')))"

definition ErrClosed :: string where
  "ErrClosed = ''use of closed network connection''"

definition Establish ::
    "(nat \<Rightarrow> net_env) \<Rightarrow> (nat \<Rightarrow> string option) \<Rightarrow> time \<Rightarrow> udp_conn \<Rightarrow> (string option \<times> nat) \<times> udp_conn" where
  "Establish env cancelled now u =
     (if uc_established u then ((None, 0), u)
      else if uc_closed u then ((Some ErrClosed, 0), u)
      else establish_loop env cancelled now 5 1 [] u)"

section \<open>The UDP relay: packets\<close>

definition uc_Close :: "udp_conn \<Rightarrow> udp_conn" where
  "uc_Close u =
     (if uc_closed u then u else u\<lparr>uc_closed := True, uc_udpConn := None, uc_tcpConn := None\<rparr>)"

text \<open>One turn of the loop that watches the control channel: \<open>r\<close> is what the read returned.\<close>

datatype tcp_read = ReadByte | ReadTimeout | ReadError

definition tcpKeepalive_turn :: "tcp_read \<Rightarrow> udp_conn \<Rightarrow> bool \<times> udp_conn" where
  "tcpKeepalive_turn r u =
     (if uc_closed u then (False, u)
      else if uc_tcpConn u = None then (False, u)
      else (case r of ReadError \<Rightarrow> (False, uc_Close u) | _ \<Rightarrow> (True, u)))"

text \<open>\<open>send\<close> is the system's answer to the datagram: an error or the number of bytes sent.\<close>

definition WriteTo ::
    "(byte list \<Rightarrow> string + nat) \<Rightarrow> time \<Rightarrow> byte list \<Rightarrow> net_addr \<Rightarrow> udp_conn \<Rightarrow> (string + int) \<times> udp_conn" where
  "WriteTo send now b addr u =
     (if uc_closed u then (Inl ErrClosed, u)
      else if \<not> uc_established u then (Inl ''SOCKS5 UDP connection not established'', u)
      else (case addr of
        OtherAddr ty \<Rightarrow> (Inl (''invalid address type: '' @ ty @ '' (expected *net.UDPAddr)''), u)
      | UDPAddr udpAddr \<Rightarrow>
          (let header = buildSOCKS5UDPHeader udpAddr; packet = header @ b in
           case (uc_udpConn u, uc_relayAddr u) of
             (Some sent, Some relay) \<Rightarrow>
               (case send packet of
                  Inl err \<Rightarrow> (Inl (''failed to write to relay: '' @ err), u)
                | Inr n \<Rightarrow>
                    (Inr (max 0 (int n - int (length header))),
                     u\<lparr>uc_udpConn := Some (sent @ [(packet, relay)]), uc_lastActivity := now,
                       uc_writeCount := int64 (uc_writeCount u + 1)\<rparr>))
           | _ \<Rightarrow> (Inl (''failed to write to relay: invalid argument''), u))))"

text \<open>
  \<open>recv\<close> is what the socket returns: an error or a datagram, of which the buffer
  takes what fits; \<open>b\<close> is the caller's buffer, returned as it is afterwards.
\<close>

definition ReadFrom ::
    "(string \<Rightarrow> string + ip list) \<Rightarrow> string + byte list \<Rightarrow> time \<Rightarrow> byte list \<Rightarrow> udp_conn \<Rightarrow>
     (string + nat \<times> src_addr \<times> byte list) \<times> udp_conn" where
  "ReadFrom lookupIP recv now b u =
     (if uc_closed u then (Inl ErrClosed, u)
      else if \<not> uc_established u then (Inl ''SOCKS5 UDP connection not established'', u)
      else if uc_udpConn u = None then (Inl ''invalid argument'', u)
      else (case recv of
        Inl err \<Rightarrow> (Inl err, u)
      | Inr datagram \<Rightarrow>
          (let n = min (length datagram) (length (uc_readBuf u));
               buf = take n datagram @ drop n (uc_readBuf u);
               u' = u\<lparr>uc_readBuf := buf\<rparr>
           in case parseSOCKS5UDPHeader lookupIP (take n buf) of
                Inl err \<Rightarrow> (Inl (''invalid SOCKS5 UDP header: '' @ err), u')
              | Inr (dataOffset, srcAddr) \<Rightarrow>
                  (let dataLen = min (n - dataOffset) (length b) in
                   (Inr (dataLen, srcAddr, take dataLen (drop dataOffset buf) @ drop dataLen b),
                    u'\<lparr>uc_lastActivity := now\<rparr>)))))"

definition uc_SetDeadline :: "time \<Rightarrow> udp_conn \<Rightarrow> udp_conn" where
  "uc_SetDeadline t u = u\<lparr>uc_readDeadline := t, uc_writeDeadline := t\<rparr>"

definition uc_SetReadDeadline :: "time \<Rightarrow> udp_conn \<Rightarrow> udp_conn" where
  "uc_SetReadDeadline t u = u\<lparr>uc_readDeadline := t\<rparr>"

definition uc_SetWriteDeadline :: "time \<Rightarrow> udp_conn \<Rightarrow> udp_conn" where
  "uc_SetWriteDeadline t u = u\<lparr>uc_writeDeadline := t\<rparr>"

definition RelayAddr :: "udp_conn \<Rightarrow> udp_addr option" where
  "RelayAddr u = uc_relayAddr u"

definition IsEstablished :: "udp_conn \<Rightarrow> bool" where
  "IsEstablished u = uc_established u"


section \<open>Laws of the connection steps\<close>

named_theorems io_ok

lemma io_bind_ok [io_ok]: "io_bind m f c = (Inr y, c') \<longleftrightarrow> (\<exists>x c1. m c = (Inr x, c1) \<and> f x c1 = (Inr y, c'))"
  by (auto simp: io_bind_def split: prod.splits sum.splits)

lemma io_ctx_ok [io_ok]: "io_ctx msg m c = (Inr x, c') \<longleftrightarrow> m c = (Inr x, c')"
  by (auto simp: io_ctx_def split: prod.splits sum.splits)

lemma io_fail_ok [io_ok]: "io_fail e c = (Inr x, c') \<longleftrightarrow> False"
  by (simp add: io_fail_def)

lemma io_return_ok [io_ok]: "io_return x c = (Inr y, c') \<longleftrightarrow> y = x \<and> c' = c"
  by (auto simp: io_return_def)

lemma io_if_ok [io_ok]:
  "(if P then f else g) c = (Inr y, c') \<longleftrightarrow> P \<and> f c = (Inr y, c') \<or> \<not> P \<and> g c = (Inr y, c')"
  by simp

lemma io_bind_run: "m c = (Inr x, c1) \<Longrightarrow> io_bind (io_ctx msg m) f c = f x c1"
  by (simp add: io_bind_def io_ctx_def)

lemma io_write_in:
  "io_write bs c = (Inr u, c') \<Longrightarrow> cn_in c' = cn_in c \<and> cn_out c' = cn_out c @ [bs]"
  by (auto simp: io_write_def split: option.splits nat.splits)

lemma io_write_unlimited: "cn_writes c = None \<Longrightarrow> io_write bs c = (Inr (), c\<lparr>cn_out := cn_out c @ [bs]\<rparr>)"
  by (simp add: io_write_def)

lemma io_write_run:
  "cn_writes c = None \<Longrightarrow>
   io_bind (io_ctx msg (io_write bs)) f c = f () (c\<lparr>cn_out := cn_out c @ [bs]\<rparr>)"
  by (simp add: io_bind_def io_ctx_def io_write_def)

definition same_peer :: "conn \<Rightarrow> conn \<Rightarrow> bool" where
  "same_peer c c' \<longleftrightarrow> cn_out c' = cn_out c \<and> cn_err c' = cn_err c \<and> cn_writes c' = cn_writes c"

lemma io_readFull_ok:
  "io_readFull n c = (Inr bs, c') \<longleftrightarrow> length bs = n \<and> cn_in c = bs @ cn_in c' \<and> same_peer c c'"
proof
  assume "io_readFull n c = (Inr bs, c')"
  then show "length bs = n \<and> cn_in c = bs @ cn_in c' \<and> same_peer c c'"
    by (auto simp: io_readFull_def same_peer_def split: if_splits)
next
  assume a: "length bs = n \<and> cn_in c = bs @ cn_in c' \<and> same_peer c c'"
  then have "c\<lparr>cn_in := cn_in c'\<rparr> = c'" by (simp add: same_peer_def)
  with a show "io_readFull n c = (Inr bs, c')" by (auto simp: io_readFull_def)
qed

lemma io_read1_ok [io_ok]:
  "io_readFull (Suc 0) c = (Inr bs, c') \<longleftrightarrow> (\<exists>x. bs = [x] \<and> cn_in c = x # cn_in c' \<and> same_peer c c')"
  by (auto simp: io_readFull_ok length_Suc_conv)

lemma io_read2_ok [io_ok]:
  "io_readFull 2 c = (Inr bs, c') \<longleftrightarrow> (\<exists>x y. bs = [x, y] \<and> cn_in c = x # y # cn_in c' \<and> same_peer c c')"
  by (auto simp: io_readFull_ok eval_nat_numeral length_Suc_conv)

lemma io_read4_ok [io_ok]:
  "io_readFull 4 c = (Inr bs, c') \<longleftrightarrow>
     (\<exists>x y z t. bs = [x, y, z, t] \<and> cn_in c = x # y # z # t # cn_in c' \<and> same_peer c c')"
  by (auto simp: io_readFull_ok eval_nat_numeral length_Suc_conv)

section \<open>What the proxy may answer\<close>

text \<open>RFC 1928: the method selection, with the password sub-negotiation of RFC 1929.\<close>

definition auth_answer :: "bool \<Rightarrow> byte list \<Rightarrow> bool" where
  "auth_answer credentials bs \<longleftrightarrow>
     bs = [5, 0] \<or> (credentials \<and> length bs = 4 \<and> bs ! 0 = 5 \<and> bs ! 1 = 2 \<and> bs ! 3 = 0)"

definition bound_addr :: "byte \<Rightarrow> byte list \<Rightarrow> bool" where
  "bound_addr atyp bs \<longleftrightarrow>
     atyp = 1 \<and> length bs = 6 \<or>
     atyp = 3 \<and> bs \<noteq> [] \<and> length bs = unat (hd bs) + 3 \<or>
     atyp = 4 \<and> length bs = 18"

definition success_reply :: "byte list \<Rightarrow> bool" where
  "success_reply bs \<longleftrightarrow>
     (case bs of ver # rep # rsv # atyp # rest \<Rightarrow> ver = 5 \<and> rep = 0 \<and> bound_addr atyp rest | _ \<Rightarrow> False)"

definition auth_messages :: "string \<Rightarrow> string \<Rightarrow> byte list \<Rightarrow> byte list list" where
  "auth_messages user pass answer =
     (if user = [] then [5, 1, 0] else [5, 2, 0, 2]) #
     (if answer = [5, 0] then []
      else [[1, of_nat (length user)] @ str_bytes user @ [of_nat (length pass)] @ str_bytes pass])"

lemma password_auth_iff:
  assumes "cn_writes c = None"
  shows "socks5PasswordAuth d c = (Inr (), c') \<longleftrightarrow>
    sd_username d \<noteq> [] \<and> (\<exists>v. cn_in c = [v, 0] @ cn_in c') \<and>
    cn_out c' = cn_out c @ [[1, of_nat (length (sd_username d))] @ str_bytes (sd_username d) @
      [of_nat (length (sd_password d))] @ str_bytes (sd_password d)] \<and>
    cn_err c' = cn_err c \<and> cn_writes c' = None"
  using assms
  by (auto simp: socks5PasswordAuth_def io_ok io_write_unlimited same_peer_def)

lemma handshake_iff:
  assumes "cn_writes c = None"
  shows "socks5Handshake d c = (Inr (), c') \<longleftrightarrow>
    (\<exists>answer. auth_answer (sd_username d \<noteq> []) answer \<and> cn_in c = answer @ cn_in c' \<and>
       cn_out c' = cn_out c @ auth_messages (sd_username d) (sd_password d) answer) \<and>
    cn_err c' = cn_err c \<and> cn_writes c' = None"
proof
  assume "socks5Handshake d c = (Inr (), c')"
  then obtain c1 where c1: "cn_in c = 5 # 0 # cn_in c' \<and> cn_out c' = cn_out c @ auth_messages (sd_username d) (sd_password d) [5, 0]
        \<and> cn_err c' = cn_err c \<and> cn_writes c' = None \<or>
      cn_in c = 5 # 2 # cn_in c1 \<and> socks5PasswordAuth d c1 = (Inr (), c') \<and> cn_writes c1 = None \<and> cn_err c1 = cn_err c \<and>
        cn_out c1 = cn_out c @ [if sd_username d = [] then [5, 1, 0] else [5, 2, 0, 2]]"
    using assms
    by (auto simp: socks5Handshake_def Let_def io_ok io_write_unlimited same_peer_def auth_messages_def split: if_splits)
  then show "(\<exists>answer. auth_answer (sd_username d \<noteq> []) answer \<and> cn_in c = answer @ cn_in c' \<and>
       cn_out c' = cn_out c @ auth_messages (sd_username d) (sd_password d) answer) \<and>
    cn_err c' = cn_err c \<and> cn_writes c' = None"
  proof
    assume a: "cn_in c = 5 # 2 # cn_in c1 \<and> socks5PasswordAuth d c1 = (Inr (), c') \<and> cn_writes c1 = None \<and> cn_err c1 = cn_err c \<and>
        cn_out c1 = cn_out c @ [if sd_username d = [] then [5, 1, 0] else [5, 2, 0, 2]]"
    then obtain v where "sd_username d \<noteq> []" "cn_in c1 = [v, 0] @ cn_in c'" by (auto simp: password_auth_iff)
    then show ?thesis
      using a by (auto simp: password_auth_iff auth_answer_def auth_messages_def intro!: exI [of _ "[5, 2, v, 0]"])
  qed (auto simp: auth_answer_def intro!: exI [of _ "[5, 0]"])
next
  assume a: "(\<exists>answer. auth_answer (sd_username d \<noteq> []) answer \<and> cn_in c = answer @ cn_in c' \<and>
       cn_out c' = cn_out c @ auth_messages (sd_username d) (sd_password d) answer) \<and>
    cn_err c' = cn_err c \<and> cn_writes c' = None"
  then obtain answer where ans: "auth_answer (sd_username d \<noteq> []) answer" "cn_in c = answer @ cn_in c'"
    "cn_out c' = cn_out c @ auth_messages (sd_username d) (sd_password d) answer" by auto
  let ?g = "if sd_username d = [] then [5, 1, 0] else [5, 2, 0, 2] :: byte list"
  define c0 where "c0 = c\<lparr>cn_out := cn_out c @ [?g]\<rparr>"
  have h: "socks5Handshake d c =
      io_bind (io_ctx ''failed to read auth response'' (io_readFull 2)) (\<lambda>resp.
         if resp ! 0 \<noteq> 5 then io_fail (''invalid SOCKS version: '' @ show_byte (resp ! 0))
         else if resp ! 1 = 0 then io_return ()
         else if resp ! 1 = 2 then socks5PasswordAuth d
         else if resp ! 1 = 255 then io_fail ''proxy rejected all authentication methods''
         else io_fail (''unsupported authentication method: '' @ show_byte (resp ! 1))) c0"
    by (simp add: socks5Handshake_def c0_def io_write_run [OF assms])
  show "socks5Handshake d c = (Inr (), c')"
  proof (cases "answer = [5, 0]")
    case True
    then have "io_readFull 2 c0 = (Inr [5, 0], c')"
      using ans a assms by (auto simp: io_ok c0_def same_peer_def auth_messages_def)
    then show ?thesis
      unfolding h by (simp add: io_bind_run io_return_def)
  next
    case False
    then obtain v where v: "answer = [5, 2, v, 0]" "sd_username d \<noteq> []"
      using ans(1) by (auto simp: auth_answer_def eval_nat_numeral length_Suc_conv)
    define c1 where "c1 = c0\<lparr>cn_in := drop 2 (cn_in c0)\<rparr>"
    have "io_readFull 2 c0 = (Inr [5, 2], c1)"
      using ans v by (simp add: io_readFull_def c0_def c1_def)
    moreover have "socks5PasswordAuth d c1 = (Inr (), c')"
      using ans v a assms by (subst password_auth_iff) (auto simp: c0_def c1_def auth_messages_def)
    ultimately show ?thesis
      unfolding h by (simp add: io_bind_run)
  qed
qed

text \<open>RFC 1928: what a proxy reads out of a CONNECT request.\<close>

datatype target = TargetIP ip | TargetDomain string

definition server_request :: "byte list \<Rightarrow> (target \<times> u16) option" where
  "server_request bs =
     (if length bs < 5 \<or> take 3 bs \<noteq> [5, 1, 0] then None
      else if bs ! 3 = 1 then
        (if length bs = 10 then Some (TargetIP (take 4 (drop 4 bs)), get_u16 (drop 8 bs)) else None)
      else if bs ! 3 = 3 then
        (let n = unat (bs ! 4) in
         if length bs = 7 + n
         then Some (TargetDomain (map (\<lambda>b. char_of (unat b)) (take n (drop 5 bs))), get_u16 (drop (5 + n) bs)) else None)
      else if bs ! 3 = 4 then
        (if length bs = 22 then Some (TargetIP (take 16 (drop 4 bs)), get_u16 (drop 20 bs)) else None)
      else None)"

definition target_of :: "string \<Rightarrow> target" where
  "target_of host =
     (case ParseIP host of
        None \<Rightarrow> TargetDomain host
      | Some ip \<Rightarrow> TargetIP (case To4 ip of None \<Rightarrow> ip | Some ip4 \<Rightarrow> ip4))"

lemma str_bytes_inverse: "map (\<lambda>b. char_of (unat b)) (str_bytes s) = s"
proof -
  have "char_of (unat (of_char c :: byte)) = c" for c
  proof -
    have "unat (of_nat (of_char c) :: byte) = (of_char c :: nat)"
      using nat_of_char_less_256 [of c] by (simp add: unat_of_nat take_bit_nat_eq_self)
    then show ?thesis by (simp add: of_nat_of_char)
  qed
  then show ?thesis by (simp add: str_bytes_def o_def)
qed

lemma length_str_bytes [simp]: "length (str_bytes s) = length s"
  by (simp add: str_bytes_def)

lemma unat_len [simp]: "n \<le> 255 \<Longrightarrow> unat (of_nat n :: byte) = n"
  by (simp add: unat_of_nat take_bit_nat_eq_self)

lemma connect_request_parsed:
  assumes "connect_request host p = Inr request"
  shows "server_request request = Some (target_of host, of_nat p)"
proof (cases "ParseIP host")
  case None
  then have r: "request = [5, 1, 0, 3, of_nat (length host)] @ str_bytes host @ put_u16 (of_nat p)" "length host \<le> 255"
    using assms by (auto simp: connect_request_def Let_def split: if_splits)
  have "drop (5 + length host) request = put_u16 (of_nat p)"
    unfolding r(1) by (subst append_assoc [symmetric], subst drop_append) simp
  then show ?thesis
    using r None by (simp add: server_request_def target_of_def Let_def str_bytes_inverse get_put_u16)
next
  case (Some ip)
  show ?thesis
  proof (cases "To4 ip")
    case None
    have "length ip = 16" using ParseIP_length [OF Some] .
    then have "request = [5, 1, 0, 4] @ ip @ put_u16 (of_nat p)"
      using assms Some None by (simp add: connect_request_def To16_def)
    then show ?thesis
      using \<open>length ip = 16\<close> Some None by (simp add: server_request_def target_of_def get_put_u16)
  next
    case four: (Some ip4)
    then have "request = [5, 1, 0, 1] @ ip4 @ put_u16 (of_nat p)" and "length ip4 = 4"
      using assms Some by (simp_all add: connect_request_def To4_length)
    then show ?thesis using Some four by (simp add: server_request_def target_of_def get_put_u16)
  qed
qed


section \<open>Opening a tunnel\<close>

lemma discard_iff:
  "discard_bound_addr t c = (Inr (), c') \<longleftrightarrow> (\<exists>b. bound_addr t b \<and> cn_in c = b @ cn_in c' \<and> same_peer c c')"
proof
  assume "discard_bound_addr t c = (Inr (), c')"
  then consider "t = 1" "\<exists>b. length b = 6 \<and> cn_in c = b @ cn_in c' \<and> same_peer c c'"
    | "t = 4" "\<exists>b. length b = 18 \<and> cn_in c = b @ cn_in c' \<and> same_peer c c'"
    | "t = 3" "\<exists>n b. cn_in c = n # b @ cn_in c' \<and> length b = unat n + 2 \<and> same_peer c c'"
    by (auto simp: discard_bound_addr_def io_ok io_readFull_ok [of 6] io_readFull_ok [of 18]
        io_readFull_ok [where n = "Suc (Suc (unat x))" for x] same_peer_def split: if_splits)
  then show "\<exists>b. bound_addr t b \<and> cn_in c = b @ cn_in c' \<and> same_peer c c'"
  proof cases
    case 3
    then obtain n b where "cn_in c = n # b @ cn_in c'" "length b = unat n + 2" "same_peer c c'" by blast
    then show ?thesis using 3(1) by (intro exI [of _ "n # b"]) (simp add: bound_addr_def)
  qed (auto simp: bound_addr_def)
next
  assume "\<exists>b. bound_addr t b \<and> cn_in c = b @ cn_in c' \<and> same_peer c c'"
  then obtain b where b: "bound_addr t b" "cn_in c = b @ cn_in c'" "same_peer c c'" by blast
  from b(1) consider "t = 1" "length b = 6" | "t = 4" "length b = 18" | n b' where "t = 3" "b = n # b'" "length b' = unat n + 2"
    by (cases b) (auto simp: bound_addr_def)
  then show "discard_bound_addr t c = (Inr (), c')"
  proof cases
    case 1
    then have "io_readFull 6 c = (Inr b, c')" using b by (simp add: io_readFull_ok)
    then show ?thesis using 1 by (simp add: discard_bound_addr_def io_bind_run io_return_def)
  next
    case 2
    then have "io_readFull 18 c = (Inr b, c')" using b by (simp add: io_readFull_ok)
    then show ?thesis using 2 by (simp add: discard_bound_addr_def io_bind_run io_return_def)
  next
    case 3
    let ?c = "c\<lparr>cn_in := b' @ cn_in c'\<rparr>"
    have "io_readFull 1 c = (Inr [n], ?c)" using 3 b by (simp add: io_readFull_def)
    moreover have "io_readFull (unat n + 2) ?c = (Inr b', c')"
      using 3 b by (simp add: io_readFull_ok same_peer_def)
    ultimately show ?thesis using 3 by (simp add: discard_bound_addr_def io_bind_run io_return_def)
  qed
qed

lemma success_reply_iff:
  "success_reply reply \<longleftrightarrow> (\<exists>r t b. reply = [5, 0, r, t] @ b \<and> bound_addr t b)"
  by (auto simp: success_reply_def split: list.splits)

lemma connect_iff:
  assumes "cn_writes c = None" and "LookupPort services port = Inr p" and "connect_request host p = Inr request"
  shows "socks5Connect services host port c = (Inr (), c') \<longleftrightarrow>
    (\<exists>reply. success_reply reply \<and> cn_in c = reply @ cn_in c') \<and> cn_out c' = cn_out c @ [request] \<and>
    cn_err c' = cn_err c \<and> cn_writes c' = None"
proof -
  define c0 where "c0 = c\<lparr>cn_out := cn_out c @ [request]\<rparr>"
  let ?k = "\<lambda>header :: byte list.
       if header ! 0 \<noteq> 5 then io_fail (''invalid SOCKS version in reply: '' @ show_byte (header ! 0))
       else if header ! 1 \<noteq> 0
       then io_fail (''CONNECT failed: '' @ socks5ReplyString (header ! 1) @ '' (reply='' @ show_byte (header ! 1) @ '')'')
       else discard_bound_addr (header ! 3)"
  have s: "socks5Connect services host port c =
      io_bind (io_ctx ''failed to read reply header'' (io_readFull 4)) ?k c0"
    using assms by (simp add: socks5Connect_def io_write_run c0_def)
  have p: "same_peer c0 c' \<longleftrightarrow> cn_out c' = cn_out c @ [request] \<and> cn_err c' = cn_err c \<and> cn_writes c' = None"
    using assms by (auto simp: same_peer_def c0_def)
  have "socks5Connect services host port c = (Inr (), c') \<longleftrightarrow>
      (\<exists>r t c1. cn_in c0 = 5 # 0 # r # t # cn_in c1 \<and> same_peer c0 c1 \<and> discard_bound_addr t c1 = (Inr (), c'))"
    unfolding s by (auto simp: io_ok)
  also have "\<dots> \<longleftrightarrow> (\<exists>r t b. cn_in c0 = [5, 0, r, t] @ b @ cn_in c' \<and> bound_addr t b \<and> same_peer c0 c')"
  proof
    assume "\<exists>r t b. cn_in c0 = [5, 0, r, t] @ b @ cn_in c' \<and> bound_addr t b \<and> same_peer c0 c'"
    then obtain r t b where x: "cn_in c0 = [5, 0, r, t] @ b @ cn_in c'" "bound_addr t b" "same_peer c0 c'" by blast
    have "discard_bound_addr t (c0\<lparr>cn_in := b @ cn_in c'\<rparr>) = (Inr (), c')"
      unfolding discard_iff using x by (auto simp: same_peer_def)
    then show "\<exists>r t c1. cn_in c0 = 5 # 0 # r # t # cn_in c1 \<and> same_peer c0 c1 \<and> discard_bound_addr t c1 = (Inr (), c')"
      using x(1) by (intro exI [of _ r] exI [of _ t] exI [of _ "c0\<lparr>cn_in := b @ cn_in c'\<rparr>"]) (simp add: same_peer_def)
  qed (auto simp: discard_iff same_peer_def)
  also have "\<dots> \<longleftrightarrow> (\<exists>reply. success_reply reply \<and> cn_in c = reply @ cn_in c') \<and> same_peer c0 c'"
    by (auto simp: success_reply_iff c0_def)
  finally show ?thesis by (simp only: p)
qed

definition host_ok :: "string \<Rightarrow> bool" where
  "host_ok host \<longleftrightarrow> CHR ''['' \<notin> set host \<and> CHR '']'' \<notin> set host"

lemma split_target:
  assumes "host_ok host"
  shows "SplitHostPort (JoinHostPort host (show_nat p)) = Inr (host, show_nat p)"
  using assms show_nat_no_sep [of "CHR ''[''" p] show_nat_no_sep [of "CHR '']''" p] show_nat_no_sep [of "CHR '':''" p]
  by (intro Split_Join_HostPort) (auto simp: host_ok_def is_digit_def)

text \<open>
  Property C33. A tunnel is opened exactly when the proxy selects a method the
  dialer can serve (with the password accepted) and then reports success with a
  complete bound address of any type. The proxy has then been sent the
  greeting, the credentials if it asked for them, and one CONNECT request, out
  of which it reads the host and port that were asked for; and the connection
  that is returned starts with the very first byte after the reply, so that no
  byte of the tunnelled stream is lost or added.
\<close>

theorem socks5_tunnel_exact:
  assumes "host_ok host" and "p < 65536" and "connect_request host p = Inr request"
    and "ne_lookupHost env (sd_proxyHost d) = Inr ips" and "ips \<noteq> []"
    and "fst (dialTCPFirstReachable (ne_dial env) ips (sd_proxyPort d) (sd_timeout d)) = Inr conn"
    and "cn_writes conn = None"
  shows "server_request request = Some (target_of host, of_nat p) \<and>
    (DialContext env (JoinHostPort host (show_nat p)) d = Inr c \<longleftrightarrow>
      (\<exists>answer reply. auth_answer (sd_username d \<noteq> []) answer \<and> success_reply reply \<and>
         cn_in conn = answer @ reply @ cn_in c \<and>
         cn_out c = cn_out conn @ auth_messages (sd_username d) (sd_password d) answer @ [request]) \<and>
      cn_err c = cn_err conn \<and> cn_writes c = None)"
proof
  show "server_request request = Some (target_of host, of_nat p)"
    by (rule connect_request_parsed [OF assms(3)])
  let ?con = "socks5Connect (ne_services env) host (show_nat p)"
  have "DialContext env (JoinHostPort host (show_nat p)) d = Inr c \<longleftrightarrow>
      (\<exists>c1. socks5Handshake d conn = (Inr (), c1) \<and> ?con c1 = (Inr (), c))"
    using assms split_target [OF assms(1), of p]
    by (auto simp: DialContext_def split: prod.splits sum.splits)
  also have "\<dots> \<longleftrightarrow> (\<exists>(c1 :: conn) answer reply. auth_answer (sd_username d \<noteq> []) answer \<and> cn_in conn = answer @ cn_in c1 \<and>
        cn_out c1 = cn_out conn @ auth_messages (sd_username d) (sd_password d) answer \<and>
        cn_err c1 = cn_err conn \<and> cn_writes c1 = None \<and>
        success_reply reply \<and> cn_in c1 = reply @ cn_in c \<and> cn_out c = cn_out c1 @ [request] \<and>
        cn_err c = cn_err c1 \<and> cn_writes c = None)"
  proof (rule iff_exI)
    fix c1
    show "socks5Handshake d conn = (Inr (), c1) \<and> ?con c1 = (Inr (), c) \<longleftrightarrow>
        (\<exists>answer reply. auth_answer (sd_username d \<noteq> []) answer \<and> cn_in conn = answer @ cn_in c1 \<and>
        cn_out c1 = cn_out conn @ auth_messages (sd_username d) (sd_password d) answer \<and>
        cn_err c1 = cn_err conn \<and> cn_writes c1 = None \<and>
        success_reply reply \<and> cn_in c1 = reply @ cn_in c \<and> cn_out c = cn_out c1 @ [request] \<and>
        cn_err c = cn_err c1 \<and> cn_writes c = None)"
      unfolding handshake_iff [OF assms(7)]
      using connect_iff [OF _ LookupPort_show [OF assms(2)] assms(3), of c1 "ne_services env" c] by blast
  qed
  also have "\<dots> \<longleftrightarrow> (\<exists>answer reply. auth_answer (sd_username d \<noteq> []) answer \<and> success_reply reply \<and>
         cn_in conn = answer @ reply @ cn_in c \<and>
         cn_out c = cn_out conn @ auth_messages (sd_username d) (sd_password d) answer @ [request]) \<and>
      cn_err c = cn_err conn \<and> cn_writes c = None" (is "_ \<longleftrightarrow> ?r")
  proof
    assume ?r
    then obtain answer reply where "auth_answer (sd_username d \<noteq> []) answer" "success_reply reply"
        "cn_in conn = answer @ reply @ cn_in c"
        "cn_out c = cn_out conn @ auth_messages (sd_username d) (sd_password d) answer @ [request]"
        "cn_err c = cn_err conn" "cn_writes c = None" by blast
    then show "\<exists>(c1 :: conn) answer reply. auth_answer (sd_username d \<noteq> []) answer \<and> cn_in conn = answer @ cn_in c1 \<and>
        cn_out c1 = cn_out conn @ auth_messages (sd_username d) (sd_password d) answer \<and>
        cn_err c1 = cn_err conn \<and> cn_writes c1 = None \<and>
        success_reply reply \<and> cn_in c1 = reply @ cn_in c \<and> cn_out c = cn_out c1 @ [request] \<and>
        cn_err c = cn_err c1 \<and> cn_writes c = None"
      by (intro exI [of _ "\<lparr>cn_in = reply @ cn_in c, cn_err = cn_err c,
           cn_out = cn_out conn @ auth_messages (sd_username d) (sd_password d) answer, cn_writes = None\<rparr>"]
           exI [of _ answer] exI [of _ reply]) simp
  qed auto
  finally show "DialContext env (JoinHostPort host (show_nat p)) d = Inr c \<longleftrightarrow> ?r" .
qed

text \<open>Witness: a proxy without authentication that has already sent two bytes of the tunnel.\<close>

theorem socks5_tunnel_exact_witness:
  "DialContext
     \<lparr>ne_lookupHost = (\<lambda>_. Inr [''10.0.0.1'']), ne_lookupIP = (\<lambda>_. Inr []),
      ne_dial = (\<lambda>_ _ _. Inr \<lparr>cn_in = [5, 0, 5, 0, 0, 1, 10, 0, 0, 1, 4, 56, 72, 73], cn_err = ''EOF'', cn_out = [], cn_writes = None\<rparr>),
      ne_listenUDP = None, ne_services = (\<lambda>_. Inl [])\<rparr>
     (JoinHostPort ''a.b'' (show_nat 443))
     \<lparr>sd_proxyHost = ''p'', sd_proxyPort = ''1080'', sd_username = [], sd_password = [], sd_timeout = 30 * second, sd_localAddr = []\<rparr> =
   Inr \<lparr>cn_in = [72, 73], cn_err = ''EOF'',
        cn_out = [[5, 1, 0], [5, 1, 0, 3, 3, 97, 46, 98] @ put_u16 443], cn_writes = None\<rparr>"
proof -
  let ?c = "\<lparr>cn_in = [5, 0, 5, 0, 0, 1, 10, 0, 0, 1, 4, 56, 72, 73], cn_err = ''EOF'', cn_out = [], cn_writes = None\<rparr>"
  let ?env = "\<lparr>ne_lookupHost = (\<lambda>_. Inr [''10.0.0.1'']), ne_lookupIP = (\<lambda>_. Inr []),
      ne_dial = (\<lambda>_ _ _. Inr ?c), ne_listenUDP = None, ne_services = (\<lambda>_. Inl [])\<rparr>"
  have r: "connect_request ''a.b'' 443 = Inr ([5, 1, 0, 3, 3, 97, 46, 98] @ put_u16 443)"
    by (simp add: connect_request_def ParseIP_def parse_v4_def is_digit_def str_bytes_def of_char_def)
  have o: "orderIPv4First [''10.0.0.1''] = [''10.0.0.1'']"
    using ParseIP_show_v4 [of 10 0 0 1] by (simp add: orderIPv4First_def show_v4_def show_nat_eval To4_v4_mapped)
  have d: "fst (dialTCPFirstReachable (ne_dial ?env) [''10.0.0.1''] ''1080'' (30 * second)) = Inr ?c"
    by (simp add: dialTCPFirstReachable_def o)
  show ?thesis
    using socks5_tunnel_exact [OF _ _ r, of ?env
      "\<lparr>sd_proxyHost = ''p'', sd_proxyPort = ''1080'', sd_username = [], sd_password = [], sd_timeout = 30 * second, sd_localAddr = []\<rparr>"
      "[''10.0.0.1'']" ?c "\<lparr>cn_in = [72, 73], cn_err = ''EOF'',
        cn_out = [[5, 1, 0], [5, 1, 0, 3, 3, 97, 46, 98] @ put_u16 443], cn_writes = None\<rparr>"] d
    by (simp add: host_ok_def auth_answer_def auth_messages_def success_reply_iff bound_addr_def)
qed


text \<open>RFC 1929: what a proxy reads out of the password message.\<close>

definition server_auth :: "byte list \<Rightarrow> (string \<times> string) option" where
  "server_auth bs =
     (if length bs < 2 \<or> bs ! 0 \<noteq> 1 then None
      else
        (let n = unat (bs ! 1); rest = drop (2 + n) bs in
         if rest = [] then None
         else
           (let k = unat (hd rest) in
            if length rest < 1 + k then None
            else Some (map (\<lambda>b. char_of (unat b)) (take n (drop 2 bs)),
                       map (\<lambda>b. char_of (unat b)) (take k (drop 1 rest))))))"

lemma drop_two: "drop (2 + n) (x # y # xs) = drop n xs"
  by simp

text \<open>
  Lemma. The password message carries the credentials: the proxy reads
  exactly the user name and the password, for names and passwords of up to 255
  bytes. The length bytes are cut to 8 bits, so longer ones arrive garbled.
\<close>

theorem socks5_credentials:
  assumes "length user \<le> 255" and "length pass \<le> 255" and "answer \<noteq> [5, 0]"
  shows "map server_auth (tl (auth_messages user pass answer)) = [Some (user, pass)]"
  using assms by (simp add: auth_messages_def server_auth_def Let_def drop_two str_bytes_inverse)

text \<open>Witness: a short name.\<close>

theorem socks5_credentials_witness:
  "map server_auth (tl (auth_messages ''u'' ''pw'' [5, 2, 1, 0])) = [Some (''u'', ''pw'')]"
  by (rule socks5_credentials) simp_all

text \<open>
  A user name of 256 bytes reaches the proxy as the empty name, and its first
  byte is taken for the length of the password.
\<close>

lemma socks5_long_username:
  "map server_auth (tl (auth_messages (replicate 256 (CHR 0x03)) pass [5, 2, 1, 0])) =
     [Some ([], [CHR 0x03, CHR 0x03, CHR 0x03])]"
proof -
  have four: "replicate 256 x = [x, x, x, x] @ replicate 252 x" for x :: byte
    using replicate_add [of 4 252 x] by (simp add: numeral_eq_Suc)
  have three: "char_of (3 :: nat) = CHR 0x03"
    using char_of_char [of "CHR 0x03", where 'a = nat] by (simp add: of_char_def numeral_3_eq_3)
  then have c: "char_of (unat (3 :: byte)) = CHR 0x03" by simp
  have "str_bytes (replicate 256 (CHR 0x03)) = replicate 256 3" by (simp add: str_bytes_def of_char_def)
  then show ?thesis by (simp add: auth_messages_def server_auth_def Let_def four c three)
qed

section \<open>Choosing an address of the proxy\<close>

definition family_rank :: "string \<Rightarrow> nat" where
  "family_rank s = (case ParseIP s of None \<Rightarrow> 2 | Some ip \<Rightarrow> if To4 ip \<noteq> None then 0 else 1)"

lemma order_by_rank:
  "orderIPv4First ips = filter (\<lambda>s. family_rank s = 0) ips @ filter (\<lambda>s. family_rank s = 1) ips @
     filter (\<lambda>s. family_rank s = 2) ips"
proof -
  have "(case ParseIP s of None \<Rightarrow> False | Some ip \<Rightarrow> To4 ip \<noteq> None) \<longleftrightarrow> family_rank s = 0"
    "(case ParseIP s of None \<Rightarrow> False | Some ip \<Rightarrow> To4 ip = None) \<longleftrightarrow> family_rank s = 1"
    "ParseIP s = None \<longleftrightarrow> family_rank s = 2" for s
    by (auto simp: family_rank_def split: option.splits)
  then show ?thesis by (simp add: orderIPv4First_def)
qed

lemma family_rank_cases: "family_rank s = 0 \<or> family_rank s = 1 \<or> family_rank s = 2"
  by (simp add: family_rank_def split: option.splits)

lemma filter_rank:
  "filter (\<lambda>s. family_rank s = r) (filter (\<lambda>s. family_rank s = i) ips) =
     (if r = i then filter (\<lambda>s. family_rank s = r) ips else [])"
  by (induction ips) auto

lemma sorted_rank: "sorted (map family_rank (filter (\<lambda>s. family_rank s = i) ips))"
  by (induction ips) auto

lemma mset_order: "mset (orderIPv4First ips) = mset ips"
proof (induction ips)
  case (Cons s ips)
  then show ?case using family_rank_cases [of s] by (auto simp: order_by_rank)
qed (simp add: order_by_rank)

text \<open>
  Lemma. The addresses of the proxy are tried with IPv4 first, then IPv6,
  then what is no address: every address once per occurrence, and in the
  resolver's order within each group.
\<close>

theorem order_ipv4_first:
  "mset (orderIPv4First ips) = mset ips \<and>
   sorted (map family_rank (orderIPv4First ips)) \<and>
   filter (\<lambda>s. family_rank s = r) (orderIPv4First ips) = filter (\<lambda>s. family_rank s = r) ips"
proof (intro conjI)
  show "mset (orderIPv4First ips) = mset ips" by (rule mset_order)
  show "sorted (map family_rank (orderIPv4First ips))"
    by (simp add: order_by_rank sorted_append sorted_rank)
  show "filter (\<lambda>s. family_rank s = r) (orderIPv4First ips) = filter (\<lambda>s. family_rank s = r) ips"
  proof (cases "r = 0 \<or> r = 1 \<or> r = 2")
    case True
    then show ?thesis by (auto simp: order_by_rank filter_rank simp del: filter_filter)
  next
    case False
    then have "family_rank s \<noteq> r" for s using family_rank_cases [of s] by metis
    then show ?thesis by simp
  qed
qed

lemma budget_bounds: "0 < dial_budget t n \<and> dial_budget t n \<le> 10 * second"
  by (auto simp: dial_budget_def Let_def)

definition reach :: "dial \<Rightarrow> string \<Rightarrow> string \<times> duration \<Rightarrow> string + conn" where
  "reach dial port = (\<lambda>(ipStr, t). dial (dial_network ipStr) (JoinHostPort ipStr port) t)"

lemma dial_loop_spec:
  "dial_loop dial port t lastErr ips = (r, tried) \<Longrightarrow>
   (\<forall>a \<in> set tried. 0 < snd a \<and> snd a \<le> 10 * second) \<and>
   map fst tried = take (length tried) ips \<and>
   (case r of
      Inr c \<Rightarrow> tried \<noteq> [] \<and> reach dial port (last tried) = Inr c \<and> (\<forall>a \<in> set (butlast tried). isl (reach dial port a))
    | Inl e \<Rightarrow> map fst tried = ips \<and> (\<forall>a \<in> set tried. isl (reach dial port a)))"
proof (induction dial port t lastErr ips arbitrary: r tried rule: dial_loop.induct)
  case (2 dial port t lastErr ip rest)
  let ?b = "dial_budget t (Suc (length rest))"
  show ?case
  proof (cases "dial (dial_network ip) (JoinHostPort ip port) ?b")
    case (Inl err)
    obtain r' tried' where l: "dial_loop dial port t err rest = (r', tried')" by fastforce
    then have "r = r'" "tried = (ip, ?b) # tried'" using "2.prems" Inl by auto
    then show ?thesis
      using "2.IH" [OF refl _ l] Inl budget_bounds [of t "Suc (length rest)"]
      by (auto simp: reach_def split: sum.splits)
  next
    case (Inr c)
    then have "r = Inr c" "tried = [(ip, ?b)]" using "2.prems" by simp_all
    then show ?thesis using Inr budget_bounds [of t "Suc (length rest)"] by (simp add: reach_def)
  qed
qed simp

text \<open>
  Lemma. Dialling tries the addresses in that order and stops at the first
  that connects: the connection comes from the last address tried and all
  before it failed. It only fails when every address was tried and failed (or
  there is none). Every attempt has a positive budget of at most ten seconds.
\<close>

theorem dial_first_reachable:
  assumes "dialTCPFirstReachable dial ips port t = (r, tried)"
  shows "list_all (\<lambda>a. 0 < snd a \<and> snd a \<le> 10 * second) tried \<and>
    map fst tried = take (length tried) (orderIPv4First ips) \<and>
    (case r of
       Inr c \<Rightarrow> tried \<noteq> [] \<and> reach dial port (last tried) = Inr c \<and> list_all (\<lambda>a. isl (reach dial port a)) (butlast tried)
     | Inl e \<Rightarrow> map fst tried = orderIPv4First ips \<and> list_all (\<lambda>a. isl (reach dial port a)) tried)"
proof (cases "orderIPv4First ips = []")
  case True
  then show ?thesis using assms by (auto simp: dialTCPFirstReachable_def)
next
  case False
  obtain r' where l: "dial_loop dial port t [] (orderIPv4First ips) = (r', tried)"
    and r: "case r' of Inr c \<Rightarrow> r = Inr c | Inl e \<Rightarrow> isl r"
    using assms False by (auto simp: dialTCPFirstReachable_def Let_def split: prod.splits sum.splits)
  show ?thesis
    using dial_loop_spec [OF l] r by (cases r'; cases r) (auto simp: list_all_iff)
qed

text \<open>Witness: the first of two addresses does not answer.\<close>

theorem dial_first_reachable_witness:
  "fst (dialTCPFirstReachable (\<lambda>n a t. Inl ''refused'') [''10.0.0.1''] ''1080'' (30 * second)) =
     Inl ''failed to connect to proxy (tried 1 address(es)): refused'' \<and>
   map fst (snd (dialTCPFirstReachable (\<lambda>n a t. Inl ''refused'') [''10.0.0.1''] ''1080'' (30 * second))) =
     orderIPv4First [''10.0.0.1'']"
proof -
  let ?d = "dialTCPFirstReachable (\<lambda>n a t. Inl ''refused'') [''10.0.0.1''] ''1080'' (30 * second)"
  have o: "orderIPv4First [''10.0.0.1''] = [''10.0.0.1'']"
    using ParseIP_show_v4 [of 10 0 0 1] by (simp add: orderIPv4First_def show_v4_def show_nat_eval To4_v4_mapped)
  have f: "fst ?d = Inl ''failed to connect to proxy (tried 1 address(es)): refused''"
    by (simp add: dialTCPFirstReachable_def o show_nat_eval)
  obtain r tried where d: "?d = (r, tried)" by fastforce
  have r: "r = Inl ''failed to connect to proxy (tried 1 address(es)): refused''" using f d by simp
  have "map fst tried = orderIPv4First [''10.0.0.1'']"
    using dial_first_reachable [OF d] unfolding r sum.case by (elim conjE)
  then show ?thesis using r d by simp
qed

text \<open>
  The slices are not even: the divisor is the number of addresses that are
  left, so with ten seconds for two addresses the attempts may take fifteen.
\<close>

lemma dial_budget_uneven:
  "map snd (snd (dial_loop (\<lambda>n a t. Inl ''timeout'') ''1080'' (10 * second) [] [x, y])) = [5 * second, 10 * second]"
  by (simp add: dial_budget_def)

section \<open>The relay\<close>

definition udp_canonical :: "udp_addr \<Rightarrow> udp_addr" where
  "udp_canonical a = \<lparr>ua_IP = (case To4 (ua_IP a) of Some ip4 \<Rightarrow> ip4 | None \<Rightarrow> ua_IP a), ua_Port = ua_Port a\<rparr>"

definition addr_ok :: "udp_addr \<Rightarrow> bool" where
  "addr_ok a \<longleftrightarrow> length (ua_IP a) \<in> {4, 16} \<and> 0 \<le> ua_Port a \<and> ua_Port a < 65536"

definition src_value :: "byte list \<Rightarrow> src_addr \<Rightarrow> udp_addr" where
  "src_value buf s = \<lparr>ua_IP = ip_bytes buf (sa_IP s), ua_Port = sa_Port s\<rparr>"

lemma port_back: "0 \<le> p \<Longrightarrow> p < 65536 \<Longrightarrow> uint (get_u16 (put_u16 (word_of_int p))) = p"
  by (simp add: get_put_u16 uint_word_of_int_eq take_bit_int_eq_self)

lemma take_put_u16: "take 2 (put_u16 v @ xs) = put_u16 v"
  by (simp add: put_u16_def)

definition src_of :: "udp_addr \<Rightarrow> src_addr" where
  "src_of a = \<lparr>sa_IP = (if To4 (ua_IP a) = None then IPSlice 4 16 else IPSlice 4 4), sa_Port = ua_Port a\<rparr>"

lemma header_parsed:
  assumes "addr_ok a"
  shows "parseSOCKS5UDPHeader lookupIP (buildSOCKS5UDPHeader a @ b) = Inr (length (buildSOCKS5UDPHeader a), src_of a)"
    and "ip_bytes (buildSOCKS5UDPHeader a @ rest) (sa_IP (src_of a)) = ua_IP (udp_canonical a)"
proof -
  have "parseSOCKS5UDPHeader lookupIP (buildSOCKS5UDPHeader a @ b) = Inr (length (buildSOCKS5UDPHeader a), src_of a) \<and>
    ip_bytes (buildSOCKS5UDPHeader a @ rest) (sa_IP (src_of a)) = ua_IP (udp_canonical a)"
  proof (cases "To4 (ua_IP a)")
    case (Some ip4)
    then have l: "length ip4 = 4" by (rule To4_length)
    have h: "buildSOCKS5UDPHeader a = [0, 0, 0, 1] @ ip4 @ put_u16 (word_of_int (ua_Port a))"
      using Some by (simp add: buildSOCKS5UDPHeader_def)
    show ?thesis
      using assms l Some
      by (simp add: h parseSOCKS5UDPHeader_def take_put_u16 port_back addr_ok_def src_of_def ip_bytes_def udp_canonical_def)
  next
    case None
    then have l: "length (ua_IP a) = 16" using assms by (auto simp: To4_def addr_ok_def)
    have h: "buildSOCKS5UDPHeader a = [0, 0, 0, 4] @ ua_IP a @ put_u16 (word_of_int (ua_Port a))"
      using None l by (simp add: buildSOCKS5UDPHeader_def To16_def)
    show ?thesis
      using assms l None
      by (simp add: h parseSOCKS5UDPHeader_def take_put_u16 port_back addr_ok_def src_of_def ip_bytes_def udp_canonical_def)
  qed
  then show "parseSOCKS5UDPHeader lookupIP (buildSOCKS5UDPHeader a @ b) = Inr (length (buildSOCKS5UDPHeader a), src_of a)"
    "ip_bytes (buildSOCKS5UDPHeader a @ rest) (sa_IP (src_of a)) = ua_IP (udp_canonical a)" by blast+
qed

lemma header_length: "length (buildSOCKS5UDPHeader a) \<le> 22"
  by (auto simp: buildSOCKS5UDPHeader_def To16_def dest: To4_length split: option.split)

lemma parse_offset_le:
  "parseSOCKS5UDPHeader lookupIP packet = Inr (off, s) \<Longrightarrow> off \<le> length packet"
  by (auto simp: parseSOCKS5UDPHeader_def Let_def split: if_splits)

definition udp_open :: "udp_conn \<Rightarrow> bool" where
  "udp_open u \<longleftrightarrow> uc_established u \<and> \<not> uc_closed u \<and> uc_udpConn u \<noteq> None \<and> uc_relayAddr u \<noteq> None \<and>
     length (uc_readBuf u) = 65535"

lemma read_relayed:
  assumes "udp_open u" and "addr_ok a" and "length d \<le> 65000"
  obtains u' where "ReadFrom lookupIP (Inr (buildSOCKS5UDPHeader a @ d)) now buf u =
      (Inr (min (length d) (length buf), src_of a, take (length buf) d @ drop (length d) buf), u')"
    and "uc_readBuf u' = (buildSOCKS5UDPHeader a @ d) @ drop (length (buildSOCKS5UDPHeader a @ d)) (uc_readBuf u)"
    and "udp_open u'"
proof -
  let ?p = "buildSOCKS5UDPHeader a @ d"
  have n: "min (length ?p) (length (uc_readBuf u)) = length ?p"
    using assms(1,3) header_length [of a] by (simp add: udp_open_def)
  define u' where "u' = u\<lparr>uc_readBuf := ?p @ drop (length ?p) (uc_readBuf u), uc_lastActivity := now\<rparr>"
  have "ReadFrom lookupIP (Inr ?p) now buf u =
      (Inr (min (length d) (length buf), src_of a, take (length buf) d @ drop (length d) buf), u')"
    using assms(1) n header_parsed(1) [OF assms(2)]
    by (cases "length d \<le> length buf") (simp_all add: ReadFrom_def udp_open_def Let_def u'_def min_def)
  moreover have "udp_open u'" using assms(1) n by (simp add: udp_open_def u'_def)
  ultimately show ?thesis using that by (simp add: u'_def)
qed

text \<open>
  Property C0. What \<^verbatim>\<open>WriteTo\<close> sends to the relay for an address is what \<^verbatim>\<open>ReadFrom\<close>
  returns when a peer at that address sends the same data back through the
  relay: the datagram goes to the relay address, its data comes back whole
  (the caller's buffer permitting), with the address it was sent to.
\<close>

theorem socks5_udp_roundtrip:
  assumes "udp_open u" and "addr_ok a" and "length b \<le> 65000" and "length b \<le> length buf"
    and "\<And>packet. send packet = Inr (length packet)"
  shows "\<exists>packet s u' u''.
    WriteTo send now b (UDPAddr a) u = (Inr (int (length b)), u') \<and>
    the (uc_udpConn u') = the (uc_udpConn u) @ [(packet, the (uc_relayAddr u))] \<and>
    ReadFrom lookupIP (Inr packet) now buf u' = (Inr (length b, s, b @ drop (length b) buf), u'') \<and>
    src_value (uc_readBuf u'') s = udp_canonical a"
proof -
  let ?h = "buildSOCKS5UDPHeader a" let ?p = "?h @ b"
  obtain sent relay where so: "uc_udpConn u = Some sent" "uc_relayAddr u = Some relay"
    using assms(1) by (auto simp: udp_open_def)
  define u' where "u' = u\<lparr>uc_udpConn := Some (sent @ [(?p, relay)]), uc_lastActivity := now,
      uc_writeCount := int64 (uc_writeCount u + 1)\<rparr>"
  have w: "WriteTo send now b (UDPAddr a) u = (Inr (int (length b)), u')"
    using assms(1,5) so by (simp add: WriteTo_def udp_open_def u'_def)
  have "udp_open u'" using assms(1) by (simp add: u'_def udp_open_def)
  then obtain u'' where r: "ReadFrom lookupIP (Inr ?p) now buf u' =
      (Inr (min (length b) (length buf), src_of a, take (length buf) b @ drop (length b) buf), u'')"
    "uc_readBuf u'' = ?p @ drop (length ?p) (uc_readBuf u')"
    using read_relayed [OF _ assms(2,3)] by blast
  have "src_value (uc_readBuf u'') (src_of a) = udp_canonical a"
    using header_parsed(2) [OF assms(2), of "b @ drop (length ?p) (uc_readBuf u')"]
    by (simp add: r(2) src_value_def src_of_def udp_canonical_def)
  moreover have "the (uc_udpConn u') = the (uc_udpConn u) @ [(?p, the (uc_relayAddr u))]" using so by (simp add: u'_def)
  ultimately show ?thesis using w r(1) assms(4) by (auto simp: min_def)
qed

text \<open>Witness: a relay that takes every datagram.\<close>

definition demo_conn :: udp_conn where
  "demo_conn = \<lparr>uc_tcpConn = None, uc_udpConn = Some [], uc_relayAddr = Some \<lparr>ua_IP = [10, 0, 0, 1], ua_Port = 4000\<rparr>,
     uc_proxyHost = [], uc_proxyPort = [], uc_username = [], uc_password = [], uc_established = True, uc_closed = False,
     uc_lastActivity = 0, uc_writeCount = 0, uc_readCount = 0, uc_readBuf = replicate 65535 0,
     uc_readDeadline = 0, uc_writeDeadline = 0\<rparr>"

lemma demo_open: "udp_open demo_conn"
  by (simp add: udp_open_def demo_conn_def)

lemma demo_fields: "uc_udpConn demo_conn = Some []" "uc_relayAddr demo_conn = Some \<lparr>ua_IP = [10, 0, 0, 1], ua_Port = 4000\<rparr>"
  by (simp_all add: demo_conn_def)

theorem socks5_udp_roundtrip_witness:
  "\<exists>packet s u' u''.
    WriteTo (\<lambda>p. Inr (length p)) 0 [1, 2] (UDPAddr \<lparr>ua_IP = [8, 8, 8, 8], ua_Port = 443\<rparr>) demo_conn = (Inr 2, u') \<and>
    the (uc_udpConn u') = [(packet, \<lparr>ua_IP = [10, 0, 0, 1], ua_Port = 4000\<rparr>)] \<and>
    ReadFrom (\<lambda>_. Inr []) (Inr packet) 0 [0, 0, 0] u' = (Inr (2, s, [1, 2, 0]), u'') \<and>
    src_value (uc_readBuf u'') s = \<lparr>ua_IP = [8, 8, 8, 8], ua_Port = 443\<rparr>"
proof -
  have t: "To4 [8, 8, 8, 8 :: byte] = Some [8, 8, 8, 8]" by (simp add: To4_def)
  have "addr_ok \<lparr>ua_IP = [8, 8, 8, 8], ua_Port = 443\<rparr>" by (simp add: addr_ok_def)
  from socks5_udp_roundtrip [OF demo_open this, where b = "[1, 2]" and buf = "[0, 0, 0]" and send = "\<lambda>p. Inr (length p)"
      and now = 0 and lookupIP = "\<lambda>_. Inr []"]
  show ?thesis by (simp add: demo_fields udp_canonical_def t numeral_2_eq_2)
qed

text \<open>
  Lemma. The address that \<^verbatim>\<open>ReadFrom\<close> returns for an IPv4 or IPv6 sender is a
  view of the connection's read buffer: after the next datagram it reads as
  the address of that datagram's sender. Two datagrams from \<open>a1\<close> and \<open>a2\<close> of
  the same family leave the caller with the IP of \<open>a2\<close> twice.
\<close>

theorem socks5_source_overwritten:
  assumes "udp_open u" and "addr_ok a1" and "addr_ok a2"
    and "To4 (ua_IP a1) = None \<longleftrightarrow> To4 (ua_IP a2) = None" and "length da \<le> 65000" and "length db \<le> 65000"
  shows "\<exists>n1 n2 s1 s2 b1 b2 u1 u2.
    ReadFrom lookupIP (Inr (buildSOCKS5UDPHeader a1 @ da)) ta buf u = (Inr (n1, s1, b1), u1) \<and>
    ip_bytes (uc_readBuf u1) (sa_IP s1) = ua_IP (udp_canonical a1) \<and>
    ReadFrom lookupIP (Inr (buildSOCKS5UDPHeader a2 @ db)) tb buf u1 = (Inr (n2, s2, b2), u2) \<and>
    ip_bytes (uc_readBuf u2) (sa_IP s1) = ua_IP (udp_canonical a2)"
proof -
  obtain u1 where r1: "ReadFrom lookupIP (Inr (buildSOCKS5UDPHeader a1 @ da)) ta buf u =
      (Inr (min (length da) (length buf), src_of a1, take (length buf) da @ drop (length da) buf), u1)"
    "uc_readBuf u1 = (buildSOCKS5UDPHeader a1 @ da) @ drop (length (buildSOCKS5UDPHeader a1 @ da)) (uc_readBuf u)"
    "udp_open u1" using read_relayed [OF assms(1,2,5)] by blast
  obtain u2 where r2: "ReadFrom lookupIP (Inr (buildSOCKS5UDPHeader a2 @ db)) tb buf u1 =
      (Inr (min (length db) (length buf), src_of a2, take (length buf) db @ drop (length db) buf), u2)"
    "uc_readBuf u2 = (buildSOCKS5UDPHeader a2 @ db) @ drop (length (buildSOCKS5UDPHeader a2 @ db)) (uc_readBuf u1)"
    using read_relayed [OF r1(3) assms(3,6)] by blast
  have same: "sa_IP (src_of a1) = sa_IP (src_of a2)" using assms(4) by (simp add: src_of_def)
  have "ip_bytes (uc_readBuf u1) (sa_IP (src_of a1)) = ua_IP (udp_canonical a1)"
    unfolding r1(2) append_assoc by (rule header_parsed(2) [OF assms(2)])
  moreover have "ip_bytes (uc_readBuf u2) (sa_IP (src_of a1)) = ua_IP (udp_canonical a2)"
    unfolding r2(2) append_assoc same by (rule header_parsed(2) [OF assms(3)])
  ultimately show ?thesis using r1(1) r2(1) by blast
qed

text \<open>Witness: datagrams from 8.8.8.8 and 1.1.1.1.\<close>

theorem socks5_source_overwritten_witness:
  "\<exists>n1 n2 s1 s2 b1 b2 u1 u2.
    ReadFrom (\<lambda>_. Inr []) (Inr (buildSOCKS5UDPHeader \<lparr>ua_IP = [8, 8, 8, 8], ua_Port = 443\<rparr> @ [1])) 0 [] demo_conn =
      (Inr (n1, s1, b1), u1) \<and>
    ip_bytes (uc_readBuf u1) (sa_IP s1) = [8, 8, 8, 8] \<and>
    ReadFrom (\<lambda>_. Inr []) (Inr (buildSOCKS5UDPHeader \<lparr>ua_IP = [1, 1, 1, 1], ua_Port = 443\<rparr> @ [2])) 0 [] u1 =
      (Inr (n2, s2, b2), u2) \<and>
    ip_bytes (uc_readBuf u2) (sa_IP s1) = [1, 1, 1, 1]"
proof -
  have t: "To4 [8, 8, 8, 8 :: byte] = Some [8, 8, 8, 8]" "To4 [1, 1, 1, 1 :: byte] = Some [1, 1, 1, 1]"
    by (simp_all add: To4_def)
  have a: "addr_ok \<lparr>ua_IP = [8, 8, 8, 8], ua_Port = 443\<rparr>" "addr_ok \<lparr>ua_IP = [1, 1, 1, 1], ua_Port = 443\<rparr>"
    by (simp_all add: addr_ok_def)
  show ?thesis
    using socks5_source_overwritten [OF demo_open a, where da = "[1]" and db = "[2]" and lookupIP = "\<lambda>_. Inr []"
        and ta = 0 and tb = 0 and buf = "[]"]
    by (simp add: t udp_canonical_def)
qed


section \<open>Establishing the relay\<close>

lemma retry_general: "isRetryableError (''UDP ASSOCIATE failed: '' @ socks5ReplyString 1)"
  by (simp add: isRetryableError_def socks5ReplyString_def has_prefix_def)

lemma tryEstablish_frame:
  "tryEstablish env u = (e, u') \<Longrightarrow>
   uc_established u' = uc_established u \<and> uc_closed u' = uc_closed u \<and> uc_readBuf u' = uc_readBuf u \<and>
   (e = None \<longrightarrow> uc_tcpConn u' \<noteq> None \<and> uc_udpConn u' \<noteq> None \<and> uc_relayAddr u' \<noteq> None)"
  by (auto simp: tryEstablish_def split: sum.splits prod.splits option.splits if_splits)

definition net_closed :: "udp_conn \<Rightarrow> bool" where
  "net_closed u \<longleftrightarrow> uc_tcpConn u = None \<and> uc_udpConn u = None"

definition net_open :: "udp_conn \<Rightarrow> bool" where
  "net_open u \<longleftrightarrow> uc_tcpConn u \<noteq> None \<and> uc_udpConn u \<noteq> None \<and> uc_relayAddr u \<noteq> None"

lemma establish_loop_spec:
  "establish_loop env cancelled now n attempt lastErr u = ((e, k), u') \<Longrightarrow> attempt \<ge> 1 \<Longrightarrow> net_closed u \<Longrightarrow>
   k < attempt + n \<and> attempt \<le> Suc k \<and> (n > 0 \<longrightarrow> attempt \<le> k) \<and> uc_closed u' = uc_closed u \<and> uc_readBuf u' = uc_readBuf u \<and>
   (case e of None \<Rightarrow> uc_established u' \<and> net_open u' | Some err \<Rightarrow> uc_established u' = uc_established u \<and> net_closed u')"
proof (induction n arbitrary: attempt lastErr u)
  case 0
  then show ?case by auto
next
  case (Suc n)
  obtain r u1 where t: "tryEstablish (env attempt) u = (r, u1)" by fastforce
  note f = tryEstablish_frame [OF t]
  show ?case
  proof (cases r)
    case None
    then show ?thesis using Suc.prems t f by (auto simp: net_open_def)
  next
    case (Some err)
    let ?u = "u1\<lparr>uc_udpConn := None, uc_tcpConn := None\<rparr>"
    have nc: "net_closed ?u" by (simp add: net_closed_def)
    show ?thesis
    proof (cases "isRetryableError err \<and> cancelled attempt = None")
      case True
      then have "establish_loop env cancelled now n (attempt + 1) err ?u = ((e, k), u')"
        using Suc.prems(1) t Some by (simp add: Let_def)
      from Suc.IH [OF this _ nc] show ?thesis using f by (auto split: option.splits)
    next
      case False
      then have "((Some (if isRetryableError err then the (cancelled attempt) else err), attempt), ?u) = ((e, k), u')"
        using Suc.prems(1) t Some
        by (cases "cancelled attempt"; cases "isRetryableError err") (simp_all add: Let_def)
      then have "((e, k), u') = ((Some (if isRetryableError err then the (cancelled attempt) else err), attempt), ?u)"
        by (rule sym)
      then show ?thesis using f nc by (auto split: option.splits)
    qed
  qed
qed

text \<open>
  Lemma. \<^verbatim>\<open>Establish\<close> of a fresh connection returns after at least one and at
  most five attempts, whatever the network answers at each. If it succeeds,
  both sockets are open and the relay address is known; if it fails, both
  sockets of the last attempt have been closed and the connection can be
  tried again.
\<close>

theorem socks5_establish_bounded:
  assumes "\<not> uc_established u" and "\<not> uc_closed u" and "net_closed u"
    and "Establish env cancelled now u = ((e, attempts), u')"
  shows "1 \<le> attempts \<and> attempts \<le> 5 \<and>
    (case e of
       None \<Rightarrow> uc_established u' \<and> net_open u' \<and> \<not> uc_closed u'
     | Some err \<Rightarrow> \<not> uc_established u' \<and> net_closed u' \<and> \<not> uc_closed u')"
proof -
  have l: "establish_loop env cancelled now 5 1 [] u = ((e, attempts), u')"
    using assms by (simp add: Establish_def)
  from establish_loop_spec [OF l _ assms(3)] assms(1,2) show ?thesis by (auto split: option.splits)
qed

text \<open>Witness: a proxy whose name does not resolve.\<close>

definition dead_env :: net_env where
  "dead_env = \<lparr>ne_lookupHost = (\<lambda>_. Inl ''no such host''), ne_lookupIP = (\<lambda>_. Inl ''no such host''),
     ne_dial = (\<lambda>_ _ _. Inl ''refused''), ne_listenUDP = None, ne_services = (\<lambda>_. Inl [])\<rparr>"

definition fresh_conn :: udp_conn where
  "fresh_conn = demo_conn\<lparr>uc_udpConn := None, uc_relayAddr := None, uc_established := False, uc_proxyHost := ''p''\<rparr>"

theorem socks5_establish_bounded_witness:
  "1 \<le> snd (fst (Establish (\<lambda>_. dead_env) (\<lambda>_. None) 0 fresh_conn)) \<and>
   snd (fst (Establish (\<lambda>_. dead_env) (\<lambda>_. None) 0 fresh_conn)) \<le> 5"
proof -
  have f: "\<not> uc_established fresh_conn" "\<not> uc_closed fresh_conn" "net_closed fresh_conn"
    by (simp_all add: fresh_conn_def demo_conn_def net_closed_def)
  show ?thesis
    using socks5_establish_bounded [OF f, of "\<lambda>_. dead_env" "\<lambda>_. None" 0]
    by (cases "Establish (\<lambda>_. dead_env) (\<lambda>_. None) 0 fresh_conn"; cases "fst (Establish (\<lambda>_. dead_env) (\<lambda>_. None) 0 fresh_conn)") auto
qed

section \<open>The life of a relay connection\<close>

inductive udp_step :: "udp_conn \<Rightarrow> udp_conn \<Rightarrow> bool" where
  step_establish: "udp_step u (snd (Establish env cancelled now u))"
| step_write: "udp_step u (snd (WriteTo send now b addr u))"
| step_read: "udp_step u (snd (ReadFrom lookupIP recv now b u))"
| step_keepalive: "udp_step u (snd (tcpKeepalive_turn r u))"
| step_close: "udp_step u (uc_Close u)"
| step_deadline: "udp_step u (uc_SetDeadline t u)"
| step_read_deadline: "udp_step u (uc_SetReadDeadline t u)"
| step_write_deadline: "udp_step u (uc_SetWriteDeadline t u)"

inductive_cases udp_stepE: "udp_step u u'"

definition udp_inv :: "udp_conn \<Rightarrow> bool" where
  "udp_inv u \<longleftrightarrow>
     length (uc_readBuf u) = 65535 \<and>
     (uc_closed u \<longrightarrow> net_closed u) \<and>
     (\<not> uc_established u \<longrightarrow> net_closed u) \<and>
     (uc_established u \<and> \<not> uc_closed u \<longrightarrow> net_open u)"

lemma inv_establish: "udp_inv u \<Longrightarrow> udp_inv (snd (Establish env cancelled now u))"
proof -
  assume i: "udp_inv u"
  show ?thesis
  proof (cases "uc_established u \<or> uc_closed u")
    case True
    then show ?thesis using i by (auto simp: Establish_def)
  next
    case False
    obtain e k u' where l: "establish_loop env cancelled now 5 1 [] u = ((e, k), u')"
      by (metis surj_pair)
    then show ?thesis
      using establish_loop_spec [OF l] False i
      by (auto simp: Establish_def udp_inv_def split: option.splits)
  qed
qed

lemma inv_write: "udp_inv u \<Longrightarrow> udp_inv (snd (WriteTo send now b addr u))"
  by (auto simp: WriteTo_def udp_inv_def net_open_def net_closed_def Let_def
      split: net_addr.splits option.splits sum.splits)

lemma inv_read: "udp_inv u \<Longrightarrow> udp_inv (snd (ReadFrom lookupIP recv now b u))"
  by (auto simp: ReadFrom_def udp_inv_def net_open_def net_closed_def Let_def
      split: option.splits sum.splits prod.splits)

lemma inv_close: "udp_inv u \<Longrightarrow> udp_inv (uc_Close u)"
  by (auto simp: uc_Close_def udp_inv_def net_closed_def)

lemma inv_keepalive: "udp_inv u \<Longrightarrow> udp_inv (snd (tcpKeepalive_turn r u))"
  by (auto simp: tcpKeepalive_turn_def inv_close split: tcp_read.splits)

lemma inv_step: "udp_step u u' \<Longrightarrow> udp_inv u \<Longrightarrow> udp_inv u'"
  by (induction rule: udp_step.induct)
    (simp_all add: inv_establish inv_write inv_read inv_keepalive inv_close,
      simp_all add: udp_inv_def net_closed_def net_open_def
        uc_SetDeadline_def uc_SetReadDeadline_def uc_SetWriteDeadline_def)

lemma inv_steps: "udp_step\<^sup>*\<^sup>* u u' \<Longrightarrow> udp_inv u \<Longrightarrow> udp_inv u'"
  by (induction rule: rtranclp_induct) (auto intro: inv_step)

lemma inv_new: "NewSOCKS5UDPConn parse url = Inr u \<Longrightarrow> udp_inv u \<and> \<not> uc_established u"
  by (auto simp: NewSOCKS5UDPConn_def udp_inv_def net_closed_def Let_def split: sum.splits if_splits prod.splits)

lemma closed_step: "udp_step u u' \<Longrightarrow> uc_closed u \<Longrightarrow> uc_closed u'"
  by (induction rule: udp_step.induct)
    (auto simp: Establish_def WriteTo_def ReadFrom_def tcpKeepalive_turn_def uc_Close_def
      uc_SetDeadline_def uc_SetReadDeadline_def uc_SetWriteDeadline_def)

text \<open>
  Property C34. In every state that a relay connection can reach from its
  creation, by any interleaving of establishing, sending, receiving, closing,
  the control-channel watcher and deadline changes: a closed connection and one
  that is not established hold no socket, an established open one holds both
  sockets and a relay address, so that sending and receiving never meet a nil
  socket, and the read buffer keeps its size.
\<close>

theorem socks5_relay_invariant:
  assumes "NewSOCKS5UDPConn parse url = Inr u0" and "udp_step\<^sup>*\<^sup>* u0 u"
  shows "length (uc_readBuf u) = 65535 \<and>
    (if uc_established u \<and> \<not> uc_closed u then net_open u else net_closed u)"
  using inv_steps [OF assms(2)] inv_new [OF assms(1)] by (auto simp: udp_inv_def)

text \<open>Witness: a new connection that is closed.\<close>

theorem socks5_relay_invariant_witness:
  "\<exists>u0. NewSOCKS5UDPConn (\<lambda>_. Inr \<lparr>pu_Scheme = ''socks5'', pu_Hostname = ''p'', pu_Port = [], pu_User = None\<rparr>) ''socks5://p'' = Inr u0 \<and>
     uc_closed (uc_Close u0) \<and> net_closed (uc_Close u0)"
proof -
  obtain u0 where n: "NewSOCKS5UDPConn (\<lambda>_. Inr \<lparr>pu_Scheme = ''socks5'', pu_Hostname = ''p'', pu_Port = [], pu_User = None\<rparr>) ''socks5://p'' = Inr u0"
    by (simp add: NewSOCKS5UDPConn_def)
  have "udp_step\<^sup>*\<^sup>* u0 (uc_Close u0)" by (intro r_into_rtranclp step_close)
  from socks5_relay_invariant [OF n this] n show ?thesis by (auto simp: uc_Close_def split: if_splits)
qed

text \<open>
  Lemma. A connection that was established and then closed, by the caller
  or by the control-channel watcher, reports success when it is established
  again, and every packet sent through it is refused: \<^verbatim>\<open>Establish\<close> looks at
  \<^verbatim>\<open>established\<close> before it looks at \<^verbatim>\<open>closed\<close>.
\<close>

theorem socks5_establish_after_close:
  assumes "uc_established u"
  shows "Establish env cancelled now (uc_Close u) = ((None, 0), uc_Close u) \<and>
    WriteTo send now b addr (uc_Close u) = (Inl ErrClosed, uc_Close u)"
  using assms by (simp add: Establish_def WriteTo_def uc_Close_def)

text \<open>Witness: the open relay of the example above.\<close>

theorem socks5_establish_after_close_witness:
  "Establish (\<lambda>_. dead_env) (\<lambda>_. None) 0 (uc_Close demo_conn) = ((None, 0), uc_Close demo_conn)"
  using socks5_establish_after_close [of demo_conn "\<lambda>_. dead_env" "\<lambda>_. None" 0] by (simp add: demo_conn_def)

end
