(* ===== verification/JA3.thy ===== *)
theory JA3
  imports Go_Prelude
begin

unbundle bit_operations_syntax

text \<open>
  \<^verbatim>\<open>fingerprint/ja3.go\<close>: from a JA3 fingerprint string and the extension data it
  cannot carry to the ClientHello that the TLS library sends.

  The extension types, signature schemes and compression algorithms of the TLS
  library are the constructors of datatypes named as the source names them; a
  scheme or algorithm a caller passes that the source does not name is its code
  point. \<^verbatim>\<open>tls.ShuffleChromeTLSExtensions\<close> is the argument \<open>shuffle\<close>. A nil
  slice and an empty one are told apart where the code does (\<open>dcAlgs\<close>).
\<close>

section \<open>Data\<close>

datatype sig_scheme =
    ECDSAWithP256AndSHA256 | ECDSAWithP384AndSHA384 | ECDSAWithP521AndSHA512 | ECDSAWithSHA1
  | PSSWithSHA256 | PSSWithSHA384 | PSSWithSHA512
  | PKCS1WithSHA256 | PKCS1WithSHA384 | PKCS1WithSHA512 | PKCS1WithSHA1
  | OtherScheme u16

datatype cert_comp_algo = CertCompressionBrotli | OtherCertComp u16

type_synonym curve_id = u16

datatype tls_extension =
    SNIExtension
  | StatusRequestExtension
  | SupportedCurvesExtension "curve_id list"
  | SupportedPointsExtension "byte list"
  | SignatureAlgorithmsExtension "sig_scheme list"
  | ALPNExtension "string list"
  | StatusRequestV2Extension
  | SCTExtension
  | UtlsPaddingExtension
  | GenericExtension u16
  | UtlsExtendedMasterSecretExtension
  | UtlsCompressCertExtension "cert_comp_algo list"
  | FakeRecordSizeLimitExtension u16
  | DelegatedCredentialsExtension "sig_scheme list"
  | SessionTicketExtension
  | UtlsPreSharedKeyExtension
  | SupportedVersionsExtension "u16 list"
  | CookieExtension
  | PSKKeyExchangeModesDHE
  | SignatureAlgorithmsCertExtension "sig_scheme list"
  | KeyShareExtension "curve_id list"
  | ApplicationSettingsExtension "string list"
  | GREASEEncryptedClientHelloExtension
  | RenegotiationInfoOnceAsClient
  | UtlsGREASEExtension

record ja3_extras =
  je_SignatureAlgorithms :: "sig_scheme list"
  je_DelegatedCredentialAlgorithms :: "sig_scheme list option"
  je_ALPN :: "string list"
  je_CertCompAlgs :: "cert_comp_algo list"
  je_PermuteExtensions :: bool
  je_RecordSizeLimit :: u16
  je_KeyShareCurves :: int

record client_hello_spec =
  chs_TLSVersMin :: u16
  chs_TLSVersMax :: u16
  chs_CipherSuites :: "u16 list"
  chs_CompressionMethods :: "byte list"
  chs_Extensions :: "tls_extension list"

abbreviation VersionTLS10 :: u16 where "VersionTLS10 \<equiv> 0x0301"
abbreviation VersionTLS12 :: u16 where "VersionTLS12 \<equiv> 0x0303"
abbreviation VersionTLS13 :: u16 where "VersionTLS13 \<equiv> 0x0304"

datatype ja3_error =
    JA3FieldCount nat
  | JA3TLSVersion string num_error
  | JA3CipherSuites string num_error
  | JA3Extensions string num_error
  | JA3Curves string num_error
  | JA3PointFormats string num_error

section \<open>Parsing\<close>

definition defaultJA3Extras :: ja3_extras where
  "defaultJA3Extras =
     \<lparr>je_SignatureAlgorithms =
        [ECDSAWithP256AndSHA256, PSSWithSHA256, PKCS1WithSHA256, ECDSAWithP384AndSHA384,
         PSSWithSHA384, PKCS1WithSHA384, PSSWithSHA512, PKCS1WithSHA512],
      je_DelegatedCredentialAlgorithms = None,
      je_ALPN = [''h2'', ''http/1.1''],
      je_CertCompAlgs = [CertCompressionBrotli],
      je_PermuteExtensions = False,
      je_RecordSizeLimit = 0x4001,
      je_KeyShareCurves = 0\<rparr>"

definition isGREASE :: "u16 \<Rightarrow> bool" where
  "isGREASE v \<longleftrightarrow> v AND 0x0f0f = 0x0a0a"

definition mergeExtras :: "ja3_extras option \<Rightarrow> ja3_extras" where
  "mergeExtras extras =
     (case extras of
        None \<Rightarrow> defaultJA3Extras
      | Some e \<Rightarrow>
          e\<lparr>je_SignatureAlgorithms := (if je_SignatureAlgorithms e = [] then je_SignatureAlgorithms defaultJA3Extras
                                      else je_SignatureAlgorithms e),
            je_ALPN := (if je_ALPN e = [] then je_ALPN defaultJA3Extras else je_ALPN e),
            je_CertCompAlgs := (if je_CertCompAlgs e = [] then je_CertCompAlgs defaultJA3Extras
                               else je_CertCompAlgs e),
            je_RecordSizeLimit := (if je_RecordSizeLimit e = 0 then je_RecordSizeLimit defaultJA3Extras
                                  else je_RecordSizeLimit e)\<rparr>)"

text \<open>The loop of \<^verbatim>\<open>parseDashSeparatedUint16\<close> (16 bits) and \<^verbatim>\<open>parseDashSeparatedUint8\<close> (8 bits).\<close>

fun parse_dash_loop :: "nat \<Rightarrow> string list \<Rightarrow> (string \<times> num_error) + 'a::len word list" where
  "parse_dash_loop bits [] = Inr []"
| "parse_dash_loop bits (p0 # ps) =
     (let p = trim_space p0 in
      if p = [] then parse_dash_loop bits ps
      else (case parse_uint bits p of
              Inl e \<Rightarrow> Inl (p, e)
            | Inr v \<Rightarrow>
                (case parse_dash_loop bits ps of
                   Inl e \<Rightarrow> Inl e
                 | Inr vs \<Rightarrow> Inr (of_nat v # vs))))"

definition parseDashSeparatedUint16 :: "string \<Rightarrow> (string \<times> num_error) + u16 list" where
  "parseDashSeparatedUint16 s0 =
     (let s = trim_space s0 in
      if s = [] then Inr [] else parse_dash_loop 16 (split_on (CHR ''-'') s))"

definition parseDashSeparatedUint8 :: "string \<Rightarrow> (string \<times> num_error) + byte list" where
  "parseDashSeparatedUint8 s0 =
     (let s = trim_space s0 in
      if s = [] then Inr [] else parse_dash_loop 8 (split_on (CHR ''-'') s))"

text \<open>The key shares of extension 51: how many, and for which curves.\<close>

fun first_curve_hybrid :: "curve_id list \<Rightarrow> bool" where
  "first_curve_hybrid [] = False"
| "first_curve_hybrid (curve # cs) =
     (if isGREASE curve then first_curve_hybrid cs else curve = 0x11EC \<or> curve = 0x6399)"

definition max_shares :: "ja3_extras \<Rightarrow> curve_id list \<Rightarrow> int" where
  "max_shares extras curves =
     (let maxShares = (if je_KeyShareCurves extras > 0 then je_KeyShareCurves extras else 1) in
      if maxShares < 2 \<and> first_curve_hybrid curves then 2 else maxShares)"

fun key_shares :: "int \<Rightarrow> curve_id list \<Rightarrow> curve_id list \<Rightarrow> curve_id list" where
  "key_shares maxShares keyShares [] = keyShares"
| "key_shares maxShares keyShares (curve # cs) =
     (if \<not> isGREASE curve then
        (let keyShares' = keyShares @ [curve] in
         if int (length keyShares') \<ge> maxShares then keyShares' else key_shares maxShares keyShares' cs)
      else key_shares maxShares keyShares cs)"

definition extensionForID :: "u16 \<Rightarrow> ja3_extras \<Rightarrow> curve_id list \<Rightarrow> byte list \<Rightarrow> tls_extension" where
  "extensionForID eid extras curves pointFormats =
     (if eid = 0 then SNIExtension
      else if eid = 5 then StatusRequestExtension
      else if eid = 10 then SupportedCurvesExtension curves
      else if eid = 11 then SupportedPointsExtension pointFormats
      else if eid = 13 then SignatureAlgorithmsExtension (je_SignatureAlgorithms extras)
      else if eid = 16 then ALPNExtension (je_ALPN extras)
      else if eid = 17 then StatusRequestV2Extension
      else if eid = 18 then SCTExtension
      else if eid = 21 then UtlsPaddingExtension
      else if eid = 22 then GenericExtension 22
      else if eid = 23 then UtlsExtendedMasterSecretExtension
      else if eid = 27 then UtlsCompressCertExtension (je_CertCompAlgs extras)
      else if eid = 28 then
        FakeRecordSizeLimitExtension (if je_RecordSizeLimit extras = 0 then 0x4001 else je_RecordSizeLimit extras)
      else if eid = 34 then
        DelegatedCredentialsExtension
          (case je_DelegatedCredentialAlgorithms extras of
             None \<Rightarrow> [ECDSAWithP256AndSHA256, ECDSAWithP384AndSHA384, ECDSAWithP521AndSHA512, ECDSAWithSHA1]
           | Some algs \<Rightarrow> algs)
      else if eid = 35 then SessionTicketExtension
      else if eid = 41 then UtlsPreSharedKeyExtension
      else if eid = 43 then SupportedVersionsExtension [VersionTLS13, VersionTLS12]
      else if eid = 44 then CookieExtension
      else if eid = 45 then PSKKeyExchangeModesDHE
      else if eid = 49 then GenericExtension 49
      else if eid = 50 then
        SignatureAlgorithmsCertExtension
          [ECDSAWithP256AndSHA256, PSSWithSHA256, PKCS1WithSHA256, ECDSAWithP384AndSHA384,
           PSSWithSHA384, PKCS1WithSHA384, PSSWithSHA512, PKCS1WithSHA512, PKCS1WithSHA1]
      else if eid = 51 then KeyShareExtension (key_shares (max_shares extras curves) [] curves)
      else if eid = 57 then GenericExtension 57
      else if eid = 17513 then ApplicationSettingsExtension (je_ALPN extras)
      else if eid = 65037 then GREASEEncryptedClientHelloExtension
      else if eid = 65281 then RenegotiationInfoOnceAsClient
      else GenericExtension eid)"

definition buildExtensions ::
    "u16 list \<Rightarrow> ja3_extras \<Rightarrow> curve_id list \<Rightarrow> byte list \<Rightarrow> tls_extension list" where
  "buildExtensions ids extras curves pointFormats =
     map (\<lambda>eid. if isGREASE eid then UtlsGREASEExtension
               else extensionForID eid extras curves pointFormats) ids"

text \<open>The version range, with the loop that looks for \<^verbatim>\<open>supported_versions\<close>.\<close>

definition max_version :: "u16 \<Rightarrow> u16 list \<Rightarrow> u16" where
  "max_version tlsVersion extensionIDs =
     (let maxVersion = (if list_ex (\<lambda>eid. eid = 43) extensionIDs then VersionTLS13 else tlsVersion) in
      if maxVersion < VersionTLS10 then VersionTLS12 else maxVersion)"

definition ParseJA3 ::
    "(tls_extension list \<Rightarrow> tls_extension list) \<Rightarrow> string \<Rightarrow> ja3_extras option \<Rightarrow>
     ja3_error + client_hello_spec" where
  "ParseJA3 shuffle ja3 extras0 =
     (let extras = mergeExtras extras0; parts = split_on (CHR '','') ja3 in
      if length parts \<noteq> 5 then Inl (JA3FieldCount (length parts))
      else (case parse_uint 16 (trim_space (parts ! 0)) of
        Inl e \<Rightarrow> Inl (JA3TLSVersion (parts ! 0) e)
      | Inr tlsVersion \<Rightarrow> (case parseDashSeparatedUint16 (parts ! 1) of
        Inl (p, e) \<Rightarrow> Inl (JA3CipherSuites p e)
      | Inr cipherSuites \<Rightarrow>
       (let filteredCiphers = filter (\<lambda>cs. \<not> isGREASE cs) cipherSuites in
        case parseDashSeparatedUint16 (parts ! 2) of
        Inl (p, e) \<Rightarrow> Inl (JA3Extensions p e)
      | Inr extensionIDs \<Rightarrow> (case parseDashSeparatedUint16 (parts ! 3) of
        Inl (p, e) \<Rightarrow> Inl (JA3Curves p e)
      | Inr curves \<Rightarrow>
       (let filteredCurves = filter (\<lambda>c. \<not> isGREASE c) curves in
        case parseDashSeparatedUint8 (parts ! 4) of
        Inl (p, e) \<Rightarrow> Inl (JA3PointFormats p e)
      | Inr pointFormats \<Rightarrow>
       (let extensions = buildExtensions extensionIDs extras filteredCurves pointFormats;
            extensions' = (if je_PermuteExtensions extras then shuffle extensions else extensions)
        in Inr \<lparr>chs_TLSVersMin = VersionTLS12,
                chs_TLSVersMax = max_version (of_nat tlsVersion) extensionIDs,
                chs_CipherSuites = filteredCiphers,
                chs_CompressionMethods = [0],
                chs_Extensions = extensions'\<rparr>)))))))"

definition JA3HasExtension :: "string \<Rightarrow> string \<Rightarrow> bool" where
  "JA3HasExtension ja3 extID =
     (let parts = split_on (CHR '','') ja3 in
      if length parts < 3 then False
      else list_ex (\<lambda>eid. trim_space eid = extID) (split_on (CHR ''-'') (parts ! 2)))"


section \<open>Printing\<close>

text \<open>The JA3 string of five numeric fields, as fingerprinting services print it.\<close>

definition show_dash :: "'a::len word list \<Rightarrow> string" where
  "show_dash vs = join ''-'' (map (\<lambda>v. show_nat (unat v)) vs)"

definition show_ja3 :: "u16 \<Rightarrow> u16 list \<Rightarrow> u16 list \<Rightarrow> u16 list \<Rightarrow> byte list \<Rightarrow> string" where
  "show_ja3 v cs es gs ps =
     join '','' [show_nat (unat v), show_dash cs, show_dash es, show_dash gs, show_dash ps]"

lemma digits_not_sep [simp]: "\<not> is_digit (CHR ''-'')" "\<not> is_digit (CHR '','')"
  by (simp_all add: is_digit_def)

lemma parse_dash_loop_show:
  assumes "LENGTH('a::len) = bits"
  shows "parse_dash_loop bits (map (\<lambda>v. show_nat (unat v)) (vs :: 'a word list)) = Inr vs"
proof (induction vs)
  case (Cons v vs)
  have "parse_uint bits (show_nat (unat v)) = Inr (unat v)"
    using unsigned_less [of v] assms by (intro parse_show_nat) simp
  with Cons show ?case by simp
qed simp

lemma Nil_notin_shown: "[] \<notin> set (map (\<lambda>v. show_nat (f v)) vs)"
  by (auto dest: sym)

lemma show_dash_ends:
  "vs \<noteq> [] \<Longrightarrow> is_digit (hd (show_dash vs)) \<and> is_digit (last (show_dash vs))"
proof (induction vs)
  case (Cons v vs)
  have d: "is_digit (hd (show_nat n))" "is_digit (last (show_nat n))" for n
    using show_nat_digits [of n] by simp_all
  show ?case
  proof (cases vs)
    case Nil
    then show ?thesis using d by (simp add: show_dash_def)
  next
    case (Cons w ws)
    have "join ''-'' (map (\<lambda>v. show_nat (unat v)) vs) \<noteq> []"
      using Cons by (intro join_ne Nil_notin_shown) simp
    then show ?thesis using Cons Cons.IH d by (simp add: show_dash_def)
  qed
qed simp

lemma trim_show_dash: "trim_space (show_dash vs) = show_dash vs"
proof (cases "vs = []")
  case False
  then show ?thesis
    unfolding trim_space_def using show_dash_ends [OF False] digit_not_space by (intro trim_fn_id) blast
qed (simp add: show_dash_def trim_space_def trim_fn_def)

lemma show_dash_eq_Nil [simp]: "show_dash vs = [] \<longleftrightarrow> vs = []"
  using join_ne [of "map (\<lambda>v. show_nat (unat v)) vs" "''-''"] Nil_notin_shown [of unat vs]
  by (auto simp: show_dash_def)

lemma split_show_dash: "vs \<noteq> [] \<Longrightarrow> split_on (CHR ''-'') (show_dash vs) = map (\<lambda>v. show_nat (unat v)) vs"
  unfolding show_dash_def by (rule split_join) (auto simp: show_nat_no_sep)

lemma parse_show_dash16: "parseDashSeparatedUint16 (show_dash vs) = Inr vs"
  by (simp add: parseDashSeparatedUint16_def trim_show_dash split_show_dash parse_dash_loop_show Let_def)

lemma parse_show_dash8: "parseDashSeparatedUint8 (show_dash vs) = Inr vs"
  by (simp add: parseDashSeparatedUint8_def trim_show_dash split_show_dash parse_dash_loop_show Let_def)

lemma comma_show_dash: "CHR '','' \<notin> set (show_dash vs)"
  using set_join [of "''-''" "map (\<lambda>v. show_nat (unat v)) vs"] show_nat_no_sep [of "CHR '',''"]
  by (auto simp: show_dash_def)

lemma split_show_ja3:
  "split_on (CHR '','') (show_ja3 v cs es gs ps) =
     [show_nat (unat v), show_dash cs, show_dash es, show_dash gs, show_dash ps]"
  unfolding show_ja3_def by (rule split_join) (auto simp: show_nat_no_sep comma_show_dash)

section \<open>Key shares\<close>

lemma key_shares_take:
  "int (length acc) < n \<Longrightarrow>
     key_shares n acc cs = acc @ take (nat n - length acc) (filter (\<lambda>c. \<not> isGREASE c) cs)"
  by (induction n acc cs rule: key_shares.induct) (auto simp: Let_def take_Cons' not_le nat_le_iff)

lemma max_shares_pos: "max_shares extras curves > 0"
  by (simp add: max_shares_def Let_def)

lemma first_curve_hybrid_iff:
  "first_curve_hybrid cs \<longleftrightarrow>
     (\<exists>c r. filter (\<lambda>c. \<not> isGREASE c) cs = c # r \<and> c \<in> {0x11EC, 0x6399})"
  by (induction cs) auto

section \<open>The fingerprint of a ClientHello\<close>

text \<open>
  The code point under which an extension goes out (IANA's TLS ExtensionType
  values), and the four lists that a JA3 service reads from a ClientHello:
  cipher suites, extensions, groups and point formats, with GREASE left out.
\<close>

fun ext_wire_id :: "tls_extension \<Rightarrow> u16 option" where
  "ext_wire_id SNIExtension = Some 0"
| "ext_wire_id StatusRequestExtension = Some 5"
| "ext_wire_id (SupportedCurvesExtension _) = Some 10"
| "ext_wire_id (SupportedPointsExtension _) = Some 11"
| "ext_wire_id (SignatureAlgorithmsExtension _) = Some 13"
| "ext_wire_id (ALPNExtension _) = Some 16"
| "ext_wire_id StatusRequestV2Extension = Some 17"
| "ext_wire_id SCTExtension = Some 18"
| "ext_wire_id UtlsPaddingExtension = Some 21"
| "ext_wire_id (GenericExtension i) = Some i"
| "ext_wire_id UtlsExtendedMasterSecretExtension = Some 23"
| "ext_wire_id (UtlsCompressCertExtension _) = Some 27"
| "ext_wire_id (FakeRecordSizeLimitExtension _) = Some 28"
| "ext_wire_id (DelegatedCredentialsExtension _) = Some 34"
| "ext_wire_id SessionTicketExtension = Some 35"
| "ext_wire_id UtlsPreSharedKeyExtension = Some 41"
| "ext_wire_id (SupportedVersionsExtension _) = Some 43"
| "ext_wire_id CookieExtension = Some 44"
| "ext_wire_id PSKKeyExchangeModesDHE = Some 45"
| "ext_wire_id (SignatureAlgorithmsCertExtension _) = Some 50"
| "ext_wire_id (KeyShareExtension _) = Some 51"
| "ext_wire_id (ApplicationSettingsExtension _) = Some 17513"
| "ext_wire_id GREASEEncryptedClientHelloExtension = Some 65037"
| "ext_wire_id RenegotiationInfoOnceAsClient = Some 65281"
| "ext_wire_id UtlsGREASEExtension = None"

fun ext_groups :: "tls_extension \<Rightarrow> u16 list" where
  "ext_groups (SupportedCurvesExtension cs) = filter (\<lambda>c. \<not> isGREASE c) cs"
| "ext_groups _ = []"

fun ext_points :: "tls_extension \<Rightarrow> byte list" where
  "ext_points (SupportedPointsExtension ps) = ps"
| "ext_points _ = []"

definition hello_ja3 :: "client_hello_spec \<Rightarrow> u16 list \<times> u16 list \<times> u16 list \<times> byte list" where
  "hello_ja3 spec =
     (filter (\<lambda>c. \<not> isGREASE c) (chs_CipherSuites spec),
      List.map_filter ext_wire_id (chs_Extensions spec),
      concat (map ext_groups (chs_Extensions spec)),
      concat (map ext_points (chs_Extensions spec)))"

lemma ext_wire_id_extensionForID: "ext_wire_id (extensionForID i ex gs ps) = Some i"
  by (simp add: extensionForID_def)

lemma ext_groups_extensionForID:
  "ext_groups (extensionForID i ex gs ps) = (if i = 10 then filter (\<lambda>c. \<not> isGREASE c) gs else [])"
  by (simp add: extensionForID_def)

lemma ext_points_extensionForID:
  "ext_points (extensionForID i ex gs ps) = (if i = 11 then ps else [])"
  by (simp add: extensionForID_def)

lemma build_wire_ids:
  "List.map_filter ext_wire_id (buildExtensions es ex gs ps) = filter (\<lambda>i. \<not> isGREASE i) es"
  by (induction es) (auto simp: buildExtensions_def List.map_filter_simps ext_wire_id_extensionForID)

lemma concat_map_once:
  "distinct xs \<Longrightarrow> concat (map (\<lambda>x. if x = a then b else []) xs) = (if a \<in> set xs then b else [])"
  by (induction xs) auto

lemma not_grease_10_11 [simp]: "\<not> isGREASE 10" "\<not> isGREASE 11"
  by (simp_all add: isGREASE_def)

lemma build_groups:
  "distinct es \<Longrightarrow> concat (map ext_groups (buildExtensions es ex gs ps)) =
     (if 10 \<in> set es then filter (\<lambda>c. \<not> isGREASE c) gs else [])"
proof -
  assume d: "distinct es"
  have "map ext_groups (buildExtensions es ex gs ps) =
      map (\<lambda>i. if i = 10 then filter (\<lambda>c. \<not> isGREASE c) gs else []) es"
    by (auto simp: buildExtensions_def ext_groups_extensionForID)
  then show ?thesis using concat_map_once [OF d] by metis
qed

lemma build_points:
  "distinct es \<Longrightarrow> concat (map ext_points (buildExtensions es ex gs ps)) = (if 11 \<in> set es then ps else [])"
proof -
  assume d: "distinct es"
  have "map ext_points (buildExtensions es ex gs ps) = map (\<lambda>i. if i = 11 then ps else []) es"
    by (auto simp: buildExtensions_def ext_points_extensionForID)
  then show ?thesis using concat_map_once [OF d] by metis
qed

lemma ParseJA3_show:
  "ParseJA3 shuffle (show_ja3 v cs es gs ps) ex =
     Inr \<lparr>chs_TLSVersMin = VersionTLS12, chs_TLSVersMax = max_version v es,
          chs_CipherSuites = filter (\<lambda>c. \<not> isGREASE c) cs, chs_CompressionMethods = [0],
          chs_Extensions = (if je_PermuteExtensions (mergeExtras ex) then shuffle else (\<lambda>x. x))
            (buildExtensions es (mergeExtras ex) (filter (\<lambda>c. \<not> isGREASE c) gs) ps)\<rparr>"
proof -
  have "parse_uint 16 (show_nat (unat v)) = Inr (unat v)"
    using unsigned_less [of v] by (intro parse_show_nat) simp
  then show ?thesis
    by (simp add: ParseJA3_def split_show_ja3 parse_show_dash16 parse_show_dash8 Let_def)
qed

section \<open>Properties\<close>



text \<open>
  Lemma. \<^verbatim>\<open>JA3HasExtension\<close> agrees with the parser: on a JA3 string it finds
  exactly the extensions the ClientHello is built from.
\<close>

theorem ja3_has_extension:
  "JA3HasExtension (show_ja3 v cs es gs ps) (show_nat (unat i)) \<longleftrightarrow> i \<in> set es"
proof (cases "es = []")
  case True
  then show ?thesis
    by (simp add: JA3HasExtension_def split_show_ja3 show_dash_def trim_space_def trim_fn_def
        eq_commute [of "[]"])
next
  case False
  then show ?thesis
    by (auto simp: JA3HasExtension_def split_show_ja3 split_show_dash list_ex_iff show_nat_inj
        word_unat_eq_iff [symmetric] Let_def)
qed

text \<open>
  Lemma. A hybrid post-quantum key share never goes out alone: when the first
  group that is not GREASE is X25519MLKEM768 or X25519Kyber768Draft00 and
  another group follows, the key share extension starts with shares for both,
  however few shares the extras ask for.
\<close>

theorem hybrid_share_paired:
  assumes "filter (\<lambda>c. \<not> isGREASE c) gs = c # d # r" and "c = 0x11EC \<or> c = 0x6399"
  shows "\<exists>more. extensionForID 51 ex gs ps = KeyShareExtension (c # d # more)"
proof -
  let ?n = "max_shares ex gs"
  have n: "?n \<ge> 2"
    using assms by (auto simp: max_shares_def first_curve_hybrid_iff Let_def)
  then have "key_shares ?n [] gs = take (nat ?n) (c # d # r)"
    using key_shares_take [of "[]" ?n gs] assms(1) by simp
  moreover have "nat ?n = Suc (Suc (nat ?n - 2))" using n by simp
  ultimately have "key_shares ?n [] gs = c # d # take (nat ?n - 2) r" by (metis take_Suc_Cons)
  then show ?thesis by (simp add: extensionForID_def)
qed

theorem hybrid_share_paired_witness:
  "\<exists>more. extensionForID 51 defaultJA3Extras [0x2a2a, 0x11EC, 29, 23] [0] = KeyShareExtension (0x11EC # 29 # more)"
  by (rule hybrid_share_paired [of _ _ _ "[23]"]) (simp_all add: isGREASE_def)

end
