(* ===== verification/Akamai.thy ===== *)
theory Akamai
  imports Go_Prelude
begin

text \<open>
  \<^verbatim>\<open>fingerprint/akamai.go\<close>: the Akamai shorthand of an HTTP/2 fingerprint, and the
  record \<^verbatim>\<open>HTTP2Settings\<close> of \<^verbatim>\<open>fingerprint/presets.go\<close> it fills.
\<close>

section \<open>Data\<close>

record http2_settings =
  hs_HeaderTableSize :: u32
  hs_EnablePush :: bool
  hs_MaxConcurrentStreams :: u32
  hs_InitialWindowSize :: u32
  hs_MaxFrameSize :: u32
  hs_MaxHeaderListSize :: u32
  hs_ConnectionWindowUpdate :: u32
  hs_StreamWeight :: u16
  hs_StreamExclusive :: bool
  hs_NoRFC7540Priorities :: bool

definition zero_settings :: http2_settings where
  "zero_settings =
     \<lparr>hs_HeaderTableSize = 0, hs_EnablePush = False, hs_MaxConcurrentStreams = 0,
      hs_InitialWindowSize = 0, hs_MaxFrameSize = 0, hs_MaxHeaderListSize = 0,
      hs_ConnectionWindowUpdate = 0, hs_StreamWeight = 0, hs_StreamExclusive = False,
      hs_NoRFC7540Priorities = False\<rparr>"

datatype akamai_error =
    AkamaiFieldCount nat
  | AkamaiPair string
  | AkamaiId string num_error
  | AkamaiValue string num_error
  | AkamaiWindowUpdate string num_error
  | AkamaiPriority string num_error
  | AkamaiPseudo string

record akamai_presence =
  ap_Settings :: http2_settings
  ap_PseudoOrder :: "string list"
  ap_SeenSettings :: "u16 list"
  ap_HasWindowUpdate :: bool
  ap_HasStreamWeight :: bool

section \<open>Parsing\<close>

definition apply_setting :: "nat \<Rightarrow> nat \<Rightarrow> http2_settings \<Rightarrow> http2_settings" where
  "apply_setting sid val s =
     (if sid = 1 then s\<lparr>hs_HeaderTableSize := of_nat val\<rparr>
      else if sid = 2 then s\<lparr>hs_EnablePush := (val \<noteq> 0)\<rparr>
      else if sid = 3 then s\<lparr>hs_MaxConcurrentStreams := of_nat val\<rparr>
      else if sid = 4 then s\<lparr>hs_InitialWindowSize := of_nat val\<rparr>
      else if sid = 5 then s\<lparr>hs_MaxFrameSize := of_nat val\<rparr>
      else if sid = 6 then s\<lparr>hs_MaxHeaderListSize := of_nat val\<rparr>
      else if sid = 8 then s
      else if sid = 9 then s\<lparr>hs_NoRFC7540Priorities := (val \<noteq> 0)\<rparr>
      else s)"

fun parse_pairs :: "string list \<Rightarrow> http2_settings \<Rightarrow> akamai_error + http2_settings" where
  "parse_pairs [] s = Inr s"
| "parse_pairs (pair0 # pairs) s =
     (let pair = trim_space pair0 in
      if pair = [] then parse_pairs pairs s
      else (case index_byte pair (CHR '':'') of
        None \<Rightarrow> Inl (AkamaiPair pair)
      | Some i \<Rightarrow> (case parse_uint 16 (trim_space (take i pair)) of
        Inl e \<Rightarrow> Inl (AkamaiId (take i pair) e)
      | Inr sid \<Rightarrow> (case parse_uint 32 (trim_space (drop (i + 1) pair)) of
        Inl e \<Rightarrow> Inl (AkamaiValue (drop (i + 1) pair) e)
      | Inr val \<Rightarrow> parse_pairs pairs (apply_setting sid val s)))))"

definition parse_window :: "string \<Rightarrow> http2_settings \<Rightarrow> akamai_error + http2_settings" where
  "parse_window p s =
     (if p \<noteq> [] then
        (case parse_uint 32 (trim_space p) of
           Inl e \<Rightarrow> Inl (AkamaiWindowUpdate p e)
         | Inr w \<Rightarrow> Inr (s\<lparr>hs_ConnectionWindowUpdate := of_nat w\<rparr>))
      else Inr s)"

definition parse_weight :: "string \<Rightarrow> http2_settings \<Rightarrow> akamai_error + http2_settings" where
  "parse_weight p s =
     (if p \<noteq> [] then
        (case parse_uint 16 (trim_space p) of
           Inl e \<Rightarrow> Inl (AkamaiPriority p e)
         | Inr w \<Rightarrow> Inr (if w > 0 then s\<lparr>hs_StreamWeight := of_nat w, hs_StreamExclusive := True\<rparr> else s))
      else Inr s)"

fun parse_pseudo :: "string list \<Rightarrow> akamai_error + string list" where
  "parse_pseudo [] = Inr []"
| "parse_pseudo (ch0 # chs) =
     (let ch = trim_space ch0;
          add = (\<lambda>name. case parse_pseudo chs of Inl e \<Rightarrow> Inl e | Inr ps \<Rightarrow> Inr (name # ps))
      in if ch = ''m'' then add '':method''
         else if ch = ''a'' then add '':authority''
         else if ch = ''s'' then add '':scheme''
         else if ch = ''p'' then add '':path''
         else Inl (AkamaiPseudo ch))"

definition ParseAkamai :: "string \<Rightarrow> akamai_error + (http2_settings \<times> string list)" where
  "ParseAkamai akamai =
     (let parts = split_on (CHR ''|'') akamai in
      if length parts \<noteq> 4 then Inl (AkamaiFieldCount (length parts))
      else (case (if parts ! 0 \<noteq> [] then parse_pairs (split_on (CHR '';'') (parts ! 0)) zero_settings
                  else Inr zero_settings) of
        Inl e \<Rightarrow> Inl e
      | Inr s1 \<Rightarrow> (case parse_window (parts ! 1) s1 of
        Inl e \<Rightarrow> Inl e
      | Inr s2 \<Rightarrow> (case parse_weight (parts ! 2) s2 of
        Inl e \<Rightarrow> Inl e
      | Inr s3 \<Rightarrow>
          (case (if parts ! 3 \<noteq> [] then parse_pseudo (split_on (CHR '','') (trim_space (parts ! 3)))
                 else Inr []) of
             Inl e \<Rightarrow> Inl e
           | Inr pseudoOrder \<Rightarrow> Inr (s3, pseudoOrder))))))"

text \<open>
  The loop that fills \<^verbatim>\<open>SeenSettings\<close>, a set kept as the list of its elements in
  the order they are added.
\<close>

fun seen_settings :: "string list \<Rightarrow> u16 list \<Rightarrow> u16 list" where
  "seen_settings [] seen = seen"
| "seen_settings (pair0 # pairs) seen =
     (let pair = trim_space pair0 in
      if pair = [] then seen_settings pairs seen
      else (case index_byte pair (CHR '':'') of
        None \<Rightarrow> seen_settings pairs seen
      | Some i \<Rightarrow> (case parse_uint 16 (trim_space (take i pair)) of
          Inl _ \<Rightarrow> seen_settings pairs seen
        | Inr sid \<Rightarrow> seen_settings pairs (List.insert (of_nat sid) seen))))"

definition ParseAkamaiDetailed :: "string \<Rightarrow> akamai_error + akamai_presence" where
  "ParseAkamaiDetailed akamai =
     (case ParseAkamai akamai of
        Inl e \<Rightarrow> Inl e
      | Inr (settings, pseudoOrder) \<Rightarrow>
          (let parts = split_on (CHR ''|'') akamai in
           Inr \<lparr>ap_Settings = settings, ap_PseudoOrder = pseudoOrder,
                ap_SeenSettings =
                  (if length parts \<ge> 1 \<and> parts ! 0 \<noteq> [] then seen_settings (split_on (CHR '';'') (parts ! 0)) []
                   else []),
                ap_HasWindowUpdate = (length parts \<ge> 2 \<and> trim_space (parts ! 1) \<noteq> []),
                ap_HasStreamWeight =
                  (length parts \<ge> 3 \<and> trim_space (parts ! 2) \<noteq> [] \<and> trim_space (parts ! 2) \<noteq> ''0'')\<rparr>))"

section \<open>Overlay on a preset\<close>

text \<open>
  The part of \<^verbatim>\<open>applyHTTP2\<close> in \<^verbatim>\<open>fingerprint/custom_preset.go\<close> that decides the
  HTTP/2 settings: the discrete fields of the JSON spec (a nil pointer is
  \<^const>\<open>None\<close>), then the slots the shorthand names, then the structured list.
\<close>

record http2_spec =
  sp_Akamai :: string
  sp_HeaderTableSize :: "u32 option"
  sp_EnablePush :: "bool option"
  sp_MaxConcurrentStreams :: "u32 option"
  sp_InitialWindowSize :: "u32 option"
  sp_MaxFrameSize :: "u32 option"
  sp_MaxHeaderListSize :: "u32 option"
  sp_ConnectionWindowUpdate :: "u32 option"
  sp_StreamWeight :: "u16 option"
  sp_StreamExclusive :: "bool option"
  sp_NoRFC7540Priorities :: "bool option"
  sp_Settings :: "(u16 \<times> u32) list"

text \<open>\<open>if spec.F != nil && !covered { x = *spec.F }\<close>\<close>

definition discrete :: "'a option \<Rightarrow> bool \<Rightarrow> 'a \<Rightarrow> 'a" where
  "discrete f covered x = (case f of None \<Rightarrow> x | Some v \<Rightarrow> if covered then x else v)"

definition ap_seen :: "akamai_presence option \<Rightarrow> u16 \<Rightarrow> bool" where
  "ap_seen akamai sid = (case akamai of None \<Rightarrow> False | Some a \<Rightarrow> sid \<in> set (ap_SeenSettings a))"

definition apply_discrete :: "http2_spec \<Rightarrow> akamai_presence option \<Rightarrow> http2_settings \<Rightarrow> http2_settings" where
  "apply_discrete spec akamai s =
     (let window = (case akamai of None \<Rightarrow> False | Some a \<Rightarrow> ap_HasWindowUpdate a);
          weight = (case akamai of None \<Rightarrow> False | Some a \<Rightarrow> ap_HasStreamWeight a) in
      \<lparr>hs_HeaderTableSize = discrete (sp_HeaderTableSize spec) (ap_seen akamai 1) (hs_HeaderTableSize s),
       hs_EnablePush = discrete (sp_EnablePush spec) (ap_seen akamai 2) (hs_EnablePush s),
       hs_MaxConcurrentStreams = discrete (sp_MaxConcurrentStreams spec) (ap_seen akamai 3) (hs_MaxConcurrentStreams s),
       hs_InitialWindowSize = discrete (sp_InitialWindowSize spec) (ap_seen akamai 4) (hs_InitialWindowSize s),
       hs_MaxFrameSize = discrete (sp_MaxFrameSize spec) (ap_seen akamai 5) (hs_MaxFrameSize s),
       hs_MaxHeaderListSize = discrete (sp_MaxHeaderListSize spec) (ap_seen akamai 6) (hs_MaxHeaderListSize s),
       hs_ConnectionWindowUpdate = discrete (sp_ConnectionWindowUpdate spec) window (hs_ConnectionWindowUpdate s),
       hs_StreamWeight = discrete (sp_StreamWeight spec) weight (hs_StreamWeight s),
       hs_StreamExclusive = discrete (sp_StreamExclusive spec) weight (hs_StreamExclusive s),
       hs_NoRFC7540Priorities = discrete (sp_NoRFC7540Priorities spec) (ap_seen akamai 9) (hs_NoRFC7540Priorities s)\<rparr>)"

definition apply_akamai :: "akamai_presence \<Rightarrow> http2_settings \<Rightarrow> http2_settings" where
  "apply_akamai a s =
     (let k = ap_Settings a; seen = (\<lambda>sid. sid \<in> set (ap_SeenSettings a)) in
      \<lparr>hs_HeaderTableSize = (if seen 1 then hs_HeaderTableSize k else hs_HeaderTableSize s),
       hs_EnablePush = (if seen 2 then hs_EnablePush k else hs_EnablePush s),
       hs_MaxConcurrentStreams = (if seen 3 then hs_MaxConcurrentStreams k else hs_MaxConcurrentStreams s),
       hs_InitialWindowSize = (if seen 4 then hs_InitialWindowSize k else hs_InitialWindowSize s),
       hs_MaxFrameSize = (if seen 5 then hs_MaxFrameSize k else hs_MaxFrameSize s),
       hs_MaxHeaderListSize = (if seen 6 then hs_MaxHeaderListSize k else hs_MaxHeaderListSize s),
       hs_ConnectionWindowUpdate = (if ap_HasWindowUpdate a then hs_ConnectionWindowUpdate k
                                    else hs_ConnectionWindowUpdate s),
       hs_StreamWeight = (if ap_HasStreamWeight a then hs_StreamWeight k else hs_StreamWeight s),
       hs_StreamExclusive = (if ap_HasStreamWeight a then hs_StreamExclusive k else hs_StreamExclusive s),
       hs_NoRFC7540Priorities = (if seen 9 then hs_NoRFC7540Priorities k else hs_NoRFC7540Priorities s)\<rparr>)"

definition apply_structured :: "u16 \<times> u32 \<Rightarrow> http2_settings \<Rightarrow> http2_settings" where
  "apply_structured = (\<lambda>(sid, val) s.
     if sid = 1 then s\<lparr>hs_HeaderTableSize := val\<rparr>
     else if sid = 2 then s\<lparr>hs_EnablePush := (val \<noteq> 0)\<rparr>
     else if sid = 3 then s\<lparr>hs_MaxConcurrentStreams := val\<rparr>
     else if sid = 4 then s\<lparr>hs_InitialWindowSize := val\<rparr>
     else if sid = 5 then s\<lparr>hs_MaxFrameSize := val\<rparr>
     else if sid = 6 then s\<lparr>hs_MaxHeaderListSize := val\<rparr>
     else if sid = 9 then s\<lparr>hs_NoRFC7540Priorities := (val \<noteq> 0)\<rparr>
     else s)"

definition applyHTTP2_settings :: "http2_spec \<Rightarrow> http2_settings \<Rightarrow> akamai_error + http2_settings" where
  "applyHTTP2_settings spec s =
     (if sp_Akamai spec \<noteq> [] then
        (case ParseAkamaiDetailed (sp_Akamai spec) of
           Inl e \<Rightarrow> Inl e
         | Inr a \<Rightarrow> Inr (fold apply_structured (sp_Settings spec)
                           (apply_akamai a (apply_discrete spec (Some a) s))))
      else Inr (fold apply_structured (sp_Settings spec) (apply_discrete spec None s)))"

section \<open>Printing\<close>

text \<open>The shorthand that stands for a record of settings and an order of pseudo-headers.\<close>

definition setting_pairs :: "http2_settings \<Rightarrow> (nat \<times> nat) list" where
  "setting_pairs s =
     [(1, unat (hs_HeaderTableSize s)), (2, if hs_EnablePush s then 1 else 0),
      (3, unat (hs_MaxConcurrentStreams s)), (4, unat (hs_InitialWindowSize s)),
      (5, unat (hs_MaxFrameSize s)), (6, unat (hs_MaxHeaderListSize s)),
      (9, if hs_NoRFC7540Priorities s then 1 else 0)]"

definition show_pair :: "nat \<times> nat \<Rightarrow> string" where
  "show_pair = (\<lambda>(i, v). show_nat i @ '':'' @ show_nat v)"

datatype pseudo = Method | Authority | Scheme | Path

fun pseudo_char :: "pseudo \<Rightarrow> string" where
  "pseudo_char Method = ''m''"
| "pseudo_char Authority = ''a''"
| "pseudo_char Scheme = ''s''"
| "pseudo_char Path = ''p''"

fun pseudo_name :: "pseudo \<Rightarrow> string" where
  "pseudo_name Method = '':method''"
| "pseudo_name Authority = '':authority''"
| "pseudo_name Scheme = '':scheme''"
| "pseudo_name Path = '':path''"

definition show_akamai :: "http2_settings \<Rightarrow> pseudo list \<Rightarrow> string" where
  "show_akamai s order =
     join ''|'' [join '';'' (map show_pair (setting_pairs s)),
                 show_nat (unat (hs_ConnectionWindowUpdate s)),
                 show_nat (unat (hs_StreamWeight s)),
                 join '','' (map pseudo_char order)]"


lemma ak_seps [simp]:
  "\<not> is_digit (CHR '':'')" "\<not> is_digit (CHR '';'')" "\<not> is_digit (CHR ''|'')"
  by (simp_all add: is_digit_def)

lemma show_pair_no_sep: "\<not> is_digit c \<Longrightarrow> c \<noteq> CHR '':'' \<Longrightarrow> c \<notin> set (show_pair p)"
  by (cases p) (auto simp: show_pair_def show_nat_no_sep)

lemma trim_show_pair: "trim_space (show_pair p) = show_pair p"
proof -
  obtain i v where p: "p = (i, v)" by (cases p)
  have "is_digit (hd (show_nat i))" "is_digit (last (show_nat v))"
    using show_nat_digits [of i] show_nat_digits [of v] by simp_all
  then show ?thesis
    unfolding trim_space_def p show_pair_def using digit_not_space by (intro trim_fn_id) auto
qed

lemma parse_pairs_show:
  assumes "\<forall>(i, v) \<in> set ps. i < 2 ^ 16 \<and> v < 2 ^ 32"
  shows "parse_pairs (map show_pair ps) s = Inr (fold (\<lambda>(i, v). apply_setting i v) ps s)"
  using assms
proof (induction ps arbitrary: s)
  case (Cons p ps)
  obtain i v where p: "p = (i, v)" by (cases p)
  have idx: "index_byte (show_pair p) (CHR '':'') = Some (length (show_nat i))"
    unfolding p show_pair_def by (simp add: index_byte_append show_nat_no_sep)
  have "parse_uint 16 (show_nat i) = Inr i" "parse_uint 32 (show_nat v) = Inr v"
    using Cons.prems p by (auto intro: parse_show_nat)
  moreover have "show_pair p \<noteq> []" by (simp add: p show_pair_def)
  ultimately show ?case
    using Cons idx by (simp add: trim_show_pair Let_def) (simp add: p show_pair_def)
qed simp

lemma fold_setting_pairs:
  "fold (\<lambda>(i, v). apply_setting i v) (setting_pairs s) zero_settings =
     s\<lparr>hs_ConnectionWindowUpdate := 0, hs_StreamWeight := 0, hs_StreamExclusive := False\<rparr>"
  by (cases s) (simp add: setting_pairs_def apply_setting_def zero_settings_def)

lemma trim_pseudo [simp]: "trim_space (pseudo_char p) = pseudo_char p"
  by (cases p) (simp_all add: trim_space_def trim_fn_def is_space_def)

lemmas trim_pseudo_chars = trim_pseudo [of Method, simplified] trim_pseudo [of Authority, simplified]
  trim_pseudo [of Scheme, simplified] trim_pseudo [of Path, simplified]

lemma parse_pseudo_show: "parse_pseudo (map pseudo_char order) = Inr (map pseudo_name order)"
proof (induction order)
  case (Cons p order)
  then show ?case by (cases p) (simp_all add: Let_def trim_pseudo_chars)
qed simp

lemma pseudo_char_facts: "pseudo_char p \<noteq> []" "\<not> is_space (hd (pseudo_char p))"
  "\<not> is_space (last (pseudo_char p))" "CHR '','' \<notin> set (pseudo_char p)" "CHR ''|'' \<notin> set (pseudo_char p)"
  by (cases p; simp add: is_space_def)+

lemma trim_pseudo_join: "trim_space (join '','' (map pseudo_char order)) = join '','' (map pseudo_char order)"
proof (cases order)
  case (Cons p ps)
  have "hd (join '','' (map pseudo_char order)) = hd (pseudo_char p)"
    using Cons pseudo_char_facts by (simp add: hd_join del: join.simps)
  moreover have "last (join '','' (map pseudo_char order)) = last (pseudo_char (last order))"
    using Cons pseudo_char_facts by (subst last_join) (simp_all add: last_map)
  ultimately show ?thesis
    unfolding trim_space_def using pseudo_char_facts by (intro trim_fn_id) simp
qed (simp add: trim_space_def trim_fn_def)

lemma split_show_akamai:
  "split_on (CHR ''|'') (show_akamai s order) =
     [join '';'' (map show_pair (setting_pairs s)), show_nat (unat (hs_ConnectionWindowUpdate s)),
      show_nat (unat (hs_StreamWeight s)), join '','' (map pseudo_char order)]"
proof -
  have "CHR ''|'' \<notin> set (join '';'' (map show_pair (setting_pairs s)))"
    using set_join [of "'';''" "map show_pair (setting_pairs s)"] show_pair_no_sep [of "CHR ''|''"] by auto
  moreover have "CHR ''|'' \<notin> set (join '','' (map pseudo_char order))"
    using set_join [of "'',''" "map pseudo_char order"] pseudo_char_facts by auto
  ultimately show ?thesis
    unfolding show_akamai_def by (intro split_join) (simp_all add: show_nat_no_sep)
qed

lemma split_pairs_join:
  "split_on (CHR '';'') (join '';'' (map show_pair (setting_pairs s))) = map show_pair (setting_pairs s)"
  by (rule split_join) (auto simp: setting_pairs_def show_pair_no_sep)

lemma setting_pairs_bounds: "\<forall>(i, v) \<in> set (setting_pairs s). i < 2 ^ 16 \<and> v < 2 ^ 32"
  using unsigned_less [of "hs_HeaderTableSize s"] unsigned_less [of "hs_MaxConcurrentStreams s"]
    unsigned_less [of "hs_InitialWindowSize s"] unsigned_less [of "hs_MaxFrameSize s"]
    unsigned_less [of "hs_MaxHeaderListSize s"]
  by (simp add: setting_pairs_def)

lemma parse_word: "LENGTH('a::len) = bits \<Longrightarrow> parse_uint bits (show_nat (unat (w :: 'a word))) = Inr (unat w)"
  using unsigned_less [of w] by (intro parse_show_nat) simp

lemma ParseAkamai_show:
  assumes "hs_StreamExclusive s \<longleftrightarrow> hs_StreamWeight s \<noteq> 0"
  shows "ParseAkamai (show_akamai s order) = Inr (s, map pseudo_name order)"
proof -
  have pairs: "join '';'' (map show_pair (setting_pairs s)) \<noteq> []"
    by (rule join_ne) (auto simp: setting_pairs_def show_pair_def)
  have "[] \<notin> set (map pseudo_char order)"
    using pseudo_char_facts(1) by (metis ex_map_conv)
  then have jn: "join '','' (map pseudo_char order) = [] \<longleftrightarrow> order = []"
    using join_ne [of "map pseudo_char order" "'',''"] by (cases "order = []") simp_all
  have sp: "order \<noteq> [] \<Longrightarrow> split_on (CHR '','') (join '','' (map pseudo_char order)) = map pseudo_char order"
    using pseudo_char_facts by (intro split_join) auto
  have "of_nat (unat (hs_StreamWeight s)) = hs_StreamWeight s" by simp
  then show ?thesis
    unfolding ParseAkamai_def split_show_akamai Let_def
    using pairs assms
    by (cases s; cases "order = []") (simp_all add: jn sp parse_pseudo_show split_pairs_join parse_pairs_show [OF setting_pairs_bounds] fold_setting_pairs
        parse_window_def parse_weight_def parse_word trim_pseudo_join unat_gt_0)
qed

section \<open>Properties\<close>

text \<open>
  Lemma. The Akamai shorthand loses nothing: parsing the shorthand printed for a
  record of HTTP/2 settings gives the record back, with the pseudo-headers in
  the order written.
\<close>

theorem akamai_roundtrip:
  assumes "hs_StreamExclusive s \<longleftrightarrow> hs_StreamWeight s \<noteq> 0"
  shows "ParseAkamai (show_akamai s order) = Inr (s, map pseudo_name order)"
  using assms by (rule ParseAkamai_show)

definition chrome_settings :: http2_settings where
  "chrome_settings = zero_settings\<lparr>hs_HeaderTableSize := 65536, hs_InitialWindowSize := 6291456,
     hs_MaxHeaderListSize := 262144, hs_ConnectionWindowUpdate := 15663105,
     hs_StreamWeight := 256, hs_StreamExclusive := True\<rparr>"

theorem akamai_roundtrip_witness:
  "ParseAkamai (show_akamai chrome_settings [Method, Authority, Scheme, Path]) =
     Inr (chrome_settings, ['':method'', '':authority'', '':scheme'', '':path''])"
  using akamai_roundtrip [of chrome_settings "[Method, Authority, Scheme, Path]"]
  by (simp add: chrome_settings_def zero_settings_def)

text \<open>
  Property C0. \<^verbatim>\<open>HasStreamWeight\<close> is not "a non-zero weight": a zero written as \<open>00\<close>
  is reported as a weight although the parser leaves the weight unset, so an
  overlay replaces an inherited weight by 0.
\<close>

theorem akamai_zero_weight_reported:
  "case ParseAkamaiDetailed ''1:65536||00|m,a,s,p'' of
     Inl _ \<Rightarrow> False
   | Inr p \<Rightarrow> ap_HasStreamWeight p \<and> \<not> hs_StreamExclusive (ap_Settings p) \<and>
       hs_StreamWeight (ap_Settings p) = 0"
  by (simp add: ParseAkamaiDetailed_def ParseAkamai_def parse_window_def parse_weight_def parse_uint_def
      is_digit_def digit_val_def trim_space_def trim_fn_def is_space_def zero_settings_def apply_setting_def)

lemma seen_settings_show:
  assumes "\<forall>(i, v) \<in> set ps. i < 2 ^ 16"
  shows "set (seen_settings (map show_pair ps) seen) = (of_nat \<circ> fst) ` set ps \<union> set seen"
  using assms
proof (induction ps arbitrary: seen)
  case (Cons p ps)
  obtain i v where p: "p = (i, v)" by (cases p)
  have idx: "index_byte (show_pair p) (CHR '':'') = Some (length (show_nat i))"
    unfolding p show_pair_def by (simp add: index_byte_append show_nat_no_sep)
  have "parse_uint 16 (show_nat i) = Inr i" using Cons.prems p by (auto intro: parse_show_nat)
  moreover have "show_pair p \<noteq> []" by (simp add: p show_pair_def)
  moreover have "take (length (show_nat i)) (show_pair p) = show_nat i" by (simp add: p show_pair_def)
  ultimately show ?case
    using Cons idx by (auto simp: trim_show_pair p Let_def)
qed simp

lemma ParseAkamaiDetailed_show:
  assumes "hs_StreamExclusive s \<longleftrightarrow> hs_StreamWeight s \<noteq> 0"
  shows "\<exists>a. ParseAkamaiDetailed (show_akamai s order) = Inr a \<and> ap_Settings a = s \<and>
    set (ap_SeenSettings a) = {1, 2, 3, 4, 5, 6, 9} \<and> ap_HasWindowUpdate a \<and>
    (ap_HasStreamWeight a \<longleftrightarrow> hs_StreamWeight s \<noteq> 0)"
proof -
  have pairs: "join '';'' (map show_pair (setting_pairs s)) \<noteq> []"
    by (rule join_ne) (auto simp: setting_pairs_def show_pair_def)
  have seen: "set (seen_settings (map show_pair (setting_pairs s)) []) = {1, 2, 3, 4, 5, 6, 9}"
    using setting_pairs_bounds [of s]
    by (subst seen_settings_show) (auto simp: setting_pairs_def)
  have "show_nat (unat (hs_StreamWeight s)) = ''0'' \<longleftrightarrow> hs_StreamWeight s = 0"
    using show_nat_inj [of "unat (hs_StreamWeight s)" 0] by (simp add: show_nat_eval unat_eq_0)
  with pairs seen assms show ?thesis
    by (simp add: ParseAkamaiDetailed_def ParseAkamai_show split_show_akamai split_pairs_join Let_def)
qed

text \<open>
  Lemma. In a JSON preset the Akamai shorthand wins over the discrete fields: with
  a shorthand that names every slot the resulting settings are the ones it
  prints, whatever the discrete fields and the inherited preset say. The comment on the
  fields of \<^verbatim>\<open>HTTP2Spec\<close> promises the opposite order.
\<close>

theorem akamai_shorthand_wins:
  assumes "hs_StreamExclusive s" and "hs_StreamWeight s \<noteq> 0"
    and "sp_Akamai spec = show_akamai s order" and "sp_Settings spec = []"
  shows "applyHTTP2_settings spec inherited = Inr s"
proof -
  obtain a where a: "ParseAkamaiDetailed (sp_Akamai spec) = Inr a" "ap_Settings a = s"
      "set (ap_SeenSettings a) = {1, 2, 3, 4, 5, 6, 9}" "ap_HasWindowUpdate a" "ap_HasStreamWeight a"
    using ParseAkamaiDetailed_show [of s order] assms by auto
  have "sp_Akamai spec \<noteq> []" using a(1) by (auto simp: ParseAkamaiDetailed_def ParseAkamai_def)
  then show ?thesis
    using a assms(4) by (cases s) (simp add: applyHTTP2_settings_def apply_akamai_def Let_def)
qed

theorem akamai_shorthand_wins_witness:
  "applyHTTP2_settings
     \<lparr>sp_Akamai = show_akamai chrome_settings [Method, Path], sp_HeaderTableSize = Some 1,
      sp_EnablePush = Some True, sp_MaxConcurrentStreams = Some 7, sp_InitialWindowSize = None,
      sp_MaxFrameSize = None, sp_MaxHeaderListSize = None, sp_ConnectionWindowUpdate = Some 5,
      sp_StreamWeight = Some 3, sp_StreamExclusive = Some False, sp_NoRFC7540Priorities = None,
      sp_Settings = []\<rparr> zero_settings = Inr chrome_settings"
  by (rule akamai_shorthand_wins) (simp_all add: chrome_settings_def)

end
