(* ===== verification/Preset_Config.thy ===== *)
theory Preset_Config
  imports JA3 Akamai Go_HTTP
begin

text \<open>
  What a browser fingerprint is: the preset of \<^verbatim>\<open>fingerprint/presets.go\<close> with the
  functions that read it, and the request headers derived from it in
  \<^verbatim>\<open>fingerprint/headers.go\<close>.

  A pointer that may be nil, and a slice whose nil the code tells from an empty one, is
  an option. An identity of the TLS library (\<^verbatim>\<open>tls.ClientHelloID\<close>) is the pair of its
  fields \<^verbatim>\<open>Client\<close> and \<^verbatim>\<open>Version\<close>, the only ones the code reads. Signature schemes are their
  code points. Random numbers and \<^verbatim>\<open>runtime.GOOS\<close> are arguments.
\<close>

section \<open>Data\<close>

record platform_info =
  pi_UserAgentOS :: string
  pi_Platform :: string
  pi_Arch :: string
  pi_PlatformVersion :: string
  pi_FirefoxUserAgentOS :: string

type_synonym client_hello_id = "string \<times> string"

record client_hints_profile =
  hp_FullVersionList :: string
  hp_PlatformVersion :: string
  hp_Arch :: string
  hp_Bitness :: string
  hp_Model :: string
  hp_Wow64 :: string

record tcp_fingerprint =
  tf_TTL :: int
  tf_MSS :: int
  tf_WindowSize :: int
  tf_WindowScale :: int
  tf_DFBit :: bool

record resource_priority =
  rp_Urgency :: byte
  rp_Incremental :: bool
  rp_EmitHeader :: bool
  rp_Weight :: u16

record h2_config =
  h2_HPACKHeaderOrder :: "string list option"
  h2_HPACKHeaderOrderSubresource :: "string list"
  h2_HPACKIndexingPolicy :: string
  h2_DataFrameMaxSize :: "u32 option"
  h2_HPACKRepresentation :: "(string, string) gomap"
  h2_HPACKNeverIndex :: "string list option"
  h2_StreamPriorityMode :: string
  h2_PrefacePingIdleMs :: "u32 option"
  h2_PrefacePingHangMs :: "u32 option"
  h2_IdlePingMs :: "u32 option"
  h2_DisableCookieSplit :: "bool option"
  h2_SettingsOrder :: "u16 list option"
  h2_PseudoHeaderOrder :: "string list option"
  h2_PriorityTable :: "(string, resource_priority) gomap"
  h2_PriorityModel :: string
  h2_PriorityOverHTTP1 :: "bool option"

record h3_config =
  h3_QPACKMaxTableCapacity :: "u64 option"
  h3_QPACKBlockedStreams :: "u64 option"
  h3_MaxFieldSectionSize :: "u64 option"
  h3_EnableDatagrams :: "bool option"
  h3_QUICInitialPacketSize :: "u16 option"
  h3_QUICMaxIncomingStreams :: "int option"
  h3_QUICMaxIncomingUniStreams :: "int option"
  h3_QUICAllow0RTT :: "bool option"
  h3_QUICChromeStyleInitial :: "bool option"
  h3_QUICDisableHelloScramble :: "bool option"
  h3_QUICTransportParamOrder :: string
  h3_QUICConnectionIDLength :: "int option"
  h3_QUICMaxDatagramFrameSize :: "u64 option"
  h3_MaxResponseHeaderBytes :: "u64 option"
  h3_SendGreaseFrames :: "bool option"
  h3_QUICConnectionOptions :: "string list option"
  h3_QUICInitialStreamReceiveWindow :: "u64 option"
  h3_QUICInitialConnectionReceiveWindow :: "u64 option"

record fp_preset =
  fp_Name :: string
  fp_ClientHelloID :: client_hello_id
  fp_PSKClientHelloID :: client_hello_id
  fp_QUICClientHelloID :: client_hello_id
  fp_QUICPSKClientHelloID :: client_hello_id
  fp_UserAgent :: string
  fp_Headers :: "(string, string) gomap"
  fp_HeaderOrder :: "(string \<times> string) list"
  fp_ImageAccept :: string
  fp_ClientHints :: client_hints_profile
  fp_HTTP2Settings :: http2_settings
  fp_TCPFingerprint :: tcp_fingerprint
  fp_SupportHTTP3 :: bool
  fp_DisableHTTP2 :: bool
  fp_H2Config :: "h2_config option"
  fp_H3Config :: "h3_config option"
  fp_JA3 :: string
  fp_PSKJA3 :: string
  fp_JA3Extras :: "ja3_extras option"
  fp_RawClientHello :: "byte list"
  fp_RawPSKClientHello :: "byte list"
  fp_RawBluntMimicry :: bool
  fp_RawPermuteExtensions :: bool
  fp_BasedOn :: string
  fp_SignatureAlgorithms :: "u16 list"
  fp_QUICSignatureAlgorithms :: "u16 list"
  fp_TrustAnchors :: "byte list list"
  fp_QUICTrustAnchorShuffle :: bool

text \<open>The zero values.\<close>

definition no_hello :: client_hello_id where
  "no_hello = ([], [])"

definition no_hints :: client_hints_profile where
  "no_hints = \<lparr>hp_FullVersionList = [], hp_PlatformVersion = [], hp_Arch = [], hp_Bitness = [], hp_Model = [], hp_Wow64 = []\<rparr>"

definition no_tcp :: tcp_fingerprint where
  "no_tcp = \<lparr>tf_TTL = 0, tf_MSS = 0, tf_WindowSize = 0, tf_WindowScale = 0, tf_DFBit = False\<rparr>"

definition no_h2 :: h2_config where
  "no_h2 =
     \<lparr>h2_HPACKHeaderOrder = None, h2_HPACKHeaderOrderSubresource = [], h2_HPACKIndexingPolicy = [], h2_DataFrameMaxSize = None,
      h2_HPACKRepresentation = [], h2_HPACKNeverIndex = None, h2_StreamPriorityMode = [], h2_PrefacePingIdleMs = None,
      h2_PrefacePingHangMs = None, h2_IdlePingMs = None, h2_DisableCookieSplit = None, h2_SettingsOrder = None,
      h2_PseudoHeaderOrder = None, h2_PriorityTable = [], h2_PriorityModel = [], h2_PriorityOverHTTP1 = None\<rparr>"

definition no_h3 :: h3_config where
  "no_h3 =
     \<lparr>h3_QPACKMaxTableCapacity = None, h3_QPACKBlockedStreams = None, h3_MaxFieldSectionSize = None, h3_EnableDatagrams = None,
      h3_QUICInitialPacketSize = None, h3_QUICMaxIncomingStreams = None, h3_QUICMaxIncomingUniStreams = None,
      h3_QUICAllow0RTT = None, h3_QUICChromeStyleInitial = None, h3_QUICDisableHelloScramble = None,
      h3_QUICTransportParamOrder = [], h3_QUICConnectionIDLength = None, h3_QUICMaxDatagramFrameSize = None,
      h3_MaxResponseHeaderBytes = None, h3_SendGreaseFrames = None, h3_QUICConnectionOptions = None,
      h3_QUICInitialStreamReceiveWindow = None, h3_QUICInitialConnectionReceiveWindow = None\<rparr>"

definition no_preset :: fp_preset where
  "no_preset =
     \<lparr>fp_Name = [], fp_ClientHelloID = no_hello, fp_PSKClientHelloID = no_hello, fp_QUICClientHelloID = no_hello,
      fp_QUICPSKClientHelloID = no_hello, fp_UserAgent = [], fp_Headers = [], fp_HeaderOrder = [], fp_ImageAccept = [],
      fp_ClientHints = no_hints, fp_HTTP2Settings = zero_settings, fp_TCPFingerprint = no_tcp, fp_SupportHTTP3 = False,
      fp_DisableHTTP2 = False, fp_H2Config = None, fp_H3Config = None, fp_JA3 = [], fp_PSKJA3 = [], fp_JA3Extras = None,
      fp_RawClientHello = [], fp_RawPSKClientHello = [], fp_RawBluntMimicry = False, fp_RawPermuteExtensions = False,
      fp_BasedOn = [], fp_SignatureAlgorithms = [], fp_QUICSignatureAlgorithms = [], fp_TrustAnchors = [],
      fp_QUICTrustAnchorShuffle = False\<rparr>"

section \<open>Platform\<close>

definition GetPlatformInfo :: "string \<Rightarrow> platform_info" where
  "GetPlatformInfo goos =
     (if goos = ''windows'' then
        \<lparr>pi_UserAgentOS = ''(Windows NT 10.0; Win64; x64)'', pi_Platform = ''Windows'', pi_Arch = ''x86'',
         pi_PlatformVersion = ''10.0.0'', pi_FirefoxUserAgentOS = ''(Windows NT 10.0; Win64; x64; rv:133.0)''\<rparr>
      else if goos = ''darwin'' then
        \<lparr>pi_UserAgentOS = ''(Macintosh; Intel Mac OS X 10_15_7)'', pi_Platform = ''macOS'', pi_Arch = ''arm'',
         pi_PlatformVersion = ''14.7.0'', pi_FirefoxUserAgentOS = ''(Macintosh; Intel Mac OS X 10.15; rv:133.0)''\<rparr>
      else
        \<lparr>pi_UserAgentOS = ''(X11; Linux x86_64)'', pi_Platform = ''Linux'', pi_Arch = ''x86'',
         pi_PlatformVersion = ''6.12.0'', pi_FirefoxUserAgentOS = ''(X11; Linux x86_64; rv:133.0)''\<rparr>)"

definition WindowsTCPFingerprint :: tcp_fingerprint where
  "WindowsTCPFingerprint = \<lparr>tf_TTL = 128, tf_MSS = 1460, tf_WindowSize = 64240, tf_WindowScale = 8, tf_DFBit = True\<rparr>"

definition LinuxTCPFingerprint :: tcp_fingerprint where
  "LinuxTCPFingerprint = \<lparr>tf_TTL = 64, tf_MSS = 1460, tf_WindowSize = 65535, tf_WindowScale = 7, tf_DFBit = True\<rparr>"

definition MacOSTCPFingerprint :: tcp_fingerprint where
  "MacOSTCPFingerprint = \<lparr>tf_TTL = 64, tf_MSS = 1460, tf_WindowSize = 65535, tf_WindowScale = 6, tf_DFBit = True\<rparr>"

definition PlatformTCPFingerprint :: "string \<Rightarrow> tcp_fingerprint" where
  "PlatformTCPFingerprint platform =
     (if platform = ''Windows'' then WindowsTCPFingerprint
      else if platform = ''macOS'' then MacOSTCPFingerprint
      else LinuxTCPFingerprint)"

section \<open>Priorities\<close>

definition defaultPriorityTable :: "(string, resource_priority) gomap" where
  "defaultPriorityTable =
     (let entry = (\<lambda>u i. \<lparr>rp_Urgency = u, rp_Incremental = i, rp_EmitHeader = True, rp_Weight = 0\<rparr>) in
      [(''audio'', entry 3 True), (''document'', entry 0 True), (''embed'', entry 0 True), (''empty'', entry 1 True),
       (''font'', entry 1 False), (''iframe'', entry 0 True), (''image'', entry 2 True), (''manifest'', entry 2 False),
       (''object'', entry 0 True), (''script'', entry 1 False), (''style'', entry 0 False), (''track'', entry 3 True),
       (''video'', entry 3 True), (''worker'', entry 4 True)])"

definition PriorityFromUrgency :: "byte \<Rightarrow> u16" where
  "PriorityFromUrgency urgency0 =
     (let urgency = (if urgency0 > 7 then 7 else urgency0)
      in ucast (256 - ((ucast urgency :: u32) * 73) div 2))"

definition uint8ToASCII :: "byte \<Rightarrow> string" where
  "uint8ToASCII v =
     (if v \<le> 9 then [char_of (unat (48 + v))]
      else [char_of (unat (48 + v div 10)), char_of (unat (48 + v mod 10))])"

definition PriorityHeaderFromResource :: "resource_priority \<Rightarrow> string" where
  "PriorityHeaderFromResource rp =
     (if \<not> rp_EmitHeader rp then []
      else
        (let uIsDefault = (rp_Urgency rp = 3) in
         if uIsDefault \<and> \<not> rp_Incremental rp then []
         else if uIsDefault \<and> rp_Incremental rp then ''i''
         else if \<not> uIsDefault \<and> \<not> rp_Incremental rp then ''u='' @ uint8ToASCII (rp_Urgency rp)
         else ''u='' @ uint8ToASCII (rp_Urgency rp) @ '', i''))"

section \<open>HTTP/2\<close>

definition h2_field :: "(h2_config \<Rightarrow> 'a option) \<Rightarrow> 'a \<Rightarrow> fp_preset \<Rightarrow> 'a" where
  "h2_field f dflt p =
     (case fp_H2Config p of
        None \<Rightarrow> dflt
      | Some c \<Rightarrow> (case f c of None \<Rightarrow> dflt | Some v \<Rightarrow> v))"

definition nonempty :: "'a list \<Rightarrow> 'a list option" where
  "nonempty s = (if s = [] then None else Some s)"

definition chrome_header_order :: "string list" where
  "chrome_header_order =
     [''cache-control'', ''sec-ch-ua'', ''sec-ch-ua-arch'', ''sec-ch-ua-bitness'', ''sec-ch-ua-full-version-list'',
      ''sec-ch-ua-mobile'', ''sec-ch-ua-model'', ''sec-ch-ua-platform'', ''sec-ch-ua-platform-version'', ''sec-ch-ua-wow64'',
      ''upgrade-insecure-requests'', ''user-agent'', ''content-type'', ''content-length'', ''accept'', ''origin'',
      ''sec-fetch-site'', ''sec-fetch-mode'', ''sec-fetch-user'', ''sec-fetch-dest'', ''referer'',
      ''if-none-match'', ''if-modified-since'', ''accept-encoding'', ''accept-language'', ''cookie'', ''priority'']"

definition H2HeaderOrder :: "fp_preset \<Rightarrow> string list" where
  "H2HeaderOrder = h2_field h2_HPACKHeaderOrder chrome_header_order"

definition H2HPACKIndexingPolicy :: "fp_preset \<Rightarrow> string" where
  "H2HPACKIndexingPolicy = h2_field (\<lambda>c. nonempty (h2_HPACKIndexingPolicy c)) ''chrome''"

definition H2DataFrameMaxSize :: "fp_preset \<Rightarrow> u32" where
  "H2DataFrameMaxSize p = h2_field h2_DataFrameMaxSize (if fst (fp_ClientHelloID p) = ''Chrome'' then 16375 else 0) p"

abbreviation millisecond :: duration where
  "millisecond \<equiv> 1000000"

definition H2PrefacePingIdle :: "fp_preset \<Rightarrow> duration" where
  "H2PrefacePingIdle = h2_field (\<lambda>c. map_option (\<lambda>v. uint v * millisecond) (h2_PrefacePingIdleMs c)) 0"

definition H2PrefacePingHang :: "fp_preset \<Rightarrow> duration" where
  "H2PrefacePingHang p =
     h2_field (\<lambda>c. map_option (\<lambda>v. uint v * millisecond) (h2_PrefacePingHangMs c)) (H2PrefacePingIdle p) p"

definition H2IdlePing :: "fp_preset \<Rightarrow> duration" where
  "H2IdlePing = h2_field (\<lambda>c. map_option (\<lambda>v. uint v * millisecond) (h2_IdlePingMs c)) 0"

definition H2HPACKRepresentation :: "fp_preset \<Rightarrow> (string, string) gomap" where
  "H2HPACKRepresentation = h2_field (\<lambda>c. nonempty (h2_HPACKRepresentation c)) []"

definition H2HPACKNeverIndex :: "fp_preset \<Rightarrow> string list" where
  "H2HPACKNeverIndex = h2_field h2_HPACKNeverIndex []"

definition H2StreamPriorityMode :: "fp_preset \<Rightarrow> string" where
  "H2StreamPriorityMode = h2_field (\<lambda>c. nonempty (h2_StreamPriorityMode c)) ''chrome''"

definition H2DisableCookieSplit :: "fp_preset \<Rightarrow> bool" where
  "H2DisableCookieSplit = h2_field h2_DisableCookieSplit True"

definition H2SettingsOrder :: "fp_preset \<Rightarrow> u16 list option" where
  "H2SettingsOrder p = Option.bind (fp_H2Config p) h2_SettingsOrder"

definition H2PseudoHeaderOrder :: "fp_preset \<Rightarrow> string list option" where
  "H2PseudoHeaderOrder p = Option.bind (fp_H2Config p) h2_PseudoHeaderOrder"

definition H2HeaderOrderFor :: "string \<Rightarrow> fp_preset \<Rightarrow> string list" where
  "H2HeaderOrderFor dest p =
     (if dest = [] \<or> dest = ''document'' \<or> dest = ''iframe'' then H2HeaderOrder p
      else h2_field (\<lambda>c. nonempty (h2_HPACKHeaderOrderSubresource c)) (H2HeaderOrder p) p)"

text \<open>The table that applies, if any: the preset's own or the default one.\<close>

definition own_table :: "fp_preset \<Rightarrow> (string, resource_priority) gomap" where
  "own_table p = (case fp_H2Config p of None \<Rightarrow> [] | Some c \<Rightarrow> h2_PriorityTable c)"

definition H2HasPriorityTable :: "fp_preset \<Rightarrow> bool" where
  "H2HasPriorityTable p =
     (if own_table p \<noteq> [] then True
      else if hs_NoRFC7540Priorities (fp_HTTP2Settings p) then False
      else defaultPriorityTable \<noteq> [])"

definition H2PriorityFor :: "string \<Rightarrow> fp_preset \<Rightarrow> (u16 \<times> bool \<times> string) option" where
  "H2PriorityFor dest p =
     (if own_table p = [] \<and> hs_NoRFC7540Priorities (fp_HTTP2Settings p) then None
      else
        (case map_of (if own_table p \<noteq> [] then own_table p else defaultPriorityTable) dest of
           None \<Rightarrow> None
         | Some rp \<Rightarrow>
             Some (if rp_Weight rp = 0 then PriorityFromUrgency (rp_Urgency rp) else rp_Weight rp,
                   hs_StreamExclusive (fp_HTTP2Settings p), PriorityHeaderFromResource rp)))"

definition H2PriorityModel :: "fp_preset \<Rightarrow> string" where
  "H2PriorityModel p =
     h2_field (\<lambda>c. nonempty (h2_PriorityModel c))
       (if hs_StreamExclusive (fp_HTTP2Settings p) \<and> \<not> hs_NoRFC7540Priorities (fp_HTTP2Settings p) then ''chromium'' else ''table'') p"

definition SendsPriorityOverHTTP1 :: "fp_preset \<Rightarrow> bool" where
  "SendsPriorityOverHTTP1 p =
     h2_field h2_PriorityOverHTTP1
       (if H2PriorityModel p = ''chromium'' then False
        else \<not> has_prefix (fp_Name p) ''chrome-'' \<and> \<not> has_prefix (fp_Name p) ''Chrome'') p"

section \<open>HTTP/3\<close>

definition h3_field :: "(h3_config \<Rightarrow> 'a option) \<Rightarrow> 'a \<Rightarrow> fp_preset \<Rightarrow> 'a" where
  "h3_field f dflt p =
     (case fp_H3Config p of
        None \<Rightarrow> dflt
      | Some c \<Rightarrow> (case f c of None \<Rightarrow> dflt | Some v \<Rightarrow> v))"

definition H3QPACKMaxTableCapacity :: "fp_preset \<Rightarrow> u64" where
  "H3QPACKMaxTableCapacity p =
     h3_field h3_QPACKMaxTableCapacity (if hs_NoRFC7540Priorities (fp_HTTP2Settings p) then 16383 else 65536) p"

definition H3QPACKBlockedStreams :: "fp_preset \<Rightarrow> u64" where
  "H3QPACKBlockedStreams = h3_field h3_QPACKBlockedStreams 100"

definition H3MaxFieldSectionSize :: "fp_preset \<Rightarrow> u64" where
  "H3MaxFieldSectionSize p =
     h3_field h3_MaxFieldSectionSize (if hs_NoRFC7540Priorities (fp_HTTP2Settings p) then 0 else 262144) p"

definition H3EnableDatagrams :: "fp_preset \<Rightarrow> bool" where
  "H3EnableDatagrams p = h3_field h3_EnableDatagrams (\<not> hs_NoRFC7540Priorities (fp_HTTP2Settings p)) p"

definition H3QUICInitialPacketSize :: "fp_preset \<Rightarrow> u16" where
  "H3QUICInitialPacketSize = h3_field h3_QUICInitialPacketSize 1250"

definition H3QUICMaxIncomingStreams :: "fp_preset \<Rightarrow> int" where
  "H3QUICMaxIncomingStreams = h3_field h3_QUICMaxIncomingStreams 100"

definition H3QUICMaxIncomingUniStreams :: "fp_preset \<Rightarrow> int" where
  "H3QUICMaxIncomingUniStreams = h3_field h3_QUICMaxIncomingUniStreams 103"

definition H3QUICAllow0RTT :: "fp_preset \<Rightarrow> bool" where
  "H3QUICAllow0RTT = h3_field h3_QUICAllow0RTT True"

definition H3QUICChromeStyleInitial :: "fp_preset \<Rightarrow> bool" where
  "H3QUICChromeStyleInitial = h3_field h3_QUICChromeStyleInitial True"

definition H3QUICDisableHelloScramble :: "fp_preset \<Rightarrow> bool" where
  "H3QUICDisableHelloScramble = h3_field h3_QUICDisableHelloScramble True"

definition H3QUICTransportParamOrder :: "fp_preset \<Rightarrow> string" where
  "H3QUICTransportParamOrder = h3_field (\<lambda>c. nonempty (h3_QUICTransportParamOrder c)) ''chrome''"

definition H3QUICConnectionIDLength :: "fp_preset \<Rightarrow> int" where
  "H3QUICConnectionIDLength = h3_field h3_QUICConnectionIDLength 0"

definition H3QUICMaxDatagramFrameSize :: "fp_preset \<Rightarrow> u64" where
  "H3QUICMaxDatagramFrameSize = h3_field h3_QUICMaxDatagramFrameSize 65536"

definition H3QUICConnectionOptions :: "fp_preset \<Rightarrow> string list" where
  "H3QUICConnectionOptions = h3_field h3_QUICConnectionOptions [''ORIG'']"

definition H3MaxResponseHeaderBytes :: "fp_preset \<Rightarrow> u64" where
  "H3MaxResponseHeaderBytes = h3_field h3_MaxResponseHeaderBytes 262144"

definition H3SendGreaseFrames :: "fp_preset \<Rightarrow> bool" where
  "H3SendGreaseFrames = h3_field h3_SendGreaseFrames True"

definition H3QUICInitialStreamReceiveWindow :: "fp_preset \<Rightarrow> u64" where
  "H3QUICInitialStreamReceiveWindow = h3_field h3_QUICInitialStreamReceiveWindow 0"

definition H3QUICInitialConnectionReceiveWindow :: "fp_preset \<Rightarrow> u64" where
  "H3QUICInitialConnectionReceiveWindow = h3_field h3_QUICInitialConnectionReceiveWindow 0"

section \<open>The ClientHello\<close>

text \<open>The schemes that \<^verbatim>\<open>ja3.go\<close> names, with their code points.\<close>

definition scheme_codes :: "(u16 \<times> sig_scheme) list" where
  "scheme_codes =
     [(0x0403, ECDSAWithP256AndSHA256), (0x0503, ECDSAWithP384AndSHA384), (0x0603, ECDSAWithP521AndSHA512), (0x0203, ECDSAWithSHA1),
      (0x0804, PSSWithSHA256), (0x0805, PSSWithSHA384), (0x0806, PSSWithSHA512),
      (0x0401, PKCS1WithSHA256), (0x0501, PKCS1WithSHA384), (0x0601, PKCS1WithSHA512), (0x0201, PKCS1WithSHA1)]"

definition scheme_of :: "u16 \<Rightarrow> sig_scheme" where
  "scheme_of v = (case map_of scheme_codes v of Some s \<Rightarrow> s | None \<Rightarrow> OtherScheme v)"

definition scheme_code :: "sig_scheme \<Rightarrow> u16" where
  "scheme_code s =
     (case s of
        OtherScheme v \<Rightarrow> v
      | _ \<Rightarrow> (case find (\<lambda>x. snd x = s) scheme_codes of Some (v, s') \<Rightarrow> v | None \<Rightarrow> 0))"

text \<open>
  The extensions of a ClientHello: those of \<^verbatim>\<open>ja3.go\<close>, and the trust anchors with the flag
  that shuffles their list.
\<close>

datatype hello_extension =
    Ext tls_extension
  | TrustAnchorsExtension "byte list list" bool
  | QUICTransportParametersExtension

type_synonym hello_spec = "hello_extension list"

fun ApplySignatureAlgorithms :: "u16 list \<Rightarrow> hello_spec \<Rightarrow> hello_spec" where
  "ApplySignatureAlgorithms [] exts = exts"
| "ApplySignatureAlgorithms algs [] = []"
| "ApplySignatureAlgorithms algs (Ext (SignatureAlgorithmsExtension s) # exts) =
     Ext (SignatureAlgorithmsExtension (map scheme_of algs)) # exts"
| "ApplySignatureAlgorithms algs (e # exts) = e # ApplySignatureAlgorithms algs exts"

fun is_trust_anchors :: "hello_extension \<Rightarrow> bool" where
  "is_trust_anchors (TrustAnchorsExtension as s) = True"
| "is_trust_anchors e = False"

text \<open>GREASE, padding and \<^verbatim>\<open>pre_shared_key\<close> stay where they are.\<close>

fun pinned :: "hello_extension \<Rightarrow> bool" where
  "pinned (Ext UtlsGREASEExtension) = True"
| "pinned (Ext UtlsPaddingExtension) = True"
| "pinned (Ext UtlsPreSharedKeyExtension) = True"
| "pinned e = False"

definition movableRange :: "hello_spec \<Rightarrow> nat \<times> nat" where
  "movableRange exts =
     (let start = (if exts \<noteq> [] \<and> hd exts = Ext UtlsGREASEExtension then 1 else 0)
      in (start, start + length (dropWhile pinned (rev (drop start exts)))))"

text \<open>\<open>r\<close> is the 64-bit number that was drawn.\<close>

definition randIntn :: "nat \<Rightarrow> nat \<Rightarrow> nat" where
  "randIntn r n = (if n \<le> 1 then 0 else r mod n)"

definition applyTrustAnchors :: "nat \<Rightarrow> byte list list \<Rightarrow> bool \<Rightarrow> hello_spec \<Rightarrow> hello_spec" where
  "applyTrustAnchors r anchors shuffleList exts =
     (if anchors = [] then exts
      else
        (let ext = TrustAnchorsExtension anchors shuffleList in
         if list_ex is_trust_anchors exts then
           takeWhile (\<lambda>e. \<not> is_trust_anchors e) exts @ ext # tl (dropWhile (\<lambda>e. \<not> is_trust_anchors e) exts)
         else
           (case movableRange exts of (start, end) \<Rightarrow>
              (let at = start + randIntn r (end - start + 1) in take at exts @ ext # drop at exts))))"

definition ApplyTrustAnchors :: "nat \<Rightarrow> byte list list \<Rightarrow> hello_spec \<Rightarrow> hello_spec" where
  "ApplyTrustAnchors r anchors = applyTrustAnchors r anchors False"

definition ApplyQUICTrustAnchors :: "nat \<Rightarrow> fp_preset option \<Rightarrow> hello_spec \<Rightarrow> hello_spec" where
  "ApplyQUICTrustAnchors r p exts =
     (case p of None \<Rightarrow> exts | Some p \<Rightarrow> applyTrustAnchors r (fp_TrustAnchors p) (fp_QUICTrustAnchorShuffle p) exts)"

text \<open>\<open>base\<close> is what the TLS library makes of an identity and a seed.\<close>

definition SpecForWithAnchors ::
    "(client_hello_id \<Rightarrow> int \<Rightarrow> string + hello_spec) \<Rightarrow> nat \<Rightarrow> client_hello_id \<Rightarrow> int \<Rightarrow> u16 list \<Rightarrow> byte list list \<Rightarrow> string + hello_spec" where
  "SpecForWithAnchors base r hid seed sigAlgs anchors =
     map_sum (\<lambda>e. e) (\<lambda>exts. ApplyTrustAnchors r anchors (ApplySignatureAlgorithms sigAlgs exts)) (base hid seed)"

definition SpecFor ::
    "(client_hello_id \<Rightarrow> int \<Rightarrow> string + hello_spec) \<Rightarrow> client_hello_id \<Rightarrow> int \<Rightarrow> u16 list \<Rightarrow> string + hello_spec" where
  "SpecFor base hid seed sigAlgs = SpecForWithAnchors base 0 hid seed sigAlgs []"

definition SpecForQUICWithAnchors ::
    "(client_hello_id \<Rightarrow> int \<Rightarrow> string + hello_spec) \<Rightarrow> int \<Rightarrow> nat \<Rightarrow> client_hello_id \<Rightarrow> int \<Rightarrow> u16 list \<Rightarrow> byte list list \<Rightarrow> bool \<Rightarrow>
     string + hello_spec" where
  "SpecForQUICWithAnchors base fresh r hid seed sigAlgs anchors shuffleAnchors =
     map_sum (\<lambda>e. e) (\<lambda>exts. applyTrustAnchors r anchors shuffleAnchors (ApplySignatureAlgorithms sigAlgs exts)) (base hid fresh)"

section \<open>Client hints\<close>

record resolved_hints =
  rh_UA :: string
  rh_UAMobile :: string
  rh_UAPlatform :: string
  rh_UAArch :: string
  rh_UABitness :: string
  rh_UAFullVersionList :: string
  rh_UAModel :: string
  rh_UAPlatformVersion :: string
  rh_UAWow64 :: string

abbreviation quote :: char where
  "quote \<equiv> CHR 0x22"

definition in_quotes :: "string \<Rightarrow> string" where
  "in_quotes s = quote # s @ [quote]"

text \<open>The loop of \<^verbatim>\<open>splitBrandList\<close>: \<open>acc\<close> is \<open>s[start:i]\<close>.\<close>

fun brand_loop :: "bool \<Rightarrow> string \<Rightarrow> string \<Rightarrow> string list" where
  "brand_loop inside acc [] = [trim_space acc]"
| "brand_loop inside acc (c # s) =
     (if c = quote then brand_loop (\<not> inside) (acc @ [c]) s
      else if c = CHR '','' \<and> \<not> inside then trim_space acc # brand_loop inside [] s
      else brand_loop inside (acc @ [c]) s)"

definition splitBrandList :: "string \<Rightarrow> string list" where
  "splitBrandList s = brand_loop False [] s"

fun index_str :: "string \<Rightarrow> string \<Rightarrow> nat option" where
  "index_str p [] = (if p = [] then Some 0 else None)"
| "index_str p (c # s) = (if has_prefix (c # s) p then Some 0 else map_option Suc (index_str p s))"

definition version_marker :: string where
  "version_marker = '';v='' @ [quote]"

definition expandBrandVersion :: "string \<Rightarrow> string" where
  "expandBrandVersion entry =
     (case index_str version_marker entry of
        None \<Rightarrow> entry
      | Some idx \<Rightarrow>
          (let vStart = idx + length version_marker in
           case index_byte (drop vStart entry) quote of
             None \<Rightarrow> entry
           | Some vEnd \<Rightarrow>
               (let ver = take vEnd (drop vStart entry) in
                if ver = [] \<or> CHR ''.'' \<in> set ver then entry
                else take vStart entry @ ver @ ''.0.0.0'' @ drop (vStart + vEnd) entry)))"

definition expandSecChUaVersions :: "string \<Rightarrow> string" where
  "expandSecChUaVersions secChUa =
     (if secChUa = [] then [] else join '', '' (map expandBrandVersion (splitBrandList secChUa)))"

definition defaultClientHintArch :: "string \<Rightarrow> bool \<Rightarrow> string" where
  "defaultClientHintArch platformName isMobile =
     (if isMobile then in_quotes [] else if platformName = ''macOS'' then in_quotes ''arm'' else in_quotes ''x86'')"

definition defaultClientHintBitness :: "bool \<Rightarrow> string" where
  "defaultClientHintBitness isMobile = (if isMobile then in_quotes [] else in_quotes ''64'')"

definition defaultClientHintPlatformVersion :: "string \<Rightarrow> string" where
  "defaultClientHintPlatformVersion platformName =
     (if platformName = ''Windows'' then in_quotes ''15.0.0''
      else if platformName = ''macOS'' then in_quotes ''14.5.0''
      else if platformName = ''Android'' then in_quotes ''14.0.0''
      else in_quotes [])"

definition unquote :: "string \<Rightarrow> string" where
  "unquote s = (if length s \<ge> 2 \<and> hd s = quote \<and> last s = quote then butlast (tl s) else s)"

definition firstNonEmpty :: "string \<Rightarrow> string \<Rightarrow> string" where
  "firstNonEmpty a b = (if a \<noteq> [] then a else b)"

definition map_get :: "(string, string) gomap \<Rightarrow> string \<Rightarrow> string" where
  "map_get m k = (case map_of m k of None \<Rightarrow> [] | Some v \<Rightarrow> v)"

definition ResolveClientHints :: "fp_preset \<Rightarrow> resolved_hints" where
  "ResolveClientHints p =
     (let secChUa = map_get (fp_Headers p) ''sec-ch-ua'';
          platformName = unquote (map_get (fp_Headers p) ''sec-ch-ua-platform'');
          isMobile = (map_get (fp_Headers p) ''sec-ch-ua-mobile'' = ''?1'');
          c = fp_ClientHints p
      in \<lparr>rh_UA = secChUa,
          rh_UAMobile = firstNonEmpty (map_get (fp_Headers p) ''sec-ch-ua-mobile'') ''?0'',
          rh_UAPlatform = map_get (fp_Headers p) ''sec-ch-ua-platform'',
          rh_UAArch = firstNonEmpty (hp_Arch c) (defaultClientHintArch platformName isMobile),
          rh_UABitness = firstNonEmpty (hp_Bitness c) (defaultClientHintBitness isMobile),
          rh_UAFullVersionList =
            (if hp_FullVersionList c \<noteq> [] then hp_FullVersionList c else expandSecChUaVersions secChUa),
          rh_UAModel = firstNonEmpty (hp_Model c) (in_quotes []),
          rh_UAPlatformVersion =
            (if hp_PlatformVersion c \<noteq> [] then hp_PlatformVersion c else defaultClientHintPlatformVersion platformName),
          rh_UAWow64 = firstNonEmpty (hp_Wow64 c) ''?0''\<rparr>)"

definition GenerateClientHints :: "string \<Rightarrow> platform_info \<Rightarrow> bool \<Rightarrow> resolved_hints" where
  "GenerateClientHints chromeVersion platform includeHighEntropy =
     (let brands = (\<lambda>v. in_quotes ''Google Chrome'' @ version_marker @ chromeVersion @ v @ [quote] @ '', '' @
            in_quotes ''Chromium'' @ version_marker @ chromeVersion @ v @ [quote] @ '', '' @
            in_quotes ''Not_A Brand'' @ version_marker @ ''24'' @ v @ [quote]);
          hints = \<lparr>rh_UA = brands [], rh_UAMobile = ''?0'', rh_UAPlatform = in_quotes (pi_Platform platform), rh_UAArch = [],
             rh_UABitness = [], rh_UAFullVersionList = [], rh_UAModel = [], rh_UAPlatformVersion = [], rh_UAWow64 = []\<rparr>
      in if includeHighEntropy then
           hints\<lparr>rh_UAArch := in_quotes (pi_Arch platform), rh_UABitness := in_quotes ''64'',
             rh_UAFullVersionList := brands ''.0.0.0'', rh_UAPlatformVersion := in_quotes (pi_PlatformVersion platform)\<rparr>
         else hints)"

section \<open>Request contexts\<close>

record request_context =
  rc_Mode :: string
  rc_Dest :: string
  rc_Site :: string
  rc_IsUserTriggered :: bool
  rc_Referrer :: string
  rc_TargetURL :: string

definition getRegistrableDomain :: "string \<Rightarrow> string" where
  "getRegistrableDomain host0 =
     (let host = (case last_index_byte host0 (CHR '':'') of None \<Rightarrow> host0 | Some idx \<Rightarrow> take idx host0);
          parts = split_on (CHR ''.'') host
      in if length parts \<ge> 2 then join ''.'' (drop (length parts - 2) parts) else host)"

definition calculateFetchSite :: "url_lib \<Rightarrow> string \<Rightarrow> string \<Rightarrow> string" where
  "calculateFetchSite ul referrer targetURL =
     (if referrer = [] then ''none''
      else
        (case (ul_Parse ul referrer, ul_Parse ul targetURL) of
           (Some refURL, Some targURL) \<Rightarrow>
             if url_Scheme refURL = url_Scheme targURL \<and> url_Host refURL = url_Host targURL then ''same-origin''
             else if getRegistrableDomain (url_Host refURL) = getRegistrableDomain (url_Host targURL) \<and>
                     url_Scheme refURL = url_Scheme targURL then ''same-site''
             else ''cross-site''
         | _ \<Rightarrow> ''cross-site''))"

definition NavigationContext :: request_context where
  "NavigationContext =
     \<lparr>rc_Mode = ''navigate'', rc_Dest = ''document'', rc_Site = ''none'', rc_IsUserTriggered = True, rc_Referrer = [], rc_TargetURL = []\<rparr>"

definition resource_context :: "string \<Rightarrow> string \<Rightarrow> url_lib \<Rightarrow> string \<Rightarrow> string \<Rightarrow> request_context" where
  "resource_context mode dest ul referrer targetURL =
     \<lparr>rc_Mode = mode, rc_Dest = dest, rc_Site = calculateFetchSite ul referrer targetURL, rc_IsUserTriggered = False,
      rc_Referrer = referrer, rc_TargetURL = targetURL\<rparr>"

definition XHRContext :: "url_lib \<Rightarrow> string \<Rightarrow> string \<Rightarrow> request_context" where
  "XHRContext = resource_context ''cors'' ''empty''"

definition ImageContext :: "url_lib \<Rightarrow> string \<Rightarrow> string \<Rightarrow> request_context" where
  "ImageContext = resource_context ''no-cors'' ''image''"

definition ScriptContext :: "url_lib \<Rightarrow> string \<Rightarrow> string \<Rightarrow> request_context" where
  "ScriptContext = resource_context ''no-cors'' ''script''"

definition StyleContext :: "url_lib \<Rightarrow> string \<Rightarrow> string \<Rightarrow> request_context" where
  "StyleContext = resource_context ''no-cors'' ''style''"

definition FontContext :: "url_lib \<Rightarrow> string \<Rightarrow> string \<Rightarrow> request_context" where
  "FontContext = resource_context ''cors'' ''font''"

record sec_fetch_headers =
  sf_Site :: string
  sf_Mode :: string
  sf_Dest :: string
  sf_User :: string

definition GenerateSecFetchHeaders :: "request_context \<Rightarrow> sec_fetch_headers" where
  "GenerateSecFetchHeaders ctx =
     \<lparr>sf_Site = rc_Site ctx, sf_Mode = rc_Mode ctx, sf_Dest = rc_Dest ctx,
      sf_User = (if rc_IsUserTriggered ctx \<and> rc_Mode ctx = ''navigate'' then ''?1'' else [])\<rparr>"

definition legacyNavigationAccept :: string where
  "legacyNavigationAccept =
     ''text/html,application/xhtml+xml,application/xml;q=0.9,image/avif,image/webp,image/apng,*/*;q=0.8,application/signed-exchange;v=b3;q=0.7''"

definition legacyImageAccept :: string where
  "legacyImageAccept = ''image/avif,image/webp,image/apng,image/svg+xml,image/*,*/*;q=0.8''"

definition is_accept :: "string \<times> string \<Rightarrow> bool" where
  "is_accept = (\<lambda>(k, v). to_lower k = ''accept'' \<and> v \<noteq> [])"

definition ResolveNavigationAccept :: "fp_preset option \<Rightarrow> string" where
  "ResolveNavigationAccept p =
     (case p of
        None \<Rightarrow> legacyNavigationAccept
      | Some p \<Rightarrow>
          (case find is_accept (fp_HeaderOrder p) of
             Some (k, v) \<Rightarrow> v
           | None \<Rightarrow> (case find is_accept (fp_Headers p) of Some (k, v) \<Rightarrow> v | None \<Rightarrow> legacyNavigationAccept)))"

definition ResolveImageAccept :: "fp_preset option \<Rightarrow> string" where
  "ResolveImageAccept p =
     (case p of None \<Rightarrow> legacyImageAccept | Some p \<Rightarrow> if fp_ImageAccept p \<noteq> [] then fp_ImageAccept p else legacyImageAccept)"

definition accept_for :: "fp_preset \<Rightarrow> request_context \<Rightarrow> (string, string) gomap \<Rightarrow> (string, string) gomap" where
  "accept_for preset ctx headers =
     (let plain = (\<lambda>accept h. AList.delete ''Cache-Control'' (AList.delete ''Upgrade-Insecure-Requests'' (AList.update ''Accept'' accept h)))
      in if rc_Mode ctx = ''navigate'' then
           AList.update ''Accept'' (ResolveNavigationAccept (Some preset)) (AList.update ''Upgrade-Insecure-Requests'' ''1'' headers)
         else if rc_Mode ctx = ''cors'' \<or> rc_Mode ctx = ''same-origin'' then plain ''*/*'' headers
         else if rc_Mode ctx = ''no-cors'' then
           plain (if rc_Dest ctx = ''image'' then ResolveImageAccept (Some preset)
                  else if rc_Dest ctx = ''style'' then ''text/css,*/*;q=0.1''
                  else ''*/*'') headers
         else headers)"

definition ApplyToHeaders :: "fp_preset \<Rightarrow> request_context \<Rightarrow> (string, string) gomap \<Rightarrow> (string, string) gomap" where
  "ApplyToHeaders preset ctx headers =
     (let secFetch = GenerateSecFetchHeaders ctx;
          h1 = AList.update ''Sec-Fetch-Dest'' (sf_Dest secFetch) (AList.update ''Sec-Fetch-Mode'' (sf_Mode secFetch)
                 (AList.update ''Sec-Fetch-Site'' (sf_Site secFetch) headers));
          h2 = (if sf_User secFetch \<noteq> [] then AList.update ''Sec-Fetch-User'' (sf_User secFetch) h1
                else AList.delete ''Sec-Fetch-User'' h1);
          h3 = accept_for preset ctx h2
      in if rc_Referrer ctx \<noteq> [] then AList.update ''Referer'' (rc_Referrer ctx) h3 else h3)"

definition GenerateNavigationHeaders :: "fp_preset \<Rightarrow> (string, string) gomap" where
  "GenerateNavigationHeaders preset =
     ApplyToHeaders preset NavigationContext (fold (\<lambda>(k, v). AList.update k v) (fp_Headers preset) [])"

definition copy_key :: "fp_preset \<Rightarrow> string \<Rightarrow> (string, string) gomap \<Rightarrow> (string, string) gomap" where
  "copy_key preset k h = (case map_of (fp_Headers preset) k of None \<Rightarrow> h | Some v \<Rightarrow> AList.update k v h)"

definition GenerateXHRHeaders :: "url_lib \<Rightarrow> fp_preset \<Rightarrow> string \<Rightarrow> string \<Rightarrow> (string, string) gomap" where
  "GenerateXHRHeaders ul preset referrer targetURL =
     (let h = [(''User-Agent'', fp_UserAgent preset), (''Accept'', ''*/*''), (''Accept-Encoding'', ''gzip, deflate, br, zstd''),
               (''Accept-Language'', ''en-US,en;q=0.9'')]
      in ApplyToHeaders preset (XHRContext ul referrer targetURL)
           (copy_key preset ''sec-ch-ua-platform'' (copy_key preset ''sec-ch-ua-mobile'' (copy_key preset ''sec-ch-ua'' h))))"

section \<open>Laws\<close>

lemma scheme_roundtrip [simp]: "scheme_code (scheme_of v) = v"
proof -
  consider "map_of scheme_codes v = None" | s where "(v, s) \<in> set scheme_codes" "map_of scheme_codes v = Some s"
    by (cases "map_of scheme_codes v") (auto dest: map_of_SomeD)
  then show ?thesis
  proof cases
    case 2
    then show ?thesis by (auto simp: scheme_of_def scheme_codes_def scheme_code_def)
  qed (simp add: scheme_of_def scheme_code_def)
qed

lemma urgency_cases: "(u :: byte) \<le> 7 \<Longrightarrow> u \<in> {0, 1, 2, 3, 4, 5, 6, 7}"
proof -
  assume "u \<le> 7"
  then have "unat u \<le> 7" by (simp add: word_le_nat_alt)
  have "u = of_nat (unat u)" by simp
  with \<open>unat u \<le> 7\<close> obtain n where n: "u = of_nat n" "n \<le> 7" by blast
  then have "n = 0 \<or> n = 1 \<or> n = 2 \<or> n = 3 \<or> n = 4 \<or> n = 5 \<or> n = 6 \<or> n = 7" by arith
  then show ?thesis using n(1) by auto
qed

lemma priority_values:
  "PriorityFromUrgency 0 = 256" "PriorityFromUrgency 1 = 220" "PriorityFromUrgency 2 = 183" "PriorityFromUrgency 3 = 147"
  "PriorityFromUrgency 4 = 110" "PriorityFromUrgency 5 = 74" "PriorityFromUrgency 6 = 37" "PriorityFromUrgency 7 = 1"
  by (simp_all add: PriorityFromUrgency_def Let_def)

lemma priority_clamped: "7 < u \<Longrightarrow> PriorityFromUrgency u = 1"
  by (simp add: PriorityFromUrgency_def Let_def)

lemma priority_nat: "unat (PriorityFromUrgency u) = 256 - 73 * min 7 (unat u) div 2"
proof (cases "7 < u")
  case True
  then have "7 < unat u" by (simp add: word_less_nat_alt)
  then show ?thesis using priority_clamped [OF True] by simp
next
  case False
  then have "u \<in> {0, 1, 2, 3, 4, 5, 6, 7}" by (intro urgency_cases) simp
  then show ?thesis by (elim insertE emptyE) (simp_all add: priority_values)
qed

lemma dropWhile_append_pinned: "rev (dropWhile P (rev xs)) @ rev (takeWhile P (rev xs)) = xs"
  by (metis rev_append rev_rev_ident takeWhile_dropWhile_id)

lemma movable_split:
  assumes "movableRange exts = (start, stop)"
  shows "start \<le> stop \<and> stop \<le> length exts \<and> (start = 1 \<longrightarrow> exts \<noteq> [] \<and> hd exts = Ext UtlsGREASEExtension) \<and>
    (start \<noteq> 1 \<longrightarrow> start = 0 \<and> (exts = [] \<or> hd exts \<noteq> Ext UtlsGREASEExtension)) \<and> list_all pinned (drop stop exts)"
proof -
  let ?body = "drop start exts"
  have s: "stop = start + length (dropWhile pinned (rev ?body))" and st: "start = (if exts \<noteq> [] \<and> hd exts = Ext UtlsGREASEExtension then 1 else 0)"
    using assms by (auto simp: movableRange_def Let_def split: if_splits)
  have b: "?body = rev (dropWhile pinned (rev ?body)) @ rev (takeWhile pinned (rev ?body))" by (rule dropWhile_append_pinned [symmetric])
  have "drop stop exts = drop (length (dropWhile pinned (rev ?body))) ?body" by (simp add: s add.commute)
  also have "\<dots> = rev (takeWhile pinned (rev ?body))" by (subst (2) b) simp
  finally have "list_all pinned (drop stop exts)" by (auto simp: list_all_iff dest: set_takeWhileD)
  moreover have "stop \<le> length exts"
  proof -
    have "length (dropWhile pinned (rev ?body)) \<le> length exts - start" by (metis length_drop length_dropWhile_le length_rev)
    moreover have "start \<le> length exts" using st by (cases exts) auto
    ultimately show ?thesis using s by simp
  qed
  ultimately show ?thesis using s st by auto
qed

text \<open>Brands as they are written in the \<^verbatim>\<open>sec-ch-ua\<close> header.\<close>

definition show_brand :: "string \<times> string \<Rightarrow> string" where
  "show_brand = (\<lambda>(name, version). in_quotes name @ version_marker @ version @ [quote])"

definition plain_brand :: "string \<times> string \<Rightarrow> bool" where
  "plain_brand = (\<lambda>(name, version). quote \<notin> set name \<and> version \<noteq> [] \<and> quote \<notin> set version \<and> CHR ''.'' \<notin> set version \<and>
     \<not> has_suffix name '';v='')"

lemma brand_loop_out: "quote \<notin> set s \<Longrightarrow> CHR '','' \<notin> set s \<Longrightarrow> brand_loop False acc (s @ t) = brand_loop False (acc @ s) t"
  by (induction s arbitrary: acc) auto

lemma brand_loop_in: "quote \<notin> set s \<Longrightarrow> brand_loop True acc (s @ quote # t) = brand_loop False (acc @ s @ [quote]) t"
  by (induction s arbitrary: acc) auto

lemma brand_loop_brand:
  assumes "plain_brand b"
  shows "brand_loop False acc (show_brand b @ t) = brand_loop False (acc @ show_brand b) t"
proof -
  obtain name version where b: "b = (name, version)" by force
  have n: "quote \<notin> set name" "quote \<notin> set version" using assms b by (auto simp: plain_brand_def)
  have v: "version_marker = '';v='' @ [quote]" by (rule version_marker_def)
  have "brand_loop False acc (show_brand b @ t) = brand_loop True (acc @ [quote]) (name @ quote # ('';v='' @ quote # (version @ quote # t)))"
    by (simp add: show_brand_def b in_quotes_def v)
  also have "\<dots> = brand_loop False (acc @ quote # name @ [quote]) ('';v='' @ quote # (version @ quote # t))"
    using brand_loop_in [OF n(1)] by simp
  also have "\<dots> = brand_loop True (acc @ quote # name @ quote # '';v='' @ [quote]) (version @ quote # t)" by simp
  also have "\<dots> = brand_loop False (acc @ show_brand b) t"
    using brand_loop_in [OF n(2)] by (simp add: show_brand_def b in_quotes_def v)
  finally show ?thesis .
qed

lemma trim_brand: "trim_space (show_brand b) = show_brand b" "trim_space ('' '' @ show_brand b) = show_brand b"
proof -
  have q: "\<not> is_space quote" by (simp add: is_space_def)
  have sp: "is_space (CHR '' '')" by (simp add: is_space_def)
  obtain name version where b: "b = (name, version)" by force
  have "hd (show_brand b) = quote" "last (show_brand b) = quote" by (auto simp: show_brand_def b in_quotes_def)
  then show "trim_space (show_brand b) = show_brand b" using q unfolding trim_space_def by (intro trim_fn_id) auto
  then show "trim_space ('' '' @ show_brand b) = show_brand b" using sp by (simp add: trim_space_def trim_fn_def)
qed

lemma split_brands:
  assumes "bs \<noteq> []" and "list_all plain_brand bs"
  shows "splitBrandList (join '', '' (map show_brand bs)) = map show_brand bs"
proof -
  have loop: "brand_loop False acc (join '', '' (map show_brand bs)) = trim_space (acc @ show_brand (hd bs)) # map show_brand (tl bs)"
    if "acc = [] \<or> acc = '' ''" for acc
    using assms that
  proof (induction bs arbitrary: acc)
    case (Cons b bs)
    show ?case
    proof (cases bs)
      case Nil
      then show ?thesis using brand_loop_brand [of b acc "[]"] Cons.prems by simp
    next
      case (Cons b' bs')
      have "brand_loop False acc (join '', '' (map show_brand (b # bs))) =
          brand_loop False (acc @ show_brand b) (CHR '','' # CHR '' '' # join '', '' (map show_brand bs))"
        using brand_loop_brand [of b acc] Cons.prems Cons by simp
      also have "\<dots> = trim_space (acc @ show_brand b) # brand_loop False '' '' (join '', '' (map show_brand bs))" by simp
      also have "brand_loop False '' '' (join '', '' (map show_brand bs)) = map show_brand bs"
        using Cons.IH [of "'' ''"] Cons.prems Cons trim_brand(2) by simp
      finally show ?thesis by simp
    qed
  qed simp
  have "splitBrandList (join '', '' (map show_brand bs)) = trim_space (show_brand (hd bs)) # map show_brand (tl bs)"
    using loop [of "[]"] by (simp add: splitBrandList_def)
  then show ?thesis using assms(1) trim_brand(1) by (cases bs) simp_all
qed

lemma index_str_first:
  "has_prefix (drop n s) p \<Longrightarrow> p \<noteq> [] \<Longrightarrow> (\<And>i. i < n \<Longrightarrow> \<not> has_prefix (drop i s) p) \<Longrightarrow> index_str p s = Some n"
proof (induction s arbitrary: n)
  case (Cons c s)
  show ?case
  proof (cases n)
    case (Suc m)
    have "\<not> has_prefix (c # s) p" using Cons.prems(3) [of 0] Suc by simp
    moreover have "index_str p s = Some m"
      using Cons.prems Suc Cons.prems(3) [of "Suc _"] by (intro Cons.IH) auto
    ultimately show ?thesis using Suc by simp
  qed (use Cons.prems in simp)
qed (simp add: has_prefix_def)

lemma marker_first:
  assumes "quote \<notin> set name" and "\<not> has_suffix name '';v=''"
  shows "index_str version_marker (in_quotes name @ version_marker @ rest) = Some (length name + 2)"
proof (rule index_str_first)
  let ?s = "in_quotes name @ version_marker @ rest"
  fix i assume i: "i < length name + 2"
  show "\<not> has_prefix (drop i ?s) version_marker"
  proof
    assume "has_prefix (drop i ?s) version_marker"
    then have "take (length version_marker) (drop i ?s) = version_marker" by (simp only: has_prefix_def)
    moreover have "length version_marker = 4" by (simp add: version_marker_def)
    ultimately have t: "take 4 (drop i ?s) = '';v='' @ [quote]" by (simp only: version_marker_def [symmetric])
    have len: "i + 4 \<le> length ?s" using i by (simp add: in_quotes_def version_marker_def)
    have at: "take 4 (drop i w) ! j = w ! (i + j)" if "j < 4" "i + 4 \<le> length w" for j and w :: string using that by simp
    have nth: "?s ! (i + j) = ('';v='' @ [quote]) ! j" if "j < 4" for j
      using at [OF that len] unfolding t by (rule sym)
    have q3: "?s ! (i + 3) = quote" using nth [of 3] by simp
    have "i + 3 = length name + 1"
    proof (rule ccontr)
      assume ne: "i + 3 \<noteq> length name + 1"
      consider "i + 3 < length name + 1" | "i + 3 = length name + 2" | "i + 3 = length name + 3" | "i + 3 = length name + 4"
        using i ne by linarith
      then show False
      proof cases
        case 1
        then have "?s ! (i + 3) = name ! (i + 2)" by (simp add: in_quotes_def nth_append numeral_3_eq_3)
        then show False using q3 1 assms(1) nth_mem [of "i + 2" name] by simp
      qed (use q3 in \<open>auto simp: in_quotes_def version_marker_def nth_append nth_Cons'\<close>)
    qed
    then have ln: "length name = i + 2" by simp
    show False
    proof (cases i)
      case 0
      then show False using nth [of 0] by (simp add: in_quotes_def)
    next
      case (Suc k)
      have k: "name ! (k + j) = '';v='' ! j" if "j < 3" for j
      proof -
        have "?s ! (i + j) = name ! (k + j)" using that ln Suc by (simp add: in_quotes_def nth_append)
        moreover have "('';v='' @ [quote]) ! j = '';v='' ! j" using that by (subst nth_append) simp
        ultimately show ?thesis using nth [of j] that by simp
      qed
      have "drop k name = '';v=''"
        by (rule nth_equalityI) (use ln Suc k in \<open>auto simp: less_Suc_eq numeral_3_eq_3\<close>)
      then show False using assms(2) ln Suc by (simp add: has_suffix_def)
    qed
  qed
qed (simp_all add: has_prefix_def in_quotes_def version_marker_def)

lemma expand_brand:
  assumes "plain_brand (name, version)"
  shows "expandBrandVersion (show_brand (name, version)) = show_brand (name, version @ ''.0.0.0'')"
proof -
  let ?s = "show_brand (name, version)"
  have i: "index_str version_marker ?s = Some (length name + 2)"
    using marker_first assms by (simp add: show_brand_def plain_brand_def)
  have d: "drop (length name + 2 + length version_marker) ?s = version @ [quote]"
    "take (length name + 2 + length version_marker) ?s = in_quotes name @ version_marker"
    by (simp_all add: show_brand_def in_quotes_def)
  have j: "index_byte (version @ [quote]) quote = Some (length version)"
    using index_byte_append [of quote version "[]"] assms by (simp add: plain_brand_def)
  have "drop (length name + 2 + length version_marker + length version) ?s = [quote]"
    by (metis append_eq_conv_conj d(1) drop_drop add.commute)
  then show ?thesis using i d j assms
    by (simp add: expandBrandVersion_def plain_brand_def Let_def show_brand_def)
qed

section \<open>Properties\<close>

text \<open>
  Lemma. The full version list that is derived from \<^verbatim>\<open>sec-ch-ua\<close> has the same
  brands in the same order, the placeholder brand included, each with its version
  written as four numbers.
\<close>

theorem full_version_list_coherent:
  assumes "list_all plain_brand bs"
  shows "expandSecChUaVersions (join '', '' (map show_brand bs)) =
    join '', '' (map (\<lambda>(name, version). show_brand (name, version @ ''.0.0.0'')) bs)"
proof (cases "bs = []")
  case False
  have "join '', '' (map show_brand bs) \<noteq> []"
    using False by (cases bs; cases "tl bs") (auto simp: show_brand_def in_quotes_def)
  moreover have "map expandBrandVersion (map show_brand bs) = map (\<lambda>(name, version). show_brand (name, version @ ''.0.0.0'')) bs"
    using assms expand_brand by (auto simp: list_all_iff)
  ultimately show ?thesis using split_brands [OF False assms] by (simp only: expandSecChUaVersions_def if_False)
qed (simp add: expandSecChUaVersions_def)

theorem full_version_list_coherent_witness:
  "expandSecChUaVersions (join '', '' (map show_brand [(''Not;A=Brand'', ''8''), (''Chromium'', ''150'')])) =
     join '', '' (map show_brand [(''Not;A=Brand'', ''8.0.0.0''), (''Chromium'', ''150.0.0.0'')])"
  using full_version_list_coherent [of "[(''Not;A=Brand'', ''8''), (''Chromium'', ''150'')]"]
  by (simp add: plain_brand_def has_suffix_def)

text \<open>
  Lemma. Trust anchors are put into a ClientHello without disturbing it: the other
  extensions keep their order, the hello carries the anchors exactly once, a leading
  GREASE extension stays first and everything from the trailing run of GREASE, padding
  and \<^verbatim>\<open>pre_shared_key\<close> stays behind them, whatever number was drawn.
\<close>

theorem trust_anchors_placed:
  assumes "anchors \<noteq> []" and "\<not> list_ex is_trust_anchors exts"
  shows "filter (\<lambda>e. \<not> is_trust_anchors e) (applyTrustAnchors r anchors s exts) = exts \<and>
    filter is_trust_anchors (applyTrustAnchors r anchors s exts) = [TrustAnchorsExtension anchors s] \<and>
    (exts \<noteq> [] \<and> hd exts = Ext UtlsGREASEExtension \<longrightarrow> hd (applyTrustAnchors r anchors s exts) = Ext UtlsGREASEExtension) \<and>
    (tl exts \<noteq> [] \<and> last exts = Ext UtlsPreSharedKeyExtension \<longrightarrow>
       last (applyTrustAnchors r anchors s exts) = Ext UtlsPreSharedKeyExtension)"
proof -
  obtain start stop where m: "movableRange exts = (start, stop)" by force
  note sp = movable_split [OF m]
  define at where "at = start + randIntn r (stop - start + 1)"
  have at: "start \<le> at" "at \<le> stop"
  proof -
    have "randIntn r (stop - start + 1) \<le> stop - start"
      using mod_less_divisor [of "stop - start + 1" r] by (simp add: randIntn_def del: mod_less_divisor)
    then show "start \<le> at" "at \<le> stop" using sp by (auto simp: at_def)
  qed
  have res: "applyTrustAnchors r anchors s exts = take at exts @ TrustAnchorsExtension anchors s # drop at exts"
    using assms m by (simp add: applyTrustAnchors_def at_def Let_def)
  have none: "\<forall>e \<in> set exts. \<not> is_trust_anchors e" using assms(2) by (simp add: list_ex_iff)
  have none': "\<forall>e \<in> set (take at exts) \<union> set (drop at exts). \<not> is_trust_anchors e"
    using none by (auto dest: in_set_takeD in_set_dropD)
  have "filter (\<lambda>e. \<not> is_trust_anchors e) (applyTrustAnchors r anchors s exts) = take at exts @ drop at exts"
    using none' by (simp add: res filter_id_conv)
  moreover have "filter is_trust_anchors (applyTrustAnchors r anchors s exts) = [TrustAnchorsExtension anchors s]"
    using none' by (simp add: res filter_empty_conv)
  moreover have "hd (applyTrustAnchors r anchors s exts) = Ext UtlsGREASEExtension" if "exts \<noteq> []" "hd exts = Ext UtlsGREASEExtension"
  proof -
    have "0 < at" using that sp at by (cases "start = 1") auto
    then show ?thesis using that unfolding res by (cases exts) (auto simp: take_Cons')
  qed
  moreover have "last (applyTrustAnchors r anchors s exts) = Ext UtlsPreSharedKeyExtension"
    if "tl exts \<noteq> []" "last exts = Ext UtlsPreSharedKeyExtension"
  proof -
    have "at < length exts"
    proof (rule ccontr)
      assume "\<not> at < length exts"
      then have "stop = length exts" using sp at by simp
      have "dropWhile pinned (rev (drop start exts)) = rev (drop start exts)"
      proof -
        have "length (dropWhile pinned (rev (drop start exts))) = length (rev (drop start exts))"
          using m \<open>stop = length exts\<close> sp by (auto simp: movableRange_def Let_def split: if_splits)
        then show ?thesis by (metis append_Nil append_eq_append_conv takeWhile_dropWhile_id)
      qed
      moreover have "start \<le> 1" using sp by (cases "start = 1") auto
      then have ne: "drop start exts \<noteq> []" using that(1) by (cases exts; cases "tl exts") auto
      then have "rev (drop start exts) = Ext UtlsPreSharedKeyExtension # tl (rev (drop start exts))"
        using that(2) by (metis hd_rev last_drop list.collapse rev_is_Nil_conv drop_all leI)
      ultimately have "dropWhile pinned (Ext UtlsPreSharedKeyExtension # tl (rev (drop start exts))) = Ext UtlsPreSharedKeyExtension # tl (rev (drop start exts))"
        by metis
      then show False using length_dropWhile_le [of pinned "tl (rev (drop start exts))"] by simp
    qed
    then show ?thesis using that by (simp add: res)
  qed
  ultimately show ?thesis by simp
qed

theorem trust_anchors_placed_witness:
  "last (applyTrustAnchors 7 [[1]] False [Ext UtlsGREASEExtension, Ext SNIExtension, Ext UtlsPreSharedKeyExtension]) =
     Ext UtlsPreSharedKeyExtension"
  using trust_anchors_placed [of "[[1]]" "[Ext UtlsGREASEExtension, Ext SNIExtension, Ext UtlsPreSharedKeyExtension]" 7 False] by simp

text \<open>
  Lemma. Stream weights are valid and follow the urgency: every weight that comes
  from an urgency lies between 1 and 256, and a more urgent request never has the
  smaller weight.
\<close>

theorem priority_weights:
  shows "1 \<le> PriorityFromUrgency u \<and> PriorityFromUrgency u \<le> 256 \<and> (u \<le> v \<longrightarrow> PriorityFromUrgency v \<le> PriorityFromUrgency u)"
proof -
  have "PriorityFromUrgency v \<le> PriorityFromUrgency u" if "u \<le> v"
  proof -
    have "73 * min 7 (unat u) div 2 \<le> 73 * min 7 (unat v) div 2" using that by (intro div_le_mono mult_le_mono2) (simp add: word_le_nat_alt min.coboundedI2)
    then show ?thesis unfolding word_le_nat_alt priority_nat by (rule diff_le_mono2)
  qed
  moreover have "73 * min 7 (unat u) div 2 \<le> 255" by simp
  then have "1 \<le> unat (PriorityFromUrgency u) \<and> unat (PriorityFromUrgency u) \<le> 256" by (simp add: priority_nat)
  ultimately show ?thesis by (simp add: word_le_nat_alt)
qed

theorem priority_weights_witness: "PriorityFromUrgency 5 \<le> PriorityFromUrgency 2"
  using priority_weights [of 2 5] by simp


end
