(* ===== verification/Preset_Table.thy ===== *)
theory Preset_Table
  imports Preset_Config
begin

text \<open>
  The presets that \<^verbatim>\<open>fingerprint/presets.go\<close> defines, one definition per constructor
  function, and the table of their names.

  What a constructor function reads is the argument \<open>env\<close>: the operating system, the
  registry of custom presets, and the identities of the TLS library, by the name of
  their constant. The presets that come from embedded JSON files are in the registry,
  with a built-in preset as the fallback when they are not.
\<close>

section \<open>Protocol settings by browser\<close>

record preset_env =
  px_GOOS :: string
  px_utls :: "string \<Rightarrow> client_hello_id"
  px_custom :: "(string, fp_preset) gomap"

definition chromeH2Config :: h2_config where
  "chromeH2Config = no_h2
     \<lparr>h2_HPACKHeaderOrder := Some
        [''cache-control'', ''sec-ch-ua'', ''sec-ch-ua-arch'', ''sec-ch-ua-bitness'', ''sec-ch-ua-full-version-list'',
         ''sec-ch-ua-mobile'', ''sec-ch-ua-model'', ''sec-ch-ua-platform'', ''sec-ch-ua-platform-version'', ''sec-ch-ua-wow64'',
         ''upgrade-insecure-requests'', ''user-agent'', ''content-type'', ''content-length'', ''accept'', ''origin'',
         ''sec-fetch-site'', ''sec-fetch-mode'', ''sec-fetch-user'', ''sec-fetch-dest'', ''referer'',
         ''if-none-match'', ''if-modified-since'', ''accept-encoding'', ''accept-language'', ''cookie'', ''priority''],
      h2_HPACKHeaderOrderSubresource :=
        [''pragma'', ''cache-control'', ''origin'', ''sec-ch-ua-platform'', ''sec-ch-ua-platform-version'', ''user-agent'',
         ''sec-ch-ua'', ''sec-ch-ua-arch'', ''sec-ch-ua-bitness'', ''sec-ch-ua-full-version-list'', ''sec-ch-ua-mobile'',
         ''sec-ch-ua-model'', ''sec-ch-ua-wow64'', ''content-type'', ''content-length'', ''accept'',
         ''sec-fetch-site'', ''sec-fetch-mode'', ''sec-fetch-dest'', ''sec-fetch-storage-access'', ''referer'',
         ''if-none-match'', ''if-modified-since'', ''accept-encoding'', ''accept-language'', ''cookie'', ''priority''],
      h2_HPACKIndexingPolicy := ''chrome'',
      h2_StreamPriorityMode := ''chrome'',
      h2_DisableCookieSplit := Some False,
      h2_SettingsOrder := Some [1, 2, 4, 6],
      h2_PseudoHeaderOrder := Some ['':method'', '':authority'', '':scheme'', '':path''],
      h2_PrefacePingIdleMs := Some 10000,
      h2_PrefacePingHangMs := Some 10000\<rparr>"

definition firefoxPriorityTable :: "(string, resource_priority) gomap" where
  "firefoxPriorityTable =
     [(''document'', \<lparr>rp_Urgency = 0, rp_Incremental = True, rp_EmitHeader = True, rp_Weight = 42\<rparr>),
      (''style'', \<lparr>rp_Urgency = 2, rp_Incremental = False, rp_EmitHeader = True, rp_Weight = 22\<rparr>),
      (''script'', \<lparr>rp_Urgency = 2, rp_Incremental = False, rp_EmitHeader = True, rp_Weight = 22\<rparr>),
      (''image'', \<lparr>rp_Urgency = 5, rp_Incremental = True, rp_EmitHeader = True, rp_Weight = 12\<rparr>),
      (''font'', \<lparr>rp_Urgency = 3, rp_Incremental = False, rp_EmitHeader = False, rp_Weight = 32\<rparr>),
      (''iframe'', \<lparr>rp_Urgency = 4, rp_Incremental = False, rp_EmitHeader = True, rp_Weight = 22\<rparr>),
      (''empty'', \<lparr>rp_Urgency = 4, rp_Incremental = False, rp_EmitHeader = True, rp_Weight = 22\<rparr>)]"

definition firefoxH2Config :: h2_config where
  "firefoxH2Config = no_h2
     \<lparr>h2_HPACKHeaderOrder := Some
        [''user-agent'', ''accept'', ''accept-language'', ''accept-encoding'', ''upgrade-insecure-requests'',
         ''sec-fetch-dest'', ''sec-fetch-mode'', ''sec-fetch-site'', ''sec-fetch-user'', ''priority'', ''te'',
         ''referer'', ''cookie'', ''content-type'', ''content-length'', ''origin''],
      h2_HPACKIndexingPolicy := ''default'',
      h2_StreamPriorityMode := ''default'',
      h2_DisableCookieSplit := Some False,
      h2_SettingsOrder := Some [1, 2, 4, 5],
      h2_PseudoHeaderOrder := Some ['':method'', '':path'', '':authority'', '':scheme''],
      h2_PriorityTable := firefoxPriorityTable,
      h2_PriorityModel := ''table''\<rparr>"

definition safariH2Config :: h2_config where
  "safariH2Config = no_h2
     \<lparr>h2_HPACKHeaderOrder := Some
        [''accept'', ''sec-fetch-dest'', ''sec-fetch-mode'', ''sec-fetch-site'', ''sec-fetch-user'',
         ''accept-language'', ''accept-encoding'', ''user-agent'', ''referer'', ''cookie'',
         ''content-type'', ''content-length'', ''origin''],
      h2_HPACKIndexingPolicy := ''default'',
      h2_StreamPriorityMode := ''default'',
      h2_DisableCookieSplit := Some True,
      h2_SettingsOrder := Some [2, 4, 3, 5, 9],
      h2_PseudoHeaderOrder := Some ['':method'', '':scheme'', '':path'', '':authority'']\<rparr>"

definition safariH3Config :: h3_config where
  "safariH3Config = no_h3
     \<lparr>h3_QPACKMaxTableCapacity := Some 16383, h3_MaxFieldSectionSize := Some 0, h3_EnableDatagrams := Some False,
      h3_QUICChromeStyleInitial := Some False, h3_QUICDisableHelloScramble := Some False,
      h3_QUICTransportParamOrder := ''random'', h3_SendGreaseFrames := Some False\<rparr>"

section \<open>Presets\<close>

definition custom_or :: "preset_env \<Rightarrow> string \<Rightarrow> fp_preset \<Rightarrow> fp_preset" where
  "custom_or env name fallback = (case map_of (px_custom env) name of Some p \<Rightarrow> p | None \<Rightarrow> fallback)"

definition by_platform :: "preset_env \<Rightarrow> fp_preset \<Rightarrow> fp_preset \<Rightarrow> fp_preset \<Rightarrow> fp_preset" where
  "by_platform env windows macos linux =
     (let platform = pi_Platform (GetPlatformInfo (px_GOOS env)) in
      if platform = ''Windows'' then windows else if platform = ''macOS'' then macos else linux)"

definition Chrome133 :: "preset_env \<Rightarrow> fp_preset" where
  "Chrome133 env =
     (let p = GetPlatformInfo (px_GOOS env)
      in no_preset
       \<lparr>fp_Name := ''chrome-133'',
        fp_ClientHelloID := px_utls env ''HelloChrome_133'',
        fp_PSKClientHelloID := px_utls env ''HelloChrome_133_PSK'',
        fp_UserAgent := (''Mozilla/5.0 '' @ pi_UserAgentOS p @ '' AppleWebKit/537.36 (KHTML, like Gecko) Chrome/133.0.0.0 Safari/537.36''),
        fp_Headers :=
          [(''sec-ch-ua'', ''\"Google Chrome\";v=\"133\", \"Chromium\";v=\"133\", \"Not_A Brand\";v=\"24\"''),
           (''sec-ch-ua-mobile'', ''?0''), (''sec-ch-ua-platform'', (''\"'' @ pi_Platform p @ ''\"'')),
           (''Upgrade-Insecure-Requests'', ''1''),
           (''Accept'', ''text/html,application/xhtml+xml,application/xml;q=0.9,image/avif,image/webp,image/apng,*/*;q=0.8,application/signed-exchange;v=b3;q=0.7''),
           (''Sec-Fetch-Site'', ''none''), (''Sec-Fetch-Mode'', ''navigate''), (''Sec-Fetch-User'', ''?1''),
           (''Sec-Fetch-Dest'', ''document''), (''Accept-Encoding'', ''gzip, deflate, br, zstd''),
           (''Accept-Language'', ''en-US,en;q=0.9''), (''Priority'', ''u=0, i'')],
        fp_HeaderOrder :=
          [(''sec-ch-ua'', ''\"Google Chrome\";v=\"133\", \"Chromium\";v=\"133\", \"Not_A Brand\";v=\"24\"''),
           (''sec-ch-ua-mobile'', ''?0''), (''sec-ch-ua-platform'', (''\"'' @ pi_Platform p @ ''\"'')),
           (''upgrade-insecure-requests'', ''1''), (''user-agent'', []),
           (''accept'', ''text/html,application/xhtml+xml,application/xml;q=0.9,image/avif,image/webp,image/apng,*/*;q=0.8,application/signed-exchange;v=b3;q=0.7''),
           (''sec-fetch-site'', ''none''), (''sec-fetch-mode'', ''navigate''), (''sec-fetch-user'', ''?1''),
           (''sec-fetch-dest'', ''document''), (''accept-encoding'', ''gzip, deflate, br, zstd''),
           (''accept-language'', ''en-US,en;q=0.9''), (''priority'', ''u=0, i'')],
        fp_HTTP2Settings :=
          \<lparr>hs_HeaderTableSize = 65536, hs_EnablePush = False, hs_MaxConcurrentStreams = 0, hs_InitialWindowSize = 6291456,
           hs_MaxFrameSize = 0, hs_MaxHeaderListSize = 262144, hs_ConnectionWindowUpdate = 15663105, hs_StreamWeight = 256,
           hs_StreamExclusive = True, hs_NoRFC7540Priorities = False\<rparr>,
        fp_TCPFingerprint := no_tcp,
        fp_H2Config := Some chromeH2Config,
        fp_SupportHTTP3 := False\<rparr>)"

definition Chrome141 :: "preset_env \<Rightarrow> fp_preset" where
  "Chrome141 env =
     (let p = GetPlatformInfo (px_GOOS env)
      in no_preset
       \<lparr>fp_Name := ''chrome-141'',
        fp_ClientHelloID := px_utls env ''HelloChrome_133'',
        fp_PSKClientHelloID := px_utls env ''HelloChrome_133_PSK'',
        fp_UserAgent := (''Mozilla/5.0 '' @ pi_UserAgentOS p @ '' AppleWebKit/537.36 (KHTML, like Gecko) Chrome/141.0.0.0 Safari/537.36''),
        fp_Headers :=
          [(''sec-ch-ua'', ''\"Google Chrome\";v=\"141\", \"Not?A_Brand\";v=\"8\", \"Chromium\";v=\"141\"''),
           (''sec-ch-ua-mobile'', ''?0''), (''sec-ch-ua-platform'', (''\"'' @ pi_Platform p @ ''\"'')),
           (''Upgrade-Insecure-Requests'', ''1''),
           (''Accept'', ''text/html,application/xhtml+xml,application/xml;q=0.9,image/avif,image/webp,image/apng,*/*;q=0.8,application/signed-exchange;v=b3;q=0.7''),
           (''Sec-Fetch-Site'', ''none''), (''Sec-Fetch-Mode'', ''navigate''), (''Sec-Fetch-User'', ''?1''),
           (''Sec-Fetch-Dest'', ''document''), (''Accept-Encoding'', ''gzip, deflate, br, zstd''),
           (''Accept-Language'', ''en-US,en;q=0.9''), (''Priority'', ''u=0, i'')],
        fp_HeaderOrder :=
          [(''sec-ch-ua'', ''\"Google Chrome\";v=\"141\", \"Not?A_Brand\";v=\"8\", \"Chromium\";v=\"141\"''),
           (''sec-ch-ua-mobile'', ''?0''), (''sec-ch-ua-platform'', (''\"'' @ pi_Platform p @ ''\"'')),
           (''upgrade-insecure-requests'', ''1''), (''user-agent'', []),
           (''accept'', ''text/html,application/xhtml+xml,application/xml;q=0.9,image/avif,image/webp,image/apng,*/*;q=0.8,application/signed-exchange;v=b3;q=0.7''),
           (''sec-fetch-site'', ''none''), (''sec-fetch-mode'', ''navigate''), (''sec-fetch-user'', ''?1''),
           (''sec-fetch-dest'', ''document''), (''accept-encoding'', ''gzip, deflate, br, zstd''),
           (''accept-language'', ''en-US,en;q=0.9''), (''priority'', ''u=0, i'')],
        fp_HTTP2Settings :=
          \<lparr>hs_HeaderTableSize = 65536, hs_EnablePush = False, hs_MaxConcurrentStreams = 0, hs_InitialWindowSize = 6291456,
           hs_MaxFrameSize = 0, hs_MaxHeaderListSize = 262144, hs_ConnectionWindowUpdate = 15663105, hs_StreamWeight = 256,
           hs_StreamExclusive = True, hs_NoRFC7540Priorities = False\<rparr>,
        fp_TCPFingerprint := no_tcp,
        fp_H2Config := Some chromeH2Config,
        fp_SupportHTTP3 := False\<rparr>)"

definition Firefox133 :: "preset_env \<Rightarrow> fp_preset" where
  "Firefox133 env =
     (let p = GetPlatformInfo (px_GOOS env)
      in no_preset
       \<lparr>fp_Name := ''firefox-133'',
        fp_ClientHelloID := px_utls env ''HelloFirefox_120'',
        fp_UserAgent := (''Mozilla/5.0 '' @ pi_FirefoxUserAgentOS p @ '' Gecko/20100101 Firefox/133.0''),
        fp_Headers :=
          [(''Accept'', ''text/html,application/xhtml+xml,application/xml;q=0.9,image/avif,image/webp,*/*;q=0.8''),
           (''Accept-Language'', ''en-US,en;q=0.5''), (''Accept-Encoding'', ''gzip, deflate, br''),
           (''Sec-Fetch-Dest'', ''document''), (''Sec-Fetch-Mode'', ''navigate''), (''Sec-Fetch-Site'', ''none''),
           (''Sec-Fetch-User'', ''?1'')],
        fp_HeaderOrder :=
          [(''user-agent'', []),
           (''accept'', ''text/html,application/xhtml+xml,application/xml;q=0.9,image/avif,image/webp,*/*;q=0.8''),
           (''accept-language'', ''en-US,en;q=0.5''), (''accept-encoding'', ''gzip, deflate, br''),
           (''sec-fetch-dest'', ''document''), (''sec-fetch-mode'', ''navigate''), (''sec-fetch-site'', ''none''),
           (''sec-fetch-user'', ''?1'')],
        fp_HTTP2Settings :=
          \<lparr>hs_HeaderTableSize = 65536, hs_EnablePush = True, hs_MaxConcurrentStreams = 0, hs_InitialWindowSize = 131072,
           hs_MaxFrameSize = 16384, hs_MaxHeaderListSize = 0, hs_ConnectionWindowUpdate = 12517377, hs_StreamWeight = 42,
           hs_StreamExclusive = False, hs_NoRFC7540Priorities = False\<rparr>,
        fp_TCPFingerprint := no_tcp,
        fp_H2Config := Some firefoxH2Config,
        fp_SupportHTTP3 := False\<rparr>)"

definition Firefox148 :: "preset_env \<Rightarrow> fp_preset" where
  "Firefox148 env =
     (let p = GetPlatformInfo (px_GOOS env);
          firefoxUA =
           (if pi_Platform p = ''Windows'' then ''Mozilla/5.0 (Windows NT 10.0; Win64; x64; rv:148.0) Gecko/20100101 Firefox/148.0''
            else if pi_Platform p = ''macOS'' then ''Mozilla/5.0 (Macintosh; Intel Mac OS X 10.15; rv:148.0) Gecko/20100101 Firefox/148.0''
            else ''Mozilla/5.0 (X11; Linux x86_64; rv:148.0) Gecko/20100101 Firefox/148.0'')
      in no_preset
       \<lparr>fp_Name := ''firefox-148'',
        fp_JA3 := ''771,4865-4867-4866-49195-49199-52393-52392-49196-49200-49162-49161-49171-49172-156-157-47-53,0-23-65281-10-11-35-16-5-34-18-51-43-13-45-28-27-65037,4588-29-23-24-25-256-257,0'',
        fp_JA3Extras := Some \<lparr>je_SignatureAlgorithms = [ECDSAWithP256AndSHA256, ECDSAWithP384AndSHA384, ECDSAWithP521AndSHA512, PSSWithSHA256, PSSWithSHA384, PSSWithSHA512, PKCS1WithSHA256, PKCS1WithSHA384, PKCS1WithSHA512, ECDSAWithSHA1, PKCS1WithSHA1],
          je_DelegatedCredentialAlgorithms = Some [ECDSAWithP256AndSHA256, ECDSAWithP384AndSHA384, ECDSAWithP521AndSHA512, ECDSAWithSHA1],
          je_ALPN = [''h2'', ''http/1.1''], je_CertCompAlgs = [OtherCertComp 1, CertCompressionBrotli, OtherCertComp 3],
          je_PermuteExtensions = False, je_RecordSizeLimit = 0x4001, je_KeyShareCurves = 3\<rparr>,
        fp_UserAgent := firefoxUA,
        fp_Headers :=
          [(''Accept'', ''text/html,application/xhtml+xml,application/xml;q=0.9,*/*;q=0.8''),
           (''Accept-Language'', ''en-US,en;q=0.9''), (''Accept-Encoding'', ''gzip, deflate, br, zstd''),
           (''Upgrade-Insecure-Requests'', ''1''), (''Sec-Fetch-Dest'', ''document''), (''Sec-Fetch-Mode'', ''navigate''),
           (''Sec-Fetch-Site'', ''none''), (''Sec-Fetch-User'', ''?1''), (''Priority'', ''u=0, i''), (''TE'', ''trailers'')],
        fp_HeaderOrder :=
          [(''user-agent'', []), (''accept'', ''text/html,application/xhtml+xml,application/xml;q=0.9,*/*;q=0.8''),
           (''accept-language'', ''en-US,en;q=0.9''), (''accept-encoding'', ''gzip, deflate, br, zstd''),
           (''upgrade-insecure-requests'', ''1''), (''sec-fetch-dest'', ''document''), (''sec-fetch-mode'', ''navigate''),
           (''sec-fetch-site'', ''none''), (''sec-fetch-user'', ''?1''), (''priority'', ''u=0, i''), (''te'', ''trailers'')],
        fp_HTTP2Settings :=
          \<lparr>hs_HeaderTableSize = 65536, hs_EnablePush = False, hs_MaxConcurrentStreams = 0, hs_InitialWindowSize = 131072,
           hs_MaxFrameSize = 16384, hs_MaxHeaderListSize = 0, hs_ConnectionWindowUpdate = 12517377, hs_StreamWeight = 42,
           hs_StreamExclusive = False, hs_NoRFC7540Priorities = False\<rparr>,
        fp_TCPFingerprint := no_tcp,
        fp_H2Config := Some firefoxH2Config,
        fp_SupportHTTP3 := False\<rparr>)"

definition Firefox133Windows :: "preset_env \<Rightarrow> fp_preset" where
  "Firefox133Windows env = custom_or env ''firefox-133-windows'' (Firefox133 env)"

definition Firefox133Linux :: "preset_env \<Rightarrow> fp_preset" where
  "Firefox133Linux env = custom_or env ''firefox-133-linux'' (Firefox133 env)"

definition Firefox133macOS :: "preset_env \<Rightarrow> fp_preset" where
  "Firefox133macOS env = custom_or env ''firefox-133-macos'' (Firefox133 env)"

definition Firefox148Windows :: "preset_env \<Rightarrow> fp_preset" where
  "Firefox148Windows env = custom_or env ''firefox-148-windows'' (Firefox148 env)"

definition Firefox148Linux :: "preset_env \<Rightarrow> fp_preset" where
  "Firefox148Linux env = custom_or env ''firefox-148-linux'' (Firefox148 env)"

definition Firefox148macOS :: "preset_env \<Rightarrow> fp_preset" where
  "Firefox148macOS env = custom_or env ''firefox-148-macos'' (Firefox148 env)"

definition Chrome143 :: "preset_env \<Rightarrow> fp_preset" where
  "Chrome143 env =
     (let p = GetPlatformInfo (px_GOOS env);
          clientHelloID =
           (if pi_Platform p = ''Windows'' then px_utls env ''HelloChrome_143_Windows''
            else if pi_Platform p = ''macOS'' then px_utls env ''HelloChrome_143_macOS''
            else px_utls env ''HelloChrome_143_Linux'');
          pskClientHelloID =
           (if pi_Platform p = ''Windows'' then px_utls env ''HelloChrome_143_Windows_PSK''
            else if pi_Platform p = ''macOS'' then px_utls env ''HelloChrome_143_macOS_PSK''
            else px_utls env ''HelloChrome_143_Linux_PSK'')
      in no_preset
       \<lparr>fp_Name := ''chrome-143'',
        fp_ClientHelloID := clientHelloID,
        fp_PSKClientHelloID := pskClientHelloID,
        fp_QUICClientHelloID := px_utls env ''HelloChrome_143_QUIC'',
        fp_QUICPSKClientHelloID := px_utls env ''HelloChrome_143_QUIC_PSK'',
        fp_UserAgent := (''Mozilla/5.0 '' @ pi_UserAgentOS p @ '' AppleWebKit/537.36 (KHTML, like Gecko) Chrome/143.0.0.0 Safari/537.36''),
        fp_Headers :=
          [(''sec-ch-ua'', ''\"Google Chrome\";v=\"143\", \"Chromium\";v=\"143\", \"Not A(Brand\";v=\"24\"''),
           (''sec-ch-ua-mobile'', ''?0''), (''sec-ch-ua-platform'', (''\"'' @ pi_Platform p @ ''\"'')),
           (''Upgrade-Insecure-Requests'', ''1''),
           (''Accept'', ''text/html,application/xhtml+xml,application/xml;q=0.9,image/avif,image/webp,image/apng,*/*;q=0.8,application/signed-exchange;v=b3;q=0.7''),
           (''Sec-Fetch-Site'', ''none''), (''Sec-Fetch-Mode'', ''navigate''), (''Sec-Fetch-User'', ''?1''),
           (''Sec-Fetch-Dest'', ''document''), (''Accept-Encoding'', ''gzip, deflate, br, zstd''),
           (''Accept-Language'', ''en-US,en;q=0.9''), (''Priority'', ''u=0, i'')],
        fp_HeaderOrder :=
          [(''sec-ch-ua'', ''\"Google Chrome\";v=\"143\", \"Chromium\";v=\"143\", \"Not A(Brand\";v=\"24\"''),
           (''sec-ch-ua-mobile'', ''?0''), (''sec-ch-ua-platform'', (''\"'' @ pi_Platform p @ ''\"'')),
           (''upgrade-insecure-requests'', ''1''), (''user-agent'', []),
           (''accept'', ''text/html,application/xhtml+xml,application/xml;q=0.9,image/avif,image/webp,image/apng,*/*;q=0.8,application/signed-exchange;v=b3;q=0.7''),
           (''sec-fetch-site'', ''none''), (''sec-fetch-mode'', ''navigate''), (''sec-fetch-user'', ''?1''),
           (''sec-fetch-dest'', ''document''), (''accept-encoding'', ''gzip, deflate, br, zstd''),
           (''accept-language'', ''en-US,en;q=0.9''), (''priority'', ''u=0, i'')],
        fp_HTTP2Settings :=
          \<lparr>hs_HeaderTableSize = 65536, hs_EnablePush = False, hs_MaxConcurrentStreams = 0, hs_InitialWindowSize = 6291456,
           hs_MaxFrameSize = 0, hs_MaxHeaderListSize = 262144, hs_ConnectionWindowUpdate = 15663105, hs_StreamWeight = 256,
           hs_StreamExclusive = True, hs_NoRFC7540Priorities = False\<rparr>,
        fp_TCPFingerprint := no_tcp,
        fp_H2Config := Some chromeH2Config,
        fp_SupportHTTP3 := True\<rparr>)"

definition Chrome143Windows :: "preset_env \<Rightarrow> fp_preset" where
  "Chrome143Windows env =
     no_preset
       \<lparr>fp_Name := ''chrome-143-windows'',
        fp_ClientHelloID := px_utls env ''HelloChrome_143_Windows'',
        fp_PSKClientHelloID := px_utls env ''HelloChrome_143_Windows_PSK'',
        fp_QUICClientHelloID := px_utls env ''HelloChrome_143_QUIC'',
        fp_QUICPSKClientHelloID := px_utls env ''HelloChrome_143_QUIC_PSK'',
        fp_UserAgent := ''Mozilla/5.0 (Windows NT 10.0; Win64; x64) AppleWebKit/537.36 (KHTML, like Gecko) Chrome/143.0.0.0 Safari/537.36'',
        fp_Headers :=
          [(''sec-ch-ua'', ''\"Google Chrome\";v=\"143\", \"Chromium\";v=\"143\", \"Not A(Brand\";v=\"24\"''),
           (''sec-ch-ua-mobile'', ''?0''), (''sec-ch-ua-platform'', ''\"Windows\"''), (''Upgrade-Insecure-Requests'', ''1''),
           (''Accept'', ''text/html,application/xhtml+xml,application/xml;q=0.9,image/avif,image/webp,image/apng,*/*;q=0.8,application/signed-exchange;v=b3;q=0.7''),
           (''Sec-Fetch-Site'', ''none''), (''Sec-Fetch-Mode'', ''navigate''), (''Sec-Fetch-User'', ''?1''),
           (''Sec-Fetch-Dest'', ''document''), (''Accept-Encoding'', ''gzip, deflate, br, zstd''),
           (''Accept-Language'', ''en-US,en;q=0.9''), (''Priority'', ''u=0, i'')],
        fp_HeaderOrder :=
          [(''sec-ch-ua'', ''\"Google Chrome\";v=\"143\", \"Chromium\";v=\"143\", \"Not A(Brand\";v=\"24\"''),
           (''sec-ch-ua-mobile'', ''?0''), (''sec-ch-ua-platform'', ''\"Windows\"''), (''upgrade-insecure-requests'', ''1''),
           (''user-agent'', []),
           (''accept'', ''text/html,application/xhtml+xml,application/xml;q=0.9,image/avif,image/webp,image/apng,*/*;q=0.8,application/signed-exchange;v=b3;q=0.7''),
           (''sec-fetch-site'', ''none''), (''sec-fetch-mode'', ''navigate''), (''sec-fetch-user'', ''?1''),
           (''sec-fetch-dest'', ''document''), (''accept-encoding'', ''gzip, deflate, br, zstd''),
           (''accept-language'', ''en-US,en;q=0.9''), (''priority'', ''u=0, i'')],
        fp_HTTP2Settings :=
          \<lparr>hs_HeaderTableSize = 65536, hs_EnablePush = False, hs_MaxConcurrentStreams = 0, hs_InitialWindowSize = 6291456,
           hs_MaxFrameSize = 0, hs_MaxHeaderListSize = 262144, hs_ConnectionWindowUpdate = 15663105, hs_StreamWeight = 256,
           hs_StreamExclusive = True, hs_NoRFC7540Priorities = False\<rparr>,
        fp_TCPFingerprint := no_tcp,
        fp_H2Config := Some chromeH2Config,
        fp_SupportHTTP3 := True\<rparr>"

definition Chrome143Linux :: "preset_env \<Rightarrow> fp_preset" where
  "Chrome143Linux env =
     no_preset
       \<lparr>fp_Name := ''chrome-143-linux'',
        fp_ClientHelloID := px_utls env ''HelloChrome_143_Linux'',
        fp_PSKClientHelloID := px_utls env ''HelloChrome_143_Linux_PSK'',
        fp_QUICClientHelloID := px_utls env ''HelloChrome_143_QUIC'',
        fp_QUICPSKClientHelloID := px_utls env ''HelloChrome_143_QUIC_PSK'',
        fp_UserAgent := ''Mozilla/5.0 (X11; Linux x86_64) AppleWebKit/537.36 (KHTML, like Gecko) Chrome/143.0.0.0 Safari/537.36'',
        fp_Headers :=
          [(''sec-ch-ua'', ''\"Google Chrome\";v=\"143\", \"Chromium\";v=\"143\", \"Not A(Brand\";v=\"24\"''),
           (''sec-ch-ua-mobile'', ''?0''), (''sec-ch-ua-platform'', ''\"Linux\"''), (''Upgrade-Insecure-Requests'', ''1''),
           (''Accept'', ''text/html,application/xhtml+xml,application/xml;q=0.9,image/avif,image/webp,image/apng,*/*;q=0.8,application/signed-exchange;v=b3;q=0.7''),
           (''Sec-Fetch-Site'', ''none''), (''Sec-Fetch-Mode'', ''navigate''), (''Sec-Fetch-User'', ''?1''),
           (''Sec-Fetch-Dest'', ''document''), (''Accept-Encoding'', ''gzip, deflate, br, zstd''),
           (''Accept-Language'', ''en-US,en;q=0.9''), (''Priority'', ''u=0, i'')],
        fp_HeaderOrder :=
          [(''sec-ch-ua'', ''\"Google Chrome\";v=\"143\", \"Chromium\";v=\"143\", \"Not A(Brand\";v=\"24\"''),
           (''sec-ch-ua-mobile'', ''?0''), (''sec-ch-ua-platform'', ''\"Linux\"''), (''upgrade-insecure-requests'', ''1''),
           (''user-agent'', []),
           (''accept'', ''text/html,application/xhtml+xml,application/xml;q=0.9,image/avif,image/webp,image/apng,*/*;q=0.8,application/signed-exchange;v=b3;q=0.7''),
           (''sec-fetch-site'', ''none''), (''sec-fetch-mode'', ''navigate''), (''sec-fetch-user'', ''?1''),
           (''sec-fetch-dest'', ''document''), (''accept-encoding'', ''gzip, deflate, br, zstd''),
           (''accept-language'', ''en-US,en;q=0.9''), (''priority'', ''u=0, i'')],
        fp_HTTP2Settings :=
          \<lparr>hs_HeaderTableSize = 65536, hs_EnablePush = False, hs_MaxConcurrentStreams = 0, hs_InitialWindowSize = 6291456,
           hs_MaxFrameSize = 0, hs_MaxHeaderListSize = 262144, hs_ConnectionWindowUpdate = 15663105, hs_StreamWeight = 256,
           hs_StreamExclusive = True, hs_NoRFC7540Priorities = False\<rparr>,
        fp_TCPFingerprint := no_tcp,
        fp_H2Config := Some chromeH2Config,
        fp_SupportHTTP3 := True\<rparr>"

definition Chrome143macOS :: "preset_env \<Rightarrow> fp_preset" where
  "Chrome143macOS env =
     no_preset
       \<lparr>fp_Name := ''chrome-143-macos'',
        fp_ClientHelloID := px_utls env ''HelloChrome_143_macOS'',
        fp_PSKClientHelloID := px_utls env ''HelloChrome_143_macOS_PSK'',
        fp_QUICClientHelloID := px_utls env ''HelloChrome_143_QUIC'',
        fp_QUICPSKClientHelloID := px_utls env ''HelloChrome_143_QUIC_PSK'',
        fp_UserAgent := ''Mozilla/5.0 (Macintosh; Intel Mac OS X 10_15_7) AppleWebKit/537.36 (KHTML, like Gecko) Chrome/143.0.0.0 Safari/537.36'',
        fp_Headers :=
          [(''sec-ch-ua'', ''\"Google Chrome\";v=\"143\", \"Chromium\";v=\"143\", \"Not A(Brand\";v=\"24\"''),
           (''sec-ch-ua-mobile'', ''?0''), (''sec-ch-ua-platform'', ''\"macOS\"''), (''Upgrade-Insecure-Requests'', ''1''),
           (''Accept'', ''text/html,application/xhtml+xml,application/xml;q=0.9,image/avif,image/webp,image/apng,*/*;q=0.8,application/signed-exchange;v=b3;q=0.7''),
           (''Sec-Fetch-Site'', ''none''), (''Sec-Fetch-Mode'', ''navigate''), (''Sec-Fetch-User'', ''?1''),
           (''Sec-Fetch-Dest'', ''document''), (''Accept-Encoding'', ''gzip, deflate, br, zstd''),
           (''Accept-Language'', ''en-US,en;q=0.9''), (''Priority'', ''u=0, i'')],
        fp_HeaderOrder :=
          [(''sec-ch-ua'', ''\"Google Chrome\";v=\"143\", \"Chromium\";v=\"143\", \"Not A(Brand\";v=\"24\"''),
           (''sec-ch-ua-mobile'', ''?0''), (''sec-ch-ua-platform'', ''\"macOS\"''), (''upgrade-insecure-requests'', ''1''),
           (''user-agent'', []),
           (''accept'', ''text/html,application/xhtml+xml,application/xml;q=0.9,image/avif,image/webp,image/apng,*/*;q=0.8,application/signed-exchange;v=b3;q=0.7''),
           (''sec-fetch-site'', ''none''), (''sec-fetch-mode'', ''navigate''), (''sec-fetch-user'', ''?1''),
           (''sec-fetch-dest'', ''document''), (''accept-encoding'', ''gzip, deflate, br, zstd''),
           (''accept-language'', ''en-US,en;q=0.9''), (''priority'', ''u=0, i'')],
        fp_HTTP2Settings :=
          \<lparr>hs_HeaderTableSize = 65536, hs_EnablePush = False, hs_MaxConcurrentStreams = 0, hs_InitialWindowSize = 6291456,
           hs_MaxFrameSize = 0, hs_MaxHeaderListSize = 262144, hs_ConnectionWindowUpdate = 15663105, hs_StreamWeight = 256,
           hs_StreamExclusive = True, hs_NoRFC7540Priorities = False\<rparr>,
        fp_TCPFingerprint := no_tcp,
        fp_H2Config := Some chromeH2Config,
        fp_SupportHTTP3 := True\<rparr>"

definition Chrome144 :: "preset_env \<Rightarrow> fp_preset" where
  "Chrome144 env =
     (let p = GetPlatformInfo (px_GOOS env);
          clientHelloID =
           (if pi_Platform p = ''Windows'' then px_utls env ''HelloChrome_144_Windows''
            else if pi_Platform p = ''macOS'' then px_utls env ''HelloChrome_144_macOS''
            else px_utls env ''HelloChrome_144_Linux'');
          pskClientHelloID =
           (if pi_Platform p = ''Windows'' then px_utls env ''HelloChrome_144_Windows_PSK''
            else if pi_Platform p = ''macOS'' then px_utls env ''HelloChrome_144_macOS_PSK''
            else px_utls env ''HelloChrome_144_Linux_PSK'')
      in no_preset
       \<lparr>fp_Name := ''chrome-144'',
        fp_ClientHelloID := clientHelloID,
        fp_PSKClientHelloID := pskClientHelloID,
        fp_QUICClientHelloID := px_utls env ''HelloChrome_144_QUIC'',
        fp_QUICPSKClientHelloID := px_utls env ''HelloChrome_144_QUIC_PSK'',
        fp_UserAgent := (''Mozilla/5.0 '' @ pi_UserAgentOS p @ '' AppleWebKit/537.36 (KHTML, like Gecko) Chrome/144.0.0.0 Safari/537.36''),
        fp_Headers :=
          [(''sec-ch-ua'', ''\"Not(A:Brand\";v=\"8\", \"Chromium\";v=\"144\", \"Google Chrome\";v=\"144\"''),
           (''sec-ch-ua-mobile'', ''?0''), (''sec-ch-ua-platform'', (''\"'' @ pi_Platform p @ ''\"'')),
           (''Upgrade-Insecure-Requests'', ''1''),
           (''Accept'', ''text/html,application/xhtml+xml,application/xml;q=0.9,image/avif,image/webp,image/apng,*/*;q=0.8,application/signed-exchange;v=b3;q=0.7''),
           (''Sec-Fetch-Site'', ''none''), (''Sec-Fetch-Mode'', ''navigate''), (''Sec-Fetch-User'', ''?1''),
           (''Sec-Fetch-Dest'', ''document''), (''Accept-Encoding'', ''gzip, deflate, br, zstd''),
           (''Accept-Language'', ''en-US,en;q=0.9''), (''Priority'', ''u=0, i'')],
        fp_HeaderOrder :=
          [(''sec-ch-ua'', ''\"Not(A:Brand\";v=\"8\", \"Chromium\";v=\"144\", \"Google Chrome\";v=\"144\"''),
           (''sec-ch-ua-mobile'', ''?0''), (''sec-ch-ua-platform'', (''\"'' @ pi_Platform p @ ''\"'')),
           (''upgrade-insecure-requests'', ''1''), (''user-agent'', []),
           (''accept'', ''text/html,application/xhtml+xml,application/xml;q=0.9,image/avif,image/webp,image/apng,*/*;q=0.8,application/signed-exchange;v=b3;q=0.7''),
           (''sec-fetch-site'', ''none''), (''sec-fetch-mode'', ''navigate''), (''sec-fetch-user'', ''?1''),
           (''sec-fetch-dest'', ''document''), (''accept-encoding'', ''gzip, deflate, br, zstd''),
           (''accept-language'', ''en-US,en;q=0.9''), (''priority'', ''u=0, i'')],
        fp_HTTP2Settings :=
          \<lparr>hs_HeaderTableSize = 65536, hs_EnablePush = False, hs_MaxConcurrentStreams = 0, hs_InitialWindowSize = 6291456,
           hs_MaxFrameSize = 0, hs_MaxHeaderListSize = 262144, hs_ConnectionWindowUpdate = 15663105, hs_StreamWeight = 256,
           hs_StreamExclusive = True, hs_NoRFC7540Priorities = False\<rparr>,
        fp_TCPFingerprint := no_tcp,
        fp_H2Config := Some chromeH2Config,
        fp_SupportHTTP3 := True\<rparr>)"

definition Chrome144Windows :: "preset_env \<Rightarrow> fp_preset" where
  "Chrome144Windows env =
     no_preset
       \<lparr>fp_Name := ''chrome-144-windows'',
        fp_ClientHelloID := px_utls env ''HelloChrome_144_Windows'',
        fp_PSKClientHelloID := px_utls env ''HelloChrome_144_Windows_PSK'',
        fp_QUICClientHelloID := px_utls env ''HelloChrome_144_QUIC'',
        fp_QUICPSKClientHelloID := px_utls env ''HelloChrome_144_QUIC_PSK'',
        fp_UserAgent := ''Mozilla/5.0 (Windows NT 10.0; Win64; x64) AppleWebKit/537.36 (KHTML, like Gecko) Chrome/144.0.0.0 Safari/537.36'',
        fp_Headers :=
          [(''sec-ch-ua'', ''\"Not(A:Brand\";v=\"8\", \"Chromium\";v=\"144\", \"Google Chrome\";v=\"144\"''),
           (''sec-ch-ua-mobile'', ''?0''), (''sec-ch-ua-platform'', ''\"Windows\"''), (''Upgrade-Insecure-Requests'', ''1''),
           (''Accept'', ''text/html,application/xhtml+xml,application/xml;q=0.9,image/avif,image/webp,image/apng,*/*;q=0.8,application/signed-exchange;v=b3;q=0.7''),
           (''Sec-Fetch-Site'', ''none''), (''Sec-Fetch-Mode'', ''navigate''), (''Sec-Fetch-User'', ''?1''),
           (''Sec-Fetch-Dest'', ''document''), (''Accept-Encoding'', ''gzip, deflate, br, zstd''),
           (''Accept-Language'', ''en-US,en;q=0.9''), (''Priority'', ''u=0, i'')],
        fp_HeaderOrder :=
          [(''sec-ch-ua'', ''\"Not(A:Brand\";v=\"8\", \"Chromium\";v=\"144\", \"Google Chrome\";v=\"144\"''),
           (''sec-ch-ua-mobile'', ''?0''), (''sec-ch-ua-platform'', ''\"Windows\"''), (''upgrade-insecure-requests'', ''1''),
           (''user-agent'', []),
           (''accept'', ''text/html,application/xhtml+xml,application/xml;q=0.9,image/avif,image/webp,image/apng,*/*;q=0.8,application/signed-exchange;v=b3;q=0.7''),
           (''sec-fetch-site'', ''none''), (''sec-fetch-mode'', ''navigate''), (''sec-fetch-user'', ''?1''),
           (''sec-fetch-dest'', ''document''), (''accept-encoding'', ''gzip, deflate, br, zstd''),
           (''accept-language'', ''en-US,en;q=0.9''), (''priority'', ''u=0, i'')],
        fp_HTTP2Settings :=
          \<lparr>hs_HeaderTableSize = 65536, hs_EnablePush = False, hs_MaxConcurrentStreams = 0, hs_InitialWindowSize = 6291456,
           hs_MaxFrameSize = 0, hs_MaxHeaderListSize = 262144, hs_ConnectionWindowUpdate = 15663105, hs_StreamWeight = 256,
           hs_StreamExclusive = True, hs_NoRFC7540Priorities = False\<rparr>,
        fp_TCPFingerprint := no_tcp,
        fp_H2Config := Some chromeH2Config,
        fp_SupportHTTP3 := True\<rparr>"

definition Chrome144Linux :: "preset_env \<Rightarrow> fp_preset" where
  "Chrome144Linux env =
     no_preset
       \<lparr>fp_Name := ''chrome-144-linux'',
        fp_ClientHelloID := px_utls env ''HelloChrome_144_Linux'',
        fp_PSKClientHelloID := px_utls env ''HelloChrome_144_Linux_PSK'',
        fp_QUICClientHelloID := px_utls env ''HelloChrome_144_QUIC'',
        fp_QUICPSKClientHelloID := px_utls env ''HelloChrome_144_QUIC_PSK'',
        fp_UserAgent := ''Mozilla/5.0 (X11; Linux x86_64) AppleWebKit/537.36 (KHTML, like Gecko) Chrome/144.0.0.0 Safari/537.36'',
        fp_Headers :=
          [(''sec-ch-ua'', ''\"Not(A:Brand\";v=\"8\", \"Chromium\";v=\"144\", \"Google Chrome\";v=\"144\"''),
           (''sec-ch-ua-mobile'', ''?0''), (''sec-ch-ua-platform'', ''\"Linux\"''), (''Upgrade-Insecure-Requests'', ''1''),
           (''Accept'', ''text/html,application/xhtml+xml,application/xml;q=0.9,image/avif,image/webp,image/apng,*/*;q=0.8,application/signed-exchange;v=b3;q=0.7''),
           (''Sec-Fetch-Site'', ''none''), (''Sec-Fetch-Mode'', ''navigate''), (''Sec-Fetch-User'', ''?1''),
           (''Sec-Fetch-Dest'', ''document''), (''Accept-Encoding'', ''gzip, deflate, br, zstd''),
           (''Accept-Language'', ''en-US,en;q=0.9''), (''Priority'', ''u=0, i'')],
        fp_HeaderOrder :=
          [(''sec-ch-ua'', ''\"Not(A:Brand\";v=\"8\", \"Chromium\";v=\"144\", \"Google Chrome\";v=\"144\"''),
           (''sec-ch-ua-mobile'', ''?0''), (''sec-ch-ua-platform'', ''\"Linux\"''), (''upgrade-insecure-requests'', ''1''),
           (''user-agent'', []),
           (''accept'', ''text/html,application/xhtml+xml,application/xml;q=0.9,image/avif,image/webp,image/apng,*/*;q=0.8,application/signed-exchange;v=b3;q=0.7''),
           (''sec-fetch-site'', ''none''), (''sec-fetch-mode'', ''navigate''), (''sec-fetch-user'', ''?1''),
           (''sec-fetch-dest'', ''document''), (''accept-encoding'', ''gzip, deflate, br, zstd''),
           (''accept-language'', ''en-US,en;q=0.9''), (''priority'', ''u=0, i'')],
        fp_HTTP2Settings :=
          \<lparr>hs_HeaderTableSize = 65536, hs_EnablePush = False, hs_MaxConcurrentStreams = 0, hs_InitialWindowSize = 6291456,
           hs_MaxFrameSize = 0, hs_MaxHeaderListSize = 262144, hs_ConnectionWindowUpdate = 15663105, hs_StreamWeight = 256,
           hs_StreamExclusive = True, hs_NoRFC7540Priorities = False\<rparr>,
        fp_TCPFingerprint := no_tcp,
        fp_H2Config := Some chromeH2Config,
        fp_SupportHTTP3 := True\<rparr>"

definition Chrome144macOS :: "preset_env \<Rightarrow> fp_preset" where
  "Chrome144macOS env =
     no_preset
       \<lparr>fp_Name := ''chrome-144-macos'',
        fp_ClientHelloID := px_utls env ''HelloChrome_144_macOS'',
        fp_PSKClientHelloID := px_utls env ''HelloChrome_144_macOS_PSK'',
        fp_QUICClientHelloID := px_utls env ''HelloChrome_144_QUIC'',
        fp_QUICPSKClientHelloID := px_utls env ''HelloChrome_144_QUIC_PSK'',
        fp_UserAgent := ''Mozilla/5.0 (Macintosh; Intel Mac OS X 10_15_7) AppleWebKit/537.36 (KHTML, like Gecko) Chrome/144.0.0.0 Safari/537.36'',
        fp_Headers :=
          [(''sec-ch-ua'', ''\"Not(A:Brand\";v=\"8\", \"Chromium\";v=\"144\", \"Google Chrome\";v=\"144\"''),
           (''sec-ch-ua-mobile'', ''?0''), (''sec-ch-ua-platform'', ''\"macOS\"''), (''Upgrade-Insecure-Requests'', ''1''),
           (''Accept'', ''text/html,application/xhtml+xml,application/xml;q=0.9,image/avif,image/webp,image/apng,*/*;q=0.8,application/signed-exchange;v=b3;q=0.7''),
           (''Sec-Fetch-Site'', ''none''), (''Sec-Fetch-Mode'', ''navigate''), (''Sec-Fetch-User'', ''?1''),
           (''Sec-Fetch-Dest'', ''document''), (''Accept-Encoding'', ''gzip, deflate, br, zstd''),
           (''Accept-Language'', ''en-GB,en-US;q=0.9,en;q=0.8''), (''Priority'', ''u=0, i'')],
        fp_HeaderOrder :=
          [(''sec-ch-ua'', ''\"Not(A:Brand\";v=\"8\", \"Chromium\";v=\"144\", \"Google Chrome\";v=\"144\"''),
           (''sec-ch-ua-mobile'', ''?0''), (''sec-ch-ua-platform'', ''\"macOS\"''), (''upgrade-insecure-requests'', ''1''),
           (''user-agent'', []),
           (''accept'', ''text/html,application/xhtml+xml,application/xml;q=0.9,image/avif,image/webp,image/apng,*/*;q=0.8,application/signed-exchange;v=b3;q=0.7''),
           (''sec-fetch-site'', ''none''), (''sec-fetch-mode'', ''navigate''), (''sec-fetch-user'', ''?1''),
           (''sec-fetch-dest'', ''document''), (''accept-encoding'', ''gzip, deflate, br, zstd''),
           (''accept-language'', ''en-GB,en-US;q=0.9,en;q=0.8''), (''priority'', ''u=0, i'')],
        fp_HTTP2Settings :=
          \<lparr>hs_HeaderTableSize = 65536, hs_EnablePush = False, hs_MaxConcurrentStreams = 0, hs_InitialWindowSize = 6291456,
           hs_MaxFrameSize = 0, hs_MaxHeaderListSize = 262144, hs_ConnectionWindowUpdate = 15663105, hs_StreamWeight = 256,
           hs_StreamExclusive = True, hs_NoRFC7540Priorities = False\<rparr>,
        fp_TCPFingerprint := no_tcp,
        fp_H2Config := Some chromeH2Config,
        fp_SupportHTTP3 := True\<rparr>"

definition Chrome145 :: "preset_env \<Rightarrow> fp_preset" where
  "Chrome145 env =
     (let p = GetPlatformInfo (px_GOOS env);
          clientHelloID =
           (if pi_Platform p = ''Windows'' then px_utls env ''HelloChrome_145_Windows''
            else if pi_Platform p = ''macOS'' then px_utls env ''HelloChrome_145_macOS''
            else px_utls env ''HelloChrome_145_Linux'');
          pskClientHelloID =
           (if pi_Platform p = ''Windows'' then px_utls env ''HelloChrome_145_Windows_PSK''
            else if pi_Platform p = ''macOS'' then px_utls env ''HelloChrome_145_macOS_PSK''
            else px_utls env ''HelloChrome_145_Linux_PSK'')
      in no_preset
       \<lparr>fp_Name := ''chrome-145'',
        fp_ClientHelloID := clientHelloID,
        fp_PSKClientHelloID := pskClientHelloID,
        fp_QUICClientHelloID := px_utls env ''HelloChrome_145_QUIC'',
        fp_QUICPSKClientHelloID := px_utls env ''HelloChrome_145_QUIC_PSK'',
        fp_UserAgent := (''Mozilla/5.0 '' @ pi_UserAgentOS p @ '' AppleWebKit/537.36 (KHTML, like Gecko) Chrome/145.0.0.0 Safari/537.36''),
        fp_Headers :=
          [(''sec-ch-ua'', ''\"Not:A-Brand\";v=\"99\", \"Google Chrome\";v=\"145\", \"Chromium\";v=\"145\"''),
           (''sec-ch-ua-mobile'', ''?0''), (''sec-ch-ua-platform'', (''\"'' @ pi_Platform p @ ''\"'')),
           (''Upgrade-Insecure-Requests'', ''1''),
           (''Accept'', ''text/html,application/xhtml+xml,application/xml;q=0.9,image/avif,image/webp,image/apng,*/*;q=0.8,application/signed-exchange;v=b3;q=0.7''),
           (''Sec-Fetch-Site'', ''none''), (''Sec-Fetch-Mode'', ''navigate''), (''Sec-Fetch-User'', ''?1''),
           (''Sec-Fetch-Dest'', ''document''), (''Accept-Encoding'', ''gzip, deflate, br, zstd''),
           (''Accept-Language'', ''en-US,en;q=0.9''), (''Priority'', ''u=0, i'')],
        fp_HeaderOrder :=
          [(''sec-ch-ua'', ''\"Not:A-Brand\";v=\"99\", \"Google Chrome\";v=\"145\", \"Chromium\";v=\"145\"''),
           (''sec-ch-ua-mobile'', ''?0''), (''sec-ch-ua-platform'', (''\"'' @ pi_Platform p @ ''\"'')),
           (''upgrade-insecure-requests'', ''1''), (''user-agent'', []),
           (''accept'', ''text/html,application/xhtml+xml,application/xml;q=0.9,image/avif,image/webp,image/apng,*/*;q=0.8,application/signed-exchange;v=b3;q=0.7''),
           (''sec-fetch-site'', ''none''), (''sec-fetch-mode'', ''navigate''), (''sec-fetch-user'', ''?1''),
           (''sec-fetch-dest'', ''document''), (''accept-encoding'', ''gzip, deflate, br, zstd''),
           (''accept-language'', ''en-US,en;q=0.9''), (''priority'', ''u=0, i'')],
        fp_HTTP2Settings :=
          \<lparr>hs_HeaderTableSize = 65536, hs_EnablePush = False, hs_MaxConcurrentStreams = 0, hs_InitialWindowSize = 6291456,
           hs_MaxFrameSize = 0, hs_MaxHeaderListSize = 262144, hs_ConnectionWindowUpdate = 15663105, hs_StreamWeight = 256,
           hs_StreamExclusive = True, hs_NoRFC7540Priorities = False\<rparr>,
        fp_TCPFingerprint := no_tcp,
        fp_H2Config := Some chromeH2Config,
        fp_SupportHTTP3 := True\<rparr>)"

definition Chrome145Windows :: "preset_env \<Rightarrow> fp_preset" where
  "Chrome145Windows env =
     no_preset
       \<lparr>fp_Name := ''chrome-145-windows'',
        fp_ClientHelloID := px_utls env ''HelloChrome_145_Windows'',
        fp_PSKClientHelloID := px_utls env ''HelloChrome_145_Windows_PSK'',
        fp_QUICClientHelloID := px_utls env ''HelloChrome_145_QUIC'',
        fp_QUICPSKClientHelloID := px_utls env ''HelloChrome_145_QUIC_PSK'',
        fp_UserAgent := ''Mozilla/5.0 (Windows NT 10.0; Win64; x64) AppleWebKit/537.36 (KHTML, like Gecko) Chrome/145.0.0.0 Safari/537.36'',
        fp_Headers :=
          [(''sec-ch-ua'', ''\"Not:A-Brand\";v=\"99\", \"Google Chrome\";v=\"145\", \"Chromium\";v=\"145\"''),
           (''sec-ch-ua-mobile'', ''?0''), (''sec-ch-ua-platform'', ''\"Windows\"''), (''Upgrade-Insecure-Requests'', ''1''),
           (''Accept'', ''text/html,application/xhtml+xml,application/xml;q=0.9,image/avif,image/webp,image/apng,*/*;q=0.8,application/signed-exchange;v=b3;q=0.7''),
           (''Sec-Fetch-Site'', ''none''), (''Sec-Fetch-Mode'', ''navigate''), (''Sec-Fetch-User'', ''?1''),
           (''Sec-Fetch-Dest'', ''document''), (''Accept-Encoding'', ''gzip, deflate, br, zstd''),
           (''Accept-Language'', ''en-US,en;q=0.9''), (''Priority'', ''u=0, i'')],
        fp_HeaderOrder :=
          [(''sec-ch-ua'', ''\"Not:A-Brand\";v=\"99\", \"Google Chrome\";v=\"145\", \"Chromium\";v=\"145\"''),
           (''sec-ch-ua-mobile'', ''?0''), (''sec-ch-ua-platform'', ''\"Windows\"''), (''upgrade-insecure-requests'', ''1''),
           (''user-agent'', []),
           (''accept'', ''text/html,application/xhtml+xml,application/xml;q=0.9,image/avif,image/webp,image/apng,*/*;q=0.8,application/signed-exchange;v=b3;q=0.7''),
           (''sec-fetch-site'', ''none''), (''sec-fetch-mode'', ''navigate''), (''sec-fetch-user'', ''?1''),
           (''sec-fetch-dest'', ''document''), (''accept-encoding'', ''gzip, deflate, br, zstd''),
           (''accept-language'', ''en-US,en;q=0.9''), (''priority'', ''u=0, i'')],
        fp_HTTP2Settings :=
          \<lparr>hs_HeaderTableSize = 65536, hs_EnablePush = False, hs_MaxConcurrentStreams = 0, hs_InitialWindowSize = 6291456,
           hs_MaxFrameSize = 0, hs_MaxHeaderListSize = 262144, hs_ConnectionWindowUpdate = 15663105, hs_StreamWeight = 256,
           hs_StreamExclusive = True, hs_NoRFC7540Priorities = False\<rparr>,
        fp_TCPFingerprint := no_tcp,
        fp_H2Config := Some chromeH2Config,
        fp_SupportHTTP3 := True\<rparr>"

definition Chrome145Linux :: "preset_env \<Rightarrow> fp_preset" where
  "Chrome145Linux env =
     no_preset
       \<lparr>fp_Name := ''chrome-145-linux'',
        fp_ClientHelloID := px_utls env ''HelloChrome_145_Linux'',
        fp_PSKClientHelloID := px_utls env ''HelloChrome_145_Linux_PSK'',
        fp_QUICClientHelloID := px_utls env ''HelloChrome_145_QUIC'',
        fp_QUICPSKClientHelloID := px_utls env ''HelloChrome_145_QUIC_PSK'',
        fp_UserAgent := ''Mozilla/5.0 (X11; Linux x86_64) AppleWebKit/537.36 (KHTML, like Gecko) Chrome/145.0.0.0 Safari/537.36'',
        fp_Headers :=
          [(''sec-ch-ua'', ''\"Not:A-Brand\";v=\"99\", \"Google Chrome\";v=\"145\", \"Chromium\";v=\"145\"''),
           (''sec-ch-ua-mobile'', ''?0''), (''sec-ch-ua-platform'', ''\"Linux\"''), (''Upgrade-Insecure-Requests'', ''1''),
           (''Accept'', ''text/html,application/xhtml+xml,application/xml;q=0.9,image/avif,image/webp,image/apng,*/*;q=0.8,application/signed-exchange;v=b3;q=0.7''),
           (''Sec-Fetch-Site'', ''none''), (''Sec-Fetch-Mode'', ''navigate''), (''Sec-Fetch-User'', ''?1''),
           (''Sec-Fetch-Dest'', ''document''), (''Accept-Encoding'', ''gzip, deflate, br, zstd''),
           (''Accept-Language'', ''en-US,en;q=0.9''), (''Priority'', ''u=0, i'')],
        fp_HeaderOrder :=
          [(''sec-ch-ua'', ''\"Not:A-Brand\";v=\"99\", \"Google Chrome\";v=\"145\", \"Chromium\";v=\"145\"''),
           (''sec-ch-ua-mobile'', ''?0''), (''sec-ch-ua-platform'', ''\"Linux\"''), (''upgrade-insecure-requests'', ''1''),
           (''user-agent'', []),
           (''accept'', ''text/html,application/xhtml+xml,application/xml;q=0.9,image/avif,image/webp,image/apng,*/*;q=0.8,application/signed-exchange;v=b3;q=0.7''),
           (''sec-fetch-site'', ''none''), (''sec-fetch-mode'', ''navigate''), (''sec-fetch-user'', ''?1''),
           (''sec-fetch-dest'', ''document''), (''accept-encoding'', ''gzip, deflate, br, zstd''),
           (''accept-language'', ''en-US,en;q=0.9''), (''priority'', ''u=0, i'')],
        fp_HTTP2Settings :=
          \<lparr>hs_HeaderTableSize = 65536, hs_EnablePush = False, hs_MaxConcurrentStreams = 0, hs_InitialWindowSize = 6291456,
           hs_MaxFrameSize = 0, hs_MaxHeaderListSize = 262144, hs_ConnectionWindowUpdate = 15663105, hs_StreamWeight = 256,
           hs_StreamExclusive = True, hs_NoRFC7540Priorities = False\<rparr>,
        fp_TCPFingerprint := no_tcp,
        fp_H2Config := Some chromeH2Config,
        fp_SupportHTTP3 := True\<rparr>"

definition Chrome145macOS :: "preset_env \<Rightarrow> fp_preset" where
  "Chrome145macOS env =
     no_preset
       \<lparr>fp_Name := ''chrome-145-macos'',
        fp_ClientHelloID := px_utls env ''HelloChrome_145_macOS'',
        fp_PSKClientHelloID := px_utls env ''HelloChrome_145_macOS_PSK'',
        fp_QUICClientHelloID := px_utls env ''HelloChrome_145_QUIC'',
        fp_QUICPSKClientHelloID := px_utls env ''HelloChrome_145_QUIC_PSK'',
        fp_UserAgent := ''Mozilla/5.0 (Macintosh; Intel Mac OS X 10_15_7) AppleWebKit/537.36 (KHTML, like Gecko) Chrome/145.0.0.0 Safari/537.36'',
        fp_Headers :=
          [(''sec-ch-ua'', ''\"Not:A-Brand\";v=\"99\", \"Google Chrome\";v=\"145\", \"Chromium\";v=\"145\"''),
           (''sec-ch-ua-mobile'', ''?0''), (''sec-ch-ua-platform'', ''\"macOS\"''), (''Upgrade-Insecure-Requests'', ''1''),
           (''Accept'', ''text/html,application/xhtml+xml,application/xml;q=0.9,image/avif,image/webp,image/apng,*/*;q=0.8,application/signed-exchange;v=b3;q=0.7''),
           (''Sec-Fetch-Site'', ''none''), (''Sec-Fetch-Mode'', ''navigate''), (''Sec-Fetch-User'', ''?1''),
           (''Sec-Fetch-Dest'', ''document''), (''Accept-Encoding'', ''gzip, deflate, br, zstd''),
           (''Accept-Language'', ''en-US,en;q=0.9''), (''Priority'', ''u=0, i'')],
        fp_HeaderOrder :=
          [(''sec-ch-ua'', ''\"Not:A-Brand\";v=\"99\", \"Google Chrome\";v=\"145\", \"Chromium\";v=\"145\"''),
           (''sec-ch-ua-mobile'', ''?0''), (''sec-ch-ua-platform'', ''\"macOS\"''), (''upgrade-insecure-requests'', ''1''),
           (''user-agent'', []),
           (''accept'', ''text/html,application/xhtml+xml,application/xml;q=0.9,image/avif,image/webp,image/apng,*/*;q=0.8,application/signed-exchange;v=b3;q=0.7''),
           (''sec-fetch-site'', ''none''), (''sec-fetch-mode'', ''navigate''), (''sec-fetch-user'', ''?1''),
           (''sec-fetch-dest'', ''document''), (''accept-encoding'', ''gzip, deflate, br, zstd''),
           (''accept-language'', ''en-US,en;q=0.9''), (''priority'', ''u=0, i'')],
        fp_HTTP2Settings :=
          \<lparr>hs_HeaderTableSize = 65536, hs_EnablePush = False, hs_MaxConcurrentStreams = 0, hs_InitialWindowSize = 6291456,
           hs_MaxFrameSize = 0, hs_MaxHeaderListSize = 262144, hs_ConnectionWindowUpdate = 15663105, hs_StreamWeight = 256,
           hs_StreamExclusive = True, hs_NoRFC7540Priorities = False\<rparr>,
        fp_TCPFingerprint := no_tcp,
        fp_H2Config := Some chromeH2Config,
        fp_SupportHTTP3 := True\<rparr>"

definition Chrome146 :: "preset_env \<Rightarrow> fp_preset" where
  "Chrome146 env =
     (let p = GetPlatformInfo (px_GOOS env);
          clientHelloID =
           (if pi_Platform p = ''Windows'' then px_utls env ''HelloChrome_146_Windows''
            else if pi_Platform p = ''macOS'' then px_utls env ''HelloChrome_146_macOS''
            else px_utls env ''HelloChrome_146_Linux'');
          pskClientHelloID =
           (if pi_Platform p = ''Windows'' then px_utls env ''HelloChrome_146_Windows_PSK''
            else if pi_Platform p = ''macOS'' then px_utls env ''HelloChrome_146_macOS_PSK''
            else px_utls env ''HelloChrome_146_Linux_PSK'')
      in no_preset
       \<lparr>fp_Name := ''chrome-146'',
        fp_ClientHelloID := clientHelloID,
        fp_PSKClientHelloID := pskClientHelloID,
        fp_QUICClientHelloID := px_utls env ''HelloChrome_146_QUIC'',
        fp_QUICPSKClientHelloID := px_utls env ''HelloChrome_146_QUIC_PSK'',
        fp_UserAgent := (''Mozilla/5.0 '' @ pi_UserAgentOS p @ '' AppleWebKit/537.36 (KHTML, like Gecko) Chrome/146.0.0.0 Safari/537.36''),
        fp_Headers :=
          [(''sec-ch-ua'', ''\"Chromium\";v=\"146\", \"Not-A.Brand\";v=\"24\", \"Google Chrome\";v=\"146\"''),
           (''sec-ch-ua-mobile'', ''?0''), (''sec-ch-ua-platform'', (''\"'' @ pi_Platform p @ ''\"'')),
           (''Upgrade-Insecure-Requests'', ''1''),
           (''Accept'', ''text/html,application/xhtml+xml,application/xml;q=0.9,image/avif,image/webp,image/apng,*/*;q=0.8,application/signed-exchange;v=b3;q=0.7''),
           (''Sec-Fetch-Site'', ''none''), (''Sec-Fetch-Mode'', ''navigate''), (''Sec-Fetch-User'', ''?1''),
           (''Sec-Fetch-Dest'', ''document''), (''Accept-Encoding'', ''gzip, deflate, br, zstd''),
           (''Accept-Language'', ''en-US,en;q=0.9''), (''Priority'', ''u=0, i'')],
        fp_HeaderOrder :=
          [(''sec-ch-ua'', ''\"Chromium\";v=\"146\", \"Not-A.Brand\";v=\"24\", \"Google Chrome\";v=\"146\"''),
           (''sec-ch-ua-mobile'', ''?0''), (''sec-ch-ua-platform'', (''\"'' @ pi_Platform p @ ''\"'')),
           (''upgrade-insecure-requests'', ''1''), (''user-agent'', []),
           (''accept'', ''text/html,application/xhtml+xml,application/xml;q=0.9,image/avif,image/webp,image/apng,*/*;q=0.8,application/signed-exchange;v=b3;q=0.7''),
           (''sec-fetch-site'', ''none''), (''sec-fetch-mode'', ''navigate''), (''sec-fetch-user'', ''?1''),
           (''sec-fetch-dest'', ''document''), (''accept-encoding'', ''gzip, deflate, br, zstd''),
           (''accept-language'', ''en-US,en;q=0.9''), (''priority'', ''u=0, i'')],
        fp_HTTP2Settings :=
          \<lparr>hs_HeaderTableSize = 65536, hs_EnablePush = False, hs_MaxConcurrentStreams = 0, hs_InitialWindowSize = 6291456,
           hs_MaxFrameSize = 0, hs_MaxHeaderListSize = 262144, hs_ConnectionWindowUpdate = 15663105, hs_StreamWeight = 256,
           hs_StreamExclusive = True, hs_NoRFC7540Priorities = False\<rparr>,
        fp_TCPFingerprint := no_tcp,
        fp_H2Config := Some chromeH2Config,
        fp_SupportHTTP3 := True\<rparr>)"

definition Chrome146Windows :: "preset_env \<Rightarrow> fp_preset" where
  "Chrome146Windows env =
     no_preset
       \<lparr>fp_Name := ''chrome-146-windows'',
        fp_ClientHelloID := px_utls env ''HelloChrome_146_Windows'',
        fp_PSKClientHelloID := px_utls env ''HelloChrome_146_Windows_PSK'',
        fp_QUICClientHelloID := px_utls env ''HelloChrome_146_QUIC'',
        fp_QUICPSKClientHelloID := px_utls env ''HelloChrome_146_QUIC_PSK'',
        fp_UserAgent := ''Mozilla/5.0 (Windows NT 10.0; Win64; x64) AppleWebKit/537.36 (KHTML, like Gecko) Chrome/146.0.0.0 Safari/537.36'',
        fp_Headers :=
          [(''sec-ch-ua'', ''\"Chromium\";v=\"146\", \"Not-A.Brand\";v=\"24\", \"Google Chrome\";v=\"146\"''),
           (''sec-ch-ua-mobile'', ''?0''), (''sec-ch-ua-platform'', ''\"Windows\"''), (''Upgrade-Insecure-Requests'', ''1''),
           (''Accept'', ''text/html,application/xhtml+xml,application/xml;q=0.9,image/avif,image/webp,image/apng,*/*;q=0.8,application/signed-exchange;v=b3;q=0.7''),
           (''Sec-Fetch-Site'', ''none''), (''Sec-Fetch-Mode'', ''navigate''), (''Sec-Fetch-User'', ''?1''),
           (''Sec-Fetch-Dest'', ''document''), (''Accept-Encoding'', ''gzip, deflate, br, zstd''),
           (''Accept-Language'', ''en-US,en;q=0.9''), (''Priority'', ''u=0, i'')],
        fp_HeaderOrder :=
          [(''sec-ch-ua'', ''\"Chromium\";v=\"146\", \"Not-A.Brand\";v=\"24\", \"Google Chrome\";v=\"146\"''),
           (''sec-ch-ua-mobile'', ''?0''), (''sec-ch-ua-platform'', ''\"Windows\"''), (''upgrade-insecure-requests'', ''1''),
           (''user-agent'', []),
           (''accept'', ''text/html,application/xhtml+xml,application/xml;q=0.9,image/avif,image/webp,image/apng,*/*;q=0.8,application/signed-exchange;v=b3;q=0.7''),
           (''sec-fetch-site'', ''none''), (''sec-fetch-mode'', ''navigate''), (''sec-fetch-user'', ''?1''),
           (''sec-fetch-dest'', ''document''), (''accept-encoding'', ''gzip, deflate, br, zstd''),
           (''accept-language'', ''en-US,en;q=0.9''), (''priority'', ''u=0, i'')],
        fp_HTTP2Settings :=
          \<lparr>hs_HeaderTableSize = 65536, hs_EnablePush = False, hs_MaxConcurrentStreams = 0, hs_InitialWindowSize = 6291456,
           hs_MaxFrameSize = 0, hs_MaxHeaderListSize = 262144, hs_ConnectionWindowUpdate = 15663105, hs_StreamWeight = 256,
           hs_StreamExclusive = True, hs_NoRFC7540Priorities = False\<rparr>,
        fp_TCPFingerprint := no_tcp,
        fp_H2Config := Some chromeH2Config,
        fp_SupportHTTP3 := True\<rparr>"

definition Chrome146Linux :: "preset_env \<Rightarrow> fp_preset" where
  "Chrome146Linux env =
     no_preset
       \<lparr>fp_Name := ''chrome-146-linux'',
        fp_ClientHelloID := px_utls env ''HelloChrome_146_Linux'',
        fp_PSKClientHelloID := px_utls env ''HelloChrome_146_Linux_PSK'',
        fp_QUICClientHelloID := px_utls env ''HelloChrome_146_QUIC'',
        fp_QUICPSKClientHelloID := px_utls env ''HelloChrome_146_QUIC_PSK'',
        fp_UserAgent := ''Mozilla/5.0 (X11; Linux x86_64) AppleWebKit/537.36 (KHTML, like Gecko) Chrome/146.0.0.0 Safari/537.36'',
        fp_Headers :=
          [(''sec-ch-ua'', ''\"Chromium\";v=\"146\", \"Not-A.Brand\";v=\"24\", \"Google Chrome\";v=\"146\"''),
           (''sec-ch-ua-mobile'', ''?0''), (''sec-ch-ua-platform'', ''\"Linux\"''), (''Upgrade-Insecure-Requests'', ''1''),
           (''Accept'', ''text/html,application/xhtml+xml,application/xml;q=0.9,image/avif,image/webp,image/apng,*/*;q=0.8,application/signed-exchange;v=b3;q=0.7''),
           (''Sec-Fetch-Site'', ''none''), (''Sec-Fetch-Mode'', ''navigate''), (''Sec-Fetch-User'', ''?1''),
           (''Sec-Fetch-Dest'', ''document''), (''Accept-Encoding'', ''gzip, deflate, br, zstd''),
           (''Accept-Language'', ''en-US,en;q=0.9''), (''Priority'', ''u=0, i'')],
        fp_HeaderOrder :=
          [(''sec-ch-ua'', ''\"Chromium\";v=\"146\", \"Not-A.Brand\";v=\"24\", \"Google Chrome\";v=\"146\"''),
           (''sec-ch-ua-mobile'', ''?0''), (''sec-ch-ua-platform'', ''\"Linux\"''), (''upgrade-insecure-requests'', ''1''),
           (''user-agent'', []),
           (''accept'', ''text/html,application/xhtml+xml,application/xml;q=0.9,image/avif,image/webp,image/apng,*/*;q=0.8,application/signed-exchange;v=b3;q=0.7''),
           (''sec-fetch-site'', ''none''), (''sec-fetch-mode'', ''navigate''), (''sec-fetch-user'', ''?1''),
           (''sec-fetch-dest'', ''document''), (''accept-encoding'', ''gzip, deflate, br, zstd''),
           (''accept-language'', ''en-US,en;q=0.9''), (''priority'', ''u=0, i'')],
        fp_HTTP2Settings :=
          \<lparr>hs_HeaderTableSize = 65536, hs_EnablePush = False, hs_MaxConcurrentStreams = 0, hs_InitialWindowSize = 6291456,
           hs_MaxFrameSize = 0, hs_MaxHeaderListSize = 262144, hs_ConnectionWindowUpdate = 15663105, hs_StreamWeight = 256,
           hs_StreamExclusive = True, hs_NoRFC7540Priorities = False\<rparr>,
        fp_TCPFingerprint := no_tcp,
        fp_H2Config := Some chromeH2Config,
        fp_SupportHTTP3 := True\<rparr>"

definition Chrome146macOS :: "preset_env \<Rightarrow> fp_preset" where
  "Chrome146macOS env =
     no_preset
       \<lparr>fp_Name := ''chrome-146-macos'',
        fp_ClientHelloID := px_utls env ''HelloChrome_146_macOS'',
        fp_PSKClientHelloID := px_utls env ''HelloChrome_146_macOS_PSK'',
        fp_QUICClientHelloID := px_utls env ''HelloChrome_146_QUIC'',
        fp_QUICPSKClientHelloID := px_utls env ''HelloChrome_146_QUIC_PSK'',
        fp_UserAgent := ''Mozilla/5.0 (Macintosh; Intel Mac OS X 10_15_7) AppleWebKit/537.36 (KHTML, like Gecko) Chrome/146.0.0.0 Safari/537.36'',
        fp_Headers :=
          [(''sec-ch-ua'', ''\"Chromium\";v=\"146\", \"Not-A.Brand\";v=\"24\", \"Google Chrome\";v=\"146\"''),
           (''sec-ch-ua-mobile'', ''?0''), (''sec-ch-ua-platform'', ''\"macOS\"''), (''Upgrade-Insecure-Requests'', ''1''),
           (''Accept'', ''text/html,application/xhtml+xml,application/xml;q=0.9,image/avif,image/webp,image/apng,*/*;q=0.8,application/signed-exchange;v=b3;q=0.7''),
           (''Sec-Fetch-Site'', ''none''), (''Sec-Fetch-Mode'', ''navigate''), (''Sec-Fetch-User'', ''?1''),
           (''Sec-Fetch-Dest'', ''document''), (''Accept-Encoding'', ''gzip, deflate, br, zstd''),
           (''Accept-Language'', ''en-US,en;q=0.9''), (''Priority'', ''u=0, i'')],
        fp_HeaderOrder :=
          [(''sec-ch-ua'', ''\"Chromium\";v=\"146\", \"Not-A.Brand\";v=\"24\", \"Google Chrome\";v=\"146\"''),
           (''sec-ch-ua-mobile'', ''?0''), (''sec-ch-ua-platform'', ''\"macOS\"''), (''upgrade-insecure-requests'', ''1''),
           (''user-agent'', []),
           (''accept'', ''text/html,application/xhtml+xml,application/xml;q=0.9,image/avif,image/webp,image/apng,*/*;q=0.8,application/signed-exchange;v=b3;q=0.7''),
           (''sec-fetch-site'', ''none''), (''sec-fetch-mode'', ''navigate''), (''sec-fetch-user'', ''?1''),
           (''sec-fetch-dest'', ''document''), (''accept-encoding'', ''gzip, deflate, br, zstd''),
           (''accept-language'', ''en-US,en;q=0.9''), (''priority'', ''u=0, i'')],
        fp_HTTP2Settings :=
          \<lparr>hs_HeaderTableSize = 65536, hs_EnablePush = False, hs_MaxConcurrentStreams = 0, hs_InitialWindowSize = 6291456,
           hs_MaxFrameSize = 0, hs_MaxHeaderListSize = 262144, hs_ConnectionWindowUpdate = 15663105, hs_StreamWeight = 256,
           hs_StreamExclusive = True, hs_NoRFC7540Priorities = False\<rparr>,
        fp_TCPFingerprint := no_tcp,
        fp_H2Config := Some chromeH2Config,
        fp_SupportHTTP3 := True\<rparr>"

definition Safari18 :: "preset_env \<Rightarrow> fp_preset" where
  "Safari18 env =
     no_preset
       \<lparr>fp_Name := ''safari-18'',
        fp_ClientHelloID := px_utls env ''HelloSafari_18'',
        fp_QUICClientHelloID := px_utls env ''HelloIOS_18_QUIC'',
        fp_UserAgent := ''Mozilla/5.0 (Macintosh; Intel Mac OS X 10_15_7) AppleWebKit/605.1.15 (KHTML, like Gecko) Version/18.0 Safari/605.1.15'',
        fp_Headers :=
          [(''Accept'', ''text/html,application/xhtml+xml,application/xml;q=0.9,*/*;q=0.8''),
           (''Accept-Language'', ''en-US,en;q=0.9''), (''Accept-Encoding'', ''gzip, deflate, br''),
           (''Sec-Fetch-Dest'', ''document''), (''Sec-Fetch-Mode'', ''navigate''), (''Sec-Fetch-Site'', ''none''),
           (''Sec-Fetch-User'', ''?1'')],
        fp_HeaderOrder :=
          [(''accept'', ''text/html,application/xhtml+xml,application/xml;q=0.9,*/*;q=0.8''),
           (''sec-fetch-dest'', ''document''), (''sec-fetch-mode'', ''navigate''), (''sec-fetch-site'', ''none''),
           (''sec-fetch-user'', ''?1''), (''accept-language'', ''en-US,en;q=0.9''),
           (''accept-encoding'', ''gzip, deflate, br''), (''user-agent'', [])],
        fp_HTTP2Settings :=
          \<lparr>hs_HeaderTableSize = 4096, hs_EnablePush = False, hs_MaxConcurrentStreams = 100, hs_InitialWindowSize = 2097152,
           hs_MaxFrameSize = 16384, hs_MaxHeaderListSize = 0, hs_ConnectionWindowUpdate = 10485760, hs_StreamWeight = 255,
           hs_StreamExclusive = False, hs_NoRFC7540Priorities = True\<rparr>,
        fp_TCPFingerprint := no_tcp,
        fp_H2Config := Some safariH2Config,
        fp_H3Config := Some safariH3Config,
        fp_SupportHTTP3 := True\<rparr>"

definition Chrome147Windows :: "preset_env \<Rightarrow> fp_preset" where
  "Chrome147Windows env = custom_or env ''chrome-147-windows'' (Chrome146Windows env)"

definition Chrome147Linux :: "preset_env \<Rightarrow> fp_preset" where
  "Chrome147Linux env = custom_or env ''chrome-147-linux'' (Chrome146Linux env)"

definition Chrome147macOS :: "preset_env \<Rightarrow> fp_preset" where
  "Chrome147macOS env = custom_or env ''chrome-147-macos'' (Chrome146macOS env)"

definition Chrome147 :: "preset_env \<Rightarrow> fp_preset" where
  "Chrome147 env = by_platform env (Chrome147Windows env) (Chrome147macOS env) (Chrome147Linux env)"

definition IOSChrome146 :: "preset_env \<Rightarrow> fp_preset" where
  "IOSChrome146 env =
     no_preset
       \<lparr>fp_Name := ''chrome-146-ios'',
        fp_ClientHelloID := px_utls env ''HelloIOS_18'',
        fp_QUICClientHelloID := px_utls env ''HelloIOS_18_QUIC'',
        fp_UserAgent := ''Mozilla/5.0 (iPhone; CPU iPhone OS 18_0 like Mac OS X) AppleWebKit/605.1.15 (KHTML, like Gecko) CriOS/146.0.6917.0 Mobile/15E148 Safari/604.1'',
        fp_Headers :=
          [(''Accept'', ''text/html,application/xhtml+xml,application/xml;q=0.9,*/*;q=0.8''), (''Sec-Fetch-Site'', ''none''),
           (''Sec-Fetch-Dest'', ''document''), (''Accept-Encoding'', ''gzip, deflate, br''), (''Sec-Fetch-Mode'', ''navigate''),
           (''Accept-Language'', ''en-US,en;q=0.9''), (''Sec-Fetch-User'', ''?1'')],
        fp_HeaderOrder :=
          [(''accept'', ''text/html,application/xhtml+xml,application/xml;q=0.9,*/*;q=0.8''), (''sec-fetch-site'', ''none''),
           (''sec-fetch-dest'', ''document''), (''accept-encoding'', ''gzip, deflate, br''), (''sec-fetch-mode'', ''navigate''),
           (''user-agent'', []), (''accept-language'', ''en-US,en;q=0.9''), (''sec-fetch-user'', ''?1'')],
        fp_HTTP2Settings :=
          \<lparr>hs_HeaderTableSize = 4096, hs_EnablePush = False, hs_MaxConcurrentStreams = 100, hs_InitialWindowSize = 2097152,
           hs_MaxFrameSize = 16384, hs_MaxHeaderListSize = 0, hs_ConnectionWindowUpdate = 10485760, hs_StreamWeight = 255,
           hs_StreamExclusive = False, hs_NoRFC7540Priorities = True\<rparr>,
        fp_TCPFingerprint := no_tcp,
        fp_H2Config := Some safariH2Config,
        fp_H3Config := Some safariH3Config,
        fp_SupportHTTP3 := True\<rparr>"

definition IOSChrome147 :: "preset_env \<Rightarrow> fp_preset" where
  "IOSChrome147 env = custom_or env ''chrome-147-ios'' (IOSChrome146 env)"

definition IOSChrome148 :: "preset_env \<Rightarrow> fp_preset" where
  "IOSChrome148 env = custom_or env ''chrome-148-ios'' (IOSChrome146 env)"

definition IOSChrome150 :: "preset_env \<Rightarrow> fp_preset" where
  "IOSChrome150 env = custom_or env ''chrome-150-ios'' (IOSChrome148 env)"

definition AndroidChrome146 :: "preset_env \<Rightarrow> fp_preset" where
  "AndroidChrome146 env =
     no_preset
       \<lparr>fp_Name := ''chrome-146-android'',
        fp_ClientHelloID := px_utls env ''HelloChrome_146_Linux'',
        fp_PSKClientHelloID := px_utls env ''HelloChrome_146_Linux_PSK'',
        fp_QUICClientHelloID := px_utls env ''HelloChrome_146_QUIC'',
        fp_QUICPSKClientHelloID := px_utls env ''HelloChrome_146_QUIC_PSK'',
        fp_UserAgent := ''Mozilla/5.0 (Linux; Android 10; K) AppleWebKit/537.36 (KHTML, like Gecko) Chrome/146.0.0.0 Mobile Safari/537.36'',
        fp_Headers :=
          [(''sec-ch-ua'', ''\"Chromium\";v=\"146\", \"Not-A.Brand\";v=\"24\", \"Google Chrome\";v=\"146\"''),
           (''sec-ch-ua-mobile'', ''?1''), (''sec-ch-ua-platform'', ''\"Android\"''), (''Upgrade-Insecure-Requests'', ''1''),
           (''Accept'', ''text/html,application/xhtml+xml,application/xml;q=0.9,image/avif,image/webp,image/apng,*/*;q=0.8,application/signed-exchange;v=b3;q=0.7''),
           (''Sec-Fetch-Site'', ''none''), (''Sec-Fetch-Mode'', ''navigate''), (''Sec-Fetch-User'', ''?1''),
           (''Sec-Fetch-Dest'', ''document''), (''Accept-Encoding'', ''gzip, deflate, br, zstd''),
           (''Accept-Language'', ''en-US,en;q=0.9''), (''Priority'', ''u=0, i'')],
        fp_HeaderOrder :=
          [(''sec-ch-ua'', ''\"Chromium\";v=\"146\", \"Not-A.Brand\";v=\"24\", \"Google Chrome\";v=\"146\"''),
           (''sec-ch-ua-mobile'', ''?1''), (''sec-ch-ua-platform'', ''\"Android\"''), (''upgrade-insecure-requests'', ''1''),
           (''user-agent'', []),
           (''accept'', ''text/html,application/xhtml+xml,application/xml;q=0.9,image/avif,image/webp,image/apng,*/*;q=0.8,application/signed-exchange;v=b3;q=0.7''),
           (''sec-fetch-site'', ''none''), (''sec-fetch-mode'', ''navigate''), (''sec-fetch-user'', ''?1''),
           (''sec-fetch-dest'', ''document''), (''accept-encoding'', ''gzip, deflate, br, zstd''),
           (''accept-language'', ''en-US,en;q=0.9''), (''priority'', ''u=0, i'')],
        fp_HTTP2Settings :=
          \<lparr>hs_HeaderTableSize = 65536, hs_EnablePush = False, hs_MaxConcurrentStreams = 0, hs_InitialWindowSize = 6291456,
           hs_MaxFrameSize = 0, hs_MaxHeaderListSize = 262144, hs_ConnectionWindowUpdate = 15663105, hs_StreamWeight = 256,
           hs_StreamExclusive = True, hs_NoRFC7540Priorities = False\<rparr>,
        fp_TCPFingerprint := no_tcp,
        fp_H2Config := Some chromeH2Config,
        fp_SupportHTTP3 := True\<rparr>"

definition AndroidChrome147 :: "preset_env \<Rightarrow> fp_preset" where
  "AndroidChrome147 env = custom_or env ''chrome-147-android'' (AndroidChrome146 env)"

definition Chrome148Windows :: "preset_env \<Rightarrow> fp_preset" where
  "Chrome148Windows env = custom_or env ''chrome-148-windows'' (Chrome147Windows env)"

definition Chrome148Linux :: "preset_env \<Rightarrow> fp_preset" where
  "Chrome148Linux env = custom_or env ''chrome-148-linux'' (Chrome147Linux env)"

definition Chrome148macOS :: "preset_env \<Rightarrow> fp_preset" where
  "Chrome148macOS env = custom_or env ''chrome-148-macos'' (Chrome147macOS env)"

definition Chrome148 :: "preset_env \<Rightarrow> fp_preset" where
  "Chrome148 env = by_platform env (Chrome148Windows env) (Chrome148macOS env) (Chrome148Linux env)"

definition AndroidChrome148 :: "preset_env \<Rightarrow> fp_preset" where
  "AndroidChrome148 env = custom_or env ''chrome-148-android'' (AndroidChrome147 env)"

definition AndroidChrome150 :: "preset_env \<Rightarrow> fp_preset" where
  "AndroidChrome150 env = custom_or env ''chrome-150-android'' (AndroidChrome148 env)"

definition Chrome149Windows :: "preset_env \<Rightarrow> fp_preset" where
  "Chrome149Windows env = custom_or env ''chrome-149-windows'' (Chrome148Windows env)"

definition Chrome149Linux :: "preset_env \<Rightarrow> fp_preset" where
  "Chrome149Linux env = custom_or env ''chrome-149-linux'' (Chrome148Linux env)"

definition Chrome149macOS :: "preset_env \<Rightarrow> fp_preset" where
  "Chrome149macOS env = custom_or env ''chrome-149-macos'' (Chrome148macOS env)"

definition Chrome149 :: "preset_env \<Rightarrow> fp_preset" where
  "Chrome149 env = by_platform env (Chrome149Windows env) (Chrome149macOS env) (Chrome149Linux env)"

definition Chrome150Windows :: "preset_env \<Rightarrow> fp_preset" where
  "Chrome150Windows env = custom_or env ''chrome-150-windows'' (Chrome149Windows env)"

definition Chrome150Linux :: "preset_env \<Rightarrow> fp_preset" where
  "Chrome150Linux env = custom_or env ''chrome-150-linux'' (Chrome149Linux env)"

definition Chrome150macOS :: "preset_env \<Rightarrow> fp_preset" where
  "Chrome150macOS env = custom_or env ''chrome-150-macos'' (Chrome149macOS env)"

definition Chrome150 :: "preset_env \<Rightarrow> fp_preset" where
  "Chrome150 env = by_platform env (Chrome150Windows env) (Chrome150macOS env) (Chrome150Linux env)"

definition Chrome151Windows :: "preset_env \<Rightarrow> fp_preset" where
  "Chrome151Windows env = custom_or env ''chrome-151-windows'' (Chrome150Windows env)"

definition Chrome151Linux :: "preset_env \<Rightarrow> fp_preset" where
  "Chrome151Linux env = custom_or env ''chrome-151-linux'' (Chrome150Linux env)"

definition Chrome151macOS :: "preset_env \<Rightarrow> fp_preset" where
  "Chrome151macOS env = custom_or env ''chrome-151-macos'' (Chrome150macOS env)"

definition Chrome151 :: "preset_env \<Rightarrow> fp_preset" where
  "Chrome151 env = by_platform env (Chrome151Windows env) (Chrome151macOS env) (Chrome151Linux env)"

definition AndroidChrome151 :: "preset_env \<Rightarrow> fp_preset" where
  "AndroidChrome151 env = custom_or env ''chrome-151-android'' (AndroidChrome150 env)"

definition IOSChrome151 :: "preset_env \<Rightarrow> fp_preset" where
  "IOSChrome151 env = custom_or env ''chrome-151-ios'' (IOSChrome150 env)"

definition Chrome152Windows :: "preset_env \<Rightarrow> fp_preset" where
  "Chrome152Windows env = custom_or env ''chrome-152-windows'' (Chrome151Windows env)"

definition Chrome152Linux :: "preset_env \<Rightarrow> fp_preset" where
  "Chrome152Linux env = custom_or env ''chrome-152-linux'' (Chrome151Linux env)"

definition Chrome152macOS :: "preset_env \<Rightarrow> fp_preset" where
  "Chrome152macOS env = custom_or env ''chrome-152-macos'' (Chrome151macOS env)"

definition Chrome152 :: "preset_env \<Rightarrow> fp_preset" where
  "Chrome152 env = by_platform env (Chrome152Windows env) (Chrome152macOS env) (Chrome152Linux env)"

definition AndroidChrome152 :: "preset_env \<Rightarrow> fp_preset" where
  "AndroidChrome152 env = custom_or env ''chrome-152-android'' (AndroidChrome151 env)"

definition IOSChrome152 :: "preset_env \<Rightarrow> fp_preset" where
  "IOSChrome152 env = custom_or env ''chrome-152-ios'' (IOSChrome151 env)"

definition Chrome153Windows :: "preset_env \<Rightarrow> fp_preset" where
  "Chrome153Windows env = custom_or env ''chrome-153-windows'' (Chrome152Windows env)"

definition Chrome153Linux :: "preset_env \<Rightarrow> fp_preset" where
  "Chrome153Linux env = custom_or env ''chrome-153-linux'' (Chrome152Linux env)"

definition Chrome153macOS :: "preset_env \<Rightarrow> fp_preset" where
  "Chrome153macOS env = custom_or env ''chrome-153-macos'' (Chrome152macOS env)"

definition Chrome153 :: "preset_env \<Rightarrow> fp_preset" where
  "Chrome153 env = by_platform env (Chrome153Windows env) (Chrome153macOS env) (Chrome153Linux env)"

definition AndroidChrome153 :: "preset_env \<Rightarrow> fp_preset" where
  "AndroidChrome153 env = custom_or env ''chrome-153-android'' (AndroidChrome152 env)"

definition Chrome154Windows :: "preset_env \<Rightarrow> fp_preset" where
  "Chrome154Windows env = custom_or env ''chrome-154-windows'' (Chrome153Windows env)"

definition Chrome154Linux :: "preset_env \<Rightarrow> fp_preset" where
  "Chrome154Linux env = custom_or env ''chrome-154-linux'' (Chrome153Linux env)"

definition Chrome154macOS :: "preset_env \<Rightarrow> fp_preset" where
  "Chrome154macOS env = custom_or env ''chrome-154-macos'' (Chrome153macOS env)"

definition Chrome154 :: "preset_env \<Rightarrow> fp_preset" where
  "Chrome154 env = by_platform env (Chrome154Windows env) (Chrome154macOS env) (Chrome154Linux env)"

definition AndroidChrome154 :: "preset_env \<Rightarrow> fp_preset" where
  "AndroidChrome154 env = custom_or env ''chrome-154-android'' (AndroidChrome153 env)"

definition Chrome155Windows :: "preset_env \<Rightarrow> fp_preset" where
  "Chrome155Windows env = custom_or env ''chrome-155-windows'' (Chrome154Windows env)"

definition Chrome155Linux :: "preset_env \<Rightarrow> fp_preset" where
  "Chrome155Linux env = custom_or env ''chrome-155-linux'' (Chrome154Linux env)"

definition Chrome155macOS :: "preset_env \<Rightarrow> fp_preset" where
  "Chrome155macOS env = custom_or env ''chrome-155-macos'' (Chrome154macOS env)"

definition Chrome155 :: "preset_env \<Rightarrow> fp_preset" where
  "Chrome155 env = by_platform env (Chrome155Windows env) (Chrome155macOS env) (Chrome155Linux env)"

definition AndroidChrome155 :: "preset_env \<Rightarrow> fp_preset" where
  "AndroidChrome155 env = custom_or env ''chrome-155-android'' (AndroidChrome154 env)"

definition IOSChrome155 :: "preset_env \<Rightarrow> fp_preset" where
  "IOSChrome155 env = custom_or env ''chrome-155-ios'' (IOSChrome152 env)"

definition IOSChrome143 :: "preset_env \<Rightarrow> fp_preset" where
  "IOSChrome143 env =
     no_preset
       \<lparr>fp_Name := ''chrome-143-ios'',
        fp_ClientHelloID := px_utls env ''HelloIOS_18'',
        fp_QUICClientHelloID := px_utls env ''HelloIOS_18_QUIC'',
        fp_UserAgent := ''Mozilla/5.0 (iPhone; CPU iPhone OS 17_7 like Mac OS X) AppleWebKit/605.1.15 (KHTML, like Gecko) CriOS/143.0.6917.0 Mobile/15E148 Safari/604.1'',
        fp_Headers :=
          [(''Accept'', ''text/html,application/xhtml+xml,application/xml;q=0.9,*/*;q=0.8''), (''Sec-Fetch-Site'', ''none''),
           (''Sec-Fetch-Dest'', ''document''), (''Accept-Encoding'', ''gzip, deflate, br''), (''Sec-Fetch-Mode'', ''navigate''),
           (''Accept-Language'', ''en-US,en;q=0.9''), (''Sec-Fetch-User'', ''?1'')],
        fp_HeaderOrder :=
          [(''accept'', ''text/html,application/xhtml+xml,application/xml;q=0.9,*/*;q=0.8''), (''sec-fetch-site'', ''none''),
           (''sec-fetch-dest'', ''document''), (''accept-encoding'', ''gzip, deflate, br''), (''sec-fetch-mode'', ''navigate''),
           (''user-agent'', []), (''accept-language'', ''en-US,en;q=0.9''), (''sec-fetch-user'', ''?1'')],
        fp_HTTP2Settings :=
          \<lparr>hs_HeaderTableSize = 4096, hs_EnablePush = False, hs_MaxConcurrentStreams = 100, hs_InitialWindowSize = 2097152,
           hs_MaxFrameSize = 16384, hs_MaxHeaderListSize = 0, hs_ConnectionWindowUpdate = 10485760, hs_StreamWeight = 255,
           hs_StreamExclusive = False, hs_NoRFC7540Priorities = True\<rparr>,
        fp_TCPFingerprint := no_tcp,
        fp_H2Config := Some safariH2Config,
        fp_H3Config := Some safariH3Config,
        fp_SupportHTTP3 := True\<rparr>"

definition IOSChrome144 :: "preset_env \<Rightarrow> fp_preset" where
  "IOSChrome144 env =
     no_preset
       \<lparr>fp_Name := ''chrome-144-ios'',
        fp_ClientHelloID := px_utls env ''HelloIOS_18'',
        fp_QUICClientHelloID := px_utls env ''HelloIOS_18_QUIC'',
        fp_UserAgent := ''Mozilla/5.0 (iPhone; CPU iPhone OS 18_0 like Mac OS X) AppleWebKit/605.1.15 (KHTML, like Gecko) CriOS/144.0.6917.0 Mobile/15E148 Safari/604.1'',
        fp_Headers :=
          [(''Accept'', ''text/html,application/xhtml+xml,application/xml;q=0.9,*/*;q=0.8''), (''Sec-Fetch-Site'', ''none''),
           (''Sec-Fetch-Dest'', ''document''), (''Accept-Encoding'', ''gzip, deflate, br''), (''Sec-Fetch-Mode'', ''navigate''),
           (''Accept-Language'', ''en-US,en;q=0.9''), (''Sec-Fetch-User'', ''?1'')],
        fp_HeaderOrder :=
          [(''accept'', ''text/html,application/xhtml+xml,application/xml;q=0.9,*/*;q=0.8''), (''sec-fetch-site'', ''none''),
           (''sec-fetch-dest'', ''document''), (''accept-encoding'', ''gzip, deflate, br''), (''sec-fetch-mode'', ''navigate''),
           (''user-agent'', []), (''accept-language'', ''en-US,en;q=0.9''), (''sec-fetch-user'', ''?1'')],
        fp_HTTP2Settings :=
          \<lparr>hs_HeaderTableSize = 4096, hs_EnablePush = False, hs_MaxConcurrentStreams = 100, hs_InitialWindowSize = 2097152,
           hs_MaxFrameSize = 16384, hs_MaxHeaderListSize = 0, hs_ConnectionWindowUpdate = 10485760, hs_StreamWeight = 255,
           hs_StreamExclusive = False, hs_NoRFC7540Priorities = True\<rparr>,
        fp_TCPFingerprint := no_tcp,
        fp_H2Config := Some safariH2Config,
        fp_H3Config := Some safariH3Config,
        fp_SupportHTTP3 := True\<rparr>"

definition IOSChrome145 :: "preset_env \<Rightarrow> fp_preset" where
  "IOSChrome145 env =
     no_preset
       \<lparr>fp_Name := ''chrome-145-ios'',
        fp_ClientHelloID := px_utls env ''HelloIOS_18'',
        fp_QUICClientHelloID := px_utls env ''HelloIOS_18_QUIC'',
        fp_UserAgent := ''Mozilla/5.0 (iPhone; CPU iPhone OS 18_0 like Mac OS X) AppleWebKit/605.1.15 (KHTML, like Gecko) CriOS/145.0.6917.0 Mobile/15E148 Safari/604.1'',
        fp_Headers :=
          [(''Accept'', ''text/html,application/xhtml+xml,application/xml;q=0.9,*/*;q=0.8''), (''Sec-Fetch-Site'', ''none''),
           (''Sec-Fetch-Dest'', ''document''), (''Accept-Encoding'', ''gzip, deflate, br''), (''Sec-Fetch-Mode'', ''navigate''),
           (''Accept-Language'', ''en-US,en;q=0.9''), (''Sec-Fetch-User'', ''?1'')],
        fp_HeaderOrder :=
          [(''accept'', ''text/html,application/xhtml+xml,application/xml;q=0.9,*/*;q=0.8''), (''sec-fetch-site'', ''none''),
           (''sec-fetch-dest'', ''document''), (''accept-encoding'', ''gzip, deflate, br''), (''sec-fetch-mode'', ''navigate''),
           (''user-agent'', []), (''accept-language'', ''en-US,en;q=0.9''), (''sec-fetch-user'', ''?1'')],
        fp_HTTP2Settings :=
          \<lparr>hs_HeaderTableSize = 4096, hs_EnablePush = False, hs_MaxConcurrentStreams = 100, hs_InitialWindowSize = 2097152,
           hs_MaxFrameSize = 16384, hs_MaxHeaderListSize = 0, hs_ConnectionWindowUpdate = 10485760, hs_StreamWeight = 255,
           hs_StreamExclusive = False, hs_NoRFC7540Priorities = True\<rparr>,
        fp_TCPFingerprint := no_tcp,
        fp_H2Config := Some safariH2Config,
        fp_H3Config := Some safariH3Config,
        fp_SupportHTTP3 := True\<rparr>"

definition IOSSafari17 :: "preset_env \<Rightarrow> fp_preset" where
  "IOSSafari17 env =
     no_preset
       \<lparr>fp_Name := ''safari-17-ios'',
        fp_ClientHelloID := px_utls env ''HelloIOS_14'',
        fp_UserAgent := ''Mozilla/5.0 (iPhone; CPU iPhone OS 17_7 like Mac OS X) AppleWebKit/605.1.15 (KHTML, like Gecko) Version/17.7 Mobile/15E148 Safari/604.1'',
        fp_Headers :=
          [(''Accept'', ''text/html,application/xhtml+xml,application/xml;q=0.9,*/*;q=0.8''),
           (''Accept-Language'', ''en-US,en;q=0.9''), (''Accept-Encoding'', ''gzip, deflate, br''),
           (''Sec-Fetch-Dest'', ''document''), (''Sec-Fetch-Mode'', ''navigate''), (''Sec-Fetch-Site'', ''none''),
           (''Sec-Fetch-User'', ''?1'')],
        fp_HeaderOrder :=
          [(''accept'', ''text/html,application/xhtml+xml,application/xml;q=0.9,*/*;q=0.8''),
           (''sec-fetch-dest'', ''document''), (''sec-fetch-mode'', ''navigate''), (''sec-fetch-site'', ''none''),
           (''sec-fetch-user'', ''?1''), (''accept-language'', ''en-US,en;q=0.9''),
           (''accept-encoding'', ''gzip, deflate, br''), (''user-agent'', [])],
        fp_HTTP2Settings :=
          \<lparr>hs_HeaderTableSize = 4096, hs_EnablePush = True, hs_MaxConcurrentStreams = 100, hs_InitialWindowSize = 2097152,
           hs_MaxFrameSize = 16384, hs_MaxHeaderListSize = 0, hs_ConnectionWindowUpdate = 10485760, hs_StreamWeight = 255,
           hs_StreamExclusive = False, hs_NoRFC7540Priorities = True\<rparr>,
        fp_TCPFingerprint := no_tcp,
        fp_H2Config := Some safariH2Config,
        fp_H3Config := Some safariH3Config,
        fp_SupportHTTP3 := False\<rparr>"

definition IOSSafari18 :: "preset_env \<Rightarrow> fp_preset" where
  "IOSSafari18 env =
     no_preset
       \<lparr>fp_Name := ''safari-18-ios'',
        fp_ClientHelloID := px_utls env ''HelloIOS_18'',
        fp_QUICClientHelloID := px_utls env ''HelloIOS_18_QUIC'',
        fp_UserAgent := ''Mozilla/5.0 (iPhone; CPU iPhone OS 18_0 like Mac OS X) AppleWebKit/605.1.15 (KHTML, like Gecko) Version/18.0 Mobile/15E148 Safari/604.1'',
        fp_Headers :=
          [(''Accept'', ''text/html,application/xhtml+xml,application/xml;q=0.9,*/*;q=0.8''),
           (''Accept-Language'', ''en-US,en;q=0.9''), (''Accept-Encoding'', ''gzip, deflate, br''),
           (''Sec-Fetch-Dest'', ''document''), (''Sec-Fetch-Mode'', ''navigate''), (''Sec-Fetch-Site'', ''none''),
           (''Sec-Fetch-User'', ''?1'')],
        fp_HeaderOrder :=
          [(''accept'', ''text/html,application/xhtml+xml,application/xml;q=0.9,*/*;q=0.8''),
           (''sec-fetch-dest'', ''document''), (''sec-fetch-mode'', ''navigate''), (''sec-fetch-site'', ''none''),
           (''sec-fetch-user'', ''?1''), (''accept-language'', ''en-US,en;q=0.9''),
           (''accept-encoding'', ''gzip, deflate, br''), (''user-agent'', [])],
        fp_HTTP2Settings :=
          \<lparr>hs_HeaderTableSize = 4096, hs_EnablePush = False, hs_MaxConcurrentStreams = 100, hs_InitialWindowSize = 2097152,
           hs_MaxFrameSize = 16384, hs_MaxHeaderListSize = 0, hs_ConnectionWindowUpdate = 10485760, hs_StreamWeight = 255,
           hs_StreamExclusive = False, hs_NoRFC7540Priorities = True\<rparr>,
        fp_TCPFingerprint := no_tcp,
        fp_H2Config := Some safariH2Config,
        fp_H3Config := Some safariH3Config,
        fp_SupportHTTP3 := True\<rparr>"

definition AndroidChrome143 :: "preset_env \<Rightarrow> fp_preset" where
  "AndroidChrome143 env =
     no_preset
       \<lparr>fp_Name := ''chrome-143-android'',
        fp_ClientHelloID := px_utls env ''HelloChrome_143_Linux'',
        fp_PSKClientHelloID := px_utls env ''HelloChrome_143_Linux_PSK'',
        fp_QUICClientHelloID := px_utls env ''HelloChrome_143_QUIC'',
        fp_QUICPSKClientHelloID := px_utls env ''HelloChrome_143_QUIC_PSK'',
        fp_UserAgent := ''Mozilla/5.0 (Linux; Android 10; K) AppleWebKit/537.36 (KHTML, like Gecko) Chrome/143.0.0.0 Mobile Safari/537.36'',
        fp_Headers :=
          [(''sec-ch-ua'', ''\"Google Chrome\";v=\"143\", \"Chromium\";v=\"143\", \"Not A(Brand\";v=\"24\"''),
           (''sec-ch-ua-mobile'', ''?1''), (''sec-ch-ua-platform'', ''\"Android\"''), (''Upgrade-Insecure-Requests'', ''1''),
           (''Accept'', ''text/html,application/xhtml+xml,application/xml;q=0.9,image/avif,image/webp,image/apng,*/*;q=0.8,application/signed-exchange;v=b3;q=0.7''),
           (''Sec-Fetch-Site'', ''none''), (''Sec-Fetch-Mode'', ''navigate''), (''Sec-Fetch-User'', ''?1''),
           (''Sec-Fetch-Dest'', ''document''), (''Accept-Encoding'', ''gzip, deflate, br, zstd''),
           (''Accept-Language'', ''en-US,en;q=0.9''), (''Priority'', ''u=0, i'')],
        fp_HeaderOrder :=
          [(''sec-ch-ua'', ''\"Google Chrome\";v=\"143\", \"Chromium\";v=\"143\", \"Not A(Brand\";v=\"24\"''),
           (''sec-ch-ua-mobile'', ''?1''), (''sec-ch-ua-platform'', ''\"Android\"''), (''upgrade-insecure-requests'', ''1''),
           (''user-agent'', []),
           (''accept'', ''text/html,application/xhtml+xml,application/xml;q=0.9,image/avif,image/webp,image/apng,*/*;q=0.8,application/signed-exchange;v=b3;q=0.7''),
           (''sec-fetch-site'', ''none''), (''sec-fetch-mode'', ''navigate''), (''sec-fetch-user'', ''?1''),
           (''sec-fetch-dest'', ''document''), (''accept-encoding'', ''gzip, deflate, br, zstd''),
           (''accept-language'', ''en-US,en;q=0.9''), (''priority'', ''u=0, i'')],
        fp_HTTP2Settings :=
          \<lparr>hs_HeaderTableSize = 65536, hs_EnablePush = False, hs_MaxConcurrentStreams = 0, hs_InitialWindowSize = 6291456,
           hs_MaxFrameSize = 0, hs_MaxHeaderListSize = 262144, hs_ConnectionWindowUpdate = 15663105, hs_StreamWeight = 256,
           hs_StreamExclusive = True, hs_NoRFC7540Priorities = False\<rparr>,
        fp_TCPFingerprint := no_tcp,
        fp_H2Config := Some chromeH2Config,
        fp_SupportHTTP3 := True\<rparr>"

definition AndroidChrome144 :: "preset_env \<Rightarrow> fp_preset" where
  "AndroidChrome144 env =
     no_preset
       \<lparr>fp_Name := ''chrome-144-android'',
        fp_ClientHelloID := px_utls env ''HelloChrome_144_Linux'',
        fp_PSKClientHelloID := px_utls env ''HelloChrome_144_Linux_PSK'',
        fp_QUICClientHelloID := px_utls env ''HelloChrome_144_QUIC'',
        fp_QUICPSKClientHelloID := px_utls env ''HelloChrome_144_QUIC_PSK'',
        fp_UserAgent := ''Mozilla/5.0 (Linux; Android 10; K) AppleWebKit/537.36 (KHTML, like Gecko) Chrome/144.0.0.0 Mobile Safari/537.36'',
        fp_Headers :=
          [(''sec-ch-ua'', ''\"Not(A:Brand\";v=\"8\", \"Chromium\";v=\"144\", \"Google Chrome\";v=\"144\"''),
           (''sec-ch-ua-mobile'', ''?1''), (''sec-ch-ua-platform'', ''\"Android\"''), (''Upgrade-Insecure-Requests'', ''1''),
           (''Accept'', ''text/html,application/xhtml+xml,application/xml;q=0.9,image/avif,image/webp,image/apng,*/*;q=0.8,application/signed-exchange;v=b3;q=0.7''),
           (''Sec-Fetch-Site'', ''none''), (''Sec-Fetch-Mode'', ''navigate''), (''Sec-Fetch-User'', ''?1''),
           (''Sec-Fetch-Dest'', ''document''), (''Accept-Encoding'', ''gzip, deflate, br, zstd''),
           (''Accept-Language'', ''en-US,en;q=0.9''), (''Priority'', ''u=0, i'')],
        fp_HeaderOrder :=
          [(''sec-ch-ua'', ''\"Not(A:Brand\";v=\"8\", \"Chromium\";v=\"144\", \"Google Chrome\";v=\"144\"''),
           (''sec-ch-ua-mobile'', ''?1''), (''sec-ch-ua-platform'', ''\"Android\"''), (''upgrade-insecure-requests'', ''1''),
           (''user-agent'', []),
           (''accept'', ''text/html,application/xhtml+xml,application/xml;q=0.9,image/avif,image/webp,image/apng,*/*;q=0.8,application/signed-exchange;v=b3;q=0.7''),
           (''sec-fetch-site'', ''none''), (''sec-fetch-mode'', ''navigate''), (''sec-fetch-user'', ''?1''),
           (''sec-fetch-dest'', ''document''), (''accept-encoding'', ''gzip, deflate, br, zstd''),
           (''accept-language'', ''en-US,en;q=0.9''), (''priority'', ''u=0, i'')],
        fp_HTTP2Settings :=
          \<lparr>hs_HeaderTableSize = 65536, hs_EnablePush = False, hs_MaxConcurrentStreams = 0, hs_InitialWindowSize = 6291456,
           hs_MaxFrameSize = 0, hs_MaxHeaderListSize = 262144, hs_ConnectionWindowUpdate = 15663105, hs_StreamWeight = 256,
           hs_StreamExclusive = True, hs_NoRFC7540Priorities = False\<rparr>,
        fp_TCPFingerprint := no_tcp,
        fp_H2Config := Some chromeH2Config,
        fp_SupportHTTP3 := True\<rparr>"

definition AndroidChrome145 :: "preset_env \<Rightarrow> fp_preset" where
  "AndroidChrome145 env =
     no_preset
       \<lparr>fp_Name := ''chrome-145-android'',
        fp_ClientHelloID := px_utls env ''HelloChrome_145_Linux'',
        fp_PSKClientHelloID := px_utls env ''HelloChrome_145_Linux_PSK'',
        fp_QUICClientHelloID := px_utls env ''HelloChrome_145_QUIC'',
        fp_QUICPSKClientHelloID := px_utls env ''HelloChrome_145_QUIC_PSK'',
        fp_UserAgent := ''Mozilla/5.0 (Linux; Android 10; K) AppleWebKit/537.36 (KHTML, like Gecko) Chrome/145.0.0.0 Mobile Safari/537.36'',
        fp_Headers :=
          [(''sec-ch-ua'', ''\"Not:A-Brand\";v=\"99\", \"Google Chrome\";v=\"145\", \"Chromium\";v=\"145\"''),
           (''sec-ch-ua-mobile'', ''?1''), (''sec-ch-ua-platform'', ''\"Android\"''), (''Upgrade-Insecure-Requests'', ''1''),
           (''Accept'', ''text/html,application/xhtml+xml,application/xml;q=0.9,image/avif,image/webp,image/apng,*/*;q=0.8,application/signed-exchange;v=b3;q=0.7''),
           (''Sec-Fetch-Site'', ''none''), (''Sec-Fetch-Mode'', ''navigate''), (''Sec-Fetch-User'', ''?1''),
           (''Sec-Fetch-Dest'', ''document''), (''Accept-Encoding'', ''gzip, deflate, br, zstd''),
           (''Accept-Language'', ''en-US,en;q=0.9''), (''Priority'', ''u=0, i'')],
        fp_HeaderOrder :=
          [(''sec-ch-ua'', ''\"Not:A-Brand\";v=\"99\", \"Google Chrome\";v=\"145\", \"Chromium\";v=\"145\"''),
           (''sec-ch-ua-mobile'', ''?1''), (''sec-ch-ua-platform'', ''\"Android\"''), (''upgrade-insecure-requests'', ''1''),
           (''user-agent'', []),
           (''accept'', ''text/html,application/xhtml+xml,application/xml;q=0.9,image/avif,image/webp,image/apng,*/*;q=0.8,application/signed-exchange;v=b3;q=0.7''),
           (''sec-fetch-site'', ''none''), (''sec-fetch-mode'', ''navigate''), (''sec-fetch-user'', ''?1''),
           (''sec-fetch-dest'', ''document''), (''accept-encoding'', ''gzip, deflate, br, zstd''),
           (''accept-language'', ''en-US,en;q=0.9''), (''priority'', ''u=0, i'')],
        fp_HTTP2Settings :=
          \<lparr>hs_HeaderTableSize = 65536, hs_EnablePush = False, hs_MaxConcurrentStreams = 0, hs_InitialWindowSize = 6291456,
           hs_MaxFrameSize = 0, hs_MaxHeaderListSize = 262144, hs_ConnectionWindowUpdate = 15663105, hs_StreamWeight = 256,
           hs_StreamExclusive = True, hs_NoRFC7540Priorities = False\<rparr>,
        fp_TCPFingerprint := no_tcp,
        fp_H2Config := Some chromeH2Config,
        fp_SupportHTTP3 := True\<rparr>"

definition presets :: "(string \<times> (preset_env \<Rightarrow> fp_preset)) list" where
  "presets =
     [(''chrome-133'', Chrome133), (''chrome-141'', Chrome141), (''chrome-143'', Chrome143),
      (''chrome-143-windows'', Chrome143Windows), (''chrome-143-linux'', Chrome143Linux),
      (''chrome-143-macos'', Chrome143macOS), (''chrome-144'', Chrome144), (''chrome-144-windows'', Chrome144Windows),
      (''chrome-144-linux'', Chrome144Linux), (''chrome-144-macos'', Chrome144macOS), (''chrome-145'', Chrome145),
      (''chrome-145-windows'', Chrome145Windows), (''chrome-145-linux'', Chrome145Linux),
      (''chrome-145-macos'', Chrome145macOS), (''chrome-146'', Chrome146), (''chrome-146-windows'', Chrome146Windows),
      (''chrome-146-linux'', Chrome146Linux), (''chrome-146-macos'', Chrome146macOS), (''chrome-147'', Chrome147),
      (''chrome-147-windows'', Chrome147Windows), (''chrome-147-linux'', Chrome147Linux),
      (''chrome-147-macos'', Chrome147macOS), (''firefox-133'', Firefox133), (''firefox-133-windows'', Firefox133Windows),
      (''firefox-133-linux'', Firefox133Linux), (''firefox-133-macos'', Firefox133macOS), (''firefox-148'', Firefox148),
      (''firefox-148-windows'', Firefox148Windows), (''firefox-148-linux'', Firefox148Linux),
      (''firefox-148-macos'', Firefox148macOS), (''safari-18'', Safari18), (''chrome-143-ios'', IOSChrome143),
      (''chrome-144-ios'', IOSChrome144), (''chrome-145-ios'', IOSChrome145), (''chrome-146-ios'', IOSChrome146),
      (''safari-17-ios'', IOSSafari17), (''safari-18-ios'', IOSSafari18), (''chrome-143-android'', AndroidChrome143),
      (''chrome-144-android'', AndroidChrome144), (''chrome-145-android'', AndroidChrome145),
      (''chrome-146-android'', AndroidChrome146), (''chrome-147-ios'', IOSChrome147),
      (''chrome-147-android'', AndroidChrome147), (''chrome-148-ios'', IOSChrome148), (''chrome-148'', Chrome148),
      (''chrome-148-windows'', Chrome148Windows), (''chrome-148-linux'', Chrome148Linux),
      (''chrome-148-macos'', Chrome148macOS), (''chrome-148-android'', AndroidChrome148), (''chrome-149'', Chrome149),
      (''chrome-149-windows'', Chrome149Windows), (''chrome-149-linux'', Chrome149Linux),
      (''chrome-149-macos'', Chrome149macOS), (''chrome-150'', Chrome150), (''chrome-150-windows'', Chrome150Windows),
      (''chrome-150-linux'', Chrome150Linux), (''chrome-150-macos'', Chrome150macOS), (''chrome-150-ios'', IOSChrome150),
      (''chrome-150-android'', AndroidChrome150), (''chrome-152'', Chrome152), (''chrome-152-windows'', Chrome152Windows),
      (''chrome-152-linux'', Chrome152Linux), (''chrome-152-macos'', Chrome152macOS), (''chrome-152-ios'', IOSChrome152),
      (''chrome-152-android'', AndroidChrome152), (''chrome-153'', Chrome153), (''chrome-153-windows'', Chrome153Windows),
      (''chrome-153-linux'', Chrome153Linux), (''chrome-153-macos'', Chrome153macOS),
      (''chrome-153-android'', AndroidChrome153), (''chrome-154'', Chrome154), (''chrome-154-windows'', Chrome154Windows),
      (''chrome-154-linux'', Chrome154Linux), (''chrome-154-macos'', Chrome154macOS),
      (''chrome-154-android'', AndroidChrome154), (''chrome-155'', Chrome155), (''chrome-155-windows'', Chrome155Windows),
      (''chrome-155-linux'', Chrome155Linux), (''chrome-155-macos'', Chrome155macOS), (''chrome-155-ios'', IOSChrome155),
      (''chrome-155-android'', AndroidChrome155), (''chrome-151'', Chrome151), (''chrome-151-windows'', Chrome151Windows),
      (''chrome-151-linux'', Chrome151Linux), (''chrome-151-macos'', Chrome151macOS), (''chrome-151-ios'', IOSChrome151),
      (''chrome-151-android'', AndroidChrome151), (''chrome-latest'', Chrome155),
      (''chrome-latest-windows'', Chrome155Windows), (''chrome-latest-linux'', Chrome155Linux),
      (''chrome-latest-macos'', Chrome155macOS), (''firefox-latest'', Firefox148),
      (''firefox-latest-windows'', Firefox148Windows), (''firefox-latest-linux'', Firefox148Linux),
      (''firefox-latest-macos'', Firefox148macOS), (''safari-latest'', Safari18), (''chrome-latest-ios'', IOSChrome155),
      (''safari-latest-ios'', IOSSafari18), (''chrome-latest-android'', AndroidChrome155),
      (''ios-chrome-143'', IOSChrome143), (''ios-chrome-144'', IOSChrome144), (''ios-chrome-145'', IOSChrome145),
      (''ios-chrome-146'', IOSChrome146), (''ios-chrome-147'', IOSChrome147), (''ios-chrome-148'', IOSChrome148),
      (''ios-safari-17'', IOSSafari17), (''ios-safari-18'', IOSSafari18), (''android-chrome-143'', AndroidChrome143),
      (''android-chrome-144'', AndroidChrome144), (''android-chrome-145'', AndroidChrome145),
      (''android-chrome-146'', AndroidChrome146), (''android-chrome-147'', AndroidChrome147),
      (''android-chrome-148'', AndroidChrome148), (''ios-chrome-latest'', IOSChrome155),
      (''ios-safari-latest'', IOSSafari18), (''android-chrome-latest'', AndroidChrome155)]"

section \<open>Lookup\<close>

definition fp_Get :: "preset_env \<Rightarrow> string \<Rightarrow> fp_preset" where
  "fp_Get env name0 =
     (let name = (if name0 = [] then ''chrome-latest'' else name0) in
      case map_of (px_custom env) name of
        Some p \<Rightarrow> p
      | None \<Rightarrow> (case map_of presets name of Some fn \<Rightarrow> fn env | None \<Rightarrow> Chrome146 env))"

definition fp_GetStrict :: "preset_env \<Rightarrow> string \<Rightarrow> fp_preset option" where
  "fp_GetStrict env name =
     (case map_of (px_custom env) name of
        Some p \<Rightarrow> Some p
      | None \<Rightarrow> map_option (\<lambda>fn. fn env) (map_of presets name))"

definition Available :: "string list" where
  "Available = map fst presets"

definition AvailableWithInfo :: "preset_env \<Rightarrow> (string, string list) gomap" where
  "AvailableWithInfo env =
     map (\<lambda>(name, fn). (name, [''h1'', ''h2''] @ (if fp_SupportHTTP3 (fn env) then [''h3''] else []))) presets"

end
