(* ===== verification/Preset_Coherence.thy ===== *)
theory Preset_Coherence
  imports Preset_Table
begin

text \<open>
  The presets tell one story: that the headers of every built-in preset agree with each
  other, with its wire orders and with the rules of the protocols, on every operating
  system.
\<close>

section \<open>Coherence\<close>

text \<open>The two tables of headers say the same, and the order leaves room for the user agent.\<close>

definition headers_agree :: "(string, string) gomap \<Rightarrow> (string \<times> string) list \<Rightarrow> bool" where
  "headers_agree h order \<longleftrightarrow>
     add_mset (''user-agent'', []) (mset (map (\<lambda>(k, v). (to_lower k, v)) h)) = mset order"

definition orders_complete :: "string list \<Rightarrow> string list \<Rightarrow> string list option \<Rightarrow> bool" where
  "orders_complete names order pseudo \<longleftrightarrow>
     distinct names \<and> distinct order \<and> list_all (\<lambda>k. k \<in> set order) names \<and>
     (case pseudo of
        None \<Rightarrow> True
      | Some ps \<Rightarrow> mset ps = mset ['':method'', '':authority'', '':scheme'', '':path''])"

definition settings_valid :: "http2_settings \<Rightarrow> bool" where
  "settings_valid s \<longleftrightarrow>
     (hs_InitialWindowSize s < 0x80000000 \<and> hs_ConnectionWindowUpdate s < 0x80000000 \<and>
      (hs_MaxFrameSize s = 0 \<or> 16384 \<le> hs_MaxFrameSize s \<and> hs_MaxFrameSize s < 0x1000000) \<and>
      1 \<le> hs_StreamWeight s \<and> hs_StreamWeight s \<le> 256)"

text \<open>What follows a word in a string, up to a character.\<close>

fun after :: "string \<Rightarrow> string \<Rightarrow> string option" where
  "after w [] = None"
| "after w (c # s) = (if has_prefix (c # s) w then Some (drop (length w) (c # s)) else after w s)"

definition major_version :: "string \<Rightarrow> string option" where
  "major_version ua = map_option (takeWhile (\<lambda>c. c \<noteq> CHR ''.'')) (after ''Chrome/'' ua)"

definition platform_words :: "(string \<times> string) list" where
  "platform_words = [(''Windows'', ''Windows NT''), (''macOS'', ''Macintosh''), (''Linux'', ''X11; Linux''), (''Android'', ''Android'')]"

text \<open>The client hints name the version, the platform and the form factor of the user agent.\<close>

definition hints_agree :: "string \<Rightarrow> string option \<Rightarrow> string option \<Rightarrow> string option \<Rightarrow> bool" where
  "hints_agree ua brands platform mobile \<longleftrightarrow>
     (case brands of
        None \<Rightarrow> True
      | Some b \<Rightarrow>
          (case major_version ua of
             None \<Rightarrow> False
           | Some v \<Rightarrow> contains b (in_quotes ''Google Chrome'' @ version_marker @ v @ [quote]) \<and>
                       contains b (in_quotes ''Chromium'' @ version_marker @ v @ [quote])) \<and>
          (case Option.bind (map_option unquote platform) (map_of platform_words) of
             None \<Rightarrow> False
           | Some w \<Rightarrow> contains ua w) \<and>
          mobile = Some (if contains ua ''Mobile'' then ''?1'' else ''?0''))"

definition coherent :: "fp_preset \<Rightarrow> bool" where
  "coherent p \<longleftrightarrow>
     headers_agree (fp_Headers p) (fp_HeaderOrder p) \<and>
     orders_complete (map fst (fp_HeaderOrder p)) (H2HeaderOrder p) (H2PseudoHeaderOrder p) \<and>
     settings_valid (fp_HTTP2Settings p) \<and>
     hints_agree (fp_UserAgent p) (map_of (fp_Headers p) ''sec-ch-ua'') (map_of (fp_Headers p) ''sec-ch-ua-platform'')
       (map_of (fp_Headers p) ''sec-ch-ua-mobile'')"

section \<open>The presets of the table\<close>

named_theorems coherent \<comment> \<open>the coherence of the presets\<close>

lemma has_prefix_rec: "has_prefix [] (d # ds) = False" "has_prefix (c # cs) (d # ds) = (c = d \<and> has_prefix cs ds)"
  by (auto simp: has_prefix_def)

lemma coherentI:
  "headers_agree (fp_Headers p) (fp_HeaderOrder p) \<Longrightarrow>
   orders_complete (map fst (fp_HeaderOrder p)) (H2HeaderOrder p) (H2PseudoHeaderOrder p) \<Longrightarrow>
   settings_valid (fp_HTTP2Settings p) \<Longrightarrow>
   hints_agree (fp_UserAgent p) (map_of (fp_Headers p) ''sec-ch-ua'') (map_of (fp_Headers p) ''sec-ch-ua-platform'')
     (map_of (fp_Headers p) ''sec-ch-ua-mobile'') \<Longrightarrow> coherent p"
  by (simp add: coherent_def)

lemma lower_names:
  "to_lower ''sec-ch-ua'' = ''sec-ch-ua''" "to_lower ''sec-ch-ua-mobile'' = ''sec-ch-ua-mobile''"
  "to_lower ''sec-ch-ua-platform'' = ''sec-ch-ua-platform''" "to_lower ''upgrade-insecure-requests'' = ''upgrade-insecure-requests''"
  "to_lower ''user-agent'' = ''user-agent''" "to_lower ''accept'' = ''accept''" "to_lower ''sec-fetch-site'' = ''sec-fetch-site''"
  "to_lower ''sec-fetch-mode'' = ''sec-fetch-mode''" "to_lower ''sec-fetch-user'' = ''sec-fetch-user''"
  "to_lower ''sec-fetch-dest'' = ''sec-fetch-dest''" "to_lower ''accept-encoding'' = ''accept-encoding''"
  "to_lower ''accept-language'' = ''accept-language''" "to_lower ''priority'' = ''priority''" "to_lower ''te'' = ''te''"
  "to_lower ''Upgrade-Insecure-Requests'' = ''upgrade-insecure-requests''" "to_lower ''Accept'' = ''accept''"
  "to_lower ''Sec-Fetch-Site'' = ''sec-fetch-site''" "to_lower ''Sec-Fetch-Mode'' = ''sec-fetch-mode''"
  "to_lower ''Sec-Fetch-User'' = ''sec-fetch-user''" "to_lower ''Sec-Fetch-Dest'' = ''sec-fetch-dest''"
  "to_lower ''Accept-Encoding'' = ''accept-encoding''" "to_lower ''Accept-Language'' = ''accept-language''"
  "to_lower ''Priority'' = ''priority''" "to_lower ''TE'' = ''te''"
  by code_simp+

text \<open>The orders of the three browser families, for the header names their presets have.\<close>

definition order_of :: "h2_config \<Rightarrow> string list" where
  "order_of c = (case h2_HPACKHeaderOrder c of None \<Rightarrow> chrome_header_order | Some v \<Rightarrow> v)"

lemma order_of_preset:
  "fp_H2Config p = Some c \<Longrightarrow> H2HeaderOrder p = order_of c"
  "fp_H2Config p = Some c \<Longrightarrow> H2PseudoHeaderOrder p = h2_PseudoHeaderOrder c"
  by (simp_all add: H2HeaderOrder_def H2PseudoHeaderOrder_def h2_field_def order_of_def)

lemmas order_eval = orders_complete_def order_of_def chromeH2Config_def firefoxH2Config_def safariH2Config_def no_h2_def

lemma orders_chrome:
  "orders_complete [''sec-ch-ua'', ''sec-ch-ua-mobile'', ''sec-ch-ua-platform'', ''upgrade-insecure-requests'', ''user-agent'', ''accept'',
     ''sec-fetch-site'', ''sec-fetch-mode'', ''sec-fetch-user'', ''sec-fetch-dest'', ''accept-encoding'', ''accept-language'', ''priority'']
     (order_of chromeH2Config) (h2_PseudoHeaderOrder chromeH2Config)"
  by (simp add: order_eval)

lemma orders_others:
  "orders_complete [''user-agent'', ''accept'', ''accept-language'', ''accept-encoding'', ''sec-fetch-dest'', ''sec-fetch-mode'',
     ''sec-fetch-site'', ''sec-fetch-user''] (order_of firefoxH2Config) (h2_PseudoHeaderOrder firefoxH2Config)"
  "orders_complete [''user-agent'', ''accept'', ''accept-language'', ''accept-encoding'', ''upgrade-insecure-requests'', ''sec-fetch-dest'',
     ''sec-fetch-mode'', ''sec-fetch-site'', ''sec-fetch-user'', ''priority'', ''te''] (order_of firefoxH2Config) (h2_PseudoHeaderOrder firefoxH2Config)"
  "orders_complete [''accept'', ''sec-fetch-dest'', ''sec-fetch-mode'', ''sec-fetch-site'', ''sec-fetch-user'', ''accept-language'',
     ''accept-encoding'', ''user-agent''] (order_of safariH2Config) (h2_PseudoHeaderOrder safariH2Config)"
  "orders_complete [''accept'', ''sec-fetch-site'', ''sec-fetch-dest'', ''accept-encoding'', ''sec-fetch-mode'', ''user-agent'',
     ''accept-language'', ''sec-fetch-user''] (order_of safariH2Config) (h2_PseudoHeaderOrder safariH2Config)"
  by (simp_all add: order_eval)

text \<open>Literal strings are not simplified again at every step.\<close>

definition occurs :: "string \<Rightarrow> string \<Rightarrow> bool" where
  "occurs w s = contains s w"

lemma occurs_rec: "occurs (d # ds) [] = False"
  "occurs (d # ds) (c # cs) = (if c = d \<and> has_prefix cs ds then True else occurs (d # ds) cs)"
  by (auto simp: occurs_def has_prefix_rec)

lemma string_weak: "occurs w s = occurs w s" "has_prefix s w = has_prefix s w" "after w s = after w s"
  by (rule refl)+

lemmas coherence_eval =
  headers_agree_def settings_valid_def hints_agree_def major_version_def has_prefix_rec occurs_def [symmetric] occurs_rec
  in_quotes_def version_marker_def platform_words_def unquote_def
  order_of_preset orders_chrome orders_others Let_def lower_names

lemma select_weak:
  "fp_Headers p = fp_Headers p" "fp_HeaderOrder p = fp_HeaderOrder p" "fp_UserAgent p = fp_UserAgent p"
  "fp_HTTP2Settings p = fp_HTTP2Settings p" "fp_H2Config p = fp_H2Config p" "H2HeaderOrder p = H2HeaderOrder p"
  "H2PseudoHeaderOrder p = H2PseudoHeaderOrder p"
  by (rule refl)+

lemma platform_cases:
  obtains (windows) "GetPlatformInfo g =
      \<lparr>pi_UserAgentOS = ''(Windows NT 10.0; Win64; x64)'', pi_Platform = ''Windows'', pi_Arch = ''x86'',
       pi_PlatformVersion = ''10.0.0'', pi_FirefoxUserAgentOS = ''(Windows NT 10.0; Win64; x64; rv:133.0)''\<rparr>"
    | (macos) "GetPlatformInfo g =
      \<lparr>pi_UserAgentOS = ''(Macintosh; Intel Mac OS X 10_15_7)'', pi_Platform = ''macOS'', pi_Arch = ''arm'',
       pi_PlatformVersion = ''14.7.0'', pi_FirefoxUserAgentOS = ''(Macintosh; Intel Mac OS X 10.15; rv:133.0)''\<rparr>"
    | (linux) "GetPlatformInfo g =
      \<lparr>pi_UserAgentOS = ''(X11; Linux x86_64)'', pi_Platform = ''Linux'', pi_Arch = ''x86'',
       pi_PlatformVersion = ''6.12.0'', pi_FirefoxUserAgentOS = ''(X11; Linux x86_64; rv:133.0)''\<rparr>"
proof (cases "g = ''windows''")
  case True
  then show ?thesis using windows by (simp add: GetPlatformInfo_def)
next
  case False
  then show ?thesis using macos linux by (cases "g = ''darwin''") (simp_all add: GetPlatformInfo_def)
qed

lemma desktop_coherent_1 [coherent]:
  "coherent (Chrome143Windows env)" "coherent (Chrome143Linux env)" "coherent (Chrome143macOS env)"
  "coherent (Chrome144Windows env)" "coherent (Chrome144Linux env)" "coherent (Chrome144macOS env)"
  unfolding Chrome143Windows_def Chrome143Linux_def Chrome143macOS_def Chrome144Windows_def Chrome144Linux_def
    Chrome144macOS_def
  by (intro coherentI; simp add: coherence_eval cong: string_weak select_weak)+

lemma desktop_coherent_2 [coherent]:
  "coherent (Chrome145Windows env)" "coherent (Chrome145Linux env)" "coherent (Chrome145macOS env)"
  "coherent (Chrome146Windows env)" "coherent (Chrome146Linux env)" "coherent (Chrome146macOS env)"
  unfolding Chrome145Windows_def Chrome145Linux_def Chrome145macOS_def Chrome146Windows_def Chrome146Linux_def
    Chrome146macOS_def
  by (intro coherentI; simp add: coherence_eval cong: string_weak select_weak)+

lemma mobile_coherent_1 [coherent]:
  "coherent (Safari18 env)" "coherent (IOSChrome146 env)" "coherent (AndroidChrome146 env)"
  "coherent (IOSChrome143 env)" "coherent (IOSChrome144 env)" "coherent (IOSChrome145 env)"
  unfolding Safari18_def IOSChrome146_def AndroidChrome146_def IOSChrome143_def IOSChrome144_def IOSChrome145_def
  by (intro coherentI; simp add: coherence_eval cong: string_weak select_weak)+

lemma mobile_coherent_2 [coherent]:
  "coherent (IOSSafari17 env)" "coherent (IOSSafari18 env)" "coherent (AndroidChrome143 env)"
  "coherent (AndroidChrome144 env)" "coherent (AndroidChrome145 env)"
  unfolding IOSSafari17_def IOSSafari18_def AndroidChrome143_def AndroidChrome144_def AndroidChrome145_def
  by (intro coherentI; simp add: coherence_eval cong: string_weak select_weak)+

lemma platform_coherent_1 [coherent]:
  "coherent (Chrome133 env)" "coherent (Chrome141 env)"
  unfolding Chrome133_def Chrome141_def Let_def
  by (rule platform_cases [of "px_GOOS env"]; intro coherentI; simp add: coherence_eval cong: string_weak select_weak)+

lemma platform_coherent_2 [coherent]:
  "coherent (Firefox133 env)" "coherent (Firefox148 env)"
  unfolding Firefox133_def Firefox148_def Let_def
  by (rule platform_cases [of "px_GOOS env"]; intro coherentI; simp add: coherence_eval cong: string_weak select_weak)+

lemma platform_coherent_3 [coherent]:
  "coherent (Chrome143 env)" "coherent (Chrome144 env)"
  unfolding Chrome143_def Chrome144_def Let_def
  by (rule platform_cases [of "px_GOOS env"]; intro coherentI; simp add: coherence_eval cong: string_weak select_weak)+

lemma platform_coherent_4 [coherent]:
  "coherent (Chrome145 env)" "coherent (Chrome146 env)"
  unfolding Chrome145_def Chrome146_def Let_def
  by (rule platform_cases [of "px_GOOS env"]; intro coherentI; simp add: coherence_eval cong: string_weak select_weak)+


lemma custom_or_coherent:
  "list_all (\<lambda>(name, p). coherent p) (px_custom env) \<Longrightarrow> coherent fallback \<Longrightarrow> coherent (custom_or env name fallback)"
  by (auto simp: custom_or_def list_all_iff split: option.split dest!: map_of_SomeD)

lemma by_platform_coherent: "coherent w \<Longrightarrow> coherent m \<Longrightarrow> coherent l \<Longrightarrow> coherent (by_platform env w m l)"
  by (simp add: by_platform_def Let_def)

lemmas derived_defs =
  Firefox133Windows_def Firefox133Linux_def Firefox133macOS_def Firefox148Windows_def Firefox148Linux_def
  Firefox148macOS_def Chrome147Windows_def Chrome147Linux_def Chrome147macOS_def Chrome147_def IOSChrome147_def
  IOSChrome148_def IOSChrome150_def AndroidChrome147_def Chrome148Windows_def Chrome148Linux_def Chrome148macOS_def
  Chrome148_def AndroidChrome148_def AndroidChrome150_def Chrome149Windows_def Chrome149Linux_def Chrome149macOS_def
  Chrome149_def Chrome150Windows_def Chrome150Linux_def Chrome150macOS_def Chrome150_def Chrome151Windows_def
  Chrome151Linux_def Chrome151macOS_def Chrome151_def AndroidChrome151_def IOSChrome151_def Chrome152Windows_def
  Chrome152Linux_def Chrome152macOS_def Chrome152_def AndroidChrome152_def IOSChrome152_def Chrome153Windows_def
  Chrome153Linux_def Chrome153macOS_def Chrome153_def AndroidChrome153_def Chrome154Windows_def Chrome154Linux_def
  Chrome154macOS_def Chrome154_def AndroidChrome154_def Chrome155Windows_def Chrome155Linux_def Chrome155macOS_def
  Chrome155_def AndroidChrome155_def IOSChrome155_def




end
