(* ===== verification/Preset_Registry.thy ===== *)
theory Preset_Registry
  imports Go_Prelude
begin

text \<open>
  How a preset is found by name: the registries of \<^verbatim>\<open>fingerprint/registry.go\<close> and
  \<^verbatim>\<open>fingerprint/presets.go\<close> (\<^verbatim>\<open>Get\<close>, \<^verbatim>\<open>GetStrict\<close>), the suggestion for a mistyped name
  (\<^verbatim>\<open>fingerprint/suggest.go\<close>) and the rotation pools of \<^verbatim>\<open>fingerprint/preset_pool.go\<close>.

  A preset is its name and a body of any type \<^typ>\<open>'b\<close>; presets are values, so the
  deep clone that \<^verbatim>\<open>LookupCustom\<close> hands out is the preset itself. The Go-defined
  presets are a map from names to what their constructor functions return, and
  \<^verbatim>\<open>Chrome146()\<close> is the field \<open>reg_Chrome146\<close>. \<^verbatim>\<open>BuildPreset\<close> is an argument of
  the pool builder.
\<close>

section \<open>Registry\<close>

record 'b preset =
  p_Name :: string
  p_body :: 'b

record 'b registry =
  reg_presets :: "(string, 'b preset) gomap"
  reg_custom :: "(string, 'b preset) gomap"
  reg_Chrome146 :: "'b preset"

datatype reg_error = PresetNil | PresetNameEmpty | NameRegistered string | NameBuiltin string

definition Register :: "string \<Rightarrow> 'b preset option \<Rightarrow> 'b registry \<Rightarrow> 'b registry" where
  "Register name preset r =
     (case preset of None \<Rightarrow> r | Some p \<Rightarrow> r\<lparr>reg_custom := AList.update name p (reg_custom r)\<rparr>)"

definition RegisterStrict ::
    "string \<Rightarrow> 'b preset option \<Rightarrow> 'b registry \<Rightarrow> reg_error option \<times> 'b registry" where
  "RegisterStrict name preset r =
     (case preset of
        None \<Rightarrow> (Some PresetNil, r)
      | Some p \<Rightarrow>
          if name = [] then (Some PresetNameEmpty, r)
          else if map_of (reg_custom r) name \<noteq> None then (Some (NameRegistered name), r)
          else if map_of (reg_presets r) name \<noteq> None then (Some (NameBuiltin name), r)
          else (None, r\<lparr>reg_custom := AList.update name p (reg_custom r)\<rparr>))"

definition Unregister :: "string \<Rightarrow> 'b registry \<Rightarrow> 'b registry" where
  "Unregister name r = r\<lparr>reg_custom := AList.delete name (reg_custom r)\<rparr>"

definition LookupCustom :: "string \<Rightarrow> 'b registry \<Rightarrow> 'b preset option" where
  "LookupCustom name r = map_of (reg_custom r) name"

definition GetStrict :: "string \<Rightarrow> 'b registry \<Rightarrow> 'b preset option" where
  "GetStrict name r =
     (case LookupCustom name r of Some p \<Rightarrow> Some p | None \<Rightarrow> map_of (reg_presets r) name)"

definition Get :: "string \<Rightarrow> 'b registry \<Rightarrow> 'b preset" where
  "Get name0 r =
     (let name = (if name0 = [] then ''chrome-latest'' else name0) in
      case LookupCustom name r of
        Some p \<Rightarrow> p
      | None \<Rightarrow> (case map_of (reg_presets r) name of Some p \<Rightarrow> p | None \<Rightarrow> reg_Chrome146 r))"

section \<open>Suggestions\<close>

definition KnownPresets :: "'b registry \<Rightarrow> string list" where
  "KnownPresets r = sort (remdups (map fst (reg_presets r) @ map fst (reg_custom r)))"

definition min3 :: "nat \<Rightarrow> nat \<Rightarrow> nat \<Rightarrow> nat" where
  "min3 a b c = (let a' = (if b < a then b else a) in if c < a' then c else a')"

text \<open>
  The inner loop of \<^verbatim>\<open>editDistance\<close>: \<open>left\<close> is \<open>curr[j-1]\<close>, the list holds
  \<open>prev[j-1], prev[j], ...\<close>, and the result \<open>curr[j], curr[j+1], ...\<close>. The two
  arrays that the code swaps are the previous and the next list.
\<close>

fun edit_row :: "char \<Rightarrow> nat \<Rightarrow> nat list \<Rightarrow> string \<Rightarrow> nat list" where
  "edit_row ac left (diag # up # ps) (bc # bs) =
     (let cost = (if ac = bc then 0 else 1);
          d = min3 (left + 1) (up + 1) (diag + cost)
      in d # edit_row ac d (up # ps) bs)"
| "edit_row ac left ps bs = []"

fun edit_rows :: "nat list \<Rightarrow> nat \<Rightarrow> string \<Rightarrow> string \<Rightarrow> nat list" where
  "edit_rows prev i [] b = prev"
| "edit_rows prev i (ac # as) b = edit_rows (i # edit_row ac i prev b) (i + 1) as b"

definition editDistance :: "string \<Rightarrow> string \<Rightarrow> nat" where
  "editDistance a b =
     (if a = b then 0
      else if length a = 0 then length b
      else if length b = 0 then length a
      else edit_rows [0..<length b + 1] 1 a b ! length b)"

fun suggest_loop :: "string \<Rightarrow> string \<times> int \<Rightarrow> string list \<Rightarrow> string \<times> int" where
  "suggest_loop want (best, bestDist) [] = (best, bestDist)"
| "suggest_loop want (best, bestDist) (cand # cands) =
     (let d = int (editDistance want (to_lower cand)) in
      if d < bestDist then suggest_loop want (cand, d) cands
      else suggest_loop want (best, bestDist) cands)"

definition Suggest :: "string \<Rightarrow> 'b registry \<Rightarrow> string" where
  "Suggest name r =
     (if name = [] then []
      else
        (let want = to_lower (trim_space name);
             (best, bestDist) = suggest_loop want ([], 2 ^ 30) (KnownPresets r);
             limit = int (length want) div 3 + 1
         in if bestDist > limit then [] else best))"

section \<open>Pools\<close>

datatype pool_strategy = PoolRandom | PoolRoundRobin

record 'b preset_pool =
  pl_name :: string
  pl_presets :: "'b preset list"
  pl_strategy :: pool_strategy
  pl_index :: int

record 'spec pool_spec =
  ps_Name :: string
  ps_Strategy :: string
  ps_Presets :: "'spec list"

record 'spec preset_file =
  pf_Pool :: "'spec pool_spec option"
  pf_Preset :: "'spec option"

datatype pool_error =
    PoolEmpty string | UnknownStrategy string | PresetFailed nat string | SinglePresetFailed string
  | NeitherPresetNorPool

text \<open>\<^const>\<open>None\<close> is the panic on an empty list or a nil entry.\<close>

definition NewPresetPool ::
    "string \<Rightarrow> pool_strategy \<Rightarrow> 'b preset option list \<Rightarrow> 'b preset_pool option" where
  "NewPresetPool name strategy presets =
     (if presets = [] then None
      else if None \<in> set presets then None
      else Some \<lparr>pl_name = name, pl_presets = map the presets, pl_strategy = strategy, pl_index = 0\<rparr>)"

fun build_all :: "('spec \<Rightarrow> string + 'b preset) \<Rightarrow> nat \<Rightarrow> 'spec list \<Rightarrow> pool_error + 'b preset list" where
  "build_all build i [] = Inr []"
| "build_all build i (s # ss) =
     (case build s of
        Inl e \<Rightarrow> Inl (PresetFailed i e)
      | Inr p \<Rightarrow> (case build_all build (i + 1) ss of Inl e \<Rightarrow> Inl e | Inr ps \<Rightarrow> Inr (p # ps)))"

definition register_named :: "'b preset \<Rightarrow> 'b registry \<Rightarrow> 'b registry" where
  "register_named p r = (if p_Name p \<noteq> [] then Register (p_Name p) (Some p) r else r)"

definition buildPoolFromPoolSpec ::
    "('spec \<Rightarrow> string + 'b preset) \<Rightarrow> 'spec pool_spec \<Rightarrow> 'b registry \<Rightarrow>
     (pool_error + 'b preset_pool option) \<times> 'b registry" where
  "buildPoolFromPoolSpec build spec r =
     (if ps_Presets spec = [] then (Inl (PoolEmpty (ps_Name spec)), r)
      else if ps_Strategy spec \<notin> {''random'', [], ''round-robin''} then
        (Inl (UnknownStrategy (ps_Strategy spec)), r)
      else
        (let strategy = (if ps_Strategy spec = ''round-robin'' then PoolRoundRobin else PoolRandom) in
         case build_all build 0 (ps_Presets spec) of
           Inl e \<Rightarrow> (Inl e, r)
         | Inr presets \<Rightarrow>
             (Inr (NewPresetPool (ps_Name spec) strategy (map Some presets)),
              fold register_named presets r)))"

definition buildPool ::
    "('spec \<Rightarrow> string + 'b preset) \<Rightarrow> 'spec preset_file \<Rightarrow> 'b registry \<Rightarrow>
     (pool_error + 'b preset_pool option) \<times> 'b registry" where
  "buildPool build pf r =
     (case pf_Pool pf of
        Some spec \<Rightarrow> buildPoolFromPoolSpec build spec r
      | None \<Rightarrow>
          (case pf_Preset pf of
             Some spec \<Rightarrow>
               (case build spec of
                  Inl e \<Rightarrow> (Inl (SinglePresetFailed e), r)
                | Inr p \<Rightarrow> (Inr (NewPresetPool (p_Name p) PoolRandom [Some p]), register_named p r))
           | None \<Rightarrow> (Inl NeitherPresetNorPool, r)))"

text \<open>Go's remainder truncates towards zero.\<close>

definition go_rem :: "int \<Rightarrow> int \<Rightarrow> int" where
  "go_rem a n = (if a \<ge> 0 then a mod n else - ((- a) mod n))"

text \<open>\<^verbatim>\<open>rng.Intn(n)\<close> is the argument \<open>intn\<close>.\<close>

definition Random :: "(nat \<Rightarrow> nat) \<Rightarrow> 'b preset_pool \<Rightarrow> 'b preset" where
  "Random intn p =
     (if length (pl_presets p) = 1 then pl_presets p ! 0
      else pl_presets p ! intn (length (pl_presets p)))"

definition Next :: "'b preset_pool \<Rightarrow> 'b preset \<times> 'b preset_pool" where
  "Next p =
     (if length (pl_presets p) = 1 then (pl_presets p ! 0, p)
      else
        (let n = int (length (pl_presets p));
             index = int64 (pl_index p + 1);
             idx = int64 (index - 1)
         in (pl_presets p ! nat (go_rem (int64 (go_rem idx n + n)) n), p\<lparr>pl_index := index\<rparr>)))"

definition Pick :: "(nat \<Rightarrow> nat) \<Rightarrow> 'b preset_pool \<Rightarrow> 'b preset \<times> 'b preset_pool" where
  "Pick intn p =
     (case pl_strategy p of PoolRoundRobin \<Rightarrow> Next p | PoolRandom \<Rightarrow> (Random intn p, p))"

text \<open>\<^const>\<open>None\<close> is the panic out of range.\<close>

definition pool_Get :: "int \<Rightarrow> 'b preset_pool \<Rightarrow> 'b preset option" where
  "pool_Get index p =
     (if 0 \<le> index \<and> index < int (length (pl_presets p)) then Some (pl_presets p ! nat index) else None)"

definition pool_Size :: "'b preset_pool \<Rightarrow> nat" where
  "pool_Size p = length (pl_presets p)"

definition pool_Close :: "'b preset_pool \<Rightarrow> 'b registry \<Rightarrow> 'b registry" where
  "pool_Close p r =
     fold (\<lambda>preset r. if p_Name preset \<noteq> [] then Unregister (p_Name preset) r else r) (pl_presets p) r"


section \<open>Edit distance\<close>

text \<open>One edit: insert, delete or replace one character anywhere.\<close>

inductive edit1 :: "string \<Rightarrow> string \<Rightarrow> bool" where
  ins: "edit1 (u @ v) (u @ c # v)"
| del: "edit1 (u @ c # v) (u @ v)"
| sub: "edit1 (u @ c # v) (u @ d # v)"

fun lev :: "string \<Rightarrow> string \<Rightarrow> nat" where
  "lev [] ys = length ys"
| "lev (x # xs) [] = Suc (length xs)"
| "lev (x # xs) (y # ys) =
     min3 (lev (x # xs) ys + 1) (lev xs (y # ys) + 1) (lev xs ys + (if x = y then 0 else 1))"

lemma min3_min: "min3 a b c = min a (min b c)"
  by (simp add: min3_def min_def)

lemma min3_cases: "min3 a b c = a \<or> min3 a b c = b \<or> min3 a b c = c"
  by (simp add: min3_def)

lemma lev_Nil2 [simp]: "lev xs [] = length xs"
  by (cases xs) auto

lemma lev_refl [simp]: "lev xs xs = 0"
  by (induction xs) (auto simp: min3_min)

lemma lev_del: "lev (c # v) z \<le> lev v z + 1"
  by (cases z) (auto simp: min3_min)

lemma lev_del2: "lev z (c # v) \<le> lev z v + 1"
  by (cases z) (auto simp: min3_min)

lemma lev_ins: "lev v z \<le> lev (c # v) z + 1"
proof (induction z)
  case (Cons y ys)
  then show ?case using lev_del2 [of v y ys] by (auto simp: min3_min)
qed simp

lemma lev_sub: "lev (c # v) z \<le> lev (d # v) z + 1"
  by (induction z) (auto simp: min3_min)

lemma lev_context: "(\<And>z. lev a z \<le> lev b z + 1) \<Longrightarrow> lev (u @ a) z \<le> lev (u @ b) z + 1"
proof (induction u arbitrary: z)
  case (Cons x u)
  then have IH: "\<And>z. lev (u @ a) z \<le> lev (u @ b) z + 1" by blast
  show ?case
  proof (induction z)
    case Nil
    then show ?case using IH [of "[]"] by simp
  next
    case (Cons y ys)
    then show ?case using IH [of "y # ys"] IH [of ys] by (auto simp: min3_min)
  qed
qed simp

lemma lev_edit1: "edit1 a b \<Longrightarrow> lev a z \<le> lev b z + 1"
  by (induction rule: edit1.induct)
    (rule lev_context, rule lev_ins, rule lev_context, rule lev_del, rule lev_context, rule lev_sub)

lemma lev_lower: "(edit1 ^^ n) a b \<Longrightarrow> lev a b \<le> n"
proof (induction n arbitrary: a)
  case (Suc n)
  then obtain m where "edit1 a m" "(edit1 ^^ n) m b" by (blast elim: relpowp_Suc_E2)
  then show ?case using Suc.IH lev_edit1 [of a m b] by fastforce
qed simp

lemma edit1_Cons: "edit1 a b \<Longrightarrow> edit1 (x # a) (x # b)"
proof (induction rule: edit1.induct)
  case (ins u v c)
  then show ?case using edit1.ins [of "x # u" v c] by simp
next
  case (del u c v)
  then show ?case using edit1.del [of "x # u" c v] by simp
next
  case (sub u c v d)
  then show ?case using edit1.sub [of "x # u" c v d] by simp
qed

lemma edits_Cons: "(edit1 ^^ n) a b \<Longrightarrow> (edit1 ^^ n) (x # a) (x # b)"
  by (induction n arbitrary: b) (auto intro: relcomppI edit1_Cons)

lemma lev_path: "(edit1 ^^ lev a b) a b"
proof (induction a b rule: lev.induct)
  case (1 ys)
  show ?case
  proof (induction ys)
    case (Cons y ys)
    then show ?case using edit1.ins [of "[]" ys y] by (auto intro: relpowp_Suc_I)
  qed simp
next
  case (2 x xs)
  have "(edit1 ^^ length l) l []" for l :: string
  proof (induction l)
    case (Cons y l)
    have "edit1 (y # l) l" using edit1.del [of "[]" y l] by simp
    then show ?case unfolding length_Cons using Cons by (rule relpowp_Suc_I2)
  qed simp
  from this [of "x # xs"] show ?case by simp
next
  case (3 x xs y ys)
  let ?c = "if x = y then 0 else 1 :: nat"
  consider "lev (x # xs) (y # ys) = Suc (lev (x # xs) ys)" | "lev (x # xs) (y # ys) = Suc (lev xs (y # ys))"
    | "lev (x # xs) (y # ys) = lev xs ys + ?c"
    using min3_cases [of "lev (x # xs) ys + 1" "lev xs (y # ys) + 1" "lev xs ys + ?c"]
    unfolding lev.simps(3) Suc_eq_plus1 by blast
  then show ?case
  proof cases
    case 1
    have "edit1 ys (y # ys)" using edit1.ins [of "[]" ys y] by simp
    then show ?thesis unfolding 1 using "3.IH"(1) by (auto intro: relpowp_Suc_I)
  next
    case 2
    have "edit1 (x # xs) xs" using edit1.del [of "[]" x xs] by simp
    then show ?thesis unfolding 2 using "3.IH"(2) by (rule relpowp_Suc_I2)
  next
    case 3
    have p: "(edit1 ^^ lev xs ys) (y # xs) (y # ys)" using "3.IH"(3) by (rule edits_Cons)
    have "edit1 (x # xs) (y # xs)" using edit1.sub [of "[]" x xs y] by simp
    then show ?thesis
      unfolding 3 using p relpowp_Suc_I2 [of edit1 "x # xs" "y # xs" "lev xs ys" "y # ys"]
      by (cases "x = y") (simp_all del: relpowp.simps)
  qed
qed

lemma edit1_rev: "edit1 a b \<Longrightarrow> edit1 (rev a) (rev b)"
proof (induction rule: edit1.induct)
  case (ins u v c)
  then show ?case using edit1.ins [of "rev v" "rev u" c] by simp
next
  case (del u c v)
  then show ?case using edit1.del [of "rev v" c "rev u"] by simp
next
  case (sub u c v d)
  then show ?case using edit1.sub [of "rev v" c "rev u" d] by simp
qed

lemma edits_rev: "(edit1 ^^ n) a b \<Longrightarrow> (edit1 ^^ n) (rev a) (rev b)"
  by (induction n arbitrary: b) (auto intro: relcomppI edit1_rev)

lemma lev_rev: "lev (rev a) (rev b) = lev a b"
  using lev_lower [OF edits_rev [OF lev_path [of a b]]]
    lev_lower [OF edits_rev [OF lev_path [of "rev a" "rev b"]]] by simp

text \<open>Row \<open>i\<close> of the table: the distances of a prefix of \<open>a\<close> from every prefix of \<open>b\<close>.\<close>

definition lev_row :: "string \<Rightarrow> string \<Rightarrow> nat list" where
  "lev_row pre b = map (\<lambda>j. lev (rev pre) (rev (take j b))) [0..<length b + 1]"

lemma edit_row_lev:
  assumes "left = lev (ac # rev pre) (rev done)"
  shows "edit_row ac left (map (\<lambda>j. lev (rev pre) (rev (done @ take j b))) [0..<length b + 1]) b =
    map (\<lambda>j. lev (ac # rev pre) (rev (done @ take j b))) [1..<length b + 1]"
  using assms
proof (induction b arbitrary: left "done")
  case (Cons bc bs)
  let ?f = "\<lambda>d j. lev (rev pre) (rev (d @ take j bs))"
  let ?g = "\<lambda>d j. lev (ac # rev pre) (rev (d @ take j bs))"
  have upt: "[0..<length (bc # bs) + 1] = 0 # map Suc [0..<length bs + 1]"
    by (simp add: upt_conv_Cons map_Suc_upt del: upt_Suc)
  have upt1: "[1..<length (bc # bs) + 1] = 1 # map Suc [1..<length bs + 1]"
    by (simp add: upt_conv_Cons map_Suc_upt del: upt_Suc)
  have row: "map (\<lambda>j. lev (rev pre) (rev (done @ take j (bc # bs)))) [0..<length (bc # bs) + 1] =
      lev (rev pre) (rev done) # map (?f (done @ [bc])) [0..<length bs + 1]"
    unfolding upt by simp
  have row': "map (?f (done @ [bc])) [0..<length bs + 1] =
      lev (rev pre) (bc # rev done) # map (?f (done @ [bc])) [1..<length bs + 1]"
    by (simp add: upt_conv_Cons del: upt_Suc)
  let ?d = "lev (ac # rev pre) (bc # rev done)"
  have d: "min3 (left + 1) (lev (rev pre) (bc # rev done) + 1)
      (lev (rev pre) (rev done) + (if ac = bc then 0 else 1)) = ?d"
    using Cons.prems by simp
  have IH: "edit_row ac ?d (map (?f (done @ [bc])) [0..<length bs + 1]) bs =
      map (?g (done @ [bc])) [1..<length bs + 1]"
    by (rule Cons.IH) simp
  have "edit_row ac left (map (\<lambda>j. lev (rev pre) (rev (done @ take j (bc # bs)))) [0..<length (bc # bs) + 1]) (bc # bs) =
      ?d # map (?g (done @ [bc])) [1..<length bs + 1]"
    unfolding row row' using d IH [unfolded row'] by (simp add: Let_def del: lev.simps)
  then show ?case unfolding upt1 by simp
qed simp

lemma edit_rows_lev:
  assumes "prev = lev_row pre b" and "i = Suc (length pre)"
  shows "edit_rows prev i a b = lev_row (pre @ a) b"
  using assms
proof (induction a arbitrary: prev i pre)
  case (Cons ac as)
  have "i # edit_row ac i prev b = lev_row (pre @ [ac]) b"
    using edit_row_lev [of i ac pre "[]" b] Cons.prems
    by (simp add: lev_row_def upt_conv_Cons del: upt_Suc lev.simps(3))
  then show ?case using Cons.IH [of _ "pre @ [ac]"] Cons.prems by simp
qed simp

lemma editDistance_lev: "editDistance a b = lev a b"
proof -
  have "[0..<length b + 1] = lev_row [] b"
    by (rule nth_equalityI) (auto simp: lev_row_def simp del: upt_Suc)
  then have "edit_rows [0..<length b + 1] 1 a b ! length b = lev (rev a) (rev b)"
    using edit_rows_lev [of "[0..<length b + 1]" "[]" b 1 a] by (simp add: lev_row_def del: upt_Suc)
  then show ?thesis by (simp add: editDistance_def lev_rev del: upt_Suc)
qed

text \<open>
  Property C36. The two-row routine computes the edit distance: it is a number of
  single-character edits that leads from one string to the other, and no
  shorter sequence of edits does.
\<close>

theorem edit_distance_least:
  "editDistance a b = (LEAST n. (edit1 ^^ n) a b) \<and> (edit1 ^^ editDistance a b) a b"
proof -
  have "(LEAST n. (edit1 ^^ n) a b) = lev a b"
    by (rule Least_equality) (simp_all add: lev_path lev_lower)
  then show ?thesis by (simp add: editDistance_lev lev_path)
qed

section \<open>The nearest preset\<close>

lemma suggest_loop_min:
  assumes "suggest_loop want (b0, d0) cands = (best, d)"
  shows "d \<le> d0 \<and> (\<forall>c \<in> set cands. d \<le> int (editDistance want (to_lower c))) \<and>
    ((best, d) = (b0, d0) \<or> best \<in> set cands \<and> d = int (editDistance want (to_lower best)))"
  using assms
proof (induction cands arbitrary: b0 d0)
  case (Cons c cs)
  show ?case
  proof (cases "int (editDistance want (to_lower c)) < d0")
    case True
    then show ?thesis using Cons.IH [of c "int (editDistance want (to_lower c))"] Cons.prems by (auto simp: Let_def)
  next
    case False
    then show ?thesis using Cons.IH [of b0 d0] Cons.prems by (auto simp: Let_def)
  qed
qed simp

lemma set_KnownPresets:
  "set (KnownPresets r) = fst ` set (reg_presets r) \<union> fst ` set (reg_custom r)"
  by (simp add: KnownPresets_def)

text \<open>
  Lemma. A suggestion is a registered name, close to what was asked for, and
  no registered name is closer; and when there is none, no registered name is
  within the limit.
\<close>

theorem suggest_nearest:
  assumes "name \<noteq> []" and "[] \<notin> set (KnownPresets r)" and "length name < 2 ^ 30"
    and "want = to_lower (trim_space name)" and "limit = length want div 3 + 1"
  shows "if Suggest name r = [] then \<forall>c \<in> set (KnownPresets r). editDistance want (to_lower c) > limit
    else Suggest name r \<in> set (KnownPresets r) \<and>
      editDistance want (to_lower (Suggest name r)) \<le> limit \<and>
      (\<forall>c \<in> set (KnownPresets r).
         editDistance want (to_lower (Suggest name r)) \<le> editDistance want (to_lower c))"
proof -
  obtain best d where l: "suggest_loop want ([], 2 ^ 30) (KnownPresets r) = (best, d)" by fastforce
  have s: "Suggest name r = (if d > int limit then [] else best)"
    unfolding Suggest_def Let_def assms(4) [symmetric] l using assms(1,5) by (simp add: zdiv_int)
  have "length want \<le> length name"
    using assms(4) by (simp add: trim_space_def length_trim_fn)
  moreover have "3 * (length want div 3) \<le> length want" by simp
  moreover have "(2::nat) ^ 30 = 1073741824" by simp
  ultimately have "int limit < 2 ^ 30" using assms(3,5) by simp
  note m = suggest_loop_min [OF l]
  show ?thesis
  proof (cases "d > int limit")
    case True
    have "\<forall>c \<in> set (KnownPresets r). editDistance want (to_lower c) > limit"
      using m True by fastforce
    with True show ?thesis unfolding s by simp
  next
    case False
    then have "best \<in> set (KnownPresets r)" "d = int (editDistance want (to_lower best))"
      using m \<open>int limit < 2 ^ 30\<close> by auto
    moreover have "best \<noteq> []" using calculation(1) assms(2) by auto
    ultimately show ?thesis unfolding s using False m by simp
  qed
qed

definition sample_registry :: "unit registry" where
  "sample_registry =
     \<lparr>reg_presets = [(''chrome-latest'', \<lparr>p_Name = ''chrome-155'', p_body = ()\<rparr>),
                     (''firefox-148'', \<lparr>p_Name = ''firefox-148'', p_body = ()\<rparr>)],
      reg_custom = [(''mine'', \<lparr>p_Name = ''mine'', p_body = ()\<rparr>)],
      reg_Chrome146 = \<lparr>p_Name = ''chrome-146'', p_body = ()\<rparr>\<rparr>"

theorem suggest_nearest_witness:
  "Suggest ''Firefox-14'' sample_registry = ''firefox-148'' \<and>
   editDistance ''firefox-14'' (to_lower ''firefox-148'') \<le> editDistance ''firefox-14'' (to_lower ''mine'')"
proof -
  have v: "Suggest ''Firefox-14'' sample_registry = ''firefox-148''" by code_simp
  have "to_lower (trim_space ''Firefox-14'') = ''firefox-14''" by code_simp
  moreover have "[] \<notin> set (KnownPresets sample_registry)" "''mine'' \<in> set (KnownPresets sample_registry)"
    by (simp_all add: set_KnownPresets sample_registry_def)
  ultimately show ?thesis
    using suggest_nearest [of "''Firefox-14''" sample_registry "''firefox-14''" 4] v by simp
qed

section \<open>Names\<close>

text \<open>What the pools rely on: a store of presets by name.\<close>

locale name_store =
  fixes lookup :: "string \<Rightarrow> 'r \<Rightarrow> 'p option"
    and store :: "string \<Rightarrow> 'p \<Rightarrow> 'r \<Rightarrow> 'r"
    and remove :: "string \<Rightarrow> 'r \<Rightarrow> 'r"
  assumes lookup_store: "lookup n (store m p r) = (if n = m then Some p else lookup n r)"
    and lookup_remove: "lookup n (remove m r) = (if n = m then None else lookup n r)"
begin

lemma lookup_store_all:
  "lookup n (fold (\<lambda>p. store (name p) p) ps r) =
     (case find (\<lambda>p. name p = n) (rev ps) of None \<Rightarrow> lookup n r | Some p \<Rightarrow> Some p)"
proof (induction ps rule: rev_induct)
  case (snoc p ps)
  then show ?case by (simp add: lookup_store)
qed simp

lemma lookup_remove_all:
  "lookup n (fold (\<lambda>p. remove (name p)) ps r) = (if n \<in> name ` set ps then None else lookup n r)"
  by (induction ps arbitrary: r) (auto simp: lookup_remove)

lemma remove_all_stored:
  "n \<in> name ` set ps \<Longrightarrow>
     lookup n (fold (\<lambda>p. remove (name p)) ps (fold (\<lambda>p. store (name p) p) ps r)) = None"
  by (simp add: lookup_remove_all)

end

interpretation registry_names: name_store LookupCustom "\<lambda>n p. Register n (Some p)" Unregister
  by unfold_locales (auto simp: LookupCustom_def Register_def Unregister_def)

lemma fold_if_filter: "fold (\<lambda>x s. if P x then f x s else s) xs s = fold f (filter P xs) s"
  by (induction xs arbitrary: s) auto

lemma register_pool:
  "LookupCustom n (fold register_named ps r) =
     (case find (\<lambda>p. p_Name p = n) (rev (filter (\<lambda>p. p_Name p \<noteq> []) ps)) of
        None \<Rightarrow> LookupCustom n r | Some p \<Rightarrow> Some p)"
proof -
  have "fold register_named ps r =
      fold (\<lambda>p. Register (p_Name p) (Some p)) (filter (\<lambda>p. p_Name p \<noteq> []) ps) r"
    by (induction ps arbitrary: r) (simp_all add: register_named_def)
  then show ?thesis using registry_names.lookup_store_all by metis
qed

lemma close_pool:
  "LookupCustom n (pool_Close p r) =
     (if n \<noteq> [] \<and> n \<in> p_Name ` set (pl_presets p) then None else LookupCustom n r)"
  unfolding pool_Close_def fold_if_filter
  by (auto simp: registry_names.lookup_remove_all)

lemma reg_presets_register [simp]: "reg_presets (fold register_named ps r) = reg_presets r"
  by (induction ps arbitrary: r) (auto simp: register_named_def Register_def)

lemma reg_presets_unregister_all:
  "reg_presets (fold (\<lambda>p. Unregister (p_Name p)) ps r) = reg_presets r"
  by (induction ps arbitrary: r) (auto simp: Unregister_def)

lemma reg_presets_close [simp]: "reg_presets (pool_Close p r) = reg_presets r"
  unfolding pool_Close_def fold_if_filter by (rule reg_presets_unregister_all)

section \<open>Rotation\<close>

lemma go_rem_bounds: "0 < n \<Longrightarrow> - n < go_rem a n \<and> go_rem a n < n"
proof -
  assume n: "0 < n"
  have b: "0 \<le> b mod n" "b mod n < n" for b using n by simp_all
  show ?thesis
  proof (cases "a \<ge> 0")
    case True
    then have "go_rem a n = a mod n" by (simp add: go_rem_def)
    then show ?thesis using b [of a] n by linarith
  next
    case False
    then have "go_rem a n = - ((- a) mod n)" by (simp add: go_rem_def)
    then show ?thesis using b [of "- a"] n by linarith
  qed
qed

lemma go_rem_cong: "0 < n \<Longrightarrow> go_rem a n mod n = a mod n"
  by (simp add: go_rem_def mod_minus_eq)

lemma rotation_index:
  assumes "0 < n" and "n < 2 ^ 62"
  shows "go_rem (int64 (go_rem a n + n)) n = a mod n"
proof -
  have b: "0 < go_rem a n + n" "go_rem a n + n < 2 * n" using go_rem_bounds [OF assms(1), of a] by auto
  then have "int64 (go_rem a n + n) = go_rem a n + n" using assms(2) by (intro int64_id) auto
  then have "go_rem (int64 (go_rem a n + n)) n = (go_rem a n + n) mod n" using b by (simp add: go_rem_def)
  also have "\<dots> = a mod n" using go_rem_cong [OF assms(1), of a] by simp
  finally show ?thesis .
qed

lemma Next_eq:
  assumes "1 < length (pl_presets p)" and "int (length (pl_presets p)) < 2 ^ 62"
  shows "Next p =
    (pl_presets p ! nat (int64 (int64 (pl_index p + 1) - 1) mod int (length (pl_presets p))),
     p\<lparr>pl_index := int64 (pl_index p + 1)\<rparr>)"
proof -
  have n: "0 < int (length (pl_presets p))" "length (pl_presets p) \<noteq> 1" using assms(1) by auto
  show ?thesis unfolding Next_def Let_def rotation_index [OF n(1) assms(2)] using n(2) by simp
qed

fun next_times :: "nat \<Rightarrow> 'b preset_pool \<Rightarrow> 'b preset list" where
  "next_times 0 p = []"
| "next_times (Suc k) p = (case Next p of (x, p') \<Rightarrow> x # next_times k p')"

lemma next_times_eq:
  assumes "1 < length (pl_presets p)" and "int (length (pl_presets p)) < 2 ^ 62"
    and "0 \<le> pl_index p" and "pl_index p + int k < 2 ^ 63"
  shows "next_times k p =
    map (\<lambda>j. pl_presets p ! nat ((pl_index p + int j) mod int (length (pl_presets p)))) [0..<k]"
  using assms
proof (induction k arbitrary: p)
  case (Suc k)
  have i: "int64 (pl_index p + 1) = pl_index p + 1" "int64 (pl_index p) = pl_index p"
    using Suc.prems by (auto intro: int64_id)
  have "[0..<Suc k] = 0 # map Suc [0..<k]" by (simp add: map_Suc_upt upt_conv_Cons del: upt_Suc)
  then show ?case
    using Suc.IH [of "p\<lparr>pl_index := pl_index p + 1\<rparr>"] Suc.prems Next_eq [of p]
    by (simp add: i algebra_simps del: upt_Suc)
qed simp

lemma rotate_nth_map:
  "map (\<lambda>j. xs ! nat ((m + int j) mod int (length xs))) [0..<length xs] = rotate (nat (m mod int (length xs))) xs"
proof (cases "xs = []")
  case False
  have "nat ((m + int j) mod int (length xs)) = (nat (m mod int (length xs)) + j) mod length xs" for j
  proof -
    have "int ((nat (m mod int (length xs)) + j) mod length xs) = (m mod int (length xs) + int j) mod int (length xs)"
      using False by (simp add: zmod_int)
    also have "\<dots> = (m + int j) mod int (length xs)" by (simp add: mod_add_left_eq)
    finally show ?thesis by (metis nat_int)
  qed
  then show ?thesis by (intro nth_equalityI) (auto simp: nth_rotate)
qed simp

text \<open>
  Lemma. Round robin is fair: as many calls of \<^verbatim>\<open>Next\<close> as the pool has presets
  return each of them exactly once, in the pool's cyclic order.
\<close>

theorem pool_round_robin_fair:
  assumes "1 < length (pl_presets p)" and "int (length (pl_presets p)) < 2 ^ 62"
    and "0 \<le> pl_index p" and "pl_index p + int (length (pl_presets p)) < 2 ^ 63"
  shows "next_times (length (pl_presets p)) p =
      rotate (nat (pl_index p mod int (length (pl_presets p)))) (pl_presets p) \<and>
    mset (next_times (length (pl_presets p)) p) = mset (pl_presets p)"
  using next_times_eq [OF assms] rotate_nth_map [of "pl_presets p" "pl_index p"] by simp

definition three_pool :: "nat preset_pool" where
  "three_pool = \<lparr>pl_name = ''p'', pl_presets = map (\<lambda>i. \<lparr>p_Name = ''x'', p_body = i\<rparr>) [10, 20, 30],
     pl_strategy = PoolRoundRobin, pl_index = 7\<rparr>"

theorem pool_round_robin_fair_witness:
  "map p_body (next_times 3 three_pool) = [20, 30, 10] \<and>
   mset (next_times 3 three_pool) = mset (pl_presets three_pool)"
proof
  show "map p_body (next_times 3 three_pool) = [20, 30, 10]" by code_simp
  have "length (pl_presets three_pool) = 3" "pl_index three_pool = 7" by (simp_all add: three_pool_def)
  then show "mset (next_times 3 three_pool) = mset (pl_presets three_pool)"
    using pool_round_robin_fair [of three_pool, THEN conjunct2] by simp
qed

text \<open>
  Lemma. \<^verbatim>\<open>Next\<close> never reads out of range: for every value the 64-bit counter
  can hold, also at and after its wrap-around, the preset returned is one of
  the pool, and the counter stays a 64-bit value.
\<close>

theorem pool_next_in_range:
  assumes "pl_presets p \<noteq> []" and "int (length (pl_presets p)) < 2 ^ 62"
    and "- (2 ^ 63) \<le> pl_index p" and "pl_index p < 2 ^ 63"
  shows "fst (Next p) \<in> set (pl_presets p) \<and>
    - (2 ^ 63) \<le> pl_index (snd (Next p)) \<and> pl_index (snd (Next p)) < 2 ^ 63"
proof (cases "length (pl_presets p) = 1")
  case True
  then show ?thesis using assms by (simp add: Next_def)
next
  case False
  then have l: "1 < length (pl_presets p)" using assms(1) by (cases "pl_presets p") auto
  let ?n = "int (length (pl_presets p))"
  have "nat (a mod ?n) < length (pl_presets p)" for a
  proof -
    have "0 < ?n" using l by linarith
    then have "a mod ?n < ?n" "0 \<le> a mod ?n" by simp_all
    then show ?thesis by linarith
  qed
  then show ?thesis
    unfolding Next_eq [OF l assms(2)]
    using int64_range by (simp add: nth_mem)
qed

theorem pool_next_in_range_witness:
  "fst (Next (three_pool\<lparr>pl_index := 2 ^ 63 - 1\<rparr>)) \<in> set (pl_presets three_pool) \<and>
   pl_index (snd (Next (three_pool\<lparr>pl_index := 2 ^ 63 - 1\<rparr>))) = - (2 ^ 63)"
proof
  show "fst (Next (three_pool\<lparr>pl_index := 2 ^ 63 - 1\<rparr>)) \<in> set (pl_presets three_pool)"
    using pool_next_in_range [of "three_pool\<lparr>pl_index := 2 ^ 63 - 1\<rparr>"] by (simp add: three_pool_def)
  show "pl_index (snd (Next (three_pool\<lparr>pl_index := 2 ^ 63 - 1\<rparr>))) = - (2 ^ 63)"
    by (simp add: Next_def three_pool_def Let_def int64_def)
qed

section \<open>Shadowing\<close>

text \<open>
  Lemma. \<^verbatim>\<open>RegisterStrict\<close> never shadows: it succeeds only for a new name, which
  then resolves to the preset given while every other name resolves as before;
  when it fails the registry is unchanged.
\<close>

theorem register_strict_no_shadow:
  "case RegisterStrict name preset r of
     (None, r') \<Rightarrow> GetStrict name r = None \<and> preset \<noteq> None \<and>
       (\<forall>n. GetStrict n r' = (if n = name then preset else GetStrict n r))
   | (Some _, r') \<Rightarrow> r' = r"
  by (simp add: RegisterStrict_def GetStrict_def LookupCustom_def split: option.split)

text \<open>
  Property C0. Loading a pool from JSON does shadow: the pool builder registers with
  \<^verbatim>\<open>Register\<close>, so a preset of the pool that carries a shipped name replaces it for
  every later lookup, until the pool is closed. The comment on \<^verbatim>\<open>RegisterStrict\<close>
  says the JSON loader paths prevent this.
\<close>

theorem json_pool_shadows_builtin:
  assumes "buildPoolFromPoolSpec build spec r = (Inr (Some pool), r')"
    and "map_of (reg_presets r) n = Some shipped" and "n \<noteq> []" and "n \<in> p_Name ` set (pl_presets pool)"
  shows "\<exists>p \<in> set (pl_presets pool). p_Name p = n \<and> GetStrict n r' = Some p \<and> Get n r' = p \<and>
    GetStrict n (pool_Close pool r') = Some shipped"
proof -
  from assms(1) obtain ps where ps: "r' = fold register_named ps r" "pl_presets pool = ps"
    by (auto simp: buildPoolFromPoolSpec_def NewPresetPool_def comp_def Let_def split: if_splits sum.splits)
  have "find (\<lambda>p. p_Name p = n) (rev (filter (\<lambda>p. p_Name p \<noteq> []) ps)) \<noteq> None"
    using assms(3,4) ps(2) by (auto simp: find_None_iff)
  then obtain p where p: "find (\<lambda>p. p_Name p = n) (rev (filter (\<lambda>p. p_Name p \<noteq> []) ps)) = Some p" by blast
  then have "p \<in> set ps" "p_Name p = n" by (auto dest: find_SomeD)
  moreover have "LookupCustom n r' = Some p" using register_pool [of n ps r] p ps by simp
  moreover have "LookupCustom n (pool_Close pool r') = None" using assms(3,4) by (simp add: close_pool)
  ultimately show ?thesis
    using ps assms(2,3) by (auto simp: GetStrict_def Get_def intro!: bexI [of _ p])
qed

definition pool_json :: "unit preset pool_spec" where
  "pool_json = \<lparr>ps_Name = ''pool'', ps_Strategy = [], ps_Presets = [\<lparr>p_Name = ''chrome-latest'', p_body = ()\<rparr>]\<rparr>"

theorem json_pool_shadows_builtin_witness:
  "\<exists>pool r'. buildPoolFromPoolSpec Inr pool_json sample_registry = (Inr (Some pool), r') \<and>
     (\<exists>p \<in> set (pl_presets pool). p_Name p = ''chrome-latest'' \<and> GetStrict ''chrome-latest'' r' = Some p \<and>
        Get ''chrome-latest'' r' = p \<and>
        GetStrict ''chrome-latest'' (pool_Close pool r') = Some \<lparr>p_Name = ''chrome-155'', p_body = ()\<rparr>)"
proof -
  let ?p = "\<lparr>p_Name = ''chrome-latest'', p_body = ()\<rparr>"
  let ?pool = "\<lparr>pl_name = ''pool'', pl_presets = [?p], pl_strategy = PoolRandom, pl_index = 0\<rparr>"
  let ?r = "sample_registry\<lparr>reg_custom := reg_custom sample_registry @ [(''chrome-latest'', ?p)]\<rparr>"
  have b: "buildPoolFromPoolSpec Inr pool_json sample_registry = (Inr (Some ?pool), ?r)" by code_simp
  moreover have "map_of (reg_presets sample_registry) ''chrome-latest'' = Some \<lparr>p_Name = ''chrome-155'', p_body = ()\<rparr>"
    by code_simp
  ultimately show ?thesis using json_pool_shadows_builtin [OF b] by fastforce
qed

end
