(* ===== verification/Preset_Build.thy ===== *)
theory Preset_Build
  imports Preset_Table Preset_Registry Go_Encoding
begin

text \<open>
  Presets from JSON: the model of \<^verbatim>\<open>fingerprint/custom_preset.go\<close>,
  \<^verbatim>\<open>fingerprint/client_hello_ids.go\<close> and \<^verbatim>\<open>fingerprint/clienthello_source.go\<close>.

  A JSON document is the value that \<^verbatim>\<open>encoding/json\<close> makes of it: a field that is absent
  is \<^const>\<open>None\<close> where the Go field is a pointer, a slice or a map whose nil value the
  code asks for, and the empty string, list or map otherwise. What the TLS and HPACK
  libraries do is the argument \<open>lib\<close>.
\<close>

section \<open>Identities of the TLS library\<close>

definition clientHelloIDs :: "(string, string) gomap" where
  "clientHelloIDs =
     [(''golang'', ''HelloGolang''), (''custom'', ''HelloCustom''), (''randomized'', ''HelloRandomized''),
      (''randomized-alpn'', ''HelloRandomizedALPN''), (''randomized-noalpn'', ''HelloRandomizedNoALPN''),
      (''firefox-auto'', ''HelloFirefox_Auto''), (''firefox-55'', ''HelloFirefox_55''), (''firefox-56'', ''HelloFirefox_56''),
      (''firefox-63'', ''HelloFirefox_63''), (''firefox-65'', ''HelloFirefox_65''), (''firefox-99'', ''HelloFirefox_99''),
      (''firefox-102'', ''HelloFirefox_102''), (''firefox-105'', ''HelloFirefox_105''),
      (''firefox-120'', ''HelloFirefox_120''), (''chrome-auto'', ''HelloChrome_Auto''), (''chrome-58'', ''HelloChrome_58''),
      (''chrome-62'', ''HelloChrome_62''), (''chrome-70'', ''HelloChrome_70''), (''chrome-72'', ''HelloChrome_72''),
      (''chrome-83'', ''HelloChrome_83''), (''chrome-87'', ''HelloChrome_87''), (''chrome-96'', ''HelloChrome_96''),
      (''chrome-100'', ''HelloChrome_100''), (''chrome-102'', ''HelloChrome_102''),
      (''chrome-106-shuffle'', ''HelloChrome_106_Shuffle''), (''chrome-120'', ''HelloChrome_120''),
      (''chrome-120-pq'', ''HelloChrome_120_PQ''), (''chrome-131'', ''HelloChrome_131''),
      (''chrome-133'', ''HelloChrome_133''), (''chrome-100-psk'', ''HelloChrome_100_PSK''),
      (''chrome-112-psk'', ''HelloChrome_112_PSK_Shuf''), (''chrome-114-psk'', ''HelloChrome_114_Padding_PSK_Shuf''),
      (''chrome-115-pq'', ''HelloChrome_115_PQ''), (''chrome-115-pq-psk'', ''HelloChrome_115_PQ_PSK''),
      (''chrome-133-psk'', ''HelloChrome_133_PSK''), (''chrome-143-windows'', ''HelloChrome_143_Windows''),
      (''chrome-143-linux'', ''HelloChrome_143_Linux''), (''chrome-143-macos'', ''HelloChrome_143_macOS''),
      (''chrome-143-quic'', ''HelloChrome_143_QUIC''), (''chrome-143-windows-psk'', ''HelloChrome_143_Windows_PSK''),
      (''chrome-143-linux-psk'', ''HelloChrome_143_Linux_PSK''), (''chrome-143-macos-psk'', ''HelloChrome_143_macOS_PSK''),
      (''chrome-143-quic-psk'', ''HelloChrome_143_QUIC_PSK''), (''chrome-144-windows'', ''HelloChrome_144_Windows''),
      (''chrome-144-linux'', ''HelloChrome_144_Linux''), (''chrome-144-macos'', ''HelloChrome_144_macOS''),
      (''chrome-144-quic'', ''HelloChrome_144_QUIC''), (''chrome-144-windows-psk'', ''HelloChrome_144_Windows_PSK''),
      (''chrome-144-linux-psk'', ''HelloChrome_144_Linux_PSK''), (''chrome-144-macos-psk'', ''HelloChrome_144_macOS_PSK''),
      (''chrome-144-quic-psk'', ''HelloChrome_144_QUIC_PSK''), (''chrome-145-windows'', ''HelloChrome_145_Windows''),
      (''chrome-145-linux'', ''HelloChrome_145_Linux''), (''chrome-145-macos'', ''HelloChrome_145_macOS''),
      (''chrome-145-quic'', ''HelloChrome_145_QUIC''), (''chrome-145-windows-psk'', ''HelloChrome_145_Windows_PSK''),
      (''chrome-145-linux-psk'', ''HelloChrome_145_Linux_PSK''), (''chrome-145-macos-psk'', ''HelloChrome_145_macOS_PSK''),
      (''chrome-145-quic-psk'', ''HelloChrome_145_QUIC_PSK''), (''chrome-146-windows'', ''HelloChrome_146_Windows''),
      (''chrome-146-linux'', ''HelloChrome_146_Linux''), (''chrome-146-macos'', ''HelloChrome_146_macOS''),
      (''chrome-146-quic'', ''HelloChrome_146_QUIC''), (''chrome-146-windows-psk'', ''HelloChrome_146_Windows_PSK''),
      (''chrome-146-linux-psk'', ''HelloChrome_146_Linux_PSK''), (''chrome-146-macos-psk'', ''HelloChrome_146_macOS_PSK''),
      (''chrome-146-quic-psk'', ''HelloChrome_146_QUIC_PSK''), (''ios-auto'', ''HelloIOS_Auto''),
      (''ios-11-1'', ''HelloIOS_11_1''), (''ios-12-1'', ''HelloIOS_12_1''), (''ios-13'', ''HelloIOS_13''),
      (''ios-14'', ''HelloIOS_14''), (''ios-18'', ''HelloIOS_18''), (''ios-18-quic'', ''HelloIOS_18_QUIC''),
      (''android-11-okhttp'', ''HelloAndroid_11_OkHttp''), (''edge-auto'', ''HelloEdge_Auto''),
      (''edge-85'', ''HelloEdge_85''), (''edge-106'', ''HelloEdge_106''), (''safari-auto'', ''HelloSafari_Auto''),
      (''safari-16'', ''HelloSafari_16_0''), (''safari-18'', ''HelloSafari_18''), (''360-auto'', ''Hello360_Auto''),
      (''360-7-5'', ''Hello360_7_5''), (''360-11'', ''Hello360_11_0''), (''qq-auto'', ''HelloQQ_Auto''),
      (''qq-11-1'', ''HelloQQ_11_1'')]"

text \<open>The table with the values of the constants.\<close>

definition hello_table :: "preset_env \<Rightarrow> (string, client_hello_id) gomap" where
  "hello_table env = map (\<lambda>(name, c). (name, px_utls env c)) clientHelloIDs"

datatype build_error =
    SpecNil
  | InheritanceLoop string
  | InvalidJA3 ja3_error
  | UnknownBase string
  | UnknownHello string
  | NotBase64 string
  | NotTLSRecord string nat byte
  | BadCapture string string
  | NeedsBluntMimicry string string
  | AnchorNotHex string
  | AnchorLength string nat
  | UnknownCertCompression string
  | BadAkamai akamai_error
  | UnknownTCPPlatform string
  | BadRepresentation string string
  | MutuallyExclusive "string list"
  | Requires string string
  | NotWithJA3 string
  | IgnoredFields "string list"
  | BadChoice string string
  | UrgencyRange string byte
  | WeightRange string u16
  | NoTLSSource string
  | NoUserAgent string
  | NoHeaders string
  | NoPresetField
  | NotRegistered string
  | UnregisteredID string client_hello_id
  | InSection string build_error

definition ResolveClientHelloID :: "preset_env \<Rightarrow> string \<Rightarrow> build_error + client_hello_id" where
  "ResolveClientHelloID env name =
     (case map_of (hello_table env) name of Some hid \<Rightarrow> Inr hid | None \<Rightarrow> Inl (UnknownHello name))"

text \<open>The two passes over the table, in the order \<open>ids\<close> in which the map is traversed.\<close>

fun concrete_pass ::
    "(string, client_hello_id) gomap \<Rightarrow> (client_hello_id, string) gomap \<Rightarrow> (client_hello_id, string) gomap" where
  "concrete_pass [] m = m"
| "concrete_pass ((name, k) # ids) m =
     concrete_pass ids (if has_suffix name ''-auto'' \<or> k = ([], []) then m else AList.update k name m)"

fun auto_pass ::
    "(string, client_hello_id) gomap \<Rightarrow> (client_hello_id, string) gomap \<Rightarrow> (client_hello_id, string) gomap" where
  "auto_pass [] m = m"
| "auto_pass ((name, k) # ids) m =
     auto_pass ids
       (if \<not> has_suffix name ''-auto'' \<or> k = ([], []) then m
        else case map_of m k of Some v \<Rightarrow> m | None \<Rightarrow> AList.update k name m)"

definition buildInverseClientHelloIDMap :: "(string, client_hello_id) gomap \<Rightarrow> (client_hello_id, string) gomap" where
  "buildInverseClientHelloIDMap ids = auto_pass ids (concrete_pass ids [])"

definition ClientHelloIDName :: "preset_env \<Rightarrow> client_hello_id \<Rightarrow> string option" where
  "ClientHelloIDName env hid =
     (if hid = ([], []) then None else map_of (buildInverseClientHelloIDMap (hello_table env)) hid)"

section \<open>Captured hellos\<close>

record hello_lib =
  hl_RawClientHello :: "bool \<Rightarrow> bool \<Rightarrow> byte list \<Rightarrow> string + hello_spec"
  hl_IdToSpec :: "client_hello_id \<Rightarrow> int \<Rightarrow> string + hello_spec"
  hl_Shuffle :: "hello_spec \<Rightarrow> hello_spec"
  hl_ShuffleJA3 :: "tls_extension list \<Rightarrow> tls_extension list"
  hl_ParseRepresentation :: "string \<Rightarrow> bool"

definition SpecFromRawClientHello :: "hello_lib \<Rightarrow> byte list \<Rightarrow> bool \<Rightarrow> bool \<Rightarrow> string + hello_spec" where
  "SpecFromRawClientHello lib raw blunt realPSK =
     (if raw = [] then Inl ''empty client hello'' else hl_RawClientHello lib blunt realPSK raw)"

definition firstByte :: "byte list \<Rightarrow> byte" where
  "firstByte b = (case b of [] \<Rightarrow> 0 | x # xs \<Rightarrow> x)"

definition DecodeRawClientHello :: "hello_lib \<Rightarrow> string \<Rightarrow> string \<Rightarrow> bool \<Rightarrow> build_error + byte list" where
  "DecodeRawClientHello lib field b64 blunt =
     (case b64_decode (trim_space b64) of
        None \<Rightarrow> Inl (NotBase64 field)
      | Some raw \<Rightarrow>
          if length raw < 6 \<or> firstByte raw \<noteq> 0x16 then Inl (NotTLSRecord field (length raw) (firstByte raw))
          else
            (case SpecFromRawClientHello lib raw blunt False of
               Inl e \<Rightarrow> Inl (if \<not> blunt \<and> contains e ''unsupported extension'' then NeedsBluntMimicry field e else BadCapture field e)
             | Inr spec \<Rightarrow> Inr raw))"

section \<open>JSON types\<close>

record ja3_extras_spec =
  js_SignatureAlgorithms :: "u16 list"
  js_DelegatedCredentialAlgorithms :: "u16 list"
  js_ALPN :: "string list"
  js_CertCompression :: "string list"
  js_PermuteExtensions :: "bool option"
  js_RecordSizeLimit :: "u16 option"
  js_KeyShareCurves :: "int option"

record tls_spec =
  tl_RawClientHello :: string
  tl_RawPSKClientHello :: string
  tl_AllowBluntMimicry :: "bool option"
  tl_RawPermuteExtensions :: "bool option"
  tl_PSKJA3 :: string
  tl_ClientHello :: string
  tl_PSKClientHello :: string
  tl_QUICClientHello :: string
  tl_QUICPSKClientHello :: string
  tl_JA3 :: string
  tl_JA3ExtrasSpec :: "ja3_extras_spec option"
  tl_SignatureAlgorithms :: "u16 list"
  tl_QUICSignatureAlgorithms :: "u16 list"
  tl_DelegatedCredentialAlgorithms :: "u16 list"
  tl_ALPN :: "string list"
  tl_CertCompression :: "string list"
  tl_TrustAnchors :: "string list option"
  tl_QUICTrustAnchorsShuffle :: "bool option"
  tl_PermuteExtensions :: "bool option"
  tl_RecordSizeLimit :: "u16 option"
  tl_KeyShareCurves :: "int option"

text \<open>An entry of the priority table has the fields of \<^typ>\<open>resource_priority\<close>.\<close>

record http2_full_spec = http2_spec +
  sp_SettingsOrder :: "u16 list option"
  sp_PseudoOrder :: "string list option"
  sp_HPACKHeaderOrder :: "string list option"
  sp_HPACKHeaderOrderSubresource :: "string list option"
  sp_HPACKIndexingPolicy :: "string option"
  sp_HPACKRepresentation :: "(string, string) gomap option"
  sp_HPACKNeverIndex :: "string list option"
  sp_StreamPriorityMode :: "string option"
  sp_DisableCookieSplit :: "bool option"
  sp_DataFrameMaxSize :: "u32 option"
  sp_PrefacePingIdleMs :: "u32 option"
  sp_PrefacePingHangMs :: "u32 option"
  sp_IdlePingMs :: "u32 option"
  sp_PriorityTable :: "(string, resource_priority) gomap option"
  sp_PriorityModel :: "string option"
  sp_PriorityOverHTTP1 :: "bool option"

record http3_spec =
  qs_QPACKMaxTableCapacity :: "u64 option"
  qs_QPACKBlockedStreams :: "u64 option"
  qs_MaxFieldSectionSize :: "u64 option"
  qs_EnableDatagrams :: "bool option"
  qs_QUICInitialPacketSize :: "u16 option"
  qs_QUICMaxIncomingStreams :: "int option"
  qs_QUICMaxIncomingUniStreams :: "int option"
  qs_QUICAllow0RTT :: "bool option"
  qs_QUICChromeStyleInitial :: "bool option"
  qs_QUICDisableHelloScramble :: "bool option"
  qs_QUICTransportParamOrder :: "string option"
  qs_QUICConnectionIDLength :: "int option"
  qs_QUICMaxDatagramFrameSize :: "u64 option"
  qs_MaxResponseHeaderBytes :: "u64 option"
  qs_SendGreaseFrames :: "bool option"
  qs_QUICConnectionOptions :: "string list option"
  qs_QUICInitialStreamReceiveWindow :: "u64 option"
  qs_QUICInitialConnectionReceiveWindow :: "u64 option"

record header_spec =
  hd_UserAgent :: string
  hd_Values :: "(string, string) gomap"
  hd_Order :: "(string \<times> string) list"
  hd_ImageAccept :: string

record tcp_spec =
  ts_Platform :: string
  ts_TTL :: "int option"
  ts_MSS :: "int option"
  ts_WindowSize :: "int option"
  ts_WindowScale :: "int option"
  ts_DFBit :: "bool option"

record protocol_spec =
  pr_HTTP3 :: "bool option"
  pr_H3 :: "bool option"
  pr_H2 :: "bool option"

text \<open>\<^verbatim>\<open>ClientHintsSpec\<close> has the fields of \<^typ>\<open>client_hints_profile\<close>.\<close>

record preset_spec =
  sc_Name :: string
  sc_BasedOn :: string
  sc_TLS :: "tls_spec option"
  sc_HTTP2 :: "http2_full_spec option"
  sc_HTTP3 :: "http3_spec option"
  sc_Headers :: "header_spec option"
  sc_ClientHints :: "client_hints_profile option"
  sc_TCP :: "tcp_spec option"
  sc_Protocol :: "protocol_spec option"

section \<open>Overlays\<close>

text \<open>A field the document has replaces that of the preset.\<close>

definition overlay :: "'a option \<Rightarrow> 'a \<Rightarrow> 'a" where
  "overlay new old = (case new of Some v \<Rightarrow> v | None \<Rightarrow> old)"

definition overlay_ptr :: "'a option \<Rightarrow> 'a option \<Rightarrow> 'a option" where
  "overlay_ptr new old = (case new of Some v \<Rightarrow> Some v | None \<Rightarrow> old)"

definition overlay_str :: "'a list \<Rightarrow> 'a list \<Rightarrow> 'a list" where
  "overlay_str new old = (if new \<noteq> [] then new else old)"

fun parseCertCompAlgs :: "string list \<Rightarrow> build_error + cert_comp_algo list" where
  "parseCertCompAlgs [] = Inr []"
| "parseCertCompAlgs (name # names) =
     (if name = ''brotli'' then map_sum (\<lambda>e. e) (Cons CertCompressionBrotli) (parseCertCompAlgs names)
      else if name = ''zlib'' then map_sum (\<lambda>e. e) (Cons (OtherCertComp 1)) (parseCertCompAlgs names)
      else if name = ''zstd'' then map_sum (\<lambda>e. e) (Cons (OtherCertComp 3)) (parseCertCompAlgs names)
      else Inl (UnknownCertCompression name))"

definition no_extras :: ja3_extras where
  "no_extras =
     \<lparr>je_SignatureAlgorithms = [], je_DelegatedCredentialAlgorithms = None, je_ALPN = [], je_CertCompAlgs = [],
      je_PermuteExtensions = False, je_RecordSizeLimit = 0, je_KeyShareCurves = 0\<rparr>"

definition buildJA3Extras :: "ja3_extras_spec \<Rightarrow> build_error + ja3_extras" where
  "buildJA3Extras spec =
     (case parseCertCompAlgs (js_CertCompression spec) of
        Inl e \<Rightarrow> Inl e
      | Inr algs \<Rightarrow>
          Inr (no_extras
            \<lparr>je_SignatureAlgorithms := map scheme_of (js_SignatureAlgorithms spec),
             je_DelegatedCredentialAlgorithms := map_option (map scheme_of) (nonempty (js_DelegatedCredentialAlgorithms spec)),
             je_ALPN := js_ALPN spec, je_CertCompAlgs := algs,
             je_PermuteExtensions := overlay (js_PermuteExtensions spec) False,
             je_RecordSizeLimit := overlay (js_RecordSizeLimit spec) 0,
             je_KeyShareCurves := overlay (js_KeyShareCurves spec) 0\<rparr>))"

definition buildJA3ExtrasFromTLS :: "tls_spec \<Rightarrow> build_error + ja3_extras option" where
  "buildJA3ExtrasFromTLS spec =
     (if tl_SignatureAlgorithms spec = [] \<and> tl_DelegatedCredentialAlgorithms spec = [] \<and> tl_ALPN spec = [] \<and>
         tl_CertCompression spec = [] \<and> tl_PermuteExtensions spec = None \<and> tl_RecordSizeLimit spec = None \<and>
         tl_KeyShareCurves spec = None
      then Inr None
      else
        (case parseCertCompAlgs (tl_CertCompression spec) of
           Inl e \<Rightarrow> Inl e
         | Inr algs \<Rightarrow>
             Inr (Some (no_extras
               \<lparr>je_SignatureAlgorithms := map scheme_of (tl_SignatureAlgorithms spec),
                je_DelegatedCredentialAlgorithms := map_option (map scheme_of) (nonempty (tl_DelegatedCredentialAlgorithms spec)),
                je_ALPN := tl_ALPN spec, je_CertCompAlgs := algs,
                je_PermuteExtensions := overlay (tl_PermuteExtensions spec) False,
                je_RecordSizeLimit := overlay (tl_RecordSizeLimit spec) 0,
                je_KeyShareCurves := overlay (tl_KeyShareCurves spec) 0\<rparr>))))"

text \<open>The PSK and QUIC identities, each replaced when the document names one.\<close>

definition named_hello :: "preset_env \<Rightarrow> string \<Rightarrow> string \<Rightarrow> client_hello_id \<Rightarrow> build_error + client_hello_id" where
  "named_hello env section name old =
     (if name = [] then Inr old else map_sum (InSection section) (\<lambda>hid. hid) (ResolveClientHelloID env name))"

definition overlay_hellos :: "preset_env \<Rightarrow> tls_spec \<Rightarrow> fp_preset \<Rightarrow> build_error + fp_preset" where
  "overlay_hellos env spec p =
     (case named_hello env ''psk'' (tl_PSKClientHello spec) (fp_PSKClientHelloID p) of
        Inl e \<Rightarrow> Inl e
      | Inr pskID \<Rightarrow>
     (case named_hello env ''quic'' (tl_QUICClientHello spec) (fp_QUICClientHelloID p) of
        Inl e \<Rightarrow> Inl e
      | Inr quicID \<Rightarrow>
     (case named_hello env ''quic_psk'' (tl_QUICPSKClientHello spec) (fp_QUICPSKClientHelloID p) of
        Inl e \<Rightarrow> Inl e
      | Inr quicPSKID \<Rightarrow>
          Inr (p\<lparr>fp_PSKClientHelloID := pskID, fp_QUICClientHelloID := quicID, fp_QUICPSKClientHelloID := quicPSKID\<rparr>))))"

fun decode_anchors :: "string list \<Rightarrow> build_error + byte list list" where
  "decode_anchors [] = Inr []"
| "decode_anchors (h # hs) =
     (case hex_decode h of
        None \<Rightarrow> Inl (AnchorNotHex h)
      | Some b \<Rightarrow>
          if b = [] \<or> length b > 255 then Inl (AnchorLength h (length b))
          else map_sum (\<lambda>e. e) (Cons b) (decode_anchors hs))"

text \<open>The branch for a captured hello, which ends the function.\<close>

definition applyTLS_raw :: "hello_lib \<Rightarrow> tls_spec \<Rightarrow> fp_preset \<Rightarrow> build_error + fp_preset" where
  "applyTLS_raw lib spec p =
     (let blunt = (tl_AllowBluntMimicry spec = Some True) in
      case DecodeRawClientHello lib ''tls.raw_client_hello'' (tl_RawClientHello spec) blunt of
        Inl e \<Rightarrow> Inl e
      | Inr raw \<Rightarrow>
          (let permute = overlay (tl_RawPermuteExtensions spec)
                 (overlay (tl_PermuteExtensions spec) (fp_RawPermuteExtensions p));
               p1 = p\<lparr>fp_RawClientHello := raw, fp_RawBluntMimicry := blunt, fp_RawPermuteExtensions := permute\<rparr>;
               cleared = (\<lambda>p. p\<lparr>fp_ClientHelloID := no_hello, fp_PSKClientHelloID := no_hello, fp_JA3 := [], fp_PSKJA3 := []\<rparr>)
           in if tl_RawPSKClientHello spec \<noteq> [] then
                (case DecodeRawClientHello lib ''tls.raw_psk_client_hello'' (tl_RawPSKClientHello spec) blunt of
                   Inl e \<Rightarrow> Inl e
                 | Inr pskRaw \<Rightarrow> Inr (cleared (p1\<lparr>fp_RawPSKClientHello := pskRaw\<rparr>)))
              else Inr (cleared p1)))"

text \<open>The choice between a JA3 string, a named hello and neither.\<close>

definition applyTLS_source :: "preset_env \<Rightarrow> tls_spec \<Rightarrow> fp_preset \<Rightarrow> build_error + fp_preset" where
  "applyTLS_source env spec p =
     (if tl_JA3 spec \<noteq> [] then
        (let p1 = p\<lparr>fp_JA3 := tl_JA3 spec, fp_PSKJA3 := overlay_str (tl_PSKJA3 spec) (fp_PSKJA3 p),
                    fp_ClientHelloID := no_hello, fp_PSKClientHelloID := no_hello\<rparr>
         in case tl_JA3ExtrasSpec spec of
              Some es \<Rightarrow>
                (case buildJA3Extras es of
                   Inl e \<Rightarrow> Inl (InSection ''ja3_extras'' e)
                 | Inr extras \<Rightarrow> Inr (p1\<lparr>fp_JA3Extras := Some extras\<rparr>))
            | None \<Rightarrow>
                (case buildJA3ExtrasFromTLS spec of
                   Inl e \<Rightarrow> Inl (InSection ''ja3 extras'' e)
                 | Inr extras \<Rightarrow> Inr (p1\<lparr>fp_JA3Extras := overlay_ptr extras (fp_JA3Extras p1)\<rparr>)))
      else if tl_ClientHello spec \<noteq> [] then
        (case ResolveClientHelloID env (tl_ClientHello spec) of
           Inl e \<Rightarrow> Inl e
         | Inr hid \<Rightarrow> overlay_hellos env spec (p\<lparr>fp_JA3 := [], fp_JA3Extras := None, fp_ClientHelloID := hid\<rparr>))
      else overlay_hellos env spec p)"

definition applyTLS_rest :: "tls_spec \<Rightarrow> fp_preset \<Rightarrow> build_error + fp_preset" where
  "applyTLS_rest spec p =
     (let p1 = (if tl_JA3 spec = [] then
                  p\<lparr>fp_SignatureAlgorithms := overlay_str (tl_SignatureAlgorithms spec) (fp_SignatureAlgorithms p),
                    fp_QUICSignatureAlgorithms := overlay_str (tl_QUICSignatureAlgorithms spec) (fp_QUICSignatureAlgorithms p)\<rparr>
                else p);
          p2 = p1\<lparr>fp_QUICTrustAnchorShuffle := overlay (tl_QUICTrustAnchorsShuffle spec) (fp_QUICTrustAnchorShuffle p1)\<rparr>
      in case tl_TrustAnchors spec of
           None \<Rightarrow> Inr p2
         | Some hs \<Rightarrow> map_sum (\<lambda>e. e) (\<lambda>anchors. p2\<lparr>fp_TrustAnchors := anchors\<rparr>) (decode_anchors hs))"

definition applyTLS :: "preset_env \<Rightarrow> hello_lib \<Rightarrow> tls_spec \<Rightarrow> fp_preset \<Rightarrow> build_error + fp_preset" where
  "applyTLS env lib spec p =
     (if tl_RawClientHello spec \<noteq> [] then applyTLS_raw lib spec p
      else (case applyTLS_source env spec p of Inl e \<Rightarrow> Inl e | Inr p \<Rightarrow> applyTLS_rest spec p))"

text \<open>The fields of \<^verbatim>\<open>HTTP2Settings\<close> are those of \<^const>\<open>applyHTTP2_settings\<close>; the rest goes to \<^verbatim>\<open>H2Config\<close>.\<close>

definition akamai_pseudo :: "http2_full_spec \<Rightarrow> string list" where
  "akamai_pseudo spec =
     (if sp_Akamai spec = [] then []
      else (case ParseAkamaiDetailed (sp_Akamai spec) of Inl e \<Rightarrow> [] | Inr a \<Rightarrow> ap_PseudoOrder a))"

definition needs_h2_config :: "http2_full_spec \<Rightarrow> bool" where
  "needs_h2_config spec \<longleftrightarrow>
     sp_SettingsOrder spec \<noteq> None \<or> sp_PseudoOrder spec \<noteq> None \<or> sp_HPACKHeaderOrder spec \<noteq> None \<or>
     sp_HPACKHeaderOrderSubresource spec \<noteq> None \<or> sp_HPACKIndexingPolicy spec \<noteq> None \<or> sp_HPACKNeverIndex spec \<noteq> None \<or>
     sp_HPACKRepresentation spec \<noteq> None \<or> sp_StreamPriorityMode spec \<noteq> None \<or> sp_DisableCookieSplit spec \<noteq> None \<or>
     sp_PriorityTable spec \<noteq> None \<or> sp_DataFrameMaxSize spec \<noteq> None \<or> sp_PrefacePingIdleMs spec \<noteq> None \<or>
     sp_PrefacePingHangMs spec \<noteq> None \<or> sp_IdlePingMs spec \<noteq> None \<or> sp_PriorityModel spec \<noteq> None \<or>
     sp_PriorityOverHTTP1 spec \<noteq> None"

definition overlay_h2 :: "http2_full_spec \<Rightarrow> h2_config \<Rightarrow> h2_config" where
  "overlay_h2 spec c =
     \<lparr>h2_HPACKHeaderOrder = overlay_ptr (sp_HPACKHeaderOrder spec) (h2_HPACKHeaderOrder c),
      h2_HPACKHeaderOrderSubresource = overlay (sp_HPACKHeaderOrderSubresource spec) (h2_HPACKHeaderOrderSubresource c),
      h2_HPACKIndexingPolicy = overlay (sp_HPACKIndexingPolicy spec) (h2_HPACKIndexingPolicy c),
      h2_DataFrameMaxSize = overlay_ptr (sp_DataFrameMaxSize spec) (h2_DataFrameMaxSize c),
      h2_HPACKRepresentation = overlay (sp_HPACKRepresentation spec) (h2_HPACKRepresentation c),
      h2_HPACKNeverIndex = overlay_ptr (sp_HPACKNeverIndex spec) (h2_HPACKNeverIndex c),
      h2_StreamPriorityMode = overlay (sp_StreamPriorityMode spec) (h2_StreamPriorityMode c),
      h2_PrefacePingIdleMs = overlay_ptr (sp_PrefacePingIdleMs spec) (h2_PrefacePingIdleMs c),
      h2_PrefacePingHangMs = overlay_ptr (sp_PrefacePingHangMs spec) (h2_PrefacePingHangMs c),
      h2_IdlePingMs = overlay_ptr (sp_IdlePingMs spec) (h2_IdlePingMs c),
      h2_DisableCookieSplit = overlay_ptr (sp_DisableCookieSplit spec) (h2_DisableCookieSplit c),
      h2_SettingsOrder = overlay_ptr (sp_SettingsOrder spec) (h2_SettingsOrder c),
      h2_PseudoHeaderOrder =
        (if akamai_pseudo spec \<noteq> [] then h2_PseudoHeaderOrder c else overlay_ptr (sp_PseudoOrder spec) (h2_PseudoHeaderOrder c)),
      h2_PriorityTable = overlay (sp_PriorityTable spec) (h2_PriorityTable c),
      h2_PriorityModel = overlay (sp_PriorityModel spec) (h2_PriorityModel c),
      h2_PriorityOverHTTP1 = overlay_ptr (sp_PriorityOverHTTP1 spec) (h2_PriorityOverHTTP1 c)\<rparr>"

definition applyHTTP2 :: "http2_full_spec \<Rightarrow> fp_preset \<Rightarrow> build_error + fp_preset" where
  "applyHTTP2 spec p =
     (case applyHTTP2_settings (http2_spec.truncate spec) (fp_HTTP2Settings p) of
        Inl e \<Rightarrow> Inl (BadAkamai e)
      | Inr settings \<Rightarrow>
          (let c1 = (if akamai_pseudo spec \<noteq> [] then
                       Some ((case fp_H2Config p of Some c \<Rightarrow> c | None \<Rightarrow> no_h2)\<lparr>h2_PseudoHeaderOrder := Some (akamai_pseudo spec)\<rparr>)
                     else fp_H2Config p);
               c2 = (if needs_h2_config spec then Some (case c1 of Some c \<Rightarrow> c | None \<Rightarrow> no_h2) else c1)
           in Inr (p\<lparr>fp_HTTP2Settings := settings, fp_H2Config := map_option (overlay_h2 spec) c2\<rparr>)))"

definition applyHTTP3 :: "http3_spec \<Rightarrow> fp_preset \<Rightarrow> fp_preset" where
  "applyHTTP3 spec p =
     (let c = (case fp_H3Config p of Some c \<Rightarrow> c | None \<Rightarrow> no_h3) in
      p\<lparr>fp_H3Config := Some
        \<lparr>h3_QPACKMaxTableCapacity = overlay_ptr (qs_QPACKMaxTableCapacity spec) (h3_QPACKMaxTableCapacity c),
         h3_QPACKBlockedStreams = overlay_ptr (qs_QPACKBlockedStreams spec) (h3_QPACKBlockedStreams c),
         h3_MaxFieldSectionSize = overlay_ptr (qs_MaxFieldSectionSize spec) (h3_MaxFieldSectionSize c),
         h3_EnableDatagrams = overlay_ptr (qs_EnableDatagrams spec) (h3_EnableDatagrams c),
         h3_QUICInitialPacketSize = overlay_ptr (qs_QUICInitialPacketSize spec) (h3_QUICInitialPacketSize c),
         h3_QUICMaxIncomingStreams = overlay_ptr (qs_QUICMaxIncomingStreams spec) (h3_QUICMaxIncomingStreams c),
         h3_QUICMaxIncomingUniStreams = overlay_ptr (qs_QUICMaxIncomingUniStreams spec) (h3_QUICMaxIncomingUniStreams c),
         h3_QUICAllow0RTT = overlay_ptr (qs_QUICAllow0RTT spec) (h3_QUICAllow0RTT c),
         h3_QUICChromeStyleInitial = overlay_ptr (qs_QUICChromeStyleInitial spec) (h3_QUICChromeStyleInitial c),
         h3_QUICDisableHelloScramble = overlay_ptr (qs_QUICDisableHelloScramble spec) (h3_QUICDisableHelloScramble c),
         h3_QUICTransportParamOrder = overlay (qs_QUICTransportParamOrder spec) (h3_QUICTransportParamOrder c),
         h3_QUICConnectionIDLength = overlay_ptr (qs_QUICConnectionIDLength spec) (h3_QUICConnectionIDLength c),
         h3_QUICMaxDatagramFrameSize = overlay_ptr (qs_QUICMaxDatagramFrameSize spec) (h3_QUICMaxDatagramFrameSize c),
         h3_MaxResponseHeaderBytes = overlay_ptr (qs_MaxResponseHeaderBytes spec) (h3_MaxResponseHeaderBytes c),
         h3_SendGreaseFrames = overlay_ptr (qs_SendGreaseFrames spec) (h3_SendGreaseFrames c),
         h3_QUICConnectionOptions = overlay_ptr (qs_QUICConnectionOptions spec) (h3_QUICConnectionOptions c),
         h3_QUICInitialStreamReceiveWindow =
           overlay_ptr (qs_QUICInitialStreamReceiveWindow spec) (h3_QUICInitialStreamReceiveWindow c),
         h3_QUICInitialConnectionReceiveWindow =
           overlay_ptr (qs_QUICInitialConnectionReceiveWindow spec) (h3_QUICInitialConnectionReceiveWindow c)\<rparr>\<rparr>)"

definition applyHeaders :: "header_spec \<Rightarrow> fp_preset \<Rightarrow> fp_preset" where
  "applyHeaders spec p =
     p\<lparr>fp_UserAgent := overlay_str (hd_UserAgent spec) (fp_UserAgent p),
       fp_ImageAccept := overlay_str (hd_ImageAccept spec) (fp_ImageAccept p),
       fp_Headers := fold (\<lambda>(k, v). AList.update k v) (hd_Values spec) (fp_Headers p),
       fp_HeaderOrder := overlay_str (hd_Order spec) (fp_HeaderOrder p)\<rparr>"

definition applyClientHintsSpec :: "client_hints_profile \<Rightarrow> fp_preset \<Rightarrow> fp_preset" where
  "applyClientHintsSpec spec p =
     (let h = fp_ClientHints p in
      p\<lparr>fp_ClientHints :=
        \<lparr>hp_FullVersionList = overlay_str (hp_FullVersionList spec) (hp_FullVersionList h),
         hp_PlatformVersion = overlay_str (hp_PlatformVersion spec) (hp_PlatformVersion h),
         hp_Arch = overlay_str (hp_Arch spec) (hp_Arch h), hp_Bitness = overlay_str (hp_Bitness spec) (hp_Bitness h),
         hp_Model = overlay_str (hp_Model spec) (hp_Model h), hp_Wow64 = overlay_str (hp_Wow64 spec) (hp_Wow64 h)\<rparr>\<rparr>)"

definition applyTCP :: "tcp_spec \<Rightarrow> fp_preset \<Rightarrow> build_error + fp_preset" where
  "applyTCP spec p =
     (if ts_Platform spec \<notin> {[], ''Windows'', ''macOS'', ''Linux''} then Inl (UnknownTCPPlatform (ts_Platform spec))
      else
        (let t = (if ts_Platform spec = [] then fp_TCPFingerprint p else PlatformTCPFingerprint (ts_Platform spec)) in
         Inr (p\<lparr>fp_TCPFingerprint :=
           \<lparr>tf_TTL = overlay (ts_TTL spec) (tf_TTL t), tf_MSS = overlay (ts_MSS spec) (tf_MSS t),
            tf_WindowSize = overlay (ts_WindowSize spec) (tf_WindowSize t),
            tf_WindowScale = overlay (ts_WindowScale spec) (tf_WindowScale t),
            tf_DFBit = overlay (ts_DFBit spec) (tf_DFBit t)\<rparr>\<rparr>)))"

definition applyProtocols :: "protocol_spec \<Rightarrow> fp_preset \<Rightarrow> fp_preset" where
  "applyProtocols spec p =
     p\<lparr>fp_SupportHTTP3 := overlay (pr_H3 spec) (overlay (pr_HTTP3 spec) (fp_SupportHTTP3 p)),
       fp_DisableHTTP2 := (case pr_H2 spec of Some v \<Rightarrow> \<not> v | None \<Rightarrow> fp_DisableHTTP2 p)\<rparr>"

section \<open>Validation\<close>

definition validateHPACKRepresentation :: "hello_lib \<Rightarrow> (string, string) gomap \<Rightarrow> build_error option" where
  "validateHPACKRepresentation lib m =
     map_option (\<lambda>(name, rep). BadRepresentation name rep) (find (\<lambda>(name, rep). \<not> hl_ParseRepresentation lib rep) m)"

text \<open>The names of the fields that are set, of a list of names with that fact.\<close>

definition named_fields :: "(string \<times> bool) list \<Rightarrow> string list" where
  "named_fields fs = map fst (filter snd fs)"

definition tls_sources :: "tls_spec \<Rightarrow> string list" where
  "tls_sources spec =
     named_fields [(''client_hello'', tl_ClientHello spec \<noteq> []), (''ja3'', tl_JA3 spec \<noteq> []),
       (''raw_client_hello'', tl_RawClientHello spec \<noteq> [])]"

text \<open>Fields that \<^verbatim>\<open>ja3_extras\<close> hides, and fields that nothing reads without \<^verbatim>\<open>ja3\<close>.\<close>

definition hidden_by_extras :: "tls_spec \<Rightarrow> string list" where
  "hidden_by_extras spec =
     named_fields [(''signature_algorithms'', tl_SignatureAlgorithms spec \<noteq> []),
       (''delegated_credential_algorithms'', tl_DelegatedCredentialAlgorithms spec \<noteq> []),
       (''alpn'', tl_ALPN spec \<noteq> []), (''cert_compression'', tl_CertCompression spec \<noteq> []),
       (''permute_extensions'', tl_PermuteExtensions spec \<noteq> None), (''record_size_limit'', tl_RecordSizeLimit spec \<noteq> None),
       (''key_share_curves'', tl_KeyShareCurves spec \<noteq> None)]"

definition ignored_without_ja3 :: "tls_spec \<Rightarrow> string list" where
  "ignored_without_ja3 spec =
     named_fields [(''alpn'', tl_ALPN spec \<noteq> []), (''cert_compression'', tl_CertCompression spec \<noteq> []),
       (''record_size_limit'', tl_RecordSizeLimit spec \<noteq> None),
       (''permute_extensions'', tl_PermuteExtensions spec \<noteq> None \<and> tl_RawClientHello spec = [])]"

text \<open>The first error of a list of checks.\<close>

definition first_error :: "build_error option list \<Rightarrow> build_error option" where
  "first_error es = (case find (\<lambda>e. e \<noteq> None) es of Some e \<Rightarrow> e | None \<Rightarrow> None)"

definition fails :: "bool \<Rightarrow> build_error \<Rightarrow> build_error option" where
  "fails b e = (if b then Some e else None)"

definition validate_tls :: "tls_spec \<Rightarrow> fp_preset \<Rightarrow> build_error option" where
  "validate_tls spec p =
     (let hasPrimary = (fst (fp_ClientHelloID p) \<noteq> [] \<or> fp_JA3 p \<noteq> []); isJA3Mode = (fp_JA3 p \<noteq> []) in
      first_error
        [fails (length (tls_sources spec) > 1) (MutuallyExclusive (tls_sources spec)),
         fails (tl_RawPSKClientHello spec \<noteq> [] \<and> tl_RawClientHello spec = []) (Requires ''raw_psk_client_hello'' ''raw_client_hello''),
         fails (tl_PSKJA3 spec \<noteq> [] \<and> fp_JA3 p = []) (Requires ''psk_ja3'' ''ja3''),
         fails (tl_AllowBluntMimicry spec \<noteq> None \<and> tl_RawClientHello spec = []) (Requires ''allow_blunt_mimicry'' ''raw_client_hello''),
         fails (\<not> hasPrimary \<and> tl_PSKClientHello spec \<noteq> []) (Requires ''psk_client_hello'' ''client_hello''),
         fails (\<not> hasPrimary \<and> tl_QUICClientHello spec \<noteq> []) (Requires ''quic_client_hello'' ''client_hello''),
         fails (\<not> hasPrimary \<and> tl_QUICPSKClientHello spec \<noteq> []) (Requires ''quic_psk_client_hello'' ''client_hello''),
         fails (isJA3Mode \<and> tl_QUICClientHello spec \<noteq> []) (NotWithJA3 ''quic_client_hello''),
         fails (isJA3Mode \<and> tl_QUICPSKClientHello spec \<noteq> []) (NotWithJA3 ''quic_psk_client_hello''),
         fails (isJA3Mode \<and> tl_PSKClientHello spec \<noteq> []) (NotWithJA3 ''psk_client_hello''),
         fails (tl_JA3ExtrasSpec spec \<noteq> None \<and> tl_JA3 spec = []) (Requires ''ja3_extras'' ''ja3''),
         fails (tl_JA3ExtrasSpec spec \<noteq> None \<and> tl_JA3 spec \<noteq> [] \<and> hidden_by_extras spec \<noteq> []) (IgnoredFields (hidden_by_extras spec)),
         fails (tl_JA3 spec = [] \<and> ignored_without_ja3 spec \<noteq> []) (IgnoredFields (ignored_without_ja3 spec))])"

definition choice :: "string \<Rightarrow> string list \<Rightarrow> string option \<Rightarrow> build_error option" where
  "choice field valid v = (case v of None \<Rightarrow> None | Some s \<Rightarrow> fails (s \<notin> set valid) (BadChoice field s))"

definition priority_entry :: "string \<times> resource_priority \<Rightarrow> build_error option" where
  "priority_entry = (\<lambda>(dest, rp).
     if rp_Urgency rp > 7 then Some (UrgencyRange dest (rp_Urgency rp))
     else if rp_Weight rp > 256 then Some (WeightRange dest (rp_Weight rp)) else None)"

definition validate_http2 :: "http2_full_spec \<Rightarrow> build_error option" where
  "validate_http2 spec =
     first_error
       [choice ''hpack_indexing_policy'' [''chrome'', ''never'', ''always'', ''default''] (sp_HPACKIndexingPolicy spec),
        choice ''stream_priority_mode'' [''chrome'', ''default''] (sp_StreamPriorityMode spec),
        choice ''priority_model'' [''chromium'', ''table''] (sp_PriorityModel spec),
        first_error (map priority_entry (overlay (sp_PriorityTable spec) []))]"

definition validatePreset :: "hello_lib \<Rightarrow> preset_spec \<Rightarrow> fp_preset \<Rightarrow> build_error option" where
  "validatePreset lib spec p =
     first_error
       [(case sc_HTTP2 spec of None \<Rightarrow> None | Some h2 \<Rightarrow> validateHPACKRepresentation lib (overlay (sp_HPACKRepresentation h2) [])),
        (case sc_TLS spec of None \<Rightarrow> None | Some t \<Rightarrow> validate_tls t p),
        (case sc_HTTP2 spec of None \<Rightarrow> None | Some h2 \<Rightarrow> validate_http2 h2),
        (case sc_HTTP3 spec of
           None \<Rightarrow> None
         | Some h3 \<Rightarrow> choice ''quic_transport_param_order'' [''chrome'', ''random''] (qs_QUICTransportParamOrder h3))]"

definition validateComplete :: "fp_preset \<Rightarrow> build_error option" where
  "validateComplete p =
     (if fst (fp_ClientHelloID p) = [] \<and> fp_JA3 p = [] \<and> fp_RawClientHello p = [] then Some (NoTLSSource (fp_Name p))
      else if fp_UserAgent p = [] then Some (NoUserAgent (fp_Name p))
      else if fp_HeaderOrder p = [] \<and> fp_Headers p = [] then Some (NoHeaders (fp_Name p))
      else None)"

section \<open>Building\<close>

text \<open>
  The guard against inheritance loops climbs the chain of custom presets; \<^const>\<open>Some\<close>
  name is the error. Each turn adds a name of the registry to the visited ones, so the
  climb ends.
\<close>

function climb :: "(string, fp_preset) gomap \<Rightarrow> string list \<Rightarrow> string \<Rightarrow> string option" where
  "climb custom visited cur =
     (if cur = [] then None
      else if cur \<in> set visited then Some cur
      else (case map_of custom cur of
              Some cp \<Rightarrow> climb custom (cur # visited) (fp_BasedOn cp)
            | None \<Rightarrow> None))"
  by auto

termination
proof (relation "measure (\<lambda>(custom, visited, cur). card (set (map fst custom) - set visited))", goal_cases)
  case (2 custom visited cur cp)
  then have "cur \<in> set (map fst custom) - set visited" by (force dest: map_of_SomeD)
  then have "set (map fst custom) - set (cur # visited) \<subset> set (map fst custom) - set visited" by auto
  then have "card (set (map fst custom) - set (cur # visited)) < card (set (map fst custom) - set visited)"
    by (intro psubset_card_mono) auto
  then show ?case by simp
qed simp

declare climb.simps [simp del]

definition inheritance_guard :: "preset_env \<Rightarrow> preset_spec \<Rightarrow> build_error option" where
  "inheritance_guard env spec =
     (if sc_BasedOn spec \<noteq> [] \<and> sc_Name spec \<noteq> [] then
        map_option InheritanceLoop (climb (px_custom env) [sc_Name spec] (sc_BasedOn spec))
      else None)"

definition ja3_guard :: "preset_spec \<Rightarrow> build_error option" where
  "ja3_guard spec =
     (case sc_TLS spec of
        None \<Rightarrow> None
      | Some t \<Rightarrow>
          if tl_JA3 t = [] then None
          else (case ParseJA3 (\<lambda>es. es) (tl_JA3 t) None of Inl e \<Rightarrow> Some (InvalidJA3 e) | Inr s \<Rightarrow> None))"

definition base_preset :: "preset_env \<Rightarrow> preset_spec \<Rightarrow> build_error + fp_preset" where
  "base_preset env spec =
     (if sc_BasedOn spec \<noteq> [] then
        (case fp_GetStrict env (sc_BasedOn spec) of None \<Rightarrow> Inl (UnknownBase (sc_BasedOn spec)) | Some base \<Rightarrow> Inr base)
      else Inr no_preset)"

text \<open>A section of the document, when it has one.\<close>

definition apply_section :: "string \<Rightarrow> ('s \<Rightarrow> fp_preset \<Rightarrow> build_error + fp_preset) \<Rightarrow> 's option \<Rightarrow> build_error + fp_preset \<Rightarrow> build_error + fp_preset" where
  "apply_section name f s r =
     (case r of
        Inl e \<Rightarrow> Inl e
      | Inr p \<Rightarrow> (case s of None \<Rightarrow> Inr p | Some spec \<Rightarrow> map_sum (InSection name) (\<lambda>p. p) (f spec p)))"

definition apply_total :: "('s \<Rightarrow> fp_preset \<Rightarrow> fp_preset) \<Rightarrow> 's \<Rightarrow> fp_preset \<Rightarrow> build_error + fp_preset" where
  "apply_total f spec p = Inr (f spec p)"

definition apply_sections :: "preset_env \<Rightarrow> hello_lib \<Rightarrow> preset_spec \<Rightarrow> fp_preset \<Rightarrow> build_error + fp_preset" where
  "apply_sections env lib spec p =
     apply_section [] (apply_total applyProtocols) (sc_Protocol spec)
    (apply_section ''tcp'' applyTCP (sc_TCP spec)
    (apply_section [] (apply_total applyClientHintsSpec) (sc_ClientHints spec)
    (apply_section [] (apply_total applyHeaders) (sc_Headers spec)
    (apply_section [] (apply_total applyHTTP3) (sc_HTTP3 spec)
    (apply_section ''http2'' applyHTTP2 (sc_HTTP2 spec)
    (apply_section ''tls'' (applyTLS env lib) (sc_TLS spec) (Inr p)))))))"

definition BuildPreset :: "preset_env \<Rightarrow> hello_lib \<Rightarrow> preset_spec option \<Rightarrow> build_error + fp_preset" where
  "BuildPreset env lib spec0 =
     (case spec0 of
        None \<Rightarrow> Inl SpecNil
      | Some spec \<Rightarrow>
          (case first_error [inheritance_guard env spec, ja3_guard spec] of
             Some e \<Rightarrow> Inl e
           | None \<Rightarrow>
               (case base_preset env spec of
                  Inl e \<Rightarrow> Inl e
                | Inr base \<Rightarrow>
                    (let p = base\<lparr>fp_Name := overlay_str (sc_Name spec) (fp_Name base), fp_BasedOn := sc_BasedOn spec\<rparr> in
                     case apply_sections env lib spec p of
                       Inl e \<Rightarrow> Inl e
                     | Inr p \<Rightarrow> (case validatePreset lib spec p of Some e \<Rightarrow> Inl (InSection ''validation'' e) | None \<Rightarrow> Inr p)))))"

text \<open>The loaders take the parsed document.\<close>

definition LoadAndBuildPresetFromJSON :: "preset_env \<Rightarrow> hello_lib \<Rightarrow> preset_spec preset_file \<Rightarrow> build_error + fp_preset" where
  "LoadAndBuildPresetFromJSON env lib pf =
     (case pf_Preset pf of
        None \<Rightarrow> Inl NoPresetField
      | Some spec \<Rightarrow>
          (case BuildPreset env lib (Some spec) of
             Inl e \<Rightarrow> Inl e
           | Inr p \<Rightarrow> (case validateComplete p of Some e \<Rightarrow> Inl (InSection ''validation'' e) | None \<Rightarrow> Inr p)))"

section \<open>The ClientHello of a connection\<close>

datatype hello_source = SourceClientHelloID | SourceJA3 | SourceRaw

fun is_quic_params :: "hello_extension \<Rightarrow> bool" where
  "is_quic_params QUICTransportParametersExtension = True"
| "is_quic_params (Ext (GenericExtension eid)) = (eid = 57)"
| "is_quic_params e = False"

definition SpecHasQUICTransportParameters :: "hello_spec \<Rightarrow> bool" where
  "SpecHasQUICTransportParameters spec = list_ex is_quic_params spec"

definition SpecHasPSKExtension :: "hello_spec \<Rightarrow> bool" where
  "SpecHasPSKExtension spec = list_ex (\<lambda>e. e = Ext UtlsPreSharedKeyExtension) spec"

text \<open>A JA3 string as a list of extensions.\<close>

definition ja3_hello :: "hello_lib \<Rightarrow> string \<Rightarrow> ja3_extras option \<Rightarrow> build_error + hello_spec" where
  "ja3_hello lib ja3 extras =
     map_sum InvalidJA3 (\<lambda>s. map Ext (chs_Extensions s)) (ParseJA3 (hl_ShuffleJA3 lib) ja3 extras)"

definition raw_hello :: "hello_lib \<Rightarrow> fp_preset \<Rightarrow> bool \<Rightarrow> build_error + hello_spec" where
  "raw_hello lib p wantPSK =
     (let psk = (wantPSK \<and> fp_RawPSKClientHello p \<noteq> []) in
      map_sum (BadCapture []) (\<lambda>s. s)
        (SpecFromRawClientHello lib (if psk then fp_RawPSKClientHello p else fp_RawClientHello p) (fp_RawBluntMimicry p) psk))"

definition preset_ja3 :: "hello_lib \<Rightarrow> fp_preset \<Rightarrow> bool \<Rightarrow> build_error + hello_spec" where
  "preset_ja3 lib p wantPSK = ja3_hello lib (if wantPSK \<and> fp_PSKJA3 p \<noteq> [] then fp_PSKJA3 p else fp_JA3 p) (fp_JA3Extras p)"

text \<open>
  The preset's sources in their order: a capture or a JA3 string is passed over unless it
  is for the transport in question, \<open>quic\<close> or not; \<open>named\<close> builds the last one.
\<close>

definition from_sources ::
    "hello_lib \<Rightarrow> bool \<Rightarrow> fp_preset \<Rightarrow> bool \<Rightarrow> build_error + hello_spec \<Rightarrow> hello_source \<times> (build_error + hello_spec)" where
  "from_sources lib quic p wantPSK named =
     (let via_ja3 =
            (if fp_JA3 p \<noteq> [] then
               (case preset_ja3 lib p wantPSK of
                  Inl e \<Rightarrow> (SourceJA3, Inl e)
                | Inr spec \<Rightarrow> if SpecHasQUICTransportParameters spec = quic then (SourceJA3, Inr spec) else (SourceClientHelloID, named))
             else (SourceClientHelloID, named))
      in if fp_RawClientHello p \<noteq> [] then
           (case raw_hello lib p wantPSK of
              Inl e \<Rightarrow> (SourceRaw, Inl e)
            | Inr spec \<Rightarrow>
                if SpecHasQUICTransportParameters spec = quic
                then (SourceRaw, Inr (if fp_RawPermuteExtensions p then hl_Shuffle lib spec else spec)) else via_ja3)
         else via_ja3)"

definition ResolveClientHelloSpec ::
    "hello_lib \<Rightarrow> fp_preset option \<Rightarrow> string \<Rightarrow> ja3_extras option \<Rightarrow> bool \<Rightarrow> int \<Rightarrow> hello_source \<times> (build_error + hello_spec)" where
  "ResolveClientHelloSpec lib p0 customJA3 customJA3Extras wantPSK seed =
     (case p0 of
        None \<Rightarrow> (SourceClientHelloID, Inl SpecNil)
      | Some p \<Rightarrow>
          if customJA3 \<noteq> [] then (SourceJA3, ja3_hello lib customJA3 customJA3Extras)
          else
            (let hid = (if wantPSK \<and> fst (fp_PSKClientHelloID p) \<noteq> [] then fp_PSKClientHelloID p else fp_ClientHelloID p)
             in from_sources lib False p wantPSK (map_sum (BadCapture (fst hid)) (\<lambda>s. s) (hl_IdToSpec lib hid seed))))"

definition ResolveQUICClientHelloSpec ::
    "hello_lib \<Rightarrow> int \<Rightarrow> nat \<Rightarrow> fp_preset option \<Rightarrow> bool \<Rightarrow> int \<Rightarrow> hello_source \<times> (build_error + hello_spec)" where
  "ResolveQUICClientHelloSpec lib fresh r p0 wantPSK seed =
     (case p0 of
        None \<Rightarrow> (SourceClientHelloID, Inl SpecNil)
      | Some p \<Rightarrow>
          (let hid = (if wantPSK \<and> fst (fp_QUICPSKClientHelloID p) \<noteq> [] then fp_QUICPSKClientHelloID p else fp_QUICClientHelloID p)
           in from_sources lib True p wantPSK
                (if fst hid = [] then Inl (NoTLSSource (fp_Name p))
                 else map_sum (BadCapture (fst hid)) (\<lambda>s. s)
                   (SpecForQUICWithAnchors (hl_IdToSpec lib) fresh r hid seed (fp_QUICSignatureAlgorithms p) (fp_TrustAnchors p)
                     (fp_QUICTrustAnchorShuffle p)))))"

definition HasPSKVariant :: "fp_preset option \<Rightarrow> string \<Rightarrow> bool" where
  "HasPSKVariant p0 customJA3 =
     (case p0 of
        None \<Rightarrow> False
      | Some p \<Rightarrow>
          if customJA3 \<noteq> [] then False
          else if fp_RawClientHello p \<noteq> [] then fp_RawPSKClientHello p \<noteq> []
          else if fp_JA3 p \<noteq> [] then fp_PSKJA3 p \<noteq> []
          else fst (fp_PSKClientHelloID p) \<noteq> [])"

definition ClientHelloSourceOf :: "fp_preset option \<Rightarrow> string \<Rightarrow> hello_source" where
  "ClientHelloSourceOf p0 customJA3 =
     (if customJA3 \<noteq> [] then SourceJA3
      else (case p0 of
              None \<Rightarrow> SourceClientHelloID
            | Some p \<Rightarrow>
                if fp_RawClientHello p \<noteq> [] then SourceRaw
                else if fp_JA3 p \<noteq> [] then SourceJA3 else SourceClientHelloID))"


section \<open>Inheritance\<close>

text \<open>The child and the parent it names, over the registered presets.\<close>

definition based_on :: "(string, fp_preset) gomap \<Rightarrow> (string \<times> string) set" where
  "based_on custom = {(n, fp_BasedOn p) | n p. map_of custom n = Some p \<and> n \<noteq> [] \<and> fp_BasedOn p \<noteq> []}"

lemma climb_unvisited:
  assumes "(cur, y) \<in> (based_on custom)\<^sup>*" "climb custom visited cur = None" "cur \<noteq> []"
  shows "y \<notin> set visited"
  using assms
proof (induction custom visited cur rule: climb.induct)
  case (1 custom visited cur)
  have nv: "cur \<notin> set visited" using "1.prems"(2, 3) by (subst (asm) climb.simps) (auto split: if_splits)
  from "1.prems"(1) show ?case
  proof (cases rule: converse_rtranclE)
    case base
    then show ?thesis using nv by simp
  next
    case (step z)
    then obtain p where p: "map_of custom cur = Some p" "z = fp_BasedOn p" "z \<noteq> []" by (auto simp: based_on_def)
    then have "climb custom (cur # visited) z = None"
      using "1.prems"(2, 3) nv by (subst (asm) climb.simps) simp
    then show ?thesis using "1.IH" [OF "1.prems"(3) nv p(1)] step(2) p by simp
  qed
qed

lemma based_on_update: "based_on (AList.update n q custom) \<subseteq> insert (n, fp_BasedOn q) (based_on custom)"
  by (auto simp: based_on_def update_conv' split: if_splits)

lemma map_sum_right [simp]: "map_sum f g x = Inr b \<longleftrightarrow> (\<exists>y. x = Inr y \<and> b = g y)"
  by (cases x) auto

text \<open>No section of a document changes the name and the parent.\<close>

definition same_lineage :: "fp_preset \<Rightarrow> fp_preset \<Rightarrow> bool" where
  "same_lineage a b \<longleftrightarrow> fp_Name b = fp_Name a \<and> fp_BasedOn b = fp_BasedOn a"

definition lineage_ok :: "fp_preset \<Rightarrow> build_error + fp_preset \<Rightarrow> bool" where
  "lineage_ok p r \<longleftrightarrow> (case r of Inl e \<Rightarrow> True | Inr q \<Rightarrow> same_lineage p q)"

lemma same_lineage_trans: "same_lineage a b \<Longrightarrow> same_lineage b c \<Longrightarrow> same_lineage a c"
  by (simp add: same_lineage_def)

lemma lineage_okI: "(\<And>q. r = Inr q \<Longrightarrow> same_lineage p q) \<Longrightarrow> lineage_ok p r"
  by (simp add: lineage_ok_def split: sum.split)

lemma lineage_okD: "lineage_ok p r \<Longrightarrow> r = Inr q \<Longrightarrow> same_lineage p q"
  by (simp add: lineage_ok_def)

lemma section_lineage:
  assumes "\<And>x a. lineage_ok a (f x a)" "lineage_ok p r"
  shows "lineage_ok p (apply_section s f sp r)"
  using assms(2) lineage_okD [OF assms(1)]
  by (auto simp: apply_section_def lineage_ok_def split: sum.splits option.splits intro: same_lineage_trans)

lemma overlay_hellos_lineage: "lineage_ok a (overlay_hellos env spec a)"
  by (simp add: overlay_hellos_def lineage_ok_def same_lineage_def split: sum.split)

lemma applyTLS_raw_lineage: "lineage_ok a (applyTLS_raw lib spec a)"
  by (rule lineage_okI) (auto simp: applyTLS_raw_def same_lineage_def Let_def split: sum.splits if_splits)

lemma applyTLS_source_lineage: "lineage_ok a (applyTLS_source env spec a)"
proof (rule lineage_okI)
  fix q assume "applyTLS_source env spec a = Inr q"
  then show "same_lineage a q"
    by (auto simp: applyTLS_source_def same_lineage_def Let_def split: sum.splits if_splits option.splits
        dest!: lineage_okD [OF overlay_hellos_lineage])
qed

lemma applyTLS_rest_lineage: "lineage_ok a (applyTLS_rest spec a)"
  by (rule lineage_okI) (auto simp: applyTLS_rest_def same_lineage_def Let_def split: option.splits)

lemma applyTLS_lineage: "lineage_ok a (applyTLS env lib spec a)"
proof (rule lineage_okI)
  fix b assume h: "applyTLS env lib spec a = Inr b"
  show "same_lineage a b"
  proof (cases "tl_RawClientHello spec = []")
    case True
    then obtain c where "applyTLS_source env spec a = Inr c" "applyTLS_rest spec c = Inr b"
      using h by (auto simp: applyTLS_def split: sum.splits)
    then show ?thesis by (metis applyTLS_source_lineage applyTLS_rest_lineage lineage_okD same_lineage_trans)
  next
    case False
    then show ?thesis using h lineage_okD [OF applyTLS_raw_lineage] by (simp add: applyTLS_def)
  qed
qed

lemma applyHTTP2_lineage: "lineage_ok a (applyHTTP2 spec a)"
  by (rule lineage_okI) (auto simp: applyHTTP2_def same_lineage_def Let_def split: sum.splits)

lemma applyTCP_lineage: "lineage_ok a (applyTCP spec a)"
  by (rule lineage_okI) (auto simp: applyTCP_def same_lineage_def Let_def split: if_splits)

lemma total_lineage:
  "lineage_ok a (apply_total applyHTTP3 x a)" "lineage_ok a (apply_total applyHeaders y a)"
  "lineage_ok a (apply_total applyClientHintsSpec z a)" "lineage_ok a (apply_total applyProtocols w a)"
  by (simp_all add: lineage_ok_def apply_total_def applyHTTP3_def applyHeaders_def applyClientHintsSpec_def applyProtocols_def
      same_lineage_def Let_def)

lemma sections_lineage: "apply_sections env lib spec p = Inr q \<Longrightarrow> same_lineage p q"
proof (erule lineage_okD [rotated])
  have "lineage_ok p (Inr p)" by (simp add: lineage_ok_def same_lineage_def)
  then show "lineage_ok p (apply_sections env lib spec p)"
    unfolding apply_sections_def
    by (intro section_lineage total_lineage applyTCP_lineage applyHTTP2_lineage applyTLS_lineage)
qed

lemma build_lineage:
  assumes "BuildPreset env lib (Some spec) = Inr q"
  shows "fp_BasedOn q = sc_BasedOn spec" "sc_Name spec \<noteq> [] \<Longrightarrow> fp_Name q = sc_Name spec" "inheritance_guard env spec = None"
  using assms
  by (auto simp: BuildPreset_def first_error_def overlay_str_def same_lineage_def Let_def dest!: sections_lineage
      split: option.splits sum.splits if_splits)


text \<open>A document that only names a parent, and a registry with one preset.\<close>

definition bare_spec :: "string \<Rightarrow> string \<Rightarrow> preset_spec" where
  "bare_spec name base =
     \<lparr>sc_Name = name, sc_BasedOn = base, sc_TLS = None, sc_HTTP2 = None, sc_HTTP3 = None, sc_Headers = None,
      sc_ClientHints = None, sc_TCP = None, sc_Protocol = None\<rparr>"

lemma build_bare:
  assumes "fp_GetStrict env base = Some p" "base \<noteq> []" "name \<noteq> []" "climb (px_custom env) [name] base = None"
  shows "BuildPreset env lib (Some (bare_spec name base)) = Inr (p\<lparr>fp_Name := name, fp_BasedOn := base\<rparr>)"
  using assms
  by (simp add: BuildPreset_def bare_spec_def first_error_def inheritance_guard_def ja3_guard_def base_preset_def apply_sections_def
      apply_section_def validatePreset_def overlay_str_def)

definition one_base :: preset_env where
  "one_base = \<lparr>px_GOOS = ''linux'', px_utls = (\<lambda>c. (''Chrome'', c)), px_custom = [(''base'', no_preset)]\<rparr>"

definition no_lib :: hello_lib where
  "no_lib = \<lparr>hl_RawClientHello = \<lambda>b r s. Inl [], hl_IdToSpec = \<lambda>i s. Inl [], hl_Shuffle = \<lambda>s. s,
     hl_ShuffleJA3 = \<lambda>s. s, hl_ParseRepresentation = \<lambda>s. False\<rparr>"

lemma one_base_child:
  "BuildPreset one_base no_lib (Some (bare_spec ''child'' ''base'')) = Inr (no_preset\<lparr>fp_Name := ''child'', fp_BasedOn := ''base''\<rparr>)"
  by (rule build_bare) (simp_all add: one_base_def fp_GetStrict_def climb.simps [of _ _ "''base''"] climb.simps [of _ _ "[]"] no_preset_def)


section \<open>Which hello goes on which transport\<close>

lemma from_sources_transport:
  assumes "from_sources lib quic p psk named = (src, Inr spec)" "src \<noteq> SourceClientHelloID" "\<And>s. set (hl_Shuffle lib s) = set s"
  shows "SpecHasQUICTransportParameters spec = quic"
proof -
  have "list_ex is_quic_params (hl_Shuffle lib s) = list_ex is_quic_params s" for s
    using assms(3) [of s] by (simp add: list_ex_iff)
  then show ?thesis using assms(1, 2)
    by (auto simp: from_sources_def SpecHasQUICTransportParameters_def Let_def split: if_splits sum.splits)
qed


text \<open>A library that takes any capture for a plain TCP hello.\<close>

definition tcp_lib :: hello_lib where
  "tcp_lib = no_lib\<lparr>hl_RawClientHello := \<lambda>b r s. Inr [Ext SNIExtension]\<rparr>"


text \<open>
  Lemma. A child that names a hello is ignored when its parent has a captured one: the
  builder accepts the document and stores the identity, but keeps the capture, which
  the resolver prefers.
\<close>

theorem named_hello_ignored:
  assumes "applyTLS env lib spec p = Inr q" "tl_RawClientHello spec = []" "tl_ClientHello spec \<noteq> []" "tl_JA3 spec = []"
    and "raw_hello lib p psk = Inr s" "\<not> SpecHasQUICTransportParameters s" "fp_RawClientHello p \<noteq> []"
  shows "ResolveClientHelloID env (tl_ClientHello spec) = Inr (fp_ClientHelloID q) \<and>
    fst (ResolveClientHelloSpec lib (Some q) [] extras psk seed) = SourceRaw"
proof -
  obtain hid c where c: "ResolveClientHelloID env (tl_ClientHello spec) = Inr hid"
    "overlay_hellos env spec (p\<lparr>fp_JA3 := [], fp_JA3Extras := None, fp_ClientHelloID := hid\<rparr>) = Inr c" "applyTLS_rest spec c = Inr q"
    using assms(1-4) by (auto simp: applyTLS_def applyTLS_source_def split: sum.splits)
  have "fp_RawClientHello c = fp_RawClientHello p" "fp_RawPSKClientHello c = fp_RawPSKClientHello p" "fp_RawBluntMimicry c = fp_RawBluntMimicry p"
    "fp_ClientHelloID c = hid"
    using c(2) by (auto simp: overlay_hellos_def split: sum.splits)
  then have "fp_RawClientHello q = fp_RawClientHello p" "raw_hello lib q psk = raw_hello lib p psk" "fp_ClientHelloID q = hid"
    using c(3) by (auto simp: applyTLS_rest_def raw_hello_def Let_def split: option.splits if_splits)
  then show ?thesis using assms(5-7) c(1) by (simp add: ResolveClientHelloSpec_def from_sources_def Let_def)
qed

text \<open>
  Lemma. A capture of a QUIC handshake leaves a preset without a hello for TCP: loading it
  clears the identity, and the resolver, which passes the capture over, asks the library
  for the hello of the empty identity.
\<close>

theorem quic_capture_loses_tcp:
  assumes "applyTLS env lib spec p = Inr q" "tl_RawClientHello spec \<noteq> []" "fp_RawClientHello q \<noteq> []"
    and "raw_hello lib q psk = Inr s" "SpecHasQUICTransportParameters s"
  shows "ResolveClientHelloSpec lib (Some q) [] extras psk seed =
    (SourceClientHelloID, map_sum (BadCapture []) (\<lambda>s. s) (hl_IdToSpec lib ([], []) seed))"
proof -
  have "applyTLS_raw lib spec p = Inr q" using assms(1, 2) by (simp add: applyTLS_def)
  then have "fp_ClientHelloID q = ([], [])" "fp_PSKClientHelloID q = ([], [])" "fp_JA3 q = []"
    by (auto simp: applyTLS_raw_def Let_def no_hello_def split: sum.splits if_splits)
  then show ?thesis using assms(3-5) by (simp add: ResolveClientHelloSpec_def from_sources_def Let_def)
qed


end
