(* ===== verification/Preset_Describe.thy ===== *)
theory Preset_Describe
  imports Preset_Build
begin

text \<open>
  The description of a preset as a JSON document: the model of
  \<^verbatim>\<open>fingerprint/describe.go\<close>, and what loading the description gives back.
\<close>

section \<open>Description\<close>

fun certCompAlgsToNames :: "cert_comp_algo list \<Rightarrow> string list" where
  "certCompAlgsToNames [] = []"
| "certCompAlgsToNames (CertCompressionBrotli # as) = ''brotli'' # certCompAlgsToNames as"
| "certCompAlgsToNames (OtherCertComp v # as) =
     (if v = 1 then ''zlib'' # certCompAlgsToNames as
      else if v = 3 then ''zstd'' # certCompAlgsToNames as else certCompAlgsToNames as)"

definition flattenJA3Extras :: "ja3_extras \<Rightarrow> ja3_extras_spec" where
  "flattenJA3Extras e =
     \<lparr>js_SignatureAlgorithms = map scheme_code (je_SignatureAlgorithms e),
      js_DelegatedCredentialAlgorithms = map scheme_code (overlay (je_DelegatedCredentialAlgorithms e) []),
      js_ALPN = je_ALPN e, js_CertCompression = certCompAlgsToNames (je_CertCompAlgs e),
      js_PermuteExtensions = (if je_PermuteExtensions e then Some True else None),
      js_RecordSizeLimit = (if je_RecordSizeLimit e \<noteq> 0 then Some (je_RecordSizeLimit e) else None),
      js_KeyShareCurves = (if je_KeyShareCurves e \<noteq> 0 then Some (je_KeyShareCurves e) else None)\<rparr>"

definition no_tls_spec :: tls_spec where
  "no_tls_spec =
     \<lparr>tl_RawClientHello = [], tl_RawPSKClientHello = [], tl_AllowBluntMimicry = None, tl_RawPermuteExtensions = None,
      tl_PSKJA3 = [], tl_ClientHello = [], tl_PSKClientHello = [], tl_QUICClientHello = [], tl_QUICPSKClientHello = [],
      tl_JA3 = [], tl_JA3ExtrasSpec = None, tl_SignatureAlgorithms = [], tl_QUICSignatureAlgorithms = [],
      tl_DelegatedCredentialAlgorithms = [], tl_ALPN = [], tl_CertCompression = [], tl_TrustAnchors = None,
      tl_QUICTrustAnchorsShuffle = None, tl_PermuteExtensions = None, tl_RecordSizeLimit = None, tl_KeyShareCurves = None\<rparr>"

text \<open>The name of an identity; the empty one has none.\<close>

definition hello_name :: "preset_env \<Rightarrow> fp_preset \<Rightarrow> client_hello_id \<Rightarrow> build_error + string" where
  "hello_name env p hid =
     (if hid = ([], []) then Inr []
      else (case ClientHelloIDName env hid of None \<Rightarrow> Inl (UnregisteredID (fp_Name p) hid) | Some name \<Rightarrow> Inr name))"

definition flattenTLS :: "preset_env \<Rightarrow> fp_preset \<Rightarrow> build_error + tls_spec option" where
  "flattenTLS env p =
     (if fp_JA3 p \<noteq> [] then
        Inr (Some (no_tls_spec\<lparr>tl_JA3 := fp_JA3 p, tl_JA3ExtrasSpec := map_option flattenJA3Extras (fp_JA3Extras p)\<rparr>))
      else
        (case hello_name env p (fp_ClientHelloID p) of
           Inl e \<Rightarrow> Inl e
         | Inr name \<Rightarrow>
        (case hello_name env p (fp_PSKClientHelloID p) of
           Inl e \<Rightarrow> Inl e
         | Inr psk \<Rightarrow>
        (case hello_name env p (fp_QUICClientHelloID p) of
           Inl e \<Rightarrow> Inl e
         | Inr quic \<Rightarrow>
        (case hello_name env p (fp_QUICPSKClientHelloID p) of
           Inl e \<Rightarrow> Inl e
         | Inr quicPSK \<Rightarrow>
             if name = [] then Inr None
             else
               Inr (Some (no_tls_spec
                 \<lparr>tl_ClientHello := name, tl_PSKClientHello := psk, tl_QUICClientHello := quic, tl_QUICPSKClientHello := quicPSK,
                  tl_SignatureAlgorithms := fp_SignatureAlgorithms p,
                  tl_QUICSignatureAlgorithms := fp_QUICSignatureAlgorithms p,
                  tl_TrustAnchors := map_option (map hex_encode) (nonempty (fp_TrustAnchors p)),
                  tl_QUICTrustAnchorsShuffle := (if fp_QUICTrustAnchorShuffle p then Some True else None)\<rparr>)))))))"

definition flattenHeaders :: "fp_preset \<Rightarrow> header_spec option" where
  "flattenHeaders p =
     (if fp_UserAgent p = [] \<and> fp_Headers p = [] \<and> fp_HeaderOrder p = [] then None
      else Some \<lparr>hd_UserAgent = fp_UserAgent p, hd_Values = fp_Headers p, hd_Order = fp_HeaderOrder p,
                 hd_ImageAccept = fp_ImageAccept p\<rparr>)"

text \<open>The priority table that applies, and \<^verbatim>\<open>time.Duration\<close> in milliseconds.\<close>

definition effective_table :: "fp_preset \<Rightarrow> (string, resource_priority) gomap option" where
  "effective_table p =
     (if own_table p \<noteq> [] then Some (own_table p)
      else if \<not> hs_NoRFC7540Priorities (fp_HTTP2Settings p) then Some defaultPriorityTable else None)"

definition in_ms :: "duration \<Rightarrow> u32" where
  "in_ms d = word_of_int (d div millisecond)"

definition flattenHTTP2 :: "fp_preset \<Rightarrow> http2_full_spec" where
  "flattenHTTP2 p =
     (let s = fp_HTTP2Settings p in
      \<lparr>sp_Akamai = [], sp_HeaderTableSize = Some (hs_HeaderTableSize s), sp_EnablePush = Some (hs_EnablePush s),
       sp_MaxConcurrentStreams = Some (hs_MaxConcurrentStreams s), sp_InitialWindowSize = Some (hs_InitialWindowSize s),
       sp_MaxFrameSize = Some (hs_MaxFrameSize s), sp_MaxHeaderListSize = Some (hs_MaxHeaderListSize s),
       sp_ConnectionWindowUpdate = Some (hs_ConnectionWindowUpdate s), sp_StreamWeight = Some (hs_StreamWeight s),
       sp_StreamExclusive = Some (hs_StreamExclusive s), sp_NoRFC7540Priorities = Some (hs_NoRFC7540Priorities s),
       sp_Settings = [],
       sp_SettingsOrder = Option.bind (H2SettingsOrder p) nonempty,
       sp_PseudoOrder = Option.bind (H2PseudoHeaderOrder p) nonempty,
       sp_HPACKHeaderOrder = nonempty (H2HeaderOrder p),
       sp_HPACKHeaderOrderSubresource = Option.bind (fp_H2Config p) (\<lambda>c. nonempty (h2_HPACKHeaderOrderSubresource c)),
       sp_HPACKIndexingPolicy = Some (H2HPACKIndexingPolicy p), sp_HPACKRepresentation = None,
       sp_HPACKNeverIndex = nonempty (H2HPACKNeverIndex p), sp_StreamPriorityMode = Some (H2StreamPriorityMode p),
       sp_DisableCookieSplit = Some (H2DisableCookieSplit p), sp_DataFrameMaxSize = Some (H2DataFrameMaxSize p),
       sp_PrefacePingIdleMs = Some (in_ms (H2PrefacePingIdle p)), sp_PrefacePingHangMs = Some (in_ms (H2PrefacePingHang p)),
       sp_IdlePingMs = Some (in_ms (H2IdlePing p)), sp_PriorityTable = effective_table p,
       sp_PriorityModel = (case effective_table p of None \<Rightarrow> None | Some t \<Rightarrow> Some (H2PriorityModel p)),
       sp_PriorityOverHTTP1 = Some (SendsPriorityOverHTTP1 p)\<rparr>)"

definition flattenHTTP3 :: "fp_preset \<Rightarrow> http3_spec" where
  "flattenHTTP3 p =
     \<lparr>qs_QPACKMaxTableCapacity = Some (H3QPACKMaxTableCapacity p), qs_QPACKBlockedStreams = Some (H3QPACKBlockedStreams p),
      qs_MaxFieldSectionSize = Some (H3MaxFieldSectionSize p), qs_EnableDatagrams = Some (H3EnableDatagrams p),
      qs_QUICInitialPacketSize = Some (H3QUICInitialPacketSize p), qs_QUICMaxIncomingStreams = Some (H3QUICMaxIncomingStreams p),
      qs_QUICMaxIncomingUniStreams = Some (H3QUICMaxIncomingUniStreams p), qs_QUICAllow0RTT = Some (H3QUICAllow0RTT p),
      qs_QUICChromeStyleInitial = Some (H3QUICChromeStyleInitial p),
      qs_QUICDisableHelloScramble = Some (H3QUICDisableHelloScramble p),
      qs_QUICTransportParamOrder = Some (H3QUICTransportParamOrder p), qs_QUICConnectionIDLength = Some (H3QUICConnectionIDLength p),
      qs_QUICMaxDatagramFrameSize = Some (H3QUICMaxDatagramFrameSize p), qs_MaxResponseHeaderBytes = Some (H3MaxResponseHeaderBytes p),
      qs_SendGreaseFrames = Some (H3SendGreaseFrames p),
      qs_QUICConnectionOptions = Option.bind (fp_H3Config p) h3_QUICConnectionOptions,
      qs_QUICInitialStreamReceiveWindow = Option.bind (fp_H3Config p) h3_QUICInitialStreamReceiveWindow,
      qs_QUICInitialConnectionReceiveWindow = Option.bind (fp_H3Config p) h3_QUICInitialConnectionReceiveWindow\<rparr>"

definition flattenTCP :: "fp_preset \<Rightarrow> tcp_spec option" where
  "flattenTCP p =
     (let t = fp_TCPFingerprint p in
      if tf_TTL t = 0 \<and> tf_MSS t = 0 \<and> tf_WindowSize t = 0 \<and> tf_WindowScale t = 0 \<and> \<not> tf_DFBit t then None
      else Some \<lparr>ts_Platform = [], ts_TTL = Some (tf_TTL t), ts_MSS = Some (tf_MSS t), ts_WindowSize = Some (tf_WindowSize t),
                 ts_WindowScale = Some (tf_WindowScale t), ts_DFBit = Some (tf_DFBit t)\<rparr>)"

definition flattenToSpec :: "preset_env \<Rightarrow> fp_preset \<Rightarrow> build_error + preset_spec" where
  "flattenToSpec env p =
     map_sum (\<lambda>e. e)
       (\<lambda>t. \<lparr>sc_Name = fp_Name p, sc_BasedOn = [], sc_TLS = t, sc_HTTP2 = Some (flattenHTTP2 p),
             sc_HTTP3 = (if fp_SupportHTTP3 p \<or> fp_H3Config p \<noteq> None then Some (flattenHTTP3 p) else None),
             sc_Headers = flattenHeaders p, sc_ClientHints = None, sc_TCP = flattenTCP p,
             sc_Protocol = Some \<lparr>pr_HTTP3 = Some (fp_SupportHTTP3 p), pr_H3 = None, pr_H2 = None\<rparr>\<rparr>)
       (flattenTLS env p)"

definition Describe :: "preset_env \<Rightarrow> string \<Rightarrow> build_error + preset_spec preset_file" where
  "Describe env name =
     (case fp_GetStrict env name of
        None \<Rightarrow> Inl (NotRegistered name)
      | Some p \<Rightarrow>
          map_sum (\<lambda>e. e) (\<lambda>spec. \<lparr>pf_Pool = None, pf_Preset = Some spec\<rparr>) (flattenToSpec env p))"


section \<open>Names of identities\<close>

lemma hello_names_distinct: "distinct (map fst clientHelloIDs)"
  unfolding clientHelloIDs_def by code_simp

lemma hello_names_nonempty: "(name, c) \<in> set clientHelloIDs \<Longrightarrow> name \<noteq> []"
  by (auto simp: clientHelloIDs_def)

lemma concrete_pass_sound:
  "map_of (concrete_pass ids m) k = Some name \<Longrightarrow> map_of m k = Some name \<or> (name, k) \<in> set ids"
  by (induction ids m rule: concrete_pass.induct) (auto simp: update_conv' split: if_splits)

lemma auto_pass_sound:
  "map_of (auto_pass ids m) k = Some name \<Longrightarrow> map_of m k = Some name \<or> (name, k) \<in> set ids"
  by (induction ids m rule: auto_pass.induct) (auto simp: update_conv' split: if_splits option.splits)

text \<open>A name that an identity is given resolves to that identity.\<close>

lemma hello_name_resolves:
  assumes "ClientHelloIDName env hid = Some name"
  shows "ResolveClientHelloID env name = Inr hid" "name \<noteq> []"
proof -
  have "(name, hid) \<in> set (hello_table env)"
    using assms auto_pass_sound concrete_pass_sound
    by (fastforce simp: ClientHelloIDName_def buildInverseClientHelloIDMap_def split: if_splits)
  moreover have "distinct (map fst (hello_table env))"
    using hello_names_distinct by (simp add: hello_table_def comp_def case_prod_unfold)
  ultimately show "ResolveClientHelloID env name = Inr hid" by (simp add: ResolveClientHelloID_def)
  show "name \<noteq> []" using \<open>(name, hid) \<in> _\<close> hello_names_nonempty by (auto simp: hello_table_def)
qed

lemma named_hello_name:
  assumes "hello_name env p hid = Inr name"
  shows "named_hello env section name no_hello = Inr hid" "name = [] \<longleftrightarrow> hid = ([], [])"
  using assms hello_name_resolves [of env hid name]
  by (auto simp: hello_name_def named_hello_def no_hello_def split: if_splits option.splits)

section \<open>Loading a description\<close>

text \<open>
  The presets whose description says all: they take the ClientHello from a registered
  identity, have a user agent and headers, and nothing that the description leaves out.
\<close>

definition describable :: "preset_env \<Rightarrow> fp_preset \<Rightarrow> bool" where
  "describable env p \<longleftrightarrow>
     fp_JA3 p = [] \<and> fp_RawClientHello p = [] \<and> fst (fp_ClientHelloID p) \<noteq> [] \<and>
     list_all (\<lambda>hid. hid = ([], []) \<or> ClientHelloIDName env hid \<noteq> None)
       [fp_ClientHelloID p, fp_PSKClientHelloID p, fp_QUICClientHelloID p, fp_QUICPSKClientHelloID p] \<and>
     list_all (\<lambda>a. 1 \<le> length a \<and> length a \<le> 255) (fp_TrustAnchors p) \<and>
     fp_UserAgent p \<noteq> [] \<and> (fp_Headers p \<noteq> [] \<or> fp_HeaderOrder p \<noteq> []) \<and> wf_map (fp_Headers p) \<and>
     H2HPACKIndexingPolicy p \<in> set [''chrome'', ''never'', ''always'', ''default''] \<and>
     H2StreamPriorityMode p \<in> set [''chrome'', ''default''] \<and> H2PriorityModel p \<in> set [''chromium'', ''table''] \<and>
     list_all (\<lambda>(dest, rp). rp_Urgency rp \<le> 7 \<and> rp_Weight rp \<le> 256) (own_table p) \<and>
     H3QUICTransportParamOrder p \<in> set [''chrome'', ''random''] \<and>
     H2HeaderOrder p \<noteq> [] \<and> H2SettingsOrder p \<noteq> Some [] \<and> H2PseudoHeaderOrder p \<noteq> Some []"

text \<open>What loading the description of \<open>p\<close> gives.\<close>

definition reloaded :: "fp_preset \<Rightarrow> fp_preset" where
  "reloaded p =
     no_preset
       \<lparr>fp_Name := fp_Name p, fp_ClientHelloID := fp_ClientHelloID p, fp_PSKClientHelloID := fp_PSKClientHelloID p,
        fp_QUICClientHelloID := fp_QUICClientHelloID p, fp_QUICPSKClientHelloID := fp_QUICPSKClientHelloID p,
        fp_UserAgent := fp_UserAgent p, fp_Headers := fp_Headers p, fp_HeaderOrder := fp_HeaderOrder p,
        fp_ImageAccept := fp_ImageAccept p, fp_HTTP2Settings := fp_HTTP2Settings p, fp_TCPFingerprint := fp_TCPFingerprint p,
        fp_SupportHTTP3 := fp_SupportHTTP3 p, fp_H2Config := Some (overlay_h2 (flattenHTTP2 p) no_h2),
        fp_H3Config :=
          (if fp_SupportHTTP3 p \<or> fp_H3Config p \<noteq> None then fp_H3Config (applyHTTP3 (flattenHTTP3 p) no_preset) else None),
        fp_SignatureAlgorithms := fp_SignatureAlgorithms p, fp_QUICSignatureAlgorithms := fp_QUICSignatureAlgorithms p,
        fp_TrustAnchors := fp_TrustAnchors p, fp_QUICTrustAnchorShuffle := fp_QUICTrustAnchorShuffle p\<rparr>"

lemma update_all: "wf_map (m @ xs) \<Longrightarrow> fold (\<lambda>(k, v). AList.update k v) xs m = m @ xs"
proof (induction xs arbitrary: m)
  case (Cons x xs)
  obtain k v where "x = (k, v)" by force
  then have "AList.update k v m = m @ [(k, v)]" using Cons.prems by (intro alist_update_fresh) (auto simp: map_of_eq_None_iff)
  then show ?case using Cons \<open>x = (k, v)\<close> by simp
qed simp

lemma decode_encoded:
  "list_all (\<lambda>a. 1 \<le> length a \<and> length a \<le> 255) as \<Longrightarrow> decode_anchors (map hex_encode as) = Inr as"
  by (induction as) auto

lemma flat_settings: "applyHTTP2_settings (http2_spec.truncate (flattenHTTP2 p)) s = Inr (fp_HTTP2Settings p)"
  by (simp add: applyHTTP2_settings_def http2_spec.truncate_def flattenHTTP2_def Let_def apply_discrete_def discrete_def ap_seen_def)

lemma flat_akamai [simp]: "akamai_pseudo (flattenHTTP2 p) = []" "needs_h2_config (flattenHTTP2 p)"
  by (simp_all add: akamai_pseudo_def needs_h2_config_def flattenHTTP2_def Let_def)

lemma first_error_none: "first_error es = None \<longleftrightarrow> list_all (\<lambda>e. e = None) es"
  by (induction es) (auto simp: first_error_def)

lemma fails_none [simp]: "fails b e = None \<longleftrightarrow> \<not> b"
  by (simp add: fails_def)

lemma choice_none [simp]: "choice f valid v = None \<longleftrightarrow> (case v of None \<Rightarrow> True | Some s \<Rightarrow> s \<in> set valid)"
  by (simp add: choice_def split: option.split)

lemma default_table_valid: "list_all (\<lambda>(dest, rp). rp_Urgency rp \<le> 7 \<and> rp_Weight rp \<le> 256) defaultPriorityTable"
  by (simp add: defaultPriorityTable_def)

lemma priority_entry_none: "priority_entry (dest, rp) = None \<longleftrightarrow> rp_Urgency rp \<le> 7 \<and> rp_Weight rp \<le> 256"
  by (auto simp: priority_entry_def not_less)

lemma table_valid:
  "list_all (\<lambda>(dest, rp). rp_Urgency rp \<le> 7 \<and> rp_Weight rp \<le> 256) t \<Longrightarrow> first_error (map priority_entry t) = None"
  by (auto simp: first_error_none list_all_iff priority_entry_none)

lemma flat_h2_valid:
  assumes "describable env p"
  shows "validate_http2 (flattenHTTP2 p) = None"
proof -
  have "first_error (map priority_entry (overlay (effective_table p) [])) = None"
    using assms default_table_valid
    by (intro table_valid) (simp add: effective_table_def overlay_def describable_def)
  then show ?thesis using assms
    by (simp add: validate_http2_def first_error_none [of "[_, _, _, _]"] flattenHTTP2_def Let_def describable_def split: option.split)
qed

lemma flat_tls:
  assumes "describable env p"
  obtains t where "flattenTLS env p = Inr (Some t)"
    "applyTLS env lib t (no_preset\<lparr>fp_Name := n, fp_BasedOn := b\<rparr>) = Inr (no_preset
      \<lparr>fp_Name := n, fp_BasedOn := b, fp_ClientHelloID := fp_ClientHelloID p, fp_PSKClientHelloID := fp_PSKClientHelloID p,
       fp_QUICClientHelloID := fp_QUICClientHelloID p, fp_QUICPSKClientHelloID := fp_QUICPSKClientHelloID p,
       fp_SignatureAlgorithms := fp_SignatureAlgorithms p, fp_QUICSignatureAlgorithms := fp_QUICSignatureAlgorithms p,
       fp_TrustAnchors := fp_TrustAnchors p, fp_QUICTrustAnchorShuffle := fp_QUICTrustAnchorShuffle p\<rparr>)"
    "fst (fp_ClientHelloID q) = fst (fp_ClientHelloID p) \<Longrightarrow> fp_JA3 q = [] \<Longrightarrow> validate_tls t q = None"
    "tl_JA3 t = []"
proof -
  have names: "\<exists>name. hello_name env p hid = Inr name"
    if "hid \<in> set [fp_ClientHelloID p, fp_PSKClientHelloID p, fp_QUICClientHelloID p, fp_QUICPSKClientHelloID p]" for hid
  proof -
    have "list_all (\<lambda>hid. hid = ([], []) \<or> ClientHelloIDName env hid \<noteq> None)
        [fp_ClientHelloID p, fp_PSKClientHelloID p, fp_QUICClientHelloID p, fp_QUICPSKClientHelloID p]"
      using assms unfolding describable_def by blast
    then have "hid = ([], []) \<or> ClientHelloIDName env hid \<noteq> None" using that unfolding list_all_iff by blast
    then show ?thesis by (cases "ClientHelloIDName env hid") (simp_all add: hello_name_def)
  qed
  obtain n1 where n1: "hello_name env p (fp_ClientHelloID p) = Inr n1" using names [of "fp_ClientHelloID p"] by auto
  obtain n2 where n2: "hello_name env p (fp_PSKClientHelloID p) = Inr n2" using names [of "fp_PSKClientHelloID p"] by auto
  obtain n3 where n3: "hello_name env p (fp_QUICClientHelloID p) = Inr n3" using names [of "fp_QUICClientHelloID p"] by auto
  obtain n4 where n4: "hello_name env p (fp_QUICPSKClientHelloID p) = Inr n4" using names [of "fp_QUICPSKClientHelloID p"] by auto
  note n = n1 n2 n3 n4
  note [simp] = n [THEN named_hello_name(1)]
  have h: "fp_JA3 p = []" "fst (fp_ClientHelloID p) \<noteq> []" "list_all (\<lambda>a. 1 \<le> length a \<and> length a \<le> 255) (fp_TrustAnchors p)"
    using assms by (simp_all add: describable_def)
  have id: "n1 \<noteq> []" "ResolveClientHelloID env n1 = Inr (fp_ClientHelloID p)"
    using n1 h(2) hello_name_resolves [of env "fp_ClientHelloID p" n1] by (auto simp: hello_name_def split: if_splits option.splits)
  let ?t = "no_tls_spec
                 \<lparr>tl_ClientHello := n1, tl_PSKClientHello := n2, tl_QUICClientHello := n3, tl_QUICPSKClientHello := n4,
                  tl_SignatureAlgorithms := fp_SignatureAlgorithms p,
                  tl_QUICSignatureAlgorithms := fp_QUICSignatureAlgorithms p,
                  tl_TrustAnchors := map_option (map hex_encode) (nonempty (fp_TrustAnchors p)),
                  tl_QUICTrustAnchorsShuffle := (if fp_QUICTrustAnchorShuffle p then Some True else None)\<rparr>"
  show ?thesis
  proof (rule that)
    show "flattenTLS env p = Inr (Some ?t)" using h(1) n id(1) by (simp add: flattenTLS_def)
    show "tl_JA3 ?t = []" by (simp add: no_tls_spec_def)
    show "validate_tls ?t q = None" if "fst (fp_ClientHelloID q) = fst (fp_ClientHelloID p)" "fp_JA3 q = []"
      using that h(2) by (simp add: validate_tls_def first_error_none no_tls_spec_def tls_sources_def named_fields_def ignored_without_ja3_def)
    show "applyTLS env lib ?t (no_preset\<lparr>fp_Name := n, fp_BasedOn := b\<rparr>) = Inr (no_preset
      \<lparr>fp_Name := n, fp_BasedOn := b, fp_ClientHelloID := fp_ClientHelloID p, fp_PSKClientHelloID := fp_PSKClientHelloID p,
       fp_QUICClientHelloID := fp_QUICClientHelloID p, fp_QUICPSKClientHelloID := fp_QUICPSKClientHelloID p,
       fp_SignatureAlgorithms := fp_SignatureAlgorithms p, fp_QUICSignatureAlgorithms := fp_QUICSignatureAlgorithms p,
       fp_TrustAnchors := fp_TrustAnchors p, fp_QUICTrustAnchorShuffle := fp_QUICTrustAnchorShuffle p\<rparr>)"
      using id decode_encoded [OF h(3)]
      by (simp add: applyTLS_def applyTLS_source_def applyTLS_rest_def overlay_hellos_def no_tls_spec_def no_preset_def
          overlay_def overlay_str_def nonempty_def Let_def)
  qed
qed

lemma no_preset_fields:
  "fp_HTTP2Settings no_preset = zero_settings" "fp_H2Config no_preset = None" "fp_H3Config no_preset = None"
  "fp_UserAgent no_preset = []" "fp_ImageAccept no_preset = []" "fp_Headers no_preset = []" "fp_HeaderOrder no_preset = []"
  "fp_TCPFingerprint no_preset = no_tcp" "fp_SupportHTTP3 no_preset = False" "fp_DisableHTTP2 no_preset = False" "fp_Name no_preset = []"
  "fp_JA3 no_preset = []" "fp_RawClientHello no_preset = []" "fp_BasedOn no_preset = []"
  by (simp_all add: no_preset_def)

lemma flat_http2:
  "fp_H2Config q = None \<Longrightarrow> applyHTTP2 (flattenHTTP2 p) q =
     Inr (q\<lparr>fp_HTTP2Settings := fp_HTTP2Settings p, fp_H2Config := Some (overlay_h2 (flattenHTTP2 p) no_h2)\<rparr>)"
  by (simp add: applyHTTP2_def flat_settings)

lemma flat_http3:
  "fp_H3Config q = None \<Longrightarrow> applyHTTP3 spec q = q\<lparr>fp_H3Config := fp_H3Config (applyHTTP3 spec no_preset)\<rparr>"
  by (simp add: applyHTTP3_def no_preset_fields Let_def)

lemma overlay_str_nil [simp]: "overlay_str s [] = s"
  by (simp add: overlay_str_def)

lemma flat_headers:
  assumes "fp_UserAgent q = []" "fp_ImageAccept q = []" "fp_Headers q = []" "fp_HeaderOrder q = []" "wf_map (fp_Headers p)"
  shows "applyHeaders \<lparr>hd_UserAgent = fp_UserAgent p, hd_Values = fp_Headers p, hd_Order = fp_HeaderOrder p, hd_ImageAccept = fp_ImageAccept p\<rparr> q =
     q\<lparr>fp_UserAgent := fp_UserAgent p, fp_ImageAccept := fp_ImageAccept p, fp_Headers := fp_Headers p, fp_HeaderOrder := fp_HeaderOrder p\<rparr>"
  using assms update_all [of "[]" "fp_Headers p"] by (simp add: applyHeaders_def)

lemma flat_tcp:
  "fp_TCPFingerprint q = no_tcp \<Longrightarrow> apply_section s applyTCP (flattenTCP p) (Inr q) = Inr (q\<lparr>fp_TCPFingerprint := fp_TCPFingerprint p\<rparr>)"
  by (cases "fp_TCPFingerprint p") (auto simp: apply_section_def flattenTCP_def applyTCP_def overlay_def no_tcp_def Let_def)

lemma section_none: "apply_section s f None (Inr p) = Inr p"
  by (simp add: apply_section_def)

lemma section_some: "f spec p = Inr q \<Longrightarrow> apply_section s f (Some spec) (Inr p) = Inr q"
  by (simp add: apply_section_def)

lemma sections_described:
  assumes t: "applyTLS env lib t (no_preset\<lparr>fp_Name := fp_Name p, fp_BasedOn := []\<rparr>) = Inr (no_preset
      \<lparr>fp_Name := fp_Name p, fp_BasedOn := [], fp_ClientHelloID := fp_ClientHelloID p, fp_PSKClientHelloID := fp_PSKClientHelloID p,
       fp_QUICClientHelloID := fp_QUICClientHelloID p, fp_QUICPSKClientHelloID := fp_QUICPSKClientHelloID p,
       fp_SignatureAlgorithms := fp_SignatureAlgorithms p, fp_QUICSignatureAlgorithms := fp_QUICSignatureAlgorithms p,
       fp_TrustAnchors := fp_TrustAnchors p, fp_QUICTrustAnchorShuffle := fp_QUICTrustAnchorShuffle p\<rparr>)"
    and ua: "fp_UserAgent p \<noteq> []" and wf: "wf_map (fp_Headers p)"
  shows "apply_sections env lib
    \<lparr>sc_Name = fp_Name p, sc_BasedOn = [], sc_TLS = Some t, sc_HTTP2 = Some (flattenHTTP2 p),
     sc_HTTP3 = (if fp_SupportHTTP3 p \<or> fp_H3Config p \<noteq> None then Some (flattenHTTP3 p) else None),
     sc_Headers = flattenHeaders p, sc_ClientHints = None, sc_TCP = flattenTCP p,
     sc_Protocol = Some \<lparr>pr_HTTP3 = Some (fp_SupportHTTP3 p), pr_H3 = None, pr_H2 = None\<rparr>\<rparr>
    (no_preset\<lparr>fp_Name := fp_Name p, fp_BasedOn := []\<rparr>) = Inr (reloaded p)"
proof -
  define q1 where "q1 = no_preset
      \<lparr>fp_Name := fp_Name p, fp_BasedOn := [], fp_ClientHelloID := fp_ClientHelloID p, fp_PSKClientHelloID := fp_PSKClientHelloID p,
       fp_QUICClientHelloID := fp_QUICClientHelloID p, fp_QUICPSKClientHelloID := fp_QUICPSKClientHelloID p,
       fp_SignatureAlgorithms := fp_SignatureAlgorithms p, fp_QUICSignatureAlgorithms := fp_QUICSignatureAlgorithms p,
       fp_TrustAnchors := fp_TrustAnchors p, fp_QUICTrustAnchorShuffle := fp_QUICTrustAnchorShuffle p\<rparr>"
  define q2 where "q2 = q1\<lparr>fp_HTTP2Settings := fp_HTTP2Settings p, fp_H2Config := Some (overlay_h2 (flattenHTTP2 p) no_h2)\<rparr>"
  define q3 where "q3 = q2\<lparr>fp_H3Config :=
    (if fp_SupportHTTP3 p \<or> fp_H3Config p \<noteq> None then fp_H3Config (applyHTTP3 (flattenHTTP3 p) no_preset) else None)\<rparr>"
  define q4 where "q4 = q3\<lparr>fp_UserAgent := fp_UserAgent p, fp_ImageAccept := fp_ImageAccept p, fp_Headers := fp_Headers p,
    fp_HeaderOrder := fp_HeaderOrder p\<rparr>"
  define q5 where "q5 = q4\<lparr>fp_TCPFingerprint := fp_TCPFingerprint p\<rparr>"
  have f1: "fp_H2Config q1 = None" "fp_H3Config q1 = None" "fp_UserAgent q1 = []" "fp_ImageAccept q1 = []" "fp_Headers q1 = []"
    "fp_HeaderOrder q1 = []" "fp_TCPFingerprint q1 = no_tcp" "fp_DisableHTTP2 q1 = False"
    by (simp_all add: q1_def no_preset_fields)
  have f2: "fp_H3Config q2 = None" "q3 = q2\<lparr>fp_H3Config := fp_H3Config q3\<rparr>" using f1 by (simp_all add: q2_def q3_def)
  have s1: "apply_section ''tls'' (applyTLS env lib) (Some t) (Inr (no_preset\<lparr>fp_Name := fp_Name p, fp_BasedOn := []\<rparr>)) = Inr q1"
    by (rule section_some) (simp only: t q1_def)
  have s2: "apply_section ''http2'' applyHTTP2 (Some (flattenHTTP2 p)) (Inr q1) = Inr q2"
    by (rule section_some) (simp only: flat_http2 [OF f1(1)] q2_def)
  have s3: "apply_section [] (apply_total applyHTTP3)
      (if fp_SupportHTTP3 p \<or> fp_H3Config p \<noteq> None then Some (flattenHTTP3 p) else None) (Inr q2) = Inr q3"
    using flat_http3 [OF f2(1), of "flattenHTTP3 p"] f2(1) by (simp add: apply_section_def apply_total_def q3_def)
  have s4: "apply_section [] (apply_total applyHeaders) (flattenHeaders p) (Inr q3) = Inr q4"
    using ua flat_headers [of q3, OF _ _ _ _ wf] f1 by (simp add: flattenHeaders_def apply_section_def apply_total_def q4_def) (simp add: q3_def q2_def)
  have s5: "apply_section ''tcp'' applyTCP (flattenTCP p) (Inr q4) = Inr q5"
    using f1 by (simp add: flat_tcp q5_def q4_def q3_def q2_def)
  have s6: "apply_section [] (apply_total applyProtocols) (Some \<lparr>pr_HTTP3 = Some (fp_SupportHTTP3 p), pr_H3 = None, pr_H2 = None\<rparr>) (Inr q5)
    = Inr (reloaded p)"
    using f1(8)
    by (simp add: apply_section_def apply_total_def applyProtocols_def overlay_def reloaded_def q5_def q4_def q3_def q2_def q1_def no_preset_def)
  show ?thesis unfolding apply_sections_def preset_spec.simps s1 s2 s3 section_none s4 s5 s6 ..
qed

text \<open>The description loads, and gives \<^const>\<open>reloaded\<close>.\<close>

lemma load_described:
  assumes "describable env p" and "flattenToSpec env p = Inr spec"
  shows "LoadAndBuildPresetFromJSON env lib \<lparr>pf_Pool = None, pf_Preset = Some spec\<rparr> = Inr (reloaded p)"
proof -
  have wf: "wf_map (fp_Headers p)" and ua: "fp_UserAgent p \<noteq> []" and hdr: "fp_Headers p \<noteq> [] \<or> fp_HeaderOrder p \<noteq> []"
    and cid: "fst (fp_ClientHelloID p) \<noteq> []" and order: "H3QUICTransportParamOrder p \<in> set [''chrome'', ''random'']"
    using assms(1) unfolding describable_def by blast+
  have r: "fst (fp_ClientHelloID (reloaded p)) = fst (fp_ClientHelloID p)" "fp_JA3 (reloaded p) = []"
    by (simp_all add: reloaded_def no_preset_fields)
  obtain t where t: "flattenTLS env p = Inr (Some t)" "tl_JA3 t = []"
    "applyTLS env lib t (no_preset\<lparr>fp_Name := fp_Name p, fp_BasedOn := []\<rparr>) = Inr (no_preset
      \<lparr>fp_Name := fp_Name p, fp_BasedOn := [], fp_ClientHelloID := fp_ClientHelloID p, fp_PSKClientHelloID := fp_PSKClientHelloID p,
       fp_QUICClientHelloID := fp_QUICClientHelloID p, fp_QUICPSKClientHelloID := fp_QUICPSKClientHelloID p,
       fp_SignatureAlgorithms := fp_SignatureAlgorithms p, fp_QUICSignatureAlgorithms := fp_QUICSignatureAlgorithms p,
       fp_TrustAnchors := fp_TrustAnchors p, fp_QUICTrustAnchorShuffle := fp_QUICTrustAnchorShuffle p\<rparr>)"
    "validate_tls t (reloaded p) = None"
    by (rule flat_tls [OF assms(1), where lib = lib and n = "fp_Name p" and b = "[]" and q = "reloaded p"]) (rule that; (assumption | simp add: r))
  have spec: "spec = \<lparr>sc_Name = fp_Name p, sc_BasedOn = [], sc_TLS = Some t, sc_HTTP2 = Some (flattenHTTP2 p),
             sc_HTTP3 = (if fp_SupportHTTP3 p \<or> fp_H3Config p \<noteq> None then Some (flattenHTTP3 p) else None),
             sc_Headers = flattenHeaders p, sc_ClientHints = None, sc_TCP = flattenTCP p,
             sc_Protocol = Some \<lparr>pr_HTTP3 = Some (fp_SupportHTTP3 p), pr_H3 = None, pr_H2 = None\<rparr>\<rparr>"
    using assms(2) t(1) by (simp add: flattenToSpec_def)
  have built: "apply_sections env lib spec (no_preset\<lparr>fp_Name := fp_Name p, fp_BasedOn := []\<rparr>) = Inr (reloaded p)"
    unfolding spec by (rule sections_described [OF t(3) ua wf])
  have valid: "validatePreset lib spec (reloaded p) = None"
    using flat_h2_valid [OF assms(1)] t(4) order
    by (simp add: validatePreset_def first_error_none spec validateHPACKRepresentation_def)
       (simp add: flattenHTTP2_def flattenHTTP3_def overlay_def Let_def)
  have complete: "validateComplete (reloaded p) = None"
    using ua hdr cid by (auto simp: validateComplete_def reloaded_def)
  have guard: "first_error [inheritance_guard env spec, ja3_guard spec] = None"
    using t(2) by (simp add: first_error_none spec inheritance_guard_def ja3_guard_def)
  have base: "base_preset env spec = Inr no_preset" by (simp add: base_preset_def spec)
  have "sc_Name spec = fp_Name p" "sc_BasedOn spec = []" by (simp_all add: spec)
  then show ?thesis using built valid complete guard base
    by (simp add: LoadAndBuildPresetFromJSON_def BuildPreset_def no_preset_fields)
qed

section \<open>What a reloaded preset sends\<close>

text \<open>What the transports read of a preset: the HTTP/2 and HTTP/3 getters, and its own fields.\<close>

definition h2_view :: "fp_preset \<Rightarrow> _" where
  "h2_view p =
     (H2HeaderOrder p, \<lambda>dest. H2HeaderOrderFor dest p, H2HPACKIndexingPolicy p, H2HPACKRepresentation p, H2HPACKNeverIndex p,
      H2DataFrameMaxSize p, H2PrefacePingIdle p, H2PrefacePingHang p, H2IdlePing p, H2StreamPriorityMode p,
      H2DisableCookieSplit p, H2SettingsOrder p, H2PseudoHeaderOrder p, H2HasPriorityTable p, \<lambda>dest. H2PriorityFor dest p,
      if H2HasPriorityTable p then H2PriorityModel p else [], SendsPriorityOverHTTP1 p)"

definition h3_view :: "fp_preset \<Rightarrow> _" where
  "h3_view p =
     (H3QPACKMaxTableCapacity p, H3QPACKBlockedStreams p, H3MaxFieldSectionSize p, H3EnableDatagrams p, H3QUICInitialPacketSize p,
      H3QUICMaxIncomingStreams p, H3QUICMaxIncomingUniStreams p, H3QUICAllow0RTT p, H3QUICChromeStyleInitial p,
      H3QUICDisableHelloScramble p, H3QUICTransportParamOrder p, H3QUICConnectionIDLength p, H3QUICMaxDatagramFrameSize p,
      H3QUICConnectionOptions p, H3MaxResponseHeaderBytes p, H3SendGreaseFrames p, H3QUICInitialStreamReceiveWindow p,
      H3QUICInitialConnectionReceiveWindow p)"

definition own_view :: "fp_preset \<Rightarrow> _" where
  "own_view p =
     (fp_ClientHelloID p, fp_PSKClientHelloID p, fp_QUICClientHelloID p, fp_QUICPSKClientHelloID p, fp_JA3 p,
      fp_RawClientHello p, fp_SignatureAlgorithms p, fp_QUICSignatureAlgorithms p, fp_TrustAnchors p, fp_QUICTrustAnchorShuffle p,
      fp_UserAgent p, fp_Headers p, fp_HeaderOrder p, fp_ImageAccept p, fp_ClientHints p, fp_HTTP2Settings p,
      fp_TCPFingerprint p, fp_SupportHTTP3 p, fp_DisableHTTP2 p)"

definition same_fingerprint :: "fp_preset \<Rightarrow> fp_preset \<Rightarrow> bool" where
  "same_fingerprint p q \<longleftrightarrow> h2_view q = h2_view p \<and> h3_view q = h3_view p \<and> own_view q = own_view p"

text \<open>What a description leaves out has to be absent.\<close>

definition nothing_lost :: "fp_preset \<Rightarrow> bool" where
  "nothing_lost p \<longleftrightarrow> fp_ClientHints p = no_hints \<and> \<not> fp_DisableHTTP2 p \<and> H2HPACKRepresentation p = []"

lemma in_ms_uint [simp]: "in_ms (uint (v :: u32) * millisecond) = v"
  by (simp add: in_ms_def)

lemma uint_in_ms: "\<exists>v :: u32. d = uint v * millisecond \<Longrightarrow> uint (in_ms d) * millisecond = d"
  by auto

lemma ping_ms: "\<exists>v :: u32. H2PrefacePingIdle p = uint v * millisecond" "\<exists>v :: u32. H2PrefacePingHang p = uint v * millisecond"
  "\<exists>v :: u32. H2IdlePing p = uint v * millisecond"
proof -
  have z: "\<exists>v :: u32. (0 :: int) = uint v * millisecond" by (rule exI [of _ 0]) simp
  show i: "\<exists>v :: u32. H2PrefacePingIdle p = uint v * millisecond"
    using z by (auto simp: H2PrefacePingIdle_def h2_field_def split: option.split)
  show "\<exists>v :: u32. H2PrefacePingHang p = uint v * millisecond"
    using i by (auto simp: H2PrefacePingHang_def h2_field_def split: option.split)
  show "\<exists>v :: u32. H2IdlePing p = uint v * millisecond"
    using z by (auto simp: H2IdlePing_def h2_field_def split: option.split)
qed

lemma nonempty_simps [simp]: "nonempty s = None \<longleftrightarrow> s = []" "nonempty s = Some t \<longleftrightarrow> s \<noteq> [] \<and> t = s"
  by (auto simp: nonempty_def)

lemma reloaded_field:
  "h2_field f d (reloaded p) = (case f (overlay_h2 (flattenHTTP2 p) no_h2) of None \<Rightarrow> d | Some v \<Rightarrow> v)"
  "fp_H2Config (reloaded p) = Some (overlay_h2 (flattenHTTP2 p) no_h2)"
  "fp_HTTP2Settings (reloaded p) = fp_HTTP2Settings p" "fp_ClientHelloID (reloaded p) = fp_ClientHelloID p" "fp_Name (reloaded p) = fp_Name p"
  by (simp_all add: h2_field_def reloaded_def)

lemma flat_fields:
  "sp_HPACKHeaderOrder (flattenHTTP2 p) = nonempty (H2HeaderOrder p)"
  "sp_HPACKHeaderOrderSubresource (flattenHTTP2 p) = Option.bind (fp_H2Config p) (\<lambda>c. nonempty (h2_HPACKHeaderOrderSubresource c))"
  "sp_HPACKIndexingPolicy (flattenHTTP2 p) = Some (H2HPACKIndexingPolicy p)" "sp_HPACKRepresentation (flattenHTTP2 p) = None"
  "sp_HPACKNeverIndex (flattenHTTP2 p) = nonempty (H2HPACKNeverIndex p)" "sp_DataFrameMaxSize (flattenHTTP2 p) = Some (H2DataFrameMaxSize p)"
  "sp_PrefacePingIdleMs (flattenHTTP2 p) = Some (in_ms (H2PrefacePingIdle p))"
  "sp_PrefacePingHangMs (flattenHTTP2 p) = Some (in_ms (H2PrefacePingHang p))" "sp_IdlePingMs (flattenHTTP2 p) = Some (in_ms (H2IdlePing p))"
  "sp_StreamPriorityMode (flattenHTTP2 p) = Some (H2StreamPriorityMode p)" "sp_DisableCookieSplit (flattenHTTP2 p) = Some (H2DisableCookieSplit p)"
  "sp_SettingsOrder (flattenHTTP2 p) = Option.bind (H2SettingsOrder p) nonempty"
  "sp_PseudoOrder (flattenHTTP2 p) = Option.bind (H2PseudoHeaderOrder p) nonempty" "sp_PriorityTable (flattenHTTP2 p) = effective_table p"
  "sp_PriorityModel (flattenHTTP2 p) = (case effective_table p of None \<Rightarrow> None | Some t \<Rightarrow> Some (H2PriorityModel p))"
  "sp_PriorityOverHTTP1 (flattenHTTP2 p) = Some (SendsPriorityOverHTTP1 p)"
  by (simp_all add: flattenHTTP2_def Let_def)

lemma reloaded_config:
  "h2_HPACKHeaderOrder (overlay_h2 (flattenHTTP2 p) no_h2) = nonempty (H2HeaderOrder p)"
  "h2_HPACKHeaderOrderSubresource (overlay_h2 (flattenHTTP2 p) no_h2) =
     (case fp_H2Config p of None \<Rightarrow> [] | Some c \<Rightarrow> h2_HPACKHeaderOrderSubresource c)"
  "h2_HPACKIndexingPolicy (overlay_h2 (flattenHTTP2 p) no_h2) = H2HPACKIndexingPolicy p"
  "h2_HPACKRepresentation (overlay_h2 (flattenHTTP2 p) no_h2) = []"
  "h2_HPACKNeverIndex (overlay_h2 (flattenHTTP2 p) no_h2) = nonempty (H2HPACKNeverIndex p)"
  "h2_DataFrameMaxSize (overlay_h2 (flattenHTTP2 p) no_h2) = Some (H2DataFrameMaxSize p)"
  "h2_PrefacePingIdleMs (overlay_h2 (flattenHTTP2 p) no_h2) = Some (in_ms (H2PrefacePingIdle p))"
  "h2_PrefacePingHangMs (overlay_h2 (flattenHTTP2 p) no_h2) = Some (in_ms (H2PrefacePingHang p))"
  "h2_IdlePingMs (overlay_h2 (flattenHTTP2 p) no_h2) = Some (in_ms (H2IdlePing p))"
  "h2_StreamPriorityMode (overlay_h2 (flattenHTTP2 p) no_h2) = H2StreamPriorityMode p"
  "h2_DisableCookieSplit (overlay_h2 (flattenHTTP2 p) no_h2) = Some (H2DisableCookieSplit p)"
  "h2_SettingsOrder (overlay_h2 (flattenHTTP2 p) no_h2) = Option.bind (H2SettingsOrder p) nonempty"
  "h2_PseudoHeaderOrder (overlay_h2 (flattenHTTP2 p) no_h2) = Option.bind (H2PseudoHeaderOrder p) nonempty"
  "h2_PriorityTable (overlay_h2 (flattenHTTP2 p) no_h2) = overlay (effective_table p) []"
  "h2_PriorityModel (overlay_h2 (flattenHTTP2 p) no_h2) = (if effective_table p = None then [] else H2PriorityModel p)"
  "h2_PriorityOverHTTP1 (overlay_h2 (flattenHTTP2 p) no_h2) = Some (SendsPriorityOverHTTP1 p)"
  by (auto simp: overlay_h2_def no_h2_def flat_fields overlay_def overlay_ptr_def nonempty_def split: option.split Option.bind_splits)

lemma table_nonempty: "defaultPriorityTable \<noteq> []"
  by (simp add: defaultPriorityTable_def)

lemma own_reloaded: "own_table (reloaded p) = overlay (effective_table p) []"
  by (simp add: own_table_def reloaded_field reloaded_config)

lemma policy_nonempty: "H2HPACKIndexingPolicy p \<noteq> []" "H2StreamPriorityMode p \<noteq> []" "H2PriorityModel p \<noteq> []"
  by (auto simp: H2HPACKIndexingPolicy_def H2StreamPriorityMode_def H2PriorityModel_def h2_field_def split: option.split)

lemma priorities_reloaded:
  "H2HasPriorityTable (reloaded p) = H2HasPriorityTable p" "H2PriorityFor dest (reloaded p) = H2PriorityFor dest p"
  "H2HasPriorityTable p \<Longrightarrow> H2PriorityModel (reloaded p) = H2PriorityModel p"
proof -
  show "H2HasPriorityTable (reloaded p) = H2HasPriorityTable p" "H2PriorityFor dest (reloaded p) = H2PriorityFor dest p"
    unfolding H2HasPriorityTable_def H2PriorityFor_def own_reloaded reloaded_field
    using table_nonempty by (auto simp: effective_table_def overlay_def)
  show "H2PriorityModel (reloaded p) = H2PriorityModel p" if "H2HasPriorityTable p"
    using that
    by (auto simp: H2PriorityModel_def [of "reloaded p"] H2HasPriorityTable_def effective_table_def reloaded_field reloaded_config
        policy_nonempty nonempty_def split: if_splits)
qed

lemma h2_reloaded:
  assumes "describable env p" "nothing_lost p"
  shows "h2_view (reloaded p) = h2_view p"
proof -
  have "H2HeaderOrder p \<noteq> []" "H2SettingsOrder p \<noteq> Some []" "H2PseudoHeaderOrder p \<noteq> Some []"
    using assms(1) unfolding describable_def by blast+
  then have o: "H2HeaderOrder (reloaded p) = H2HeaderOrder p" "H2SettingsOrder (reloaded p) = H2SettingsOrder p"
    "H2PseudoHeaderOrder (reloaded p) = H2PseudoHeaderOrder p"
    by (auto simp: H2HeaderOrder_def [THEN fun_cong, of "reloaded p"] H2SettingsOrder_def [of "reloaded p"] H2PseudoHeaderOrder_def [of "reloaded p"]
        reloaded_field reloaded_config nonempty_def split: Option.bind_splits)
  have sub: "H2HeaderOrderFor dest (reloaded p) = H2HeaderOrderFor dest p" for dest
    using o(1) by (auto simp: H2HeaderOrderFor_def reloaded_field reloaded_config h2_field_def split: option.split)
  have ping: "H2PrefacePingIdle (reloaded p) = H2PrefacePingIdle p" "H2PrefacePingHang (reloaded p) = H2PrefacePingHang p"
    "H2IdlePing (reloaded p) = H2IdlePing p"
    using ping_ms [THEN uint_in_ms]
    by (simp_all add: H2PrefacePingIdle_def [THEN fun_cong, of "reloaded p"] H2PrefacePingHang_def [of "reloaded p"] H2IdlePing_def [THEN fun_cong, of "reloaded p"]
        reloaded_field reloaded_config)
  have "H2HPACKRepresentation (reloaded p) = H2HPACKRepresentation p"
    using assms(2) by (simp add: nothing_lost_def H2HPACKRepresentation_def [THEN fun_cong, of "reloaded p"] reloaded_field reloaded_config nonempty_def)
  moreover have "H2HPACKIndexingPolicy (reloaded p) = H2HPACKIndexingPolicy p" "H2StreamPriorityMode (reloaded p) = H2StreamPriorityMode p"
    "H2HPACKNeverIndex (reloaded p) = H2HPACKNeverIndex p" "H2DataFrameMaxSize (reloaded p) = H2DataFrameMaxSize p"
    "H2DisableCookieSplit (reloaded p) = H2DisableCookieSplit p" "SendsPriorityOverHTTP1 (reloaded p) = SendsPriorityOverHTTP1 p"
    by (simp_all add: H2HPACKIndexingPolicy_def [THEN fun_cong, of "reloaded p"] H2StreamPriorityMode_def [THEN fun_cong, of "reloaded p"]
        H2HPACKNeverIndex_def [THEN fun_cong, of "reloaded p"] H2DataFrameMaxSize_def [of "reloaded p"] H2DisableCookieSplit_def [THEN fun_cong, of "reloaded p"]
        SendsPriorityOverHTTP1_def [of "reloaded p"] reloaded_field reloaded_config nonempty_def policy_nonempty)
  ultimately show ?thesis by (simp add: h2_view_def o sub ping priorities_reloaded)
qed

lemma overlay_ptr_none: "overlay_ptr x None = x"
  by (simp add: overlay_ptr_def split: option.split)

lemma h3_reloaded: "h3_view (reloaded p) = h3_view p"
proof (cases "fp_SupportHTTP3 p \<or> fp_H3Config p \<noteq> None")
  case True
  then have c: "fp_H3Config (reloaded p) = fp_H3Config (applyHTTP3 (flattenHTTP3 p) no_preset)" by (simp add: reloaded_def)
  have order: "H3QUICTransportParamOrder p \<noteq> []"
    by (auto simp: H3QUICTransportParamOrder_def h3_field_def split: option.split)
  define h where "h = the (fp_H3Config (applyHTTP3 (flattenHTTP3 p) no_preset))"
  have "fp_H3Config (reloaded p) = Some h" by (simp add: c h_def applyHTTP3_def Let_def)
  then have f: "h3_field f d (reloaded p) = (case f h of None \<Rightarrow> d | Some v \<Rightarrow> v)" for f and d :: 'z
    by (simp add: h3_field_def)
  have opt: "(case Option.bind (fp_H3Config p) g of None \<Rightarrow> d | Some v \<Rightarrow> v) = h3_field g d p" for g and d :: 'z
    by (auto simp: h3_field_def split: option.split)
  show ?thesis
    unfolding h3_view_def H3QUICConnectionOptions_def H3QUICInitialStreamReceiveWindow_def H3QUICInitialConnectionReceiveWindow_def
    using order
    by (simp add: f opt H3QPACKMaxTableCapacity_def [of "reloaded p"] H3QPACKBlockedStreams_def [THEN fun_cong, of "reloaded p"]
        H3MaxFieldSectionSize_def [of "reloaded p"] H3EnableDatagrams_def [of "reloaded p"]
        H3QUICInitialPacketSize_def [THEN fun_cong, of "reloaded p"] H3QUICMaxIncomingStreams_def [THEN fun_cong, of "reloaded p"]
        H3QUICMaxIncomingUniStreams_def [THEN fun_cong, of "reloaded p"] H3QUICAllow0RTT_def [THEN fun_cong, of "reloaded p"]
        H3QUICChromeStyleInitial_def [THEN fun_cong, of "reloaded p"] H3QUICDisableHelloScramble_def [THEN fun_cong, of "reloaded p"]
        H3QUICTransportParamOrder_def [THEN fun_cong, of "reloaded p"] H3QUICConnectionIDLength_def [THEN fun_cong, of "reloaded p"]
        H3QUICMaxDatagramFrameSize_def [THEN fun_cong, of "reloaded p"] H3MaxResponseHeaderBytes_def [THEN fun_cong, of "reloaded p"]
        H3SendGreaseFrames_def [THEN fun_cong, of "reloaded p"])
      (simp add: h_def applyHTTP3_def flattenHTTP3_def overlay_ptr_none overlay_def no_preset_fields no_h3_def Let_def opt nonempty_def)
next
  case False
  then have "fp_H3Config (reloaded p) = None" "fp_H3Config p = None" by (simp_all add: reloaded_def)
  then have d: "h3_field f d (reloaded p) = d" "h3_field f d p = d" for f and d :: 'z by (simp_all add: h3_field_def)
  show ?thesis
    by (simp add: d h3_view_def H3QPACKMaxTableCapacity_def H3QPACKBlockedStreams_def H3MaxFieldSectionSize_def H3EnableDatagrams_def
        H3QUICInitialPacketSize_def H3QUICMaxIncomingStreams_def H3QUICMaxIncomingUniStreams_def H3QUICAllow0RTT_def
        H3QUICChromeStyleInitial_def H3QUICDisableHelloScramble_def H3QUICTransportParamOrder_def H3QUICConnectionIDLength_def
        H3QUICMaxDatagramFrameSize_def H3QUICConnectionOptions_def H3MaxResponseHeaderBytes_def H3SendGreaseFrames_def
        H3QUICInitialStreamReceiveWindow_def H3QUICInitialConnectionReceiveWindow_def reloaded_field)
qed

lemma own_view_reloaded: "describable env p \<Longrightarrow> nothing_lost p \<Longrightarrow> own_view (reloaded p) = own_view p"
  by (simp add: own_view_def reloaded_def nothing_lost_def describable_def no_preset_def)

section \<open>Properties\<close>

text \<open>
  Property C8. A description gives the preset back: for a preset that takes its ClientHello
  from a registered identity and has nothing that a description leaves out, Describe
  succeeds, the loader accepts the document, and the preset it builds puts the same
  fingerprint on the wire: identities, signature algorithms, trust anchors, headers and
  their order, TCP, HTTP/2 and HTTP/3 settings, all getters included.
\<close>

theorem describe_roundtrip:
  assumes "fp_GetStrict env name = Some p" "describable env p" "nothing_lost p"
  shows "\<exists>doc q. Describe env name = Inr doc \<and> LoadAndBuildPresetFromJSON env lib doc = Inr q \<and> same_fingerprint p q"
proof -
  obtain t where "flattenTLS env p = Inr (Some t)" by (rule flat_tls [OF assms(2)])
  then obtain spec where spec: "flattenToSpec env p = Inr spec" by (simp add: flattenToSpec_def)
  then have "Describe env name = Inr \<lparr>pf_Pool = None, pf_Preset = Some spec\<rparr>" using assms(1) by (simp add: Describe_def)
  moreover note load_described [OF assms(2) spec, of lib]
  moreover have "same_fingerprint p (reloaded p)"
    using h2_reloaded [OF assms(2, 3)] h3_reloaded own_view_reloaded [OF assms(2, 3)] by (simp add: same_fingerprint_def)
  ultimately show ?thesis by blast
qed

text \<open>A preset of a program, for a library with two identities.\<close>

definition demo_preset_env :: preset_env where
  "demo_preset_env =
     \<lparr>px_GOOS = ''linux'', px_utls = (\<lambda>c. (if c = ''HelloChrome_143_Linux'' then (''Chrome'', ''143'') else if c = ''HelloIOS_18'' then (''iOS'', ''18'') else ([], []))),
      px_custom = [(''mine'', no_preset
        \<lparr>fp_Name := ''mine'', fp_ClientHelloID := (''Chrome'', ''143''), fp_UserAgent := ''UA'', fp_Headers := [(''Accept'', ''*/*'')],
         fp_SupportHTTP3 := True, fp_TrustAnchors := [[1, 2]]\<rparr>)]\<rparr>"

lemma demo_hello: "ClientHelloIDName demo_preset_env (''Chrome'', ''143'') = Some ''chrome-143-linux''"
  unfolding ClientHelloIDName_def buildInverseClientHelloIDMap_def hello_table_def clientHelloIDs_def demo_preset_env_def
  by (simp add: has_suffix_def)

theorem describe_roundtrip_witness:
  "\<exists>doc q. Describe demo_preset_env ''mine'' = Inr doc \<and>
     LoadAndBuildPresetFromJSON demo_preset_env \<lparr>hl_RawClientHello = \<lambda>b r s. Inl [], hl_IdToSpec = \<lambda>i s. Inl [], hl_Shuffle = \<lambda>s. s,
       hl_ShuffleJA3 = \<lambda>s. s, hl_ParseRepresentation = \<lambda>s. False\<rparr> doc = Inr q \<and>
     same_fingerprint (the (fp_GetStrict demo_preset_env ''mine'')) q"
proof (rule describe_roundtrip)
  show "fp_GetStrict demo_preset_env ''mine'' = Some (the (fp_GetStrict demo_preset_env ''mine''))" by (simp add: fp_GetStrict_def demo_preset_env_def)
  show "nothing_lost (the (fp_GetStrict demo_preset_env ''mine''))"
    by (simp add: fp_GetStrict_def demo_preset_env_def nothing_lost_def no_preset_def no_hints_def H2HPACKRepresentation_def h2_field_def)
  have "the (fp_GetStrict demo_preset_env ''mine'') = no_preset
        \<lparr>fp_Name := ''mine'', fp_ClientHelloID := (''Chrome'', ''143''), fp_UserAgent := ''UA'', fp_Headers := [(''Accept'', ''*/*'')],
         fp_SupportHTTP3 := True, fp_TrustAnchors := [[1, 2]]\<rparr>" by (simp add: fp_GetStrict_def demo_preset_env_def)
  then show "describable demo_preset_env (the (fp_GetStrict demo_preset_env ''mine''))"
    by (simp only: describable_def)
       (simp add: demo_hello no_preset_def no_hello_def zero_settings_def H2HPACKIndexingPolicy_def H2StreamPriorityMode_def
        H2PriorityModel_def own_table_def H3QUICTransportParamOrder_def H2HeaderOrder_def chrome_header_order_def H2SettingsOrder_def
        H2PseudoHeaderOrder_def h2_field_def h3_field_def)
qed

text \<open>
  Lemma. A description leaves out the client hints, the switch that turns HTTP/2 off and
  the HPACK representations: the preset that is loaded from it has none of them.
\<close>

theorem describe_loses:
  assumes "describable env p" and "flattenToSpec env p = Inr spec"
    and "LoadAndBuildPresetFromJSON env lib \<lparr>pf_Pool = None, pf_Preset = Some spec\<rparr> = Inr q"
  shows "fp_ClientHints q = no_hints \<and> \<not> fp_DisableHTTP2 q \<and> H2HPACKRepresentation q = []"
  using load_described [OF assms(1, 2), of lib] assms(3)
  by (auto simp: reloaded_def no_preset_def H2HPACKRepresentation_def h2_field_def reloaded_config nonempty_def)


end
