(* ===== verification/Transport_Errors.thy ===== *)
theory Transport_Errors
  imports Go_Prelude
begin

text \<open>
  Errors of the transports: the model of \<^verbatim>\<open>transport/errors.go\<close>. An error value is a
  tree, with the wrapping of Go's \<^verbatim>\<open>errors\<close> package, so that \<^verbatim>\<open>errors.Is\<close>, \<^verbatim>\<open>errors.As\<close>
  and the plain type assertions of the source can be told apart.
\<close>

section \<open>Error values\<close>

datatype category =
    ErrConnection | ErrTLS | ErrDNS | ErrTimeout | ErrProxy | ErrProtocol | ErrRequest | ErrResponse | ErrClosed | ErrALPNMismatch

text \<open>
  A sentinel, a plain text, a \<^verbatim>\<open>net.Error\<close> with its two answers, a \<^verbatim>\<open>net.DNSError\<close> (which is
  one too), an error that wraps another behind some text, and the three types of the
  file. The connection an ALPN mismatch carries is a number.
\<close>

datatype go_error =
    Sentinel category
  | Plain string
  | NetError string bool bool
  | DNSError string bool bool
  | Wrapped string go_error
  | TransportError string string string string "go_error option" "category option" bool
  | RequestNotSent go_error
  | ALPNMismatchError string string nat string string

fun category_text :: "category \<Rightarrow> string" where
  "category_text ErrConnection = ''connection error''"
| "category_text ErrTLS = ''TLS error''"
| "category_text ErrDNS = ''DNS error''"
| "category_text ErrTimeout = ''timeout error''"
| "category_text ErrProxy = ''proxy error''"
| "category_text ErrProtocol = ''protocol error''"
| "category_text ErrRequest = ''request error''"
| "category_text ErrResponse = ''response error''"
| "category_text ErrClosed = ''transport closed''"
| "category_text ErrALPNMismatch = ''ALPN mismatch''"

fun err_Error :: "go_error \<Rightarrow> string" where
  "err_Error (Sentinel c) = category_text c"
| "err_Error (Plain s) = s"
| "err_Error (NetError s t p) = s"
| "err_Error (DNSError s t p) = s"
| "err_Error (Wrapped s e) = s @ err_Error e"
| "err_Error (TransportError op host port protocol cause cat r) =
     op @ (if host \<noteq> [] then '' '' @ host @ (if port \<noteq> [] \<and> port \<noteq> ''443'' \<and> port \<noteq> ''80'' then '':'' @ port else []) else []) @
     (if protocol \<noteq> [] then '' ['' @ protocol @ '']'' else []) @
     (case cause of None \<Rightarrow> [] | Some e \<Rightarrow> '': '' @ err_Error e)"
| "err_Error (RequestNotSent e) = err_Error e"
| "err_Error (ALPNMismatchError expected negotiated conn host port) = ''ALPN mismatch: expected '' @ expected @ '', got '' @ negotiated"

fun err_Unwrap :: "go_error \<Rightarrow> go_error option" where
  "err_Unwrap (Wrapped s e) = Some e"
| "err_Unwrap (TransportError op host port protocol cause cat r) = cause"
| "err_Unwrap (RequestNotSent e) = Some e"
| "err_Unwrap (ALPNMismatchError x n c h p) = Some (Sentinel ErrALPNMismatch)"
| "err_Unwrap e = None"

fun err_depth :: "go_error \<Rightarrow> nat" where
  "err_depth (Wrapped s e) = Suc (err_depth e)"
| "err_depth (TransportError op host port protocol cause cat r) = (case cause of None \<Rightarrow> 0 | Some e \<Rightarrow> Suc (err_depth e))"
| "err_depth (RequestNotSent e) = Suc (err_depth e)"
| "err_depth (ALPNMismatchError x n c h p) = 1"
| "err_depth e = 0"

lemma unwrap_smaller: "err_Unwrap e = Some c \<Longrightarrow> err_depth c < err_depth e"
  by (cases e rule: err_Unwrap.cases) auto

text \<open>\<^verbatim>\<open>errors.Is\<close> for a sentinel, with the \<^verbatim>\<open>Is\<close> method of \<^verbatim>\<open>TransportError\<close>.\<close>

fun errors_Is :: "go_error \<Rightarrow> category \<Rightarrow> bool" where
  "errors_Is (Sentinel c) target = (c = target)"
| "errors_Is (Wrapped s e) target = errors_Is e target"
| "errors_Is (TransportError op host port protocol cause cat r) target =
     (cat = Some target \<or> (case cause of None \<Rightarrow> False | Some e \<Rightarrow> errors_Is e target))"
| "errors_Is (RequestNotSent e) target = errors_Is e target"
| "errors_Is (ALPNMismatchError x n c h p) target = (target = ErrALPNMismatch)"
| "errors_Is e target = False"

text \<open>\<^verbatim>\<open>errors.As\<close>: the first error of the chain with a property.\<close>

function errors_As :: "(go_error \<Rightarrow> bool) \<Rightarrow> go_error \<Rightarrow> go_error option" where
  "errors_As p e = (if p e then Some e else case err_Unwrap e of None \<Rightarrow> None | Some c \<Rightarrow> errors_As p c)"
  by auto

termination
  by (relation "measure (\<lambda>(p, e). err_depth e)") (auto simp: unwrap_smaller)

declare errors_As.simps [simp del]

fun is_transport_error :: "go_error \<Rightarrow> bool" where
  "is_transport_error (TransportError op host port protocol cause cat r) = True"
| "is_transport_error e = False"

fun is_not_sent :: "go_error \<Rightarrow> bool" where
  "is_not_sent (RequestNotSent e) = True"
| "is_not_sent e = False"

fun is_alpn :: "go_error \<Rightarrow> bool" where
  "is_alpn (ALPNMismatchError x n c h p) = True"
| "is_alpn e = False"

text \<open>The type assertions to \<^verbatim>\<open>net.Error\<close> and \<^verbatim>\<open>*net.DNSError\<close>, which do not unwrap.\<close>

fun net_timeout :: "go_error \<Rightarrow> bool" where
  "net_timeout (NetError s t p) = t"
| "net_timeout (DNSError s t p) = t"
| "net_timeout e = False"

fun net_temporary :: "go_error \<Rightarrow> bool" where
  "net_temporary (NetError s t p) = p"
| "net_temporary (DNSError s t p) = p"
| "net_temporary e = False"

fun is_dns :: "go_error \<Rightarrow> bool" where
  "is_dns (DNSError s t p) = True"
| "is_dns e = False"

section \<open>Classification\<close>

definition mentions :: "go_error \<Rightarrow> string list \<Rightarrow> bool" where
  "mentions err words = (let errStr = to_lower (err_Error err) in list_ex (contains errStr) words)"

definition categorizeError :: "go_error \<Rightarrow> category" where
  "categorizeError err =
     (if net_timeout err then ErrTimeout
      else if is_dns err then ErrDNS
      else if mentions err [''tls'', ''certificate'', ''x509'', ''handshake''] then ErrTLS
      else if mentions err [''connection refused'', ''connection reset'', ''broken pipe'', ''no route to host'', ''network is unreachable'']
        then ErrConnection
      else if mentions err [''proxy''] then ErrProxy
      else if mentions err [''protocol'', ''http2'', ''alpn''] then ErrProtocol
      else ErrConnection)"

definition transport_isRetryableError :: "go_error option \<Rightarrow> bool" where
  "transport_isRetryableError err0 =
     (case err0 of
        None \<Rightarrow> False
      | Some err \<Rightarrow>
          if net_timeout err then True
          else if net_temporary err then True
          else if mentions err [''connection reset'', ''connection refused'', ''broken pipe''] then True
          else if is_dns err then True
          else mentions err [''eof''])"

section \<open>Constructors\<close>

definition NewConnectionError :: "string \<Rightarrow> string \<Rightarrow> string \<Rightarrow> string \<Rightarrow> go_error option \<Rightarrow> go_error" where
  "NewConnectionError op host port protocol cause =
     TransportError op host port protocol cause (Some ErrConnection) (transport_isRetryableError cause)"

definition NewTLSError :: "string \<Rightarrow> string \<Rightarrow> string \<Rightarrow> string \<Rightarrow> go_error option \<Rightarrow> go_error" where
  "NewTLSError op host port protocol cause = TransportError op host port protocol cause (Some ErrTLS) False"

definition NewDNSError :: "string \<Rightarrow> go_error option \<Rightarrow> go_error" where
  "NewDNSError host cause = TransportError ''dns_resolve'' host [] [] cause (Some ErrDNS) True"

definition NewTimeoutError :: "string \<Rightarrow> string \<Rightarrow> string \<Rightarrow> string \<Rightarrow> go_error option \<Rightarrow> go_error" where
  "NewTimeoutError op host port protocol cause = TransportError op host port protocol cause (Some ErrTimeout) True"

definition NewProxyError :: "string \<Rightarrow> string \<Rightarrow> string \<Rightarrow> go_error option \<Rightarrow> go_error" where
  "NewProxyError op host port cause = TransportError op host port [] cause (Some ErrProxy) False"

definition NewProtocolError :: "string \<Rightarrow> string \<Rightarrow> string \<Rightarrow> go_error option \<Rightarrow> go_error" where
  "NewProtocolError host port protocol cause = TransportError ''protocol_negotiation'' host port protocol cause (Some ErrProtocol) False"

definition NewRequestError :: "string \<Rightarrow> string \<Rightarrow> string \<Rightarrow> string \<Rightarrow> go_error option \<Rightarrow> go_error" where
  "NewRequestError op host port protocol cause = TransportError op host port protocol cause (Some ErrRequest) (transport_isRetryableError cause)"

definition markNotSent :: "go_error option \<Rightarrow> go_error option" where
  "markNotSent err = map_option RequestNotSent err"

text \<open>\<open>gotConn\<close>: the HTTP/3 layer had a connection to send the request on.\<close>

definition h3NotSent :: "go_error option \<Rightarrow> bool \<Rightarrow> go_error option" where
  "h3NotSent err gotConn = (if gotConn then err else markNotSent err)"

definition errHTTP3Disabled :: "string \<Rightarrow> string \<Rightarrow> go_error" where
  "errHTTP3Disabled host port =
     RequestNotSent (NewProtocolError host port ''h3'' (Some (Plain ''HTTP/3 is disabled on this transport'')))"

definition requestNotSent :: "go_error \<Rightarrow> bool" where
  "requestNotSent err = (errors_As is_not_sent err \<noteq> None)"

definition WrapError :: "string \<Rightarrow> string \<Rightarrow> string \<Rightarrow> string \<Rightarrow> go_error option \<Rightarrow> go_error option" where
  "WrapError op host port protocol cause0 =
     (case cause0 of
        None \<Rightarrow> None
      | Some cause \<Rightarrow>
          if errors_As is_transport_error cause \<noteq> None then Some cause
          else
            (let inner = (case cause of RequestNotSent e \<Rightarrow> e | _ \<Rightarrow> cause) in
             Some (TransportError op host port protocol (Some cause) (Some (categorizeError inner)) (transport_isRetryableError (Some inner)))))"

section \<open>Questions\<close>

text \<open>What \<^verbatim>\<open>errors.Is(te.Category, target)\<close> says of the transport error of a chain, if it has one.\<close>

fun category_of :: "go_error \<Rightarrow> category option" where
  "category_of (TransportError op host port protocol cause cat r) = cat"
| "category_of e = None"

definition IsTimeout :: "go_error option \<Rightarrow> bool" where
  "IsTimeout err0 =
     (case err0 of
        None \<Rightarrow> False
      | Some err \<Rightarrow> (case errors_As is_transport_error err of Some te \<Rightarrow> category_of te = Some ErrTimeout | None \<Rightarrow> net_timeout err))"

definition IsTLSError :: "go_error option \<Rightarrow> bool" where
  "IsTLSError err0 =
     (case err0 of
        None \<Rightarrow> False
      | Some err \<Rightarrow> (case errors_As is_transport_error err of Some te \<Rightarrow> category_of te = Some ErrTLS | None \<Rightarrow> mentions err [''tls'']))"

definition IsDNSError :: "go_error option \<Rightarrow> bool" where
  "IsDNSError err0 =
     (case err0 of
        None \<Rightarrow> False
      | Some err \<Rightarrow> (case errors_As is_transport_error err of Some te \<Rightarrow> category_of te = Some ErrDNS | None \<Rightarrow> is_dns err))"

definition IsConnectionError :: "go_error option \<Rightarrow> bool" where
  "IsConnectionError err0 =
     (case err0 of
        None \<Rightarrow> False
      | Some err \<Rightarrow> (case errors_As is_transport_error err of Some te \<Rightarrow> category_of te = Some ErrConnection | None \<Rightarrow> False))"

definition IsProxyError :: "go_error option \<Rightarrow> bool" where
  "IsProxyError err0 =
     (case err0 of
        None \<Rightarrow> False
      | Some err \<Rightarrow> (case errors_As is_transport_error err of Some te \<Rightarrow> category_of te = Some ErrProxy | None \<Rightarrow> mentions err [''proxy'']))"

record http_error =
  he_StatusCode :: int
  he_Status :: string

definition IsClientError :: "http_error \<Rightarrow> bool" where
  "IsClientError e \<longleftrightarrow> 400 \<le> he_StatusCode e \<and> he_StatusCode e < 500"

definition IsServerError :: "http_error \<Rightarrow> bool" where
  "IsServerError e \<longleftrightarrow> 500 \<le> he_StatusCode e"

definition he_IsRetryable :: "http_error \<Rightarrow> bool" where
  "he_IsRetryable e \<longleftrightarrow> he_StatusCode e \<in> {408, 425, 429, 500, 502, 503, 504}"

section \<open>Wrapping\<close>

lemma As_base [simp]: "p e \<Longrightarrow> errors_As p e = Some e"
  by (simp add: errors_As.simps)

lemma As_transport [simp]:
  "\<not> p (TransportError op host port protocol cause cat r) \<Longrightarrow>
     errors_As p (TransportError op host port protocol cause cat r) = Option.bind cause (errors_As p)"
  by (subst errors_As.simps) (simp split: option.split)

lemma As_not_sent [simp]: "\<not> p (RequestNotSent e) \<Longrightarrow> errors_As p (RequestNotSent e) = errors_As p e"
  by (subst errors_As.simps) simp

text \<open>
  Lemma. Wrapping keeps what a retry depends on: a wrapped error says that the request
  was not sent exactly when the cause did, it carries the same ALPN mismatch with its
  connection, it still is every category the cause was, and wrapping it once more changes
  nothing. What is new is never a category of its own for a marked error: it is that of the
  error inside the mark.
\<close>

theorem wrap_preserves:
  assumes "WrapError op host port protocol (Some cause) = Some e"
  shows "requestNotSent e = requestNotSent cause \<and> errors_As is_alpn e = errors_As is_alpn cause \<and>
    (errors_Is cause c \<longrightarrow> errors_Is e c) \<and> WrapError op' host' port' protocol' (Some e) = Some e \<and>
    (errors_As is_transport_error cause = None \<and> cause = RequestNotSent inner \<longrightarrow> category_of e = Some (categorizeError inner))"
proof (cases "errors_As is_transport_error cause")
  case None
  then have e: "\<exists>cat r. e = TransportError op host port protocol (Some cause) (Some cat) r \<and>
      (cause = RequestNotSent inner \<longrightarrow> cat = categorizeError inner)"
    using assms by (auto simp: WrapError_def Let_def)
  then show ?thesis using None by (auto simp: requestNotSent_def WrapError_def)
next
  case (Some te)
  then have "e = cause" using assms by (simp add: WrapError_def)
  then show ?thesis using Some by (simp add: WrapError_def)
qed

theorem wrap_preserves_witness:
  "requestNotSent (the (WrapError ''roundtrip'' ''a.test'' ''443'' ''h2'' (Some (RequestNotSent (Plain ''connection refused'')))))"
proof -
  have w: "WrapError ''roundtrip'' ''a.test'' ''443'' ''h2'' (Some (RequestNotSent (Plain ''connection refused''))) =
      Some (the (WrapError ''roundtrip'' ''a.test'' ''443'' ''h2'' (Some (RequestNotSent (Plain ''connection refused'')))))"
    by (simp add: WrapError_def Let_def)
  show ?thesis
    unfolding wrap_preserves [OF w, THEN conjunct1] by (simp add: requestNotSent_def)
qed

text \<open>
  Lemma. A name that does not resolve is not a DNS error once the dialler has wrapped it:
  the type assertion does not look inside, so the error is a connection error.
\<close>

theorem wrapped_dns_lost:
  "categorizeError (Wrapped ''dial tcp: '' (DNSError ''lookup a.test: no such host'' False False)) = ErrConnection \<and>
   \<not> IsDNSError (WrapError ''dial'' ''a.test'' ''443'' ''h2'' (Some (Wrapped ''dial tcp: '' (DNSError ''lookup a.test: no such host'' False False))))"
proof -
  have c: "categorizeError (Wrapped ''dial tcp: '' (DNSError ''lookup a.test: no such host'' False False)) = ErrConnection"
    by code_simp
  then show ?thesis
    by (simp add: Let_def WrapError_def IsDNSError_def errors_As.simps [of _ "Wrapped _ _"] errors_As.simps [of _ "DNSError _ _ _"])
qed


end
