(* ===== verification/Transport_Dialing.thy ===== *)
theory Transport_Dialing
  imports Transport_Errors DNS_Cache
begin

text \<open>
  How the transports dial: the retry of \<^verbatim>\<open>retryDial\<close> and the staggered race of
  \<^verbatim>\<open>staggeredRace\<close> (both \<^verbatim>\<open>transport/tcpip.go\<close>), and the encrypted client hello that is tried
  first and given up when a server does not understand it (\<^verbatim>\<open>http2_transport.go\<close>,
  \<^verbatim>\<open>http3_transport.go\<close>). Dial functions are arguments; what several goroutines report is a
  list of events in the order in which the loop receives them.
\<close>

section \<open>Retries\<close>

definition proxyDialAttempts :: nat where
  "proxyDialAttempts = 2"

text \<open>
  \<open>parentErr i\<close> is the state of the parent context before attempt \<open>i\<close>, \<open>waitErr i\<close> whether it ends
  during the pause after it, \<open>dial i\<close> what the attempt returns.
\<close>

fun dial_retry_loop ::
    "(nat \<Rightarrow> go_error option) \<Rightarrow> (nat \<Rightarrow> go_error option) \<Rightarrow> (nat \<Rightarrow> go_error + 'a) \<Rightarrow> nat \<Rightarrow> nat \<Rightarrow> go_error \<Rightarrow> (go_error + 'a) \<times> nat" where
  "dial_retry_loop parentErr waitErr dial 0 attempt lastErr = (Inl lastErr, attempt)"
| "dial_retry_loop parentErr waitErr dial (Suc left) attempt lastErr =
     (case parentErr attempt of
        Some e \<Rightarrow> (Inl e, attempt)
      | None \<Rightarrow>
          (case dial attempt of
             Inr v \<Rightarrow> (Inr v, Suc attempt)
           | Inl err \<Rightarrow>
               if errors_As is_alpn err \<noteq> None then (Inl err, Suc attempt)
               else if left \<noteq> 0 then
                 (case waitErr attempt of
                    Some e \<Rightarrow> (Inl e, Suc attempt)
                  | None \<Rightarrow> dial_retry_loop parentErr waitErr dial left (Suc attempt) err)
               else (Inl err, Suc attempt)))"

text \<open>The result and the number of dials.\<close>

definition retryDial ::
    "(nat \<Rightarrow> go_error option) \<Rightarrow> (nat \<Rightarrow> go_error option) \<Rightarrow> int \<Rightarrow> (nat \<Rightarrow> go_error + 'a) \<Rightarrow> (go_error + 'a) \<times> nat" where
  "retryDial parentErr waitErr attempts dial = dial_retry_loop parentErr waitErr dial (if attempts < 1 then 1 else nat attempts) 0 (Plain [])"

section \<open>The staggered race\<close>

datatype 'a dial_event = TimerFired | DialDone "go_error + 'a" | ParentDone go_error

fun is_result :: "'a dial_event \<Rightarrow> bool" where
  "is_result (DialDone r) = True"
| "is_result e = False"

fun successes :: "'a dial_event list \<Rightarrow> 'a list" where
  "successes [] = []"
| "successes (DialDone (Inr v) # es) = v # successes es"
| "successes (e # es) = successes es"

text \<open>The connections that the first \<open>rem\<close> results after the race bring, all closed.\<close>

fun drain_results :: "nat \<Rightarrow> 'a dial_event list \<Rightarrow> 'a list" where
  "drain_results 0 es = []"
| "drain_results rem [] = []"
| "drain_results (Suc rem) (DialDone (Inr v) # es) = v # drain_results rem es"
| "drain_results (Suc rem) (DialDone (Inl e) # es) = drain_results rem es"
| "drain_results (Suc rem) (e # es) = drain_results (Suc rem) es"

record 'a race_result =
  ra_result :: "go_error + 'a"
  ra_launched :: nat
  ra_closed :: "'a list"

text \<open>\<open>None\<close>: the events do not end the race.\<close>

fun race_loop :: "nat \<Rightarrow> nat \<Rightarrow> nat \<Rightarrow> 'a dial_event list \<Rightarrow> 'a race_result option" where
  "race_loop n launched pending [] = None"
| "race_loop n launched pending (ParentDone e # es) =
     Some \<lparr>ra_result = Inl e, ra_launched = launched, ra_closed = drain_results pending es\<rparr>"
| "race_loop n launched pending (TimerFired # es) =
     (if launched < n then race_loop n (launched + 1) (pending + 1) es else race_loop n launched pending es)"
| "race_loop n launched pending (DialDone (Inr v) # es) =
     Some \<lparr>ra_result = Inr v, ra_launched = launched, ra_closed = drain_results (pending - 1) es\<rparr>"
| "race_loop n launched pending (DialDone (Inl e) # es) =
     (if launched < n then race_loop n (launched + 1) pending es
      else if pending - 1 = 0 then Some \<lparr>ra_result = Inl e, ra_launched = launched, ra_closed = []\<rparr>
      else race_loop n launched (pending - 1) es)"

definition staggeredRace :: "nat \<Rightarrow> 'a dial_event list \<Rightarrow> 'a race_result option" where
  "staggeredRace n es =
     (if n = 0 then Some \<lparr>ra_result = Inl (Plain ''no candidates to dial''), ra_launched = 0, ra_closed = []\<rparr>
      else race_loop n 1 1 es)"

section \<open>Encrypted client hello\<close>

definition isECHRejectionError :: "go_error \<Rightarrow> bool" where
  "isECHRejectionError err =
     list_ex (contains (err_Error err))
       [''CRYPTO_ERROR'', ''illegal parameter'', ''bad_record_mac'', ''decrypt_error'', ''decode_error'', ''handshake failure'', ''ECH'',
        ''encrypted_client_hello'']"

definition echCausedDialFailure :: "go_error \<Rightarrow> bool" where
  "echCausedDialFailure err =
     (if isECHRejectionError err then True
      else list_ex (contains (err_Error err)) [''certificate'', ''x509'', ''tls: handshake'', ''tls: server''])"

definition echAttemptMaxBudget :: duration where
  "echAttemptMaxBudget = 6 * second"

text \<open>The time the attempt gets: \<open>None\<close> leaves a deadline that has passed as it is.\<close>

definition boundedECHAttempt :: "duration option \<Rightarrow> duration option" where
  "boundedECHAttempt remaining =
     (case remaining of
        None \<Rightarrow> Some echAttemptMaxBudget
      | Some r \<Rightarrow> if r \<le> 0 then None else Some (min (r div 2) echAttemptMaxBudget))"

definition is_deadline :: "go_error \<Rightarrow> bool" where
  "is_deadline e \<longleftrightarrow> errors_As (\<lambda>x. x = NetError ''context deadline exceeded'' True True) e \<noteq> None"

text \<open>
  \<open>echConfigured\<close>, the state of the package \<^verbatim>\<open>dns\<close>, and \<open>establish skipECH\<close>: the result of an attempt.
  Returned are the result, the new state and the attempts made.
\<close>

definition h2_createConn ::
    "time \<Rightarrow> string \<Rightarrow> bool \<Rightarrow> bool \<Rightarrow> (bool \<Rightarrow> go_error + 'a) \<Rightarrow> ech_state \<Rightarrow> (go_error + 'a) \<times> ech_state \<times> bool list" where
  "h2_createConn now host echConfigured ctxDone establish s =
     (if \<not> echConfigured \<or> IsECHIncompatible now host s then
        (let skip = (echConfigured \<and> IsECHIncompatible now host s) in (establish skip, s, [skip]))
      else
        (case establish False of
           Inr conn \<Rightarrow> (Inr conn, s, [False])
         | Inl err \<Rightarrow>
             if errors_As is_alpn err \<noteq> None then (Inl err, s, [False])
             else if ctxDone then (Inl err, s, [False])
             else if echCausedDialFailure err \<or> is_deadline err
             then (establish True, MarkECHIncompatible now host s, [False, True])
             else (Inl err, s, [False])))"

section \<open>Properties\<close>

lemma dial_retry_loop_bounds:
  "dial_retry_loop pe we dial left attempt le = (r, n) \<Longrightarrow> n \<le> attempt + left \<and>
     (r = Inr v \<longrightarrow> attempt < n \<and> dial (n - 1) = Inr v) \<and>
     (\<forall>i. attempt \<le> i \<and> i + 1 < n \<longrightarrow> (\<exists>e. dial i = Inl e \<and> errors_As is_alpn e = None))"
proof (induction pe we dial left attempt le rule: dial_retry_loop.induct)
  case (2 pe we dial left attempt le)
  show ?case
  proof (cases "pe attempt")
    case None
    show ?thesis
    proof (cases "dial attempt")
      case (Inl err)
      show ?thesis
      proof (cases "errors_As is_alpn err = None \<and> left \<noteq> 0 \<and> we attempt = None")
        case True
        then have r: "dial_retry_loop pe we dial left (Suc attempt) err = (r, n)" using 2(2) None Inl by simp
        have ih: "n \<le> Suc attempt + left" "r = Inr v \<longrightarrow> Suc attempt < n \<and> dial (n - 1) = Inr v"
          "\<forall>i. Suc attempt \<le> i \<and> i + 1 < n \<longrightarrow> (\<exists>e. dial i = Inl e \<and> errors_As is_alpn e = None)"
          using 2(1) [OF None Inl _ _ _ r] True by auto
        then show ?thesis using Inl True by (metis Suc_leI add_Suc_shift le_neq_implies_less less_Suc_eq not_less_eq_eq order_le_less)
      next
        case False
        then show ?thesis using 2(2) None Inl by (auto split: option.splits if_splits)
      qed
    qed (use 2(2) None in auto)
  qed (use 2(2) in auto)
qed auto

text \<open>
  Lemma. A dial is retried only when that is safe and at most as often as allowed: the
  attempts are bounded, a connection that is returned is that of the last one, and every
  attempt that is followed by another one failed and left no live connection behind.
\<close>

theorem dial_retries_bounded:
  assumes "retryDial pe we attempts dial = (r, n)"
  shows "n \<le> max 1 (nat attempts) \<and> (r = Inr v \<longrightarrow> 0 < n \<and> dial (n - 1) = Inr v) \<and>
    (i + 1 < n \<longrightarrow> (\<exists>e. dial i = Inl e \<and> errors_As is_alpn e = None))"
  using dial_retry_loop_bounds [OF assms [unfolded retryDial_def], of v] by (auto simp: max_def split: if_splits)

theorem dial_retries_bounded_witness:
  "snd (retryDial (\<lambda>i. None) (\<lambda>i. None) (int proxyDialAttempts) (\<lambda>i. if i = 1 then Inr (7 :: nat) else Inl (Plain ''refused''))) \<le> 2"
proof -
  obtain r n where d: "retryDial (\<lambda>i. None) (\<lambda>i. None) (int proxyDialAttempts) (\<lambda>i. if i = 1 then Inr (7 :: nat) else Inl (Plain ''refused'')) = (r, n)"
    by (cases "retryDial (\<lambda>i. None) (\<lambda>i. None) (int proxyDialAttempts) (\<lambda>i. if i = 1 then Inr (7 :: nat) else Inl (Plain ''refused''))")
  show ?thesis using dial_retries_bounded [OF d, THEN conjunct1] d by (simp add: proxyDialAttempts_def numeral_2_eq_2)
qed

lemma no_results_no_success: "length (filter is_result es) = 0 \<Longrightarrow> successes es = []"
  by (induction es rule: successes.induct) auto

lemma drain_all_results: "length (filter is_result es) \<le> rem \<Longrightarrow> drain_results rem es = successes es"
  by (induction rem es rule: drain_results.induct) (auto simp: no_results_no_success)

lemma race_loop_conns:
  assumes "race_loop n launched pending es = Some ra" and "length (filter is_result es) + launched \<le> ra_launched ra + pending"
    and "launched \<le> n" and "0 < pending"
  shows "successes es = (case ra_result ra of Inr v \<Rightarrow> [v] | Inl e \<Rightarrow> []) @ ra_closed ra \<and> launched \<le> ra_launched ra \<and> ra_launched ra \<le> n"
  using assms
proof (induction n launched pending es rule: race_loop.induct)
  case (5 n launched pending e es)
  show ?case
  proof (cases "launched = n \<and> pending = 1")
    case True
    then have "successes es = []" using 5(3,4) by (intro no_results_no_success) auto
    then show ?thesis using 5(3) True by auto
  next
    case False
    then show ?thesis using 5 by (auto split: if_splits)
  qed
qed (auto simp: drain_all_results split: if_splits)

text \<open>
  Property C25. A staggered race loses no connection: when every dial that was started reports at
  most once, the connections that came up are exactly the one that is returned and those
  that are closed, whether a dial won, all failed or the caller gave up, and no more dials are
  started than there are candidates.
\<close>

theorem race_loses_no_connection:
  assumes "staggeredRace n es = Some ra" and "length (filter is_result es) \<le> ra_launched ra"
  shows "successes es = (case ra_result ra of Inr v \<Rightarrow> [v] | Inl e \<Rightarrow> []) @ ra_closed ra \<and> ra_launched ra \<le> n"
proof (cases "n = 0")
  case True
  then show ?thesis using assms by (auto simp: staggeredRace_def no_results_no_success)
next
  case False
  then have "race_loop n 1 1 es = Some ra" using assms(1) by (simp add: staggeredRace_def)
  then show ?thesis using race_loop_conns [of n 1 1 es ra] assms(2) False by simp
qed

theorem race_loses_no_connection_witness:
  "[5, 6] = (case ra_result (the (staggeredRace 3 [TimerFired, DialDone (Inl (Plain [])), DialDone (Inr (5 :: nat)), DialDone (Inr 6)])) of
     Inr v \<Rightarrow> [v] | Inl e \<Rightarrow> []) @ ra_closed (the (staggeredRace 3 [TimerFired, DialDone (Inl (Plain [])), DialDone (Inr 5), DialDone (Inr 6)]))"
  using race_loses_no_connection [of 3 "[TimerFired, DialDone (Inl (Plain [])), DialDone (Inr (5 :: nat)), DialDone (Inr 6)]"
      "the (staggeredRace 3 [TimerFired, DialDone (Inl (Plain [])), DialDone (Inr (5 :: nat)), DialDone (Inr 6)])"]
  by (simp add: staggeredRace_def numeral_3_eq_3)

lemma race_loop_returns:
  assumes "n \<le> length (filter is_result es) + launched - pending" and "pending \<le> launched" and "launched \<le> n" and "0 < pending"
  shows "\<exists>ra. race_loop n launched pending es = Some ra"
  using assms
proof (induction n launched pending es rule: race_loop.induct)
  case (5 n launched pending e es)
  then show ?case by (auto split: if_splits)
qed auto

text \<open>
  Property C26. A staggered race ends: once as many dials have reported as there are candidates
  it returns, whatever the order of the reports, the timer and the caller's context.
\<close>

theorem race_returns:
  assumes "n \<le> length (filter is_result es)"
  shows "\<exists>ra. staggeredRace n es = Some ra"
  using race_loop_returns [of n es 1 1] assms by (cases "n = 0") (auto simp: staggeredRace_def)

theorem race_returns_witness:
  "\<exists>ra. staggeredRace 2 [DialDone (Inl (Plain [])), DialDone (Inr (5 :: nat))] = Some ra"
  by (rule race_returns) simp

text \<open>
  Lemma. A server that does not understand the encrypted client hello is reached without
  it: a dial makes at most two attempts, the second one only after the first failed for a
  reason of the hello or ran out of its share of the time and without a live connection, and
  then the host is remembered, so that the next dial does not try the hello again; no
  attempt ever uses the hello for a remembered host.
\<close>

theorem ech_degrades:
  assumes "h2_createConn now host echConfigured ctxDone establish s = (r, s', attempts)"
  shows "attempts \<in> {[False], [True], [False, True]} \<and> r = establish (List.last attempts) \<and>
    (attempts = [False, True] \<longrightarrow>
       (\<exists>e. establish False = Inl e \<and> errors_As is_alpn e = None) \<and> \<not> ctxDone \<and> IsECHIncompatible now host s' \<and>
       snd (snd (h2_createConn now host echConfigured ctxDone establish s')) = [True]) \<and>
    (echConfigured \<and> IsECHIncompatible now host s \<longrightarrow> attempts = [True])"
  using assms
  by (auto simp: h2_createConn_def Let_def IsECHIncompatible_def MarkECHIncompatible_def split: if_splits sum.splits)

theorem ech_degrades_witness:
  "IsECHIncompatible 0 ''a.test'' (fst (snd (h2_createConn 0 ''a.test'' True False
     (\<lambda>skip. if skip then Inr (1 :: nat) else Inl (Plain ''ECH'')) \<lparr>es_cache = [], es_incompat = [], es_servers = []\<rparr>)))"
proof -
  have e: "echCausedDialFailure (Plain ''ECH'')" by code_simp
  show ?thesis
    using ech_degrades [of 0 "''a.test''" True False "\<lambda>skip. if skip then Inr (1 :: nat) else Inl (Plain ''ECH'')" "\<lparr>es_cache = [], es_incompat = [], es_servers = []\<rparr>"]
      e by (auto simp: h2_createConn_def IsECHIncompatible_def errors_As.simps [of _ "Plain _"] split: if_splits)
qed

end
