(* ===== verification/HTTP2_Pool.thy ===== *)
theory HTTP2_Pool
  imports Transport_Dialing
begin

text \<open>
  The connection pool of \<^verbatim>\<open>transport/http2_transport.go\<close>: connections shared by requests, kept in
  use while a response body streams, retired when they are no longer wanted and closed when
  the last body is done. Connections are the entries of a heap and are known by their index,
  so that a connection out of the map is still one; response bodies are a list of the
  connection they hold and whether they have let go. Operations run one after the other, a
  goroutine that closes or retires runs at once, and the result of a dial or of a round trip is
  an argument. Coalescing concurrent dials is left out.
\<close>

section \<open>State\<close>

record persistent_conn =
  pc_host :: string
  pc_createdAt :: time
  pc_lastUsedAt :: time
  pc_useCount :: int
  pc_inFlight :: int
  pc_closeRequested :: bool
  pc_closed :: bool
  pc_lastProgress :: time

record h2_transport =
  ht_conns :: "(string, nat) gomap"
  ht_heap :: "persistent_conn list"
  ht_retired :: "nat list"
  ht_bodies :: "(nat \<times> bool) list"
  ht_closed :: bool
  ht_cleanupStopped :: bool
  ht_connectTo :: "(string, string) gomap"
  ht_proxied :: bool
  ht_maxIdleTime :: duration
  ht_maxConnAge :: duration
  ht_abandonedBodyTimeout :: duration

definition NewHTTP2Transport :: "(string, string) gomap \<Rightarrow> bool \<Rightarrow> h2_transport" where
  "NewHTTP2Transport connectTo proxied =
     \<lparr>ht_conns = [], ht_heap = [], ht_retired = [], ht_bodies = [], ht_closed = False, ht_cleanupStopped = False,
      ht_connectTo = connectTo, ht_proxied = proxied, ht_maxIdleTime = 90 * second, ht_maxConnAge = 5 * minute,
      ht_abandonedBodyTimeout = 10 * minute\<rparr>"

definition on_conn :: "nat \<Rightarrow> (persistent_conn \<Rightarrow> persistent_conn) \<Rightarrow> h2_transport \<Rightarrow> h2_transport" where
  "on_conn i f t = (if i < length (ht_heap t) then t\<lparr>ht_heap := (ht_heap t)[i := f (ht_heap t ! i)]\<rparr> else t)"

definition transport_closed :: go_error where
  "transport_closed = Plain ''http2: transport closed''"

section \<open>A connection\<close>

definition close_pc :: "nat \<Rightarrow> h2_transport \<Rightarrow> h2_transport" where
  "close_pc i = on_conn i (\<lambda>c. c\<lparr>pc_closed := True\<rparr>)"

definition release :: "time \<Rightarrow> nat \<Rightarrow> h2_transport \<Rightarrow> h2_transport" where
  "release now i t =
     (let t1 = on_conn i (\<lambda>c. c\<lparr>pc_inFlight := pc_inFlight c - 1, pc_lastUsedAt := now\<rparr>) t; c = ht_heap t1 ! i in
      if pc_closeRequested c \<and> pc_inFlight c \<le> 0 then close_pc i t1 else t1)"

definition requestClose :: "nat \<Rightarrow> h2_transport \<Rightarrow> h2_transport" where
  "requestClose i t =
     (if pc_inFlight (ht_heap t ! i) > 0 then on_conn i (\<lambda>c. c\<lparr>pc_closeRequested := True\<rparr>) t else close_pc i t)"

definition retire :: "nat \<Rightarrow> h2_transport \<Rightarrow> h2_transport" where
  "retire i t =
     (let c = ht_heap t ! i in
      if pc_inFlight c > 0 \<and> \<not> pc_closed c
      then (on_conn i (\<lambda>c. c\<lparr>pc_closeRequested := True\<rparr>) t)\<lparr>ht_retired := ht_retired t @ [i]\<rparr>
      else close_pc i t)"

definition isConnUsable :: "time \<Rightarrow> h2_transport \<Rightarrow> nat \<Rightarrow> bool" where
  "isConnUsable now t i =
     (let c = ht_heap t ! i in
      if pc_closeRequested c then False
      else if now - pc_createdAt c > ht_maxConnAge t then False
      else \<not> (pc_inFlight c = 0 \<and> now - pc_lastUsedAt c > ht_maxIdleTime t))"

definition isConnDestroyable :: "time \<Rightarrow> h2_transport \<Rightarrow> nat \<Rightarrow> bool" where
  "isConnDestroyable now t i =
     (let c = ht_heap t ! i in
      if pc_inFlight c > 0 then
        (let progressed = (if pc_lastProgress c > 0 \<and> pc_lastProgress c > pc_lastUsedAt c then pc_lastProgress c else pc_lastUsedAt c)
         in now - progressed > ht_abandonedBodyTimeout t)
      else if now - pc_createdAt c > ht_maxConnAge t then True
      else now - pc_lastUsedAt c > ht_maxIdleTime t)"

text \<open>One entry of \<^verbatim>\<open>sweepRetired\<close>: dropped when it is closed, closed and dropped when it may be, else kept.\<close>

definition sweep_one :: "time \<Rightarrow> nat \<Rightarrow> h2_transport \<times> nat list \<Rightarrow> h2_transport \<times> nat list" where
  "sweep_one now i = (\<lambda>(t, kept).
     if pc_closed (ht_heap t ! i) then (t, kept)
     else if isConnDestroyable now t i then (close_pc i t, kept)
     else (t, kept @ [i]))"

definition sweepRetired :: "time \<Rightarrow> h2_transport \<Rightarrow> h2_transport" where
  "sweepRetired now t = (let (t', kept) = fold (sweep_one now) (ht_retired t) (t, []) in t'\<lparr>ht_retired := kept\<rparr>)"

section \<open>The pool\<close>

definition getConnectHost :: "h2_transport \<Rightarrow> string \<Rightarrow> string" where
  "getConnectHost t requestHost = (case map_of (ht_connectTo t) requestHost of Some h \<Rightarrow> h | None \<Rightarrow> requestHost)"

definition new_conn :: "time \<Rightarrow> string \<Rightarrow> persistent_conn" where
  "new_conn now host =
     \<lparr>pc_host = host, pc_createdAt = now, pc_lastUsedAt = now, pc_useCount = 0, pc_inFlight = 0, pc_closeRequested = False,
      pc_closed = False, pc_lastProgress = 0\<rparr>"

definition alloc :: "time \<Rightarrow> string \<Rightarrow> h2_transport \<Rightarrow> nat \<times> h2_transport" where
  "alloc now host t = (length (ht_heap t), t\<lparr>ht_heap := ht_heap t @ [new_conn now host]\<rparr>)"

definition usable_at :: "time \<Rightarrow> h2_transport \<Rightarrow> string \<Rightarrow> nat option" where
  "usable_at now t key = (case map_of (ht_conns t) key of Some i \<Rightarrow> if isConnUsable now t i then Some i else None | None \<Rightarrow> None)"

text \<open>The end of a dial in \<^verbatim>\<open>getOrCreateConn\<close>: the new connection goes into the map unless one is there.\<close>

definition publish :: "time \<Rightarrow> string \<Rightarrow> nat \<Rightarrow> h2_transport \<Rightarrow> (go_error + nat) \<times> h2_transport" where
  "publish now key new t =
     (if ht_closed t then (Inl transport_closed, close_pc new t)
      else
        (case usable_at now t key of
           Some i \<Rightarrow> (Inr i, close_pc new t)
         | None \<Rightarrow> (Inr new, t\<lparr>ht_conns := AList.update key new (ht_conns t)\<rparr>)))"

text \<open>\<open>dial i\<close>: whether the \<open>i\<close>-th attempt connects.\<close>

definition getOrCreateConn ::
    "time \<Rightarrow> string \<Rightarrow> string \<Rightarrow> (nat \<Rightarrow> go_error + unit) \<Rightarrow> h2_transport \<Rightarrow> (go_error + nat) \<times> h2_transport" where
  "getOrCreateConn now host key dial t =
     (if ht_closed t then (Inl transport_closed, t)
      else
        (case usable_at now t key of
           Some i \<Rightarrow> (Inr i, t)
         | None \<Rightarrow>
             (let t1 = (case map_of (ht_conns t) key of
                          Some i \<Rightarrow> retire i (t\<lparr>ht_conns := AList.delete key (ht_conns t)\<rparr>) | None \<Rightarrow> t)
              in case fst (retryDial (\<lambda>i. None) (\<lambda>i. None) (if ht_proxied t then int proxyDialAttempts else 1) dial) of
                   Inl e \<Rightarrow> (Inl e, t1)
                 | Inr u \<Rightarrow> (let (new, t2) = alloc now host t1 in publish now key new t2))))"

definition removeConn :: "string \<Rightarrow> h2_transport \<Rightarrow> h2_transport" where
  "removeConn key t =
     (case map_of (ht_conns t) key of None \<Rightarrow> t | Some i \<Rightarrow> retire i (t\<lparr>ht_conns := AList.delete key (ht_conns t)\<rparr>))"

definition h2_Connect :: "time \<Rightarrow> string \<Rightarrow> string \<Rightarrow> go_error + unit \<Rightarrow> h2_transport \<Rightarrow> go_error option \<times> h2_transport" where
  "h2_Connect now host port dial t =
     (let key = JoinHostPort (getConnectHost t host) port in
      if ht_closed t then (Some transport_closed, t)
      else if usable_at now t key \<noteq> None then (None, t)
      else
        (case dial of
           Inl e \<Rightarrow> (Some e, t)
         | Inr u \<Rightarrow>
             (let (new, t1) = alloc now host t in
              if ht_closed t1 then (Some transport_closed, close_pc new t1)
              else
                (case map_of (ht_conns t1) key of
                   None \<Rightarrow> (None, t1\<lparr>ht_conns := AList.update key new (ht_conns t1)\<rparr>)
                 | Some old \<Rightarrow>
                     if \<not> isConnUsable now t1 old
                     then (None, (retire old t1)\<lparr>ht_conns := AList.update key new (ht_conns t1)\<rparr>)
                     else (None, close_pc new t1)))))"

section \<open>Requests\<close>

text \<open>
  The error of a round trip: the code of a stream error, whether the connection is closing, the
  state of the request's context, and the fork's judgement whether it may be replayed.
\<close>

record h2_failure =
  hf_error :: go_error
  hf_streamError :: "nat option"
  hf_closing :: bool
  hf_ctxErr :: "go_error option"
  hf_shouldRetry :: bool

definition ErrCodeRefusedStream :: nat where
  "ErrCodeRefusedStream = 7"

definition isRefusedStream :: "h2_failure \<Rightarrow> bool" where
  "isRefusedStream f \<longleftrightarrow> hf_streamError f = Some ErrCodeRefusedStream"

definition retryableHTTP2Request :: "h2_failure \<Rightarrow> bool" where
  "retryableHTTP2Request f =
     (case hf_streamError f of
        Some code \<Rightarrow> if code \<noteq> ErrCodeRefusedStream then False else hf_shouldRetry f
      | None \<Rightarrow> hf_shouldRetry f)"

definition maxHTTP2Retries :: nat where
  "maxHTTP2Retries = 2"

text \<open>The answer to the \<open>n\<close>-th round trip: a failure, or headers with (\<open>True\<close>) or without a body.\<close>

record h2_env =
  hv_answer :: "nat \<Rightarrow> h2_failure + bool"
  hv_dial :: "nat \<Rightarrow> nat \<Rightarrow> go_error + unit"
  hv_now :: "nat \<Rightarrow> time"

definition begin_request :: "nat \<Rightarrow> h2_transport \<Rightarrow> h2_transport" where
  "begin_request i = on_conn i (\<lambda>c. c\<lparr>pc_inFlight := pc_inFlight c + 1\<rparr>)"

definition finish_headers :: "time \<Rightarrow> nat \<Rightarrow> bool \<Rightarrow> h2_transport \<Rightarrow> h2_transport" where
  "finish_headers now i hasBody t =
     (let t1 = on_conn i (\<lambda>c. c\<lparr>pc_lastUsedAt := now, pc_useCount := pc_useCount c + 1, pc_lastProgress := now\<rparr>) t in
      if hasBody then t1\<lparr>ht_bodies := ht_bodies t1 @ [(i, False)]\<rparr> else release now i t1)"

text \<open>The loop of \<^verbatim>\<open>roundTrip\<close> from a round trip on connection \<open>i\<close>; also the number of sends.\<close>

function attempts_from ::
    "h2_env \<Rightarrow> string \<Rightarrow> string \<Rightarrow> nat \<Rightarrow> nat \<Rightarrow> h2_transport \<Rightarrow> (go_error + nat) \<times> nat \<times> h2_transport" where
  "attempts_from env host key attempt i t =
     (let now = hv_now env attempt in
      case hv_answer env attempt of
        Inr hasBody \<Rightarrow> (Inr i, Suc attempt, finish_headers now i hasBody t)
      | Inl f \<Rightarrow>
          (let t1 = release now i t;
               t2 = (if \<not> isRefusedStream f \<or> hf_closing f then removeConn key t1 else t1)
           in case hf_ctxErr f of
                Some e \<Rightarrow> (Inl e, Suc attempt, t2)
              | None \<Rightarrow>
                  if maxHTTP2Retries \<le> attempt then (Inl (hf_error f), Suc attempt, t2)
                  else if \<not> retryableHTTP2Request f then (Inl (hf_error f), Suc attempt, t2)
                  else
                    (case getOrCreateConn now host key (hv_dial env (Suc attempt)) t2 of
                       (Inl e, t3) \<Rightarrow> (Inl e, Suc attempt, t3)
                     | (Inr j, t3) \<Rightarrow> attempts_from env host key (Suc attempt) j (begin_request j t3))))"
  by pat_completeness auto

termination
  by (relation "measure (\<lambda>(env, host, key, attempt, i, t). Suc maxHTTP2Retries - attempt)") auto

declare attempts_from.simps [simp del]

text \<open>The result, whether the request may have reached the server, how often it was sent, and the pool.\<close>

definition h2_roundTrip ::
    "h2_env \<Rightarrow> string \<Rightarrow> string \<Rightarrow> h2_transport \<Rightarrow> (go_error + nat) \<times> bool \<times> nat \<times> h2_transport" where
  "h2_roundTrip env host port0 t =
     (if ht_closed t then (Inl transport_closed, False, 0, t)
      else
        (let port = (if port0 = [] then ''443'' else port0);
             key = JoinHostPort (getConnectHost t host) port;
             now = hv_now env 0
         in case getOrCreateConn now host key (hv_dial env 0) t of
              (Inl e, t1) \<Rightarrow> (Inl e, False, 0, t1)
            | (Inr i, t1) \<Rightarrow>
                (let (r, sends, t2) = attempts_from env host key 0 i
                       (begin_request i (on_conn i (\<lambda>c. c\<lparr>pc_lastUsedAt := now\<rparr>) t1))
                 in (r, True, sends, t2))))"

text \<open>Reading and closing the body number \<open>b\<close>: the first end lets go of the connection.\<close>

definition guard_release :: "time \<Rightarrow> nat \<Rightarrow> h2_transport \<Rightarrow> h2_transport" where
  "guard_release now b t =
     (let (i, done') = ht_bodies t ! b in
      if done' then t else release now i (t\<lparr>ht_bodies := (ht_bodies t)[b := (i, True)]\<rparr>))"

definition body_Read :: "time \<Rightarrow> nat \<Rightarrow> nat \<Rightarrow> bool \<Rightarrow> h2_transport \<Rightarrow> h2_transport" where
  "body_Read now b n failed t =
     (let t1 = (if n > 0 then on_conn (fst (ht_bodies t ! b)) (\<lambda>c. c\<lparr>pc_lastProgress := now\<rparr>) t else t) in
      if failed then guard_release now b t1 else t1)"

definition body_Close :: "time \<Rightarrow> nat \<Rightarrow> h2_transport \<Rightarrow> h2_transport" where
  "body_Close = guard_release"

section \<open>Shutdown\<close>

definition h2_cleanup_one :: "time \<Rightarrow> string \<times> nat \<Rightarrow> h2_transport \<Rightarrow> h2_transport" where
  "h2_cleanup_one now = (\<lambda>(key, i) t.
     if isConnDestroyable now t i then close_pc i (t\<lparr>ht_conns := AList.delete key (ht_conns t)\<rparr>) else t)"

definition h2_cleanup :: "time \<Rightarrow> h2_transport \<Rightarrow> h2_transport" where
  "h2_cleanup now t = sweepRetired now (fold (h2_cleanup_one now) (ht_conns t) t)"

definition drained :: "h2_transport \<Rightarrow> bool" where
  "drained t \<longleftrightarrow> ht_closed t \<and> ht_retired t = []"

definition h2_Close :: "h2_transport \<Rightarrow> h2_transport" where
  "h2_Close t =
     (let t1 = t\<lparr>ht_closed := True, ht_conns := [], ht_cleanupStopped := True\<rparr>;
          t2 = fold close_pc (map snd (ht_conns t)) t1
      in fold close_pc (ht_retired t) (t2\<lparr>ht_retired := []\<rparr>))"

definition h2_CloseGraceful :: "h2_transport \<Rightarrow> h2_transport" where
  "h2_CloseGraceful t =
     (if ht_closed t then t
      else
        (let t1 = fold retire (map snd (ht_conns t)) (t\<lparr>ht_closed := True, ht_conns := []\<rparr>) in
         if drained t1 then t1\<lparr>ht_cleanupStopped := True\<rparr> else t1))"

definition h2_Refresh :: "h2_transport \<Rightarrow> h2_transport" where
  "h2_Refresh t = (if ht_closed t then t else fold close_pc (map snd (ht_conns t)) (t\<lparr>ht_conns := []\<rparr>))"

definition IsConnectionReused :: "time \<Rightarrow> string \<Rightarrow> string \<Rightarrow> h2_transport \<Rightarrow> bool" where
  "IsConnectionReused now host port t = (usable_at now t (JoinHostPort host port) \<noteq> None)"

definition GetConnectionUseCount :: "string \<Rightarrow> string \<Rightarrow> h2_transport \<Rightarrow> int" where
  "GetConnectionUseCount host port t =
     (case map_of (ht_conns t) (JoinHostPort host port) of None \<Rightarrow> 0 | Some i \<Rightarrow> pc_useCount (ht_heap t ! i))"

section \<open>Invariant\<close>

lemma on_conn_simps [simp]:
  "ht_conns (on_conn i f t) = ht_conns t" "ht_retired (on_conn i f t) = ht_retired t" "ht_bodies (on_conn i f t) = ht_bodies t"
  "ht_closed (on_conn i f t) = ht_closed t" "length (ht_heap (on_conn i f t)) = length (ht_heap t)"
  by (simp_all add: on_conn_def)

lemma on_conn_nth [simp]:
  "j < length (ht_heap t) \<Longrightarrow> ht_heap (on_conn i f t) ! j = (if j = i then f (ht_heap t ! j) else ht_heap t ! j)"
  by (auto simp: on_conn_def nth_list_update)

text \<open>The unfinished bodies on a connection, and the connections in the map.\<close>

definition holders :: "h2_transport \<Rightarrow> nat \<Rightarrow> nat" where
  "holders t i = length (filter (\<lambda>(j, d). j = i \<and> \<not> d) (ht_bodies t))"

definition mapped :: "h2_transport \<Rightarrow> nat set" where
  "mapped t = ran (map_of (ht_conns t))"

lemma views_on_conn [simp]: "holders (on_conn i f t) = holders t" "mapped (on_conn i f t) = mapped t"
  by (simp_all add: holders_def mapped_def fun_eq_iff)

text \<open>
  A connection is in order, \<open>act\<close> being the connections of round trips that are under way: its use
  count is that of its users; closed it has none, unless it is in \<open>F\<close> and was cut off; in the map it is open and nobody asked to close it; open and
  out of the map it is retired, will be closed and has a user.
\<close>

definition conn_ok :: "nat set \<Rightarrow> nat list \<Rightarrow> h2_transport \<Rightarrow> nat \<Rightarrow> bool" where
  "conn_ok F act t i \<longleftrightarrow>
     pc_inFlight (ht_heap t ! i) = int (holders t i + count_list act i) \<and>
     (pc_closed (ht_heap t ! i) \<and> i \<notin> F \<longrightarrow> pc_inFlight (ht_heap t ! i) = 0) \<and>
     (i \<in> mapped t \<longrightarrow> \<not> pc_closed (ht_heap t ! i) \<and> \<not> pc_closeRequested (ht_heap t ! i)) \<and>
     (i \<notin> mapped t \<and> \<not> pc_closed (ht_heap t ! i) \<longrightarrow>
        i \<in> set (ht_retired t) \<and> pc_closeRequested (ht_heap t ! i) \<and> pc_inFlight (ht_heap t ! i) > 0)"

definition map_ok :: "h2_transport \<Rightarrow> bool" where
  "map_ok t \<longleftrightarrow>
     wf_map (ht_conns t) \<and> (ht_closed t \<longrightarrow> ht_conns t = []) \<and> inj_on (map_of (ht_conns t)) (dom (map_of (ht_conns t))) \<and>
     mapped t \<subseteq> {..< length (ht_heap t)} \<and> set (ht_retired t) \<subseteq> {..< length (ht_heap t)} - mapped t"

definition users_ok :: "nat list \<Rightarrow> h2_transport \<Rightarrow> bool" where
  "users_ok act t \<longleftrightarrow> fst ` set (ht_bodies t) \<union> set act \<subseteq> {..< length (ht_heap t)}"

definition pool_ok :: "nat set \<Rightarrow> nat list \<Rightarrow> h2_transport \<Rightarrow> bool" where
  "pool_ok F act t \<longleftrightarrow> map_ok t \<and> users_ok act t \<and> (\<forall>i < length (ht_heap t). conn_ok F act t i)"

lemma pool_ok_frame:
  assumes "pool_ok F act t" and "ht_conns t' = ht_conns t" "ht_retired t' = ht_retired t" "ht_closed t' = ht_closed t"
    "length (ht_heap t') = length (ht_heap t)" and "users_ok act' t'"
    and "\<And>j. j < length (ht_heap t) \<Longrightarrow> conn_ok F act t j \<Longrightarrow> conn_ok F act' t' j"
  shows "pool_ok F act' t'"
  using assms by (simp add: pool_ok_def map_ok_def mapped_def)

text \<open>Times and counts of use do not matter to it.\<close>

lemma pool_ok_touch:
  assumes "pool_ok F act t" and "\<And>c. pc_closed (f c) = pc_closed c \<and> pc_closeRequested (f c) = pc_closeRequested c \<and> pc_inFlight (f c) = pc_inFlight c"
  shows "pool_ok F act (on_conn i f t)"
  using assms by (intro pool_ok_frame [OF assms(1)]) (auto simp: pool_ok_def users_ok_def conn_ok_def)

lemma pool_ok_begin:
  assumes "pool_ok F act t" and "i \<in> mapped t"
  shows "pool_ok F (i # act) (begin_request i t)"
  using assms by (intro pool_ok_frame [OF assms(1)]) (auto simp: pool_ok_def map_ok_def users_ok_def conn_ok_def begin_request_def)

lemma pool_ok_close:
  assumes "pool_ok F act t" and "i \<notin> mapped t" and "i \<in> F \<or> pc_inFlight (ht_heap t ! i) \<le> 0"
  shows "pool_ok F act (close_pc i t)"
  using assms by (intro pool_ok_frame [OF assms(1)]) (auto simp: pool_ok_def users_ok_def conn_ok_def close_pc_def)

lemma release_simps [simp]:
  "ht_conns (release now i t) = ht_conns t" "ht_retired (release now i t) = ht_retired t" "ht_bodies (release now i t) = ht_bodies t"
  "ht_closed (release now i t) = ht_closed t" "length (ht_heap (release now i t)) = length (ht_heap t)"
  "holders (release now i t) = holders t" "mapped (release now i t) = mapped t"
  by (simp_all add: release_def close_pc_def Let_def)

lemma release_nth:
  assumes "i < length (ht_heap t)" and "j < length (ht_heap t)"
  shows "pc_inFlight (ht_heap (release now i t) ! j) = pc_inFlight (ht_heap t ! j) - (if j = i then 1 else 0)"
    "pc_closeRequested (ht_heap (release now i t) ! j) = pc_closeRequested (ht_heap t ! j)"
    "pc_closed (ht_heap (release now i t) ! j) =
       (pc_closed (ht_heap t ! j) \<or> (j = i \<and> pc_closeRequested (ht_heap t ! i) \<and> pc_inFlight (ht_heap t ! i) \<le> 1))"
  using assms by (auto simp: release_def close_pc_def Let_def)

lemma conn_ok_release:
  assumes "i < length (ht_heap t)" and "j < length (ht_heap t)" and "conn_ok F act t j"
    and "int (h + count_list act' j) = int (holders t j + count_list act j) - (if j = i then 1 else 0)"
    and "holders t' j = h" "mapped t' = mapped t" "ht_retired t' = ht_retired t" "ht_heap t' = ht_heap (release now i t)"
  shows "conn_ok F act' t' j"
proof (cases "j = i")
  case True
  then have "pc_inFlight (ht_heap t ! i) = int (h + count_list act' i) + 1" using assms(3,4) by (simp add: conn_ok_def)
  then show ?thesis using assms(1,3,5-8) True by (auto simp: conn_ok_def release_nth)
next
  case False
  then have "holders t j + count_list act j = h + count_list act' j" using assms(4) by (simp del: of_nat_add)
  then show ?thesis using assms(1-3,5-8) False by (cases "pc_closed (ht_heap t ! j)") (auto simp: conn_ok_def release_nth)
qed

lemma pool_ok_release:
  assumes "pool_ok F (i # act) t"
  shows "pool_ok F act (release now i t)"
proof -
  have i: "i < length (ht_heap t)" using assms by (simp add: pool_ok_def users_ok_def)
  show ?thesis
  proof (rule pool_ok_frame [OF assms])
    show "users_ok act (release now i t)" using assms by (simp add: pool_ok_def users_ok_def)
    show "conn_ok F act (release now i t) j" if "j < length (ht_heap t)" "conn_ok F (i # act) t j" for j
      by (rule conn_ok_release [OF i that, of "holders t j"]) simp_all
  qed simp_all
qed

lemma holders_done:
  assumes "b < length (ht_bodies t)" and "ht_bodies t ! b = (i, False)"
  shows "holders (t\<lparr>ht_bodies := (ht_bodies t)[b := (i, True)]\<rparr>) j = holders t j - (if j = i then 1 else 0) \<and> 0 < holders t i"
proof -
  let ?P = "\<lambda>j (k, d). k = j \<and> \<not> d"
  have s: "ht_bodies t = take b (ht_bodies t) @ (i, False) # drop (Suc b) (ht_bodies t)" using id_take_nth_drop [OF assms(1)] assms(2) by simp
  have u: "(ht_bodies t)[b := (i, True)] = take b (ht_bodies t) @ (i, True) # drop (Suc b) (ht_bodies t)"
    using upd_conv_take_nth_drop [OF assms(1)] by simp
  have "holders t k = length (filter (?P k) (take b (ht_bodies t))) + (if k = i then 1 else 0) + length (filter (?P k) (drop (Suc b) (ht_bodies t)))" for k
    unfolding holders_def by (subst s) auto
  moreover have "holders (t\<lparr>ht_bodies := (ht_bodies t)[b := (i, True)]\<rparr>) k =
      length (filter (?P k) (take b (ht_bodies t))) + length (filter (?P k) (drop (Suc b) (ht_bodies t)))" for k
    unfolding holders_def by (simp add: u)
  ultimately show ?thesis by auto
qed

lemma release_heap_bodies: "ht_heap (release now i (t\<lparr>ht_bodies := bs\<rparr>)) = ht_heap (release now i t)"
  by (simp add: release_def close_pc_def on_conn_def Let_def)

lemma mapped_bodies [simp]: "mapped (t\<lparr>ht_bodies := bs\<rparr>) = mapped t"
  by (simp add: mapped_def)

lemma pool_ok_guard:
  assumes "pool_ok F act t" and "b < length (ht_bodies t)"
  shows "pool_ok F act (guard_release now b t)"
proof (cases "ht_bodies t ! b")
  case (Pair i d)
  have m: "(i, d) \<in> set (ht_bodies t)" using assms(2) Pair nth_mem by metis
  then have i: "i < length (ht_heap t)" using assms(1) by (auto simp: pool_ok_def users_ok_def)
  show ?thesis
  proof (cases d)
    case False
    let ?t = "t\<lparr>ht_bodies := (ht_bodies t)[b := (i, True)]\<rparr>"
    have h: "holders ?t j = holders t j - (if j = i then 1 else 0)" "0 < holders t i" for j
      using holders_done [OF assms(2)] Pair False by auto
    have u: "users_ok act (release now i ?t)"
      using assms(1) i set_update_subset_insert [of "ht_bodies t" b "(i, True)"] by (force simp: pool_ok_def users_ok_def)
    have "pool_ok F act (release now i ?t)"
    proof (rule pool_ok_frame [OF assms(1) _ _ _ _ u])
      show "conn_ok F act (release now i ?t) j" if "j < length (ht_heap t)" "conn_ok F act t j" for j
        by (rule conn_ok_release [OF i that refl [of "holders ?t j", THEN ssubst]]) (use h in \<open>auto simp: release_heap_bodies of_nat_diff\<close>)
    qed simp_all
    then show ?thesis using Pair False by (simp add: guard_release_def)
  qed (use assms(1) Pair in \<open>simp add: guard_release_def\<close>)
qed

lemma pool_ok_finish:
  assumes "pool_ok F (i # act) t"
  shows "pool_ok F act (finish_headers now i hasBody t)"
proof -
  let ?t = "on_conn i (\<lambda>c. c\<lparr>pc_lastUsedAt := now, pc_useCount := pc_useCount c + 1, pc_lastProgress := now\<rparr>) t"
  let ?b = "?t\<lparr>ht_bodies := ht_bodies ?t @ [(i, False)]\<rparr>"
  have ok: "pool_ok F (i # act) ?t" by (rule pool_ok_touch [OF assms]) simp
  have h: "holders ?b j = holders t j + (if j = i then 1 else 0)" for j by (simp add: holders_def)
  have "pool_ok F act ?b"
    by (rule pool_ok_frame [OF ok]) (use ok h in \<open>auto simp: pool_ok_def users_ok_def conn_ok_def\<close>)
  then show ?thesis using pool_ok_release [OF ok] by (simp add: finish_headers_def Let_def)
qed

section \<open>Loose connections\<close>

text \<open>Between two steps some open connections are in no one's hands: just dialled, or just out of the map.\<close>

definition loose :: "nat list \<Rightarrow> h2_transport \<Rightarrow> nat \<Rightarrow> bool" where
  "loose act t i \<longleftrightarrow>
     pc_inFlight (ht_heap t ! i) = int (holders t i + count_list act i) \<and> i \<notin> mapped t \<and>
     \<not> pc_closed (ht_heap t ! i) \<and> \<not> pc_closeRequested (ht_heap t ! i)"

definition pool_but :: "nat set \<Rightarrow> nat list \<Rightarrow> nat list \<Rightarrow> h2_transport \<Rightarrow> bool" where
  "pool_but F J act t \<longleftrightarrow>
     map_ok t \<and> users_ok act t \<and> set J \<subseteq> {..< length (ht_heap t)} \<and>
     (\<forall>i < length (ht_heap t). if i \<in> set J then loose act t i else conn_ok F act t i)"

lemma pool_butI:
  assumes "map_ok t" and "users_ok act t" and "set J \<subseteq> {..< length (ht_heap t)}"
    and "\<And>i. i < length (ht_heap t) \<Longrightarrow> if i \<in> set J then loose act t i else conn_ok F act t i"
  shows "pool_but F J act t"
  using assms by (auto simp: pool_but_def)

lemma pool_but_Nil [simp]: "pool_but F [] = pool_ok F"
  by (auto simp: pool_but_def pool_ok_def fun_eq_iff)

lemma close_simps [simp]:
  "ht_conns (close_pc i t) = ht_conns t" "ht_retired (close_pc i t) = ht_retired t" "ht_bodies (close_pc i t) = ht_bodies t"
  "ht_closed (close_pc i t) = ht_closed t" "length (ht_heap (close_pc i t)) = length (ht_heap t)"
  "holders (close_pc i t) = holders t" "mapped (close_pc i t) = mapped t"
  by (simp_all add: close_pc_def)

lemma pool_but_close:
  assumes "pool_but F (i # J) act t" and "i \<notin> set J" and "i \<in> F \<or> pc_inFlight (ht_heap t ! i) \<le> 0"
  shows "pool_but F J act (close_pc i t)"
proof -
  have e: "map_ok (close_pc i t)" "users_ok act (close_pc i t)" "set J \<subseteq> {..< length (ht_heap (close_pc i t))}"
    using assms by (auto simp: pool_but_def map_ok_def mapped_def users_ok_def close_pc_def)
  have "if j \<in> set J then loose act (close_pc i t) j else conn_ok F act (close_pc i t) j" if j: "j < length (ht_heap t)" for j
  proof -
    have "if j \<in> set (i # J) then loose act t j else conn_ok F act t j" using assms(1) j by (simp add: pool_but_def)
    then show ?thesis using assms(2,3) j by (auto simp: close_pc_def loose_def conn_ok_def split: if_splits)
  qed
  then show ?thesis using e by (intro pool_butI) simp_all
qed

lemma retire_simps [simp]:
  "ht_conns (retire i t) = ht_conns t" "ht_bodies (retire i t) = ht_bodies t" "ht_closed (retire i t) = ht_closed t"
  "length (ht_heap (retire i t)) = length (ht_heap t)" "mapped (retire i t) = mapped t" "holders (retire i t) = holders t"
  by (simp_all add: retire_def close_pc_def mapped_def holders_def fun_eq_iff Let_def)

lemma pool_but_retire:
  assumes "pool_but F (i # J) act t" and "i \<notin> set J"
  shows "pool_but F J act (retire i t)"
proof (cases "pc_inFlight (ht_heap t ! i) > 0")
  case True
  have i: "i < length (ht_heap t)" "loose act t i" using assms by (auto simp: pool_but_def)
  let ?t = "(on_conn i (\<lambda>c. c\<lparr>pc_closeRequested := True\<rparr>) t)\<lparr>ht_retired := ht_retired t @ [i]\<rparr>"
  have r: "retire i t = ?t" using True i by (simp add: retire_def loose_def Let_def)
  have m: "mapped ?t = mapped t" "holders ?t = holders t" by (simp_all add: mapped_def holders_def fun_eq_iff)
  have e: "map_ok ?t" "users_ok act ?t" "set J \<subseteq> {..< length (ht_heap ?t)}"
    using assms(1) i m by (auto simp: pool_but_def map_ok_def users_ok_def loose_def)
  have "if j \<in> set J then loose act ?t j else conn_ok F act ?t j" if j: "j < length (ht_heap t)" for j
  proof -
    have "if j \<in> set (i # J) then loose act t j else conn_ok F act t j" using assms(1) j by (simp add: pool_but_def)
    then show ?thesis using assms(2) j True m by (auto simp: loose_def conn_ok_def split: if_splits)
  qed
  then show ?thesis unfolding r using e by (intro pool_butI) simp_all
next
  case False
  then have "retire i t = close_pc i t" by (simp add: retire_def Let_def)
  then show ?thesis using pool_but_close [OF assms] False by simp
qed

lemma pool_but_rewire:
  assumes "pool_but F J act t" and "t' = t\<lparr>ht_conns := cs, ht_closed := b\<rparr>" and "map_ok t'"
    and "mapped t \<union> set J = mapped t' \<union> set J'" and "mapped t' \<inter> set J' = {}"
  shows "pool_but F J' act t'"
proof -
  have h: "holders t' = holders t" using assms(2) by (simp add: holders_def fun_eq_iff)
  have s: "set J \<subseteq> {..< length (ht_heap t)}" "mapped t \<subseteq> {..< length (ht_heap t)}" "users_ok act t"
    using assms(1) by (auto simp: pool_but_def map_ok_def)
  have "if i \<in> set J' then loose act t' i else conn_ok F act t' i" if "i < length (ht_heap t)" for i
  proof -
    have c: "if i \<in> set J then loose act t i else conn_ok F act t i" using assms(1) that by (simp add: pool_but_def)
    have m: "i \<in> mapped t' \<longleftrightarrow> (i \<in> mapped t \<or> i \<in> set J) \<and> i \<notin> set J'" "i \<in> set J' \<Longrightarrow> i \<in> mapped t \<or> i \<in> set J"
      using assms(4,5) by auto
    have e: "ht_heap t' = ht_heap t" "ht_retired t' = ht_retired t" using assms(2) by simp_all
    show ?thesis using c m h by (cases "i \<in> set J") (auto simp: loose_def conn_ok_def e)
  qed
  moreover have "set J' \<subseteq> {..< length (ht_heap t)}" using s assms(4) by blast
  moreover have "users_ok act t'" using s assms(2) by (simp add: users_ok_def)
  moreover have "length (ht_heap t') = length (ht_heap t)" using assms(2) by simp
  ultimately show ?thesis using assms(3) by (intro pool_butI) simp_all
qed

lemma ran_unmap:
  assumes "map_ok t" and "map_of (ht_conns t) key = Some i"
  shows "ran ((map_of (ht_conns t))(key := None)) = mapped t - {i}"
proof (intro set_eqI iffI)
  let ?m = "map_of (ht_conns t)"
  have inj: "k = key" if "?m k = Some i" for k
    using assms that inj_onD [of ?m "dom ?m" k key] domI [of ?m k i, OF that] domI [of ?m key i, OF assms(2)]
    unfolding map_ok_def by simp
  fix x
  show "x \<in> mapped t - {i}" if "x \<in> ran (?m(key := None))"
  proof -
    obtain k where "k \<noteq> key" "?m k = Some x" using \<open>x \<in> ran (?m(key := None))\<close> by (auto simp: ran_def split: if_splits)
    then show ?thesis using inj [of k] by (auto simp: mapped_def ran_def)
  qed
  show "x \<in> ran (?m(key := None))" if "x \<in> mapped t - {i}"
  proof -
    obtain k where "?m k = Some x" "x \<noteq> i" using \<open>x \<in> mapped t - {i}\<close> by (auto simp: mapped_def ran_def)
    then show ?thesis using assms(2) by (intro ranI [of _ k]) auto
  qed
qed

lemma pool_but_delete:
  assumes "pool_ok F act t" and "map_of (ht_conns t) key = Some i"
  shows "pool_but F [i] act (t\<lparr>ht_conns := AList.delete key (ht_conns t)\<rparr>)"
proof -
  let ?m = "map_of (ht_conns t)"
  have k: "map_ok t" using assms(1) by (simp add: pool_ok_def)
  note m = ran_unmap [OF k assms(2)]
  let ?t = "t\<lparr>ht_conns := AList.delete key (ht_conns t)\<rparr>"
  have mt: "mapped ?t = mapped t - {i}" using m by (simp add: mapped_def delete_conv')
  have "inj_on ?m (dom ?m)" using k by (simp add: map_ok_def)
  then have "inj_on ?m (dom ?m - {key})" by (rule inj_on_subset) simp
  then have "inj_on (?m(key := None)) (dom ?m - {key})" by (simp add: inj_on_def)
  moreover have "wf_map (AList.delete key (ht_conns t))" "ht_closed t \<Longrightarrow> AList.delete key (ht_conns t) = []"
    using k by (simp_all add: map_ok_def)
  moreover have "mapped ?t \<subseteq> {..< length (ht_heap t)}" "set (ht_retired t) \<subseteq> {..< length (ht_heap t)} - mapped ?t"
    using k mt by (auto simp: map_ok_def)
  ultimately have "map_ok ?t" by (simp add: map_ok_def delete_conv' del: fun_upd_apply)
  moreover have "i \<in> mapped t" using assms(2) by (auto simp: mapped_def ranI)
  moreover have "pool_but F [] act t" using assms(1) by simp
  ultimately show ?thesis
    by (rule_tac pool_but_rewire [where J = "[]" and t = t and cs = "AList.delete key (ht_conns t)" and b = "ht_closed t"]) (simp_all add: mt insert_absorb)
qed

lemma pool_but_clear:
  assumes "pool_ok F act t"
  shows "pool_but F (map snd (ht_conns t)) act (t\<lparr>ht_conns := [], ht_closed := b\<rparr>) \<and> distinct (map snd (ht_conns t))"
proof -
  have k: "map_ok t" using assms by (simp add: pool_ok_def)
  then have m: "mapped t = set (map snd (ht_conns t))" by (simp add: mapped_def map_ok_def ran_distinct)
  have "map_ok (t\<lparr>ht_conns := [], ht_closed := b\<rparr>)" using k by (auto simp: map_ok_def mapped_def)
  moreover have "distinct (map snd (ht_conns t))"
  proof (intro distinct_conv_nth [THEN iffD2] allI impI)
    fix x y assume xy: "x < length (map snd (ht_conns t))" "y < length (map snd (ht_conns t))" "x \<noteq> y"
    let ?c = "ht_conns t"
    have w: "wf_map ?c" using k by (simp add: map_ok_def)
    have v: "map_of ?c (fst (?c ! z)) = Some (snd (?c ! z))" if "z < length ?c" for z
      using map_of_eq_Some_iff [OF w] that by simp
    have "fst (?c ! x) \<noteq> fst (?c ! y)" using w xy by (auto simp: distinct_conv_nth)
    moreover have "inj_on (map_of ?c) (dom (map_of ?c))" using k by (simp add: map_ok_def)
    ultimately have "map_of ?c (fst (?c ! x)) \<noteq> map_of ?c (fst (?c ! y))"
      using v xy by (metis domI inj_on_eq_iff length_map)
    then show "map snd ?c ! x \<noteq> map snd ?c ! y" using v xy by simp
  qed
  moreover have "pool_but F [] act t" "mapped (t\<lparr>ht_conns := [], ht_closed := b\<rparr>) = {}" using assms by (simp_all add: mapped_def)
  ultimately show ?thesis
    using pool_but_rewire [where J = "[]" and t = t and cs = "[]" and b = b and t' = "t\<lparr>ht_conns := [], ht_closed := b\<rparr>"] m by simp
qed

lemma pool_but_alloc:
  assumes "pool_ok F act t"
  shows "pool_but F [length (ht_heap t)] act (t\<lparr>ht_heap := ht_heap t @ [new_conn now host]\<rparr>)"
proof -
  let ?t = "t\<lparr>ht_heap := ht_heap t @ [new_conn now host]\<rparr>" and ?n = "length (ht_heap t)"
  have m: "mapped ?t = mapped t" "holders ?t = holders t" by (simp_all add: mapped_def holders_def fun_eq_iff)
  have u: "users_ok act t" "map_ok t" using assms by (auto simp: pool_ok_def)
  have "?n \<notin> fst ` set (ht_bodies t)" "?n \<notin> set act" "?n \<notin> mapped t" using u by (auto simp: users_ok_def map_ok_def)
  then have "holders t ?n = 0" "count_list act ?n = 0" by (force simp: holders_def filter_empty_conv, simp add: count_list_0_iff)
  then have "loose act ?t ?n" using m \<open>?n \<notin> mapped t\<close> by (simp add: loose_def new_conn_def)
  moreover have "conn_ok F act ?t i" if "i < ?n" for i using assms m that by (auto simp: pool_ok_def conn_ok_def nth_append)
  moreover have "map_ok ?t" "users_ok act ?t" using u m by (auto simp: map_ok_def users_ok_def less_Suc_eq)
  ultimately show ?thesis by (auto simp: pool_but_def less_Suc_eq)
qed

lemma map_ok_insert:
  assumes "map_ok t" and "i < length (ht_heap t)" and "i \<notin> mapped t" and "i \<notin> set (ht_retired t)" and "\<not> ht_closed t"
  shows "map_ok (t\<lparr>ht_conns := AList.update key i (ht_conns t)\<rparr>)"
proof -
  let ?m = "map_of (ht_conns t)"
  have "i \<notin> ran ?m" using assms(3) by (simp add: mapped_def)
  then have "inj_on (?m(key \<mapsto> i)) (dom (?m(key \<mapsto> i)))"
    using assms(1) by (auto simp: map_ok_def inj_on_def ran_def)
  moreover have "ran (?m(key \<mapsto> i)) \<subseteq> insert i (mapped t)" by (auto simp: mapped_def ran_def split: if_splits)
  ultimately show ?thesis using assms by (auto simp: map_ok_def mapped_def)
qed


section \<open>Every operation keeps the pool in order\<close>

lemma pool_ok_mono: "pool_ok F act t \<Longrightarrow> F \<subseteq> G \<Longrightarrow> pool_ok G act t"
  by (auto simp: pool_ok_def conn_ok_def)

lemma pool_but_put:
  assumes "pool_but F [n] act t" and "\<not> ht_closed t" and "n \<notin> set (ht_retired t)"
    and "set J = (case map_of (ht_conns t) key of None \<Rightarrow> {} | Some old \<Rightarrow> {old})"
  shows "pool_but F J act (t\<lparr>ht_conns := AList.update key n (ht_conns t)\<rparr>) \<and>
    n \<in> mapped (t\<lparr>ht_conns := AList.update key n (ht_conns t)\<rparr>)"
proof -
  let ?t = "t\<lparr>ht_conns := AList.update key n (ht_conns t)\<rparr>" and ?m = "map_of (ht_conns t)"
  have k: "map_ok t" "n < length (ht_heap t)" "n \<notin> mapped t" using assms(1) by (auto simp: pool_but_def loose_def)
  have m: "mapped ?t = insert n (mapped t - set J)"
  proof (cases "?m key")
    case None
    then show ?thesis using assms(4) by (simp add: mapped_def update_conv' ran_map_upd)
  next
    case (Some old)
    have "?m(key \<mapsto> n) = (?m(key := None))(key \<mapsto> n)" by simp
    then show ?thesis using ran_unmap [OF k(1) Some] assms(4) Some ran_map_upd [of "?m(key := None)" key n]
      by (simp add: mapped_def update_conv')
  qed
  have "set J \<subseteq> mapped t" using assms(4) by (auto simp: mapped_def ranI split: option.splits)
  then have "pool_but F J act ?t"
    using m k map_ok_insert [OF k(1-3) assms(3,2)]
    by (intro pool_but_rewire [OF assms(1), where cs = "AList.update key n (ht_conns t)" and b = "ht_closed t"]) auto
  then show ?thesis using m by simp
qed

lemma removeConn_ok:
  assumes "pool_ok F act t"
  shows "pool_ok F act (removeConn key t) \<and> map_of (ht_conns (removeConn key t)) key = None \<and> ht_closed (removeConn key t) = ht_closed t"
proof (cases "map_of (ht_conns t) key")
  case (Some i)
  have "pool_but F [] act (retire i (t\<lparr>ht_conns := AList.delete key (ht_conns t)\<rparr>))"
    by (rule pool_but_retire [OF pool_but_delete [OF assms Some]]) simp
  then show ?thesis using Some by (simp add: removeConn_def delete_conv')
qed (use assms in \<open>simp add: removeConn_def\<close>)

lemma fresh_not_retired: "pool_ok F act t \<Longrightarrow> length (ht_heap t) \<notin> set (ht_retired t)"
  by (auto simp: pool_ok_def map_ok_def)

lemma publish_ok:
  assumes "pool_ok F act t" and "map_of (ht_conns t) key = None" and "\<not> ht_closed t" and "alloc now host t = (n, t1)"
    and "publish now key n t1 = (r, t')"
  shows "pool_ok F act t' \<and> (\<forall>i. r = Inr i \<longrightarrow> i \<in> mapped t')"
proof -
  have t1: "n = length (ht_heap t)" "t1 = t\<lparr>ht_heap := ht_heap t @ [new_conn now host]\<rparr>" using assms(4) by (auto simp: alloc_def)
  have "r = Inr n" "t' = t1\<lparr>ht_conns := AList.update key n (ht_conns t1)\<rparr>"
    using assms(2,3,5) t1 by (auto simp: publish_def usable_at_def)
  then show ?thesis
    using pool_but_put [of F n act t1 "[]" key] pool_but_alloc [OF assms(1), of now host] fresh_not_retired [OF assms(1)] t1 assms(2,3)
    by simp
qed

lemma getOrCreateConn_ok:
  assumes "pool_ok F act t" and "getOrCreateConn now host key dial t = (r, t')"
  shows "pool_ok F act t' \<and> (\<forall>i. r = Inr i \<longrightarrow> i \<in> mapped t')"
proof -
  let ?t = "removeConn key t"
  have e: "(case map_of (ht_conns t) key of Some i \<Rightarrow> retire i (t\<lparr>ht_conns := AList.delete key (ht_conns t)\<rparr>) | None \<Rightarrow> t) = ?t"
    by (simp add: removeConn_def split: option.split)
  show ?thesis
  proof (cases "ht_closed t")
    case True
    then show ?thesis using assms by (auto simp: getOrCreateConn_def)
  next
    case open': False
    show ?thesis
    proof (cases "usable_at now t key")
      case (Some i)
      then have "i \<in> mapped t" by (auto simp: usable_at_def mapped_def ranI split: option.splits if_splits)
      then show ?thesis using assms open' Some by (auto simp: getOrCreateConn_def)
    next
      case None
      obtain n t2 where a: "alloc now host ?t = (n, t2)" by (cases "alloc now host ?t") auto
      show ?thesis
        using assms(2) removeConn_ok [OF assms(1), of key] publish_ok [of F act ?t key now host n t2, OF _ _ _ a] open' None
        by (auto simp: getOrCreateConn_def e a Let_def split: sum.splits)
    qed
  qed
qed


text \<open>The loop: the pool is left in order, the request is sent at most three times and again only when it may be.\<close>

definition resent_ok :: "h2_env \<Rightarrow> nat \<Rightarrow> bool" where
  "resent_ok env k \<longleftrightarrow> (\<exists>f. hv_answer env k = Inl f \<and> hf_ctxErr f = None \<and> retryableHTTP2Request f)"

lemma pool_ok_attempt_lost:
  assumes "pool_ok F (i # act) t"
  shows "pool_ok F act (if P then removeConn key (release now i t) else release now i t)"
  using pool_ok_release [OF assms] removeConn_ok by auto

lemma attempts_from_lost:
  assumes "hv_answer env attempt = Inl f"
    and "t2 = (if \<not> isRefusedStream f \<or> hf_closing f then removeConn key (release (hv_now env attempt) i t) else release (hv_now env attempt) i t)"
  shows "attempts_from env host key attempt i t =
    (case hf_ctxErr f of
       Some e \<Rightarrow> (Inl e, Suc attempt, t2)
     | None \<Rightarrow>
         if maxHTTP2Retries \<le> attempt \<or> \<not> retryableHTTP2Request f then (Inl (hf_error f), Suc attempt, t2)
         else
           (case getOrCreateConn (hv_now env attempt) host key (hv_dial env (Suc attempt)) t2 of
              (Inl e, t3) \<Rightarrow> (Inl e, Suc attempt, t3)
            | (Inr j, t3) \<Rightarrow> attempts_from env host key (Suc attempt) j (begin_request j t3)))"
  unfolding assms(2) by (subst attempts_from.simps) (cases "isRefusedStream f"; cases "hf_closing f"; simp add: assms(1) Let_def)

lemma attempts_from_ok:
  assumes "attempts_from env host key attempt i t = (r, sends, t')" and "attempt \<le> maxHTTP2Retries"
    and "pool_ok F (i # act) t"
  shows "pool_ok F act t' \<and> attempt < sends \<and> sends \<le> Suc maxHTTP2Retries \<and> (\<forall>k. attempt \<le> k \<and> Suc k < sends \<longrightarrow> resent_ok env k)"
  using assms
proof (induction env host key attempt i t arbitrary: r sends t' rule: attempts_from.induct)
  case (1 env host key attempt i t)
  let ?now = "hv_now env attempt"
  show ?case
  proof (cases "hv_answer env attempt")
    case (Inr hasBody)
    then show ?thesis using 1 pool_ok_finish by (auto simp: attempts_from.simps [of env host key attempt])
  next
    case (Inl f)
    define t2 where "t2 = (if \<not> isRefusedStream f \<or> hf_closing f then removeConn key (release ?now i t) else release ?now i t)"
    note step = attempts_from_lost [OF Inl t2_def, of host]
    have ok: "pool_ok F act t2" unfolding t2_def by (rule pool_ok_attempt_lost [OF 1(4)])
    show ?thesis
    proof (cases "hf_ctxErr f = None \<and> \<not> maxHTTP2Retries \<le> attempt \<and> retryableHTTP2Request f")
      case False
      then show ?thesis using 1(2,3) Inl ok
        by (auto simp: step split: option.splits if_splits)
    next
      case True
      obtain x t3 where g: "getOrCreateConn ?now host key (hv_dial env (Suc attempt)) t2 = (x, t3)" by fastforce
      have gk: "pool_ok F act t3" "x = Inr j \<Longrightarrow> j \<in> mapped t3" for j using getOrCreateConn_ok [OF ok g] by auto
      show ?thesis
      proof (cases x)
        case (Inl e)
        then show ?thesis using 1(2,3) \<open>hv_answer env attempt = Inl f\<close> True g gk
          by (auto simp: step)
      next
        case (Inr j)
        have a: "attempts_from env host key (Suc attempt) j (begin_request j t3) = (r, sends, t')"
          using 1(2) Inl True g Inr by (simp add: step)
        have "pool_ok F act t' \<and> Suc attempt < sends \<and> sends \<le> Suc maxHTTP2Retries \<and> (\<forall>k. Suc attempt \<le> k \<and> Suc k < sends \<longrightarrow> resent_ok env k)"
          using 1(1) [OF refl Inl refl t2_def _ _ _ g [symmetric] Inr, of r sends t'] True a pool_ok_begin [OF gk(1) gk(2) [OF Inr]]
          by auto
        moreover have "resent_ok env attempt" using Inl True by (auto simp: resent_ok_def)
        ultimately show ?thesis by (metis Suc_leI Suc_lessD le_less)
      qed
    qed
  qed
qed

lemma h2_roundTrip_ok:
  assumes "pool_ok F act t" and "h2_roundTrip env host port t = (r, reached, sends, t')"
  shows "pool_ok F act t' \<and> sends \<le> Suc maxHTTP2Retries \<and> (\<forall>k. Suc k < sends \<longrightarrow> resent_ok env k)"
proof (cases "ht_closed t")
  case False
  let ?key = "JoinHostPort (getConnectHost t host) (if port = [] then ''443'' else port)" and ?now = "hv_now env 0"
  obtain x t1 where g: "getOrCreateConn ?now host ?key (hv_dial env 0) t = (x, t1)" by fastforce
  have gk: "pool_ok F act t1" "x = Inr i \<Longrightarrow> i \<in> mapped t1" for i using getOrCreateConn_ok [OF assms(1) g] by auto
  show ?thesis
  proof (cases x)
    case (Inl e)
    then show ?thesis using assms(2) False g gk by (auto simp: h2_roundTrip_def Let_def)
  next
    case (Inr i)
    let ?t = "on_conn i (\<lambda>c. c\<lparr>pc_lastUsedAt := ?now\<rparr>) t1"
    have "pool_ok F (i # act) (begin_request i ?t)"
      by (rule pool_ok_begin [OF pool_ok_touch [OF gk(1)]]) (simp_all add: gk(2) [OF Inr])
    moreover have "attempts_from env host ?key 0 i (begin_request i ?t) = (r, sends, t')"
      using assms(2) False g Inr by (auto simp: h2_roundTrip_def Let_def split: prod.splits)
    ultimately show ?thesis using attempts_from_ok by fastforce
  qed
qed (use assms in \<open>auto simp: h2_roundTrip_def\<close>)

lemma retire_conns: "(retire i t)\<lparr>ht_conns := cs\<rparr> = retire i (t\<lparr>ht_conns := cs\<rparr>)"
  by (simp add: retire_def close_pc_def on_conn_def Let_def)

lemma h2_Connect_ok:
  assumes "pool_ok F act t" and "h2_Connect now host port dial t = (r, t')"
  shows "pool_ok F act t'"
proof -
  let ?key = "JoinHostPort (getConnectHost t host) port" and ?n = "length (ht_heap t)"
  let ?t = "t\<lparr>ht_heap := ht_heap t @ [new_conn now host]\<rparr>"
  let ?put = "?t\<lparr>ht_conns := AList.update ?key ?n (ht_conns t)\<rparr>"
  have a: "pool_but F [?n] act ?t" by (rule pool_but_alloc [OF assms(1)])
  show ?thesis
  proof (cases "ht_closed t \<or> usable_at now t ?key \<noteq> None \<or> isl dial")
    case True
    then show ?thesis using assms by (auto simp: h2_Connect_def Let_def split: if_splits sum.splits)
  next
    case False
    then obtain u where d: "dial = Inr u" by (cases dial) auto
    show ?thesis
    proof (cases "map_of (ht_conns t) ?key")
      case None
      then have "t' = ?put" using assms(2) False d by (auto simp: h2_Connect_def Let_def alloc_def)
      then show ?thesis using pool_but_put [OF a, of "[]" ?key] False None fresh_not_retired [OF assms(1)] by simp
    next
      case (Some old)
      have "old \<in> mapped t" using Some by (auto simp: mapped_def ranI)
      then have "old < ?n" using assms(1) by (auto simp: pool_ok_def map_ok_def)
      then have "isConnUsable now ?t old = isConnUsable now t old" by (simp add: isConnUsable_def nth_append)
      then have "\<not> isConnUsable now ?t old" using False Some by (auto simp: usable_at_def)
      then have "t' = retire old ?put"
        using assms(2) False d Some by (auto simp: h2_Connect_def Let_def alloc_def retire_conns)
      moreover have "pool_but F [old] act ?put"
        using pool_but_put [OF a, of "[old]" ?key] False Some fresh_not_retired [OF assms(1)] by simp
      ultimately show ?thesis using pool_but_retire [of F old "[]"] by simp
    qed
  qed
qed


section \<open>Closing many connections\<close>

lemma fold_close_ok:
  "pool_but F J act t \<Longrightarrow> distinct J \<Longrightarrow> set J \<subseteq> F \<Longrightarrow> pool_ok F act (fold close_pc J t)"
  by (induction J arbitrary: t) (auto intro: pool_but_close)

lemma fold_retire_ok: "pool_but F J act t \<Longrightarrow> distinct J \<Longrightarrow> pool_ok F act (fold retire J t)"
  by (induction J arbitrary: t) (auto intro: pool_but_retire)

lemma fold_close_simps [simp]:
  "ht_conns (fold close_pc J t) = ht_conns t" "ht_retired (fold close_pc J t) = ht_retired t"
  "ht_closed (fold close_pc J t) = ht_closed t" "mapped (fold close_pc J t) = mapped t"
  "length (ht_heap (fold close_pc J t)) = length (ht_heap t)"
  by (induction J arbitrary: t) simp_all

lemma fold_retire_simps [simp]:
  "ht_conns (fold retire J t) = ht_conns t" "ht_closed (fold retire J t) = ht_closed t"
  by (induction J arbitrary: t) simp_all

lemma close_nth: "j < length (ht_heap t) \<Longrightarrow> pc_closed (ht_heap (close_pc i t) ! j) \<longleftrightarrow> j = i \<or> pc_closed (ht_heap t ! j)"
  by (auto simp: close_pc_def)

lemma fold_close_nth:
  "j < length (ht_heap t) \<Longrightarrow> pc_closed (ht_heap (fold close_pc J t) ! j) \<longleftrightarrow> j \<in> set J \<or> pc_closed (ht_heap t ! j)"
  by (induction J arbitrary: t) (auto simp: close_nth)

lemma fold_close_unmapped: "pool_ok F act t \<Longrightarrow> set J \<inter> mapped t = {} \<Longrightarrow> set J \<subseteq> F \<Longrightarrow> pool_ok F act (fold close_pc J t)"
proof (induction J arbitrary: t)
  case (Cons i J)
  then show ?case using pool_ok_close [of F act t i] by simp
qed simp

lemma pool_ok_unretire:
  assumes "pool_ok F act t" and "set kept \<subseteq> set (ht_retired t)"
    and "\<And>i. i \<in> set (ht_retired t) - set kept \<Longrightarrow> pc_closed (ht_heap t ! i)"
  shows "pool_ok F act (t\<lparr>ht_retired := kept\<rparr>)"
proof -
  have e: "holders (t\<lparr>ht_retired := kept\<rparr>) = holders t" "mapped (t\<lparr>ht_retired := kept\<rparr>) = mapped t"
    by (simp_all add: holders_def mapped_def fun_eq_iff)
  have "conn_ok F act (t\<lparr>ht_retired := kept\<rparr>) i" if "conn_ok F act t i" for i
    using that assms(3) [of i] unfolding conn_ok_def e by auto
  moreover have "map_ok (t\<lparr>ht_retired := kept\<rparr>)"
    using assms(1,2) unfolding pool_ok_def map_ok_def e by auto
  ultimately show ?thesis using assms(1) by (simp add: pool_ok_def users_ok_def)
qed

lemma pool_ok_stop: "pool_ok F act t \<Longrightarrow> pool_ok F act (t\<lparr>ht_cleanupStopped := b\<rparr>)"
  by (rule pool_ok_frame) (auto simp: pool_ok_def users_ok_def conn_ok_def holders_def mapped_def)

lemma close_field_commute:
  "close_pc i (t\<lparr>ht_retired := R\<rparr>) = (close_pc i t)\<lparr>ht_retired := R\<rparr>"
  "close_pc i (t\<lparr>ht_cleanupStopped := b\<rparr>) = (close_pc i t)\<lparr>ht_cleanupStopped := b\<rparr>"
  by (simp_all add: close_pc_def on_conn_def)

lemma fold_close_commute:
  "fold close_pc J (t\<lparr>ht_retired := R\<rparr>) = (fold close_pc J t)\<lparr>ht_retired := R\<rparr>"
  "fold close_pc J (t\<lparr>ht_cleanupStopped := b\<rparr>) = (fold close_pc J t)\<lparr>ht_cleanupStopped := b\<rparr>"
  by (induction J arbitrary: t) (simp_all add: close_field_commute)

lemma h2_Close_ok:
  assumes "pool_ok F act t"
  shows "pool_ok (F \<union> {..< length (ht_heap t)}) act (h2_Close t) \<and> (\<forall>i < length (ht_heap t). pc_closed (ht_heap (h2_Close t) ! i))"
proof -
  let ?F = "F \<union> {..< length (ht_heap t)}" and ?J = "map snd (ht_conns t)"
  let ?a = "fold close_pc ?J (t\<lparr>ht_conns := [], ht_closed := True\<rparr>)"
  let ?b = "fold close_pc (ht_retired t) ?a"
  have F: "pool_ok ?F act t" by (rule pool_ok_mono [OF assms]) simp
  have c: "pool_but ?F ?J act (t\<lparr>ht_conns := [], ht_closed := True\<rparr>)" "distinct ?J" using pool_but_clear [OF F] by auto
  have m: "mapped (t\<lparr>ht_conns := [], ht_closed := True\<rparr>) = {}" by (simp add: mapped_def)
  have "set ?J \<subseteq> ?F" using c(1) by (auto simp: pool_but_def)
  then have a: "pool_ok ?F act ?a" by (rule fold_close_ok [OF c])
  have r: "set (ht_retired t) \<subseteq> {..< length (ht_heap t)}" using assms by (auto simp: pool_ok_def map_ok_def)
  have b: "pool_ok ?F act ?b" by (rule fold_close_unmapped [OF a]) (use r m in auto)
  have k: "pool_ok ?F act (?b\<lparr>ht_retired := []\<rparr>)" by (rule pool_ok_unretire [OF b]) (use r in \<open>auto simp: fold_close_nth\<close>)
  have e: "h2_Close t = (?b\<lparr>ht_retired := []\<rparr>)\<lparr>ht_cleanupStopped := True\<rparr>"
  proof -
    have u: "t\<lparr>ht_closed := True, ht_conns := [], ht_cleanupStopped := True\<rparr> = (t\<lparr>ht_conns := [], ht_closed := True\<rparr>)\<lparr>ht_cleanupStopped := True\<rparr>"
      by simp
    show ?thesis unfolding h2_Close_def Let_def u fold_close_commute by simp
  qed
  have "pc_closed (ht_heap ?b ! i)" if "i < length (ht_heap t)" for i
  proof -
    have "conn_ok ?F act (?b\<lparr>ht_retired := []\<rparr>) i" using k that by (simp add: pool_ok_def)
    then show ?thesis using m by (auto simp: conn_ok_def mapped_def)
  qed
  then show ?thesis using pool_ok_stop [OF k] by (simp add: e)
qed

lemma h2_CloseGraceful_ok:
  assumes "pool_ok F act t"
  shows "pool_ok F act (h2_CloseGraceful t)"
proof -
  have "pool_ok F act (fold retire (map snd (ht_conns t)) (t\<lparr>ht_conns := [], ht_closed := True\<rparr>))"
    using pool_but_clear [OF assms] fold_retire_ok by blast
  moreover have e: "t\<lparr>ht_closed := True, ht_conns := []\<rparr> = t\<lparr>ht_conns := [], ht_closed := True\<rparr>" by simp
  ultimately show ?thesis using assms unfolding h2_CloseGraceful_def Let_def e by (simp add: pool_ok_stop)
qed

lemma h2_Refresh_ok:
  assumes "pool_ok F act t"
  shows "pool_ok (F \<union> mapped t) act (h2_Refresh t)"
proof -
  let ?F = "F \<union> mapped t" and ?J = "map snd (ht_conns t)"
  have F: "pool_ok ?F act t" by (rule pool_ok_mono [OF assms]) simp
  have c: "pool_but ?F ?J act (t\<lparr>ht_conns := [], ht_closed := ht_closed t\<rparr>)" "distinct ?J" using pool_but_clear [OF F] by blast+
  have e: "t\<lparr>ht_conns := [], ht_closed := ht_closed t\<rparr> = t\<lparr>ht_conns := []\<rparr>" by (cases t) simp
  have "set ?J \<subseteq> ?F" using assms by (auto simp: pool_ok_def map_ok_def mapped_def ran_distinct)
  then have "pool_ok ?F act (fold close_pc ?J (t\<lparr>ht_conns := []\<rparr>))" using fold_close_ok [OF c] unfolding e by simp
  then show ?thesis using F by (simp add: h2_Refresh_def)
qed


section \<open>The cleanup loop\<close>

text \<open>The states the loop goes through differ from the first only in what is closed, so it judges by the first.\<close>

definition closes :: "h2_transport \<Rightarrow> h2_transport \<Rightarrow> bool" where
  "closes t0 t \<longleftrightarrow>
     length (ht_heap t) = length (ht_heap t0) \<and> ht_maxConnAge t = ht_maxConnAge t0 \<and> ht_maxIdleTime t = ht_maxIdleTime t0 \<and>
     ht_abandonedBodyTimeout t = ht_abandonedBodyTimeout t0 \<and>
     (\<forall>i < length (ht_heap t0). (ht_heap t ! i)\<lparr>pc_closed := False\<rparr> = (ht_heap t0 ! i)\<lparr>pc_closed := False\<rparr>)"

text \<open>A connection in use on which nothing happened for the time a body may be idle.\<close>

definition abandoned :: "time \<Rightarrow> h2_transport \<Rightarrow> nat set" where
  "abandoned now t = {i. i < length (ht_heap t) \<and> pc_inFlight (ht_heap t ! i) > 0 \<and>
     now - pc_lastUsedAt (ht_heap t ! i) > ht_abandonedBodyTimeout t \<and>
     (pc_lastProgress (ht_heap t ! i) > 0 \<longrightarrow> now - pc_lastProgress (ht_heap t ! i) > ht_abandonedBodyTimeout t)}"

lemma destroyable_abandoned:
  "isConnDestroyable now t i \<Longrightarrow> i < length (ht_heap t) \<Longrightarrow> pc_inFlight (ht_heap t ! i) > 0 \<Longrightarrow> i \<in> abandoned now t"
  by (auto simp: isConnDestroyable_def abandoned_def Let_def split: if_splits)

lemma closes_refl [simp]: "closes t t"
  by (simp add: closes_def)

lemma closes_close [simp]: "closes t0 t \<Longrightarrow> closes t0 (close_pc i t)"
  by (simp add: closes_def close_pc_def) (simp add: on_conn_def)

lemma closes_fields [simp]: "closes t0 (t\<lparr>ht_conns := cs\<rparr>) = closes t0 t"
  by (simp add: closes_def)

lemma closes_judge:
  assumes "closes t0 t" and "i < length (ht_heap t0)"
  shows "isConnDestroyable now t i = isConnDestroyable now t0 i \<and> pc_inFlight (ht_heap t ! i) = pc_inFlight (ht_heap t0 ! i)"
proof -
  let ?c = "ht_heap t ! i" and ?d = "ht_heap t0 ! i"
  have "?c\<lparr>pc_closed := False\<rparr> = ?d\<lparr>pc_closed := False\<rparr>" using assms by (simp add: closes_def)
  then have "pc_inFlight ?c = pc_inFlight ?d" "pc_createdAt ?c = pc_createdAt ?d" "pc_lastUsedAt ?c = pc_lastUsedAt ?d"
    "pc_lastProgress ?c = pc_lastProgress ?d"
    by (metis persistent_conn.select_convs persistent_conn.update_convs persistent_conn.surjective)+
  then show ?thesis using assms(1) by (simp add: isConnDestroyable_def closes_def Let_def)
qed

lemma may_close:
  assumes "closes t0 t" and "i < length (ht_heap t)" and "isConnDestroyable now t i" and "abandoned now t0 \<subseteq> G"
  shows "i \<in> G \<or> pc_inFlight (ht_heap t ! i) \<le> 0"
proof -
  have "i < length (ht_heap t0)" using assms(1,2) by (simp add: closes_def)
  then show ?thesis using closes_judge [OF assms(1), of i now] destroyable_abandoned [of now t0 i] assms(3,4) by auto
qed

lemma sweep_fold:
  assumes "fold (sweep_one now) R (t, K) = (t', K')" and "pool_ok G act t" and "closes t0 t" and "abandoned now t0 \<subseteq> G"
    and "set R \<subseteq> set (ht_retired t)"
  shows "pool_ok G act t' \<and> ht_retired t' = ht_retired t \<and> set K \<subseteq> set K' \<and> set K' \<subseteq> set K \<union> set R \<and>
    (\<forall>i < length (ht_heap t). (i \<in> set R - set K' \<longrightarrow> pc_closed (ht_heap t' ! i)) \<and> (pc_closed (ht_heap t ! i) \<longrightarrow> pc_closed (ht_heap t' ! i)))"
  using assms
proof (induction R arbitrary: t K)
  case (Cons i R)
  have i: "i < length (ht_heap t)" "i \<notin> mapped t" using Cons.prems(2,5) by (auto simp: pool_ok_def map_ok_def)
  obtain t1 K1 where s: "sweep_one now i (t, K) = (t1, K1)" by fastforce
  have f: "fold (sweep_one now) R (t1, K1) = (t', K')" using Cons.prems(1) s by simp
  have "closes t0 t1" using s Cons.prems(3) by (auto simp: sweep_one_def split: if_splits)
  moreover have "pool_ok G act t1"
    using s Cons.prems(2) pool_ok_close [OF Cons.prems(2) i(2)] may_close [OF Cons.prems(3) i(1) _ Cons.prems(4)]
    by (auto simp: sweep_one_def split: if_splits)
  moreover have t1: "ht_retired t1 = ht_retired t" "length (ht_heap t1) = length (ht_heap t)" "set K \<subseteq> set K1" "set K1 \<subseteq> insert i (set K)"
    "i \<notin> set K1 \<Longrightarrow> pc_closed (ht_heap t1 ! i)"
    "j < length (ht_heap t) \<Longrightarrow> pc_closed (ht_heap t ! j) \<Longrightarrow> pc_closed (ht_heap t1 ! j)" for j
    using s i(1) by (auto simp: sweep_one_def close_nth split: if_splits)
  ultimately have "pool_ok G act t' \<and> ht_retired t' = ht_retired t1 \<and> set K1 \<subseteq> set K' \<and> set K' \<subseteq> set K1 \<union> set R \<and>
    (\<forall>i < length (ht_heap t1). (i \<in> set R - set K' \<longrightarrow> pc_closed (ht_heap t' ! i)) \<and> (pc_closed (ht_heap t1 ! i) \<longrightarrow> pc_closed (ht_heap t' ! i)))"
    using Cons.IH [OF f] Cons.prems(4,5) by simp
  moreover have "i \<notin> set K' \<Longrightarrow> pc_closed (ht_heap t1 ! i)" using calculation t1(5) by blast
  ultimately show ?case using t1(1-4,6) i(1) by auto
qed auto

lemma sweepRetired_ok:
  assumes "pool_ok G act t" and "closes t0 t" and "abandoned now t0 \<subseteq> G"
  shows "pool_ok G act (sweepRetired now t)"
proof -
  obtain t' K where f: "fold (sweep_one now) (ht_retired t) (t, []) = (t', K)" by fastforce
  have r: "set (ht_retired t) \<subseteq> {..< length (ht_heap t)}" using assms(1) by (auto simp: pool_ok_def map_ok_def)
  have "pool_ok G act (t'\<lparr>ht_retired := K\<rparr>)"
    by (rule pool_ok_unretire) (use sweep_fold [OF f assms] r in auto)
  then show ?thesis by (simp add: sweepRetired_def f)
qed

lemma h2_cleanup_fold:
  assumes "pool_ok G act t" and "closes t0 t" and "abandoned now t0 \<subseteq> G"
    and "wf_map L" and "\<And>k i. (k, i) \<in> set L \<Longrightarrow> map_of (ht_conns t) k = Some i"
  shows "pool_ok G act (fold (h2_cleanup_one now) L t) \<and> closes t0 (fold (h2_cleanup_one now) L t)"
  using assms
proof (induction L arbitrary: t)
  case (Cons x L)
  obtain key i where x: "x = (key, i)" by fastforce
  have m: "map_of (ht_conns t) key = Some i" using Cons.prems(5) x by simp
  then have "i \<in> mapped t" by (auto simp: mapped_def ranI)
  then have i: "i < length (ht_heap t)" using Cons.prems(1) by (auto simp: pool_ok_def map_ok_def)
  let ?t = "t\<lparr>ht_conns := AList.delete key (ht_conns t)\<rparr>"
  have j: "isConnDestroyable now t i \<Longrightarrow> i \<in> G \<or> pc_inFlight (ht_heap ?t ! i) \<le> 0"
    using may_close [OF Cons.prems(2) i _ Cons.prems(3)] by simp
  have "isConnDestroyable now t i \<Longrightarrow> pool_but G [] act (close_pc i ?t)"
    by (rule pool_but_close [OF pool_but_delete [OF Cons.prems(1) m] _ j]) simp_all
  then have "pool_ok G act (h2_cleanup_one now x t)" using Cons.prems(1) by (simp add: h2_cleanup_one_def x)
  moreover have "closes t0 (h2_cleanup_one now x t)" using Cons.prems(2) by (simp add: h2_cleanup_one_def x)
  moreover have "map_of (ht_conns (h2_cleanup_one now x t)) k = Some v" if "(k, v) \<in> set L" for k v
  proof -
    have "k \<noteq> key" using Cons.prems(4) that x by (auto dest: in_set_zipE intro: rev_image_eqI)
    then show ?thesis using Cons.prems(5) that by (simp add: h2_cleanup_one_def x delete_conv')
  qed
  ultimately show ?case using Cons.IH Cons.prems(3,4) by simp
qed simp

lemma h2_cleanup_ok:
  assumes "pool_ok F act t"
  shows "pool_ok (F \<union> abandoned now t) act (h2_cleanup now t)"
proof -
  have w: "wf_map (ht_conns t)" using assms by (simp add: pool_ok_def map_ok_def)
  have "pool_ok (F \<union> abandoned now t) act t" by (rule pool_ok_mono [OF assms]) simp
  then have "pool_ok (F \<union> abandoned now t) act (fold (h2_cleanup_one now) (ht_conns t) t) \<and> closes t (fold (h2_cleanup_one now) (ht_conns t) t)"
    by (rule h2_cleanup_fold [OF _ closes_refl Un_upper2 w wf_map_in_iff [OF w, THEN iffD1]])
  then show ?thesis unfolding h2_cleanup_def using sweepRetired_ok [OF _ _ Un_upper2] by simp
qed


section \<open>Runs of the pool\<close>

text \<open>
  Steps of the pool. The set collects the connections that were cut off although somebody used
  them: by \<^verbatim>\<open>Close\<close>, by \<^verbatim>\<open>Refresh\<close>, and by the cleanup when no byte came for the time a body may be idle.
\<close>

inductive h2_step :: "nat set \<times> h2_transport \<Rightarrow> nat set \<times> h2_transport \<Rightarrow> bool" where
  round_trip: "h2_roundTrip env host port t = (r, reached, sends, t') \<Longrightarrow> h2_step (F, t) (F, t')"
| connect: "h2_Connect now host port dial t = (r, t') \<Longrightarrow> h2_step (F, t) (F, t')"
| read_body: "b < length (ht_bodies t) \<Longrightarrow> h2_step (F, t) (F, body_Read now b n failed t)"
| close_body: "b < length (ht_bodies t) \<Longrightarrow> h2_step (F, t) (F, body_Close now b t)"
| clean: "h2_step (F, t) (F \<union> abandoned now t, h2_cleanup now t)"
| refresh: "h2_step (F, t) (F \<union> mapped t, h2_Refresh t)"
| close_gracefully: "h2_step (F, t) (F, h2_CloseGraceful t)"
| close: "h2_step (F, t) (F \<union> {..< length (ht_heap t)}, h2_Close t)"

inductive h2_reachable :: "nat set \<Rightarrow> h2_transport \<Rightarrow> bool" where
  new: "h2_reachable {} (NewHTTP2Transport connectTo proxied)"
| step: "h2_reachable F t \<Longrightarrow> h2_step (F, t) (F', t') \<Longrightarrow> h2_reachable F' t'"

inductive_cases h2_stepE: "h2_step (F, t) (F', t')"

lemma pool_ok_new: "pool_ok {} [] (NewHTTP2Transport connectTo proxied)"
  by (simp add: pool_ok_def map_ok_def users_ok_def NewHTTP2Transport_def mapped_def)

lemma body_Read_ok:
  assumes "pool_ok F act t" and "b < length (ht_bodies t)"
  shows "pool_ok F act (body_Read now b n failed t)"
proof -
  have "pool_ok F act (on_conn (fst (ht_bodies t ! b)) (\<lambda>c. c\<lparr>pc_lastProgress := now\<rparr>) t)"
    by (rule pool_ok_touch [OF assms(1)]) simp
  then show ?thesis using assms pool_ok_guard by (simp add: body_Read_def Let_def)
qed

lemma h2_step_ok: "h2_step (F, t) (F', t') \<Longrightarrow> pool_ok F [] t \<Longrightarrow> pool_ok F' [] t'"
proof (erule h2_stepE, goal_cases)
  case (1 env host port r reached sends)
  then show ?case using h2_roundTrip_ok [OF _ 1(3)] by simp
next
  case (2 now host port dial r)
  then show ?case using h2_Connect_ok [OF _ 2(3)] by simp
qed (simp_all add: h2_cleanup_ok h2_Refresh_ok h2_CloseGraceful_ok h2_Close_ok body_Read_ok body_Close_def pool_ok_guard)

lemma h2_reachable_ok: "h2_reachable F t \<Longrightarrow> pool_ok F [] t"
  by (induction rule: h2_reachable.induct) (auto intro: pool_ok_new h2_step_ok)


text \<open>
  Property C0. A response body is never cut off under its reader: a connection with an unfinished
  body stays open in every reachable state, except one that \<^verbatim>\<open>Close\<close> or \<^verbatim>\<open>Refresh\<close> closed or that the cleanup
  took for abandoned.
\<close>
theorem live_body_kept:
  assumes "h2_reachable F t" and "(i, False) \<in> set (ht_bodies t)" and "i \<notin> F"
  shows "\<not> pc_closed (ht_heap t ! i)"
proof -
  have ok: "pool_ok F [] t" by (rule h2_reachable_ok [OF assms(1)])
  then have "i < length (ht_heap t)" using assms(2) by (force simp: pool_ok_def users_ok_def)
  then have "conn_ok F [] t i" using ok by (simp add: pool_ok_def)
  moreover have "0 < holders t i" using assms(2) by (force simp: holders_def filter_empty_conv)
  ultimately show ?thesis using assms(3) by (auto simp: conn_ok_def)
qed

text \<open>
  Property C0. A request is sent over HTTP/2 at most three times, and again only after an error
  that the library judges to be safe to replay (a refused stream or no stream error), while the
  caller still waits.
\<close>
theorem h2_resend_safe:
  assumes "h2_reachable F t" and "h2_roundTrip env host port t = (r, reached, sends, t')"
  shows "sends \<le> 3 \<and> (\<forall>k. Suc k < sends \<longrightarrow>
    (\<exists>f. hv_answer env k = Inl f \<and> hf_shouldRetry f \<and> hf_ctxErr f = None \<and> (hf_streamError f = None \<or> isRefusedStream f)))"
proof -
  have "retryableHTTP2Request f \<Longrightarrow> hf_shouldRetry f \<and> (hf_streamError f = None \<or> isRefusedStream f)" for f
    by (auto simp: retryableHTTP2Request_def isRefusedStream_def split: option.splits if_splits)
  then show ?thesis using h2_roundTrip_ok [OF h2_reachable_ok [OF assms(1)] assms(2)]
    by (fastforce simp: resent_ok_def maxHTTP2Retries_def)
qed


section \<open>A run\<close>

text \<open>Two servers: one that answers with a body, and one that first refuses the stream.\<close>

definition answering :: h2_env where
  "answering = \<lparr>hv_answer = (\<lambda>n. Inr True), hv_dial = (\<lambda>n i. Inr ()), hv_now = (\<lambda>n. 1000)\<rparr>"

definition refusal :: h2_failure where
  "refusal = \<lparr>hf_error = Plain ''refused'', hf_streamError = Some 7, hf_closing = False, hf_ctxErr = None, hf_shouldRetry = True\<rparr>"

definition refusing_once :: h2_env where
  "refusing_once = answering\<lparr>hv_answer := (\<lambda>n. if n = 0 then Inl refusal else Inr True)\<rparr>"

definition streaming :: h2_transport where
  "streaming = (NewHTTP2Transport [] False)
     \<lparr>ht_conns := [(''a.org:443'', 0)],
      ht_heap := [(new_conn 1000 ''a.org'')\<lparr>pc_useCount := 1, pc_inFlight := 1, pc_lastProgress := 1000\<rparr>],
      ht_bodies := [(0, False)]\<rparr>"

lemma streaming_run: "h2_roundTrip answering ''a.org'' ''443'' (NewHTTP2Transport [] False) = (Inr 0, True, 1, streaming)"
  by code_simp

lemma streaming_reachable: "h2_reachable {} streaming"
  by (rule h2_reachable.step [OF h2_reachable.new h2_step.round_trip [OF streaming_run]])

definition retiring :: h2_transport where
  "retiring = streaming\<lparr>ht_conns := [], ht_closed := True, ht_retired := [0],
     ht_heap := [(ht_heap streaming ! 0)\<lparr>pc_closeRequested := True\<rparr>]\<rparr>"

lemma retiring_run: "h2_CloseGraceful streaming = retiring"
  by code_simp

lemma retiring_reachable: "h2_reachable {} retiring"
  using h2_reachable.step [OF streaming_reachable h2_step.close_gracefully] by (simp add: retiring_run)


theorem live_body_kept_witness: "(0, False) \<in> set (ht_bodies retiring) \<and> \<not> pc_closed (ht_heap retiring ! 0)"
proof -
  have "(0, False) \<in> set (ht_bodies retiring)" by (simp add: retiring_def streaming_def)
  then show ?thesis using live_body_kept [OF retiring_reachable] by simp
qed

lemma refused_run:
  "h2_roundTrip refusing_once ''a.org'' ''443'' (NewHTTP2Transport [] False) =
     (Inr 0, True, 2, streaming)"
  by code_simp

theorem h2_resend_safe_witness:
  "\<exists>f. hv_answer refusing_once 0 = Inl f \<and> hf_shouldRetry f \<and> (hf_streamError f = None \<or> isRefusedStream f)"
  using h2_resend_safe [OF h2_reachable.new refused_run] by fastforce

text \<open>
  With a substitute host the connection is kept under the substitute, but the two queries look
  under the host of the request: they miss a connection that the next request does use.
\<close>

lemma connect_to_reuse_missed:
  "let (r, reached, sends, t) = h2_roundTrip answering ''a.org'' ''443'' (NewHTTP2Transport [(''a.org'', ''b.org'')] False);
       (r', reached', sends', t') = h2_roundTrip answering ''a.org'' ''443'' t
   in r' = r \<and> length (ht_heap t') = 1 \<and> \<not> IsConnectionReused 1000 ''a.org'' ''443'' t' \<and> GetConnectionUseCount ''a.org'' ''443'' t' = 0"
  by code_simp

end
