(* ===== verification/Transport_Headers.thy ===== *)
theory Transport_Headers
  imports Transport_Errors Client_Headers Preset_Config Session_Redirect
begin

text \<open>
  The header half of \<^verbatim>\<open>transport/transport.go\<close>: what a request carries, from the preset, the
  shape of the request and the caller, in which order; and what a response becomes, from
  its headers and its body. The values of a header map are \<open>headers\<close>; the entries
  with a colon in their name are instructions to the encoder, not headers.
\<close>

section \<open>Names\<close>

definition exactHeadersKey :: string where
  "exactHeadersKey = ''Exact-Headers:''"

definition isClientHintHeader :: "string \<Rightarrow> bool" where
  "isClientHintHeader key \<longleftrightarrow> 7 \<le> length key \<and> to_lower (take 7 key) = ''sec-ch-''"

definition isTokenByte :: "char \<Rightarrow> bool" where
  "isTokenByte c \<longleftrightarrow> is_digit c \<or> is_lower c \<or> is_upper c \<or> c = CHR 0x27 \<or> c \<in> set ''!#$%&*+-.^_`|~''"

text \<open>
  The scan for a name that is canonical already; \<open>None\<close> sends the name to the
  conversion. The cache of converted names only saves time.
\<close>

fun canonical_scan :: "bool \<Rightarrow> string \<Rightarrow> bool option" where
  "canonical_scan upper [] = Some True"
| "canonical_scan upper (c # cs) =
     (if \<not> isTokenByte c then Some False
      else if (upper \<and> is_lower c) \<or> (\<not> upper \<and> is_upper c) then None
      else canonical_scan (c = CHR ''-'') cs)"

definition canonicalHeaderName :: "string \<Rightarrow> string" where
  "canonicalHeaderName name = (case canonical_scan True name of Some _ \<Rightarrow> name | None \<Rightarrow> CanonicalHeaderKey name)"

lemma isTokenByte_eq: "isTokenByte = token_byte"
  by (intro ext) (auto simp: isTokenByte_def token_byte_def)

lemma canonical_scan_invalid: "canonical_scan up s = Some False \<Longrightarrow> \<not> list_all token_byte s"
  by (induction up s rule: canonical_scan.induct) (auto simp: isTokenByte_eq split: if_splits)

lemma lower_id: "\<not> is_upper c \<Longrightarrow> lower_char c = c"
  by (auto simp: lower_char_def is_upper_def)

lemma canonical_scan_valid: "canonical_scan up s = Some True \<Longrightarrow> list_all token_byte s \<and> canonical_loop up s = s"
  by (induction up s rule: canonical_scan.induct) (auto simp: isTokenByte_eq upper_char_def lower_id split: if_splits)

lemma canonicalHeaderName_eq [simp]: "canonicalHeaderName = CanonicalHeaderKey"
proof
  fix s
  show "canonicalHeaderName s = CanonicalHeaderKey s"
    using canonical_scan_invalid [of True s] canonical_scan_valid [of True s]
    by (cases "canonical_scan True s"; cases "the (canonical_scan True s)") (auto simp: canonicalHeaderName_def CanonicalHeaderKey_def)
qed

section \<open>The preset\<close>

definition sec_fetch_name :: "string \<Rightarrow> bool" where
  "sec_fetch_name key \<longleftrightarrow> 10 \<le> length key \<and> to_lower (take 10 key) = ''sec-fetch-''"

definition presetSendsSecFetch :: "fp_preset \<Rightarrow> bool" where
  "presetSendsSecFetch preset =
     (if fp_HeaderOrder preset \<noteq> [] then list_ex (\<lambda>(k, v). sec_fetch_name k) (fp_HeaderOrder preset)
      else list_ex (\<lambda>(k, v). sec_fetch_name k) (fp_Headers preset))"

record wire_header_pair =
  wp_key :: string
  wp_value :: string
  wp_clientHint :: bool

record preset_wire_headers =
  wi_preset :: fp_preset
  wi_pairs :: "wire_header_pair list"
  wi_sendsSecFetch :: bool

definition wire_pair :: "string \<times> string \<Rightarrow> wire_header_pair" where
  "wire_pair = (\<lambda>(key, value). \<lparr>wp_key = CanonicalHeaderKey key, wp_value = value, wp_clientHint = isClientHintHeader key\<rparr>)"

definition newPresetWireHeaders :: "fp_preset \<Rightarrow> preset_wire_headers" where
  "newPresetWireHeaders preset =
     \<lparr>wi_preset = preset,
      wi_pairs = map wire_pair (if fp_HeaderOrder preset \<noteq> [] then fp_HeaderOrder preset else fp_Headers preset) @
        [\<lparr>wp_key = ''User-Agent'', wp_value = fp_UserAgent preset, wp_clientHint = False\<rparr>],
      wi_sendsSecFetch = presetSendsSecFetch preset\<rparr>"

text \<open>The cache of the transport, and what a request gets from it.\<close>

definition wireHeaders :: "fp_preset \<Rightarrow> preset_wire_headers option \<Rightarrow> preset_wire_headers \<times> preset_wire_headers option" where
  "wireHeaders preset cached =
     (case cached of
        Some w \<Rightarrow> if wi_preset w = preset then (w, cached) else (let w' = newPresetWireHeaders preset in (w', Some w'))
      | None \<Rightarrow> (let w' = newPresetWireHeaders preset in (w', Some w')))"

section \<open>The shape of a request\<close>

definition headerVal :: "headers \<Rightarrow> string \<Rightarrow> string" where
  "headerVal h name = (case find (\<lambda>(k, v). to_lower k = to_lower name \<and> v \<noteq> []) h of Some (k, v # vs) \<Rightarrow> v | _ \<Rightarrow> [])"

definition isAPIAcceptValue :: "string \<Rightarrow> bool" where
  "isAPIAcceptValue accept \<longleftrightarrow>
     (let lower = to_lower accept in
      contains lower ''application/json'' \<or> contains lower ''application/xml'' \<or> contains lower ''text/plain'' \<or>
      contains lower ''application/octet-stream'' \<or> lower = ''*/*'')"

definition isFormContentTypeValue :: "string \<Rightarrow> bool" where
  "isFormContentTypeValue ct \<longleftrightarrow>
     (let lower = to_lower ct in
      has_prefix lower ''application/x-www-form-urlencoded'' \<or> has_prefix lower ''multipart/form-data'')"

definition isAPIContentTypeValue :: "string \<Rightarrow> bool" where
  "isAPIContentTypeValue ct \<longleftrightarrow>
     (let lower = to_lower ct in
      has_prefix lower ''application/json'' \<or> has_prefix lower ''application/xml'' \<or>
      has_prefix lower ''application/octet-stream'' \<or> has_prefix lower ''application/grpc'' \<or>
      has_prefix lower ''application/x-protobuf'' \<or> has_prefix lower ''text/plain'' \<or>
      (has_prefix lower ''application/'' \<and> \<not> isFormContentTypeValue lower))"

definition transport_sniffXHRMode :: "string \<Rightarrow> headers \<Rightarrow> bool" where
  "transport_sniffXHRMode method0 userHeaders =
     (let method = to_upper method0;
          mode = to_lower (headerVal userHeaders ''Sec-Fetch-Mode'');
          dest = headerVal userHeaders ''Sec-Fetch-Dest'';
          accept = headerVal userHeaders ''Accept'';
          ct = headerVal userHeaders ''Content-Type''
      in if mode \<in> {''cors'', ''no-cors'', ''websocket''} then True
         else if mode = ''navigate'' then False
         else if dest \<noteq> [] then to_lower dest \<noteq> ''document''
         else if accept \<noteq> [] \<and> isAPIAcceptValue accept then True
         else if method \<in> {''GET'', ''HEAD'', ''OPTIONS'', []} then False
         else if method = ''DELETE'' then True
         else if ct \<noteq> [] \<and> isFormContentTypeValue ct then False
         else if ct \<noteq> [] \<and> isAPIContentTypeValue ct then True
         else True)"

section \<open>Request headers\<close>

definition cmp_or :: "string \<Rightarrow> string \<Rightarrow> string" where
  "cmp_or a b = (if a \<noteq> [] then a else b)"

definition h3_pseudo :: "string list" where
  "h3_pseudo = ['':method'', '':scheme'', '':path'', '':authority'']"

definition h2_pseudo :: "string list" where
  "h2_pseudo = ['':method'', '':authority'', '':scheme'', '':path'']"

text \<open>The pairs go in one by one: an entry collects the values of its name, the order has a slot per pair.\<close>

definition exact_pair :: "string \<times> string \<Rightarrow> headers \<Rightarrow> headers" where
  "exact_pair = (\<lambda>(key, value) h. AList.update key ((case map_of h key of Some vs \<Rightarrow> vs | None \<Rightarrow> []) @ [value]) h)"

definition applyExactHeaders ::
    "(string \<times> string) list \<Rightarrow> fp_preset \<Rightarrow> string list \<Rightarrow> string \<Rightarrow> headers \<Rightarrow> headers option" where
  "applyExactHeaders exact preset customPseudoOrder protocol header =
     (if exact = [] then None
      else
        (let h1 = fold exact_pair exact [];
             h2 = AList.update HeaderOrderKey (map fst exact) h1;
             h3 = (if protocol = ''h1'' then AList.update exactHeadersKey [''1''] h2 else h2);
             pseudo =
               (if customPseudoOrder \<noteq> [] then customPseudoOrder
                else
                  (case H2PseudoHeaderOrder preset of
                     Some order \<Rightarrow> order
                   | None \<Rightarrow> if protocol = ''h3'' then h3_pseudo else h2_pseudo))
         in Some (AList.update PHeaderOrderKey pseudo h3)))"

definition preset_pairs :: "bool \<Rightarrow> wire_header_pair list \<Rightarrow> headers \<Rightarrow> headers" where
  "preset_pairs stripClientHints pairs header =
     fold (\<lambda>p h. if stripClientHints \<and> wp_clientHint p then h else AList.update (wp_key p) [wp_value p] h) pairs header"

text \<open>Sec-Fetch headers, Accept and Priority of a call from a script.\<close>

definition xhr_headers :: "headers \<Rightarrow> headers \<Rightarrow> headers" where
  "xhr_headers userHeaders h =
     (let h1 = AList.update ''Sec-Fetch-Mode'' [cmp_or (headerVal userHeaders ''Sec-Fetch-Mode'') ''cors''] h;
          h2 = AList.update ''Sec-Fetch-Dest'' [cmp_or (headerVal userHeaders ''Sec-Fetch-Dest'') ''empty''] h1;
          h3 = AList.update ''Sec-Fetch-Site'' [cmp_or (headerVal userHeaders ''Sec-Fetch-Site'') ''cross-site''] h2;
          h4 = AList.delete ''Upgrade-Insecure-Requests'' (AList.delete ''Sec-Fetch-User'' h3);
          h5 = (if headerVal userHeaders ''Accept'' = [] then AList.update ''Accept'' [''*/*''] h4 else h4)
      in case map_of h5 ''Priority'' of
           Some (p # ps) \<Rightarrow> if p \<noteq> [] then AList.update ''Priority'' [''u=1, i''] h5 else h5
         | _ \<Rightarrow> h5)"

definition priority_header :: "fp_preset \<Rightarrow> headers \<Rightarrow> headers" where
  "priority_header preset h =
     (if H2HasPriorityTable preset then
        (let dest = (case map_of h ''Sec-Fetch-Dest'' of Some (d # ds) \<Rightarrow> d | _ \<Rightarrow> []) in
         case H2PriorityFor dest preset of
           None \<Rightarrow> h
         | Some (w, e, hv) \<Rightarrow>
             if hv = [] then AList.delete ''Priority'' h
             else
               (let h' = AList.update ''Priority'' [hv] h in
                if map_of h' ''priority'' \<noteq> None then AList.update ''priority'' [hv] h' else h'))
      else h)"

definition browser_headers :: "preset_wire_headers \<Rightarrow> bool \<Rightarrow> string \<Rightarrow> string \<Rightarrow> headers \<Rightarrow> headers \<Rightarrow> headers" where
  "browser_headers wire stripClientHints method protocol userHeaders header =
     (let h1 = preset_pairs stripClientHints (wi_pairs wire) header;
          h2 = (if wi_sendsSecFetch wire \<and> transport_sniffXHRMode method userHeaders then xhr_headers userHeaders h1 else h1);
          h3 = priority_header (wi_preset wire) h2
      in if protocol = ''h1'' \<and> \<not> SendsPriorityOverHTTP1 (wi_preset wire) then AList.delete ''Priority'' h3 else h3)"

definition applyPresetHeaders ::
    "preset_wire_headers \<Rightarrow> string list \<Rightarrow> string list \<Rightarrow> bool \<Rightarrow> string \<Rightarrow> headers \<Rightarrow> bool \<Rightarrow> (string \<times> string) list \<Rightarrow>
     string \<Rightarrow> headers \<Rightarrow> headers" where
  "applyPresetHeaders wire customHeaderOrder customPseudoOrder tlsOnly protocol userHeaders stripClientHints exactHeaders method header =
     (case applyExactHeaders exactHeaders (wi_preset wire) customPseudoOrder protocol header of
        Some h \<Rightarrow> h
      | None \<Rightarrow>
          (let preset = wi_preset wire;
               h1 = (if \<not> tlsOnly then browser_headers wire stripClientHints method protocol userHeaders header
                     else header_Set ''User-Agent'' [] header);
               h2 = AList.update HeaderOrderKey
                      (CompleteHeaderOrder customHeaderOrder (H2HeaderOrderFor (header_Get h1 ''Sec-Fetch-Dest'') preset) h1 userHeaders) h1;
               pseudo =
                 (if customPseudoOrder \<noteq> [] then customPseudoOrder
                  else
                    (case H2PseudoHeaderOrder preset of
                       Some order \<Rightarrow> order
                     | None \<Rightarrow> if hs_NoRFC7540Priorities (fp_HTTP2Settings preset) then h3_pseudo else h2_pseudo))
           in AList.update PHeaderOrderKey pseudo h2))"

definition mergeCallerHeaders :: "request \<Rightarrow> headers \<Rightarrow> headers" where
  "mergeCallerHeaders req header =
     (if rq_ExactHeaders req \<noteq> [] then header
      else fold (\<lambda>(key, values) h. if values = [] then h else AList.update (canonicalHeaderName key) values h) (rq_Headers req) header)"

section \<open>Responses\<close>

definition bookkeeping :: "string \<Rightarrow> bool" where
  "bookkeeping key \<longleftrightarrow> key = HeaderOrderKey \<or> key = PHeaderOrderKey \<or> key = h1HeaderCasingKey \<or> key = exactHeadersKey"

definition buildHeadersMap :: "headers \<Rightarrow> headers" where
  "buildHeadersMap h =
     fold (\<lambda>(key, values) m. if bookkeeping key then m else AList.update (lowerHeaderName key) values m) h []"

definition buildTrailerMap :: "headers \<Rightarrow> headers option" where
  "buildTrailerMap h = (if h = [] then None else (let m = buildHeadersMap h in if m = [] then None else Some m))"

definition responseHeaderOrder :: "headers \<Rightarrow> string list option" where
  "responseHeaderOrder h = (case map_of h HeaderOrderKey of None \<Rightarrow> None | Some order \<Rightarrow> if order = [] then None else Some order)"

text \<open>
  A body is the chunks that its reads deliver and how they end: with \<^verbatim>\<open>io.EOF\<close>, with
  \<^verbatim>\<open>io.ErrUnexpectedEOF\<close> (the connection closed before the announced length) or with another
  error. A read fills at most the space it is given.
\<close>

datatype body_end = EndEOF | EndUnexpectedEOF | EndError go_error

record body_stream =
  bs_chunks :: "byte list list"
  bs_end :: body_end

text \<open>
  The loop for a body of unknown length: \<open>cap\<close> is the size of the buffer, \<open>buf\<close> what it
  holds. A full buffer is doubled.
\<close>

function read_loop :: "nat \<Rightarrow> byte list \<Rightarrow> byte list list \<Rightarrow> byte list" where
  "read_loop cap buf [] = buf"
| "read_loop cap buf (c # cs) =
     (let cap' = (if length buf = cap then cap * 2 else cap); space = cap' - length buf in
      if space = 0 then buf
      else if length c \<le> space then read_loop cap' (buf @ c) cs
      else read_loop cap' (buf @ take space c) (drop space c # cs))"
  by pat_completeness auto

termination
  by (relation "measure (\<lambda>(cap, buf, cs). length cs + sum_list (map length cs))") auto

definition readBodyOptimized :: "body_stream \<Rightarrow> int \<Rightarrow> go_error + byte list" where
  "readBodyOptimized body contentLength =
     (if 0 < contentLength then
        (let n = nat contentLength; got = take n (concat (bs_chunks body)) in
         if length got = n then Inr got
         else (case bs_end body of EndError e \<Rightarrow> Inl e | EndEOF \<Rightarrow> Inr got | EndUnexpectedEOF \<Rightarrow> Inr got))
      else
        (case bs_end body of
           EndEOF \<Rightarrow> Inr (read_loop (1024 * 1024) [] (bs_chunks body))
         | EndUnexpectedEOF \<Rightarrow> Inl (Plain ''unexpected EOF'')
         | EndError e \<Rightarrow> Inl e))"

text \<open>The decoders are functions of other packages.\<close>

record codecs =
  co_gzip :: "byte list \<Rightarrow> go_error + byte list"
  co_br :: "byte list \<Rightarrow> go_error + byte list"
  co_zstd :: "byte list \<Rightarrow> go_error + byte list"
  co_deflate :: "byte list \<Rightarrow> go_error + byte list"

definition decompress :: "codecs \<Rightarrow> byte list \<Rightarrow> string \<Rightarrow> go_error + byte list" where
  "decompress co data encoding =
     (let e = to_lower encoding in
      if e = ''gzip'' then co_gzip co data
      else if e = ''br'' then co_br co data
      else if e = ''zstd'' then co_zstd co data
      else if e = ''deflate'' then co_deflate co data
      else Inr data)"

section \<open>Exact headers\<close>

text \<open>
  How the encoders read an order list: each slot takes the next value of its name.
\<close>

fun slots :: "(string \<Rightarrow> nat) \<Rightarrow> headers \<Rightarrow> string list \<Rightarrow> (string \<times> string) list" where
  "slots seen h [] = []"
| "slots seen h (k # ks) =
     (k, (case map_of h k of Some vs \<Rightarrow> vs ! seen k | None \<Rightarrow> [])) # slots (seen(k := Suc (seen k))) h ks"

definition values_of :: "string \<Rightarrow> (string \<times> string) list \<Rightarrow> string list" where
  "values_of k pairs = map snd (filter (\<lambda>p. fst p = k) pairs)"

lemma values_of_simps [simp]:
  "values_of k [] = []"
  "values_of k ((k', v) # ps) = (if k' = k then v # values_of k ps else values_of k ps)"
  "values_of k (ps @ qs) = values_of k ps @ values_of k qs"
  by (simp_all add: values_of_def)

lemma exact_pairs_collect:
  "map_of (fold exact_pair pairs h) k =
     (if k \<in> fst ` set pairs then Some ((case map_of h k of Some vs \<Rightarrow> vs | None \<Rightarrow> []) @ values_of k pairs) else map_of h k)"
proof (induction pairs arbitrary: h)
  case (Cons p pairs)
  obtain k' v where p: "p = (k', v)" by (cases p)
  show ?case
    unfolding p fold_Cons comp_apply Cons.IH
    by (auto simp: exact_pair_def values_of_def filter_empty_conv split: option.split)
qed simp

lemma slots_replay:
  assumes "\<And>k. k \<in> fst ` set post \<Longrightarrow> map_of h k = Some (values_of k (pre @ post))"
  shows "slots (\<lambda>k. length (values_of k pre)) h (map fst post) = post"
  using assms
proof (induction post arbitrary: pre)
  case (Cons p post)
  obtain k v where p: "p = (k, v)" by (cases p)
  have m: "map_of h k = Some (values_of k pre @ v # values_of k post)" using Cons.prems [of k] p by simp
  have s: "(\<lambda>x. length (values_of x pre))(k := Suc (length (values_of k pre))) = (\<lambda>x. length (values_of x (pre @ [p])))"
    by (auto simp: p)
  have "slots (\<lambda>x. length (values_of x (pre @ [p]))) h (map fst post) = post"
    by (rule Cons.IH) (use Cons.prems p in \<open>auto split: if_splits\<close>)
  then show ?case by (simp add: p m s nth_append)
qed simp

definition encoder_keys :: "string list" where
  "encoder_keys = [HeaderOrderKey, PHeaderOrderKey, exactHeadersKey]"

lemma encoder_keys_distinct [simp]:
  "HeaderOrderKey \<noteq> PHeaderOrderKey" "HeaderOrderKey \<noteq> exactHeadersKey" "PHeaderOrderKey \<noteq> exactHeadersKey"
  "PHeaderOrderKey \<noteq> HeaderOrderKey" "exactHeadersKey \<noteq> HeaderOrderKey" "exactHeadersKey \<noteq> PHeaderOrderKey"
  by (simp_all add: HeaderOrderKey_def PHeaderOrderKey_def exactHeadersKey_def)

lemma exact_map:
  assumes "applyExactHeaders exact preset pseudo protocol h0 = Some h"
  shows "map_of h HeaderOrderKey = Some (map fst exact) \<and>
    (k \<notin> set encoder_keys \<longrightarrow> map_of h k = (if k \<in> fst ` set exact then Some (values_of k exact) else None))"
proof -
  have m: "map_of (fold exact_pair exact []) k = (if k \<in> fst ` set exact then Some (values_of k exact) else None)"
    using exact_pairs_collect [of exact "[]" k] by simp
  obtain p where "h = AList.update PHeaderOrderKey p (if protocol = ''h1'' then AList.update exactHeadersKey [''1'']
      (AList.update HeaderOrderKey (map fst exact) (fold exact_pair exact [])) else AList.update HeaderOrderKey (map fst exact) (fold exact_pair exact []))"
    using assms(1) unfolding applyExactHeaders_def Let_def by (metis option.distinct(1) option.inject)
  then show ?thesis by (simp add: m encoder_keys_def)
qed

text \<open>
  Property C18. Headers that the caller lists as exact reach the encoder as they were listed:
  read slot by slot, the map is the list of pairs again, with repeated names at their own
  places; whatever the preset, the session and the cookie jar hold, nothing else is in it
  but the encoder's own entries, and merging the caller's other headers does not change it.
\<close>

theorem exact_headers_roundtrip:
  assumes "rq_ExactHeaders req \<noteq> []" and "fst ` set (rq_ExactHeaders req) \<inter> set encoder_keys = {}"
    and "h = mergeCallerHeaders req
      (applyPresetHeaders wire order pseudo tlsOnly protocol (rq_Headers req) strip (rq_ExactHeaders req) method h0)"
  shows "map_option (slots (\<lambda>k. 0) h) (map_of h HeaderOrderKey) = Some (rq_ExactHeaders req) \<and>
    fst ` set h \<subseteq> fst ` set (rq_ExactHeaders req) \<union> set encoder_keys"
proof -
  obtain h' where a: "applyExactHeaders (rq_ExactHeaders req) (wi_preset wire) pseudo protocol h0 = Some h'"
    using assms(1) by (simp add: applyExactHeaders_def Let_def)
  have h: "h = h'" using assms(1,3) a by (simp add: mergeCallerHeaders_def applyPresetHeaders_def)
  note m = exact_map [OF a]
  have "slots (\<lambda>k. length (values_of k [])) h (map fst (rq_ExactHeaders req)) = rq_ExactHeaders req"
  proof (rule slots_replay)
    fix k assume k: "k \<in> fst ` set (rq_ExactHeaders req)"
    then have "k \<notin> set encoder_keys" using assms(2) by blast
    then show "map_of h k = Some (values_of k ([] @ rq_ExactHeaders req))" using m [of k] k h by simp
  qed
  moreover have "fst ` set h \<subseteq> fst ` set (rq_ExactHeaders req) \<union> set encoder_keys"
  proof
    fix k assume "k \<in> fst ` set h"
    then have "map_of h k \<noteq> None" by (simp add: map_of_eq_None_iff)
    then show "k \<in> fst ` set (rq_ExactHeaders req) \<union> set encoder_keys" using m [of k] h by (auto split: if_splits)
  qed
  ultimately show ?thesis using m h by simp
qed

definition plain_request :: "string \<Rightarrow> string \<Rightarrow> headers \<Rightarrow> request" where
  "plain_request method u hdrs =
     \<lparr>rq_Method = method, rq_URL = u, rq_Headers = hdrs, rq_Body = [], rq_BodyReader = None, rq_GetBody = None, rq_Timeout = 0,
      rq_HeaderOrder = [], rq_ExactHeaders = [], rq_TLSOnly = None, rq_FollowRedirects = None, rq_DisableConditionalCache = False,
      rq_DisableClientHints = False, rq_DisableHighEntropyClientHints = False, rq_DisableRedirectReferer = False, rq_OnRedirect = None\<rparr>"

definition captured_request :: request where
  "captured_request = (plain_request ''GET'' ''https://a.test/'' [(''Cookie'', [''jar=1''])])
     \<lparr>rq_ExactHeaders := [(''cookie'', ''a=1''), (''Accept'', ''*/*''), (''cookie'', ''b=2'')]\<rparr>"

theorem exact_headers_roundtrip_witness:
  "let h = mergeCallerHeaders captured_request (applyPresetHeaders (newPresetWireHeaders no_preset) [] [] False ''h2''
       (rq_Headers captured_request) False (rq_ExactHeaders captured_request) ''GET'' [])
   in map_option (slots (\<lambda>k. 0) h) (map_of h HeaderOrderKey) =
      Some [(''cookie'', ''a=1''), (''Accept'', ''*/*''), (''cookie'', ''b=2'')]"
  using exact_headers_roundtrip [of captured_request _ "newPresetWireHeaders no_preset" "[]" "[]" False "''h2''" False "''GET''" "[]", OF _ _ refl]
  by (simp add: captured_request_def plain_request_def encoder_keys_def HeaderOrderKey_def PHeaderOrderKey_def exactHeadersKey_def Let_def)

section \<open>Caller headers\<close>

lemma merge_other:
  assumes "k \<notin> CanonicalHeaderKey ` fst ` set hs"
  shows "map_of (fold (\<lambda>(key, values) h. if values = [] then h else AList.update (CanonicalHeaderKey key) values h) hs h) k = map_of h k"
  using assms by (induction hs arbitrary: h) auto

lemma merge_caller:
  assumes "distinct (map (\<lambda>p. CanonicalHeaderKey (fst p)) hs)" and "(k, vs) \<in> set hs" and "vs \<noteq> []"
  shows "map_of (fold (\<lambda>(key, values) h. if values = [] then h else AList.update (CanonicalHeaderKey key) values h) hs h)
    (CanonicalHeaderKey k) = Some vs"
  using assms
proof (induction hs arbitrary: h)
  case (Cons p hs)
  show ?case
  proof (cases "p = (k, vs)")
    case True
    have "CanonicalHeaderKey k \<notin> CanonicalHeaderKey ` fst ` set hs" using Cons.prems(1) True by (auto simp: image_image)
    then show ?thesis using True Cons.prems(3) merge_other [of "CanonicalHeaderKey k" hs] by simp
  next
    case False
    then show ?thesis using Cons by (cases p) auto
  qed
qed simp

lemma merge_keys:
  "fst ` set (fold (\<lambda>(key, values) h. if values = [] then h else AList.update (CanonicalHeaderKey key) values h) hs h) \<subseteq>
     fst ` set h \<union> CanonicalHeaderKey ` fst ` set hs"
proof
  fix k assume "k \<in> fst ` set (fold (\<lambda>(key, values) h. if values = [] then h else AList.update (CanonicalHeaderKey key) values h) hs h)"
  then show "k \<in> fst ` set h \<union> CanonicalHeaderKey ` fst ` set hs"
    using merge_other [of k hs h] unfolding map_of_eq_None_iff [symmetric] by (metis (no_types, lifting) UnI1 UnI2 map_of_eq_None_iff)
qed

lemma order_names:
  "set (CompleteHeaderOrder e p h u) = {to_lower n | n. n \<in> set (e @ p) \<and> n \<noteq> []} \<union>
     {to_lower n | n. n \<in> fst ` set h \<union> fst ` set u \<and> n \<noteq> [] \<and> \<not> control_key n}"
  "distinct (CompleteHeaderOrder e p h u)"
proof -
  let ?n = "fold place (e @ p) []"
  obtain r where r: "fold collect (map fst h @ map fst u) ?n = ?n @ r" using collect_extends by blast
  note rs = remainder_set [OF r]
  have sn: "set ?n = {to_lower n | n. n \<in> set (e @ p) \<and> n \<noteq> []}" using set_place [of "e @ p" "[]"] by simp
  have o': "CompleteHeaderOrder e p h u = ?n @ sort r" unfolding order_split r by simp
  show "set (CompleteHeaderOrder e p h u) = {to_lower n | n. n \<in> set (e @ p) \<and> n \<noteq> []} \<union>
     {to_lower n | n. n \<in> fst ` set h \<union> fst ` set u \<and> n \<noteq> [] \<and> \<not> control_key n}"
    unfolding o' set_append set_sort conjunct2 [OF rs] sn by auto
  show "distinct (CompleteHeaderOrder e p h u)"
    unfolding o' using rs distinct_place [where buf = "[]" and names = "e @ p"] by auto
qed

lemma merge_eq:
  "mergeCallerHeaders req header =
     (if rq_ExactHeaders req \<noteq> [] then header
      else fold (\<lambda>(key, values) h. if values = [] then h else AList.update (CanonicalHeaderKey key) values h) (rq_Headers req) header)"
  by (simp only: mergeCallerHeaders_def canonicalHeaderName_eq)

lemma applied_shape:
  "\<exists>h1 ord p. applyPresetHeaders wire order pseudo tlsOnly protocol user strip [] method h0 =
     AList.update PHeaderOrderKey p (AList.update HeaderOrderKey (CompleteHeaderOrder order ord h1 user) h1) \<and>
   h1 = (if \<not> tlsOnly then browser_headers wire strip method protocol user h0 else header_Set ''User-Agent'' [] h0)"
  by (auto simp: applyPresetHeaders_def applyExactHeaders_def Let_def)

lemma control_keys [simp]: "control_key HeaderOrderKey" "control_key PHeaderOrderKey"
  by (simp_all add: control_key_def)

lemma not_control_canonical [simp]: "control_key (CanonicalHeaderKey k) = control_key k"
  by (simp add: control_key_def)

text \<open>
  Property C19. The caller has the last word on a header, and the order that goes with the
  request is complete: every header the caller gives is on the request with its values,
  whatever the preset had under that name, and the order list names every header of the
  request, the caller's included, exactly once.
\<close>

theorem caller_headers_sent:
  assumes "rq_ExactHeaders req = []" and "distinct (map (\<lambda>p. CanonicalHeaderKey (fst p)) (rq_Headers req))"
    and "\<forall>k \<in> fst ` set (rq_Headers req). \<not> control_key k"
    and "h = mergeCallerHeaders req
      (applyPresetHeaders wire order pseudo tlsOnly protocol (rq_Headers req) strip (rq_ExactHeaders req) method [])"
  shows "(\<forall>(k, vs) \<in> set (rq_Headers req). vs \<noteq> [] \<longrightarrow> map_of h (CanonicalHeaderKey k) = Some vs) \<and>
    (\<exists>names. map_of h HeaderOrderKey = Some names \<and> distinct names \<and>
      (\<forall>n \<in> fst ` set h. n \<noteq> [] \<and> \<not> control_key n \<longrightarrow> to_lower n \<in> set names))"
proof -
  obtain h1 ord p where s: "applyPresetHeaders wire order pseudo tlsOnly protocol (rq_Headers req) strip [] method [] =
      AList.update PHeaderOrderKey p (AList.update HeaderOrderKey (CompleteHeaderOrder order ord h1 (rq_Headers req)) h1)"
    (is "_ = ?a") using applied_shape by blast
  have h: "h = fold (\<lambda>(key, values) h. if values = [] then h else AList.update (CanonicalHeaderKey key) values h) (rq_Headers req) ?a"
    using assms(1,4) s by (simp add: merge_eq)
  have c: "HeaderOrderKey \<notin> CanonicalHeaderKey ` fst ` set (rq_Headers req)"
    using assms(3) by (metis control_keys(1) imageE not_control_canonical)
  have o': "map_of h HeaderOrderKey = Some (CompleteHeaderOrder order ord h1 (rq_Headers req))"
    unfolding h merge_other [OF c] by simp
  have "to_lower n \<in> set (CompleteHeaderOrder order ord h1 (rq_Headers req))"
    if n: "n \<in> fst ` set h" "n \<noteq> []" "\<not> control_key n" for n
  proof -
    have "n \<in> fst ` set ?a \<union> CanonicalHeaderKey ` fst ` set (rq_Headers req)" using n(1) merge_keys h by blast
    then have "n \<in> fst ` set h1 \<or> (\<exists>k \<in> fst ` set (rq_Headers req). n = CanonicalHeaderKey k)"
      using n(3) by (auto simp: keys_update image_iff)
    moreover have "CanonicalHeaderKey k \<noteq> [] \<Longrightarrow> k \<noteq> []" for k by (auto simp: CanonicalHeaderKey_def)
    ultimately obtain m where m: "m \<in> fst ` set h1 \<union> fst ` set (rq_Headers req)" "m \<noteq> []" "\<not> control_key m" "to_lower n = to_lower m"
      using n by (metis UnCI not_control_canonical to_lower_canonical)
    then show ?thesis unfolding order_names by blast
  qed
  then have "\<forall>n \<in> fst ` set h. n \<noteq> [] \<and> \<not> control_key n \<longrightarrow> to_lower n \<in> set (CompleteHeaderOrder order ord h1 (rq_Headers req))"
    by blast
  moreover have "\<forall>(k, vs) \<in> set (rq_Headers req). vs \<noteq> [] \<longrightarrow> map_of h (CanonicalHeaderKey k) = Some vs"
    unfolding h using merge_caller [OF assms(2)] by blast
  ultimately show ?thesis using o' order_names(2) by blast
qed

theorem caller_headers_sent_witness:
  "let req = plain_request ''GET'' ''https://a.test/'' [(''user-agent'', [''mine''])] in
   map_of (mergeCallerHeaders req (applyPresetHeaders (newPresetWireHeaders no_preset) [] [] False ''h2'' (rq_Headers req) False
     (rq_ExactHeaders req) ''GET'' [])) ''User-Agent'' = Some [''mine'']"
proof -
  have k: "CanonicalHeaderKey ''user-agent'' = ''User-Agent''" "\<not> control_key ''user-agent''" by code_simp+
  show ?thesis
    using caller_headers_sent [of "plain_request ''GET'' ''https://a.test/'' [(''user-agent'', [''mine''])]" _
        "newPresetWireHeaders no_preset" "[]" "[]" False "''h2''" False "''GET''", OF _ _ _ refl]
    by (simp add: plain_request_def k Let_def)
qed

section \<open>What a preset adds\<close>

lemma hint_canonical [simp]: "isClientHintHeader (CanonicalHeaderKey k) = isClientHintHeader k"
proof -
  have "length (CanonicalHeaderKey k) = length k" by (metis length_map to_lower_canonical to_lower_def)
  moreover have "to_lower (take 7 (CanonicalHeaderKey k)) = to_lower (take 7 k)"
    by (metis take_map to_lower_canonical to_lower_def)
  ultimately show ?thesis by (simp add: isClientHintHeader_def)
qed

definition no_hint_names :: "headers \<Rightarrow> bool" where
  "no_hint_names h \<longleftrightarrow> (\<forall>n \<in> fst ` set h. \<not> isClientHintHeader n)"

lemma no_hint_update [simp]: "\<not> isClientHintHeader k \<Longrightarrow> no_hint_names (AList.update k v h) = no_hint_names h"
  by (auto simp: no_hint_names_def keys_update)

lemma no_hint_delete [simp]: "no_hint_names h \<Longrightarrow> no_hint_names (AList.delete k h)"
  by (auto simp: no_hint_names_def AList.delete_eq)

lemma unhinted_names [simp]:
  "\<not> isClientHintHeader ''Sec-Fetch-Mode''" "\<not> isClientHintHeader ''Sec-Fetch-Dest''" "\<not> isClientHintHeader ''Sec-Fetch-Site''"
  "\<not> isClientHintHeader ''Accept''" "\<not> isClientHintHeader ''Priority''" "\<not> isClientHintHeader ''priority''"
  "\<not> isClientHintHeader ''User-Agent''" "\<not> isClientHintHeader HeaderOrderKey" "\<not> isClientHintHeader PHeaderOrderKey"
  by code_simp+

lemma no_hint_pairs:
  "(\<forall>p \<in> set pairs. isClientHintHeader (wp_key p) \<longrightarrow> wp_clientHint p) \<Longrightarrow> no_hint_names h \<Longrightarrow> no_hint_names (preset_pairs True pairs h)"
  unfolding preset_pairs_def by (induction pairs arbitrary: h) auto

lemma no_hint_xhr: "no_hint_names h \<Longrightarrow> no_hint_names (xhr_headers u h)"
  by (auto simp: xhr_headers_def Let_def split: option.split list.split)

lemma no_hint_priority: "no_hint_names h \<Longrightarrow> no_hint_names (priority_header preset h)"
  by (auto simp: priority_header_def Let_def split: option.split list.split)

lemma wire_hints: "p \<in> set (wi_pairs (newPresetWireHeaders preset)) \<Longrightarrow> isClientHintHeader (wp_key p) \<Longrightarrow> wp_clientHint p"
  by (auto simp: newPresetWireHeaders_def wire_pair_def)

lemma no_hint_browser: "no_hint_names (browser_headers (newPresetWireHeaders preset) True method protocol user [])"
proof -
  have "no_hint_names (preset_pairs True (wi_pairs (newPresetWireHeaders preset)) [])"
    by (rule no_hint_pairs) (auto simp: wire_hints no_hint_names_def)
  then show ?thesis by (auto simp: browser_headers_def Let_def intro!: no_hint_xhr no_hint_priority no_hint_delete)
qed

lemma merge_names: "n \<in> fst ` set (mergeCallerHeaders req h) \<Longrightarrow> n \<in> fst ` set h \<or> (\<exists>k \<in> fst ` set (rq_Headers req). n = CanonicalHeaderKey k)"
  using merge_keys [of "rq_Headers req" h] unfolding merge_eq by (auto split: if_splits)

text \<open>
  Lemma. A request that opts out of client hints sends none that its caller did not
  add, from whatever preset and on every protocol; and over HTTP/1.1 a client that sends no
  Priority header there sends none.
\<close>

theorem client_hints_stripped:
  assumes "rq_ExactHeaders req = []" and "\<forall>k \<in> fst ` set (rq_Headers req). \<not> isClientHintHeader k"
    and "h = mergeCallerHeaders req
      (applyPresetHeaders (newPresetWireHeaders preset) order pseudo False protocol (rq_Headers req) True (rq_ExactHeaders req) method [])"
  shows "(\<forall>n \<in> fst ` set h. \<not> isClientHintHeader n) \<and>
    (protocol = ''h1'' \<and> \<not> SendsPriorityOverHTTP1 preset \<and> ''Priority'' \<notin> CanonicalHeaderKey ` fst ` set (rq_Headers req) \<longrightarrow>
      map_of h ''Priority'' = None)"
proof -
  let ?w = "newPresetWireHeaders preset"
  obtain h1 ord p where s: "applyPresetHeaders ?w order pseudo False protocol (rq_Headers req) True [] method [] =
      AList.update PHeaderOrderKey p (AList.update HeaderOrderKey (CompleteHeaderOrder order ord h1 (rq_Headers req)) h1)"
      and h1: "h1 = browser_headers ?w True method protocol (rq_Headers req) []"
    using applied_shape [of ?w order pseudo False protocol "rq_Headers req" True "method" "[]"] by auto
  have "no_hint_names h1" unfolding h1 by (rule no_hint_browser)
  then have "\<not> isClientHintHeader n" if "n \<in> fst ` set h" for n
    using merge_names [OF that [unfolded assms(3) assms(1) s]] assms(2) by (auto simp: no_hint_names_def keys_update)
  moreover have "map_of h ''Priority'' = None"
    if "protocol = ''h1''" "\<not> SendsPriorityOverHTTP1 preset" "''Priority'' \<notin> CanonicalHeaderKey ` fst ` set (rq_Headers req)"
  proof -
    have "map_of h1 ''Priority'' = None"
      unfolding h1 using that by (simp add: browser_headers_def Let_def newPresetWireHeaders_def)
    then show ?thesis
      using assms(1,3) s that(3) merge_other [of "''Priority''" "rq_Headers req"]
      by (simp add: merge_eq HeaderOrderKey_def PHeaderOrderKey_def)
  qed
  ultimately show ?thesis by blast
qed

definition hinted_preset :: fp_preset where
  "hinted_preset = no_preset\<lparr>fp_Name := ''chrome-hinted'', fp_UserAgent := ''UA'',
     fp_HeaderOrder := [(''sec-ch-ua'', ''v''), (''priority'', ''u=0, i''), (''accept'', ''text/html'')]\<rparr>"

theorem client_hints_stripped_witness:
  "map_of (mergeCallerHeaders (plain_request ''GET'' ''https://a.test/'' [])
     (applyPresetHeaders (newPresetWireHeaders hinted_preset) [] [] False ''h1'' [] True [] ''GET'' [])) ''Priority'' = None"
proof -
  have p: "\<not> SendsPriorityOverHTTP1 hinted_preset" by code_simp
  show ?thesis
    using client_hints_stripped [of "plain_request ''GET'' ''https://a.test/'' []" _ hinted_preset "[]" "[]" "''h1''" "''GET''", OF _ _ refl] p
    by (simp add: plain_request_def)
qed

section \<open>One idea of a script's call\<close>

lemma headerVal_unique:
  assumes "distinct (map (\<lambda>p. to_lower (fst p)) h)" and "(k, vs) \<in> set h" and "to_lower k = to_lower name"
  shows "headerVal h name = (case vs of v # _ \<Rightarrow> v | [] \<Rightarrow> [])"
  using assms
proof (induction h)
  case (Cons p h)
  obtain k' vs' where p: "p = (k', vs')" by (cases p)
  show ?case
  proof (cases "to_lower k' = to_lower name")
    case True
    then have e: "vs' = vs" and n: "\<forall>q \<in> set h. to_lower (fst q) \<noteq> to_lower name" using Cons.prems p by force+
    then have "find (\<lambda>(k, v). to_lower k = to_lower name \<and> v \<noteq> []) h = None" by (auto simp: find_None_iff)
    then show ?thesis using True e p by (cases vs) (simp_all add: headerVal_def)
  next
    case False
    then have "(k, vs) \<in> set h" using Cons.prems p by auto
    then show ?thesis using Cons False p by (simp add: headerVal_def)
  qed
qed simp

lemma headerVal_absent: "\<forall>q \<in> set h. to_lower (fst q) \<noteq> to_lower name \<Longrightarrow> headerVal h name = []"
  by (auto simp: headerVal_def find_None_iff split: option.split dest!: find_SomeD)

lemma headerVal_lookup:
  assumes "distinct (map (\<lambda>p. to_lower (fst p)) h)"
  shows "headerVal h name = (case getHeaderCaseInsensitive h name of Some (v # _) \<Rightarrow> v | _ \<Rightarrow> [])"
proof (cases "map_of h name")
  case (Some vs)
  then show ?thesis using headerVal_unique [OF assms map_of_SomeD] by (auto simp: getHeaderCaseInsensitive_def split: list.split)
next
  case None
  show ?thesis
  proof (cases "find (\<lambda>(k, v). to_lower k = to_lower name) h")
    case (Some q)
    then obtain k vs where q: "q = (k, vs)" "(k, vs) \<in> set h" "to_lower k = to_lower name"
      by (cases q) (metis (mono_tags, lifting) case_prodD find_Some_iff nth_mem)
    then show ?thesis using None Some headerVal_unique [OF assms q(2,3)] by (auto simp: getHeaderCaseInsensitive_def split: list.split)
  next
    case n: None
    then have "\<forall>q \<in> set h. to_lower (fst q) \<noteq> to_lower name" by (auto simp: find_None_iff)
    then show ?thesis using None n headerVal_absent by (auto simp: getHeaderCaseInsensitive_def)
  qed
qed

lemma value_checks:
  "isAPIAcceptValue = isAPIAcceptHeader" "isFormContentTypeValue = isFormContentType" "isAPIContentTypeValue = isAPIContentType"
  by (auto intro!: ext simp: isAPIAcceptValue_def isAPIAcceptHeader_def isFormContentTypeValue_def isFormContentType_def
      isAPIContentTypeValue_def isAPIContentType_def)

lemma first_values:
  assumes "\<forall>(k, vs) \<in> set h. vs \<noteq> [] \<longrightarrow> List.hd vs \<noteq> []" and "getHeaderCaseInsensitive h name = Some (v # vs)"
  shows "v \<noteq> []"
proof -
  have "\<exists>k. (k, v # vs) \<in> set h"
  proof (cases "map_of h name")
    case None
    then obtain q where q: "find (\<lambda>(k, v). to_lower k = to_lower name) h = Some q" "snd q = v # vs"
      using assms(2) by (auto simp: getHeaderCaseInsensitive_def)
    then have "q \<in> set h" by (metis find_Some_iff nth_mem)
    then show ?thesis using q(2) by (metis prod.collapse)
  next
    case (Some ws)
    then show ?thesis using assms(2) by (auto simp: getHeaderCaseInsensitive_def dest: map_of_SomeD)
  qed
  then show ?thesis using assms(1) by fastforce
qed

text \<open>
  Lemma. The client and the transport take the same requests for calls of a script:
  the two inferences agree for every method and every header map that does not spell
  a name twice or give a name an empty value.
\<close>

theorem sniff_modes_agree:
  assumes "distinct (map (\<lambda>p. to_lower (fst p)) (cr_Headers req))" and "\<forall>(k, vs) \<in> set (cr_Headers req). vs \<noteq> [] \<longrightarrow> List.hd vs \<noteq> []"
  shows "transport_sniffXHRMode (cr_Method req) (cr_Headers req) = sniffXHRMode req"
proof -
  define first where "first name = (case getHeaderCaseInsensitive (cr_Headers req) name of Some (v # _) \<Rightarrow> Some v | _ \<Rightarrow> None)" for name
  have f: "(case getHeaderCaseInsensitive (cr_Headers req) name of None \<Rightarrow> d | Some [] \<Rightarrow> d | Some (v # vs) \<Rightarrow> g v) =
      (case first name of None \<Rightarrow> d | Some v \<Rightarrow> g v)" for name and d :: "'z" and g
    by (auto simp: first_def split: option.split list.split)
  have n: "first name = Some v \<Longrightarrow> v \<noteq> []" for name v
    using first_values [OF assms(2)] by (auto simp: first_def split: option.splits list.splits)
  have l: "to_lower [] = []" by (simp add: to_lower_def)
  show ?thesis
    unfolding transport_sniffXHRMode_def sniffXHRMode_def sniff_override_def headerVal_lookup [OF assms(1)] value_checks Let_def f
    by (cases "first ''Sec-Fetch-Mode''"; cases "first ''Sec-Fetch-Dest''"; cases "first ''Accept''"; cases "first ''Content-Type''")
      (auto simp: l dest: n)
qed

theorem sniff_modes_agree_witness:
  "transport_sniffXHRMode ''POST'' [(''Content-Type'', [''application/json''])] =
     sniffXHRMode ((client_get ''https://a.test/'')\<lparr>cr_Method := ''POST'', cr_Headers := [(''Content-Type'', [''application/json''])]\<rparr>)"
  using sniff_modes_agree [of "(client_get ''https://a.test/'')\<lparr>cr_Method := ''POST'', cr_Headers := [(''Content-Type'', [''application/json''])]\<rparr>"]
  by simp

section \<open>Response bodies\<close>

lemma read_loop_all: "0 < cap \<Longrightarrow> length buf \<le> cap \<Longrightarrow> read_loop cap buf cs = buf @ concat cs"
proof (induction cap buf cs rule: read_loop.induct)
  case (2 cap buf c cs)
  let ?cap = "if length buf = cap then cap * 2 else cap"
  have sp: "?cap - length buf \<noteq> 0" "0 < ?cap" using 2(3,4) by auto
  show ?case
  proof (cases "length c \<le> ?cap - length buf")
    case True
    then have "read_loop ?cap (buf @ c) cs = (buf @ c) @ concat cs"
      using 2(1) [OF refl refl sp(1) True] sp by (auto split: if_splits)
    then show ?thesis using sp True by (simp add: Let_def)
  next
    case False
    then have "read_loop ?cap (buf @ take (?cap - length buf) c) (drop (?cap - length buf) c # cs) =
        (buf @ take (?cap - length buf) c) @ concat (drop (?cap - length buf) c # cs)"
      using 2(2) [OF refl refl sp(1) False] sp by (auto split: if_splits)
    then show ?thesis using sp False by (simp add: Let_def)
  qed
qed simp

text \<open>
  Lemma. A response body is read whole: whatever the sizes of the reads and however
  often the buffer has to grow, a body that ends regularly is the concatenation of its
  chunks when its length is unknown or is the announced one, and a read error is returned
  unless the announced length had arrived before it.
\<close>

theorem body_read_whole:
  "(contentLength \<le> 0 \<longrightarrow> readBodyOptimized body contentLength =
      (case bs_end body of EndEOF \<Rightarrow> Inr (concat (bs_chunks body)) | EndUnexpectedEOF \<Rightarrow> Inl (Plain ''unexpected EOF'') | EndError e \<Rightarrow> Inl e)) \<and>
   (0 < contentLength \<and> int (length (concat (bs_chunks body))) = contentLength \<longrightarrow>
      readBodyOptimized body contentLength = Inr (concat (bs_chunks body))) \<and>
   (0 < contentLength \<and> int (length (concat (bs_chunks body))) < contentLength \<and> bs_end body = EndError e \<longrightarrow>
      readBodyOptimized body contentLength = Inl e)"
proof (intro conjI impI)
  assume "contentLength \<le> 0"
  then show "readBodyOptimized body contentLength =
      (case bs_end body of EndEOF \<Rightarrow> Inr (concat (bs_chunks body)) | EndUnexpectedEOF \<Rightarrow> Inl (Plain ''unexpected EOF'') | EndError e \<Rightarrow> Inl e)"
    by (simp add: readBodyOptimized_def read_loop_all split: body_end.split)
next
  assume a: "0 < contentLength \<and> int (length (concat (bs_chunks body))) = contentLength"
  then have n: "nat contentLength = length (concat (bs_chunks body))" by linarith
  then show "readBodyOptimized body contentLength = Inr (concat (bs_chunks body))"
    unfolding readBodyOptimized_def Let_def n using a by simp
next
  assume a: "0 < contentLength \<and> int (length (concat (bs_chunks body))) < contentLength \<and> bs_end body = EndError e"
  then have n: "length (concat (bs_chunks body)) < nat contentLength" by linarith
  then have "length (take (nat contentLength) (concat (bs_chunks body))) \<noteq> nat contentLength" by simp
  then show "readBodyOptimized body contentLength = Inl e"
    unfolding readBodyOptimized_def Let_def using a by simp
qed

theorem body_read_whole_witness:
  "readBodyOptimized \<lparr>bs_chunks = [[1, 2], [], [3]], bs_end = EndEOF\<rparr> (-1) = Inr [1, 2, 3]"
  using body_read_whole [of "-1" "\<lparr>bs_chunks = [[1, 2], [], [3]], bs_end = EndEOF\<rparr>"] by simp

text \<open>
  Lemma. A body that breaks off before its announced length is returned as if it were whole.
\<close>

theorem truncated_body_accepted:
  "readBodyOptimized \<lparr>bs_chunks = [[1, 2]], bs_end = EndUnexpectedEOF\<rparr> 10 = Inr [1, 2]"
  by (simp add: readBodyOptimized_def Let_def)

lemma build_headers_fold:
  "fst ` set (fold (\<lambda>(key, values) m. if bookkeeping key then m else AList.update (lowerHeaderName key) values m) h m) =
     fst ` set m \<union> {to_lower k | k. k \<in> fst ` set h \<and> \<not> bookkeeping k}"
proof (induction h arbitrary: m)
  case (Cons p h)
  obtain k vs where p: "p = (k, vs)" by (cases p)
  show ?case unfolding p fold_Cons comp_apply Cons.IH by (cases "bookkeeping k") (auto simp: keys_update)
qed simp

text \<open>
  Lemma. The header map of a response has the names that the peer sent in lower case, and
  none of the transport's own entries; a trailer map is never empty.
\<close>

theorem response_headers_exact:
  "fst ` set (buildHeadersMap h) = {to_lower k | k. k \<in> fst ` set h \<and> \<not> bookkeeping k} \<and>
   buildTrailerMap h = (if \<exists>k \<in> fst ` set h. \<not> bookkeeping k then Some (buildHeadersMap h) else None)"
proof -
  have b: "fst ` set (buildHeadersMap h) = {to_lower k | k. k \<in> fst ` set h \<and> \<not> bookkeeping k}"
    using build_headers_fold [of h "[]"] by (simp add: buildHeadersMap_def)
  have e: "buildHeadersMap h = [] \<longleftrightarrow> \<not> (\<exists>k \<in> fst ` set h. \<not> bookkeeping k)"
  proof -
    have "buildHeadersMap h = [] \<longleftrightarrow> fst ` set (buildHeadersMap h) = {}" by simp
    then show ?thesis unfolding b by blast
  qed
  show ?thesis using b e by (auto simp: buildTrailerMap_def Let_def)
qed

end
