(* ===== verification/Transport_Dispatch.thy ===== *)
theory Transport_Dispatch
  imports Transport_Headers Client_Requests DNS_Cache
begin

text \<open>
  The dispatcher of \<^verbatim>\<open>transport/transport.go\<close> and \<^verbatim>\<open>transport/stream.go\<close>: how proxies are
  split over protocols, how the three protocol transports are built and replaced, which
  of them a request takes, what is tried after a failure and what is remembered for a
  host. The protocol transports themselves are the argument \<open>env\<close>: \<open>te_exchange\<close> is
  the answer to the \<open>n\<close>-th event of the wire, \<open>te_race\<close> what the two connection probes
  of a race report and in which order. Every dial goes into \<open>tr_log\<close> with the transport it
  was made on. Calls are sequential; timing measurements are left out.
\<close>

section \<open>State\<close>

record proxy_creds = proxy_config +
  px_Username :: string
  px_Password :: string

text \<open>What the dispatcher sets on a protocol transport.\<close>

record sub_transport =
  st_preset :: fp_preset
  st_proxy :: "proxy_creds option"
  st_config :: "transport_config option"
  st_insecureSkipVerify :: bool
  st_tlsVerify :: "tls_verify option"
  st_disableECH :: bool
  st_ipv4First :: bool
  st_refreshes :: nat
  st_closed :: bool

datatype way = WayH1 | WayTLSConn nat | WayH2 | WayH3

datatype request_body = ReaderBody body_reader | BytesBody "byte list" | NilBody

record wire_request =
  wr_Method :: string
  wr_URL :: string
  wr_Header :: headers
  wr_Body :: request_body
  wr_Timeout :: duration

text \<open>A connection probe of a race, or an attempt at the request: \<open>True\<close> if it was handed to a connection.\<close>

datatype wire_event = EvProbe sub_transport sub_transport | EvTry way sub_transport wire_request bool

record http_reply =
  hy_StatusCode :: int
  hy_Header :: headers
  hy_Trailer :: headers
  hy_ContentLength :: int
  hy_Body :: body_stream

datatype t_exchange = XFail go_error bool | XReply http_reply

record transport =
  tr_h1 :: sub_transport
  tr_h2 :: sub_transport
  tr_h3 :: "sub_transport option"
  tr_dnsCache :: dns_cache
  tr_preset :: fp_preset
  tr_timeout :: duration
  tr_protocol :: protocol
  tr_proxy :: "proxy_creds option"
  tr_config :: "transport_config option"
  tr_disableH3 :: bool
  tr_presetWire :: "preset_wire_headers option"
  tr_protocolSupport :: "(string, protocol) gomap"
  tr_insecureSkipVerify :: bool
  tr_tlsVerify :: "tls_verify option"
  tr_h3ProxyError :: "go_error option"
  tr_tcpProxyError :: "go_error option"
  tr_customHeaderOrder :: "string list"
  tr_customPseudoOrder :: "string list"
  tr_tlsOnly :: bool
  tr_log :: "wire_event list"
  tr_retired :: "sub_transport list"
  tr_closedConns :: "nat list"

text \<open>What the probes of a race report: \<open>CtxDone\<close> is the context's end as the race sees it first.\<close>

datatype race_event = H3Up | H3Down | H2Up | H2Down | H2Downgrade string nat | BudgetOver | CtxDone go_error

record t_env =
  te_url :: url_lib
  te_UserPassword :: "string \<Rightarrow> string \<Rightarrow> string"
  te_Get :: "string \<Rightarrow> fp_preset"
  te_H2Settings :: "ref \<Rightarrow> http2_settings"
  te_TCPFingerprint :: "ref \<Rightarrow> tcp_fingerprint"
  te_NewHTTP3 :: "proxy_creds option \<Rightarrow> go_error option"
  te_NewRequest :: "string \<Rightarrow> string \<Rightarrow> go_error option"
  te_exchange :: "nat \<Rightarrow> way \<Rightarrow> sub_transport \<Rightarrow> wire_request \<Rightarrow> t_exchange"
  te_race :: "nat \<Rightarrow> race_event list"
  te_left :: "nat \<Rightarrow> duration"
  te_late :: "nat \<Rightarrow> bool"
  te_ctx :: "nat \<Rightarrow> go_error option"
  te_codecs :: codecs
  te_streamOK :: "string \<Rightarrow> body_stream \<Rightarrow> bool"

section \<open>Proxies\<close>

record proxy_routing =
  ro_tcpProxy :: "proxy_creds option"
  ro_udpProxyURL :: string
  ro_username :: string
  ro_password :: string
  ro_tcpProxyErr :: "go_error option"

definition proxyURLWithCreds :: "t_env \<Rightarrow> string \<Rightarrow> string \<Rightarrow> string \<Rightarrow> string" where
  "proxyURLWithCreds env rawURL username password =
     (if rawURL = [] \<or> username = [] then rawURL
      else
        (case ul_Parse (te_url env) rawURL of
           None \<Rightarrow> rawURL
         | Some u \<Rightarrow>
             if url_User u \<noteq> None then rawURL
             else ul_String (te_url env) (u\<lparr>url_User := Some (te_UserPassword env username password)\<rparr>)))"

definition proxy_at :: "t_env \<Rightarrow> string \<Rightarrow> string \<Rightarrow> string \<Rightarrow> proxy_creds" where
  "proxy_at env u username password =
     \<lparr>px_URL = proxyURLWithCreds env u username password, px_TCPProxy = [], px_UDPProxy = [], px_Username = username, px_Password = password\<rparr>"

definition deriveProxyRouting :: "t_env \<Rightarrow> proxy_creds option \<Rightarrow> proxy_routing" where
  "deriveProxyRouting env proxy0 =
     (case proxy0 of
        None \<Rightarrow> \<lparr>ro_tcpProxy = None, ro_udpProxyURL = [], ro_username = [], ro_password = [], ro_tcpProxyErr = None\<rparr>
      | Some proxy \<Rightarrow>
          (let tcp0 = (if px_TCPProxy proxy = [] then px_URL proxy else px_TCPProxy proxy);
               udp = (if px_UDPProxy proxy = [] then px_URL proxy else px_UDPProxy proxy);
               udpOnly = (tcp0 = [] \<and> udp \<noteq> []);
               tcp = (if udpOnly \<and> IsSOCKS5Proxy (te_url env) udp then udp else tcp0)
           in \<lparr>ro_tcpProxy = (if tcp \<noteq> [] then Some (proxy_at env tcp (px_Username proxy) (px_Password proxy)) else None),
               ro_udpProxyURL = udp, ro_username = px_Username proxy, ro_password = px_Password proxy,
               ro_tcpProxyErr =
                 (if udpOnly \<and> \<not> IsSOCKS5Proxy (te_url env) udp
                  then Some (Plain ''HTTP/3-only proxy: no TCP proxy configured for HTTP/1.1 or HTTP/2'') else None)\<rparr>))"

definition udpProxyConfig :: "t_env \<Rightarrow> proxy_routing \<Rightarrow> proxy_creds option" where
  "udpProxyConfig env r =
     (if ro_udpProxyURL r = [] then None else Some (proxy_at env (ro_udpProxyURL r) (ro_username r) (ro_password r)))"

section \<open>Construction\<close>

definition new_sub :: "fp_preset \<Rightarrow> proxy_creds option \<Rightarrow> transport_config option \<Rightarrow> sub_transport" where
  "new_sub preset proxy config =
     \<lparr>st_preset = preset, st_proxy = proxy, st_config = config, st_insecureSkipVerify = False, st_tlsVerify = None,
      st_disableECH = False, st_ipv4First = False, st_refreshes = 0, st_closed = False\<rparr>"

text \<open>\<^verbatim>\<open>NewHTTP3TransportWithTransportConfig\<close> and \<^verbatim>\<open>NewHTTP3Transport\<close>, with the error dropped.\<close>

definition direct_h3 :: "t_env \<Rightarrow> fp_preset \<Rightarrow> transport_config option \<Rightarrow> sub_transport option" where
  "direct_h3 env preset config = (if te_NewHTTP3 env None = None then Some (new_sub preset None config) else None)"

text \<open>
  The HTTP/3 transport and its proxy error. The constructor passes its configuration,
  \<^verbatim>\<open>SetProxy\<close> and \<^verbatim>\<open>SetPreset\<close> pass none.
\<close>

definition new_h3 :: "t_env \<Rightarrow> fp_preset \<Rightarrow> transport_config option \<Rightarrow> proxy_routing \<Rightarrow> sub_transport option \<times> go_error option" where
  "new_h3 env preset config routing =
     (case udpProxyConfig env routing of
        None \<Rightarrow> (direct_h3 env preset config, None)
      | Some udpProxy \<Rightarrow>
          if IsSOCKS5Proxy (te_url env) (ro_udpProxyURL routing) then
            (case te_NewHTTP3 env (Some udpProxy) of
               Some err \<Rightarrow> (direct_h3 env preset config, Some (Wrapped ''SOCKS5 UDP proxy initialization failed: '' err))
             | None \<Rightarrow> (Some (new_sub preset (Some udpProxy) config), None))
          else if IsMASQUEProxy (te_url env) (ro_udpProxyURL routing) then
            (case te_NewHTTP3 env (Some udpProxy) of
               Some err \<Rightarrow> (direct_h3 env preset config, Some (Wrapped ''MASQUE proxy initialization failed: '' err))
             | None \<Rightarrow> (Some (new_sub preset (Some udpProxy) config), None))
          else (direct_h3 env preset config, Some (Plain ''HTTP proxy does not support HTTP/3 (QUIC requires UDP)'')))"

definition over_tcp :: "tcp_fingerprint \<Rightarrow> tcp_fingerprint \<Rightarrow> tcp_fingerprint" where
  "over_tcp fp t =
     t\<lparr>tf_TTL := (if tf_TTL fp > 0 then tf_TTL fp else tf_TTL t),
       tf_MSS := (if tf_MSS fp > 0 then tf_MSS fp else tf_MSS t),
       tf_WindowSize := (if tf_WindowSize fp > 0 then tf_WindowSize fp else tf_WindowSize t),
       tf_WindowScale := (if tf_WindowScale fp > 0 then tf_WindowScale fp else tf_WindowScale t),
       tf_DFBit := (tf_DFBit fp \<or> tf_DFBit t)\<rparr>"

definition over_h2 :: "t_env \<Rightarrow> transport_config option \<Rightarrow> fp_preset \<Rightarrow> fp_preset" where
  "over_h2 env config preset =
     (case Option.bind config tpc_CustomH2Settings of None \<Rightarrow> preset | Some r \<Rightarrow> preset\<lparr>fp_HTTP2Settings := te_H2Settings env r\<rparr>)"

definition configured_preset :: "t_env \<Rightarrow> string \<Rightarrow> transport_config option \<Rightarrow> fp_preset" where
  "configured_preset env presetName config =
     (let p = over_h2 env config (te_Get env presetName) in
      case Option.bind config tpc_CustomTCPFingerprint of
        None \<Rightarrow> p
      | Some r \<Rightarrow> p\<lparr>fp_TCPFingerprint := over_tcp (te_TCPFingerprint env r) (fp_TCPFingerprint p)\<rparr>)"

definition NewTransportWithConfig :: "t_env \<Rightarrow> string \<Rightarrow> proxy_creds option \<Rightarrow> transport_config option \<Rightarrow> transport" where
  "NewTransportWithConfig env presetName proxy config =
     (let preset = configured_preset env presetName config;
          routing = deriveProxyRouting env proxy;
          (h3, h3Err) = new_h3 env preset config routing
      in \<lparr>tr_h1 = new_sub preset (ro_tcpProxy routing) config, tr_h2 = new_sub preset (ro_tcpProxy routing) config, tr_h3 = h3,
          tr_dnsCache = (case config of None \<Rightarrow> NewCache | Some c \<Rightarrow> SetNetwork (NetworkForLocalAddr (tpc_LocalAddr c)) NewCache),
          tr_preset = preset, tr_timeout = 30 * second, tr_protocol = ProtocolAuto, tr_proxy = proxy, tr_config = config,
          tr_disableH3 = False, tr_presetWire = None, tr_protocolSupport = [], tr_insecureSkipVerify = False, tr_tlsVerify = None,
          tr_h3ProxyError = h3Err, tr_tcpProxyError = ro_tcpProxyErr routing, tr_customHeaderOrder = [],
          tr_customPseudoOrder = (case config of None \<Rightarrow> [] | Some c \<Rightarrow> tpc_CustomPseudoOrder c),
          tr_tlsOnly = (case config of None \<Rightarrow> False | Some c \<Rightarrow> tpc_TLSOnly c),
          tr_log = [], tr_retired = [], tr_closedConns = []\<rparr>)"

definition NewTransport :: "t_env \<Rightarrow> string \<Rightarrow> transport" where
  "NewTransport env presetName = NewTransportWithConfig env presetName None None"

definition NewTransportWithProxy :: "t_env \<Rightarrow> string \<Rightarrow> proxy_creds option \<Rightarrow> transport" where
  "NewTransportWithProxy env presetName proxy = NewTransportWithConfig env presetName proxy None"

text \<open>A source address that one of the protocol transports is given later.\<close>

definition narrowDNSToLocalFamily :: "string \<Rightarrow> dns_cache \<Rightarrow> dns_cache" where
  "narrowDNSToLocalFamily addr cache = (if NetworkForLocalAddr addr = dc_network cache then cache else SetNetwork [] cache)"

section \<open>Settings\<close>

definition SetProtocol :: "protocol \<Rightarrow> transport \<Rightarrow> transport" where
  "SetProtocol p t = t\<lparr>tr_protocol := p\<rparr>"

definition SetDisableHTTP3 :: "bool \<Rightarrow> transport \<Rightarrow> transport" where
  "SetDisableHTTP3 disable t =
     (let t' = t\<lparr>tr_disableH3 := disable\<rparr> in
      if \<not> disable then t'
      else t'\<lparr>tr_protocolSupport := map_remove (\<lambda>host p. p = ProtocolHTTP3) (tr_protocolSupport t)\<rparr>)"

definition SetInsecureSkipVerify :: "bool \<Rightarrow> transport \<Rightarrow> transport" where
  "SetInsecureSkipVerify skip t =
     t\<lparr>tr_insecureSkipVerify := skip, tr_h1 := (tr_h1 t)\<lparr>st_insecureSkipVerify := skip\<rparr>,
       tr_h2 := (tr_h2 t)\<lparr>st_insecureSkipVerify := skip\<rparr>, tr_h3 := map_option (st_insecureSkipVerify_update (\<lambda>_. skip)) (tr_h3 t)\<rparr>"

definition SetTLSVerify :: "tls_verify option \<Rightarrow> transport \<Rightarrow> transport" where
  "SetTLSVerify v t =
     t\<lparr>tr_tlsVerify := v, tr_h1 := (tr_h1 t)\<lparr>st_tlsVerify := v\<rparr>,
       tr_h2 := (tr_h2 t)\<lparr>st_tlsVerify := v\<rparr>, tr_h3 := map_option (st_tlsVerify_update (\<lambda>_. v)) (tr_h3 t)\<rparr>"

definition SetDisableECH :: "bool \<Rightarrow> transport \<Rightarrow> transport" where
  "SetDisableECH disable t = t\<lparr>tr_h3 := map_option (st_disableECH_update (\<lambda>_. disable)) (tr_h3 t)\<rparr>"

definition SetTimeout :: "duration \<Rightarrow> transport \<Rightarrow> transport" where
  "SetTimeout timeout t = t\<lparr>tr_timeout := timeout\<rparr>"

definition t_SetHeaderOrder :: "string list \<Rightarrow> transport \<Rightarrow> transport" where
  "t_SetHeaderOrder order t = t\<lparr>tr_customHeaderOrder := map to_lower order\<rparr>"

definition GetHeaderOrder :: "transport \<Rightarrow> string list" where
  "GetHeaderOrder t =
     (if tr_customHeaderOrder t \<noteq> [] then tr_customHeaderOrder t else map fst (fp_HeaderOrder (tr_preset t)))"

definition t_effectiveHeaderOrder :: "request \<Rightarrow> transport \<Rightarrow> string list" where
  "t_effectiveHeaderOrder req t = (if rq_HeaderOrder req \<noteq> [] then rq_HeaderOrder req else tr_customHeaderOrder t)"

text \<open>Fresh transports get the verification settings of the old ones before they are published.\<close>

definition verified :: "transport \<Rightarrow> sub_transport \<Rightarrow> sub_transport" where
  "verified t s =
     (let s' = (if tr_insecureSkipVerify t then s\<lparr>st_insecureSkipVerify := True\<rparr> else s) in
      if tr_tlsVerify t \<noteq> None then s'\<lparr>st_tlsVerify := tr_tlsVerify t\<rparr> else s')"

definition close_sub :: "sub_transport \<Rightarrow> sub_transport" where
  "close_sub s = s\<lparr>st_closed := True\<rparr>"

definition rebuild :: "t_env \<Rightarrow> fp_preset \<Rightarrow> proxy_creds option \<Rightarrow> transport \<Rightarrow> transport" where
  "rebuild env preset proxy t =
     (let routing = deriveProxyRouting env proxy;
          newTCP = verified t (new_sub preset (ro_tcpProxy routing) (tr_config t));
          (newH3, newH3Err) = new_h3 env preset None routing
      in t\<lparr>tr_h3ProxyError := newH3Err, tr_tcpProxyError := ro_tcpProxyErr routing,
           tr_h1 := newTCP, tr_h2 := newTCP, tr_h3 := map_option (verified t) newH3,
           tr_retired := tr_retired t @ [close_sub (tr_h1 t), close_sub (tr_h2 t)] @
             (case tr_h3 t of None \<Rightarrow> [] | Some h \<Rightarrow> [close_sub h])\<rparr>)"

definition t_SetProxy :: "t_env \<Rightarrow> proxy_creds option \<Rightarrow> transport \<Rightarrow> transport" where
  "t_SetProxy env proxy t = (rebuild env (tr_preset t) proxy t)\<lparr>tr_proxy := proxy\<rparr>"

definition SetPreset :: "t_env \<Rightarrow> string \<Rightarrow> transport \<Rightarrow> transport" where
  "SetPreset env presetName t =
     (let preset = over_h2 env (tr_config t) (te_Get env presetName) in
      (rebuild env preset (tr_proxy t) t)\<lparr>tr_preset := preset\<rparr>)"

text \<open>\<open>None\<close> is the panic of a call on a transport that could not be built.\<close>

definition ClearProtocolCache :: "transport \<Rightarrow> transport" where
  "ClearProtocolCache t = t\<lparr>tr_protocolSupport := []\<rparr>"

definition refresh_sub :: "sub_transport \<Rightarrow> sub_transport" where
  "refresh_sub s = s\<lparr>st_refreshes := Suc (st_refreshes s)\<rparr>"

definition on_all :: "(sub_transport \<Rightarrow> sub_transport) \<Rightarrow> transport \<Rightarrow> transport option" where
  "on_all f t = (case tr_h3 t of None \<Rightarrow> None | Some h \<Rightarrow> Some (t\<lparr>tr_h1 := f (tr_h1 t), tr_h2 := f (tr_h2 t), tr_h3 := Some (f h)\<rparr>))"

definition t_Close :: "transport \<Rightarrow> transport option" where
  "t_Close = on_all close_sub"

definition t_Refresh :: "transport \<Rightarrow> transport option" where
  "t_Refresh = on_all refresh_sub"

definition t_RefreshWithProtocol :: "protocol \<Rightarrow> transport \<Rightarrow> transport option" where
  "t_RefreshWithProtocol p t = map_option (\<lambda>t'. ClearProtocolCache (SetProtocol p t')) (on_all refresh_sub t)"

section \<open>One attempt\<close>

record transport_snapshot =
  sn_h1 :: sub_transport
  sn_h2 :: sub_transport
  sn_h3 :: "sub_transport option"
  sn_proxy :: "proxy_creds option"
  sn_preset :: fp_preset
  sn_protocol :: protocol
  sn_h3ProxyError :: "go_error option"
  sn_tcpProxyError :: "go_error option"

definition snapshot :: "transport \<Rightarrow> transport_snapshot" where
  "snapshot t =
     \<lparr>sn_h1 = tr_h1 t, sn_h2 = tr_h2 t,
      sn_h3 = (if tr_disableH3 t \<and> tr_protocol t \<noteq> ProtocolHTTP3 then None else tr_h3 t),
      sn_proxy = tr_proxy t, sn_preset = tr_preset t, sn_protocol = tr_protocol t,
      sn_h3ProxyError = tr_h3ProxyError t, sn_tcpProxyError = tr_tcpProxyError t\<rparr>"

record t_response =
  tp_StatusCode :: int
  tp_Headers :: headers
  tp_HeaderOrder :: "string list option"
  tp_HeaderCasing :: "string list"
  tp_Trailer :: "headers option"
  tp_FinalURL :: string
  tp_Protocol :: string
  tp_Body :: "byte list"

type_synonym 'r outcome = "(go_error + 'r) \<times> transport"

definition parse_failed :: go_error where
  "parse_failed = Plain ''parse error''"

definition scheme_error :: go_error where
  "scheme_error = TransportError ''scheme_check'' [] [] [] (Some (Sentinel ErrProtocol)) (Some ErrProtocol) False"

definition t_effectiveTimeout :: "request \<Rightarrow> transport \<Rightarrow> duration" where
  "t_effectiveTimeout req t = (if rq_Timeout req > 0 then rq_Timeout req else tr_timeout t)"

definition request_method :: "request \<Rightarrow> string" where
  "request_method req = (if rq_Method req = [] then ''GET'' else rq_Method req)"

definition request_body_of :: "request \<Rightarrow> request_body" where
  "request_body_of req =
     (case rq_BodyReader req of
        Some r \<Rightarrow> ReaderBody r
      | None \<Rightarrow>
          if rq_Body req \<noteq> [] then BytesBody (rq_Body req)
          else if request_method req \<in> {''POST'', ''PUT'', ''PATCH''} then BytesBody []
          else NilBody)"

text \<open>The request as it goes to a protocol transport, with the headers of the preset and the caller.\<close>

definition build_request :: "t_env \<Rightarrow> string \<Rightarrow> request \<Rightarrow> transport \<Rightarrow> (go_error + wire_request) \<times> transport" where
  "build_request env proto req t =
     (case te_NewRequest env (request_method req) (rq_URL req) of
        Some e \<Rightarrow> (Inl e, t)
      | None \<Rightarrow>
          (let (wire, cache) = wireHeaders (sn_preset (snapshot t)) (tr_presetWire t);
               tlsOnly = (case rq_TLSOnly req of Some b \<Rightarrow> b | None \<Rightarrow> tr_tlsOnly t);
               h = mergeCallerHeaders req
                     (applyPresetHeaders wire (t_effectiveHeaderOrder req t) (tr_customPseudoOrder t) tlsOnly proto (rq_Headers req)
                       (rq_DisableClientHints req) (rq_ExactHeaders req) (request_method req) [])
           in (Inr \<lparr>wr_Method = request_method req, wr_URL = rq_URL req, wr_Header = h, wr_Body = request_body_of req,
                    wr_Timeout = t_effectiveTimeout req t\<rparr>, t\<lparr>tr_presetWire := cache\<rparr>)))"

fun was_sent :: "t_exchange \<Rightarrow> bool" where
  "was_sent (XFail e sent) = sent"
| "was_sent (XReply y) = True"

definition attempt :: "t_env \<Rightarrow> way \<Rightarrow> sub_transport \<Rightarrow> wire_request \<Rightarrow> transport \<Rightarrow> t_exchange \<times> transport" where
  "attempt env w sub wr t =
     (let x = te_exchange env (length (tr_log t)) w sub wr in (x, t\<lparr>tr_log := tr_log t @ [EvTry w sub wr (was_sent x)]\<rparr>))"

definition read_response :: "t_env \<Rightarrow> string \<Rightarrow> string \<Rightarrow> string \<Rightarrow> string \<Rightarrow> http_reply \<Rightarrow> go_error + t_response" where
  "read_response env host port proto finalURL y =
     (case readBodyOptimized (hy_Body y) (hy_ContentLength y) of
        Inl e \<Rightarrow> Inl (NewRequestError ''read_body'' host port proto (Some e))
      | Inr body \<Rightarrow>
          (case (let enc = header_Get (hy_Header y) ''Content-Encoding'' in
                 if enc \<noteq> [] then decompress (te_codecs env) body enc else Inr body) of
             Inl e \<Rightarrow> Inl (NewRequestError ''decompress'' host port proto (Some e))
           | Inr plain \<Rightarrow>
               Inr \<lparr>tp_StatusCode = hy_StatusCode y, tp_Headers = buildHeadersMap (hy_Header y),
                    tp_HeaderOrder = responseHeaderOrder (hy_Header y), tp_HeaderCasing = takeHeaderCasing (hy_Header y),
                    tp_Trailer = buildTrailerMap (hy_Trailer y), tp_FinalURL = finalURL, tp_Protocol = proto, tp_Body = plain\<rparr>))"

definition url_port :: "url \<Rightarrow> string" where
  "url_port u = (if url_Port u \<noteq> [] then url_Port u else if url_Scheme u = ''https'' then ''443'' else ''80'')"

definition wrap :: "string \<Rightarrow> string \<Rightarrow> string \<Rightarrow> string \<Rightarrow> go_error \<Rightarrow> go_error" where
  "wrap op host port proto e = the (WrapError op host port proto (Some e))"

definition close_conn :: "nat \<Rightarrow> transport \<Rightarrow> transport" where
  "close_conn c t = t\<lparr>tr_closedConns := tr_closedConns t @ [c]\<rparr>"

definition t_doHTTP1 :: "t_env \<Rightarrow> request \<Rightarrow> transport \<Rightarrow> t_response outcome" where
  "t_doHTTP1 env req t =
     (case ul_Parse (te_url env) (rq_URL req) of
        None \<Rightarrow> (Inl (NewRequestError ''parse_url'' [] [] ''h1'' (Some parse_failed)), t)
      | Some u \<Rightarrow>
          (let host = url_Hostname u; port = url_port u in
           case build_request env ''h1'' req t of
             (Inl e, t1) \<Rightarrow> (Inl (NewRequestError ''create_request'' host port ''h1'' (Some e)), t1)
           | (Inr wr, t1) \<Rightarrow>
               (case attempt env WayH1 (sn_h1 (snapshot t)) wr t1 of
                  (XFail e sent, t2) \<Rightarrow> (Inl (wrap ''roundtrip'' host port ''h1'' e), t2)
                | (XReply y, t2) \<Rightarrow> (read_response env host port ''h1'' (rq_URL req) y, t2))))"

fun alpn_conn :: "go_error \<Rightarrow> nat \<times> string \<times> string" where
  "alpn_conn (ALPNMismatchError x n c h p) = (c, h, p)"
| "alpn_conn e = (0, [], [])"

definition doHTTP1WithTLSConn :: "t_env \<Rightarrow> request \<Rightarrow> go_error \<Rightarrow> transport \<Rightarrow> t_response outcome" where
  "doHTTP1WithTLSConn env req alpnErr t =
     (let (conn, host, port) = alpn_conn alpnErr in
      case ul_Parse (te_url env) (rq_URL req) of
        None \<Rightarrow> (Inl (NewRequestError ''parse_url'' [] [] ''h1'' (Some parse_failed)), close_conn conn t)
      | Some u \<Rightarrow>
          (case build_request env ''h1'' req t of
             (Inl e, t1) \<Rightarrow> (Inl (NewRequestError ''create_request'' host port ''h1'' (Some e)), close_conn conn t1)
           | (Inr wr, t1) \<Rightarrow>
               (case attempt env (WayTLSConn conn) (sn_h1 (snapshot t)) wr t1 of
                  (XFail e sent, t2) \<Rightarrow> (Inl (wrap ''roundtrip'' host port ''h1'' e), t2)
                | (XReply y, t2) \<Rightarrow> (read_response env host port ''h1'' (ul_String (te_url env) u) y, t2))))"

definition t_doHTTP2 :: "t_env \<Rightarrow> request \<Rightarrow> transport \<Rightarrow> t_response outcome" where
  "t_doHTTP2 env req t =
     (case ul_Parse (te_url env) (rq_URL req) of
        None \<Rightarrow> (Inl (NewRequestError ''parse_url'' [] [] ''h2'' (Some parse_failed)), t)
      | Some u \<Rightarrow>
          if url_Scheme u \<noteq> ''https'' then (Inl (NewProtocolError [] [] ''h2'' (Some scheme_error)), t)
          else
            (let host = url_Hostname u; port = url_port u in
             case build_request env ''h2'' req t of
               (Inl e, t1) \<Rightarrow> (Inl (NewRequestError ''create_request'' host port ''h2'' (Some e)), t1)
             | (Inr wr, t1) \<Rightarrow>
                 (case attempt env WayH2 (sn_h2 (snapshot t)) wr t1 of
                    (XFail e sent, t2) \<Rightarrow> (Inl (wrap ''roundtrip'' host port ''h2'' (if \<not> sent then RequestNotSent e else e)), t2)
                  | (XReply y, t2) \<Rightarrow> (read_response env host port ''h2'' (rq_URL req) y, t2))))"

subsection \<open>HTTP/3\<close>

definition deadlineExceeded :: go_error where
  "deadlineExceeded = NetError ''context deadline exceeded'' True True"

definition isH3Stall :: "go_error \<Rightarrow> bool" where
  "isH3Stall err \<longleftrightarrow>
     errors_As (\<lambda>e. e = deadlineExceeded) err \<noteq> None \<or>
     mentions err [''no recent network activity'', ''timeout'', ''deadline exceeded'']"

definition h3StallWindow :: duration where
  "h3StallWindow = 5 * second"

text \<open>The second attempt, on a fresh connection that prefers IPv4.\<close>

definition h3_retry :: "t_env \<Rightarrow> sub_transport \<Rightarrow> wire_request \<Rightarrow> transport \<Rightarrow> t_exchange \<times> transport" where
  "h3_retry env h3 wr t =
     attempt env WayH3 (refresh_sub (h3\<lparr>st_ipv4First := True\<rparr>)) wr (t\<lparr>tr_h3 := map_option refresh_sub (tr_h3 t)\<rparr>)"

definition roundTripHTTP3 :: "t_env \<Rightarrow> sub_transport \<Rightarrow> wire_request \<Rightarrow> request \<Rightarrow> transport \<Rightarrow> t_exchange \<times> transport" where
  "roundTripHTTP3 env h3 wr req t =
     (let n = length (tr_log t); (x, t1) = attempt env WayH3 h3 wr t in
      if rq_BodyReader req \<noteq> None \<or> te_left env n \<le> h3StallWindow + second then (x, t1)
      else if te_late env n then
        (case te_ctx env n of
           Some e \<Rightarrow> (XFail e (was_sent x), t1)
         | None \<Rightarrow> (case h3_retry env h3 wr t1 of (XFail e s, t2) \<Rightarrow> (XFail e (s \<or> was_sent x), t2) | r \<Rightarrow> r))
      else
        (case x of
           XReply y \<Rightarrow> (x, t1)
         | XFail e sent \<Rightarrow>
             if te_ctx env n \<noteq> None \<or> \<not> isH3Stall e then (x, t1)
             else (case h3_retry env h3 wr t1 of (XFail e' s, t2) \<Rightarrow> (XFail e' (s \<or> sent), t2) | r \<Rightarrow> r)))"

definition t_doHTTP3 :: "t_env \<Rightarrow> request \<Rightarrow> transport \<Rightarrow> t_response outcome" where
  "t_doHTTP3 env req t =
     (case ul_Parse (te_url env) (rq_URL req) of
        None \<Rightarrow> (Inl (NewRequestError ''parse_url'' [] [] ''h3'' (Some parse_failed)), t)
      | Some u \<Rightarrow>
          if url_Scheme u \<noteq> ''https'' then (Inl (NewProtocolError [] [] ''h3'' (Some scheme_error)), t)
          else
            (let host = url_Hostname u; port = url_port u in
             case sn_h3 (snapshot t) of
               None \<Rightarrow> (Inl (errHTTP3Disabled host port), t)
             | Some h3 \<Rightarrow>
                 (case build_request env ''h3'' req t of
                    (Inl e, t1) \<Rightarrow> (Inl (NewRequestError ''create_request'' host port ''h3'' (Some e)), t1)
                  | (Inr wr, t1) \<Rightarrow>
                      (case roundTripHTTP3 env h3 wr req t1 of
                         (XFail e gotConn, t2) \<Rightarrow> (Inl (wrap ''roundtrip'' host port ''h3'' (the (h3NotSent (Some e) gotConn))), t2)
                       | (XReply y, t2) \<Rightarrow> (read_response env host port ''h3'' (rq_URL req) y, t2)))))"

section \<open>The race\<close>

datatype connect_decision = DecProtocol protocol | DecALPN go_error | DecErr go_error

text \<open>
  The events in the order in which the race's select sees them, \<open>failures\<close> of the two
  probes so far. When nothing else happens, the budget runs out.
\<close>

fun race_select :: "string \<Rightarrow> string \<Rightarrow> nat \<Rightarrow> race_event list \<Rightarrow> connect_decision \<times> race_event list" where
  "race_select host port failures [] = (DecProtocol ProtocolHTTP2, [])"
| "race_select host port failures (H3Up # es) = (DecProtocol ProtocolHTTP3, es)"
| "race_select host port failures (H2Up # es) = (DecProtocol ProtocolHTTP2, es)"
| "race_select host port failures (H2Downgrade negotiated conn # es) = (DecALPN (ALPNMismatchError ''h2'' negotiated conn host port), es)"
| "race_select host port failures (H3Down # es) =
     (if failures + 1 = 2 then (DecProtocol ProtocolHTTP2, es) else race_select host port (failures + 1) es)"
| "race_select host port failures (H2Down # es) =
     (if failures + 1 = 2 then (DecProtocol ProtocolHTTP2, es) else race_select host port (failures + 1) es)"
| "race_select host port failures (BudgetOver # es) = (DecProtocol ProtocolHTTP2, es)"
| "race_select host port failures (CtxDone e # es) = (DecErr e, es)"

text \<open>The connections that a downgrade leaves behind after the race; the probe reports at most one.\<close>

fun drainLateALPN :: "race_event list \<Rightarrow> nat list" where
  "drainLateALPN [] = []"
| "drainLateALPN (H2Downgrade negotiated conn # es) = [conn]"
| "drainLateALPN (e # es) = drainLateALPN es"

definition raceTwoProbes :: "string \<Rightarrow> string \<Rightarrow> race_event list \<Rightarrow> connect_decision \<times> nat list" where
  "raceTwoProbes host port es =
     (let (d, rest) = race_select host port 0 es in
      (d, case d of DecALPN e \<Rightarrow> [] | _ \<Rightarrow> drainLateALPN rest))"

definition raceConnectProtocol :: "t_env \<Rightarrow> string \<Rightarrow> string \<Rightarrow> sub_transport \<Rightarrow> transport \<Rightarrow> connect_decision \<times> transport" where
  "raceConnectProtocol env host port h3 t =
     (let (d, closed) = raceTwoProbes host port (te_race env (length (tr_log t))) in
      (d, t\<lparr>tr_log := tr_log t @ [EvProbe h3 (sn_h2 (snapshot t))], tr_closedConns := tr_closedConns t @ closed\<rparr>))"

definition raceH3H2 :: "t_env \<Rightarrow> request \<Rightarrow> sub_transport \<Rightarrow> transport \<Rightarrow> (go_error + t_response \<times> protocol) \<times> transport" where
  "raceH3H2 env req h3 t =
     (case ul_Parse (te_url env) (rq_URL req) of
        None \<Rightarrow> (Inl parse_failed, t)
      | Some u \<Rightarrow>
          (let port = (if url_Port u = [] then ''443'' else url_Port u) in
           case raceConnectProtocol env (url_Hostname u) port h3 t of
             (DecErr e, t1) \<Rightarrow> (Inl (RequestNotSent e), t1)
           | (DecALPN e, t1) \<Rightarrow> (Inl e, t1)
           | (DecProtocol p, t1) \<Rightarrow>
               (if p = ProtocolHTTP3
                then (case t_doHTTP3 env req t1 of (Inl e, t2) \<Rightarrow> (Inl e, t2) | (Inr r, t2) \<Rightarrow> (Inr (r, ProtocolHTTP3), t2))
                else (case t_doHTTP2 env req t1 of (Inl e, t2) \<Rightarrow> (Inl e, t2) | (Inr r, t2) \<Rightarrow> (Inr (r, ProtocolHTTP2), t2)))))"

section \<open>Dispatch\<close>

definition transport_extractHost :: "url_lib \<Rightarrow> string \<Rightarrow> string" where
  "transport_extractHost ul urlStr = (case ul_Parse ul urlStr of None \<Rightarrow> [] | Some u \<Rightarrow> url_Hostname u)"

definition idempotent_method :: "string \<Rightarrow> bool" where
  "idempotent_method m \<longleftrightarrow> m \<in> {[], ''GET'', ''HEAD'', ''OPTIONS'', ''TRACE'', ''PUT'', ''DELETE''}"

definition canResendOnAnotherProtocol :: "request \<Rightarrow> go_error \<Rightarrow> bool" where
  "canResendOnAnotherProtocol req err =
     (if requestNotSent err then True
      else if rq_BodyReader req \<noteq> None then False
      else idempotent_method (to_upper (rq_Method req)))"

definition cacheProtocol :: "string \<Rightarrow> protocol \<Rightarrow> transport \<Rightarrow> transport" where
  "cacheProtocol host p t = t\<lparr>tr_protocolSupport := AList.update host p (tr_protocolSupport t)\<rparr>"

definition cache_on_success :: "string \<Rightarrow> protocol \<Rightarrow> 'r outcome \<Rightarrow> 'r outcome" where
  "cache_on_success host p = (\<lambda>(r, t). case r of Inr x \<Rightarrow> (r, cacheProtocol host p t) | Inl e \<Rightarrow> (r, t))"

definition known_http2 :: "t_env \<Rightarrow> request \<Rightarrow> transport \<Rightarrow> t_response outcome" where
  "known_http2 env req t =
     (case t_doHTTP2 env req t of
        (Inr r, t1) \<Rightarrow> (Inr r, t1)
      | (Inl err, t1) \<Rightarrow>
          (case errors_As is_alpn err of
             Some alpnErr \<Rightarrow> doHTTP1WithTLSConn env req alpnErr t1
           | None \<Rightarrow> if \<not> canResendOnAnotherProtocol req err then (Inl err, t1) else t_doHTTP1 env req t1))"

text \<open>The last resort of a host that is not known: a new HTTP/1.1 connection, not remembered.\<close>

definition auto_fallback :: "t_env \<Rightarrow> request \<Rightarrow> go_error \<Rightarrow> transport \<Rightarrow> t_response outcome" where
  "auto_fallback env req failed t =
     (case errors_As is_alpn failed of
        Some alpnErr \<Rightarrow> cache_on_success (transport_extractHost (te_url env) (rq_URL req)) ProtocolHTTP1 (doHTTP1WithTLSConn env req alpnErr t)
      | None \<Rightarrow> if \<not> canResendOnAnotherProtocol req failed then (Inl failed, t) else t_doHTTP1 env req t)"

definition auto_unknown :: "t_env \<Rightarrow> request \<Rightarrow> transport \<Rightarrow> t_response outcome" where
  "auto_unknown env req t =
     (let snap = snapshot t; host = transport_extractHost (te_url env) (rq_URL req) in
      if fp_DisableHTTP2 (sn_preset snap) \<and> \<not> fp_SupportHTTP3 (sn_preset snap)
      then cache_on_success host ProtocolHTTP1 (t_doHTTP1 env req t)
      else
        (case (if fp_SupportHTTP3 (sn_preset snap) then sn_h3 snap else None) of
           Some h3 \<Rightarrow>
             (case raceH3H2 env req h3 t of
                (Inr (r, p), t1) \<Rightarrow> (Inr r, cacheProtocol host p t1)
              | (Inl failed, t1) \<Rightarrow> auto_fallback env req failed t1)
         | None \<Rightarrow>
             (case t_doHTTP2 env req t of
                (Inr r, t1) \<Rightarrow> (Inr r, cacheProtocol host ProtocolHTTP2 t1)
              | (Inl failed, t1) \<Rightarrow> auto_fallback env req failed t1)))"

definition doAuto :: "t_env \<Rightarrow> request \<Rightarrow> transport \<Rightarrow> t_response outcome" where
  "doAuto env req t =
     (case map_of (tr_protocolSupport t) (transport_extractHost (te_url env) (rq_URL req)) of
        Some ProtocolHTTP3 \<Rightarrow> t_doHTTP3 env req t
      | Some ProtocolHTTP2 \<Rightarrow> known_http2 env req t
      | Some ProtocolHTTP1 \<Rightarrow> t_doHTTP1 env req t
      | _ \<Rightarrow> auto_unknown env req t)"

definition has_proxy :: "proxy_creds option \<Rightarrow> bool" where
  "has_proxy proxy = (case proxy of None \<Rightarrow> False | Some p \<Rightarrow> px_URL p \<noteq> [] \<or> px_TCPProxy p \<noteq> [] \<or> px_UDPProxy p \<noteq> [])"

definition udp_effective :: "proxy_creds option \<Rightarrow> string" where
  "udp_effective proxy = (case proxy of None \<Rightarrow> [] | Some p \<Rightarrow> if px_UDPProxy p = [] then px_URL p else px_UDPProxy p)"

text \<open>\<^verbatim>\<open>tcpBlocked\<close>: refuse instead of dialling past a proxy that cannot carry TCP.\<close>

definition tcp_or_refuse :: "transport_snapshot \<Rightarrow> (transport \<Rightarrow> 'r outcome) \<Rightarrow> transport \<Rightarrow> 'r outcome" where
  "tcp_or_refuse snap f t = (case sn_tcpProxyError snap of Some e \<Rightarrow> (Inl e, t) | None \<Rightarrow> f t)"

text \<open>HTTP/2 through a proxy, else HTTP/1.1: on the same connection after a downgrade, else on a new one.\<close>

definition proxied_tcp :: "t_env \<Rightarrow> request \<Rightarrow> transport \<Rightarrow> t_response outcome" where
  "proxied_tcp env req t =
     (case t_doHTTP2 env req t of
        (Inr r, t1) \<Rightarrow> (Inr r, t1)
      | (Inl err, t1) \<Rightarrow>
          (case errors_As is_alpn err of Some alpnErr \<Rightarrow> doHTTP1WithTLSConn env req alpnErr t1 | None \<Rightarrow> t_doHTTP1 env req t1))"

definition no_quic_proxy :: go_error where
  "no_quic_proxy = Plain ''HTTP/3 requires a SOCKS5 or MASQUE proxy (current proxy does not support UDP)''"

definition proxied_Do :: "t_env \<Rightarrow> request \<Rightarrow> transport \<Rightarrow> t_response outcome" where
  "proxied_Do env req t =
     (let snap = snapshot t; quic = SupportsQUIC (te_url env) (udp_effective (sn_proxy snap)) in
      case sn_protocol snap of
        ProtocolHTTP1 \<Rightarrow> tcp_or_refuse snap (t_doHTTP1 env req) t
      | ProtocolHTTP2 \<Rightarrow> tcp_or_refuse snap (t_doHTTP2 env req) t
      | ProtocolHTTP3 \<Rightarrow>
          (case sn_h3ProxyError snap of
             Some e \<Rightarrow> (Inl e, t)
           | None \<Rightarrow> if \<not> quic then (Inl no_quic_proxy, t) else t_doHTTP3 env req t)
      | ProtocolAuto \<Rightarrow>
          (case sn_h3ProxyError snap of
             Some e \<Rightarrow> (if sn_tcpProxyError snap \<noteq> None then (Inl e, t) else proxied_tcp env req t)
           | None \<Rightarrow>
               if quic then (if sn_tcpProxyError snap \<noteq> None then t_doHTTP3 env req t else doAuto env req t)
               else tcp_or_refuse snap (proxied_tcp env req) t))"

definition t_Do :: "t_env \<Rightarrow> request \<Rightarrow> transport \<Rightarrow> t_response outcome" where
  "t_Do env req t =
     (case ul_Parse (te_url env) (rq_URL req) of
        None \<Rightarrow> (Inl (NewRequestError ''parse_url'' [] [] [] (Some parse_failed)), t)
      | Some u \<Rightarrow>
          (let snap = snapshot t in
           if url_Scheme u = ''http'' then tcp_or_refuse snap (t_doHTTP1 env req) t
           else if has_proxy (sn_proxy snap) then proxied_Do env req t
           else
             (case sn_protocol snap of
                ProtocolHTTP1 \<Rightarrow> t_doHTTP1 env req t
              | ProtocolHTTP2 \<Rightarrow> t_doHTTP2 env req t
              | ProtocolHTTP3 \<Rightarrow> t_doHTTP3 env req t
              | ProtocolAuto \<Rightarrow> doAuto env req t)))"

section \<open>Streams\<close>

datatype stream_decoder = RawStream | GzipStream | BrotliStream | DeflateStream | ZstdStream

record stream_response =
  sp_StatusCode :: int
  sp_Headers :: headers
  sp_HeaderOrder :: "string list option"
  sp_FinalURL :: string
  sp_Protocol :: string
  sp_ContentLength :: int
  sp_Body :: body_stream
  sp_decoder :: stream_decoder

text \<open>A gzip or zstd body whose decoder cannot start is handed out raw.\<close>

definition setupStreamDecompressor :: "t_env \<Rightarrow> body_stream \<Rightarrow> string \<Rightarrow> stream_decoder" where
  "setupStreamDecompressor env body encoding =
     (let e = to_lower encoding in
      if e = ''gzip'' then (if te_streamOK env e body then GzipStream else RawStream)
      else if e = ''br'' then BrotliStream
      else if e = ''deflate'' then DeflateStream
      else if e = ''zstd'' then (if te_streamOK env e body then ZstdStream else RawStream)
      else RawStream)"

definition stream_of :: "t_env \<Rightarrow> string \<Rightarrow> request \<Rightarrow> http_reply \<Rightarrow> stream_response" where
  "stream_of env proto req y =
     \<lparr>sp_StatusCode = hy_StatusCode y, sp_Headers = buildHeadersMap (hy_Header y), sp_HeaderOrder = responseHeaderOrder (hy_Header y),
      sp_FinalURL = rq_URL req, sp_Protocol = proto, sp_ContentLength = hy_ContentLength y, sp_Body = hy_Body y,
      sp_decoder = setupStreamDecompressor env (hy_Body y) (header_Get (hy_Header y) ''Content-Encoding'')\<rparr>"

definition doStreamHTTP1 :: "t_env \<Rightarrow> request \<Rightarrow> transport \<Rightarrow> stream_response outcome" where
  "doStreamHTTP1 env req t =
     (case ul_Parse (te_url env) (rq_URL req) of
        None \<Rightarrow> (Inl (NewRequestError ''parse_url'' [] [] ''h1'' (Some parse_failed)), t)
      | Some u \<Rightarrow>
          (let host = url_Hostname u; port = url_port u in
           case build_request env ''h1'' req t of
             (Inl e, t1) \<Rightarrow> (Inl (NewRequestError ''create_request'' host port ''h1'' (Some e)), t1)
           | (Inr wr, t1) \<Rightarrow>
               (case attempt env WayH1 (sn_h1 (snapshot t)) wr t1 of
                  (XFail e sent, t2) \<Rightarrow> (Inl (wrap ''stream_roundtrip'' host port ''h1'' e), t2)
                | (XReply y, t2) \<Rightarrow> (Inr (stream_of env ''h1'' req y), t2))))"

definition doStreamHTTP2 :: "t_env \<Rightarrow> request \<Rightarrow> transport \<Rightarrow> stream_response outcome" where
  "doStreamHTTP2 env req t =
     (case ul_Parse (te_url env) (rq_URL req) of
        None \<Rightarrow> (Inl (NewRequestError ''parse_url'' [] [] ''h2'' (Some parse_failed)), t)
      | Some u \<Rightarrow>
          if url_Scheme u \<noteq> ''https'' then (Inl (NewProtocolError [] [] ''h2'' (Some scheme_error)), t)
          else
            (let host = url_Hostname u; port = url_port u in
             case build_request env ''h2'' req t of
               (Inl e, t1) \<Rightarrow> (Inl (NewRequestError ''create_request'' host port ''h2'' (Some e)), t1)
             | (Inr wr, t1) \<Rightarrow>
                 (case attempt env WayH2 (sn_h2 (snapshot t)) wr t1 of
                    (XFail e sent, t2) \<Rightarrow> (Inl (wrap ''roundtrip'' host port ''h2'' e), t2)
                  | (XReply y, t2) \<Rightarrow> (Inr (stream_of env ''h2'' req y), t2))))"

definition doStreamHTTP3 :: "t_env \<Rightarrow> request \<Rightarrow> transport \<Rightarrow> stream_response outcome" where
  "doStreamHTTP3 env req t =
     (case ul_Parse (te_url env) (rq_URL req) of
        None \<Rightarrow> (Inl (NewRequestError ''parse_url'' [] [] ''h3'' (Some parse_failed)), t)
      | Some u \<Rightarrow>
          if url_Scheme u \<noteq> ''https'' then (Inl (NewProtocolError [] [] ''h3'' (Some scheme_error)), t)
          else
            (let host = url_Hostname u; port = url_port u in
             case sn_h3 (snapshot t) of
               None \<Rightarrow> (Inl (errHTTP3Disabled host port), t)
             | Some h3 \<Rightarrow>
                 (case build_request env ''h3'' req t of
                    (Inl e, t1) \<Rightarrow> (Inl (NewRequestError ''create_request'' host port ''h3'' (Some e)), t1)
                  | (Inr wr, t1) \<Rightarrow>
                      (case attempt env WayH3 h3 wr t1 of
                         (XFail e gotConn, t2) \<Rightarrow> (Inl (wrap ''roundtrip'' host port ''h3'' (the (h3NotSent (Some e) gotConn))), t2)
                       | (XReply y, t2) \<Rightarrow> (Inr (stream_of env ''h3'' req y), t2)))))"

definition doStreamHTTP2OrHTTP1 :: "t_env \<Rightarrow> request \<Rightarrow> transport \<Rightarrow> stream_response outcome" where
  "doStreamHTTP2OrHTTP1 env req t =
     (case doStreamHTTP2 env req t of
        (Inr r, t1) \<Rightarrow> (Inr r, t1)
      | (Inl err, t1) \<Rightarrow>
          (case errors_As is_alpn err of
             Some alpnErr \<Rightarrow> doStreamHTTP1 env req (close_conn (fst (alpn_conn alpnErr)) t1)
           | None \<Rightarrow> (Inl err, t1)))"

text \<open>The end of \<^verbatim>\<open>doStreamAuto\<close>: HTTP/2 or HTTP/1.1, remembered for the host.\<close>

definition stream_tcp :: "t_env \<Rightarrow> request \<Rightarrow> transport \<Rightarrow> stream_response outcome" where
  "stream_tcp env req t =
     (case doStreamHTTP2OrHTTP1 env req t of
        (Inl e, t1) \<Rightarrow> (Inl e, t1)
      | (Inr r, t1) \<Rightarrow>
          (Inr r, cacheProtocol (transport_extractHost (te_url env) (rq_URL req)) (if sp_Protocol r = ''h1'' then ProtocolHTTP1 else ProtocolHTTP2) t1))"

definition stream_race :: "t_env \<Rightarrow> request \<Rightarrow> sub_transport \<Rightarrow> transport \<Rightarrow> stream_response outcome" where
  "stream_race env req h3 t =
     (let host = transport_extractHost (te_url env) (rq_URL req);
          port = (case ul_Parse (te_url env) (rq_URL req) of
                    Some u \<Rightarrow> if url_Port u \<noteq> [] then url_Port u else ''443'' | None \<Rightarrow> ''443'')
      in case raceConnectProtocol env host port h3 t of
           (DecErr e, t1) \<Rightarrow> (Inl e, t1)
         | (DecALPN e, t1) \<Rightarrow> cache_on_success host ProtocolHTTP1 (doStreamHTTP1 env req (close_conn (fst (alpn_conn e)) t1))
         | (DecProtocol p, t1) \<Rightarrow>
             if p = ProtocolHTTP3 then
               (case doStreamHTTP3 env req t1 of
                  (Inr r, t2) \<Rightarrow> (Inr r, cacheProtocol host ProtocolHTTP3 t2)
                | (Inl err, t2) \<Rightarrow> if \<not> canResendOnAnotherProtocol req err then (Inl err, t2) else stream_tcp env req t2)
             else stream_tcp env req t1)"

definition doStreamAuto :: "t_env \<Rightarrow> request \<Rightarrow> transport \<Rightarrow> stream_response outcome" where
  "doStreamAuto env req t =
     (let snap = snapshot t;
          unknown = (case (if fp_SupportHTTP3 (sn_preset snap) then sn_h3 snap else None) of
                       Some h3 \<Rightarrow> stream_race env req h3 t | None \<Rightarrow> stream_tcp env req t)
      in case map_of (tr_protocolSupport t) (transport_extractHost (te_url env) (rq_URL req)) of
           Some ProtocolHTTP3 \<Rightarrow>
             (case doStreamHTTP3 env req t of
                (Inr r, t1) \<Rightarrow> (Inr r, t1)
              | (Inl err, t1) \<Rightarrow> if \<not> canResendOnAnotherProtocol req err then (Inl err, t1) else doStreamHTTP2OrHTTP1 env req t1)
         | Some ProtocolHTTP1 \<Rightarrow> doStreamHTTP1 env req t
         | Some ProtocolHTTP2 \<Rightarrow> doStreamHTTP2OrHTTP1 env req t
         | _ \<Rightarrow> unknown)"

definition DoStream :: "t_env \<Rightarrow> request \<Rightarrow> transport \<Rightarrow> stream_response outcome" where
  "DoStream env req t =
     (case ul_Parse (te_url env) (rq_URL req) of
        None \<Rightarrow> (Inl (NewRequestError ''parse_url'' [] [] [] (Some parse_failed)), t)
      | Some u \<Rightarrow>
          (let snap = snapshot t in
           if url_Scheme u = ''http'' then tcp_or_refuse snap (doStreamHTTP1 env req) t
           else if has_proxy (sn_proxy snap) then
             (if SupportsQUIC (te_url env) (udp_effective (sn_proxy snap))
              then (if sn_tcpProxyError snap \<noteq> None then doStreamHTTP3 env req t else doStreamAuto env req t)
              else tcp_or_refuse snap (doStreamHTTP2 env req) t)
           else
             (case sn_protocol snap of
                ProtocolHTTP1 \<Rightarrow> doStreamHTTP1 env req t
              | ProtocolHTTP2 \<Rightarrow> doStreamHTTP2 env req t
              | ProtocolHTTP3 \<Rightarrow> doStreamHTTP3 env req t
              | ProtocolAuto \<Rightarrow> doStreamAuto env req t)))"

section \<open>Frame\<close>

text \<open>How a transport reaches the network and whom it believes.\<close>

type_synonym route = "proxy_creds option \<times> bool \<times> tls_verify option"

definition route :: "sub_transport \<Rightarrow> route" where
  "route s = (st_proxy s, st_insecureSkipVerify s, st_tlsVerify s)"

fun routes_of :: "wire_event \<Rightarrow> route set" where
  "routes_of (EvProbe a b) = {route a, route b}"
| "routes_of (EvTry w s wr b) = {route s}"

definition same_core :: "transport \<Rightarrow> transport \<Rightarrow> bool" where
  "same_core t t' \<longleftrightarrow>
     tr_h1 t' = tr_h1 t \<and> tr_h2 t' = tr_h2 t \<and> map_option route (tr_h3 t') = map_option route (tr_h3 t) \<and> tr_proxy t' = tr_proxy t \<and>
     tr_preset t' = tr_preset t \<and> tr_config t' = tr_config t \<and> tr_protocol t' = tr_protocol t \<and> tr_disableH3 t' = tr_disableH3 t \<and>
     tr_h3ProxyError t' = tr_h3ProxyError t \<and> tr_tcpProxyError t' = tr_tcpProxyError t \<and>
     tr_insecureSkipVerify t' = tr_insecureSkipVerify t \<and> tr_tlsVerify t' = tr_tlsVerify t"

definition run_by :: "route set \<Rightarrow> transport \<Rightarrow> transport \<Rightarrow> bool" where
  "run_by A t t' \<longleftrightarrow> same_core t t' \<and> (\<exists>evs. tr_log t' = tr_log t @ evs \<and> (\<forall>ev \<in> set evs. routes_of ev \<subseteq> A))"

definition h3_routes :: "transport \<Rightarrow> route set" where
  "h3_routes t = set_option (map_option route (if tr_disableH3 t \<and> tr_protocol t \<noteq> ProtocolHTTP3 then None else tr_h3 t))"

definition tcp_routes :: "transport \<Rightarrow> route set" where
  "tcp_routes t = {route (tr_h1 t), route (tr_h2 t)}"

lemma snapshot_simps [simp]:
  "sn_h1 (snapshot t) = tr_h1 t" "sn_h2 (snapshot t) = tr_h2 t" "sn_proxy (snapshot t) = tr_proxy t"
  "sn_preset (snapshot t) = tr_preset t" "sn_protocol (snapshot t) = tr_protocol t"
  "sn_h3ProxyError (snapshot t) = tr_h3ProxyError t" "sn_tcpProxyError (snapshot t) = tr_tcpProxyError t"
  by (simp_all add: snapshot_def)

lemma snapshot_h3: "sn_h3 (snapshot t) = Some h \<Longrightarrow> route h \<in> h3_routes t"
  by (auto simp: snapshot_def h3_routes_def split: if_splits)

lemma run_refl [simp]: "run_by A t t"
  by (simp add: run_by_def same_core_def)

lemma run_trans: "run_by A t t1 \<Longrightarrow> run_by B t1 t2 \<Longrightarrow> run_by (A \<union> B) t t2"
proof -
  assume a: "run_by A t t1" "run_by B t1 t2"
  then obtain e1 e2 where e: "tr_log t1 = tr_log t @ e1" "\<forall>ev \<in> set e1. routes_of ev \<subseteq> A"
      "tr_log t2 = tr_log t1 @ e2" "\<forall>ev \<in> set e2. routes_of ev \<subseteq> B"
    unfolding run_by_def by blast
  have "same_core t t2" using a unfolding run_by_def same_core_def by simp
  moreover have "tr_log t2 = tr_log t @ (e1 @ e2)" "\<forall>ev \<in> set (e1 @ e2). routes_of ev \<subseteq> A \<union> B" using e by auto
  ultimately show ?thesis unfolding run_by_def by blast
qed

lemma run_mono: "run_by A t t' \<Longrightarrow> A \<subseteq> B \<Longrightarrow> run_by B t t'"
  unfolding run_by_def by blast

lemma run_trans': "run_by A t t1 \<Longrightarrow> run_by A t1 t2 \<Longrightarrow> run_by A t t2"
  using run_trans [of A t t1 A t2] by simp

lemma run_routes: "run_by A t t' \<Longrightarrow> tcp_routes t' = tcp_routes t \<and> h3_routes t' = h3_routes t"
  by (auto simp: run_by_def same_core_def tcp_routes_def h3_routes_def)

lemma run_quiet:
  "run_by A t t' \<Longrightarrow> run_by A t (cacheProtocol host p t')"
  "run_by A t t' \<Longrightarrow> run_by A t (close_conn c t')"
  by (auto simp: run_by_def same_core_def cacheProtocol_def close_conn_def)

lemma build_run: "build_request env proto req t = (r, t1) \<Longrightarrow> run_by {} t t1"
  by (auto simp: build_request_def run_by_def same_core_def Let_def split: option.splits prod.splits)

lemma attempt_run: "attempt env w s wr t = (x, t1) \<Longrightarrow> run_by {route s} t t1"
  by (auto simp: attempt_def run_by_def same_core_def Let_def)

lemma attempt_run': "attempt env w s wr t1 = (x, t2) \<Longrightarrow> run_by {} t t1 \<Longrightarrow> run_by {route s} t t2"
  using run_trans [of "{}" t t1 "{route s}" t2] attempt_run by simp

lemma doHTTP1_run: "run_by (tcp_routes t) t (snd (t_doHTTP1 env req t))"
  by (auto simp: t_doHTTP1_def tcp_routes_def Let_def split: option.split prod.split sum.split t_exchange.split
      dest!: build_run dest: attempt_run' intro: run_mono)

lemma doHTTP1WithTLSConn_run: "run_by (tcp_routes t) t (snd (doHTTP1WithTLSConn env req e t))"
  by (auto simp: doHTTP1WithTLSConn_def tcp_routes_def Let_def split: option.split prod.split sum.split t_exchange.split
      dest!: build_run dest: attempt_run' intro: run_mono run_quiet)

lemma doHTTP2_run: "run_by (tcp_routes t) t (snd (t_doHTTP2 env req t))"
  by (auto simp: t_doHTTP2_def tcp_routes_def Let_def split: option.split prod.split sum.split t_exchange.split
      dest!: build_run dest: attempt_run' intro: run_mono)

lemma doStreamHTTP1_run: "run_by (tcp_routes t) t (snd (doStreamHTTP1 env req t))"
  by (auto simp: doStreamHTTP1_def tcp_routes_def Let_def split: option.split prod.split sum.split t_exchange.split
      dest!: build_run dest: attempt_run' intro: run_mono)

lemma doStreamHTTP2_run: "run_by (tcp_routes t) t (snd (doStreamHTTP2 env req t))"
  by (auto simp: doStreamHTTP2_def tcp_routes_def Let_def split: option.split prod.split sum.split t_exchange.split
      dest!: build_run dest: attempt_run' intro: run_mono)

lemma doStreamHTTP3_run: "run_by (h3_routes t) t (snd (doStreamHTTP3 env req t))"
  by (auto simp: doStreamHTTP3_def Let_def split: option.split prod.split sum.split t_exchange.split
      dest!: build_run snapshot_h3 dest: attempt_run' intro: run_mono)

lemma route_simps [simp]: "route (refresh_sub s) = route s" "route (s\<lparr>st_ipv4First := b\<rparr>) = route s"
  by (simp_all add: route_def refresh_sub_def)

lemma routes_refreshed [simp]: "map_option route (map_option refresh_sub x) = map_option route x"
  by (cases x) simp_all

lemma retry_run: "h3_retry env h3 wr t = (x, t1) \<Longrightarrow> run_by {route h3} t t1"
  by (auto simp: h3_retry_def attempt_def run_by_def same_core_def Let_def simp del: option.map_comp)

lemma roundTripHTTP3_run: "roundTripHTTP3 env h3 wr req t = (x, t1) \<Longrightarrow> run_by {route h3} t t1"
  by (auto simp: roundTripHTTP3_def Let_def split: prod.splits option.splits if_splits t_exchange.splits
      dest!: attempt_run retry_run intro: run_trans')

lemma doHTTP3_run: "run_by (h3_routes t) t (snd (t_doHTTP3 env req t))"
proof -
  have "run_by (h3_routes t) t t2"
    if "run_by {} t t1" "roundTripHTTP3 env h3 wr req t1 = (x, t2)" "sn_h3 (snapshot t) = Some h3" for t1 t2 h3 wr x
    using run_trans [OF that(1) roundTripHTTP3_run [OF that(2)]] snapshot_h3 [OF that(3)] by (auto intro: run_mono)
  then show ?thesis
    by (auto simp: t_doHTTP3_def Let_def split: option.split prod.split sum.split t_exchange.split dest!: build_run intro: run_mono)
qed

text \<open>Two calls in a row.\<close>

lemma run_then:
  assumes "run_by A t t1" and "run_by (B t1) t1 t2" and "A \<subseteq> C" and "B t1 \<subseteq> C"
  shows "run_by C t t2"
  using run_trans [OF assms(1,2)] assms(3,4) by (auto intro: run_mono)

abbreviation all_routes :: "transport \<Rightarrow> route set" where
  "all_routes t \<equiv> tcp_routes t \<union> h3_routes t"

lemma raceConnect_run:
  "raceConnectProtocol env host port h3 t = (d, t1) \<Longrightarrow> sn_h3 (snapshot t) = Some h3 \<Longrightarrow> run_by (all_routes t) t t1"
  using snapshot_h3 [of t h3]
  by (auto simp: raceConnectProtocol_def raceTwoProbes_def run_by_def same_core_def Let_def tcp_routes_def split: prod.splits)

lemma next_tcp:
  assumes "run_by A t t1" and "tcp_routes t \<subseteq> A"
  shows "run_by A t (snd (t_doHTTP1 env req t1))" "run_by A t (snd (doHTTP1WithTLSConn env req e t1))" "run_by A t (snd (t_doHTTP2 env req t1))"
    "run_by A t (snd (doStreamHTTP1 env req t1))" "run_by A t (snd (doStreamHTTP2 env req t1))"
proof -
  have "run_by A t t2" if "run_by (tcp_routes t1) t1 t2" for t2
    using run_trans [OF assms(1) that] run_routes [OF assms(1)] assms(2) by (auto intro: run_mono)
  then show "run_by A t (snd (t_doHTTP1 env req t1))" "run_by A t (snd (doHTTP1WithTLSConn env req e t1))"
    "run_by A t (snd (t_doHTTP2 env req t1))" "run_by A t (snd (doStreamHTTP1 env req t1))" "run_by A t (snd (doStreamHTTP2 env req t1))"
    using doHTTP1_run doHTTP1WithTLSConn_run doHTTP2_run doStreamHTTP1_run doStreamHTTP2_run by blast+
qed

lemma next_h3:
  assumes "run_by A t t1" and "h3_routes t \<subseteq> A"
  shows "run_by A t (snd (t_doHTTP3 env req t1))" "run_by A t (snd (doStreamHTTP3 env req t1))"
proof -
  have "run_by A t t2" if "run_by (h3_routes t1) t1 t2" for t2
    using run_trans [OF assms(1) that] run_routes [OF assms(1)] assms(2) by (auto intro: run_mono)
  then show "run_by A t (snd (t_doHTTP3 env req t1))" "run_by A t (snd (doStreamHTTP3 env req t1))"
    using doHTTP3_run doStreamHTTP3_run by blast+
qed

lemma cache_run: "run_by A t (snd p) \<Longrightarrow> run_by A t (snd (cache_on_success host proto p))"
  by (auto simp: cache_on_success_def run_quiet split: prod.split sum.split)

lemma proxied_tcp_run: "run_by (tcp_routes t) t (snd (proxied_tcp env req t))"
proof (cases "t_doHTTP2 env req t")
  case (Pair r t1)
  have 1: "run_by (tcp_routes t) t t1" using doHTTP2_run [of t env req] Pair by simp
  show ?thesis using 1 next_tcp [OF 1 order_refl] Pair by (auto simp: proxied_tcp_def split: sum.split option.split)
qed

lemma known_run: "run_by (tcp_routes t) t (snd (known_http2 env req t))"
proof (cases "t_doHTTP2 env req t")
  case (Pair r t1)
  have 1: "run_by (tcp_routes t) t t1" using doHTTP2_run [of t env req] Pair by simp
  show ?thesis using 1 next_tcp [OF 1 order_refl] Pair by (auto simp: known_http2_def split: sum.split option.split)
qed

lemma fallback_run: "run_by A t t1 \<Longrightarrow> tcp_routes t \<subseteq> A \<Longrightarrow> run_by A t (snd (auto_fallback env req failed t1))"
  using next_tcp [of A t t1] by (auto simp: auto_fallback_def intro!: cache_run split: option.split)

lemma raceH3H2_run:
  assumes "sn_h3 (snapshot t) = Some h3" and "raceH3H2 env req h3 t = (r, t1)"
  shows "run_by (all_routes t) t t1"
proof (cases "ul_Parse (te_url env) (rq_URL req)")
  case (Some u)
  obtain d t0 where d: "raceConnectProtocol env (url_Hostname u) (if url_Port u = [] then ''443'' else url_Port u) h3 t = (d, t0)"
    by (cases "raceConnectProtocol env (url_Hostname u) (if url_Port u = [] then ''443'' else url_Port u) h3 t")
  have 1: "run_by (all_routes t) t t0" by (rule raceConnect_run [OF d assms(1)])
  have "run_by (all_routes t) t (snd (t_doHTTP2 env req t0))" "run_by (all_routes t) t (snd (t_doHTTP3 env req t0))"
    using next_tcp(3) [OF 1] next_h3(1) [OF 1] by auto
  then show ?thesis
    using 1 assms(2) Some d
    by (cases "t_doHTTP2 env req t0"; cases "t_doHTTP3 env req t0")
      (auto simp: raceH3H2_def Let_def split: connect_decision.splits sum.splits if_splits)
qed (use assms(2) in \<open>auto simp: raceH3H2_def\<close>)

lemma unknown_run: "run_by (all_routes t) t (snd (auto_unknown env req t))"
proof -
  have h1: "run_by (all_routes t) t (snd (t_doHTTP1 env req t))" by (rule next_tcp(1)) auto
  have h2: "run_by (all_routes t) t t1" if "t_doHTTP2 env req t = (r, t1)" for r t1
    using next_tcp(3) [of "all_routes t" t t env req] that by simp
  note race = raceH3H2_run [of t]
  show ?thesis
    by (auto simp: auto_unknown_def Let_def intro!: cache_run h1 run_quiet fallback_run dest: h2 race
        split: option.split prod.split sum.split)
qed

lemma doAuto_run: "run_by (all_routes t) t (snd (doAuto env req t))"
proof -
  have "run_by (all_routes t) t (snd (t_doHTTP1 env req t))" "run_by (all_routes t) t (snd (t_doHTTP3 env req t))"
    "run_by (all_routes t) t (snd (known_http2 env req t))"
    by (auto intro: run_mono doHTTP1_run doHTTP3_run known_run)
  then show ?thesis using unknown_run by (auto simp: doAuto_def split: option.split protocol.split)
qed

lemma stream_tcp_runs:
  assumes "run_by A t t1" and "tcp_routes t \<subseteq> A"
  shows "run_by A t (snd (doStreamHTTP2OrHTTP1 env req t1))" "run_by A t (snd (stream_tcp env req t1))"
proof -
  obtain r t2 where d: "doStreamHTTP2 env req t1 = (r, t2)" by (cases "doStreamHTTP2 env req t1")
  have 2: "run_by A t t2" using next_tcp(5) [OF assms, of env req] d by simp
  show *: "run_by A t (snd (doStreamHTTP2OrHTTP1 env req t1))"
    using 2 next_tcp(4) [OF run_quiet(2) [OF 2] assms(2)] d by (auto simp: doStreamHTTP2OrHTTP1_def split: sum.split option.split)
  then show "run_by A t (snd (stream_tcp env req t1))"
    by (auto simp: stream_tcp_def intro: run_quiet split: prod.split sum.split)
qed

lemma stream_race_run: "sn_h3 (snapshot t) = Some h3 \<Longrightarrow> run_by (all_routes t) t (snd (stream_race env req h3 t))"
proof -
  assume h: "sn_h3 (snapshot t) = Some h3"
  define host port where "host = transport_extractHost (te_url env) (rq_URL req)"
    and "port = (case ul_Parse (te_url env) (rq_URL req) of Some u \<Rightarrow> if url_Port u \<noteq> [] then url_Port u else ''443'' | None \<Rightarrow> ''443'')"
  obtain d t0 where d: "raceConnectProtocol env host port h3 t = (d, t0)" by (cases "raceConnectProtocol env host port h3 t")
  have 1: "run_by (all_routes t) t t0" by (rule raceConnect_run [OF d h])
  obtain r t2 where e: "doStreamHTTP3 env req t0 = (r, t2)" by (cases "doStreamHTTP3 env req t0")
  have 2: "run_by (all_routes t) t t2" using next_h3(2) [OF 1, of env req] e by simp
  have s: "run_by (all_routes t) t (snd (stream_tcp env req t0))" "run_by (all_routes t) t (snd (stream_tcp env req t2))"
    using stream_tcp_runs(2) [OF 1] stream_tcp_runs(2) [OF 2] by auto
  have a: "run_by (all_routes t) t (snd (doStreamHTTP1 env req (close_conn c t0)))" for c
    by (rule next_tcp(4) [OF run_quiet(2) [OF 1]]) auto
  show ?thesis
    unfolding stream_race_def Let_def host_def [symmetric] port_def [symmetric] d
    using 1 2 s a e by (auto intro: cache_run run_quiet split: connect_decision.split sum.split)
qed

lemma doStreamAuto_run: "run_by (all_routes t) t (snd (doStreamAuto env req t))"
proof -
  obtain r t1 where d: "doStreamHTTP3 env req t = (r, t1)" by (cases "doStreamHTTP3 env req t")
  have 1: "run_by (all_routes t) t t1" using doStreamHTTP3_run [of t env req] d by (auto intro: run_mono)
  have h1: "run_by (all_routes t) t (snd (doStreamHTTP1 env req t))" by (auto intro: run_mono doStreamHTTP1_run)
  note tcp = stream_tcp_runs [of "all_routes t" t, OF _ Un_upper1]
  show ?thesis
    using 1 h1 tcp(1) [OF 1] tcp [OF run_refl] stream_race_run [of t] d
    by (auto simp: doStreamAuto_def Let_def split: option.split protocol.split sum.split)
qed

lemma t_Do_run: "run_by (all_routes t) t (snd (t_Do env req t))"
proof -
  have "run_by (all_routes t) t (snd (t_doHTTP1 env req t))" "run_by (all_routes t) t (snd (t_doHTTP2 env req t))"
    "run_by (all_routes t) t (snd (t_doHTTP3 env req t))" "run_by (all_routes t) t (snd (proxied_tcp env req t))"
    by (auto intro: run_mono doHTTP1_run doHTTP2_run doHTTP3_run proxied_tcp_run)
  then show ?thesis using doAuto_run
    by (auto simp: t_Do_def proxied_Do_def tcp_or_refuse_def Let_def split: option.split protocol.split)
qed

lemma DoStream_run: "run_by (all_routes t) t (snd (DoStream env req t))"
proof -
  have "run_by (all_routes t) t (snd (doStreamHTTP1 env req t))" "run_by (all_routes t) t (snd (doStreamHTTP2 env req t))"
    "run_by (all_routes t) t (snd (doStreamHTTP3 env req t))"
    by (auto intro: run_mono doStreamHTTP1_run doStreamHTTP2_run doStreamHTTP3_run)
  then show ?thesis using doStreamAuto_run
    by (auto simp: DoStream_def tcp_or_refuse_def Let_def split: option.split protocol.split)
qed

section \<open>Proxies and verification\<close>

inductive t_step :: "t_env \<Rightarrow> transport \<Rightarrow> transport \<Rightarrow> bool" for env where
  step_protocol: "t_step env t (SetProtocol p t)"
| step_disableH3: "t_step env t (SetDisableHTTP3 b t)"
| step_insecure: "t_step env t (SetInsecureSkipVerify b t)"
| step_verify: "t_step env t (SetTLSVerify v t)"
| step_ech: "t_step env t (SetDisableECH b t)"
| step_timeout: "t_step env t (SetTimeout d t)"
| step_order: "t_step env t (t_SetHeaderOrder order t)"
| step_proxy: "t_step env t (t_SetProxy env proxy t)"
| step_preset: "t_step env t (SetPreset env name t)"
| step_clear: "t_step env t (ClearProtocolCache t)"
| step_close: "t_Close t = Some t' \<Longrightarrow> t_step env t t'"
| step_refresh: "t_Refresh t = Some t' \<Longrightarrow> t_step env t t'"
| step_refresh_with: "t_RefreshWithProtocol p t = Some t' \<Longrightarrow> t_step env t t'"
| step_do: "t_step env t (snd (t_Do env req t))"
| step_stream: "t_step env t (snd (DoStream env req t))"

inductive t_reachable :: "t_env \<Rightarrow> transport \<Rightarrow> bool" for env where
  reach_new: "t_reachable env (NewTransportWithConfig env presetName proxy config)"
| reach_step: "t_reachable env t \<Longrightarrow> t_step env t t' \<Longrightarrow> t_reachable env t'"

definition settled :: "transport \<Rightarrow> proxy_creds option \<Rightarrow> route" where
  "settled t p = (p, tr_insecureSkipVerify t, tr_tlsVerify t)"

definition routed :: "t_env \<Rightarrow> transport \<Rightarrow> bool" where
  "routed env t \<longleftrightarrow>
     (let ro = deriveProxyRouting env (tr_proxy t) in
      tcp_routes t = {settled t (ro_tcpProxy ro)} \<and> tr_tcpProxyError t = ro_tcpProxyErr ro \<and>
      (\<forall>h. tr_h3 t = Some h \<longrightarrow> route h = settled t (if tr_h3ProxyError t = None then udpProxyConfig env ro else None)))"

lemma new_h3_routes:
  "new_h3 env preset config ro = (h3, err) \<Longrightarrow> h3 = Some h \<Longrightarrow>
     h = new_sub preset (if err = None then udpProxyConfig env ro else None) config"
  by (auto simp: new_h3_def direct_h3_def split: option.splits if_splits)

lemma route_new_sub [simp]: "route (new_sub preset proxy config) = (proxy, False, None)"
  by (simp add: route_def new_sub_def)

lemma route_verified: "st_insecureSkipVerify s = False \<Longrightarrow> st_tlsVerify s = None \<Longrightarrow> route (verified t s) = settled t (st_proxy s)"
  by (auto simp: route_def verified_def settled_def Let_def)

lemma routed_new: "routed env (NewTransportWithConfig env presetName proxy config)"
proof -
  let ?ro = "deriveProxyRouting env proxy" and ?p = "configured_preset env presetName config"
  obtain h3 err where h: "new_h3 env ?p config ?ro = (h3, err)" by (cases "new_h3 env ?p config ?ro")
  have n: "h3 = Some g \<Longrightarrow> route g = (if err = None then udpProxyConfig env ?ro else None, False, None)" for g
    using new_h3_routes [OF h, of g] by simp
  show ?thesis
    by (simp add: routed_def NewTransportWithConfig_def h Let_def tcp_routes_def settled_def n)
qed

lemma routed_rebuild:
  assumes "t' = rebuild env preset proxy t"
  shows "routed env (t'\<lparr>tr_proxy := proxy\<rparr>)"
proof -
  let ?ro = "deriveProxyRouting env proxy"
  obtain h3 err where h: "new_h3 env preset None ?ro = (h3, err)" by (cases "new_h3 env preset None ?ro")
  have r: "route (verified t (new_sub preset p c)) = settled t p" for p c
    by (subst route_verified) (simp_all add: new_sub_def)
  have n: "h3 = Some g \<Longrightarrow> route (verified t g) = settled t (if err = None then udpProxyConfig env ?ro else None)" for g
    using new_h3_routes [OF h, of g] r by simp
  show ?thesis
    by (cases h3) (simp_all add: assms routed_def rebuild_def h Let_def tcp_routes_def r n, simp_all add: settled_def)
qed

lemma routed_core: "run_by A t t' \<Longrightarrow> routed env t \<Longrightarrow> routed env t'"
proof -
  assume a: "run_by A t t'" and r: "routed env t"
  have c: "same_core t t'" using a by (simp add: run_by_def)
  have "\<exists>g. tr_h3 t = Some g \<and> route g = route h" if "tr_h3 t' = Some h" for h
    using c that by (cases "tr_h3 t") (auto simp: same_core_def)
  moreover have e: "tr_proxy t' = tr_proxy t" "tr_tcpProxyError t' = tr_tcpProxyError t" "tr_h3ProxyError t' = tr_h3ProxyError t"
      "settled t' = settled t" "tcp_routes t' = tcp_routes t"
    using c run_routes [OF a] by (auto simp: same_core_def settled_def)
  ultimately show ?thesis using r unfolding routed_def Let_def e by metis
qed

lemma routed_on_all:
  assumes "routed env t" and "on_all f t = Some t'" and "\<And>s. route (f s) = route s"
  shows "routed env t'"
  using assms by (auto simp: on_all_def routed_def settled_def tcp_routes_def Let_def split: option.splits)

lemma routed_settings [simp]:
  "routed env (SetProtocol p t) = routed env t" "routed env (SetDisableHTTP3 b t) = routed env t"
  "routed env (SetTimeout d t) = routed env t" "routed env (t_SetHeaderOrder order t) = routed env t"
  "routed env (ClearProtocolCache t) = routed env t"
  by (simp_all add: routed_def SetProtocol_def SetDisableHTTP3_def SetTimeout_def t_SetHeaderOrder_def ClearProtocolCache_def
      settled_def tcp_routes_def Let_def)

lemma routed_verification:
  "routed env t \<Longrightarrow> routed env (SetInsecureSkipVerify b t)" "routed env t \<Longrightarrow> routed env (SetTLSVerify v t)"
  "routed env t \<Longrightarrow> routed env (SetDisableECH b t)"
  by (auto simp: routed_def SetInsecureSkipVerify_def SetTLSVerify_def SetDisableECH_def settled_def tcp_routes_def route_def Let_def)

lemma routed_replaced: "routed env (t_SetProxy env proxy t)" "routed env (SetPreset env name t)"
proof -
  show "routed env (t_SetProxy env proxy t)" unfolding t_SetProxy_def by (rule routed_rebuild [OF refl])
  let ?r = "rebuild env (over_h2 env (tr_config t) (te_Get env name)) (tr_proxy t) t"
  have "tr_proxy ?r = tr_proxy t" by (simp add: rebuild_def Let_def split: prod.split)
  then have "?r\<lparr>tr_proxy := tr_proxy t\<rparr> = ?r" by simp
  then have "routed env ?r" using routed_rebuild [OF refl] by metis
  then show "routed env (SetPreset env name t)" by (simp add: SetPreset_def routed_def settled_def tcp_routes_def Let_def)
qed

lemma routed_step: "t_step env t t' \<Longrightarrow> routed env t \<Longrightarrow> routed env t'"
proof (induction rule: t_step.induct)
  case (step_close t t')
  then show ?case by (auto simp: t_Close_def close_sub_def route_def intro: routed_on_all)
next
  case (step_refresh t t')
  then show ?case by (auto simp: t_Refresh_def intro: routed_on_all)
next
  case (step_refresh_with p t t')
  then obtain t1 where t1: "on_all refresh_sub t = Some t1" "t' = ClearProtocolCache (SetProtocol p t1)"
    by (auto simp: t_RefreshWithProtocol_def)
  have "routed env t1" by (rule routed_on_all [OF step_refresh_with(2) t1(1)]) simp
  then show ?case by (simp add: t1(2))
qed (simp_all add: routed_verification routed_replaced routed_core [OF t_Do_run] routed_core [OF DoStream_run])

lemma routed_reachable: "t_reachable env t \<Longrightarrow> routed env t"
  by (induction rule: t_reachable.induct) (simp_all add: routed_new routed_step)

lemma tcp_proxy_present:
  "has_proxy proxy \<Longrightarrow> ro_tcpProxyErr (deriveProxyRouting env proxy) = None \<Longrightarrow> ro_tcpProxy (deriveProxyRouting env proxy) \<noteq> None"
  by (auto simp: has_proxy_def deriveProxyRouting_def Let_def split: option.splits if_splits)

lemma udp_proxy_present:
  "udp_effective proxy \<noteq> [] \<Longrightarrow> udpProxyConfig env (deriveProxyRouting env proxy) \<noteq> None"
  by (auto simp: udpProxyConfig_def udp_effective_def deriveProxyRouting_def Let_def split: option.splits)

definition proxied_routes :: "t_env \<Rightarrow> transport \<Rightarrow> route set" where
  "proxied_routes env t =
     (let ro = deriveProxyRouting env (tr_proxy t) in {settled t p | p. p \<noteq> None \<and> p \<in> {ro_tcpProxy ro, udpProxyConfig env ro}})"

lemma tcp_routes_proxied:
  "routed env t \<Longrightarrow> has_proxy (tr_proxy t) \<Longrightarrow> tr_tcpProxyError t = None \<Longrightarrow> tcp_routes t \<subseteq> proxied_routes env t"
  using tcp_proxy_present [of "tr_proxy t" env] by (auto simp: routed_def proxied_routes_def Let_def)

lemma h3_routes_proxied:
  assumes "routed env t" and "tr_h3ProxyError t = None" and "udp_effective (tr_proxy t) \<noteq> []"
  shows "h3_routes t \<subseteq> proxied_routes env t"
  using assms(1,2) udp_proxy_present [OF assms(3), of env]
  by (auto simp: routed_def proxied_routes_def h3_routes_def Let_def split: if_splits)

lemma proxied_Do_run:
  assumes r: "routed env t" and p: "has_proxy (tr_proxy t)" and q: "\<not> SupportsQUIC (te_url env) []"
  shows "run_by (proxied_routes env t) t (snd (proxied_Do env req t))"
proof -
  let ?A = "proxied_routes env t"
  have tcp: "run_by ?A t (snd (t_doHTTP1 env req t))" "run_by ?A t (snd (t_doHTTP2 env req t))" "run_by ?A t (snd (proxied_tcp env req t))"
    if "tr_tcpProxyError t = None"
    using tcp_routes_proxied [OF r p that] by (auto intro: run_mono doHTTP1_run doHTTP2_run proxied_tcp_run)
  have h3: "h3_routes t \<subseteq> ?A" if "tr_h3ProxyError t = None" "SupportsQUIC (te_url env) (udp_effective (tr_proxy t))"
    by (rule h3_routes_proxied [OF r that(1)]) (use that(2) q in auto)
  have quic: "run_by ?A t (snd (t_doHTTP3 env req t))"
    if "tr_h3ProxyError t = None" "SupportsQUIC (te_url env) (udp_effective (tr_proxy t))"
    using h3 [OF that] by (auto intro: run_mono doHTTP3_run)
  have auto: "run_by ?A t (snd (doAuto env req t))"
    if "tr_h3ProxyError t = None" "SupportsQUIC (te_url env) (udp_effective (tr_proxy t))" "tr_tcpProxyError t = None"
    using h3 [OF that(1,2)] tcp_routes_proxied [OF r p that(3)] by (auto intro: run_mono [OF doAuto_run])
  show ?thesis
    using tcp quic auto by (simp add: proxied_Do_def tcp_or_refuse_def Let_def split: option.split protocol.split)
qed

text \<open>
  Property C3. With a proxy configured, a request never goes to the network past it: for every
  transport that its setters and earlier requests can lead to, every connection that
  \<^verbatim>\<open>Do\<close> makes for a request, the probes of a race included, goes through the proxy that is
  configured for TCP or for UDP now, and is verified with the settings and the hooks that are
  installed now, however often proxy and preset were replaced.
\<close>

theorem no_direct_dial:
  assumes "t_reachable env t" and "has_proxy (tr_proxy t)" and "\<not> SupportsQUIC (te_url env) []"
    and "t_Do env req t = (r, t')"
  shows "\<exists>evs. tr_log t' = tr_log t @ evs \<and>
    (\<forall>ev \<in> set evs. \<forall>(proxy, skip, verify) \<in> routes_of ev.
       proxy \<noteq> None \<and> skip = tr_insecureSkipVerify t \<and> verify = tr_tlsVerify t \<and>
       proxy \<in> {ro_tcpProxy (deriveProxyRouting env (tr_proxy t)), udpProxyConfig env (deriveProxyRouting env (tr_proxy t))})"
proof -
  have ro: "routed env t" by (rule routed_reachable [OF assms(1)])
  have "run_by (proxied_routes env t) t (snd (t_doHTTP1 env req t))" if "tr_tcpProxyError t = None"
    using tcp_routes_proxied [OF ro assms(2) that] by (auto intro: run_mono doHTTP1_run)
  then have "run_by (proxied_routes env t) t t'"
    using proxied_Do_run [OF ro assms(2,3), of req] assms(2,4)
    by (auto simp: t_Do_def tcp_or_refuse_def Let_def split: option.splits if_splits)
  then obtain evs where "tr_log t' = tr_log t @ evs" "\<forall>ev \<in> set evs. routes_of ev \<subseteq> proxied_routes env t"
    unfolding run_by_def by blast
  then show ?thesis by (intro exI [of _ evs]) (fastforce simp: proxied_routes_def settled_def Let_def)
qed

section \<open>Sending once\<close>

fun delivered :: "wire_event \<Rightarrow> bool" where
  "delivered (EvTry w s wr sent) = sent"
| "delivered (EvProbe a b) = False"

definition deliveries :: "transport \<Rightarrow> nat" where
  "deliveries t = length (filter delivered (tr_log t))"

text \<open>An error after the request was sent does not say that it was not, and is no downgrade.\<close>

definition clean :: "go_error \<Rightarrow> bool" where
  "clean e \<longleftrightarrow> \<not> requestNotSent e \<and> errors_As is_alpn e = None"

fun clean_end :: "body_end \<Rightarrow> bool" where
  "clean_end (EndError e) = clean e"
| "clean_end _ = True"

fun clean_exchange :: "t_exchange \<Rightarrow> bool" where
  "clean_exchange (XFail e sent) = (sent \<longrightarrow> clean e)"
| "clean_exchange (XReply y) = clean_end (bs_end (hy_Body y))"

definition honest :: "t_env \<Rightarrow> bool" where
  "honest env \<longleftrightarrow>
     (\<forall>n w s wr. clean_exchange (te_exchange env n w s wr)) \<and>
     (\<forall>data enc e. decompress (te_codecs env) data enc = Inl e \<longrightarrow> clean e)"

text \<open>No HTTP/3 attempt stalls.\<close>

definition no_stall :: "t_env \<Rightarrow> bool" where
  "no_stall env \<longleftrightarrow> (\<forall>n. \<not> te_late env n) \<and> (\<forall>n s wr e sent. te_exchange env n WayH3 s wr = XFail e sent \<longrightarrow> \<not> isH3Stall e)"

lemma new_request_error [simp]:
  "requestNotSent (NewRequestError op host port proto (Some e)) = requestNotSent e"
  "errors_As is_alpn (NewRequestError op host port proto (Some e)) = errors_As is_alpn e"
  by (simp_all add: NewRequestError_def requestNotSent_def)

lemma clean_request_error: "clean e \<Longrightarrow> clean (NewRequestError op host port proto (Some e))"
  by (simp add: clean_def)

lemma clean_plain [simp]: "clean (Plain s)"
  by (simp add: clean_def requestNotSent_def errors_As.simps [of _ "Plain s"])

lemma wrap_keeps [simp]:
  "requestNotSent (wrap op host port proto e) = requestNotSent e" "errors_As is_alpn (wrap op host port proto e) = errors_As is_alpn e"
proof -
  consider "wrap op host port proto e = e" | cat r where "wrap op host port proto e = TransportError op host port proto (Some e) cat r"
    by (cases "errors_As is_transport_error e") (auto simp: wrap_def WrapError_def Let_def)
  then show "requestNotSent (wrap op host port proto e) = requestNotSent e" "errors_As is_alpn (wrap op host port proto e) = errors_As is_alpn e"
    by (cases; simp add: requestNotSent_def)+
qed

lemma not_sent_mark [simp]: "requestNotSent (RequestNotSent e)" "errors_As is_alpn (RequestNotSent e) = errors_As is_alpn e"
  by (simp_all add: requestNotSent_def)

text \<open>An attempt that sends the request at most once, and says so if it may be sent again.\<close>

definition once :: "transport \<Rightarrow> 'r outcome \<Rightarrow> bool" where
  "once t = (\<lambda>(r, t'). deliveries t' \<le> Suc (deliveries t) \<and>
     (case r of Inr x \<Rightarrow> True | Inl e \<Rightarrow> \<not> clean e \<longrightarrow> deliveries t' = deliveries t))"

lemma build_deliveries: "build_request env proto req t = (r, t1) \<Longrightarrow> deliveries t1 = deliveries t"
  by (auto simp: build_request_def deliveries_def Let_def split: option.splits prod.splits)

lemma attempt_deliveries:
  "attempt env w s wr t = (x, t1) \<Longrightarrow> deliveries t1 = deliveries t + (if was_sent x then 1 else 0)"
  by (auto simp: attempt_def deliveries_def Let_def)

lemma attempt_clean: "honest env \<Longrightarrow> attempt env w s wr t = (x, t1) \<Longrightarrow> clean_exchange x"
  by (auto simp: attempt_def honest_def Let_def)

lemma read_clean: "clean_end (bs_end b) \<Longrightarrow> readBodyOptimized b n = Inl e \<Longrightarrow> clean e"
  by (auto simp: readBodyOptimized_def Let_def split: if_splits body_end.splits)

lemma finish_clean:
  assumes "honest env" and "clean_exchange (XReply y)" and "read_response env host port proto u y = Inl e"
  shows "clean e"
proof (cases "readBodyOptimized (hy_Body y) (hy_ContentLength y)")
  case (Inl e')
  then have "clean e'" using assms(2) by (intro read_clean) auto
  then show ?thesis using assms(3) Inl by (auto simp: read_response_def intro: clean_request_error)
next
  case (Inr body)
  have c: "decompress (te_codecs env) data enc = Inl e' \<Longrightarrow> clean e'" for data enc e' using assms(1) by (simp add: honest_def)
  show ?thesis
    using assms(3) Inr by (auto simp: read_response_def Let_def split: if_splits sum.splits dest!: c intro: clean_request_error)
qed

lemma once_finish:
  assumes "honest env" and "clean_exchange (XReply y)" and "deliveries t' = Suc (deliveries t)"
  shows "once t (read_response env host port proto u y, t')"
  using finish_clean [OF assms(1,2)] assms(3) by (auto simp: once_def split: sum.split)

lemma doHTTP1_sends: "deliveries (snd (t_doHTTP1 env req t)) \<le> Suc (deliveries t)"
  by (auto simp: t_doHTTP1_def Let_def dest!: build_deliveries attempt_deliveries split: option.split prod.split sum.split t_exchange.split)

lemma doHTTP1WithTLSConn_sends: "deliveries (snd (doHTTP1WithTLSConn env req e t)) \<le> Suc (deliveries t)"
  by (auto simp: doHTTP1WithTLSConn_def close_conn_def deliveries_def [of "tr_closedConns_update _ _"] Let_def
      dest!: build_deliveries attempt_deliveries split: option.split prod.split sum.split t_exchange.split)
    (auto simp: deliveries_def)

lemma doHTTP2_once:
  assumes h: "honest env"
  shows "once t (t_doHTTP2 env req t)"
proof -
  have a: "once t (case x of XFail e sent \<Rightarrow> (Inl (wrap ''roundtrip'' host port ''h2'' (if \<not> sent then RequestNotSent e else e)), t2)
        | XReply y \<Rightarrow> (read_response env host port ''h2'' u y, t2))"
    if "build_request env ''h2'' req t = (Inr wr, t1)" "attempt env WayH2 (tr_h2 t) wr t1 = (x, t2)" for wr t1 x t2 host port u
  proof (cases x)
    case (XFail e sent)
    then show ?thesis
      using build_deliveries [OF that(1)] attempt_deliveries [OF that(2)] attempt_clean [OF h that(2)] by (auto simp: once_def clean_def)
  next
    case (XReply y)
    then show ?thesis
      using build_deliveries [OF that(1)] attempt_deliveries [OF that(2)] attempt_clean [OF h that(2)] by (auto intro: once_finish [OF h])
  qed
  show ?thesis
    by (auto simp: t_doHTTP2_def Let_def dest: build_deliveries dest!: a split: option.split prod.split sum.split)
      (auto simp: once_def dest: build_deliveries)
qed

lemma roundTripHTTP3_single:
  assumes "rq_BodyReader req \<noteq> None \<or> no_stall env"
  shows "roundTripHTTP3 env h3 wr req t = attempt env WayH3 h3 wr t"
proof (cases "rq_BodyReader req = None")
  case True
  then have n: "\<not> te_late env n" "te_exchange env n WayH3 s wr = XFail e sent \<Longrightarrow> \<not> isH3Stall e" for n s wr e sent
    using assms unfolding no_stall_def by blast+
  show ?thesis
    by (cases "te_exchange env (length (tr_log t)) WayH3 h3 wr") (auto simp: roundTripHTTP3_def attempt_def Let_def n)
qed (simp add: roundTripHTTP3_def split: prod.split)

lemma doHTTP3_once:
  assumes h: "honest env" and s: "rq_BodyReader req \<noteq> None \<or> no_stall env"
  shows "once t (t_doHTTP3 env req t)"
proof -
  have a: "once t (case x of XFail e gotConn \<Rightarrow> (Inl (wrap ''roundtrip'' host port ''h3'' (the (h3NotSent (Some e) gotConn))), t2)
        | XReply y \<Rightarrow> (read_response env host port ''h3'' u y, t2))"
    if "build_request env ''h3'' req t = (Inr wr, t1)" "roundTripHTTP3 env h3 wr req t1 = (x, t2)" for wr t1 x t2 host port u h3
  proof -
    have at: "attempt env WayH3 h3 wr t1 = (x, t2)" using that(2) roundTripHTTP3_single [OF s] by simp
    note d = build_deliveries [OF that(1)] attempt_deliveries [OF at] attempt_clean [OF h at]
    show ?thesis
    proof (cases x)
      case (XFail e sent)
      then show ?thesis using d by (auto simp: once_def clean_def h3NotSent_def markNotSent_def)
    next
      case (XReply y)
      then show ?thesis using d by (auto intro: once_finish [OF h])
    qed
  qed
  show ?thesis
    by (auto simp: t_doHTTP3_def Let_def dest: build_deliveries dest!: a split: option.split prod.split sum.split)
      (auto simp: once_def dest: build_deliveries)
qed

lemma cache_deliveries [simp]: "deliveries (cacheProtocol host p t) = deliveries t"
  by (simp add: cacheProtocol_def deliveries_def)

lemma cache_success_deliveries [simp]: "deliveries (snd (cache_on_success host p o1)) = deliveries (snd o1)"
  by (auto simp: cache_on_success_def split: prod.split sum.split)

lemma not_clean: "\<not> clean e \<longleftrightarrow> requestNotSent e \<or> errors_As is_alpn e \<noteq> None"
  by (auto simp: clean_def)

lemma no_resend:
  "rq_BodyReader req \<noteq> None \<or> \<not> idempotent_method (to_upper (rq_Method req)) \<Longrightarrow> canResendOnAnotherProtocol req e = requestNotSent e"
  by (auto simp: canResendOnAnotherProtocol_def)

lemma fallback_sends:
  assumes "once t (Inl failed, t1)" and "rq_BodyReader req \<noteq> None \<or> \<not> idempotent_method (to_upper (rq_Method req))"
  shows "deliveries (snd (auto_fallback env req failed t1)) \<le> Suc (deliveries t)"
  using assms(1) doHTTP1_sends [of env req t1] doHTTP1WithTLSConn_sends [of env req _ t1]
  by (auto simp: auto_fallback_def once_def not_clean no_resend [OF assms(2)] split: option.split)

lemma known_sends:
  assumes "honest env" and "rq_BodyReader req \<noteq> None \<or> \<not> idempotent_method (to_upper (rq_Method req))"
  shows "deliveries (snd (known_http2 env req t)) \<le> Suc (deliveries t)"
proof (cases "t_doHTTP2 env req t")
  case (Pair r t1)
  then have "once t (r, t1)" using doHTTP2_once [OF assms(1), of t req] by simp
  then show ?thesis
    using doHTTP1_sends [of env req t1] doHTTP1WithTLSConn_sends [of env req _ t1] Pair
    by (auto simp: known_http2_def once_def not_clean no_resend [OF assms(2)] split: sum.split option.split)
qed

lemma raceConnect_deliveries: "raceConnectProtocol env host port h3 t = (d, t1) \<Longrightarrow> deliveries t1 = deliveries t"
  by (auto simp: raceConnectProtocol_def deliveries_def Let_def split: prod.splits)

lemma once_shift: "deliveries t0 = deliveries t \<Longrightarrow> once t0 p = once t p"
  by (simp add: once_def split: sum.split)

lemma race_once:
  assumes h: "honest env" and s: "rq_BodyReader req \<noteq> None \<or> no_stall env" and r: "raceH3H2 env req h3 t = (r, t1)"
  shows "once t (r, t1)"
proof -
  have d: "once t (t_doHTTP2 env req t0)" "once t (t_doHTTP3 env req t0)" if "raceConnectProtocol env host port h3 t = (d, t0)" for host port d t0
    unfolding once_shift [OF raceConnect_deliveries [OF that], symmetric] by (rule doHTTP2_once [OF h], rule doHTTP3_once [OF h s])
  have p: "once t (case q of (Inl e, t2) \<Rightarrow> (Inl e, t2) | (Inr x, t2) \<Rightarrow> (Inr (x, c), t2))" if "once t q" for q :: "t_response outcome" and c :: protocol
    using that by (auto simp: once_def split: prod.split sum.split)
  show ?thesis
  proof (cases "ul_Parse (te_url env) (rq_URL req)")
    case None
    then show ?thesis using r by (auto simp: raceH3H2_def once_def)
  next
    case (Some u)
    obtain dec t0 where c: "raceConnectProtocol env (url_Hostname u) (if url_Port u = [] then ''443'' else url_Port u) h3 t = (dec, t0)"
      by (cases "raceConnectProtocol env (url_Hostname u) (if url_Port u = [] then ''443'' else url_Port u) h3 t")
    have e: "once t (Inl x, t0)" for x :: go_error using raceConnect_deliveries [OF c] by (simp add: once_def)
    show ?thesis
      using r p [OF d(1) [OF c], of ProtocolHTTP2] p [OF d(2) [OF c], of ProtocolHTTP3] e
      by (cases dec) (auto simp: raceH3H2_def Some c Let_def split: if_splits)
  qed
qed

lemma unknown_sends:
  assumes h: "honest env" and n: "rq_BodyReader req \<noteq> None \<or> \<not> idempotent_method (to_upper (rq_Method req))"
    and s: "rq_BodyReader req \<noteq> None \<or> no_stall env"
  shows "deliveries (snd (auto_unknown env req t)) \<le> Suc (deliveries t)"
proof -
  have race: "deliveries (snd (case raceH3H2 env req h3 t of (Inr (r, p), t1) \<Rightarrow> (Inr r, cacheProtocol host p t1)
      | (Inl failed, t1) \<Rightarrow> auto_fallback env req failed t1)) \<le> Suc (deliveries t)" for h3 host
  proof (cases "raceH3H2 env req h3 t")
    case (Pair r t1)
    then have "once t (r, t1)" by (rule race_once [OF h s])
    then show ?thesis using Pair fallback_sends [OF _ n] by (cases r) (auto simp: once_def)
  qed
  have tcp: "deliveries (snd (case t_doHTTP2 env req t of (Inr r, t1) \<Rightarrow> (Inr r, cacheProtocol host ProtocolHTTP2 t1)
      | (Inl failed, t1) \<Rightarrow> auto_fallback env req failed t1)) \<le> Suc (deliveries t)" for host
  proof (cases "t_doHTTP2 env req t")
    case (Pair r t1)
    then have "once t (r, t1)" using doHTTP2_once [OF h, of t req] by simp
    then show ?thesis using Pair fallback_sends [OF _ n] by (cases r) (auto simp: once_def)
  qed
  show ?thesis
    using race tcp doHTTP1_sends [of env req t] by (auto simp: auto_unknown_def Let_def split: option.split)
qed

lemma doAuto_sends:
  assumes h: "honest env" and n: "rq_BodyReader req \<noteq> None \<or> \<not> idempotent_method (to_upper (rq_Method req))"
    and s: "rq_BodyReader req \<noteq> None \<or> no_stall env"
  shows "deliveries (snd (doAuto env req t)) \<le> Suc (deliveries t)"
  using doHTTP1_sends [of env req t] doHTTP3_once [OF h s, of t] known_sends [OF h n, of t] unknown_sends [OF h n s, of t]
  by (auto simp: doAuto_def once_def split: option.split protocol.split)


section \<open>Connections of a race\<close>

fun h2_report :: "race_event \<Rightarrow> bool" where
  "h2_report H2Up = True"
| "h2_report H2Down = True"
| "h2_report (H2Downgrade negotiated conn) = True"
| "h2_report e = False"

fun downgraded :: "race_event list \<Rightarrow> nat list" where
  "downgraded [] = []"
| "downgraded (H2Downgrade n c # es) = c # downgraded es"
| "downgraded (e # es) = downgraded es"

fun handed_over :: "connect_decision \<Rightarrow> nat list" where
  "handed_over (DecALPN e) = [fst (alpn_conn e)]"
| "handed_over d = []"

lemma no_report_no_conn: "filter h2_report es = [] \<Longrightarrow> downgraded es = []"
  by (induction es rule: downgraded.induct) auto

lemma drain_all: "length (filter h2_report es) \<le> 1 \<Longrightarrow> drainLateALPN es = downgraded es"
proof (induction es rule: downgraded.induct)
  case (2 n c es)
  then show ?case by (simp add: no_report_no_conn)
qed simp_all

lemma race_select_conns:
  "race_select host port f es = (d, rest) \<Longrightarrow> length (filter h2_report es) \<le> 1 \<Longrightarrow>
     downgraded es = handed_over d @ (case d of DecALPN e \<Rightarrow> [] | _ \<Rightarrow> drainLateALPN rest)"
proof (induction host port f es rule: race_select.induct)
  case (4 host port f n c es)
  then have "downgraded es = []" by (intro no_report_no_conn) simp
  then show ?case using 4 by auto
next
  case (5 host port f es)
  then show ?case by (auto simp: drain_all split: if_splits)
next
  case (6 host port f es)
  then show ?case by (auto simp: drain_all split: if_splits)
qed (auto simp: drain_all)

lemma TLSConn_owned:
  "doHTTP1WithTLSConn env req e t = (r, t') \<Longrightarrow>
     (tr_closedConns t' = tr_closedConns t @ [fst (alpn_conn e)] \<and> tr_log t' = tr_log t) \<or>
     (tr_closedConns t' = tr_closedConns t \<and> (\<exists>s wr sent. tr_log t' = tr_log t @ [EvTry (WayTLSConn (fst (alpn_conn e))) s wr sent]))"
  by (auto simp: doHTTP1WithTLSConn_def build_request_def attempt_def close_conn_def Let_def
      split: prod.splits option.splits sum.splits t_exchange.splits)

text \<open>
  Property C24. The live connection of a downgrade has one owner: of a race whose HTTP/2 probe
  reports once, whatever the order in which the probes, the budget and the context report, the
  connection is either handed to the caller or closed, never both and never neither; and a
  request that is given one either sends on it or closes it.
\<close>

theorem race_connection_owned:
  assumes "length (filter h2_report es) \<le> 1" and "raceTwoProbes host port es = (d, drained)" and "doHTTP1WithTLSConn env req e t = (r, t')"
  shows "downgraded es = handed_over d @ drained \<and>
    ((tr_closedConns t' = tr_closedConns t @ [fst (alpn_conn e)] \<and> tr_log t' = tr_log t) \<noteq>
     (tr_closedConns t' = tr_closedConns t \<and> (\<exists>s wr sent. tr_log t' = tr_log t @ [EvTry (WayTLSConn (fst (alpn_conn e))) s wr sent])))"
proof -
  obtain d' rest where s: "race_select host port 0 es = (d', rest)" by (cases "race_select host port 0 es")
  have "downgraded es = handed_over d @ drained"
    using race_select_conns [OF s assms(1)] assms(2) s by (auto simp: raceTwoProbes_def)
  then show ?thesis using TLSConn_owned [OF assms(3)] by auto
qed

section \<open>Examples\<close>

definition t_demo_url :: "string \<Rightarrow> string \<Rightarrow> url" where
  "t_demo_url scheme host =
     \<lparr>url_Scheme = scheme, url_User = None, url_Host = host, url_Path = ''/'', url_RawPath = [], url_RawQuery = [],
      url_Fragment = [], url_RawFragment = []\<rparr>"

definition demo_urls :: url_lib where
  "demo_urls =
     \<lparr>ul_Parse = map_of [(''https://a.test/'', t_demo_url ''https'' ''a.test''),
        (''http://proxy.test:3128'', t_demo_url ''http'' ''proxy.test:3128''), (''socks5://proxy.test:1080'', t_demo_url ''socks5'' ''proxy.test:1080'')],
      ul_String = (\<lambda>u. url_Scheme u @ ''://'' @ url_Host u), ul_ResolveReference = (\<lambda>base ref. ref)\<rparr>"

definition t_demo_env :: "(nat \<Rightarrow> way \<Rightarrow> sub_transport \<Rightarrow> wire_request \<Rightarrow> t_exchange) \<Rightarrow> race_event list \<Rightarrow> t_env" where
  "t_demo_env exch race =
     \<lparr>te_url = demo_urls, te_UserPassword = (\<lambda>u p. u @ '':'' @ p), te_Get = (\<lambda>n. no_preset\<lparr>fp_SupportHTTP3 := True\<rparr>),
      te_H2Settings = (\<lambda>r. zero_settings), te_TCPFingerprint = (\<lambda>r. no_tcp\<lparr>tf_TTL := 64\<rparr>), te_NewHTTP3 = (\<lambda>p. None),
      te_NewRequest = (\<lambda>m u. None), te_exchange = exch, te_race = (\<lambda>n. race), te_left = (\<lambda>n. 30 * second), te_late = (\<lambda>n. False),
      te_ctx = (\<lambda>n. None), te_codecs = \<lparr>co_gzip = Inr, co_br = Inr, co_zstd = Inr, co_deflate = Inr\<rparr>, te_streamOK = (\<lambda>e b. True)\<rparr>"

text \<open>A server that resets every connection after it has read the request.\<close>

definition reset_env :: t_env where
  "reset_env = t_demo_env (\<lambda>n w s wr. XFail (Plain ''eof'') True) [H3Down, H2Up]"

definition proxy_to :: "string \<Rightarrow> proxy_creds option" where
  "proxy_to u = Some \<lparr>px_URL = u, px_TCPProxy = [], px_UDPProxy = [], px_Username = [], px_Password = []\<rparr>"

abbreviation demo_post :: request where
  "demo_post \<equiv> (plain_request ''POST'' ''https://a.test/'' [])\<lparr>rq_Body := [1, 2, 3], rq_ExactHeaders := [(''Accept'', ''*'')]\<rparr>"

lemmas demo_env_defs = reset_env_def t_demo_env_def demo_urls_def t_demo_url_def proxy_to_def plain_request_def

lemmas demo_new_defs = NewTransport_def NewTransportWithProxy_def NewTransportWithConfig_def deriveProxyRouting_def udpProxyConfig_def
  proxy_at_def proxyURLWithCreds_def new_h3_def direct_h3_def new_sub_def IsSOCKS5Proxy_def IsMASQUEProxy_def SupportsQUIC_def
  SetProtocol_def SetTimeout_def SetDisableECH_def snapshot_def

lemmas demo_do_defs = t_Do_def proxied_Do_def proxied_tcp_def tcp_or_refuse_def has_proxy_def udp_effective_def
  t_doHTTP1_def t_doHTTP2_def t_doHTTP3_def build_request_def attempt_def request_method_def request_body_of_def t_effectiveTimeout_def
  roundTripHTTP3_def h3_retry_def h3StallWindow_def deliveries_def errors_As.simps [of _ "Plain _"]

lemma reset_env_honest: "honest reset_env" "no_stall reset_env"
proof -
  have s: "\<not> isH3Stall (Plain ''eof'')" by code_simp
  show "honest reset_env" by (auto simp: honest_def reset_env_def t_demo_env_def decompress_def Let_def split: if_splits)
  show "no_stall reset_env" using s by (auto simp: no_stall_def reset_env_def t_demo_env_def)
qed


theorem no_direct_dial_witness:
  "(None, False, None) \<notin> (\<Union>ev \<in> set (tr_log (snd (t_Do reset_env demo_post
     (NewTransportWithProxy reset_env ''chrome'' (proxy_to ''http://proxy.test:3128''))))). routes_of ev)"
proof -
  let ?t = "NewTransportWithProxy reset_env ''chrome'' (proxy_to ''http://proxy.test:3128'')"
  obtain r t' where d: "t_Do reset_env demo_post ?t = (r, t')" by (cases "t_Do reset_env demo_post ?t")
  have re: "t_reachable reset_env ?t" unfolding NewTransportWithProxy_def by (rule reach_new)
  have p: "has_proxy (tr_proxy ?t)"
    by (simp add: NewTransportWithProxy_def NewTransportWithConfig_def has_proxy_def proxy_to_def Let_def split: prod.split)
  have q: "\<not> SupportsQUIC (te_url reset_env) []" by code_simp
  have l: "tr_log ?t = []" by (simp add: NewTransportWithProxy_def NewTransportWithConfig_def Let_def split: prod.split)
  show ?thesis using no_direct_dial [OF re p q d] l d by fastforce
qed

theorem race_connection_owned_witness:
  "downgraded [H3Up, H2Downgrade ''http/1.1'' 7] = handed_over (fst (raceTwoProbes ''a.test'' ''443'' [H3Up, H2Downgrade ''http/1.1'' 7])) @ [7]"
proof -
  obtain r t' where d: "doHTTP1WithTLSConn reset_env demo_post (Plain []) (NewTransport reset_env []) = (r, t')"
    by (cases "doHTTP1WithTLSConn reset_env demo_post (Plain []) (NewTransport reset_env [])")
  show ?thesis
    using race_connection_owned [of "[H3Up, H2Downgrade ''http/1.1'' 7]" "''a.test''" "''443''" "DecProtocol ProtocolHTTP3" "[7]", OF _ _ d]
    by (simp add: raceTwoProbes_def)
qed

subsection \<open>What the code does not promise\<close>

text \<open>
  Lemma. Through an HTTP proxy the fallback is not guarded: a POST that failed after it was
  sent over HTTP/2 is sent again over HTTP/1.1.
\<close>

theorem proxied_post_sent_twice:
  "deliveries (snd (t_Do reset_env demo_post
     (NewTransportWithProxy reset_env ''chrome'' (proxy_to ''http://proxy.test:3128'')))) = 2"
  by code_simp

text \<open>
  Lemma. A forced HTTP/3 request whose first attempt stalls is sent again whatever its method.
\<close>

theorem stalled_post_sent_twice:
  "let env = reset_env\<lparr>te_late := (\<lambda>n. n = 0)\<rparr> in
   deliveries (snd (t_Do env demo_post (SetProtocol ProtocolHTTP3 (NewTransport env ''chrome'')))) = 2"
  by (simp add: demo_env_defs demo_new_defs demo_do_defs Let_def split: prod.split)

text \<open>
  Lemma. When the HTTP/3 side of a SOCKS5 proxy could not be set up, \<^verbatim>\<open>Do\<close> falls back to TCP
  through the proxy, but a stream is raced and sent over the direct HTTP/3 transport.
\<close>

definition dials_directly :: "wire_event \<Rightarrow> bool" where
  "dials_directly ev = (case ev of EvTry w s wr sent \<Rightarrow> st_proxy s = None | EvProbe a b \<Rightarrow> st_proxy a = None \<or> st_proxy b = None)"

theorem stream_bypasses_proxy:
  "let env = (t_demo_env (\<lambda>n w s wr. XFail (Plain ''eof'') True) [H3Up])
         \<lparr>te_NewHTTP3 := (\<lambda>p. if p = None then None else Some (Plain ''no UDP''))\<rparr>;
       t = NewTransportWithProxy env ''chrome'' (proxy_to ''socks5://proxy.test:1080'')
   in \<not> list_ex dials_directly (tr_log (snd (t_Do env demo_post t))) \<and>
      map dials_directly (tr_log (snd (DoStream env demo_post t))) = [True, True]"
  by code_simp

text \<open>
  Lemma. A timeout of zero, which the documentation calls unbounded, reaches the protocol
  transports as a deadline that has passed.
\<close>

theorem zero_timeout_expires:
  "map (\<lambda>ev. case ev of EvTry w s wr sent \<Rightarrow> wr_Timeout wr | EvProbe a b \<Rightarrow> 1)
     (tr_log (snd (t_Do reset_env demo_post (SetTimeout 0 (SetProtocol ProtocolHTTP2 (NewTransport reset_env ''chrome'')))))) = [0]"
  by (simp add: demo_env_defs demo_new_defs demo_do_defs Let_def split: prod.split)

text \<open>
  Lemma. Replacing the proxy builds the HTTP/3 transport without the configuration and with ECH
  enabled again; replacing the preset forgets the custom TCP fingerprint.
\<close>

definition tcp_config :: transport_config where
  "tcp_config =
     \<lparr>tpc_ConnectTo = [], tpc_ECHConfigDomain = ''cover.test'', tpc_TLSOnly = False, tpc_QuicIdleTimeout = 0, tpc_LocalAddr = [],
      tpc_KeyLogWriter = False, tpc_EnableSpeculativeTLS = False, tpc_SessionCacheBackend = None, tpc_SessionCacheErrorCallback = None,
      tpc_CustomJA3 = [], tpc_CustomJA3Extras = None, tpc_CustomH2Settings = None, tpc_CustomPseudoOrder = [],
      tpc_CustomTCPFingerprint = Some 1\<rparr>"

theorem rebuild_forgets:
  "let t = SetDisableECH True (NewTransportWithConfig reset_env ''chrome'' None (Some tcp_config)) in
   map_option (\<lambda>h. (st_config h, st_disableECH h)) (tr_h3 t) = Some (Some tcp_config, True) \<and>
   map_option (\<lambda>h. (st_config h, st_disableECH h)) (tr_h3 (t_SetProxy reset_env None t)) = Some (None, False) \<and>
   tf_TTL (fp_TCPFingerprint (tr_preset t)) = 64 \<and> tf_TTL (fp_TCPFingerprint (tr_preset (SetPreset reset_env ''chrome'' t))) = 0"
  by code_simp

end
