(* ===== verification/Spec2Isabelle.thy ===== *)
theory Spec2Isabelle
  imports Session_Runs Session_Manager Session_Persistence Client_Cookies Client_Safety DNS_Cache TLS_Cache Socks5
    Wire_Headers Preset_Coherence Preset_Describe HTTP2_Pool Transport_Dispatch Transport_Headers
begin

text \<open>
  Verification of httpcloak, a Go HTTP client that reproduces the fingerprints of browsers.

  \<^bold>\<open>The program.\<close> A caller uses a session (\<^verbatim>\<open>session/\<close>) or the older client (\<^verbatim>\<open>client/\<close>). Both build a request
  with the headers of a preset (\<^verbatim>\<open>fingerprint/\<close>), add cookies and credentials, follow redirects, retry
  and store what comes back. The session hands each request to the transport
  (\<^verbatim>\<open>transport/transport.go\<close>), which chooses between HTTP/1.1, HTTP/2 and HTTP/3, races them, falls back
  and routes through proxies (\<^verbatim>\<open>proxy/\<close>). The HTTP/2 transport keeps a pool of connections; names are
  resolved by a cache (\<^verbatim>\<open>dns/\<close>) and TLS sessions are kept in another. A manager owns
  sessions, and sessions can be saved to a file, restored and forked.

  \<^bold>\<open>Foundations.\<close> \<^verbatim>\<open>Go_Prelude\<close> holds what the models share of Go: times and durations as integers, maps
  as association lists with distinct keys, strings as bytes, string functions, the contract of
  \<^verbatim>\<open>sort.Slice\<close>. \<^verbatim>\<open>Go_Net\<close> has addresses and \<^verbatim>\<open>net\<close>, \<^verbatim>\<open>Go_HTTP\<close> headers, \<^verbatim>\<open>Go_Encoding\<close> Base64, hexadecimal and
  percent encoding, \<^verbatim>\<open>Cookie_Rules\<close> the rules of RFC 6265 that both cookie jars are measured by.

  \<^bold>\<open>Sessions.\<close>
  \<^item> \<^verbatim>\<open>Session_Cookie_Jar\<close>: \<^verbatim>\<open>session/cookie_jar.go\<close>. The jar is a map of maps; Get refines the RFC, export
    and import keep the answers.
  \<^item> \<^verbatim>\<open>Session_Cookies\<close>: Set-Cookie parsing and URL helpers of \<^verbatim>\<open>session/session.go\<close>; which hosts a cookie
    of a response can reach.
  \<^item> \<^verbatim>\<open>Session_Redirect\<close>, \<^verbatim>\<open>Session_Requests\<close>, \<^verbatim>\<open>Session_Runs\<close>: the request loop with retries, redirects,
    cookies, conditional cache and client hints, as functions on the session record with the
    transport as a parameter. Credentials stay with their origin, bodies are sent whole, the
    number of messages is bounded.
  \<^item> \<^verbatim>\<open>Session_Lifecycle\<close>, \<^verbatim>\<open>Session_Manager\<close>, \<^verbatim>\<open>Session_Persistence\<close>: creation, closing, refresh, forks, the
    manager (\<^verbatim>\<open>session/manager.go\<close>) and saved files (\<^verbatim>\<open>session/state.go\<close>), with step relations, their
    reachable states and invariants, and the round trip through a file.

  \<^bold>\<open>The client.\<close> \<^verbatim>\<open>Client_Cookies\<close>, \<^verbatim>\<open>Client_Auth\<close>, \<^verbatim>\<open>Client_Pin\<close>, \<^verbatim>\<open>Client_Headers\<close> model \<^verbatim>\<open>client/cookie.go\<close>, \<^verbatim>\<open>cookiejar.go\<close>,
  \<^verbatim>\<open>auth.go\<close>, \<^verbatim>\<open>certpin.go\<close>, and the header, URL and content type code of \<^verbatim>\<open>client.go\<close>, \<^verbatim>\<open>helpers.go\<close> and \<^verbatim>\<open>url.go\<close>.
  \<^verbatim>\<open>Client_Requests\<close> is the loop of \<^verbatim>\<open>Client.Do\<close>; \<^verbatim>\<open>Client_Runs\<close> and \<^verbatim>\<open>Client_Safety\<close> show where credentials go, that
  bodies are whole, that pinned hosts are verified, and when the loop returns.

  \<^bold>\<open>Presets.\<close> \<^verbatim>\<open>JA3\<close> and \<^verbatim>\<open>Akamai\<close> are the parsers of the two shorthand notations, \<^verbatim>\<open>Preset_Registry\<close> names,
  suggestions and pools, \<^verbatim>\<open>Preset_Config\<close> the preset record with its getters, \<^verbatim>\<open>Preset_Table\<close> the built-in
  presets, \<^verbatim>\<open>Preset_Coherence\<close> that every one of them is well-formed, \<^verbatim>\<open>Preset_Build\<close> the building of presets
  from documents with inheritance, \<^verbatim>\<open>Preset_Describe\<close> the way back and its round trip.

  \<^bold>\<open>The transport.\<close>
  \<^item> \<^verbatim>\<open>Transport_Errors\<close>: \<^verbatim>\<open>transport/errors.go\<close>, errors as a datatype with wrapping.
  \<^item> \<^verbatim>\<open>Transport_Headers\<close>, \<^verbatim>\<open>Wire_Headers\<close>: what is put on the wire and in which order, and how responses are
    read (\<^verbatim>\<open>transport.go\<close>, \<^verbatim>\<open>cookie_crumble.go\<close>, \<^verbatim>\<open>h1_header_case.go\<close>).
  \<^item> \<^verbatim>\<open>Transport_Dispatch\<close>: construction, setters, proxy routing, the race of HTTP/3 and HTTP/2, fallback, and
    streams (\<^verbatim>\<open>transport.go\<close>, \<^verbatim>\<open>stream.go\<close>). The state has a log of the exchanges, on which it is shown
    that nothing goes past a proxy and that a request is not sent twice.
  \<^item> \<^verbatim>\<open>Transport_Dialing\<close>: retries, the staggered race of addresses and the retry without ECH (\<^verbatim>\<open>tcpip.go\<close>,
    \<^verbatim>\<open>http2_transport.go\<close>, \<^verbatim>\<open>http3_transport.go\<close>).
  \<^item> \<^verbatim>\<open>HTTP2_Pool\<close>: the pool of \<^verbatim>\<open>http2_transport.go\<close>. Connections are indices into a heap, so that one
    that left the map is still seen; no connection is lost and no body is cut off.
  \<^item> \<^verbatim>\<open>TLS_Cache\<close>, \<^verbatim>\<open>DNS_Cache\<close>, \<^verbatim>\<open>Socks5\<close>: \<^verbatim>\<open>tls_cache.go\<close> refines a least-recently-used list, \<^verbatim>\<open>dns/cache.go\<close> with the
    ECH stores, the SOCKS5 client for TCP and UDP over byte streams.

  \<^bold>\<open>Interfaces.\<close> The contracts that several parts share are locales, each interpreted on the model:
  \<^verbatim>\<open>slice_less\<close> (orders given to \<^verbatim>\<open>sort.Slice\<close>), \<^verbatim>\<open>cookie_path_matcher\<close> and \<^verbatim>\<open>cookie_domain_matcher\<close> (both jars),
  \<^verbatim>\<open>auth_scheme\<close> (basic, bearer, digest and their union), \<^verbatim>\<open>expiring_store\<close> (DNS entries, ECH entries and ECH
  marks), \<^verbatim>\<open>lru_cache\<close> (TLS sessions), \<^verbatim>\<open>name_store\<close> (the preset registry), \<^verbatim>\<open>closable\<close> (what the manager asks of a
  session).

  \<^bold>\<open>Conventions.\<close> Errors are values of a sum or option type; every early return of the source is a
  branch. The clock, random draws, the answers of servers and code outside the repository
  (the TLS, HTTP/2 and QUIC libraries, \<^verbatim>\<open>net/url\<close>, hashes, JSON) are arguments; what is needed of them
  is a named hypothesis, and each theorem with hypotheses has a witness that evaluates
  the model. Loops are structural recursions or come with a measure. Fuel is used for the loop
  of \<^verbatim>\<open>Client.Do\<close> only, which a server that keeps answering digest responses with challenges can run for
  ever; it is shown how much is enough when no digest challenge is answered. Operations run one
  after the other; where goroutines matter (in-flight lookups, the two races, retired
  connections) their events are an explicit list or separate steps.

  \<^bold>\<open>Not modelled.\<close> The HTTP/1 and HTTP/3 transports, TLS handshakes and proxy tunnels of the HTTP/2
  transport, MASQUE and \<^verbatim>\<open>pool/pool.go\<close> mostly drive objects of the forked \<^verbatim>\<open>net/http\<close>, x/net, uTLS and quic-go
  libraries, which are outside the repository. The strict preset loader works by reflection on
  Go types. The public API, the local proxy, warm-up, multipart forms and prepared requests are
  thin layers or I/O, and the C library and the language bindings are glue.
\<close>

end
